(* ===== verification/Prelude.thy ===== *)
theory Prelude
  imports Complex_Main "HOL-Library.AList" "HOL-Library.List_Lexorder"
    "HOL-Library.Product_Lexorder" "HOL-Library.Multiset"
begin

text \<open>
  What the components share: Python text, dates and instants, exceptions as values of a sum,
  Python's stable sorts, dictionaries that keep insertion order, and the generic lemmas on
  them. Collections: \<open>py_dict\<close> holds the lookup laws of dictionaries and groupings,
  \<open>py_sort\<close> the laws of the stable sorts.
\<close>

named_theorems py_dict "lookup laws of insertion-ordered dictionaries and groupings"
named_theorems py_sort "laws of Python's stable sorts"

section \<open>Text\<close>

text \<open>
  A Python \<open>str\<close> is the list of its code points, so that length, slicing, membership and the
  order of strings are Python's. Literals are written with \<open>asc\<close> (ASCII) or \<open>ru\<close> (lower-case
  Russian, one ASCII letter per Cyrillic letter in alphabetical order, other characters as
  themselves).
\<close>

type_synonym pystr = "nat list"

definition asc :: "string \<Rightarrow> pystr" where
  "asc s = map of_char s"

definition ru_table :: "(char \<times> nat) list" where
  "ru_table = zip ''abvgdejziyklmnoprstufhcqwx^Y~EUA'' [1072..<1104]"

definition ru_char :: "char \<Rightarrow> nat" where
  "ru_char c = (case map_of ru_table c of
      Some n \<Rightarrow> n
    | None \<Rightarrow> if c = CHR ''@'' then 1105 else of_char c)"

definition ru :: "string \<Rightarrow> pystr" where
  "ru s = map ru_char s"

text \<open>\<open>s or ""\<close> of an optional text.\<close>

definition opt_text :: "pystr option \<Rightarrow> pystr" where
  "opt_text s = (case s of None \<Rightarrow> [] | Some t \<Rightarrow> t)"

fun starts_with :: "'a list \<Rightarrow> 'a list \<Rightarrow> bool" where
  "starts_with [] _ = True"
| "starts_with (p # ps) [] = False"
| "starts_with (p # ps) (c # cs) = (p = c \<and> starts_with ps cs)"

text \<open>\<open>needle in text\<close> of the source is \<open>contains needle text\<close>.\<close>

fun contains :: "'a list \<Rightarrow> 'a list \<Rightarrow> bool" where
  "contains p [] = (p = [])"
| "contains p (c # cs) = (starts_with p (c # cs) \<or> contains p cs)"

lemma starts_with_append [simp]: "starts_with p (p @ s)"
  by (induction p) auto

lemma starts_with_iff: "starts_with p s \<longleftrightarrow> (\<exists>t. s = p @ t)"
  by (induction p s rule: starts_with.induct) auto

lemma contains_iff: "contains p s \<longleftrightarrow> (\<exists>u v. s = u @ p @ v)"
proof (induction s)
  case Nil
  then show ?case by simp
next
  case (Cons c s)
  have "contains p (c # s) \<longleftrightarrow> (\<exists>v. c # s = p @ v) \<or> (\<exists>u v. s = u @ p @ v)"
    using Cons.IH by (simp add: starts_with_iff)
  also have "\<dots> \<longleftrightarrow> (\<exists>u v. c # s = u @ p @ v)"
  proof
    assume "(\<exists>v. c # s = p @ v) \<or> (\<exists>u v. s = u @ p @ v)"
    then show "\<exists>u v. c # s = u @ p @ v"
      by (metis append_Cons append_Nil)
  next
    assume "\<exists>u v. c # s = u @ p @ v"
    then obtain u v where uv: "c # s = u @ p @ v" by blast
    show "(\<exists>v. c # s = p @ v) \<or> (\<exists>u v. s = u @ p @ v)"
    proof (cases u)
      case Nil
      with uv show ?thesis by auto
    next
      case (Cons d u')
      with uv have "s = u' @ p @ v" by simp
      then show ?thesis by blast
    qed
  qed
  finally show ?case .
qed

lemma contains_self [simp]: "contains s s"
  using starts_with_append [of s "[]"] by (cases s) auto

lemma contains_Nil [simp]: "contains [] s"
  by (cases s) auto

section \<open>Dates, instants, identifiers\<close>

text \<open>
  A \<open>date\<close> is its proleptic ordinal (\<open>date.toordinal()\<close>), so that \<open><\<close> is the order of dates
  and \<open>(a - b).days\<close> is the difference. An aware UTC \<open>datetime\<close> is a count of microseconds,
  its resolution. The clock (\<open>datetime.now(UTC)\<close>) is an argument \<open>now\<close> of the operations that
  read it. UUIDs are numbers.
\<close>

type_synonym date = int
type_synonym instant = int
type_synonym uuid = nat

definition seconds :: "int \<Rightarrow> int" where
  "seconds s = s * 1000000"

lemma seconds_mono [simp]: "seconds a \<le> seconds b \<longleftrightarrow> a \<le> b"
  by (simp add: seconds_def)

lemma seconds_nonneg [simp]: "0 \<le> seconds a \<longleftrightarrow> 0 \<le> a"
  by (simp add: seconds_def)

lemma seconds_pos [simp]: "0 < seconds a \<longleftrightarrow> 0 < a"
  by (simp add: seconds_def)

section \<open>Exceptions\<close>

datatype py_error =
    ValueError pystr
  | KeyError pystr
  | InvalidOperation
  | IntegrityError
  | UnsupportedSemanticsVersionError pystr
  | OpeningBalanceIntegrityError
  | InventoryRebuildBusyError uuid
  | HTTPException int pystr
  | OtherException pystr

text \<open>Sequencing of operations that may raise: the first error ends the computation.\<close>

definition sbind :: "py_error + 'a \<Rightarrow> ('a \<Rightarrow> py_error + 'b) \<Rightarrow> py_error + 'b" where
  "sbind r f = (case r of Inl e \<Rightarrow> Inl e | Inr x \<Rightarrow> f x)"

lemma sbind_simps [simp]: "sbind (Inl e) f = Inl e" "sbind (Inr x) f = f x"
  by (simp_all add: sbind_def)

lemma sbind_Inr_iff: "sbind r f = Inr y \<longleftrightarrow> (\<exists>x. r = Inr x \<and> f x = Inr y)"
  by (cases r) auto

text \<open>A loop over a list whose body may raise.\<close>

fun smap :: "('a \<Rightarrow> py_error + 'b) \<Rightarrow> 'a list \<Rightarrow> py_error + 'b list" where
  "smap f [] = Inr []"
| "smap f (x # xs) = sbind (f x) (\<lambda>y. sbind (smap f xs) (\<lambda>ys. Inr (y # ys)))"

lemma smap_Inr_length: "smap f xs = Inr ys \<Longrightarrow> length ys = length xs"
  by (induction xs arbitrary: ys) (auto simp: sbind_Inr_iff)

lemma smap_Inr_list_all2: "smap f xs = Inr ys \<Longrightarrow> list_all2 (\<lambda>x y. f x = Inr y) xs ys"
  by (induction xs arbitrary: ys) (auto simp: sbind_Inr_iff)

lemma smap_set: "smap f xs = Inr ys \<Longrightarrow> set ys = {y. \<exists>x\<in>set xs. f x = Inr y}"
  by (induction xs arbitrary: ys) (auto simp: sbind_Inr_iff)

lemma smap_total: "(\<And>x. x \<in> set xs \<Longrightarrow> f x = Inr (g x)) \<Longrightarrow> smap f xs = Inr (map g xs)"
  by (induction xs) auto

lemma smap_Inr_iff: "(\<exists>ys. smap f xs = Inr ys) \<longleftrightarrow> (\<forall>x\<in>set xs. \<exists>y. f x = Inr y)"
  by (induction xs) (auto simp: sbind_Inr_iff)

section \<open>Sorting\<close>

text \<open>
  \<open>sorted(xs, key=f)\<close> is HOL's stable \<open>sort_key\<close>; with \<open>reverse=True\<close> Python keeps the order of
  elements with equal keys, which is sorting the reversed list and reversing back.
\<close>

definition sorted_desc :: "('a \<Rightarrow> 'k::linorder) \<Rightarrow> 'a list \<Rightarrow> 'a list" where
  "sorted_desc f xs = rev (sort_key f (rev xs))"

lemma set_sorted_desc [simp, py_sort]: "set (sorted_desc f xs) = set xs"
  by (simp add: sorted_desc_def)

lemma mset_sorted_desc [simp, py_sort]: "mset (sorted_desc f xs) = mset xs"
  by (simp add: sorted_desc_def)

lemma length_sorted_desc [simp]: "length (sorted_desc f xs) = length xs"
  by (simp add: sorted_desc_def)

lemma sorted_desc_sorted [py_sort]: "sorted_wrt (\<lambda>a b. f b \<le> f a) (sorted_desc f xs)"
proof -
  have "sorted_wrt (\<lambda>a b. f a \<le> f b) (sort_key f (rev xs))"
    using sorted_sort_key [of f "rev xs"] by (simp add: sorted_map)
  then show ?thesis by (simp add: sorted_desc_def sorted_wrt_rev)
qed

lemma sort_key_sorted_wrt [py_sort]: "sorted_wrt (\<lambda>a b. f a \<le> f b) (sort_key f xs)"
  using sorted_sort_key [of f xs] by (simp add: sorted_map)

lemma sort_key_hd_le:
  assumes "sort_key f xs = y # ys" and "x \<in> set xs"
  shows "f y \<le> f x"
proof -
  have "x \<in> set (y # ys)" using assms by (metis set_sort)
  moreover have "sorted_wrt (\<lambda>a b. f a \<le> f b) (y # ys)"
    using sort_key_sorted_wrt [of f xs] assms(1) by simp
  ultimately show ?thesis by auto
qed

text \<open>\<open>max(xs, key=f)\<close> of a non-empty list: the first element with the greatest key.\<close>

fun max_by :: "('a \<Rightarrow> 'k::linorder) \<Rightarrow> 'a \<Rightarrow> 'a list \<Rightarrow> 'a" where
  "max_by f m [] = m"
| "max_by f m (x # xs) = max_by f (if f m < f x then x else m) xs"

lemma max_by_mem [py_sort]: "max_by f m xs \<in> insert m (set xs)"
  by (induction xs arbitrary: m) auto

lemma max_by_ge [py_sort]: "x \<in> insert m (set xs) \<Longrightarrow> f x \<le> f (max_by f m xs)"
proof (induction xs arbitrary: m x)
  case Nil
  then show ?case by simp
next
  case (Cons y ys)
  let ?m = "if f m < f y then y else m"
  have "f m \<le> f ?m" "f y \<le> f ?m" by (auto intro: less_imp_le)
  moreover have "f ?m \<le> f (max_by f ?m ys)" by (rule Cons.IH) simp
  moreover have "x \<in> set ys \<Longrightarrow> f x \<le> f (max_by f ?m ys)" by (rule Cons.IH) simp
  ultimately show ?case using Cons.prems by auto
qed

section \<open>Dictionaries in insertion order\<close>

text \<open>
  A dictionary whose iteration order is used is an association list with distinct keys:
  \<open>d[k] = v\<close> is \<open>AList.update k v d\<close>, which replaces in place or appends, and \<open>d.get(k)\<close> is
  \<open>map_of d k\<close>. \<open>group_by f xs\<close> is the loop \<open>for x in xs: d.setdefault(f(x), []).append(x)\<close>.
\<close>

definition dict_get :: "('k \<times> 'v) list \<Rightarrow> 'k \<Rightarrow> 'v \<Rightarrow> 'v" where
  "dict_get d k v = (case map_of d k of None \<Rightarrow> v | Some w \<Rightarrow> w)"

definition group_add :: "('a \<Rightarrow> 'k) \<Rightarrow> 'a \<Rightarrow> ('k \<times> 'a list) list \<Rightarrow> ('k \<times> 'a list) list" where
  "group_add f x d = AList.update (f x) (dict_get d (f x) [] @ [x]) d"

definition group_by :: "('a \<Rightarrow> 'k) \<Rightarrow> 'a list \<Rightarrow> ('k \<times> 'a list) list" where
  "group_by f xs = fold (group_add f) xs []"

lemma dict_get_update [simp]:
  "dict_get (AList.update k v d) j w = (if j = k then v else dict_get d j w)"
  by (simp add: dict_get_def update_conv')

lemma update_mem: "(k, v) \<in> set (AList.update a b d) \<Longrightarrow> (k, v) = (a, b) \<or> (k, v) \<in> set d"
  by (induction d) (auto split: if_splits)

lemma map_of_map_snd [py_dict]: "map_of (map (\<lambda>(k, v). (k, f v)) d) k = map_option f (map_of d k)"
  by (induction d) auto

lemma group_add_lookup:
  "map_of (group_add f x d) k = (if f x = k then Some (dict_get d k [] @ [x]) else map_of d k)"
  by (auto simp: group_add_def update_conv')

lemma group_add_get:
  "dict_get (group_add f x d) k [] = dict_get d k [] @ (if f x = k then [x] else [])"
  by (auto simp: group_add_def)

lemma filter_key_empty: "k \<notin> f ` set xs \<Longrightarrow> filter (\<lambda>x. f x = k) xs = []"
  by (auto simp: filter_empty_conv)

lemma group_fold_lookup:
  "map_of (fold (group_add f) xs d) k =
     (if k \<in> f ` set xs then Some (dict_get d k [] @ filter (\<lambda>x. f x = k) xs) else map_of d k)"
proof (induction xs arbitrary: d)
  case Nil
  then show ?case by simp
next
  case (Cons x xs)
  show ?case
    by (auto simp: Cons.IH group_add_lookup group_add_get filter_key_empty)
qed

lemma group_by_lookup [py_dict]:
  "map_of (group_by f xs) k = (if k \<in> f ` set xs then Some (filter (\<lambda>x. f x = k) xs) else None)"
  by (simp add: group_by_def group_fold_lookup dict_get_def)

lemma group_fold_distinct:
  "distinct (map fst d) \<Longrightarrow> distinct (map fst (fold (group_add f) xs d))"
  by (induction xs arbitrary: d) (simp_all add: group_add_def distinct_update)

lemma group_by_distinct [py_dict]: "distinct (map fst (group_by f xs))"
  by (simp add: group_by_def group_fold_distinct)

lemma group_by_keys [py_dict]: "fst ` set (group_by f xs) = f ` set xs"
proof -
  have "k \<in> fst ` set (group_by f xs) \<longleftrightarrow> k \<in> f ` set xs" for k
    by (metis group_by_lookup map_of_eq_None_iff option.distinct(1))
  then show ?thesis by blast
qed

lemma group_by_mem [py_dict]:
  assumes "(k, ys) \<in> set (group_by f xs)"
  shows "ys = filter (\<lambda>x. f x = k) xs" and "k \<in> f ` set xs"
proof -
  have "map_of (group_by f xs) k = Some ys"
    using assms group_by_distinct [of f xs] by (simp add: map_of_is_SomeI)
  then show "ys = filter (\<lambda>x. f x = k) xs" and "k \<in> f ` set xs"
    by (auto simp: group_by_lookup split: if_splits)
qed

lemma group_by_mem_iff [py_dict]:
  "(k, ys) \<in> set (group_by f xs) \<longleftrightarrow> k \<in> f ` set xs \<and> ys = filter (\<lambda>x. f x = k) xs"
proof
  assume "(k, ys) \<in> set (group_by f xs)"
  then show "k \<in> f ` set xs \<and> ys = filter (\<lambda>x. f x = k) xs" by (blast dest: group_by_mem)
next
  assume "k \<in> f ` set xs \<and> ys = filter (\<lambda>x. f x = k) xs"
  then have "map_of (group_by f xs) k = Some ys" by (simp add: group_by_lookup)
  then show "(k, ys) \<in> set (group_by f xs)" by (rule map_of_SomeD)
qed

lemma group_by_Nil [simp]: "group_by f [] = []"
  by (simp add: group_by_def)

lemma group_by_eq_Nil_iff [simp]: "group_by f xs = [] \<longleftrightarrow> xs = []"
  using group_by_keys [of f xs] by force

text \<open>\<open>for k in sorted(d.keys())\<close> over a grouping: the groups in the order of their keys.\<close>

lemma sorted_groups [py_dict]:
  fixes f :: "'a \<Rightarrow> 'k::linorder"
  shows "sort_key fst (group_by f xs) =
    map (\<lambda>k. (k, filter (\<lambda>x. f x = k) xs)) (sorted_list_of_set (f ` set xs))"
proof -
  let ?ds = "sort_key fst (group_by f xs)"
  have keys: "map fst ?ds = sorted_list_of_set (f ` set xs)"
  proof (rule sorted_distinct_set_unique)
    have "mset (map fst ?ds) = mset (map fst (group_by f xs))" by simp
    then show "distinct (map fst ?ds)" by (metis group_by_distinct mset_eq_imp_distinct_iff)
    show "set (map fst ?ds) = set (sorted_list_of_set (f ` set xs))" by (simp add: group_by_keys)
  qed simp_all
  have "?ds = map (\<lambda>p. (fst p, filter (\<lambda>x. f x = fst p) xs)) ?ds"
    by (rule map_idI [symmetric]) (auto simp: group_by_mem_iff)
  also have "\<dots> = map (\<lambda>k. (k, filter (\<lambda>x. f x = k) xs)) (map fst ?ds)" by (simp add: comp_def)
  finally show ?thesis by (simp only: keys)
qed

section \<open>Sums over groups\<close>

lemma sum_list_filter_partition:
  fixes w :: "'a \<Rightarrow> 'b::comm_monoid_add"
  assumes "distinct ks" and "f ` set xs \<subseteq> set ks"
  shows "(\<Sum>k\<leftarrow>ks. \<Sum>x\<leftarrow>filter (\<lambda>x. f x = k) xs. w x) = (\<Sum>x\<leftarrow>xs. w x)"
  using assms
proof (induction xs)
  case Nil
  then show ?case by simp
next
  case (Cons x xs)
  have split: "(\<Sum>y\<leftarrow>filter (\<lambda>y. f y = k) (x # xs). w y) =
      (if f x = k then w x else 0) + (\<Sum>y\<leftarrow>filter (\<lambda>y. f y = k) xs. w y)" for k
    by simp
  have single: "(\<Sum>k\<leftarrow>ks. if f x = k then w x else 0) = w x"
    using Cons.prems by (simp add: sum_list_distinct_conv_sum_set sum.delta')
  show ?case
    using Cons.IH [OF Cons.prems(1)] Cons.prems(2) single
    by (simp only: split sum_list_addf list.map sum_list.Cons) simp
qed

lemma group_by_sum:
  fixes w :: "'a \<Rightarrow> 'b::comm_monoid_add"
  shows "(\<Sum>(k, ys)\<leftarrow>group_by f xs. \<Sum>x\<leftarrow>ys. w x) = (\<Sum>x\<leftarrow>xs. w x)"
proof -
  have "(\<Sum>(k, ys)\<leftarrow>group_by f xs. \<Sum>x\<leftarrow>ys. w x) =
      (\<Sum>p\<leftarrow>group_by f xs. \<Sum>x\<leftarrow>filter (\<lambda>x. f x = fst p) xs. w x)"
    by (rule arg_cong [of _ _ sum_list], rule map_cong) (auto simp: group_by_mem_iff)
  also have "\<dots> = (\<Sum>k\<leftarrow>map fst (group_by f xs). \<Sum>x\<leftarrow>filter (\<lambda>x. f x = k) xs. w x)"
    by (simp add: comp_def)
  also have "\<dots> = (\<Sum>x\<leftarrow>xs. w x)"
    by (rule sum_list_filter_partition [OF group_by_distinct]) (simp add: group_by_keys)
  finally show ?thesis .
qed

end
