(* ===== verification/Py_Text.thy ===== *)
theory Py_Text
  imports Prelude
begin

text \<open>
  The string methods the program uses, on the alphabet of its data: ASCII and Cyrillic. Other
  alphabets keep their case (\<open>str.lower\<close> would change it), the white space of \<open>str.strip\<close> and
  \<open>str.split\<close> is the full Unicode set.
\<close>

definition lower_char :: "nat \<Rightarrow> nat" where
  "lower_char c = (if 65 \<le> c \<and> c \<le> 90 then c + 32
     else if 1040 \<le> c \<and> c \<le> 1071 then c + 32
     else if 1024 \<le> c \<and> c \<le> 1039 then c + 80 else c)"

definition lower :: "pystr \<Rightarrow> pystr" where
  "lower s = map lower_char s"

definition is_space :: "nat \<Rightarrow> bool" where
  "is_space c \<longleftrightarrow> 9 \<le> c \<and> c \<le> 13 \<or> 28 \<le> c \<and> c \<le> 32 \<or> c = 133 \<or> c = 160 \<or> c = 5760 \<or>
     8192 \<le> c \<and> c \<le> 8202 \<or> c = 8232 \<or> c = 8233 \<or> c = 8239 \<or> c = 8287 \<or> c = 12288"

definition strip :: "pystr \<Rightarrow> pystr" where
  "strip s = rev (dropWhile is_space (rev (dropWhile is_space s)))"

text \<open>\<open>str.split()\<close> without an argument, and \<open>" ".join\<close> of its words.\<close>

fun split_words :: "pystr \<Rightarrow> pystr \<Rightarrow> pystr list" where
  "split_words w [] = (if w = [] then [] else [w])"
| "split_words w (c # cs) = (if is_space c then (if w = [] then [] else [w]) @ split_words [] cs
     else split_words (w @ [c]) cs)"

fun join :: "pystr \<Rightarrow> pystr list \<Rightarrow> pystr" where
  "join sep [] = []"
| "join sep [w] = w"
| "join sep (w # v # ws) = w @ sep @ join sep (v # ws)"

definition squeeze_spaces :: "pystr \<Rightarrow> pystr" where
  "squeeze_spaces s = join [32] (split_words [] s)"

text \<open>\<open>text.replace(old, new)\<close> for a single old character.\<close>

definition replace_char :: "nat \<Rightarrow> pystr \<Rightarrow> pystr \<Rightarrow> pystr" where
  "replace_char c new s = concat (map (\<lambda>d. if d = c then new else [d]) s)"

text \<open>\<open>str(n)\<close> of an integer, and \<open>x or default\<close> for an optional text.\<close>

fun show_nat :: "nat \<Rightarrow> pystr" where
  "show_nat n = (if n < 10 then [48 + n] else show_nat (n div 10) @ [48 + n mod 10])"

definition show_int :: "int \<Rightarrow> pystr" where
  "show_int k = (if k < 0 then 45 # show_nat (nat (- k)) else show_nat (nat k))"

definition or_text :: "pystr option \<Rightarrow> pystr \<Rightarrow> pystr" where
  "or_text s d = (case s of None \<Rightarrow> d | Some t \<Rightarrow> if t = [] then d else t)"

declare show_nat.simps [simp del]

lemma lower_char_idem [simp]: "lower_char (lower_char c) = lower_char c"
  by (simp add: lower_char_def)

lemma lower_idem [simp]: "lower (lower s) = lower s"
  by (simp add: lower_def)

lemma length_lower [simp]: "length (lower s) = length s"
  by (simp add: lower_def)

lemma lower_append: "lower (s @ t) = lower s @ lower t"
  by (simp add: lower_def)

lemma lower_eq_Nil [simp]: "lower s = [] \<longleftrightarrow> s = []"
  by (simp add: lower_def)

lemma is_space_lower [simp]: "is_space (lower_char c) = is_space c"
  by (auto simp: is_space_def lower_char_def)

lemma dropWhile_space_lower: "dropWhile is_space (lower s) = lower (dropWhile is_space s)"
  by (induction s) (simp_all add: lower_def)

lemma strip_lower: "strip (lower s) = lower (strip s)"
proof -
  have rev: "rev (lower t) = lower (rev t)" for t by (simp add: lower_def rev_map)
  show ?thesis by (simp add: strip_def dropWhile_space_lower rev)
qed

lemma dropWhile_id: "(s \<noteq> [] \<Longrightarrow> \<not> P (hd s)) \<Longrightarrow> dropWhile P s = s"
  by (cases s) auto

lemma dropWhile_last:
  assumes "s \<noteq> []" and "\<not> P (last s)"
  shows "dropWhile P s \<noteq> [] \<and> last (dropWhile P s) = last s"
  using assms by (induction s) auto

lemma strip_idem [simp]: "strip (strip s) = strip s"
proof -
  define t where "t = dropWhile is_space s"
  define u where "u = dropWhile is_space (rev t)"
  have hd_t: "t \<noteq> [] \<Longrightarrow> \<not> is_space (hd t)"
    unfolding t_def by (rule hd_dropWhile)
  have hd_u: "u \<noteq> [] \<Longrightarrow> \<not> is_space (hd u)"
    unfolding u_def by (rule hd_dropWhile)
  have last_u: "u \<noteq> [] \<Longrightarrow> \<not> is_space (last u)"
  proof -
    assume u: "u \<noteq> []"
    then have t: "t \<noteq> []" by (auto simp: u_def)
    then have "\<not> is_space (last (rev t))" using hd_t by (simp add: last_rev)
    then show ?thesis
      using dropWhile_last [of "rev t" is_space] t by (simp add: u_def)
  qed
  have "dropWhile is_space (rev u) = rev u"
    by (rule dropWhile_id) (simp add: hd_rev last_u)
  moreover have "dropWhile is_space u = u"
    by (rule dropWhile_id) (rule hd_u)
  ultimately show ?thesis
    by (simp add: strip_def flip: t_def u_def)
qed

lemma strip_eq_Nil: "strip s = [] \<longleftrightarrow> (\<forall>c\<in>set s. is_space c)"
proof
  assume "strip s = []"
  then have all: "\<forall>c\<in>set (dropWhile is_space s). is_space c" by (simp add: strip_def)
  have "dropWhile is_space s = []"
  proof (rule ccontr)
    assume n: "dropWhile is_space s \<noteq> []"
    then have "is_space (hd (dropWhile is_space s))" using all hd_in_set by blast
    with hd_dropWhile [OF n] show False by simp
  qed
  then show "\<forall>c\<in>set s. is_space c" by simp
next
  assume "\<forall>c\<in>set s. is_space c"
  then have "dropWhile is_space s = []" by simp
  then show "strip s = []" by (simp only: strip_def) simp
qed

end
