(* ===== verification/Runtime_Settings.thy ===== *)
theory Runtime_Settings
  imports Prelude
begin

text \<open>
  \<open>app/core/config.py\<close>: the settings the modelled operations read, with the defaults of the
  source. \<open>settings\<close> is a module-level object in Python; here it is the first argument of the
  operations that read it.
\<close>

record settings =
  job_max_attempts :: int
  job_visibility_timeout_seconds :: int
  job_retry_base_delay_seconds :: int
  recovery_stale_running_seconds :: int
  recovery_staging_older_than_seconds :: int
  ops_queue_lag_warn_seconds :: int
  orchestrator_enabled :: bool
  orchestrator_poll_interval_seconds :: rat
  orchestrator_dispatch_batch_size :: nat
  orchestrator_max_dispatch_per_cycle :: int
  orchestrator_defer_busy_seconds :: int
  orchestrator_maintenance_every_cycles :: int
  orchestrator_runaway_rebuilds_per_hour :: int
  runtime_autonomy_enabled :: bool
  runtime_max_autonomous_actions_per_cycle :: int
  runtime_queue_overload_threshold :: int
  runtime_rebuild_backlog_warn :: int
  runtime_max_concurrent_rebuilds_global :: int
  runtime_starvation_idle_cycles :: int
  runtime_incremental_to_full_after_attempts :: int
  runtime_ai_pause_when_overloaded :: bool
  runtime_enterprise_ops_enabled :: bool
  worker_enabled :: bool
  maintenance_mode :: bool
  reliability_circuit_failure_threshold :: int
  reliability_circuit_recovery_seconds :: int
  reliability_process_stale_seconds :: int
  reliability_orchestrator_lease_ttl_seconds :: int
  reliability_tenant_quarantine_dlq_threshold :: int
  reliability_tenant_throttle_pending_jobs :: int
  reliability_tenant_throttle_duration_seconds :: int
  reliability_global_dlq_warn_threshold :: int
  reliability_rebuild_storm_per_hour :: int
  reliability_ai_runaway_per_hour :: int
  ai_enabled :: bool

definition default_settings :: settings where
  "default_settings = \<lparr>
     job_max_attempts = 3,
     job_visibility_timeout_seconds = 1800,
     job_retry_base_delay_seconds = 30,
     recovery_stale_running_seconds = 3600,
     recovery_staging_older_than_seconds = 86400,
     ops_queue_lag_warn_seconds = 1800,
     orchestrator_enabled = True,
     orchestrator_poll_interval_seconds = 5,
     orchestrator_dispatch_batch_size = 20,
     orchestrator_max_dispatch_per_cycle = 1,
     orchestrator_defer_busy_seconds = 60,
     orchestrator_maintenance_every_cycles = 12,
     orchestrator_runaway_rebuilds_per_hour = 30,
     runtime_autonomy_enabled = True,
     runtime_max_autonomous_actions_per_cycle = 3,
     runtime_queue_overload_threshold = 500,
     runtime_rebuild_backlog_warn = 50,
     runtime_max_concurrent_rebuilds_global = 32,
     runtime_starvation_idle_cycles = 60,
     runtime_incremental_to_full_after_attempts = 3,
     runtime_ai_pause_when_overloaded = True,
     runtime_enterprise_ops_enabled = True,
     worker_enabled = True,
     maintenance_mode = False,
     reliability_circuit_failure_threshold = 5,
     reliability_circuit_recovery_seconds = 60,
     reliability_process_stale_seconds = 120,
     reliability_orchestrator_lease_ttl_seconds = 30,
     reliability_tenant_quarantine_dlq_threshold = 10,
     reliability_tenant_throttle_pending_jobs = 200,
     reliability_tenant_throttle_duration_seconds = 300,
     reliability_global_dlq_warn_threshold = 50,
     reliability_rebuild_storm_per_hour = 40,
     reliability_ai_runaway_per_hour = 100,
     ai_enabled = True\<rparr>"

end
