(* ===== verification/Etl_Queue.thy ===== *)
theory Etl_Queue
  imports Py_Text Runtime_Settings
begin

text \<open>
  The ETL job queue on the table \<open>etl_jobs\<close> (\<open>app/models/job.py\<close>, \<open>app/core/queue/\<close>): the rows,
  the retry policy and every operation of \<open>PostgresQueueBackend\<close>. The table is the list of its
  rows; an operation returns the table it leaves. \<open>locked\<close> tells which rows other transactions
  hold, for \<open>FOR UPDATE SKIP LOCKED\<close>. Timestamps are exact microseconds where Python's
  \<open>timestamp()\<close> is a float of that resolution.
\<close>

section \<open>Rows and records\<close>

datatype job_status = PENDING | PROCESSING | COMPLETED | FAILED | DEAD_LETTER

record etl_job =
  j_id :: uuid
  j_user_id :: uuid
  j_report_id :: uuid
  j_job_type :: pystr
  j_status :: job_status
  j_attempt_count :: int
  j_max_attempts :: int
  j_visibility_timeout_seconds :: int
  j_claimed_at :: "instant option"
  j_processing_started_at :: "instant option"
  j_last_heartbeat_at :: "instant option"
  j_completed_at :: "instant option"
  j_idempotency_key :: pystr
  j_last_error :: "pystr option"
  j_file_path :: "pystr option"
  j_marketplace :: pystr
  j_report_type :: pystr
  j_original_filename :: pystr
  j_report_created_at :: instant
  j_file_size_bytes :: "int option"
  j_created_at :: instant

record enqueue_payload =
  p_user_id :: uuid
  p_report_id :: uuid
  p_idempotency_key :: pystr
  p_file_path :: pystr
  p_marketplace :: pystr
  p_report_type :: pystr
  p_original_filename :: pystr
  p_report_created_at :: instant
  p_job_type :: pystr
  p_max_attempts :: int
  p_visibility_timeout_seconds :: int
  p_file_size_bytes :: "int option"

record claimed_job =
  c_job_id :: uuid
  c_report_id :: uuid
  c_user_id :: uuid
  c_report_created_at :: instant
  c_marketplace :: pystr
  c_report_type :: pystr
  c_original_filename :: pystr
  c_file_path :: pystr
  c_attempt_count :: int
  c_max_attempts :: int
  c_idempotency_key :: pystr
  c_visibility_timeout_seconds :: int

record recovery_record =
  rr_job_id :: uuid
  rr_report_id :: uuid
  rr_user_id :: uuid
  rr_new_status :: job_status
  rr_last_error :: "pystr option"

section \<open>Retry policy\<close>

datatype retry_reason = LOCK_TIMEOUT | INVENTORY_REBUILD_BUSY | WORKER_SHUTDOWN
  | LEGACY_FILE_TOO_LARGE | VISIBILITY_TIMEOUT | SESSION_TRANSACTION | GENERIC

text \<open>\<open>exc\<close>: the reason carried by an \<open>EtlRetryableError\<close>, \<open>None\<close> for any other exception.\<close>

definition classify_retry_reason :: "pystr \<Rightarrow> retry_reason option \<Rightarrow> retry_reason" where
  "classify_retry_reason error_message exc = (case exc of Some r \<Rightarrow> r | None \<Rightarrow>
     (let lowered = lower error_message in
      if contains (asc ''lock timeout'') lowered \<or> contains (asc ''lock_timeout'') lowered
      then LOCK_TIMEOUT
      else if contains (asc ''inventory rebuild busy'') lowered
        \<or> contains (asc ''inventory_rebuild_busy'') lowered then INVENTORY_REBUILD_BUSY
      else if contains (asc ''worker shutdown'') lowered \<or> contains (asc ''shutdown'') lowered
      then WORKER_SHUTDOWN
      else if contains (ru ''starYy format'') lowered
        \<or> contains (ru ''konvertiruyte v '' @ asc ''.xlsx'') lowered then LEGACY_FILE_TOO_LARGE
      else if contains (asc ''visibility timeout'') lowered then VISIBILITY_TIMEOUT
      else if contains (asc ''closed transaction'') lowered then SESSION_TRANSACTION
      else GENERIC))"

text \<open>The delay in seconds, then the instant at which the job becomes claimable again.\<close>

definition etl_retry_delay :: "settings \<Rightarrow> int \<Rightarrow> int" where
  "etl_retry_delay st attempt_count =
     min (job_retry_base_delay_seconds st * 2 ^ nat (max (attempt_count - 1) 0)) 3600"

definition compute_etl_retry_eligible_at :: "settings \<Rightarrow> instant \<Rightarrow> int \<Rightarrow> instant" where
  "compute_etl_retry_eligible_at st now attempt_count = now + seconds (etl_retry_delay st attempt_count)"

lemma etl_retry_delay_bounds:
  assumes "0 < job_retry_base_delay_seconds st"
  shows "0 < etl_retry_delay st a" "etl_retry_delay st a \<le> 3600"
  using assms by (simp_all add: etl_retry_delay_def)

lemma etl_retry_delay_mono:
  assumes "0 \<le> job_retry_base_delay_seconds st" and "a \<le> b"
  shows "etl_retry_delay st a \<le> etl_retry_delay st b"
proof -
  have "nat (max (a - 1) 0) \<le> nat (max (b - 1) 0)" using assms(2) by simp
  then have "(2::int) ^ nat (max (a - 1) 0) \<le> 2 ^ nat (max (b - 1) 0)" by (rule power_increasing) simp
  then have "job_retry_base_delay_seconds st * 2 ^ nat (max (a - 1) 0) \<le>
      job_retry_base_delay_seconds st * 2 ^ nat (max (b - 1) 0)" using assms(1) by (rule mult_left_mono)
  then show ?thesis by (simp add: etl_retry_delay_def)
qed

definition is_etl_job_stale :: "etl_job \<Rightarrow> instant \<Rightarrow> bool" where
  "is_etl_job_stale job now = (case j_last_heartbeat_at job of
      Some hb \<Rightarrow> hb + seconds (j_visibility_timeout_seconds job) < now
    | None \<Rightarrow> (case j_claimed_at job of
        Some c \<Rightarrow> c + seconds (j_visibility_timeout_seconds job) < now
      | None \<Rightarrow> False))"

section \<open>Operations of the backend\<close>

definition get_job :: "uuid \<Rightarrow> etl_job list \<Rightarrow> etl_job option" where
  "get_job jid t = List.find (\<lambda>j. j_id j = jid) t"

definition update_job :: "uuid \<Rightarrow> (etl_job \<Rightarrow> etl_job) \<Rightarrow> etl_job list \<Rightarrow> etl_job list" where
  "update_job jid f t = map (\<lambda>j. if j_id j = jid then f j else j) t"

definition new_job :: "enqueue_payload \<Rightarrow> uuid \<Rightarrow> instant \<Rightarrow> etl_job" where
  "new_job payload jid now = \<lparr>
     j_id = jid, j_user_id = p_user_id payload, j_report_id = p_report_id payload,
     j_job_type = p_job_type payload, j_status = PENDING, j_attempt_count = 0,
     j_max_attempts = p_max_attempts payload,
     j_visibility_timeout_seconds = p_visibility_timeout_seconds payload,
     j_claimed_at = None, j_processing_started_at = None, j_last_heartbeat_at = None,
     j_completed_at = None, j_idempotency_key = p_idempotency_key payload, j_last_error = None,
     j_file_path = Some (p_file_path payload), j_marketplace = p_marketplace payload,
     j_report_type = p_report_type payload, j_original_filename = p_original_filename payload,
     j_report_created_at = p_report_created_at payload,
     j_file_size_bytes = p_file_size_bytes payload, j_created_at = now\<rparr>"

text \<open>The primary key and \<open>uq_etl_job_tenant_idempotency\<close>.\<close>

definition violates_unique :: "etl_job \<Rightarrow> etl_job list \<Rightarrow> bool" where
  "violates_unique job t = (\<exists>j\<in>set t. j_id j = j_id job \<or>
     j_user_id j = j_user_id job \<and> j_idempotency_key j = j_idempotency_key job)"

definition enqueue :: "enqueue_payload \<Rightarrow> uuid \<Rightarrow> instant \<Rightarrow> etl_job list \<Rightarrow> py_error + (etl_job \<times> etl_job list)" where
  "enqueue payload jid now t =
     (case filter (\<lambda>j. j_user_id j = p_user_id payload \<and>
              j_idempotency_key j = p_idempotency_key payload \<and>
              j_status j \<in> {PENDING, PROCESSING}) t of
        [] \<Rightarrow> (let job = new_job payload jid now in
            if violates_unique job t then Inl IntegrityError else Inr (job, t @ [job]))
      | [active] \<Rightarrow> Inr (active, t)
      | _ \<Rightarrow> Inl (OtherException (asc ''MultipleResultsFound'')))"

definition claimable :: "instant \<Rightarrow> etl_job \<Rightarrow> bool" where
  "claimable now j \<longleftrightarrow> j_status j = PENDING \<and> j_attempt_count j < j_max_attempts j \<and>
     j_file_path j \<noteq> None \<and>
     (case j_processing_started_at j of None \<Rightarrow> True | Some s \<Rightarrow> s \<le> now)"

text \<open>\<open>ORDER BY file_size_bytes ASC NULLS LAST, created_at ASC\<close>.\<close>

definition claim_key :: "etl_job \<Rightarrow> nat \<times> int \<times> instant" where
  "claim_key j = (case j_file_size_bytes j of
      Some n \<Rightarrow> (0, n, j_created_at j) | None \<Rightarrow> (1, 0, j_created_at j))"

definition mark_claimed :: "instant \<Rightarrow> etl_job \<Rightarrow> etl_job" where
  "mark_claimed now j = j\<lparr>j_status := PROCESSING, j_attempt_count := j_attempt_count j + 1,
     j_claimed_at := Some now, j_processing_started_at := Some now,
     j_last_heartbeat_at := Some now, j_last_error := None\<rparr>"

definition to_claimed :: "etl_job \<Rightarrow> claimed_job" where
  "to_claimed j = \<lparr>c_job_id = j_id j, c_report_id = j_report_id j, c_user_id = j_user_id j,
     c_report_created_at = j_report_created_at j, c_marketplace = j_marketplace j,
     c_report_type = j_report_type j, c_original_filename = j_original_filename j,
     c_file_path = (case j_file_path j of Some p \<Rightarrow> p | None \<Rightarrow> []),
     c_attempt_count = j_attempt_count j, c_max_attempts = j_max_attempts j,
     c_idempotency_key = j_idempotency_key j,
     c_visibility_timeout_seconds = j_visibility_timeout_seconds j\<rparr>"

definition claim :: "(uuid \<Rightarrow> bool) \<Rightarrow> instant \<Rightarrow> etl_job list \<Rightarrow> claimed_job option \<times> etl_job list" where
  "claim locked now t =
     (case sort_key claim_key (filter (\<lambda>j. claimable now j \<and> \<not> locked (j_id j)) t) of
        [] \<Rightarrow> (None, t)
      | j # _ \<Rightarrow> (Some (to_claimed (mark_claimed now j)), update_job (j_id j) (mark_claimed now) t))"

definition mark_completed :: "instant \<Rightarrow> etl_job \<Rightarrow> etl_job" where
  "mark_completed now j = j\<lparr>j_status := COMPLETED, j_completed_at := Some now,
     j_claimed_at := None, j_last_heartbeat_at := Some now\<rparr>"

definition ack :: "instant \<Rightarrow> uuid \<Rightarrow> etl_job list \<Rightarrow> etl_job list" where
  "ack now jid t = (case get_job jid t of None \<Rightarrow> t | Some _ \<Rightarrow> update_job jid (mark_completed now) t)"

definition mark_failed :: "settings \<Rightarrow> instant \<Rightarrow> pystr \<Rightarrow> int \<Rightarrow> int \<Rightarrow> bool \<Rightarrow> etl_job \<Rightarrow> etl_job" where
  "mark_failed st now error_message attempt_count max_attempts poison j =
     (let j = j\<lparr>j_last_error := Some error_message\<rparr> in
      if poison \<or> max_attempts \<le> attempt_count then
        j\<lparr>j_status := DEAD_LETTER, j_claimed_at := None, j_processing_started_at := None\<rparr>
      else if attempt_count < max_attempts then
        j\<lparr>j_status := PENDING, j_claimed_at := None,
          j_processing_started_at := Some (compute_etl_retry_eligible_at st now attempt_count)\<rparr>
      else
        j\<lparr>j_status := FAILED, j_claimed_at := None, j_processing_started_at := None\<rparr>)"

definition fail :: "settings \<Rightarrow> instant \<Rightarrow> uuid \<Rightarrow> pystr \<Rightarrow> int \<Rightarrow> int \<Rightarrow> bool \<Rightarrow> etl_job list \<Rightarrow> etl_job list" where
  "fail st now jid error_message attempt_count max_attempts poison t =
     (case get_job jid t of None \<Rightarrow> t
      | Some _ \<Rightarrow> update_job jid (mark_failed st now error_message attempt_count max_attempts poison) t)"

definition requeue :: "uuid \<Rightarrow> etl_job list \<Rightarrow> etl_job list" where
  "requeue jid t = (case get_job jid t of
      None \<Rightarrow> t
    | Some job \<Rightarrow>
        if j_status job \<notin> {FAILED, DEAD_LETTER} then t
        else if j_max_attempts job \<le> j_attempt_count job then t
        else update_job jid (\<lambda>j. j\<lparr>j_status := PENDING, j_claimed_at := None,
          j_processing_started_at := None, j_last_error := Some (asc ''Manually requeued'')\<rparr>) t)"

text \<open>The body of the loop of \<open>recover_stale\<close> for a row that is stale.\<close>

definition recover_row :: "settings \<Rightarrow> instant \<Rightarrow> etl_job \<Rightarrow> etl_job" where
  "recover_row st now j = (if j_attempt_count j < j_max_attempts j then
      j\<lparr>j_status := PENDING, j_claimed_at := None,
        j_last_error := Some (asc ''Visibility timeout expired; job requeued''),
        j_processing_started_at := Some (compute_etl_retry_eligible_at st now (j_attempt_count j))\<rparr>
    else j\<lparr>j_status := DEAD_LETTER,
        j_last_error := Some (asc ''Max attempts exceeded after visibility timeout'')\<rparr>)"

definition recoverable :: "(uuid \<Rightarrow> bool) \<Rightarrow> instant \<Rightarrow> etl_job \<Rightarrow> bool" where
  "recoverable locked now j \<longleftrightarrow> j_status j = PROCESSING \<and> j_claimed_at j \<noteq> None \<and>
     \<not> locked (j_id j) \<and> is_etl_job_stale j now"

definition recovery_record_of :: "etl_job \<Rightarrow> recovery_record" where
  "recovery_record_of j = \<lparr>rr_job_id = j_id j, rr_report_id = j_report_id j,
     rr_user_id = j_user_id j, rr_new_status = j_status j, rr_last_error = j_last_error j\<rparr>"

definition recover_stale :: "settings \<Rightarrow> (uuid \<Rightarrow> bool) \<Rightarrow> instant \<Rightarrow> etl_job list \<Rightarrow> recovery_record list \<times> etl_job list" where
  "recover_stale st locked now t =
     (map (\<lambda>j. recovery_record_of (recover_row st now j)) (filter (recoverable locked now) t),
      map (\<lambda>j. if recoverable locked now j then recover_row st now j else j) t)"

definition heartbeat :: "instant \<Rightarrow> uuid \<Rightarrow> etl_job list \<Rightarrow> etl_job list" where
  "heartbeat now jid t = (case get_job jid t of
      None \<Rightarrow> t
    | Some job \<Rightarrow> if j_status job \<noteq> PROCESSING then t
        else update_job jid (\<lambda>j. j\<lparr>j_last_heartbeat_at := Some now\<rparr>) t)"

section \<open>The invariant of the table\<close>

definition job_ok :: "etl_job \<Rightarrow> bool" where
  "job_ok j \<longleftrightarrow> (j_status j = PROCESSING \<longrightarrow> j_claimed_at j \<noteq> None \<and> j_last_heartbeat_at j \<noteq> None) \<and>
     (j_status j = PENDING \<longrightarrow> j_claimed_at j = None) \<and>
     0 \<le> j_attempt_count j \<and> (j_attempt_count j \<le> j_max_attempts j \<or> j_attempt_count j = 0)"

definition job_identity :: "etl_job \<Rightarrow> uuid \<times> uuid \<times> pystr" where
  "job_identity j = (j_id j, j_user_id j, j_idempotency_key j)"

definition table_ok :: "etl_job list \<Rightarrow> bool" where
  "table_ok t \<longleftrightarrow> distinct (map j_id t) \<and>
     distinct (map (\<lambda>j. (j_user_id j, j_idempotency_key j)) t) \<and> (\<forall>j\<in>set t. job_ok j)"

text \<open>
  What every operation but \<open>enqueue\<close> does: it rewrites rows in place. \<open>keeps_identity f\<close>: the
  rewriting touches neither the primary key nor the idempotency key.
\<close>

definition keeps_identity :: "(etl_job \<Rightarrow> etl_job) \<Rightarrow> bool" where
  "keeps_identity f \<longleftrightarrow> (\<forall>j. job_identity (f j) = job_identity j)"

lemma keeps_identityI: "(\<And>j. job_identity (f j) = job_identity j) \<Longrightarrow> keeps_identity f"
  by (simp add: keeps_identity_def)

lemma keeps_identityD:
  assumes "keeps_identity f"
  shows "j_id (f j) = j_id j" "j_user_id (f j) = j_user_id j"
    "j_idempotency_key (f j) = j_idempotency_key j"
  using assms by (simp_all add: keeps_identity_def job_identity_def)

lemma keeps_identity_if [intro]:
  "keeps_identity f \<Longrightarrow> keeps_identity (\<lambda>j. if P j then f j else j)"
  by (simp add: keeps_identity_def)

lemma keeps_identity_ops [simp]:
  "keeps_identity (mark_claimed now)" "keeps_identity (mark_completed now)"
  "keeps_identity (mark_failed st now msg a m p)" "keeps_identity (recover_row st now)"
  by (auto simp: keeps_identity_def job_identity_def mark_claimed_def mark_completed_def
      mark_failed_def recover_row_def Let_def)

lemma table_ok_map:
  assumes "table_ok t" and "keeps_identity f" and "\<And>j. j \<in> set t \<Longrightarrow> job_ok j \<Longrightarrow> job_ok (f j)"
  shows "table_ok (map f t)"
  using assms by (auto simp: table_ok_def comp_def keeps_identityD)

lemma table_ok_update:
  assumes "table_ok t" and "keeps_identity f" and "\<And>j. j \<in> set t \<Longrightarrow> j_id j = jid \<Longrightarrow> job_ok j \<Longrightarrow> job_ok (f j)"
  shows "table_ok (update_job jid f t)"
  unfolding update_job_def using assms by (intro table_ok_map) auto

lemma update_job_absent: "get_job jid t = None \<Longrightarrow> update_job jid f t = t"
  by (auto simp: update_job_def get_job_def find_None_iff intro: map_idI)

lemma get_job_SomeD: "get_job jid t = Some j \<Longrightarrow> j \<in> set t \<and> j_id j = jid"
  by (auto simp: get_job_def find_Some_iff)

lemma get_job_distinct:
  assumes "distinct (map j_id t)" and "j \<in> set t"
  shows "get_job (j_id j) t = Some j"
proof -
  have "get_job (j_id j) t \<noteq> None" using assms(2) by (auto simp: get_job_def find_None_iff)
  then obtain k where k: "get_job (j_id j) t = Some k" by blast
  with get_job_SomeD [OF k] assms show ?thesis by (metis distinct_map inj_onD)
qed

lemma get_job_update:
  assumes "keeps_identity f"
  shows "get_job k (update_job jid f t) = map_option (\<lambda>j. if j_id j = jid then f j else j) (get_job k t)"
  by (induction t) (simp_all add: get_job_def update_job_def keeps_identityD [OF assms])

lemma get_job_map:
  assumes "keeps_identity f"
  shows "get_job k (map f t) = map_option f (get_job k t)"
  by (induction t) (simp_all add: get_job_def keeps_identityD [OF assms])

section \<open>What the operations do\<close>

lemma ack_update: "ack now jid t = update_job jid (mark_completed now) t"
  by (simp add: ack_def update_job_absent split: option.split)

lemma fail_update: "fail st now jid msg a m p t = update_job jid (mark_failed st now msg a m p) t"
  by (simp add: fail_def update_job_absent split: option.split)

lemma claim_cases:
  assumes "claim locked now t = (r, t')"
  obtains (empty) "r = None" "t' = t" "\<And>j. j \<in> set t \<Longrightarrow> claimable now j \<Longrightarrow> locked (j_id j)"
  | (claimed) j where "j \<in> set t" "claimable now j" "\<not> locked (j_id j)"
      "\<And>k. k \<in> set t \<Longrightarrow> claimable now k \<Longrightarrow> \<not> locked (j_id k) \<Longrightarrow> claim_key j \<le> claim_key k"
      "r = Some (to_claimed (mark_claimed now j))"
      "t' = update_job (j_id j) (mark_claimed now) t"
proof (cases "sort_key claim_key (filter (\<lambda>j. claimable now j \<and> \<not> locked (j_id j)) t)")
  case Nil
  then have "filter (\<lambda>j. claimable now j \<and> \<not> locked (j_id j)) t = []"
    by (metis length_0_conv length_sort)
  then have "\<And>j. j \<in> set t \<Longrightarrow> claimable now j \<Longrightarrow> locked (j_id j)"
    by (auto simp: filter_empty_conv)
  with Nil assms empty show ?thesis by (auto simp: claim_def)
next
  case (Cons j js)
  then have "j \<in> set (filter (\<lambda>j. claimable now j \<and> \<not> locked (j_id j)) t)"
    by (metis list.set_intros(1) set_sort)
  moreover have "claim_key j \<le> claim_key k"
    if "k \<in> set t" "claimable now k" "\<not> locked (j_id k)" for k
    using sort_key_hd_le [OF Cons, of k] that by auto
  ultimately show ?thesis using Cons assms claimed by (auto simp: claim_def)
qed

lemma job_ok_claimed: "claimable now j \<Longrightarrow> job_ok j \<Longrightarrow> job_ok (mark_claimed now j)"
  by (auto simp: job_ok_def claimable_def mark_claimed_def)

lemma job_ok_completed: "job_ok j \<Longrightarrow> job_ok (mark_completed now j)"
  by (auto simp: job_ok_def mark_completed_def)

lemma job_ok_failed: "job_ok j \<Longrightarrow> job_ok (mark_failed st now msg a m p j)"
  by (auto simp: job_ok_def mark_failed_def Let_def)

lemma job_ok_recovered: "job_ok j \<Longrightarrow> job_ok (recover_row st now j)"
  by (auto simp: job_ok_def recover_row_def)

lemma table_ok_same:
  "table_ok t \<Longrightarrow> j \<in> set t \<Longrightarrow> k \<in> set t \<Longrightarrow> j_id j = j_id k \<Longrightarrow> j = k"
  by (metis get_job_distinct option.inject table_ok_def)

lemma claim_preserves: "table_ok t \<Longrightarrow> claim locked now t = (r, t') \<Longrightarrow> table_ok t'"
  by (erule claim_cases) (auto intro!: table_ok_update job_ok_claimed dest: table_ok_same)

lemma ack_preserves: "table_ok t \<Longrightarrow> table_ok (ack now jid t)"
  unfolding ack_update by (intro table_ok_update job_ok_completed) auto

lemma fail_preserves: "table_ok t \<Longrightarrow> table_ok (fail st now jid msg a m p t)"
  unfolding fail_update by (intro table_ok_update job_ok_failed) auto

lemma requeue_preserves: "table_ok t \<Longrightarrow> table_ok (requeue jid t)"
  unfolding requeue_def
  by (auto split: option.split intro!: table_ok_update
      simp: job_ok_def keeps_identity_def job_identity_def)

lemma heartbeat_preserves: "table_ok t \<Longrightarrow> table_ok (heartbeat now jid t)"
  unfolding heartbeat_def
  by (auto split: option.split intro!: table_ok_update
      simp: job_ok_def keeps_identity_def job_identity_def)

lemma recover_stale_preserves: "table_ok t \<Longrightarrow> table_ok (snd (recover_stale st locked now t))"
  unfolding recover_stale_def by (auto intro!: table_ok_map job_ok_recovered)

lemma enqueue_cases:
  assumes "enqueue payload jid now t = Inr (j, t')"
  obtains (active) "j \<in> set t" "t' = t" "j_status j \<in> {PENDING, PROCESSING}"
      "j_user_id j = p_user_id payload" "j_idempotency_key j = p_idempotency_key payload"
  | (fresh) "j = new_job payload jid now" "t' = t @ [j]" "\<not> violates_unique j t"
proof -
  let ?active = "filter (\<lambda>j. j_user_id j = p_user_id payload \<and>
    j_idempotency_key j = p_idempotency_key payload \<and> j_status j \<in> {PENDING, PROCESSING}) t"
  show ?thesis
  proof (cases ?active)
    case Nil
    with assms fresh show ?thesis by (auto simp: enqueue_def Let_def split: if_splits)
  next
    case (Cons a as)
    then have a: "a \<in> set ?active" by simp
    have "as = []" using Cons assms by (cases as) (simp_all add: enqueue_def)
    with Cons assms have "j = a" "t' = t" by (simp_all add: enqueue_def)
    with a show ?thesis by (intro active) simp_all
  qed
qed

lemma enqueue_preserves: "table_ok t \<Longrightarrow> enqueue payload jid now t = Inr (j, t') \<Longrightarrow> table_ok t'"
  by (erule enqueue_cases)
    (auto simp: table_ok_def violates_unique_def job_ok_def new_job_def)

end
