(* ===== verification/Containment.thy ===== *)
theory Containment
  imports Etl_Queue
begin

text \<open>
  What may stop a component before it works: the kill switches
  (\<open>app/runtime/reliability/kill_switches.py\<close>), the containment state of a tenant
  (\<open>app/runtime/containment/tenant_guard.py\<close>) and the dead-letter escalation policy
  (\<open>app/runtime/containment/dead_letter_policy.py\<close>).
\<close>

section \<open>Kill switches\<close>

datatype kill_switch_domain = WORKER | ORCHESTRATOR | REBUILD_DISPATCH | AUTONOMY | AI_EXECUTION
  | MAINTENANCE

record kill_switch_decision =
  ks_allowed :: bool
  ks_domain :: kill_switch_domain
  ks_reason :: pystr

definition kill_switch_check :: "settings \<Rightarrow> kill_switch_domain \<Rightarrow> kill_switch_decision" where
  "kill_switch_check st d =
     (if maintenance_mode st \<and> d \<noteq> MAINTENANCE then
        \<lparr>ks_allowed = False, ks_domain = d, ks_reason = asc ''maintenance_mode enabled''\<rparr>
      else if d = WORKER \<and> \<not> worker_enabled st then
        \<lparr>ks_allowed = False, ks_domain = d, ks_reason = asc ''worker disabled (WORKER_ENABLED=false)''\<rparr>
      else if d = ORCHESTRATOR \<and> \<not> orchestrator_enabled st then
        \<lparr>ks_allowed = False, ks_domain = d, ks_reason = asc ''orchestrator disabled''\<rparr>
      else if d = REBUILD_DISPATCH \<and> \<not> orchestrator_enabled st then
        \<lparr>ks_allowed = False, ks_domain = d, ks_reason = asc ''rebuild dispatch disabled''\<rparr>
      else if d = AUTONOMY \<and> \<not> runtime_autonomy_enabled st then
        \<lparr>ks_allowed = False, ks_domain = d, ks_reason = asc ''autonomy disabled''\<rparr>
      else if d = AI_EXECUTION \<and> \<not> ai_enabled st then
        \<lparr>ks_allowed = False, ks_domain = d, ks_reason = asc ''AI disabled''\<rparr>
      else \<lparr>ks_allowed = True, ks_domain = d, ks_reason = asc ''ok''\<rparr>)"

definition ai_paused_for_overload :: "settings \<Rightarrow> int \<Rightarrow> bool" where
  "ai_paused_for_overload st queue_pending =
     (if \<not> runtime_ai_pause_when_overloaded st then False
      else runtime_queue_overload_threshold st < queue_pending)"

lemma kill_switch_domain_kept [simp]: "ks_domain (kill_switch_check st d) = d"
  by (simp add: kill_switch_check_def)

lemma kill_switch_maintenance:
  "maintenance_mode st \<Longrightarrow> ks_allowed (kill_switch_check st d) \<longleftrightarrow> d = MAINTENANCE"
  by (cases d) (simp_all add: kill_switch_check_def)

lemma kill_switch_worker:
  "ks_allowed (kill_switch_check st WORKER) \<longleftrightarrow> \<not> maintenance_mode st \<and> worker_enabled st"
  by (simp add: kill_switch_check_def)

lemma kill_switch_rebuild_dispatch:
  "ks_allowed (kill_switch_check st REBUILD_DISPATCH) \<longleftrightarrow> \<not> maintenance_mode st \<and> orchestrator_enabled st"
  by (simp add: kill_switch_check_def)

section \<open>Containment of a tenant\<close>

datatype containment_status = HEALTHY | THROTTLED | QUARANTINED

record containment_state =
  tc_user_id :: uuid
  tc_status :: containment_status
  tc_reason :: "pystr option"
  tc_throttled_until :: "instant option"

record guard_result =
  tg_allowed :: bool
  tg_status :: containment_status
  tg_reason :: pystr

definition containment_row :: "uuid \<Rightarrow> containment_state list \<Rightarrow> containment_state option" where
  "containment_row u rows = List.find (\<lambda>r. tc_user_id r = u) rows"

definition result_from_row :: "instant \<Rightarrow> containment_state option \<Rightarrow> guard_result" where
  "result_from_row now row = (case row of
      None \<Rightarrow> \<lparr>tg_allowed = True, tg_status = HEALTHY, tg_reason = asc ''healthy''\<rparr>
    | Some r \<Rightarrow>
        if tc_status r = QUARANTINED then
          \<lparr>tg_allowed = False, tg_status = QUARANTINED, tg_reason = or_text (tc_reason r) (asc ''quarantined'')\<rparr>
        else if tc_status r = THROTTLED \<and>
            (case tc_throttled_until r of None \<Rightarrow> False | Some u \<Rightarrow> now < u) then
          \<lparr>tg_allowed = False, tg_status = THROTTLED, tg_reason = or_text (tc_reason r) (asc ''throttled'')\<rparr>
        else \<lparr>tg_allowed = True, tg_status = tc_status r, tg_reason = or_text (tc_reason r) (asc ''healthy'')\<rparr>)"

definition guard_check :: "instant \<Rightarrow> uuid \<Rightarrow> containment_state list \<Rightarrow> guard_result" where
  "guard_check now u rows = result_from_row now (containment_row u rows)"

definition set_containment :: "uuid \<Rightarrow> containment_status \<Rightarrow> pystr \<Rightarrow> instant option \<Rightarrow>
    containment_state list \<Rightarrow> guard_result \<times> containment_state list" where
  "set_containment u s reason until rows =
     (\<lparr>tg_allowed = False, tg_status = s, tg_reason = reason\<rparr>,
      case containment_row u rows of
        None \<Rightarrow> rows @ [\<lparr>tc_user_id = u, tc_status = s, tc_reason = Some reason, tc_throttled_until = until\<rparr>]
      | Some _ \<Rightarrow> map (\<lambda>r. if tc_user_id r = u
            then r\<lparr>tc_status := s, tc_reason := Some reason, tc_throttled_until := until\<rparr> else r) rows)"

definition count_jobs :: "uuid \<Rightarrow> job_status \<Rightarrow> etl_job list \<Rightarrow> int" where
  "count_jobs u s t = int (length (filter (\<lambda>j. j_user_id j = u \<and> j_status j = s) t))"

definition evaluate_and_apply_quarantine :: "settings \<Rightarrow> instant \<Rightarrow> uuid \<Rightarrow> etl_job list \<Rightarrow>
    containment_state list \<Rightarrow> guard_result \<times> containment_state list" where
  "evaluate_and_apply_quarantine st now u jobs rows =
     (let dlq_count = count_jobs u DEAD_LETTER jobs; pending = count_jobs u PENDING jobs in
      if reliability_tenant_quarantine_dlq_threshold st \<le> dlq_count then
        set_containment u QUARANTINED
          (asc ''dlq_count='' @ show_int dlq_count @ asc '' exceeds threshold'') None rows
      else if reliability_tenant_throttle_pending_jobs st \<le> pending then
        set_containment u THROTTLED (asc ''pending_jobs='' @ show_int pending)
          (Some (now + seconds (reliability_tenant_throttle_duration_seconds st))) rows
      else (\<lparr>tg_allowed = True, tg_status = HEALTHY, tg_reason = asc ''healthy''\<rparr>, rows))"

lemma containment_row_set:
  "containment_row v (snd (set_containment u s reason until rows)) =
     (if v = u then Some (case containment_row u rows of
          None \<Rightarrow> \<lparr>tc_user_id = u, tc_status = s, tc_reason = Some reason, tc_throttled_until = until\<rparr>
        | Some r \<Rightarrow> r\<lparr>tc_status := s, tc_reason := Some reason, tc_throttled_until := until\<rparr>)
      else containment_row v rows)"
proof -
  have app: "containment_row v (rows @ [r]) =
      (case containment_row v rows of None \<Rightarrow> if tc_user_id r = v then Some r else None | Some x \<Rightarrow> Some x)" for r
    by (induction rows) (simp_all add: containment_row_def)
  have mp: "containment_row v (map (\<lambda>r. if tc_user_id r = u
        then r\<lparr>tc_status := s, tc_reason := Some reason, tc_throttled_until := until\<rparr> else r) rows) =
      map_option (\<lambda>r. if v = u
        then r\<lparr>tc_status := s, tc_reason := Some reason, tc_throttled_until := until\<rparr> else r) (containment_row v rows)"
    by (induction rows) (auto simp: containment_row_def)
  show ?thesis
  proof (cases "v = u")
    case True
    with app mp show ?thesis by (cases "containment_row u rows") (simp_all add: set_containment_def)
  next
    case False
    with app mp show ?thesis
      by (cases "containment_row u rows"; cases "containment_row v rows") (simp_all add: set_containment_def)
  qed
qed

text \<open>A tenant that the evaluation contains is refused by the next check, until a throttling ends.\<close>

lemma contained_is_refused:
  assumes "evaluate_and_apply_quarantine st now u jobs rows = (g, rows')" and "\<not> tg_allowed g"
    and "tg_status g = QUARANTINED \<or> t < now + seconds (reliability_tenant_throttle_duration_seconds st)"
  shows "\<not> tg_allowed (guard_check t u rows')"
proof -
  have row: "rows' = snd (evaluate_and_apply_quarantine st now u jobs rows)"
    and g: "g = fst (evaluate_and_apply_quarantine st now u jobs rows)"
    using assms(1) by simp_all
  show ?thesis
    using assms(2,3) unfolding row g guard_check_def
    by (auto simp: evaluate_and_apply_quarantine_def Let_def containment_row_set result_from_row_def
        set_containment_def[THEN arg_cong, of fst] split: option.splits if_splits)
qed

section \<open>Escalation of dead letters\<close>

record dead_letter_escalation =
  dl_severity :: pystr
  dl_recommendation :: pystr
  dl_requires_operator :: bool

definition dead_letter_assess :: "settings \<Rightarrow> int \<Rightarrow> int \<Rightarrow> dead_letter_escalation" where
  "dead_letter_assess st dlq_count tenant_dlq_count =
     (if reliability_tenant_quarantine_dlq_threshold st \<le> tenant_dlq_count then
        \<lparr>dl_severity = asc ''critical'',
         dl_recommendation = asc ''Quarantine tenant and inspect poison payloads'', dl_requires_operator = True\<rparr>
      else if reliability_global_dlq_warn_threshold st \<le> dlq_count then
        \<lparr>dl_severity = asc ''warn'',
         dl_recommendation = asc ''Review global DLQ backlog and replay runbooks'', dl_requires_operator = True\<rparr>
      else \<lparr>dl_severity = asc ''ok'', dl_recommendation = asc ''Monitor DLQ via /ops/dead-letters'',
         dl_requires_operator = False\<rparr>)"

text \<open>The policy and the guard use one threshold: a critical assessment is a quarantine.\<close>

lemma critical_iff_quarantined:
  "dl_severity (dead_letter_assess st n (count_jobs u DEAD_LETTER jobs)) = asc ''critical'' \<longleftrightarrow>
     tg_status (fst (evaluate_and_apply_quarantine st now u jobs rows)) = QUARANTINED"
  by (simp add: dead_letter_assess_def evaluate_and_apply_quarantine_def Let_def set_containment_def asc_def)

end
