(* ===== verification/Job_Service.thy ===== *)
theory Job_Service
  imports Containment
begin

text \<open>
  The job operations of the services over the queue: \<open>ReportService\<close>
  (\<open>app/services/report_service.py\<close>: upload, acknowledgement, failure, operator retry, with the
  report status kept in step with the job) and the job half of \<open>TenantRecoveryService\<close>
  (\<open>app/operations/recovery.py\<close>). The database is the record \<open>service_db\<close> of the tables they use.
\<close>

section \<open>Reports\<close>

datatype report_status = R_PENDING | R_UPLOADED | R_PROCESSING | R_PROCESSED | R_FAILED

record report =
  r_id :: uuid
  r_user_id :: uuid
  r_marketplace :: pystr
  r_report_type :: pystr
  r_original_filename :: pystr
  r_file_path :: "pystr option"
  r_file_checksum :: "pystr option"
  r_status :: report_status
  r_processed_at :: "instant option"
  r_created_at :: instant

record service_db =
  d_jobs :: "etl_job list"
  d_reports :: "report list"
  d_users :: "uuid list"
  d_containment :: "containment_state list"

definition report_status_from_job_status :: "job_status \<Rightarrow> report_status" where
  "report_status_from_job_status s = (case s of
      PENDING \<Rightarrow> R_PENDING
    | PROCESSING \<Rightarrow> R_PROCESSING
    | COMPLETED \<Rightarrow> R_PROCESSED
    | FAILED \<Rightarrow> R_FAILED
    | DEAD_LETTER \<Rightarrow> R_FAILED)"

definition derive_report_status :: "etl_job option \<Rightarrow> report_status" where
  "derive_report_status job = (case job of
      None \<Rightarrow> R_PENDING | Some j \<Rightarrow> report_status_from_job_status (j_status j))"

definition is_report_retryable :: "etl_job option \<Rightarrow> bool" where
  "is_report_retryable job = (case job of None \<Rightarrow> False | Some j \<Rightarrow> j_status j \<in> {FAILED, DEAD_LETTER})"

definition report_of :: "uuid \<Rightarrow> uuid \<Rightarrow> report list \<Rightarrow> report option" where
  "report_of u rid rs = List.find (\<lambda>r. r_id r = rid \<and> r_user_id r = u) rs"

definition update_report :: "uuid \<Rightarrow> (report \<Rightarrow> report) \<Rightarrow> report list \<Rightarrow> report list" where
  "update_report rid f rs = map (\<lambda>r. if r_id r = rid then f r else r) rs"

definition sync_report_status :: "instant \<Rightarrow> uuid \<Rightarrow> uuid \<Rightarrow> job_status \<Rightarrow> report list \<Rightarrow> report list" where
  "sync_report_status now u rid job_status rs =
     (let target = report_status_from_job_status job_status in
      case report_of u rid rs of
        None \<Rightarrow> rs
      | Some r \<Rightarrow> if r_status r = target then rs
          else update_report rid (\<lambda>r. r\<lparr>r_status := target,
            r_processed_at := (if job_status = COMPLETED \<and> r_processed_at r = None
              then Some now else r_processed_at r)\<rparr>) rs)"

section \<open>Upload\<close>

definition upload_payload :: "settings \<Rightarrow> uuid \<Rightarrow> report \<Rightarrow> int option \<Rightarrow> py_error + enqueue_payload" where
  "upload_payload st u r file_size = (case (r_file_checksum r, r_file_path r) of
      (Some c, Some p) \<Rightarrow>
        if c = [] \<or> p = [] then
          Inl (ValueError (asc ''file_checksum and file_path are required to enqueue ETL job''))
        else Inr \<lparr>p_user_id = u, p_report_id = r_id r, p_idempotency_key = c, p_file_path = p,
          p_marketplace = r_marketplace r, p_report_type = r_report_type r,
          p_original_filename = r_original_filename r, p_report_created_at = r_created_at r,
          p_job_type = asc ''etl_process_report'', p_max_attempts = job_max_attempts st,
          p_visibility_timeout_seconds = job_visibility_timeout_seconds st, p_file_size_bytes = file_size\<rparr>
    | _ \<Rightarrow> Inl (ValueError (asc ''file_checksum and file_path are required to enqueue ETL job'')))"

definition enqueue_processing :: "settings \<Rightarrow> instant \<Rightarrow> uuid \<Rightarrow> uuid \<Rightarrow> report \<Rightarrow> int option \<Rightarrow> service_db \<Rightarrow>
    py_error + (etl_job \<times> service_db)" where
  "enqueue_processing st now u jid r file_size db =
     sbind (upload_payload st u r file_size) (\<lambda>payload.
     sbind (enqueue payload jid now (d_jobs db)) (\<lambda>(job, jobs). Inr (job, db\<lparr>d_jobs := jobs\<rparr>)))"

text \<open>\<open>finalize_upload\<close>: the storage path and the job in one transaction, undone when it raises.\<close>

definition finalize_upload :: "settings \<Rightarrow> instant \<Rightarrow> uuid \<Rightarrow> uuid \<Rightarrow> report \<Rightarrow> pystr \<Rightarrow> int option \<Rightarrow> service_db \<Rightarrow>
    py_error + (etl_job \<times> service_db)" where
  "finalize_upload st now u jid r storage_path file_size db =
     enqueue_processing st now u jid (r\<lparr>r_file_path := Some storage_path\<rparr>) file_size
       (db\<lparr>d_reports := update_report (r_id r) (\<lambda>r. r\<lparr>r_file_path := Some storage_path\<rparr>) (d_reports db)\<rparr>)"

section \<open>Acknowledgement and failure\<close>

definition ack_job :: "instant \<Rightarrow> uuid \<Rightarrow> uuid \<Rightarrow> uuid option \<Rightarrow> service_db \<Rightarrow> service_db" where
  "ack_job now u jid report_id db =
     (let jobs = ack now jid (d_jobs db);
          rid = (case report_id of Some r \<Rightarrow> Some r | None \<Rightarrow> map_option j_report_id (get_job jid jobs))
      in db\<lparr>d_jobs := jobs,
            d_reports := (case rid of None \<Rightarrow> d_reports db
              | Some r \<Rightarrow> sync_report_status now u r COMPLETED (d_reports db))\<rparr>)"

definition fail_job :: "settings \<Rightarrow> instant \<Rightarrow> uuid \<Rightarrow> uuid \<Rightarrow> pystr \<Rightarrow> int \<Rightarrow> int \<Rightarrow> service_db \<Rightarrow> service_db" where
  "fail_job st now u jid error_message attempt_count max_attempts db =
     (let poison = max_attempts \<le> attempt_count;
          jobs = fail st now jid error_message attempt_count max_attempts poison (d_jobs db)
      in db\<lparr>d_jobs := jobs,
            d_reports := (case get_job jid jobs of None \<Rightarrow> d_reports db
              | Some j \<Rightarrow> sync_report_status now u (j_report_id j) (j_status j) (d_reports db))\<rparr>)"

definition heartbeat_job :: "instant \<Rightarrow> uuid \<Rightarrow> service_db \<Rightarrow> service_db" where
  "heartbeat_job now jid db = db\<lparr>d_jobs := heartbeat now jid (d_jobs db)\<rparr>"

section \<open>Tenant recovery of jobs\<close>

record recovery_action =
  ra_action :: pystr
  ra_affected_count :: int
  ra_detail :: pystr
  ra_job_ids :: "uuid list"

definition status_value :: "job_status \<Rightarrow> pystr" where
  "status_value s = (case s of PENDING \<Rightarrow> asc ''pending'' | PROCESSING \<Rightarrow> asc ''processing''
    | COMPLETED \<Rightarrow> asc ''completed'' | FAILED \<Rightarrow> asc ''failed'' | DEAD_LETTER \<Rightarrow> asc ''dead_letter'')"

definition tenant_recover_row :: "etl_job \<Rightarrow> etl_job" where
  "tenant_recover_row j = (if j_attempt_count j < j_max_attempts j then
      j\<lparr>j_status := PENDING, j_claimed_at := None, j_processing_started_at := None,
        j_last_error := Some (asc ''Visibility timeout expired; tenant recovery requeued'')\<rparr>
    else j\<lparr>j_status := DEAD_LETTER,
        j_last_error := Some (asc ''Max attempts exceeded after visibility timeout'')\<rparr>)"

definition recover_stuck_processing_jobs :: "uuid \<Rightarrow> (uuid \<Rightarrow> bool) \<Rightarrow> instant \<Rightarrow> etl_job list \<Rightarrow>
    recovery_action \<times> etl_job list" where
  "recover_stuck_processing_jobs u locked now t =
     (let hit = (\<lambda>j. j_user_id j = u \<and> recoverable locked now j);
          ids = map j_id (filter hit t) in
      (\<lparr>ra_action = asc ''recover_stuck_processing_jobs'', ra_affected_count = int (length ids),
        ra_detail = asc ''recovered '' @ show_int (int (length ids)) @ asc '' stuck PROCESSING job(s)'',
        ra_job_ids = ids\<rparr>,
       map (\<lambda>j. if hit j then tenant_recover_row j else j) t))"

definition replay_result :: "int \<Rightarrow> pystr \<Rightarrow> uuid list \<Rightarrow> recovery_action" where
  "replay_result n detail ids = \<lparr>ra_action = asc ''replay_dead_letter_job'', ra_affected_count = n,
     ra_detail = detail, ra_job_ids = ids\<rparr>"

definition replay_dead_letter_job :: "uuid \<Rightarrow> uuid \<Rightarrow> bool \<Rightarrow> etl_job list \<Rightarrow> recovery_action \<times> etl_job list" where
  "replay_dead_letter_job u jid reset_attempt_counter t = (case get_job jid t of
      None \<Rightarrow> (replay_result 0 (asc ''job not found for tenant'') [], t)
    | Some job \<Rightarrow>
        if j_user_id job \<noteq> u then (replay_result 0 (asc ''job not found for tenant'') [], t)
        else if j_status job \<noteq> DEAD_LETTER then
          (replay_result 0 (asc ''job status is '' @ status_value (j_status job) @ asc '', not dead_letter'') [], t)
        else
          (let t1 = (if reset_attempt_counter then update_job jid (\<lambda>j. j\<lparr>j_attempt_count := 0\<rparr>) t else t);
               t2 = requeue jid t1 in
           if map_option j_status (get_job jid t2) \<noteq> Some PENDING then
             (replay_result 0 (asc ''requeue rejected (attempt_count >= max_attempts?)'') [], t2)
           else (replay_result 1 (asc ''job moved to PENDING for worker pickup'') [jid], t2)))"

section \<open>Operator retry of a report\<close>

text \<open>The latest job of a report: among equal creation times, the last row of the result.\<close>

definition latest_job :: "uuid \<Rightarrow> etl_job list \<Rightarrow> etl_job option" where
  "latest_job rid t = (let js = filter (\<lambda>j. j_report_id j = rid) t in
     if js = [] then None
     else Some (last (filter (\<lambda>j. j_created_at j = Max (set (map j_created_at js))) js)))"

definition retry_processing :: "instant \<Rightarrow> uuid \<Rightarrow> uuid \<Rightarrow> service_db \<Rightarrow> py_error + service_db" where
  "retry_processing now u rid db = (case report_of u rid (d_reports db) of
      None \<Rightarrow> Inl (HTTPException 404 (asc ''Report not found''))
    | Some _ \<Rightarrow> (case latest_job rid (d_jobs db) of
        None \<Rightarrow> Inl (HTTPException 404 (asc ''No ETL job found for this report''))
      | Some job \<Rightarrow>
          if \<not> is_report_retryable (Some job) then
            Inl (HTTPException 409 (asc ''Report is not in a failed state''))
          else if j_status job = DEAD_LETTER then
            (let (result, jobs) = replay_dead_letter_job u (j_id job) True (d_jobs db) in
             if ra_affected_count result = 0 then Inl (HTTPException 409 (ra_detail result))
             else Inr (db\<lparr>d_jobs := jobs\<rparr>))
          else
            (case get_job (j_id job) (d_jobs db) of
               None \<Rightarrow> Inl (HTTPException 404 (asc ''ETL job not found''))
             | Some row \<Rightarrow>
                 if j_user_id row \<noteq> u then Inl (HTTPException 404 (asc ''ETL job not found''))
                 else Inr (db\<lparr>
                   d_jobs := requeue (j_id job) (update_job (j_id job)
                     (\<lambda>j. j\<lparr>j_attempt_count := 0, j_status := PENDING, j_last_error := None,
                       j_claimed_at := None, j_processing_started_at := None, j_completed_at := None\<rparr>)
                     (d_jobs db)),
                   d_reports := sync_report_status now u rid PENDING (d_reports db)\<rparr>))))"

end
