(* ===== verification/Etl_Worker.thy ===== *)
theory Etl_Worker
  imports Job_Service
begin

text \<open>
  The ETL worker (\<open>app/etl/worker.py\<close>) as a client of the queue, and the system of uploads,
  workers, recovery and operators acting on one database: a step relation, its reachable states
  and their invariants. The parse and the persist phases are parameters (\<open>phase\<close>): what the
  worker relies on is how they end. The locale \<open>queue_backend\<close> is the contract of
  \<open>app/core/queue/backend.py\<close> that the worker uses, interpreted on the PostgreSQL backend.
\<close>

section \<open>The worker\<close>

datatype phase = Phase_ok | Retryable retry_reason pystr | Shutdown_requested
  | Legacy_too_large pystr | Raised pystr

text \<open>The message a phase is failed with: for a shutdown, one text per phase.\<close>

definition phase_error :: "pystr \<Rightarrow> phase \<Rightarrow> pystr option" where
  "phase_error shutdown_message p = (case p of
      Phase_ok \<Rightarrow> None
    | Retryable _ m \<Rightarrow> Some m
    | Shutdown_requested \<Rightarrow> Some shutdown_message
    | Legacy_too_large m \<Rightarrow> Some m
    | Raised m \<Rightarrow> Some m)"

definition parse_shutdown_message :: pystr where
  "parse_shutdown_message = asc ''Worker shutdown: '' @ ru ''tekuxiy qank sohran@n, zadaqa budet povtorena''"

definition persist_shutdown_message :: pystr where
  "persist_shutdown_message = asc ''Worker shutdown: '' @ ru ''tekuxiy Etap '' @ asc ''persist '' @
     ru ''zaverw@n, zadaqa budet povtorena''"

definition mark_job_failed_or_retry :: "settings \<Rightarrow> instant \<Rightarrow> claimed_job \<Rightarrow> pystr \<Rightarrow> service_db \<Rightarrow> service_db" where
  "mark_job_failed_or_retry st now job error_message db =
     (if c_user_id job \<notin> set (d_users db) then db
      else fail_job st now (c_user_id job) (c_job_id job) error_message
        (c_attempt_count job) (c_max_attempts job) db)"

definition worker_finish :: "settings \<Rightarrow> instant \<Rightarrow> claimed_job \<Rightarrow> phase \<Rightarrow> bool \<Rightarrow> phase \<Rightarrow> service_db \<Rightarrow> service_db" where
  "worker_finish st now job parse shutdown persist db =
     (case phase_error parse_shutdown_message parse of
        Some m \<Rightarrow> mark_job_failed_or_retry st now job m db
      | None \<Rightarrow>
          if shutdown then
            mark_job_failed_or_retry st now job (asc ''Worker shutdown during processing (post-parse)'') db
          else if report_of (c_user_id job) (c_report_id job) (d_reports db) = None
              \<or> c_user_id job \<notin> set (d_users db) then
            (if c_user_id job \<in> set (d_users db) then
               fail_job st now (c_user_id job) (c_job_id job) (asc ''Persist target missing'')
                 (c_attempt_count job) (c_max_attempts job) db
             else db)
          else (case phase_error persist_shutdown_message persist of
              Some m \<Rightarrow> mark_job_failed_or_retry st now job m db
            | None \<Rightarrow> ack_job now (c_user_id job) (c_job_id job) (Some (c_report_id job)) db))"

definition worker_contained :: "settings \<Rightarrow> instant \<Rightarrow> claimed_job \<Rightarrow> guard_result \<Rightarrow> service_db \<Rightarrow> service_db" where
  "worker_contained st now job guard db =
     mark_job_failed_or_retry st now job (asc ''tenant contained: '' @ tg_reason guard) db"

text \<open>
  \<open>process_next_job\<close> run by one worker without interference: \<open>now\<close> when it claims, \<open>later\<close> when
  the phases have ended.
\<close>

definition process_next_job :: "settings \<Rightarrow> (uuid \<Rightarrow> bool) \<Rightarrow> instant \<Rightarrow> instant \<Rightarrow>
    (claimed_job \<Rightarrow> phase) \<Rightarrow> bool \<Rightarrow> (claimed_job \<Rightarrow> phase) \<Rightarrow> service_db \<Rightarrow> bool \<times> service_db" where
  "process_next_job st locked now later parse shutdown persist db =
     (if \<not> ks_allowed (kill_switch_check st WORKER) then (False, db)
      else
        (let jobs1 = snd (recover_stale st locked now (d_jobs db)) in
         case claim locked now jobs1 of
           (None, jobs2) \<Rightarrow> (False, db\<lparr>d_jobs := jobs2\<rparr>)
         | (Some job, jobs2) \<Rightarrow>
             (let db2 = db\<lparr>d_jobs := jobs2\<rparr>; guard = guard_check now (c_user_id job) (d_containment db) in
              if \<not> tg_allowed guard then (True, worker_contained st now job guard db2)
              else (True, worker_finish st later job (parse job) shutdown (persist job)
                (heartbeat_job now (c_job_id job) db2)))))"

section \<open>The contract of the queue\<close>

locale queue_backend =
  fixes status :: "uuid \<Rightarrow> 't \<Rightarrow> job_status option"
    and qack :: "uuid \<Rightarrow> 't \<Rightarrow> 't"
    and qfail :: "uuid \<Rightarrow> pystr \<Rightarrow> int \<Rightarrow> int \<Rightarrow> bool \<Rightarrow> 't \<Rightarrow> 't"
  assumes ack_status: "status k (qack jid t) =
      (if k = jid \<and> status k t \<noteq> None then Some COMPLETED else status k t)"
    and fail_status: "status k (qfail jid m a mx p t) =
      (if k = jid \<and> status k t \<noteq> None
       then Some (if p \<or> mx \<le> a then DEAD_LETTER else PENDING) else status k t)"
begin

lemma never_failed: "status k t \<noteq> Some FAILED \<Longrightarrow> status k (qfail jid m a mx p t) \<noteq> Some FAILED"
  by (simp add: fail_status)

lemma fail_settles:
  "status jid t \<noteq> None \<Longrightarrow> status jid (qfail jid m a mx p t) \<in> {Some PENDING, Some DEAD_LETTER}"
  by (simp add: fail_status)

lemma ack_settles: "status jid t \<noteq> None \<Longrightarrow> status jid (qack jid t) = Some COMPLETED"
  by (simp add: ack_status)

lemma others_kept: "k \<noteq> jid \<Longrightarrow> status k (qfail jid m a mx p t) = status k t"
  "k \<noteq> jid \<Longrightarrow> status k (qack jid t) = status k t"
  by (simp_all add: ack_status fail_status)

text \<open>Nothing protects a settled job: a failure reported after it reopens it.\<close>

lemma late_fail_reopens:
  "status jid t \<noteq> None \<Longrightarrow> \<not> p \<Longrightarrow> a < mx \<Longrightarrow> status jid (qfail jid m a mx p (qack jid t)) = Some PENDING"
  by (simp add: ack_status fail_status)

end

definition status_in :: "uuid \<Rightarrow> etl_job list \<Rightarrow> job_status option" where
  "status_in jid t = map_option j_status (get_job jid t)"

interpretation pg: queue_backend status_in "ack now" "fail st now" for st now
proof unfold_locales
  show "status_in k (ack now jid t) =
      (if k = jid \<and> status_in k t \<noteq> None then Some COMPLETED else status_in k t)" for k jid t
    by (cases "get_job k t")
      (auto simp: status_in_def ack_update get_job_update mark_completed_def dest: get_job_SomeD)
  show "status_in k (fail st now jid m a mx p t) = (if k = jid \<and> status_in k t \<noteq> None
      then Some (if p \<or> mx \<le> a then DEAD_LETTER else PENDING) else status_in k t)" for k jid m a mx p t
    by (cases "get_job k t")
      (auto simp: status_in_def fail_update get_job_update mark_failed_def Let_def dest: get_job_SomeD)
qed

section \<open>How the worker leaves its job\<close>

lemma jobs_fail_job: "d_jobs (fail_job st now u jid m a mx db) = fail st now jid m a mx (mx \<le> a) (d_jobs db)"
  by (simp add: fail_job_def Let_def)

lemma jobs_ack_job: "d_jobs (ack_job now u jid rid db) = ack now jid (d_jobs db)"
  by (simp add: ack_job_def Let_def)

lemma mark_failed_status:
  assumes "c_user_id c \<in> set (d_users db)" and "status_in (c_job_id c) (d_jobs db) \<noteq> None"
  shows "status_in (c_job_id c) (d_jobs (mark_job_failed_or_retry st now c m db)) =
    Some (if c_max_attempts c \<le> c_attempt_count c then DEAD_LETTER else PENDING)"
  using assms by (simp add: mark_job_failed_or_retry_def jobs_fail_job pg.fail_status)

lemma worker_finish_status:
  assumes "c_user_id c \<in> set (d_users db)" and "status_in (c_job_id c) (d_jobs db) \<noteq> None"
  shows "status_in (c_job_id c) (d_jobs (worker_finish st now c parse shutdown persist db)) = Some
    (if parse = Phase_ok \<and> \<not> shutdown \<and> report_of (c_user_id c) (c_report_id c) (d_reports db) \<noteq> None
        \<and> persist = Phase_ok
     then COMPLETED else if c_max_attempts c \<le> c_attempt_count c then DEAD_LETTER else PENDING)"
proof -
  have missing: "status_in (c_job_id c) (d_jobs (fail_job st now u (c_job_id c) m (c_attempt_count c) (c_max_attempts c) db)) =
      Some (if c_max_attempts c \<le> c_attempt_count c then DEAD_LETTER else PENDING)" for u m
    using assms(2) by (simp add: jobs_fail_job pg.fail_status)
  have acked: "status_in (c_job_id c) (d_jobs (ack_job now u (c_job_id c) rid db)) = Some COMPLETED" for u rid
    using assms(2) by (simp add: jobs_ack_job pg.ack_status)
  show ?thesis
    using assms(1) missing acked mark_failed_status [OF assms]
    by (cases parse; cases persist) (simp_all add: worker_finish_def phase_error_def)
qed

end
