(* ===== verification/Queue_System.thy ===== *)
theory Queue_System
  imports Etl_Worker
begin

text \<open>
  The system over one database: uploads, any number of workers, the recovery loops and the
  operators, interleaved in any order. Its states keep the history of the claims handed out. Two
  parameters say what may happen: \<open>resets\<close> (an operator resets an attempt counter) and \<open>late\<close> (a
  worker reports the end of a claim that is no longer the current one of its job). The lemmas
  are the invariants of the reachable states; the properties of the queue follow from them.
\<close>

section \<open>Steps\<close>

record system =
  s_db :: service_db
  s_claims :: "claimed_job list"

text \<open>The claim is the current one: the worker that holds it is the last that claimed the job.\<close>

definition current_claim :: "claimed_job \<Rightarrow> etl_job list \<Rightarrow> bool" where
  "current_claim c t = (\<exists>j\<in>set t. j_id j = c_job_id c \<and> j_status j = PROCESSING \<and>
     j_attempt_count j = c_attempt_count c)"

inductive sys_step :: "settings \<Rightarrow> bool \<Rightarrow> bool \<Rightarrow> system \<Rightarrow> system \<Rightarrow> bool"
  for st :: settings and resets :: bool and late :: bool where
  upload: "finalize_upload st now u jid r path file_size (s_db s) = Inr (j, db) \<Longrightarrow>
    sys_step st resets late s (s\<lparr>s_db := db\<rparr>)"
| recover: "recover_stale st locked now (d_jobs (s_db s)) = (records, jobs) \<Longrightarrow>
    sys_step st resets late s (s\<lparr>s_db := (s_db s)\<lparr>d_jobs := jobs\<rparr>\<rparr>)"
| claim: "claim locked now (d_jobs (s_db s)) = (Some c, jobs) \<Longrightarrow>
    sys_step st resets late s \<lparr>s_db = (s_db s)\<lparr>d_jobs := jobs\<rparr>, s_claims = s_claims s @ [c]\<rparr>"
| contained: "c \<in> set (s_claims s) \<Longrightarrow> late \<or> current_claim c (d_jobs (s_db s)) \<Longrightarrow>
    sys_step st resets late s (s\<lparr>s_db := worker_contained st now c guard (s_db s)\<rparr>)"
| finish: "c \<in> set (s_claims s) \<Longrightarrow> late \<or> current_claim c (d_jobs (s_db s)) \<Longrightarrow>
    sys_step st resets late s (s\<lparr>s_db := worker_finish st now c parse shutdown persist (s_db s)\<rparr>)"
| beat: "sys_step st resets late s (s\<lparr>s_db := heartbeat_job now jid (s_db s)\<rparr>)"
| tenant_recover: "recover_stuck_processing_jobs u locked now (d_jobs (s_db s)) = (result, jobs) \<Longrightarrow>
    sys_step st resets late s (s\<lparr>s_db := (s_db s)\<lparr>d_jobs := jobs\<rparr>\<rparr>)"
| replay: "replay_dead_letter_job u jid reset (d_jobs (s_db s)) = (result, jobs) \<Longrightarrow> reset \<longrightarrow> resets \<Longrightarrow>
    sys_step st resets late s (s\<lparr>s_db := (s_db s)\<lparr>d_jobs := jobs\<rparr>\<rparr>)"
| retry: "resets \<Longrightarrow> retry_processing now u rid (s_db s) = Inr db \<Longrightarrow>
    sys_step st resets late s (s\<lparr>s_db := db\<rparr>)"

definition initial_system :: "system \<Rightarrow> bool" where
  "initial_system s \<longleftrightarrow> d_jobs (s_db s) = [] \<and> s_claims s = []"

inductive sys_reach :: "settings \<Rightarrow> bool \<Rightarrow> bool \<Rightarrow> system \<Rightarrow> bool"
  for st :: settings and resets :: bool and late :: bool where
  start: "initial_system s \<Longrightarrow> sys_reach st resets late s"
| step: "sys_reach st resets late s \<Longrightarrow> sys_step st resets late s s' \<Longrightarrow> sys_reach st resets late s'"

section \<open>What a step does to the rows\<close>

text \<open>
  Every step rewrites the rows in place, one by one, or appends a fresh row. \<open>row_change late c\<close>
  lists the rewritings other than a claim: they keep the identity and, without resets, the
  attempt counter and its bound.
\<close>

definition benign :: "(etl_job \<Rightarrow> etl_job) \<Rightarrow> bool" where
  "benign f \<longleftrightarrow> keeps_identity f \<and>
     (\<forall>j. j_attempt_count (f j) = j_attempt_count j \<and> j_max_attempts (f j) = j_max_attempts j \<and>
        j_file_path (f j) = j_file_path j \<and> (job_ok j \<longrightarrow> job_ok (f j)))"

lemma benignD:
  assumes "benign f"
  shows "keeps_identity f" "j_attempt_count (f j) = j_attempt_count j"
    "j_max_attempts (f j) = j_max_attempts j" "j_file_path (f j) = j_file_path j"
    "job_ok j \<Longrightarrow> job_ok (f j)" "j_id (f j) = j_id j"
  using assms keeps_identityD(1) [of f] by (simp_all add: benign_def)

lemma benign_id [simp]: "benign (\<lambda>j. j)"
  by (simp add: benign_def keeps_identity_def)

lemma benign_if [intro]: "benign f \<Longrightarrow> benign (\<lambda>j. if P j then f j else j)"
  by (auto simp: benign_def)

lemma benign_ops [simp]:
  "benign (mark_completed now)" "benign (mark_failed st now m a mx p)" "benign (recover_row st now)"
  "benign tenant_recover_row"
  by (auto simp: benign_def job_ok_completed job_ok_failed job_ok_recovered)
    (auto simp: keeps_identity_def job_identity_def mark_completed_def mark_failed_def
      recover_row_def tenant_recover_row_def job_ok_def Let_def)

text \<open>The table after a failure or an acknowledgement by the holder of a claim.\<close>

lemma jobs_mark_failed: "d_jobs (mark_job_failed_or_retry st now c m db) =
    (if c_user_id c \<in> set (d_users db)
     then update_job (c_job_id c) (mark_failed st now m (c_attempt_count c) (c_max_attempts c)
       (c_max_attempts c \<le> c_attempt_count c)) (d_jobs db)
     else d_jobs db)"
  by (simp add: mark_job_failed_or_retry_def jobs_fail_job fail_update)

text \<open>\<open>worker_change late c f\<close>: \<open>f\<close> is what the holder of \<open>c\<close> may do to the rows.\<close>

definition fail_claim :: "settings \<Rightarrow> instant \<Rightarrow> claimed_job \<Rightarrow> pystr \<Rightarrow> etl_job \<Rightarrow> etl_job" where
  "fail_claim st now c m j = (if j_id j = c_job_id c
     then mark_failed st now m (c_attempt_count c) (c_max_attempts c) (c_max_attempts c \<le> c_attempt_count c) j
     else j)"

definition ack_claim :: "instant \<Rightarrow> claimed_job \<Rightarrow> etl_job \<Rightarrow> etl_job" where
  "ack_claim now c j = (if j_id j = c_job_id c then mark_completed now j else j)"

lemma jobs_mark_failed_cases:
  "d_jobs (mark_job_failed_or_retry st now c m db) \<in> {d_jobs db, map (fail_claim st now c m) (d_jobs db)}"
  by (auto simp: jobs_mark_failed update_job_def fail_claim_def)

lemma worker_finish_jobs:
  "d_jobs (worker_finish st now c parse shutdown persist db) \<in>
     {d_jobs db, map (ack_claim now c) (d_jobs db)} \<union> range (\<lambda>m. map (fail_claim st now c m) (d_jobs db))"
  unfolding worker_finish_def
  by (auto simp: jobs_mark_failed jobs_fail_job jobs_ack_job fail_update ack_update update_job_def fail_claim_def[abs_def]
      ack_claim_def[abs_def] split: option.splits)

lemma worker_contained_jobs:
  "d_jobs (worker_contained st now c guard db) \<in>
     {d_jobs db, map (ack_claim now c) (d_jobs db)} \<union> range (\<lambda>m. map (fail_claim st now c m) (d_jobs db))"
  using jobs_mark_failed_cases [of st now c _ db] by (auto simp: worker_contained_def)

lemma benign_claim_ops [simp]: "benign (fail_claim st now c m)" "benign (ack_claim now c)"
  unfolding fail_claim_def [abs_def] ack_claim_def [abs_def] by (intro benign_if benign_ops)+

text \<open>A pending job that has attempts left and a file can be claimed at some instant.\<close>

definition live :: "etl_job \<Rightarrow> bool" where
  "live j \<longleftrightarrow> j_file_path j \<noteq> None \<and> (j_status j = PENDING \<longrightarrow> j_attempt_count j < j_max_attempts j)"

lemma live_fail_claim:
  assumes "live j" "j_max_attempts j = c_max_attempts c" "j_attempt_count j = c_attempt_count c"
    "j_status j = PROCESSING"
  shows "live (fail_claim st now c m j)"
  using assms by (auto simp: live_def fail_claim_def mark_failed_def Let_def)

lemma live_benign:
  "benign f \<Longrightarrow> (j_status (f j) = PENDING \<Longrightarrow> j_attempt_count j < j_max_attempts j) \<Longrightarrow> live j \<Longrightarrow> live (f j)"
  by (simp add: live_def benignD)

section \<open>The invariants\<close>

definition attempts_of :: "etl_job \<Rightarrow> claimed_job list \<Rightarrow> int list" where
  "attempts_of j cs = map c_attempt_count (filter (\<lambda>c. c_job_id c = j_id j) cs)"

text \<open>The claims of a job carry the attempt numbers 1, 2, ..., up to its counter, in this order.\<close>

definition claims_ok :: "etl_job list \<Rightarrow> claimed_job list \<Rightarrow> bool" where
  "claims_ok t cs \<longleftrightarrow> (\<forall>j\<in>set t. attempts_of j cs = [1..j_attempt_count j]) \<and>
     (\<forall>c\<in>set cs. \<exists>j\<in>set t. j_id j = c_job_id c \<and> j_max_attempts j = c_max_attempts c)"

definition system_ok :: "bool \<Rightarrow> system \<Rightarrow> bool" where
  "system_ok late s \<longleftrightarrow> table_ok (d_jobs (s_db s)) \<and> claims_ok (d_jobs (s_db s)) (s_claims s) \<and>
     (\<forall>j\<in>set (d_jobs (s_db s)). 0 < j_max_attempts j) \<and>
     (late \<or> (\<forall>j\<in>set (d_jobs (s_db s)). live j))"

text \<open>A step that rewrites rows.\<close>

definition row_rewrite :: "bool \<Rightarrow> (etl_job \<Rightarrow> etl_job) \<Rightarrow> system \<Rightarrow> system \<Rightarrow> bool" where
  "row_rewrite late f s s' \<longleftrightarrow> benign f \<and> d_jobs (s_db s') = map f (d_jobs (s_db s)) \<and>
     s_claims s' = s_claims s \<and> (late \<or> (\<forall>j\<in>set (d_jobs (s_db s)). live j \<longrightarrow> live (f j)))"

lemma system_ok_rewrites:
  assumes "system_ok late s" and "row_rewrite late f s s'"
  shows "system_ok late s'"
proof -
  let ?t = "d_jobs (s_db s)"
  have f: "benign f" and t': "d_jobs (s_db s') = map f ?t" and cs: "s_claims s' = s_claims s"
    using assms(2) by (simp_all add: row_rewrite_def)
  have "table_ok (map f ?t)"
    using assms(1) f by (intro table_ok_map) (auto simp: system_ok_def benignD)
  moreover have "claims_ok (map f ?t) (s_claims s)"
    using assms(1) by (auto simp: system_ok_def claims_ok_def attempts_of_def benignD [OF f])
  moreover have "late \<or> (\<forall>j\<in>set (map f ?t). live j)"
    using assms by (auto simp: system_ok_def row_rewrite_def)
  moreover have "\<forall>j\<in>set (map f ?t). 0 < j_max_attempts j"
    using assms(1) by (simp add: system_ok_def benignD [OF f])
  ultimately show ?thesis by (simp add: system_ok_def t' cs)
qed

lemma rewrites_same:
  "d_jobs (s_db s') = d_jobs (s_db s) \<Longrightarrow> s_claims s' = s_claims s \<Longrightarrow> row_rewrite late (\<lambda>j. j) s s'"
  by (simp add: row_rewrite_def)

lemma system_ok_append:
  assumes "system_ok late s" "d_jobs (s_db s') = d_jobs (s_db s) @ [j]" "s_claims s' = s_claims s"
    and "j = new_job payload jid now" "\<not> violates_unique j (d_jobs (s_db s))" "0 < p_max_attempts payload"
  shows "system_ok late s'"
proof -
  let ?t = "d_jobs (s_db s)"
  have ok: "table_ok ?t" "claims_ok ?t (s_claims s)" "late \<or> (\<forall>j\<in>set ?t. live j)"
    "\<forall>j\<in>set ?t. 0 < j_max_attempts j"
    using assms(1) by (simp_all add: system_ok_def)
  have fresh: "j_id k \<noteq> jid" if "k \<in> set ?t" for k
    using assms(4,5) that by (auto simp: violates_unique_def new_job_def)
  then have "attempts_of j (s_claims s) = []"
    using ok(2) assms(4) by (auto simp: attempts_of_def claims_ok_def new_job_def filter_empty_conv)
  then have "claims_ok (?t @ [j]) (s_claims s)"
    using ok(2) assms(4) by (auto simp: claims_ok_def new_job_def)
  moreover have "table_ok (?t @ [j])"
    using ok(1) assms(4,5) by (auto simp: table_ok_def violates_unique_def job_ok_def new_job_def)
  moreover have "live j" using assms(4,6) by (simp add: live_def new_job_def)
  moreover have "0 < j_max_attempts j" using assms(4,6) by (simp add: new_job_def)
  ultimately show ?thesis using ok(3,4) assms(2,3) by (auto simp: system_ok_def)
qed

lemma system_ok_claim:
  assumes "system_ok late s" and "claim locked now (d_jobs (s_db s)) = (Some c, jobs)"
  shows "system_ok late \<lparr>s_db = (s_db s)\<lparr>d_jobs := jobs\<rparr>, s_claims = s_claims s @ [c]\<rparr>"
proof -
  let ?t = "d_jobs (s_db s)"
  have ok: "table_ok ?t" "claims_ok ?t (s_claims s)" "late \<or> (\<forall>j\<in>set ?t. live j)"
    "\<forall>j\<in>set ?t. 0 < j_max_attempts j"
    using assms(1) by (simp_all add: system_ok_def)
  obtain j where j: "j \<in> set ?t" "claimable now j" and c: "c = to_claimed (mark_claimed now j)"
    and jobs: "jobs = update_job (j_id j) (mark_claimed now) ?t"
    using assms(2) by (auto elim: claim_cases)
  have pos: "0 \<le> j_attempt_count j" using ok(1) j by (auto simp: table_ok_def job_ok_def)
  have cc: "c_job_id c = j_id j" "c_attempt_count c = j_attempt_count j + 1" "c_max_attempts c = j_max_attempts j"
    by (simp_all add: c to_claimed_def mark_claimed_def)
  have att: "attempts_of k (s_claims s @ [c]) = [1..j_attempt_count k]" if "k \<in> set jobs" for k
  proof -
    from that obtain k0 where k0: "k0 \<in> set ?t" and k: "k = (if j_id k0 = j_id j then mark_claimed now k0 else k0)"
      by (auto simp: jobs update_job_def)
    have old: "attempts_of k0 (s_claims s) = [1..j_attempt_count k0]" using ok(2) k0 by (simp add: claims_ok_def)
    show ?thesis
    proof (cases "j_id k0 = j_id j")
      case True
      then have "k0 = j" using table_ok_same [OF ok(1) k0 j(1)] by simp
      moreover have "[1..j_attempt_count j + 1] = [1..j_attempt_count j] @ [j_attempt_count j + 1]"
        using upto_rec2 [of 1 "j_attempt_count j + 1"] pos by simp
      ultimately show ?thesis using old k by (simp add: attempts_of_def cc mark_claimed_def)
    next
      case False
      with old k cc show ?thesis by (auto simp: attempts_of_def)
    qed
  qed
  have "\<exists>k\<in>set jobs. j_id k = c_job_id d \<and> j_max_attempts k = c_max_attempts d" if "d \<in> set (s_claims s @ [c])" for d
  proof -
    have "\<exists>k\<in>set ?t. j_id k = c_job_id d \<and> j_max_attempts k = c_max_attempts d"
      using that ok(2) j(1) cc by (auto simp: claims_ok_def)
    then obtain k where k: "k \<in> set ?t" "j_id k = c_job_id d" "j_max_attempts k = c_max_attempts d" by blast
    have "(if j_id k = j_id j then mark_claimed now k else k) \<in> set jobs"
      using k(1) by (auto simp: jobs update_job_def)
    with k(2,3) show ?thesis by (intro bexI) (auto simp: mark_claimed_def)
  qed
  with att have "claims_ok jobs (s_claims s @ [c])" by (auto simp: claims_ok_def)
  moreover have "late \<or> (\<forall>k\<in>set jobs. live k)"
    using ok(3) by (auto simp: jobs update_job_def live_def mark_claimed_def)
  moreover have "\<forall>k\<in>set jobs. 0 < j_max_attempts k"
    using ok(4) by (auto simp: jobs update_job_def mark_claimed_def)
  ultimately show ?thesis
    using claim_preserves [OF ok(1) assms(2)] by (simp add: system_ok_def)
qed

section \<open>Every step keeps the invariants\<close>

lemma benign_requeue:
  obtains f where "benign f" "requeue jid t = map f t" "\<And>j. j \<in> set t \<Longrightarrow> distinct (map j_id t) \<Longrightarrow> live j \<Longrightarrow> live (f j)"
proof -
  define f where "f j = (if j_id j = jid then j\<lparr>j_status := PENDING, j_claimed_at := None,
      j_processing_started_at := None, j_last_error := Some (asc ''Manually requeued'')\<rparr> else j)" for j :: etl_job
  have f: "benign f"
    by (auto simp: benign_def f_def keeps_identity_def job_identity_def job_ok_def)
  show ?thesis
  proof (cases "requeue jid t = t")
    case True
    then show ?thesis by (intro that [of "\<lambda>j. j"]) simp_all
  next
    case False
    then obtain job where job: "get_job jid t = Some job" "j_attempt_count job < j_max_attempts job"
      and eq: "requeue jid t = map f t"
      by (auto simp: requeue_def update_job_def f_def [abs_def] split: option.splits if_splits)
    show ?thesis
    proof (rule that [OF f eq])
      fix j assume j: "j \<in> set t" "distinct (map j_id t)" "live j"
      have "j = job" if "j_id j = jid" using get_job_distinct [OF j(2,1)] job(1) that by simp
      then show "live (f j)" using j(3) job(2) by (auto simp: live_def f_def)
    qed
  qed
qed

lemma recover_rows_live: "live j \<Longrightarrow> live (recover_row st now j)" "live j \<Longrightarrow> live (tenant_recover_row j)"
  by (simp_all add: live_def recover_row_def tenant_recover_row_def)

lemma system_ok_claim_end:
  assumes s: "system_ok late s" and c: "c \<in> set (s_claims s)" "late \<or> current_claim c (d_jobs (s_db s))"
    and jobs: "d_jobs db \<in> {d_jobs (s_db s), map (ack_claim now c) (d_jobs (s_db s))} \<union>
      range (\<lambda>m. map (fail_claim st now c m) (d_jobs (s_db s)))"
  shows "system_ok late (s\<lparr>s_db := db\<rparr>)"
proof -
  let ?t = "d_jobs (s_db s)"
  have ok: "table_ok ?t" "claims_ok ?t (s_claims s)" using s by (simp_all add: system_ok_def)
  have live_fail: "live (fail_claim st now c m j)" if lj: "\<not> late" "j \<in> set ?t" "live j" for m j
  proof (cases "j_id j = c_job_id c")
    case True
    obtain k where k: "k \<in> set ?t" "j_id k = c_job_id c" "j_status k = PROCESSING" "j_attempt_count k = c_attempt_count c"
      using c(2) lj(1) by (auto simp: current_claim_def)
    obtain l where l: "l \<in> set ?t" "j_id l = c_job_id c" "j_max_attempts l = c_max_attempts c"
      using ok(2) c(1) by (auto simp: claims_ok_def)
    have "j = k" "j = l" using table_ok_same [OF ok(1)] True lj(2) k(1,2) l(1,2) by metis+
    with k l lj show ?thesis by (intro live_fail_claim) auto
  qed (use lj in \<open>simp add: fail_claim_def\<close>)
  have live_ack: "live j \<Longrightarrow> live (ack_claim now c j)" for j
    by (simp add: live_def ack_claim_def mark_completed_def)
  from jobs consider "d_jobs db = ?t" | "d_jobs db = map (ack_claim now c) ?t"
    | m where "d_jobs db = map (fail_claim st now c m) ?t" by auto
  then have "\<exists>f. row_rewrite late f s (s\<lparr>s_db := db\<rparr>)"
  proof cases
    case 1
    then show ?thesis by (intro exI [of _ "\<lambda>j. j"]) (simp add: row_rewrite_def)
  next
    case 2
    then show ?thesis using live_ack by (intro exI [of _ "ack_claim now c"]) (simp add: row_rewrite_def)
  next
    case 3
    then show ?thesis using live_fail by (intro exI [of _ "fail_claim st now c m"]) (auto simp: row_rewrite_def)
  qed
  then show ?thesis using system_ok_rewrites [OF s] by blast
qed

lemma finalize_upload_cases:
  assumes "finalize_upload st now u jid r path file_size db = Inr (j, db')" and "0 < job_max_attempts st"
  obtains (same) "d_jobs db' = d_jobs db"
  | (fresh) payload where "j = new_job payload jid now" "d_jobs db' = d_jobs db @ [j]"
      "\<not> violates_unique j (d_jobs db)" "0 < p_max_attempts payload"
proof -
  obtain payload jobs where payload: "upload_payload st u (r\<lparr>r_file_path := Some path\<rparr>) file_size = Inr payload"
    and enq: "enqueue payload jid now (d_jobs db) = Inr (j, jobs)" and db': "d_jobs db' = jobs"
    using assms(1) by (auto simp: finalize_upload_def enqueue_processing_def sbind_Inr_iff)
  have "p_max_attempts payload = job_max_attempts st"
    using payload by (auto simp: upload_payload_def split: option.splits if_splits)
  with assms(2) have pos: "0 < p_max_attempts payload" by simp
  from enq show ?thesis
  proof (cases rule: enqueue_cases)
    case active
    with db' same show ?thesis by simp
  next
    case fresh': fresh
    with db' pos fresh show ?thesis by blast
  qed
qed

lemma replay_cases:
  assumes "replay_dead_letter_job u jid reset t = (result, jobs)"
  obtains (same) "jobs = t"
  | (again) "jobs = requeue jid (if reset then update_job jid (\<lambda>j. j\<lparr>j_attempt_count := 0\<rparr>) t else t)"
  using assms by (auto simp: replay_dead_letter_job_def Let_def split: option.splits if_splits)

lemma system_ok_step:
  assumes "sys_step st False late s s'" and "system_ok late s" and pos: "0 < job_max_attempts st"
  shows "system_ok late s'"
  using assms(1,2)
proof cases
  case (upload now u jid r path file_size j db)
  from upload(2) pos show ?thesis
  proof (cases rule: finalize_upload_cases)
    case same
    then show ?thesis using upload assms(2) by (simp add: system_ok_def)
  next
    case (fresh payload)
    with assms(2) upload show ?thesis by (intro system_ok_append [OF assms(2)]) simp_all
  qed
next
  case (recover locked now records jobs)
  then have "row_rewrite late (\<lambda>j. if recoverable locked now j then recover_row st now j else j) s s'"
    by (auto simp: row_rewrite_def recover_stale_def recover_rows_live)
  then show ?thesis by (rule system_ok_rewrites [OF assms(2)])
next
  case (claim locked now c jobs)
  then show ?thesis using system_ok_claim [OF assms(2)] by simp
next
  case (contained c now guard)
  then show ?thesis using system_ok_claim_end [OF assms(2) _ _ worker_contained_jobs] by simp
next
  case (finish c now parse shutdown persist)
  then show ?thesis using system_ok_claim_end [OF assms(2) _ _ worker_finish_jobs] by simp
next
  case (beat now jid)
  define f where "f j = (if j_id j = jid then j\<lparr>j_last_heartbeat_at := Some now\<rparr> else j)" for j :: etl_job
  have "benign f" by (auto simp: benign_def f_def keeps_identity_def job_identity_def job_ok_def)
  moreover have "live j \<Longrightarrow> live (f j)" for j by (simp add: live_def f_def)
  ultimately have "row_rewrite late (if d_jobs (s_db s') = d_jobs (s_db s) then (\<lambda>j. j) else f) s s'"
    using beat by (auto simp: row_rewrite_def heartbeat_job_def heartbeat_def update_job_def f_def [abs_def]
        split: option.splits)
  then show ?thesis by (rule system_ok_rewrites [OF assms(2)])
next
  case (tenant_recover u locked now result jobs)
  then have "row_rewrite late (\<lambda>j. if j_user_id j = u \<and> recoverable locked now j then tenant_recover_row j else j) s s'"
    by (auto simp: row_rewrite_def recover_stuck_processing_jobs_def recover_rows_live Let_def)
  then show ?thesis by (rule system_ok_rewrites [OF assms(2)])
next
  case (replay u jid reset result jobs)
  from replay(2) show ?thesis
  proof (cases rule: replay_cases)
    case same
    then show ?thesis using replay assms(2) by (simp add: system_ok_def)
  next
    case again
    then have jobs: "jobs = requeue jid (d_jobs (s_db s))" using replay by simp
    obtain f where f: "benign f" "requeue jid (d_jobs (s_db s)) = map f (d_jobs (s_db s))"
      "\<And>j. j \<in> set (d_jobs (s_db s)) \<Longrightarrow> distinct (map j_id (d_jobs (s_db s))) \<Longrightarrow> live j \<Longrightarrow> live (f j)"
      by (rule benign_requeue) blast
    have "row_rewrite late f s s'"
      using f assms(2) replay(1) jobs by (auto simp: row_rewrite_def system_ok_def table_ok_def)
    then show ?thesis by (rule system_ok_rewrites [OF assms(2)])
  qed
next
  case (retry now u rid db)
  then show ?thesis by simp
qed

lemma system_ok_reach:
  assumes "sys_reach st False late s" and "0 < job_max_attempts st"
  shows "system_ok late s"
  using assms(1)
proof induction
  case (start s)
  then show ?case by (simp add: initial_system_def system_ok_def table_ok_def claims_ok_def)
next
  case (step s s')
  then show ?case using system_ok_step assms(2) by blast
qed

text \<open>With operator resets the table keeps its invariant.\<close>

lemma table_ok_reset: "table_ok t \<Longrightarrow> table_ok (update_job jid (\<lambda>j. j\<lparr>j_attempt_count := 0\<rparr>) t)"
  by (rule table_ok_update) (auto simp: job_ok_def keeps_identity_def job_identity_def)

lemma table_ok_benign: "table_ok t \<Longrightarrow> benign f \<Longrightarrow> table_ok (map f t)"
  by (rule table_ok_map) (auto simp: benignD)

lemma table_ok_claim_end:
  "table_ok t \<Longrightarrow> t' \<in> {t, map (ack_claim now c) t} \<union> range (\<lambda>m. map (fail_claim st now c m) t) \<Longrightarrow> table_ok t'"
  by (elim UnE insertE imageE emptyE) (simp_all add: table_ok_benign)

lemma table_ok_replay:
  assumes "table_ok t" and "replay_dead_letter_job u jid reset t = (result, jobs)"
  shows "table_ok jobs"
  using assms(2)
proof (cases rule: replay_cases)
  case same
  with assms(1) show ?thesis by simp
next
  case again
  with assms(1) show ?thesis by (simp add: requeue_preserves table_ok_reset)
qed

lemma table_ok_retry:
  assumes "table_ok (d_jobs db)" and "retry_processing now u rid db = Inr db'"
  shows "table_ok (d_jobs db')"
proof -
  have "table_ok (update_job jid (\<lambda>j. j\<lparr>j_attempt_count := 0, j_status := PENDING, j_last_error := None,
      j_claimed_at := None, j_processing_started_at := None, j_completed_at := None\<rparr>) (d_jobs db))" for jid
    using assms(1) by (rule table_ok_update) (auto simp: job_ok_def keeps_identity_def job_identity_def)
  with assms show ?thesis
    by (auto simp: retry_processing_def Let_def requeue_preserves
        split: option.splits if_splits prod.splits dest: table_ok_replay [OF assms(1)])
qed

lemma table_ok_step:
  assumes "sys_step st resets late s s'" and ok: "table_ok (d_jobs (s_db s))"
  shows "table_ok (d_jobs (s_db s'))"
  using assms(1)
proof cases
  case (upload now u jid r path file_size j db)
  then obtain payload jobs where "enqueue payload jid now (d_jobs (s_db s)) = Inr (j, jobs)" "d_jobs db = jobs"
    by (auto simp: finalize_upload_def enqueue_processing_def sbind_Inr_iff)
  then show ?thesis using upload enqueue_preserves [OF ok] by simp
next
  case (recover locked now records jobs)
  then show ?thesis using recover_stale_preserves [OF ok, of st locked now] by simp
next
  case (claim locked now c jobs)
  then show ?thesis using claim_preserves [OF ok] by simp
next
  case (contained c now guard)
  then show ?thesis using table_ok_claim_end [OF ok worker_contained_jobs] by simp
next
  case (finish c now parse shutdown persist)
  then show ?thesis using table_ok_claim_end [OF ok worker_finish_jobs] by simp
next
  case (beat now jid)
  then show ?thesis using heartbeat_preserves [OF ok] by (simp add: heartbeat_job_def)
next
  case (tenant_recover u locked now result jobs)
  moreover have "table_ok (map (\<lambda>j. if j_user_id j = u \<and> recoverable locked now j
      then tenant_recover_row j else j) (d_jobs (s_db s)))"
    using ok by (intro table_ok_benign benign_if benign_ops)
  ultimately show ?thesis by (auto simp: recover_stuck_processing_jobs_def Let_def)
next
  case (replay u jid reset result jobs)
  then show ?thesis using table_ok_replay [OF ok] by simp
next
  case (retry now u rid db)
  then show ?thesis using table_ok_retry [OF ok] by simp
qed

lemma table_ok_reach: "sys_reach st resets late s \<Longrightarrow> table_ok (d_jobs (s_db s))"
  by (induction rule: sys_reach.induct)
    (auto simp: initial_system_def table_ok_def [of "[]"] intro: table_ok_step)

end
