(* ===== verification/Queue_Properties.thy ===== *)
theory Queue_Properties
  imports Queue_System
begin

text \<open>
  The properties of the queue, its recovery and its worker, with their witnesses. The concrete
  states the witnesses run are defined first.
\<close>

section \<open>Concrete states\<close>

definition demo_report :: "uuid \<Rightarrow> pystr \<Rightarrow> report" where
  "demo_report rid checksum = \<lparr>r_id = rid, r_user_id = 7, r_marketplace = asc ''wildberries'',
     r_report_type = asc ''sales'', r_original_filename = asc ''a.xlsx'', r_file_path = None,
     r_file_checksum = Some checksum, r_status = R_PENDING, r_processed_at = None, r_created_at = 0\<rparr>"

definition demo_system :: system where
  "demo_system = \<lparr>s_db = \<lparr>d_jobs = [], d_reports = [demo_report 1 (asc ''k'')], d_users = [7],
     d_containment = []\<rparr>, s_claims = []\<rparr>"

definition no_lock :: "uuid \<Rightarrow> bool" where
  "no_lock k = False"

text \<open>The upload of the report at instant 0 and its first claim at instant 5.\<close>

definition demo_job :: etl_job where
  "demo_job = \<lparr>j_id = 11, j_user_id = 7, j_report_id = 1, j_job_type = asc ''etl_process_report'',
     j_status = PENDING, j_attempt_count = 0, j_max_attempts = 3, j_visibility_timeout_seconds = 1800,
     j_claimed_at = None, j_processing_started_at = None, j_last_heartbeat_at = None,
     j_completed_at = None, j_idempotency_key = asc ''k'', j_last_error = None,
     j_file_path = Some (asc ''p''), j_marketplace = asc ''wildberries'', j_report_type = asc ''sales'',
     j_original_filename = asc ''a.xlsx'', j_report_created_at = 0, j_file_size_bytes = Some 9,
     j_created_at = 0\<rparr>"

definition demo_db :: "etl_job list \<Rightarrow> service_db" where
  "demo_db jobs = \<lparr>d_jobs = jobs, d_reports = [(demo_report 1 (asc ''k''))\<lparr>r_file_path := Some (asc ''p'')\<rparr>],
     d_users = [7], d_containment = []\<rparr>"

lemma demo_upload:
  "sys_step default_settings resets late demo_system \<lparr>s_db = demo_db [demo_job], s_claims = []\<rparr>"
proof -
  have "finalize_upload default_settings 0 7 11 (demo_report 1 (asc ''k'')) (asc ''p'') (Some 9) (s_db demo_system)
      = Inr (demo_job, demo_db [demo_job])"
    by (simp add: finalize_upload_def enqueue_processing_def upload_payload_def demo_report_def asc_def
        enqueue_def demo_system_def new_job_def violates_unique_def update_report_def demo_db_def
        demo_job_def default_settings_def Let_def)
  from sys_step.upload [OF this, of resets late]
  show ?thesis by (simp add: demo_system_def)
qed

lemma demo_start: "sys_reach st resets late demo_system"
  by (rule sys_reach.start) (simp add: initial_system_def demo_system_def)

lemma demo_uploaded:
  "sys_reach default_settings resets late \<lparr>s_db = demo_db [demo_job], s_claims = []\<rparr>"
  by (rule sys_reach.step [OF demo_start demo_upload])

text \<open>A claim, and a recovery, of the only row of the table.\<close>

lemma claim_single: "claimable now j \<Longrightarrow> claim no_lock now [j] =
    (Some (to_claimed (mark_claimed now j)), [mark_claimed now j])"
  by (simp add: claim_def no_lock_def update_job_def)

lemma reach_claim_single:
  assumes "sys_reach st resets late \<lparr>s_db = demo_db [j], s_claims = cs\<rparr>" and "claimable now j"
  shows "sys_reach st resets late
    \<lparr>s_db = demo_db [mark_claimed now j], s_claims = cs @ [to_claimed (mark_claimed now j)]\<rparr>"
  using sys_reach.step [OF assms(1) sys_step.claim [where locked = no_lock and now = now]]
  by (simp add: demo_db_def claim_single [OF assms(2)])

lemma reach_recover_single:
  assumes "sys_reach st resets late \<lparr>s_db = demo_db [j], s_claims = cs\<rparr>" and "recoverable no_lock now j"
  shows "sys_reach st resets late \<lparr>s_db = demo_db [recover_row st now j], s_claims = cs\<rparr>"
  using sys_reach.step [OF assms(1) sys_step.recover [where locked = no_lock and now = now]] assms(2)
  by (simp add: demo_db_def recover_stale_def)

lemma reach_finish:
  assumes "sys_reach st resets True \<lparr>s_db = db, s_claims = cs\<rparr>" and "c \<in> set cs"
  shows "sys_reach st resets True \<lparr>s_db = worker_finish st now c parse shutdown persist db, s_claims = cs\<rparr>"
  using sys_reach.step [OF assms(1) sys_step.finish [where c = c]] assms(2) by simp

text \<open>The job after its first claim, a lost worker, a second claim, a lost worker, a third claim.\<close>

definition hours :: "int \<Rightarrow> instant" where
  "hours h = seconds (3600 * h)"

definition job1 :: etl_job where "job1 = mark_claimed (hours 0) demo_job"
definition job2 :: etl_job where "job2 = mark_claimed (hours 2) (recover_row default_settings (hours 1) job1)"
definition job3 :: etl_job where "job3 = mark_claimed (hours 4) (recover_row default_settings (hours 3) job2)"

lemmas demo_job_simps = job1_def job2_def job3_def demo_job_def hours_def seconds_def mark_claimed_def
  recover_row_def compute_etl_retry_eligible_at_def etl_retry_delay_def default_settings_def

abbreviation (input) lost :: "instant \<Rightarrow> etl_job \<Rightarrow> etl_job" where
  "lost now j \<equiv> recover_row default_settings now j"

lemma demo_conditions:
  "claimable (hours 0) demo_job" "recoverable no_lock (hours 1) job1"
  "claimable (hours 2) (lost (hours 1) job1)" "recoverable no_lock (hours 3) job2"
  "claimable (hours 4) (lost (hours 3) job2)"
  by (simp_all add: claimable_def recoverable_def is_etl_job_stale_def no_lock_def demo_job_simps)

lemma demo_third_claim:
  "sys_reach default_settings resets late \<lparr>s_db = demo_db [job3],
     s_claims = [to_claimed job1, to_claimed job2, to_claimed job3]\<rparr>"
proof -
  note c1 = reach_claim_single [OF demo_uploaded demo_conditions(1), folded job1_def]
  note r1 = reach_recover_single [OF c1 demo_conditions(2)]
  note c2 = reach_claim_single [OF r1 demo_conditions(3), folded job2_def]
  note r2 = reach_recover_single [OF c2 demo_conditions(4)]
  note c3 = reach_claim_single [OF r2 demo_conditions(5), folded job3_def]
  from c3 show ?thesis by simp
qed

section \<open>Attempts and fencing\<close>

text \<open>
  C40. Without operator resets, and whatever the interleaving (late workers included), the claims
  handed out for a job carry the attempt numbers 1, 2, ... in this order, the last one being the
  counter of the row; so no job is processed more than \<open>max_attempts\<close> times, and (job, attempt)
  names a claim uniquely.
\<close>

theorem queue_claims_numbered:
  assumes "sys_reach st False late s" and "0 < job_max_attempts st" and "j \<in> set (d_jobs (s_db s))"
  shows "map c_attempt_count (filter (\<lambda>c. c_job_id c = j_id j) (s_claims s)) = [1..j_attempt_count j]
    \<and> j_attempt_count j \<le> j_max_attempts j
    \<and> int (length (filter (\<lambda>c. c_job_id c = j_id j) (s_claims s))) \<le> j_max_attempts j"
proof -
  have "system_ok late s" by (rule system_ok_reach [OF assms(1,2)])
  then have ok: "job_ok j" "0 < j_max_attempts j" and att: "attempts_of j (s_claims s) = [1..j_attempt_count j]"
    using assms(3) by (auto simp: system_ok_def table_ok_def claims_ok_def)
  then have "j_attempt_count j \<le> j_max_attempts j" "0 \<le> j_attempt_count j"
    by (auto simp: job_ok_def)
  moreover have "int (length (filter (\<lambda>c. c_job_id c = j_id j) (s_claims s))) = j_attempt_count j"
    using arg_cong [OF att, of length] calculation by (simp add: attempts_of_def)
  ultimately show ?thesis using att by (simp add: attempts_of_def)
qed

lemma queue_claims_numbered_witness:
  "map c_attempt_count (filter (\<lambda>c. c_job_id c = 11) [to_claimed job1, to_claimed job2, to_claimed job3]) = [1..3]"
proof -
  have "j_attempt_count job3 = 3" "j_id job3 = 11" by (simp_all add: demo_job_simps)
  then show ?thesis
    using queue_claims_numbered [OF demo_third_claim [of False True], of job3]
    by (simp add: demo_db_def default_settings_def)
qed

text \<open>
  Whatever happens (late workers, operator resets, tenant recovery), the table keeps its
  invariant: unique ids, one job per tenant and idempotency key, a processing job has a claim
  time and a heartbeat (so that it can be recovered), a pending job has no claim, and the counter
  stays within its bound.
\<close>

lemma queue_table_invariant:
  assumes "sys_reach st resets late s"
  shows "distinct (map j_id (d_jobs (s_db s)))
    \<and> distinct (map (\<lambda>j. (j_user_id j, j_idempotency_key j)) (d_jobs (s_db s)))
    \<and> (\<forall>j\<in>set (d_jobs (s_db s)).
         (j_status j = PROCESSING \<longrightarrow> j_claimed_at j \<noteq> None \<and> j_last_heartbeat_at j \<noteq> None)
       \<and> (j_status j = PENDING \<longrightarrow> j_claimed_at j = None)
       \<and> 0 \<le> j_attempt_count j \<and> (j_attempt_count j \<le> j_max_attempts j \<or> j_attempt_count j = 0))"
  using table_ok_reach [OF assms] by (auto simp: table_ok_def job_ok_def)

lemma queue_table_invariant_witness:
  "j_claimed_at job3 \<noteq> None \<and> j_last_heartbeat_at job3 \<noteq> None \<and> j_attempt_count job3 \<le> j_max_attempts job3"
proof -
  have "j_status job3 = PROCESSING" "j_attempt_count job3 = 3" by (simp_all add: demo_job_simps)
  then show ?thesis
    using queue_table_invariant [OF demo_third_claim [of True True]] by (simp add: demo_db_def)
qed

text \<open>
  When every worker reports only the end of the current claim of its job, a pending job is never
  stuck: from its eligibility instant on it is claimable, and a claim with no row locked returns
  a job.
\<close>

lemma fenced_pending_claimable:
  assumes "sys_reach st False False s" and "0 < job_max_attempts st" and "j \<in> set (d_jobs (s_db s))"
    and "j_status j = PENDING"
    and "case j_processing_started_at j of None \<Rightarrow> True | Some t \<Rightarrow> t \<le> now"
  shows "claimable now j \<and> fst (claim (\<lambda>_. False) now (d_jobs (s_db s))) \<noteq> None"
proof -
  have "live j" using system_ok_reach [OF assms(1,2)] assms(3) by (simp add: system_ok_def)
  with assms(4,5) have c: "claimable now j" by (simp add: live_def claimable_def)
  obtain r t where r: "claim (\<lambda>_. False) now (d_jobs (s_db s)) = (r, t)" by fastforce
  then have "r \<noteq> None" using c assms(3) by (cases rule: claim_cases) auto
  with c r show ?thesis by simp
qed

lemma fenced_pending_claimable_witness:
  "fst (claim (\<lambda>_. False) (hours 1) [demo_job]) \<noteq> None"
  using fenced_pending_claimable [OF demo_uploaded, of demo_job "hours 1"]
  by (simp add: demo_db_def demo_job_def default_settings_def)

text \<open>
  The guard that is missing: \<open>fail\<close> and \<open>ack\<close> do not check that the caller still owns the job. With
  the default settings (three attempts) there is a reachable state, without any operator reset,
  in which the third worker has completed the job and the first, presumed lost, then reports its
  failure: the completed job is pending again with all its attempts used, and no claim will ever
  take it.
\<close>

lemma late_fail_strands_job:
  "\<exists>s j. sys_reach default_settings False True s \<and> j \<in> set (d_jobs (s_db s)) \<and> j_status j = PENDING
     \<and> j_completed_at j \<noteq> None \<and> j_attempt_count j = j_max_attempts j \<and> (\<forall>now. \<not> claimable now j)"
proof -
  let ?cs = "[to_claimed job1, to_claimed job2, to_claimed job3]"
  let ?done = "worker_finish default_settings (hours 5) (to_claimed job3) Phase_ok False Phase_ok (demo_db [job3])"
  let ?late = "worker_finish default_settings (hours 6) (to_claimed job1) (Raised []) False Phase_ok ?done"
  let ?j = "mark_failed default_settings (hours 6) [] 1 3 False (mark_completed (hours 5) job3)"
  have "sys_reach default_settings False True \<lparr>s_db = ?late, s_claims = ?cs\<rparr>"
    by (intro reach_finish demo_third_claim) simp_all
  moreover have "d_jobs ?late = [?j]"
  proof -
    have fields: "c_job_id (to_claimed job1) = 11" "c_attempt_count (to_claimed job1) = 1"
      "c_max_attempts (to_claimed job1) = 3" "c_user_id (to_claimed job1) = 7" "c_job_id (to_claimed job3) = 11"
      "c_user_id (to_claimed job3) = 7" "c_report_id (to_claimed job3) = 1" "j_id job3 = 11"
      by (simp_all add: to_claimed_def demo_job_simps)
    have "d_jobs ?done = [mark_completed (hours 5) job3]" "d_users ?done = [7]"
      by (simp_all add: worker_finish_def phase_error_def report_of_def demo_report_def demo_db_def
          ack_job_def ack_update update_job_def Let_def fields)
    then show ?thesis
      by (simp add: worker_finish_def [of _ _ "to_claimed job1"] phase_error_def jobs_mark_failed
          update_job_def fields mark_completed_def)
  qed
  ultimately show ?thesis
    by (intro exI [of _ "\<lparr>s_db = ?late, s_claims = ?cs\<rparr>"] exI [of _ ?j])
      (simp add: mark_failed_def mark_completed_def demo_job_simps claimable_def Let_def)
qed

section \<open>The operations\<close>

text \<open>
  \<open>claim\<close> on every branch: it returns nothing exactly when every claimable row is locked by
  another transaction, and otherwise the unlocked claimable row that is least by file size (unknown
  sizes last), then age; that row becomes processing with one more attempt and a fresh claim
  time and heartbeat, and no other row changes.
\<close>

lemma claim_takes_least:
  assumes "claim locked now t = (r, t')"
  shows "(r = None \<longleftrightarrow> (\<forall>j\<in>set t. claimable now j \<longrightarrow> locked (j_id j)))
    \<and> (r = None \<longrightarrow> t' = t)
    \<and> (\<forall>c. r = Some c \<longrightarrow> (\<exists>j\<in>set t. claimable now j \<and> \<not> locked (j_id j)
         \<and> (\<forall>k\<in>set t. claimable now k \<and> \<not> locked (j_id k) \<longrightarrow> claim_key j \<le> claim_key k)
         \<and> c = to_claimed (j\<lparr>j_status := PROCESSING, j_attempt_count := j_attempt_count j + 1,
              j_claimed_at := Some now, j_processing_started_at := Some now,
              j_last_heartbeat_at := Some now, j_last_error := None\<rparr>)
         \<and> t' = map (\<lambda>k. if j_id k = j_id j then mark_claimed now k else k) t))"
  using assms
proof (cases rule: claim_cases)
  case empty
  then show ?thesis by auto
next
  case (claimed j)
  then show ?thesis
    by (auto simp: update_job_def mark_claimed_def [of now j] intro!: bexI [of _ j])
qed

lemma claim_takes_least_witness:
  "\<exists>c t'. claim no_lock (hours 1) [demo_job\<lparr>j_id := 1\<rparr>, demo_job\<lparr>j_file_size_bytes := None\<rparr>] = (Some c, t') \<and> c_job_id c = 1"
proof -
  let ?t = "[demo_job\<lparr>j_id := 1\<rparr>, demo_job\<lparr>j_file_size_bytes := None\<rparr>]"
  obtain r t' where r: "claim no_lock (hours 1) ?t = (r, t')" by fastforce
  have keys: "claim_key (demo_job\<lparr>j_id := 1\<rparr>) < claim_key (demo_job\<lparr>j_file_size_bytes := None\<rparr>)"
    by (simp add: claim_key_def demo_job_def less_prod_def)
  have c: "claimable (hours 1) j" if "j \<in> set ?t" for j
    using that by (auto simp: claimable_def demo_job_def)
  from claim_takes_least [OF r] c keys show ?thesis
    unfolding r by (cases r) (auto simp: no_lock_def to_claimed_def)
qed

text \<open>
  \<open>recover_stale\<close> takes exactly the unlocked processing rows whose last liveness signal (heartbeat,
  else claim time) is older than the visibility timeout. A row with attempts left is pending
  again and not claimable before its backoff ends; one without is dead-lettered. It reports one
  record per row taken, and every other row is as it was.
\<close>

lemma recover_stale_exact:
  assumes "recover_stale st locked now t = (records, t')" and "0 < job_retry_base_delay_seconds st"
  shows "length t' = length t
    \<and> map rr_job_id records = map j_id (filter (\<lambda>j. j_status j = PROCESSING \<and> j_claimed_at j \<noteq> None
         \<and> \<not> locked (j_id j) \<and> is_etl_job_stale j now) t)
    \<and> (\<forall>i<length t. let j = t ! i; j' = t' ! i in
        if \<not> recoverable locked now j then j' = j
        else if j_attempt_count j < j_max_attempts j then
          j_status j' = PENDING \<and> j_claimed_at j' = None \<and> j_attempt_count j' = j_attempt_count j
          \<and> (\<forall>later. claimable later j' \<longrightarrow> now + seconds (etl_retry_delay st (j_attempt_count j)) \<le> later)
          \<and> 0 < etl_retry_delay st (j_attempt_count j) \<and> etl_retry_delay st (j_attempt_count j) \<le> 3600
        else j_status j' = DEAD_LETTER \<and> j_attempt_count j' = j_attempt_count j)"
proof -
  have r: "records = map (\<lambda>j. recovery_record_of (recover_row st now j)) (filter (recoverable locked now) t)"
    and t': "t' = map (\<lambda>j. if recoverable locked now j then recover_row st now j else j) t"
    using assms(1) by (simp_all add: recover_stale_def)
  have ids: "j_id (recover_row st now j) = j_id j" for j by (simp add: recover_row_def)
  note delay = etl_retry_delay_bounds [OF assms(2)]
  have rows: "let j = t ! i; j' = t' ! i in
        if \<not> recoverable locked now j then j' = j
        else if j_attempt_count j < j_max_attempts j then
          j_status j' = PENDING \<and> j_claimed_at j' = None \<and> j_attempt_count j' = j_attempt_count j
          \<and> (\<forall>later. claimable later j' \<longrightarrow> now + seconds (etl_retry_delay st (j_attempt_count j)) \<le> later)
          \<and> 0 < etl_retry_delay st (j_attempt_count j) \<and> etl_retry_delay st (j_attempt_count j) \<le> 3600
        else j_status j' = DEAD_LETTER \<and> j_attempt_count j' = j_attempt_count j" if "i < length t" for i
    using that delay by (auto simp: t' Let_def recover_row_def claimable_def compute_etl_retry_eligible_at_def)
  have "map rr_job_id records = map j_id (filter (recoverable locked now) t)"
    by (simp add: r recovery_record_of_def ids)
  then show ?thesis using rows by (simp add: t' recoverable_def [abs_def])
qed

lemma recover_stale_exact_witness:
  "map rr_job_id (fst (recover_stale default_settings no_lock (hours 1) [job1])) = [11]"
  using recover_stale_exact [of default_settings no_lock "hours 1" "[job1]", OF prod.collapse [symmetric]]
  by (simp add: no_lock_def is_etl_job_stale_def demo_job_simps)

text \<open>
  The tenant's recovery takes the same rows (of the tenant) as the global one, but without the
  backoff: a row it requeues is claimable at once, where the global recovery delays it. So the
  comment "same rules as global recover_stale" does not hold.
\<close>

lemma tenant_recovery_skips_backoff:
  assumes "j \<in> set t" and "j_user_id j = u" and "recoverable locked now j"
    and "j_attempt_count j < j_max_attempts j" and "j_file_path j \<noteq> None"
    and "0 < job_retry_base_delay_seconds st"
  shows "j_id j \<in> set (ra_job_ids (fst (recover_stuck_processing_jobs u locked now t)))
    \<and> (\<exists>k\<in>set (snd (recover_stuck_processing_jobs u locked now t)). j_id k = j_id j \<and> claimable now k)
    \<and> \<not> claimable now (recover_row st now j)
    \<and> recover_row st now j \<in> set (snd (recover_stale st locked now t))"
proof -
  have "tenant_recover_row j \<in> set (snd (recover_stuck_processing_jobs u locked now t))"
    using assms(1-3) by (force simp: recover_stuck_processing_jobs_def Let_def)
  moreover have "claimable now (tenant_recover_row j) \<and> j_id (tenant_recover_row j) = j_id j"
    using assms(4,5) by (simp add: tenant_recover_row_def claimable_def)
  moreover have "\<not> claimable now (recover_row st now j)"
    using assms(4) etl_retry_delay_bounds(1) [OF assms(6), of "j_attempt_count j"]
    by (simp add: recover_row_def claimable_def compute_etl_retry_eligible_at_def seconds_def)
  ultimately show ?thesis
    using assms(1-3) by (force simp: recover_stuck_processing_jobs_def recover_stale_def Let_def)
qed

lemma tenant_recovery_skips_backoff_witness:
  "\<not> claimable (hours 1) (recover_row default_settings (hours 1) job1)
     \<and> (\<exists>k\<in>set (snd (recover_stuck_processing_jobs 7 no_lock (hours 1) [job1])). claimable (hours 1) k)"
proof -
  have "j_user_id job1 = 7" "recoverable no_lock (hours 1) job1"
    "j_attempt_count job1 < j_max_attempts job1" "j_file_path job1 \<noteq> None"
    using demo_conditions(2) by (simp_all add: demo_job_simps)
  from tenant_recovery_skips_backoff [OF _ this, of "[job1]" default_settings]
  show ?thesis by (auto simp: default_settings_def)
qed

text \<open>
  Idempotency of \<open>enqueue\<close>, on every branch of a table that satisfies the unique keys: an active
  job of the same tenant and key is returned unchanged; a finished one makes the insertion fail with
  \<open>IntegrityError\<close>, since the unique key also covers finished jobs, so a report cannot be enqueued
  again after its job has ended; otherwise a fresh pending job is appended.
\<close>

lemma enqueue_by_key:
  assumes "distinct (map (\<lambda>j. (j_user_id j, j_idempotency_key j)) t)" and "jid \<notin> j_id ` set t"
  shows "enqueue payload jid now t =
    (case List.find (\<lambda>j. j_user_id j = p_user_id payload \<and> j_idempotency_key j = p_idempotency_key payload) t of
       Some j \<Rightarrow> if j_status j = PENDING \<or> j_status j = PROCESSING then Inr (j, t) else Inl IntegrityError
     | None \<Rightarrow> Inr (new_job payload jid now, t @ [new_job payload jid now]))"
proof -
  let ?P = "\<lambda>j. j_user_id j = p_user_id payload \<and> j_idempotency_key j = p_idempotency_key payload"
  let ?act = "\<lambda>j. j_status j \<in> {PENDING, PROCESSING}"
  have shape: "List.find ?P t = None \<and> filter ?P t = [] \<or> (\<exists>j. List.find ?P t = Some j \<and> filter ?P t = [j])"
    using assms(1)
  proof (induction t)
    case (Cons a t)
    show ?case
    proof (cases "?P a")
      case True
      have "filter ?P t = []" using Cons.prems True by (force simp: filter_empty_conv)
      with True show ?thesis by simp
    next
      case False
      then show ?thesis using Cons by (simp only: find.simps filter.simps if_False) simp
    qed
  qed simp
  have act: "filter (\<lambda>j. j_user_id j = p_user_id payload \<and> j_idempotency_key j = p_idempotency_key payload
      \<and> ?act j) t = filter ?act (filter ?P t)" by (simp add: conj_ac)
  have viol: "violates_unique (new_job payload jid now) t \<longleftrightarrow> filter ?P t \<noteq> []"
    using assms(2) by (auto simp: violates_unique_def new_job_def filter_empty_conv)
  from shape show ?thesis
    unfolding enqueue_def act viol Let_def by (elim disjE exE conjE) simp_all
qed

definition demo_payload :: enqueue_payload where
  "demo_payload = \<lparr>p_user_id = 7, p_report_id = 1, p_idempotency_key = asc ''k'', p_file_path = asc ''p'',
     p_marketplace = [], p_report_type = [], p_original_filename = [], p_report_created_at = 0,
     p_job_type = [], p_max_attempts = 3, p_visibility_timeout_seconds = 1800, p_file_size_bytes = None\<rparr>"

lemma enqueue_by_key_witness:
  "enqueue demo_payload 12 9 [mark_completed 5 demo_job] = Inl IntegrityError"
  using enqueue_by_key [of "[mark_completed 5 demo_job]" 12 demo_payload 9]
  by (simp add: demo_payload_def mark_completed_def demo_job_def)

text \<open>
  One turn of the worker settles the job it claims: completed exactly when the tenant is not
  contained and parse and persist succeed without a shutdown and with the report present;
  otherwise dead-lettered when this was the last attempt, else pending again. It never stays
  processing (for a known user), and it is never \<open>FAILED\<close>.
\<close>

lemma worker_turn_settles:
  assumes "process_next_job st locked now later parse shutdown persist db = (True, db')"
    and "\<forall>j\<in>set (d_jobs db). j_user_id j \<in> set (d_users db)"
  shows "\<exists>c. fst (claim locked now (snd (recover_stale st locked now (d_jobs db)))) = Some c
    \<and> status_in (c_job_id c) (d_jobs db') = Some
        (if tg_allowed (guard_check now (c_user_id c) (d_containment db)) \<and> parse c = Phase_ok \<and> \<not> shutdown
            \<and> report_of (c_user_id c) (c_report_id c) (d_reports db) \<noteq> None \<and> persist c = Phase_ok
         then COMPLETED else if c_max_attempts c \<le> c_attempt_count c then DEAD_LETTER else PENDING)"
proof -
  let ?jobs1 = "snd (recover_stale st locked now (d_jobs db))"
  obtain r jobs2 where cl: "claim locked now ?jobs1 = (r, jobs2)" by fastforce
  with assms(1) obtain c where c: "r = Some c"
    by (cases r) (auto simp: process_next_job_def Let_def split: if_splits)
  from cl c obtain j where j: "j \<in> set ?jobs1" "c = to_claimed (mark_claimed now j)"
    "jobs2 = update_job (j_id j) (mark_claimed now) ?jobs1" by (auto elim: claim_cases)
  obtain j0 where j0: "j0 \<in> set (d_jobs db)" "j_user_id j = j_user_id j0"
    using j(1) by (auto simp: recover_stale_def recover_row_def)
  have user: "c_user_id c \<in> set (d_users db)"
    using assms(2) j0 j(2) by (simp add: to_claimed_def mark_claimed_def)
  have "status_in (j_id j) ?jobs1 \<noteq> None"
    using j(1) by (auto simp: status_in_def get_job_def find_None_iff)
  then have known: "status_in (c_job_id c) jobs2 \<noteq> None"
    using j(2,3) by (auto simp: status_in_def get_job_update to_claimed_def mark_claimed_def)
  have known': "status_in (c_job_id c) (heartbeat now (c_job_id c) jobs2) \<noteq> None"
    using known by (auto simp: heartbeat_def status_in_def get_job_update keeps_identity_def job_identity_def
        split: option.splits)
  have db': "db' = (let db2 = db\<lparr>d_jobs := jobs2\<rparr>; guard = guard_check now (c_user_id c) (d_containment db) in
      if \<not> tg_allowed guard then worker_contained st now c guard db2
      else worker_finish st later c (parse c) shutdown (persist c) (heartbeat_job now (c_job_id c) db2))"
    using assms(1) cl c by (auto simp: process_next_job_def Let_def split: if_splits)
  have "status_in (c_job_id c) (d_jobs db') = Some
        (if tg_allowed (guard_check now (c_user_id c) (d_containment db)) \<and> parse c = Phase_ok \<and> \<not> shutdown
            \<and> report_of (c_user_id c) (c_report_id c) (d_reports db) \<noteq> None \<and> persist c = Phase_ok
         then COMPLETED else if c_max_attempts c \<le> c_attempt_count c then DEAD_LETTER else PENDING)"
    unfolding db' using known known' user
    by (simp add: Let_def worker_contained_def mark_failed_status worker_finish_status heartbeat_job_def)
  with cl c show ?thesis by simp
qed

lemma worker_turn_settles_witness:
  "status_in 11 (d_jobs (snd (process_next_job default_settings no_lock (hours 0) (hours 1)
     (\<lambda>_. Phase_ok) False (\<lambda>_. Phase_ok) (demo_db [demo_job])))) = Some COMPLETED"
proof -
  let ?turn = "process_next_job default_settings no_lock (hours 0) (hours 1) (\<lambda>_. Phase_ok) False (\<lambda>_. Phase_ok) (demo_db [demo_job])"
  have claimed: "claim no_lock (hours 0) (snd (recover_stale default_settings no_lock (hours 0) [demo_job])) =
      (Some (to_claimed job1), [job1])"
    using claim_single [OF demo_conditions(1)]
    by (simp add: recover_stale_def recoverable_def job1_def) (simp add: demo_job_def)
  have guard: "tg_allowed (guard_check (hours 0) u [])" for u
    by (simp add: guard_check_def containment_row_def result_from_row_def)
  have "fst ?turn"
    using claimed guard
    by (simp add: process_next_job_def kill_switch_worker demo_db_def default_settings_def [THEN arg_cong, of maintenance_mode]
        default_settings_def [THEN arg_cong, of worker_enabled] Let_def)
  then have "?turn = (True, snd ?turn)" by (simp add: prod_eq_iff)
  from worker_turn_settles [OF this] claimed guard
  show ?thesis
    by (simp add: demo_db_def demo_report_def report_of_def to_claimed_def demo_job_simps)
qed

end
