(* ===== verification/Semantics_Governance.thy ===== *)
theory Semantics_Governance
  imports Py_Text
begin

text \<open>
  Versions of the operation semantics: the lifecycle policy with its cache
  (\<open>app/domain/semantics/governance_policy.py\<close>), the version guard
  (\<open>app/domain/inventory/semantics_version.py\<close>) and the strategy registry of
  \<open>app/parsers/wb/semantics_registry.py\<close>. The cache is a module variable in Python and an
  argument here. A set of versions is a list without duplicates.
\<close>

section \<open>Lifecycle\<close>

datatype lifecycle_status = SEM_ACTIVE | SEM_DEPRECATED | SEM_DISABLED

record lifecycle_record =
  lc_version :: pystr
  lc_status :: lifecycle_status
  lc_supported_for_rebuild :: bool
  lc_supported_for_ingest :: bool

type_synonym lifecycle_cache = "(pystr \<times> lifecycle_record) list"

definition version_1 :: pystr where "version_1 = asc ''1.0''"

definition builtin_lifecycle :: lifecycle_cache where
  "builtin_lifecycle = [(version_1, \<lparr>lc_version = version_1, lc_status = SEM_ACTIVE,
     lc_supported_for_rebuild = True, lc_supported_for_ingest = True\<rparr>)]"

text \<open>\<open>merged = dict(_BUILTIN); merged.update(records)\<close>.\<close>

definition set_lifecycle_cache :: "lifecycle_cache \<Rightarrow> lifecycle_cache" where
  "set_lifecycle_cache records = fold (\<lambda>(k, v). AList.update k v) records builtin_lifecycle"

definition clear_lifecycle_cache :: lifecycle_cache where
  "clear_lifecycle_cache = builtin_lifecycle"

definition get_lifecycle_record :: "lifecycle_cache \<Rightarrow> pystr \<Rightarrow> py_error + lifecycle_record" where
  "get_lifecycle_record cache version = (case map_of cache version of
      None \<Rightarrow> Inl (UnsupportedSemanticsVersionError version) | Some r \<Rightarrow> Inr r)"

text \<open>\<open>SEMANTICS_REGISTRY\<close> has one strategy.\<close>

datatype semantics_strategy = StrategyV1

definition semantics_registry :: "(pystr \<times> semantics_strategy) list" where
  "semantics_registry = [(version_1, StrategyV1)]"

definition assert_ingest_allowed :: "lifecycle_cache \<Rightarrow> pystr \<Rightarrow> py_error + unit" where
  "assert_ingest_allowed cache version = sbind (get_lifecycle_record cache version) (\<lambda>r.
     if \<not> lc_supported_for_ingest r \<or> lc_status r = SEM_DISABLED then
       Inl (UnsupportedSemanticsVersionError version)
     else if lc_status r = SEM_DEPRECATED then Inl (UnsupportedSemanticsVersionError version)
     else if map_of semantics_registry version = None then Inl (UnsupportedSemanticsVersionError version)
     else Inr ())"

definition assert_rebuild_allowed :: "lifecycle_cache \<Rightarrow> pystr \<Rightarrow> py_error + unit" where
  "assert_rebuild_allowed cache version = sbind (get_lifecycle_record cache version) (\<lambda>r.
     if \<not> lc_supported_for_rebuild r \<or> lc_status r = SEM_DISABLED then
       Inl (UnsupportedSemanticsVersionError version)
     else if map_of semantics_registry version = None then Inl (UnsupportedSemanticsVersionError version)
     else Inr ())"

section \<open>Versions and strategies\<close>

definition require_semantics_version :: "pystr option \<Rightarrow> py_error + pystr" where
  "require_semantics_version version = (case version of
      None \<Rightarrow> Inl (UnsupportedSemanticsVersionError (asc ''<missing>''))
    | Some v \<Rightarrow> if strip v = [] then Inl (UnsupportedSemanticsVersionError (asc ''<missing>''))
        else Inr (strip v))"

text \<open>The loop of \<open>build_strategy_cache\<close> over the versions.\<close>

fun build_strategy_cache :: "lifecycle_cache \<Rightarrow> pystr list \<Rightarrow> py_error + (pystr \<times> semantics_strategy) list" where
  "build_strategy_cache cache [] = Inr []"
| "build_strategy_cache cache (version # vs) =
     sbind (require_semantics_version (Some version)) (\<lambda>normalized.
     sbind (assert_rebuild_allowed cache normalized) (\<lambda>_.
     (case map_of semantics_registry normalized of
        None \<Rightarrow> Inl (UnsupportedSemanticsVersionError normalized)
      | Some strategy \<Rightarrow> sbind (build_strategy_cache cache vs) (\<lambda>c. Inr ((normalized, strategy) # c)))))"

definition collect_semantics_versions :: "pystr list \<Rightarrow> py_error + pystr list" where
  "collect_semantics_versions versions =
     sbind (smap (\<lambda>v. require_semantics_version (Some v)) versions) (\<lambda>vs. Inr (remdups vs))"

definition get_semantics_strategy :: "lifecycle_cache \<Rightarrow> pystr \<Rightarrow> py_error + semantics_strategy" where
  "get_semantics_strategy cache version =
     sbind (require_semantics_version (Some version)) (\<lambda>normalized.
     sbind (assert_ingest_allowed cache normalized) (\<lambda>_.
     (case map_of semantics_registry normalized of
        None \<Rightarrow> Inl (UnsupportedSemanticsVersionError normalized)
      | Some strategy \<Rightarrow> Inr strategy)))"

section \<open>Laws\<close>

lemma strip_version_1 [simp]: "strip version_1 = version_1"
  by (simp add: version_1_def asc_def strip_def is_space_def)

lemma version_1_not_Nil [simp]: "version_1 \<noteq> []"
  by (simp add: version_1_def asc_def)

lemma require_semantics_version_1 [simp]: "require_semantics_version (Some version_1) = Inr version_1"
  by (simp add: require_semantics_version_def)

lemma require_semantics_version_strips:
  "require_semantics_version v = Inr w \<Longrightarrow> strip w = w \<and> w \<noteq> [] \<and> require_semantics_version (Some w) = Inr w"
  by (auto simp: require_semantics_version_def split: option.splits if_splits)

lemma registry_lookup [simp]: "map_of semantics_registry v = (if v = version_1 then Some StrategyV1 else None)"
  by (simp add: semantics_registry_def)

lemma builtin_rebuild_allowed [simp]:
  "assert_rebuild_allowed builtin_lifecycle v = (if v = version_1 then Inr () else Inl (UnsupportedSemanticsVersionError v))"
  by (simp add: assert_rebuild_allowed_def get_lifecycle_record_def builtin_lifecycle_def)

lemma builtin_ingest_allowed [simp]:
  "assert_ingest_allowed builtin_lifecycle v = (if v = version_1 then Inr () else Inl (UnsupportedSemanticsVersionError v))"
  by (simp add: assert_ingest_allowed_def get_lifecycle_record_def builtin_lifecycle_def)

text \<open>What may be ingested may be rebuilt, provided the record supports rebuilding.\<close>

lemma ingest_then_rebuild:
  assumes "assert_ingest_allowed cache v = Inr ()"
    and "\<And>r. map_of cache v = Some r \<Longrightarrow> lc_supported_for_rebuild r"
  shows "assert_rebuild_allowed cache v = Inr ()"
  using assms by (auto simp: assert_ingest_allowed_def assert_rebuild_allowed_def get_lifecycle_record_def
      sbind_Inr_iff split: option.splits if_splits)

lemma build_strategy_cache_ok:
  "build_strategy_cache cache vs = Inr c \<Longrightarrow> v \<in> set vs \<Longrightarrow> strip v = v \<Longrightarrow>
     v = version_1 \<and> map_of c v = Some StrategyV1"
  by (induction vs arbitrary: c)
    (auto simp: sbind_Inr_iff require_semantics_version_def split: if_splits)

lemma collect_semantics_versions_set:
  assumes "collect_semantics_versions versions = Inr vs"
  shows "set vs = strip ` set versions \<and> (\<forall>v\<in>set versions. strip v \<noteq> [])"
proof -
  obtain ws where ws: "smap (\<lambda>v. require_semantics_version (Some v)) versions = Inr ws" and vs: "vs = remdups ws"
    using assms by (auto simp: collect_semantics_versions_def sbind_Inr_iff)
  have "list_all2 (\<lambda>v w. w = strip v \<and> strip v \<noteq> []) versions ws"
    using smap_Inr_list_all2 [OF ws]
    by (rule list_all2_mono) (auto simp: require_semantics_version_def split: if_splits)
  then have "set ws = strip ` set versions \<and> (\<forall>v\<in>set versions. strip v \<noteq> [])"
    by (induction rule: list_all2_induct) auto
  then show ?thesis by (simp add: vs)
qed

end
