(* ===== verification/Py_Decimal.thy ===== *)
theory Py_Decimal
  imports Prelude
begin

text \<open>
  Python's \<open>decimal.Decimal\<close> under the default context (28 significant digits, half-even
  rounding), by value: a finite \<open>Decimal\<close> is the rational it denotes, and every arithmetic
  operation rounds its exact result to the context with \<open>dctx\<close>. The exponent limits of the
  context (\<open>Emin\<close>, \<open>Emax\<close> = 999999) and the special values NaN and Infinity are outside the
  model. The locale \<open>rounding\<close> states when a rounding is the identity (values on a decimal grid
  below a limit) and derives that sums are then exact; it is interpreted on \<open>dctx\<close>.
\<close>

section \<open>Decimal digits\<close>

type_synonym decimal = rat

fun ndigits :: "nat \<Rightarrow> nat" where
  "ndigits n = (if n = 0 then 0 else Suc (ndigits (n div 10)))"

declare ndigits.simps [simp del]

lemma ndigits_0 [simp]: "ndigits 0 = 0"
  by (simp add: ndigits.simps)

lemma ndigits_upper: "n < 10 ^ ndigits n"
proof (induction n rule: ndigits.induct)
  case (1 n)
  show ?case
  proof (cases "n = 0")
    case False
    with 1 have "n div 10 < 10 ^ ndigits (n div 10)" by simp
    then have "n < 10 * 10 ^ ndigits (n div 10)" by (simp add: div_less_iff_less_mult mult.commute)
    with False show ?thesis by (simp add: ndigits.simps [of n])
  qed simp
qed

lemma ndigits_lower: "0 < n \<Longrightarrow> 10 ^ (ndigits n - 1) \<le> n"
proof (induction n rule: ndigits.induct)
  case (1 n)
  show ?case
  proof (cases "n < 10")
    case True
    with "1.prems" show ?thesis by (simp add: ndigits.simps [of n])
  next
    case False
    then have pos: "0 < n div 10" by (simp add: div_greater_zero_iff)
    with "1.IH" "1.prems" have IH: "10 ^ (ndigits (n div 10) - 1) \<le> n div 10" by simp
    have "0 < ndigits (n div 10)" using pos by (simp add: ndigits.simps [of "n div 10"])
    then have "10 ^ (ndigits n - 1) = 10 * (10::nat) ^ (ndigits (n div 10) - 1)"
      using "1.prems" by (cases "ndigits (n div 10)") (simp_all add: ndigits.simps [of n])
    also have "\<dots> \<le> 10 * (n div 10)" using IH by simp
    also have "\<dots> \<le> n" by simp
    finally show ?thesis .
  qed
qed

lemma ndigits_pos: "0 < n \<Longrightarrow> 0 < ndigits n"
  by (simp add: ndigits.simps)

text \<open>The adjusted exponent (\<open>Decimal.adjusted()\<close>): the position of the leading digit.\<close>

definition adjusted :: "rat \<Rightarrow> int" where
  "adjusted x = (let a = \<bar>x\<bar> in
     if 1 \<le> a then int (ndigits (nat \<lfloor>a\<rfloor>)) - 1
     else - int (ndigits (nat (\<lceil>1 / a\<rceil> - 1))))"

lemma powi_nat_minus: "0 < k \<Longrightarrow> (10::rat) powi (int k - 1) = 10 ^ (k - 1)"
  by (cases k) simp_all

lemma adjusted_ge1:
  assumes "1 \<le> \<bar>x\<bar>"
  shows "10 powi adjusted x \<le> \<bar>x\<bar>" and "\<bar>x\<bar> < 10 powi (adjusted x + 1)"
proof -
  define n where "n = nat \<lfloor>\<bar>x\<bar>\<rfloor>"
  have n: "of_nat n \<le> \<bar>x\<bar>" "\<bar>x\<bar> < of_nat n + 1" "0 < n"
    using assms by (simp_all add: n_def of_nat_nat) linarith+
  have adj: "adjusted x = int (ndigits n) - 1"
    using assms by (simp add: adjusted_def n_def)
  have "(10::rat) ^ (ndigits n - 1) \<le> of_nat n"
    using ndigits_lower [OF n(3)] by (metis of_nat_le_iff of_nat_numeral of_nat_power)
  also note n(1)
  finally show "10 powi adjusted x \<le> \<bar>x\<bar>"
    using n by (simp only: adj powi_nat_minus [OF ndigits_pos])
  have "Suc n \<le> 10 ^ ndigits n" using ndigits_upper [of n] by simp
  then have le: "of_nat (Suc n) \<le> (10::rat) ^ ndigits n"
    by (metis of_nat_le_iff of_nat_numeral of_nat_power)
  have "\<bar>x\<bar> < of_nat (Suc n)" using n by simp
  also note le
  finally show "\<bar>x\<bar> < 10 powi (adjusted x + 1)"
    by (simp add: adj)
qed

lemma adjusted_lt1:
  assumes "\<bar>x\<bar> < 1" and "x \<noteq> 0"
  shows "10 powi adjusted x \<le> \<bar>x\<bar>" and "\<bar>x\<bar> < 10 powi (adjusted x + 1)"
proof -
  define m where "m = nat (\<lceil>1 / \<bar>x\<bar>\<rceil> - 1)"
  have a: "0 < \<bar>x\<bar>" using assms by simp
  then have inv: "1 < 1 / \<bar>x\<bar>" using assms by (simp add: field_simps)
  define c where "c = \<lceil>1 / \<bar>x\<bar>\<rceil>"
  have c: "1 < c" "of_int c - 1 < 1 / \<bar>x\<bar>" "1 / \<bar>x\<bar> \<le> of_int c"
    using inv ceiling_correct [of "1 / \<bar>x\<bar>"] by (simp_all add: c_def)
  have "m = nat (c - 1)" by (simp add: m_def c_def)
  with c have m: "0 < m" "of_nat m < 1 / \<bar>x\<bar>" "1 / \<bar>x\<bar> \<le> of_nat m + 1"
    by (simp_all add: of_nat_nat)
  have adj: "adjusted x = - int (ndigits m)"
    using assms by (simp add: adjusted_def m_def)
  have "Suc m \<le> 10 ^ ndigits m" using ndigits_upper [of m] by simp
  then have "of_nat (Suc m) \<le> (10::rat) ^ ndigits m"
    by (metis of_nat_le_iff of_nat_numeral of_nat_power)
  then have "1 / \<bar>x\<bar> \<le> 10 ^ ndigits m" using m by simp
  then have "1 / 10 ^ ndigits m \<le> \<bar>x\<bar>" using a by (simp add: field_simps)
  then show "10 powi adjusted x \<le> \<bar>x\<bar>"
    by (simp add: adj power_int_minus field_simps)
  have "(10::rat) ^ (ndigits m - 1) \<le> of_nat m"
    using ndigits_lower [OF m(1)] by (metis of_nat_le_iff of_nat_numeral of_nat_power)
  also note m(2)
  finally have "10 ^ (ndigits m - 1) < 1 / \<bar>x\<bar>" .
  then have lt: "\<bar>x\<bar> < 1 / 10 ^ (ndigits m - 1)" using a by (simp add: field_simps)
  have "adjusted x + 1 = - int (ndigits m - 1)"
    using ndigits_pos [OF m(1)] by (simp add: adj)
  with lt show "\<bar>x\<bar> < 10 powi (adjusted x + 1)"
    by (simp add: power_int_minus field_simps)
qed

lemma adjusted_lower: "x \<noteq> 0 \<Longrightarrow> 10 powi adjusted x \<le> \<bar>x\<bar>"
  using adjusted_ge1(1) adjusted_lt1(1) linorder_not_le by blast

lemma adjusted_upper: "x \<noteq> 0 \<Longrightarrow> \<bar>x\<bar> < 10 powi (adjusted x + 1)"
  using adjusted_ge1(2) adjusted_lt1(2) linorder_not_le by blast

section \<open>Half-even rounding\<close>

definition round_half_even :: "rat \<Rightarrow> int" where
  "round_half_even x = (let f = \<lfloor>x\<rfloor>; r = x - of_int f in
     if r < 1 / 2 then f else if 1 / 2 < r then f + 1 else if even f then f else f + 1)"

lemma round_half_even_of_int [simp]: "round_half_even (of_int n) = n"
  by (simp add: round_half_even_def)

lemma round_half_even_0 [simp]: "round_half_even 0 = 0"
  using round_half_even_of_int [of 0] by simp

lemma round_half_even_error: "\<bar>of_int (round_half_even x) - x\<bar> \<le> 1 / 2"
proof -
  define f where "f = \<lfloor>x\<rfloor>"
  have "of_int f \<le> x" "x < of_int f + 1"
    using floor_correct [of x] by (simp_all add: f_def)
  then show ?thesis by (simp add: round_half_even_def Let_def flip: f_def)
qed

lemma round_half_even_ge:
  assumes "of_int n \<le> x"
  shows "n \<le> round_half_even x"
proof -
  have "n \<le> \<lfloor>x\<rfloor>" using assms by (simp add: le_floor_iff)
  then show ?thesis by (auto simp: round_half_even_def Let_def)
qed

lemma round_half_even_minus: "round_half_even (- x) = - round_half_even x"
proof (cases "x \<in> \<int>")
  case True
  then obtain n where "x = of_int n" by (auto elim: Ints_cases)
  then show ?thesis
    by (metis of_int_minus round_half_even_of_int)
next
  case False
  then have fl: "\<lfloor>- x\<rfloor> = - \<lfloor>x\<rfloor> - 1"
    by (simp add: floor_minus ceiling_altdef) (metis Ints_of_int)
  show ?thesis
    by (auto simp: round_half_even_def Let_def fl algebra_simps)
qed

lemma round_half_even_mono:
  assumes "x \<le> y"
  shows "round_half_even x \<le> round_half_even y"
proof (cases "\<lfloor>x\<rfloor> = \<lfloor>y\<rfloor>")
  case True
  with assms show ?thesis by (auto simp: round_half_even_def Let_def)
next
  case False
  have "round_half_even x \<le> \<lfloor>x\<rfloor> + 1" by (simp add: round_half_even_def Let_def)
  also have "\<dots> \<le> \<lfloor>y\<rfloor>" using floor_mono [OF assms] False by simp
  also have "\<dots> \<le> round_half_even y" by (rule round_half_even_ge) simp
  finally show ?thesis .
qed

section \<open>The context and its operations\<close>

definition dctx :: "rat \<Rightarrow> decimal" where
  "dctx x = (if x = 0 then 0 else
     (let u = 10 powi (adjusted x - 27) in of_int (round_half_even (x / u)) * u))"

definition dadd :: "decimal \<Rightarrow> decimal \<Rightarrow> decimal" where "dadd a b = dctx (a + b)"
definition dsub :: "decimal \<Rightarrow> decimal \<Rightarrow> decimal" where "dsub a b = dctx (a - b)"
definition dmul :: "decimal \<Rightarrow> decimal \<Rightarrow> decimal" where "dmul a b = dctx (a * b)"
definition ddiv :: "decimal \<Rightarrow> decimal \<Rightarrow> decimal" where "ddiv a b = dctx (a / b)"
definition dneg :: "decimal \<Rightarrow> decimal" where "dneg a = dctx (- a)"
definition dabs :: "decimal \<Rightarrow> decimal" where "dabs a = dctx \<bar>a\<bar>"

text \<open>\<open>sum(xs, start=Decimal("0"))\<close>: additions from the left, each rounded.\<close>

definition dsum :: "decimal list \<Rightarrow> decimal" where
  "dsum xs = foldl dadd 0 xs"

text \<open>
  \<open>x.quantize(Decimal("1E-k"))\<close>: rounds to \<open>k\<close> places and raises \<open>InvalidOperation\<close> when the
  coefficient would need more than 28 digits.
\<close>

definition dquantize :: "nat \<Rightarrow> decimal \<Rightarrow> py_error + decimal" where
  "dquantize k x = (let n = round_half_even (x * 10 ^ k) in
     if 10 ^ 28 \<le> \<bar>n\<bar> then Inl InvalidOperation else Inr (of_int n / 10 ^ k))"

lemma dctx_0 [simp]: "dctx 0 = 0"
  by (simp add: dctx_def)

lemma adjusted_minus [simp]: "adjusted (- x) = adjusted x"
  by (simp add: adjusted_def)

lemma dctx_minus [simp]: "dctx (- x) = - dctx x"
  by (simp add: dctx_def Let_def round_half_even_minus flip: minus_divide_left)

lemma dctx_pos: "0 < x \<Longrightarrow> 0 < dctx x"
proof -
  assume x: "0 < x"
  define u :: rat where "u = 10 powi (adjusted x - 27)"
  have u: "0 < u" by (simp add: u_def)
  have "10 powi adjusted x \<le> x" using adjusted_lower [of x] x by simp
  moreover have "10 powi adjusted x = 10 ^ 27 * u"
    by (simp add: u_def power_int_diff)
  ultimately have "of_int 1 \<le> x / u" using u by (simp add: field_simps)
  then have "1 \<le> round_half_even (x / u)" by (rule round_half_even_ge)
  then show ?thesis
    using x u by (simp add: dctx_def flip: u_def)
qed

lemma dctx_sgn [simp]: "0 < dctx x \<longleftrightarrow> 0 < x" "dctx x < 0 \<longleftrightarrow> x < 0" "dctx x = 0 \<longleftrightarrow> x = 0"
  using dctx_pos [of x] dctx_pos [of "- x"] by (cases x "0::rat" rule: linorder_cases; simp)+

lemma dctx_nonneg [simp]: "0 \<le> dctx x \<longleftrightarrow> 0 \<le> x"
  using dctx_sgn [of x] by (metis linorder_not_le)

lemma dabs_nonneg [simp]: "0 \<le> dabs x"
  by (simp add: dabs_def)

lemma dabs_eq_0 [simp]: "dabs x = 0 \<longleftrightarrow> x = 0"
  by (simp add: dabs_def)

text \<open>Rounding to the context is monotone.\<close>

lemma dctx_binade:
  assumes "0 < x"
  shows "10 powi adjusted x \<le> dctx x" and "dctx x \<le> 10 powi (adjusted x + 1)"
proof -
  define u :: rat where "u = 10 powi (adjusted x - 27)"
  have u: "0 < u" by (simp add: u_def)
  have dctx: "dctx x = of_int (round_half_even (x / u)) * u" using assms by (simp add: dctx_def Let_def u_def)
  have ends: "10 powi adjusted x = of_int (10 ^ 27) * u" "10 powi (adjusted x + 1) = of_int (10 ^ 28) * u"
    by (simp_all add: u_def power_int_diff power_int_add)
  have "of_int (10 ^ 27) \<le> x / u" using adjusted_lower [of x] assms u unfolding ends by (simp add: field_simps)
  then have "10 ^ 27 \<le> round_half_even (x / u)" by (rule round_half_even_ge)
  then show "10 powi adjusted x \<le> dctx x" unfolding ends dctx
    using u by (intro mult_right_mono) (simp_all only: of_int_le_iff less_imp_le)
  have "x / u \<le> of_int (10 ^ 28)" using adjusted_upper [of x] assms u unfolding ends by (simp add: field_simps)
  then have "round_half_even (x / u) \<le> 10 ^ 28"
    using round_half_even_mono [of "x / u" "of_int (10 ^ 28)"] by (simp only: round_half_even_of_int)
  then show "dctx x \<le> 10 powi (adjusted x + 1)" unfolding ends dctx
    using u by (intro mult_right_mono) (simp_all only: of_int_le_iff less_imp_le)
qed

lemma dctx_mono_pos:
  assumes "0 < x" and "x \<le> y"
  shows "dctx x \<le> dctx y"
proof (cases "adjusted x < adjusted y")
  case True
  have "dctx x \<le> 10 powi (adjusted x + 1)" using assms by (intro dctx_binade)
  also have "\<dots> \<le> 10 powi adjusted y" using True by (intro power_int_increasing) simp_all
  also have "\<dots> \<le> dctx y" using assms by (intro dctx_binade) simp
  finally show ?thesis .
next
  case False
  have "10 powi adjusted x < (10::rat) powi (adjusted y + 1)"
    using adjusted_lower [of x] adjusted_upper [of y] assms by simp
  moreover have "(10::rat) powi (adjusted y + 1) \<le> 10 powi adjusted x" if "adjusted y < adjusted x"
    using that by (intro power_int_increasing) simp_all
  ultimately have "adjusted x = adjusted y" using False by linarith
  with assms show ?thesis
    by (simp add: dctx_def Let_def) (intro mult_right_mono round_half_even_mono divide_right_mono, simp_all)
qed

lemma dctx_mono:
  assumes "x \<le> y"
  shows "dctx x \<le> dctx y"
proof (cases "0 < x \<or> y < 0")
  case True
  then show ?thesis
  proof
    assume "y < 0"
    with dctx_mono_pos [of "- y" "- x"] assms show ?thesis by simp
  qed (use assms in \<open>simp add: dctx_mono_pos\<close>)
next
  case False
  then have "dctx x \<le> 0" "0 \<le> dctx y" using dctx_sgn(1) [of x] by (simp_all add: not_less flip: not_less)
  then show ?thesis by (rule order_trans)
qed

lemma adjusted_unique:
  assumes "10 powi a \<le> \<bar>x\<bar>" and "\<bar>x\<bar> < 10 powi (a + 1)"
  shows "adjusted x = a"
proof -
  have "(0::rat) < 10 powi a" by simp
  also note assms(1)
  finally have "x \<noteq> 0" by simp
  then have "(10::rat) powi adjusted x < 10 powi (a + 1)" "(10::rat) powi a < 10 powi (adjusted x + 1)"
    using assms adjusted_lower [of x] adjusted_upper [of x] by simp_all
  then show ?thesis
    using power_int_increasing [of "a + 1" "adjusted x" "10::rat"] power_int_increasing [of "adjusted x + 1" a "10::rat"]
    by (cases "a + 1 \<le> adjusted x \<or> adjusted x + 1 \<le> a") auto
qed

text \<open>A result of an operation is a value of the context: rounding it again changes nothing.\<close>

lemma dctx_idem [simp]: "dctx (dctx x) = dctx x"
proof -
  have pos: "dctx (dctx x) = dctx x" if "0 < x" for x
  proof (cases "dctx x = 10 powi (adjusted x + 1)")
    case True
    define a where "a = adjusted x + 1"
    have "(10::rat) powi a < 10 powi (a + 1)" by (rule power_int_strict_increasing) simp_all
    then have "adjusted (10 powi a) = a" by (intro adjusted_unique) simp_all
    moreover have "(10::rat) powi a / 10 powi (a - 27) = of_int (10 ^ 27)" by (simp add: power_int_diff)
    ultimately have "dctx (10 powi a) = of_int (10 ^ 27) * 10 powi (a - 27)"
      unfolding dctx_def Let_def by (simp only: round_half_even_of_int) simp
    then show ?thesis by (simp add: True power_int_diff flip: a_def)
  next
    case False
    define u :: rat where "u = 10 powi (adjusted x - 27)"
    have val: "dctx x = of_int (round_half_even (x / u)) * u" using that by (simp add: dctx_def Let_def u_def)
    then have quot: "dctx x / u = of_int (round_half_even (x / u))" by (simp add: u_def)
    have "adjusted (dctx x) = adjusted x"
      using dctx_binade [OF that] False dctx_pos [OF that] by (intro adjusted_unique) simp_all
    then have "dctx (dctx x) = of_int (round_half_even (dctx x / u)) * u"
      using that by (simp add: dctx_def [of "dctx x"] Let_def flip: u_def)
    also have "\<dots> = of_int (round_half_even (x / u)) * u" by (simp only: quot round_half_even_of_int)
    also have "\<dots> = dctx x" by (rule val [symmetric])
    finally show ?thesis .
  qed
  then show ?thesis using pos [of "- x"] by (cases x "0::rat" rule: linorder_cases) simp_all
qed

text \<open>The relative error of one operation: half a unit in the 28th digit.\<close>

lemma dctx_relative_error: "\<bar>dctx x - x\<bar> \<le> \<bar>x\<bar> / (2 * 10 ^ 27)"
proof (cases "x = 0")
  case False
  define u :: rat where "u = 10 powi (adjusted x - 27)"
  have u: "0 < u" by (simp add: u_def)
  have "dctx x - x = (of_int (round_half_even (x / u)) - x / u) * u"
    using False u by (simp add: dctx_def algebra_simps flip: u_def)
  then have "\<bar>dctx x - x\<bar> = \<bar>of_int (round_half_even (x / u)) - x / u\<bar> * u"
    using u by (simp add: abs_mult)
  also have "\<dots> \<le> 1 / 2 * u"
    using round_half_even_error [of "x / u"] u by (intro mult_right_mono) simp_all
  also have "\<dots> \<le> \<bar>x\<bar> / (2 * 10 ^ 27)"
  proof -
    have "10 ^ 27 * u = 10 powi adjusted x" by (simp add: u_def power_int_diff)
    also have "\<dots> \<le> \<bar>x\<bar>" using adjusted_lower [OF False] .
    finally show ?thesis by (simp add: field_simps)
  qed
  finally show ?thesis .
qed simp

section \<open>Exact amounts\<close>

text \<open>
  \<open>on_grid s x\<close>: \<open>x\<close> has at most \<open>s\<close> decimal places. \<open>exact_amount s x\<close>: in addition it has at
  most 28 significant digits at that scale. Money in the ledgers has 2 or 4 places.
\<close>

definition on_grid :: "nat \<Rightarrow> rat \<Rightarrow> bool" where
  "on_grid s x \<longleftrightarrow> x * 10 ^ s \<in> \<int>"

definition exact_amount :: "nat \<Rightarrow> rat \<Rightarrow> bool" where
  "exact_amount s x \<longleftrightarrow> on_grid s x \<and> \<bar>x\<bar> < 10 ^ 28 / 10 ^ s"

lemma on_grid_0 [simp]: "on_grid s 0"
  by (simp add: on_grid_def)

lemma on_grid_add [intro]: "on_grid s x \<Longrightarrow> on_grid s y \<Longrightarrow> on_grid s (x + y)"
  by (simp add: on_grid_def distrib_right)

lemma on_grid_minus [simp]: "on_grid s (- x) \<longleftrightarrow> on_grid s x"
  by (metis Ints_minus add.inverse_inverse minus_mult_left on_grid_def)

lemma on_grid_diff [intro]: "on_grid s x \<Longrightarrow> on_grid s y \<Longrightarrow> on_grid s (x - y)"
  using on_grid_add [of s x "- y"] by simp

lemma on_grid_abs [simp]: "on_grid s \<bar>x\<bar> \<longleftrightarrow> on_grid s x"
  by (simp add: abs_if)

lemma on_grid_mult_int [intro]: "on_grid s x \<Longrightarrow> on_grid s (x * of_int k)"
  by (metis Ints_mult Ints_of_int mult.assoc mult.commute on_grid_def)

lemma on_grid_of_int [simp]: "on_grid s (of_int k)"
  by (metis Ints_mult Ints_of_int Ints_power Ints_numeral on_grid_def)

lemma on_grid_numeral [simp]: "on_grid s (numeral k)" "on_grid s 1"
  using on_grid_of_int [of s "numeral k"] on_grid_of_int [of s 1] by simp_all

lemma on_grid_sum_list: "(\<And>x. x \<in> set xs \<Longrightarrow> on_grid s x) \<Longrightarrow> on_grid s (\<Sum>x\<leftarrow>xs. x)"
  by (induction xs) auto

lemma dctx_exact:
  assumes "exact_amount s x"
  shows "dctx x = x"
proof (cases "x = 0")
  case False
  obtain n where n: "x * 10 ^ s = of_int n"
    using assms by (auto simp: exact_amount_def on_grid_def elim: Ints_cases)
  have "10 powi adjusted x \<le> \<bar>x\<bar>" by (rule adjusted_lower [OF False])
  also have "\<bar>x\<bar> < 10 powi (28 - int s)"
    using assms by (simp add: exact_amount_def power_int_diff)
  finally have "adjusted x < 28 - int s"
    using power_int_increasing [of "28 - int s" "adjusted x" "10::rat"] by (meson linorder_not_le one_less_numeral_iff semiring_norm(76) less_imp_le one_le_numeral)
  then have "0 \<le> - int s - (adjusted x - 27)" by simp
  then obtain j where j: "- int s - (adjusted x - 27) = int j" by (rule nonneg_int_cases)
  have "x / 10 powi (adjusted x - 27) = (x * 10 ^ s) * 10 powi (- int s - (adjusted x - 27))"
    by (simp add: power_int_diff power_int_minus power_int_add field_simps)
  also have "\<dots> = of_int (n * 10 ^ j)" by (simp add: n j)
  finally have "of_int (round_half_even (x / 10 powi (adjusted x - 27))) = x / 10 powi (adjusted x - 27)"
    by (metis round_half_even_of_int)
  with False show ?thesis by (simp add: dctx_def Let_def)
qed simp

text \<open>
  A rounding that is the identity on a grid of amounts: the interface under which sums of
  money are exact, whatever the order of the additions.
\<close>

locale rounding =
  fixes rnd :: "rat \<Rightarrow> rat"
    and s :: nat
    and lim :: rat
  assumes exact: "on_grid s x \<Longrightarrow> \<bar>x\<bar> < lim \<Longrightarrow> rnd x = x"
begin

lemma foldl_exact:
  "on_grid s a \<Longrightarrow> (\<And>x. x \<in> set xs \<Longrightarrow> on_grid s x) \<Longrightarrow> \<bar>a\<bar> + (\<Sum>x\<leftarrow>xs. \<bar>x\<bar>) < lim \<Longrightarrow>
    foldl (\<lambda>u v. rnd (u + v)) a xs = a + (\<Sum>x\<leftarrow>xs. x)"
proof (induction xs arbitrary: a)
  case Nil
  then show ?case by simp
next
  case (Cons x xs)
  have nonneg: "0 \<le> (\<Sum>x\<leftarrow>xs. \<bar>x\<bar>)" by (rule sum_list_nonneg) auto
  have tri: "\<bar>a + x\<bar> \<le> \<bar>a\<bar> + \<bar>x\<bar>" by (rule abs_triangle_ineq)
  have grid: "on_grid s (a + x)" using Cons.prems by auto
  have "rnd (a + x) = a + x"
    using Cons.prems nonneg tri by (intro exact [OF grid]) simp
  moreover have "foldl (\<lambda>u v. rnd (u + v)) (a + x) xs = a + x + (\<Sum>x\<leftarrow>xs. x)"
    using Cons.prems tri grid by (intro Cons.IH) auto
  ultimately show ?case by simp
qed

lemma sum_exact:
  "(\<And>x. x \<in> set xs \<Longrightarrow> on_grid s x) \<Longrightarrow> (\<Sum>x\<leftarrow>xs. \<bar>x\<bar>) < lim \<Longrightarrow>
    foldl (\<lambda>u v. rnd (u + v)) 0 xs = (\<Sum>x\<leftarrow>xs. x)"
  using foldl_exact [of 0 xs] by simp

end

interpretation ctx: rounding dctx s "10 ^ 28 / 10 ^ s" for s
  by unfold_locales (rule dctx_exact, simp add: exact_amount_def)

lemma dadd_exact: "exact_amount s (a + b) \<Longrightarrow> dadd a b = a + b"
  by (simp add: dadd_def dctx_exact)

lemma dsub_exact: "exact_amount s (a - b) \<Longrightarrow> dsub a b = a - b"
  by (simp add: dsub_def dctx_exact)

lemma dmul_exact: "exact_amount s (a * b) \<Longrightarrow> dmul a b = a * b"
  by (simp add: dmul_def dctx_exact)

lemma dabs_exact: "exact_amount s a \<Longrightarrow> dabs a = \<bar>a\<bar>"
  by (rule dabs_def [THEN trans], rule dctx_exact) (simp add: exact_amount_def)

lemma dneg_exact: "exact_amount s a \<Longrightarrow> dneg a = - a"
  by (simp add: dneg_def dctx_exact)

lemma dadd_0 [simp]: "dadd 0 a = dctx a" "dadd a 0 = dctx a"
  by (simp_all add: dadd_def)

text \<open>\<open>amounts_within s L xs\<close>: the amounts \<open>xs\<close> have \<open>s\<close> places and their absolute values sum to at most \<open>L\<close>.\<close>

definition amounts_within :: "nat \<Rightarrow> rat \<Rightarrow> rat list \<Rightarrow> bool" where
  "amounts_within s L xs \<longleftrightarrow> (\<forall>x\<in>set xs. on_grid s x) \<and> (\<Sum>x\<leftarrow>xs. \<bar>x\<bar>) \<le> L"

lemma dsum_exact:
  assumes "amounts_within s L xs" and "L < 10 ^ 28 / 10 ^ s"
  shows "dsum xs = (\<Sum>x\<leftarrow>xs. x)"
proof -
  have "foldl (\<lambda>u v. dctx (u + v)) 0 xs = (\<Sum>x\<leftarrow>xs. x)"
    using assms by (intro ctx.sum_exact [of xs s]) (auto simp: amounts_within_def)
  then show ?thesis by (simp add: dsum_def dadd_def [abs_def])
qed

lemma amounts_sum_bound: "amounts_within s L xs \<Longrightarrow> \<bar>\<Sum>x\<leftarrow>xs. x\<bar> \<le> L"
  using sum_list_abs [of xs] by (simp add: amounts_within_def)

lemma amounts_filter: "amounts_within s L xs \<Longrightarrow> amounts_within s L (filter P xs)"
proof -
  have "(\<Sum>x\<leftarrow>filter P xs. \<bar>x\<bar>) \<le> (\<Sum>x\<leftarrow>xs. \<bar>x\<bar>)"
    by (induction xs) auto
  then show "amounts_within s L xs \<Longrightarrow> amounts_within s L (filter P xs)"
    by (auto simp: amounts_within_def)
qed

lemma amounts_map_abs: "amounts_within s L xs \<Longrightarrow> amounts_within s L (map abs xs)"
  by (simp add: amounts_within_def comp_def)

lemma dsum_Nil [simp]: "dsum [] = 0"
  by (simp add: dsum_def)

end
