(* ===== verification/Inventory_Ledger.thy ===== *)
theory Inventory_Ledger
  imports Semantics_Governance Py_Decimal
begin

text \<open>
  The inventory ledger rows (\<open>app/domain/inventory/ledger_row.py\<close>, \<open>types.py\<close>,
  \<open>app/models/inventory/enums.py\<close>), the snapshot drafts (\<open>snapshot_types.py\<close>) and the version 1
  classification of a movement into the buckets of a day (\<open>OperationSemanticsStrategyV1\<close> in
  \<open>app/parsers/wb/semantics_registry.py\<close>). The locale \<open>movement_semantics\<close> is what the reconstruction
  asks of a classification.
\<close>

section \<open>Types\<close>

datatype inventory_op = I_INBOUND | I_SALE | I_RETURN | I_LOGISTICS_LOSS | I_WAREHOUSE_LOSS
  | I_DEFECT | I_WRITEOFF | I_TRANSFER | I_COMPENSATION | I_ADJUSTMENT

record ledger_row =
  lr_operation_date :: date
  lr_sku :: "pystr option"
  lr_nm_id :: "pystr option"
  lr_warehouse_name :: "pystr option"
  lr_operation_type :: inventory_op
  lr_quantity_delta :: int
  lr_cost_per_unit :: "decimal option"
  lr_sale_price_per_unit :: "decimal option"
  lr_semantics_version :: pystr
  lr_source_row_id :: pystr

record stock_snapshot =
  ss_snapshot_date :: date
  ss_sku :: "pystr option"
  ss_nm_id :: "pystr option"
  ss_warehouse_name :: "pystr option"
  ss_opening_stock :: int
  ss_inbound_units :: int
  ss_sold_units :: int
  ss_returned_units :: int
  ss_lost_units :: int
  ss_writeoff_units :: int
  ss_expected_closing_stock :: int
  ss_actual_stock :: int
  ss_discrepancy_units :: int
  ss_discrepancy_cost :: decimal
  ss_discrepancy_sale_value :: decimal
  ss_semantics_version :: pystr

text \<open>The dimensions of a stock: SKU, article number, warehouse.\<close>

type_synonym stock_key = "pystr option \<times> pystr option \<times> pystr option"

definition row_key :: "ledger_row \<Rightarrow> stock_key" where
  "row_key r = (lr_sku r, lr_nm_id r, lr_warehouse_name r)"

section \<open>Buckets of a day\<close>

record movement_buckets =
  bk_inbound :: int
  bk_sold :: int
  bk_returned :: int
  bk_lost :: int
  bk_writeoff :: int
  bk_adjustment :: int

definition no_movement :: movement_buckets where
  "no_movement = \<lparr>bk_inbound = 0, bk_sold = 0, bk_returned = 0, bk_lost = 0, bk_writeoff = 0, bk_adjustment = 0\<rparr>"

definition classify_movement :: "semantics_strategy \<Rightarrow> ledger_row \<Rightarrow> movement_buckets" where
  "classify_movement s row = (let qty = lr_quantity_delta row in
     case lr_operation_type row of
       I_ADJUSTMENT \<Rightarrow> no_movement\<lparr>bk_adjustment := qty\<rparr>
     | I_INBOUND \<Rightarrow> no_movement\<lparr>bk_inbound := (if qty \<noteq> 0 then \<bar>qty\<bar> else 0)\<rparr>
     | I_COMPENSATION \<Rightarrow> no_movement\<lparr>bk_inbound := (if qty \<noteq> 0 then \<bar>qty\<bar> else 0)\<rparr>
     | I_SALE \<Rightarrow> no_movement\<lparr>bk_sold := \<bar>qty\<bar>\<rparr>
     | I_RETURN \<Rightarrow> no_movement\<lparr>bk_returned := \<bar>qty\<bar>\<rparr>
     | I_LOGISTICS_LOSS \<Rightarrow> no_movement\<lparr>bk_lost := \<bar>qty\<bar>\<rparr>
     | I_WAREHOUSE_LOSS \<Rightarrow> no_movement\<lparr>bk_lost := \<bar>qty\<bar>\<rparr>
     | I_DEFECT \<Rightarrow> no_movement\<lparr>bk_lost := \<bar>qty\<bar>\<rparr>
     | I_WRITEOFF \<Rightarrow> no_movement\<lparr>bk_writeoff := \<bar>qty\<bar>\<rparr>
     | I_TRANSFER \<Rightarrow> if 0 < qty then no_movement\<lparr>bk_inbound := qty\<rparr>
         else if qty < 0 then no_movement\<lparr>bk_sold := \<bar>qty\<bar>\<rparr> else no_movement)"

definition add_buckets :: "movement_buckets \<Rightarrow> movement_buckets \<Rightarrow> movement_buckets" where
  "add_buckets a b = \<lparr>bk_inbound = bk_inbound a + bk_inbound b, bk_sold = bk_sold a + bk_sold b,
     bk_returned = bk_returned a + bk_returned b, bk_lost = bk_lost a + bk_lost b,
     bk_writeoff = bk_writeoff a + bk_writeoff b, bk_adjustment = bk_adjustment a + bk_adjustment b\<rparr>"

text \<open>The accumulation loop of \<open>_classify_day\<close>.\<close>

definition day_buckets :: "(ledger_row \<Rightarrow> movement_buckets) \<Rightarrow> ledger_row list \<Rightarrow> movement_buckets" where
  "day_buckets classify rows = foldl (\<lambda>b r. add_buckets b (classify r)) no_movement rows"

section \<open>The net effect of a movement\<close>

text \<open>What the buckets of a day do to the stock.\<close>

definition bucket_net :: "movement_buckets \<Rightarrow> int" where
  "bucket_net b = bk_inbound b - bk_sold b + bk_returned b - bk_lost b - bk_writeoff b + bk_adjustment b"

text \<open>The sign convention of version 1: some operations take the magnitude, others the sign as it is.\<close>

definition net_quantity :: "ledger_row \<Rightarrow> int" where
  "net_quantity r = (case lr_operation_type r of
      I_ADJUSTMENT \<Rightarrow> lr_quantity_delta r
    | I_TRANSFER \<Rightarrow> lr_quantity_delta r
    | I_INBOUND \<Rightarrow> \<bar>lr_quantity_delta r\<bar>
    | I_COMPENSATION \<Rightarrow> \<bar>lr_quantity_delta r\<bar>
    | I_RETURN \<Rightarrow> \<bar>lr_quantity_delta r\<bar>
    | _ \<Rightarrow> - \<bar>lr_quantity_delta r\<bar>)"

lemma bucket_net_add [simp]: "bucket_net (add_buckets a b) = bucket_net a + bucket_net b"
  by (simp add: bucket_net_def add_buckets_def)

lemma bucket_net_none [simp]: "bucket_net no_movement = 0"
  by (simp add: bucket_net_def no_movement_def)

text \<open>
  The contract of a semantics strategy: the buckets of a movement account for its whole effect on
  the stock, and apart from the adjustment they are counts.
\<close>

locale movement_semantics =
  fixes classify :: "ledger_row \<Rightarrow> movement_buckets"
    and net :: "ledger_row \<Rightarrow> int"
  assumes accounts: "bucket_net (classify r) = net r"
    and counts: "0 \<le> bk_inbound (classify r)" "0 \<le> bk_sold (classify r)" "0 \<le> bk_returned (classify r)"
      "0 \<le> bk_lost (classify r)" "0 \<le> bk_writeoff (classify r)"
begin

lemma day_net_from: "bucket_net (foldl (\<lambda>b r. add_buckets b (classify r)) b rows) =
    bucket_net b + (\<Sum>r\<leftarrow>rows. net r)"
  by (induction rows arbitrary: b) (simp_all add: accounts)

lemma day_net: "bucket_net (day_buckets classify rows) = (\<Sum>r\<leftarrow>rows. net r)"
  by (simp add: day_buckets_def day_net_from)

lemma day_counts_from:
  "bk_inbound b \<ge> 0 \<and> bk_sold b \<ge> 0 \<and> bk_returned b \<ge> 0 \<and> bk_lost b \<ge> 0 \<and> bk_writeoff b \<ge> 0 \<Longrightarrow>
   (let d = foldl (\<lambda>b r. add_buckets b (classify r)) b rows in
     bk_inbound d \<ge> 0 \<and> bk_sold d \<ge> 0 \<and> bk_returned d \<ge> 0 \<and> bk_lost d \<ge> 0 \<and> bk_writeoff d \<ge> 0)"
  by (induction rows arbitrary: b) (auto simp: add_buckets_def counts Let_def)

lemma day_counts: "0 \<le> bk_inbound (day_buckets classify rows)" "0 \<le> bk_sold (day_buckets classify rows)" "0 \<le> bk_returned (day_buckets classify rows)"
    "0 \<le> bk_lost (day_buckets classify rows)" "0 \<le> bk_writeoff (day_buckets classify rows)"
  using day_counts_from [of no_movement rows] by (simp_all add: day_buckets_def no_movement_def Let_def)

text \<open>A loss without adjustment never raises the expected stock above opening plus receipts.\<close>

lemma closing_bounds:
  "bucket_net (day_buckets classify rows) - bk_adjustment (day_buckets classify rows) \<le> bk_inbound (day_buckets classify rows) + bk_returned (day_buckets classify rows)"
  using day_counts [of rows] by (simp add: bucket_net_def)

end

interpretation v1: movement_semantics "classify_movement StrategyV1" net_quantity
  by unfold_locales
    (auto simp: classify_movement_def net_quantity_def bucket_net_def no_movement_def Let_def
      split: inventory_op.splits)

end
