(* ===== verification/Inventory_Reconstruction.thy ===== *)
theory Inventory_Reconstruction
  imports Inventory_Ledger
begin

text \<open>
  Daily stock reconstruction from the ledger (\<open>app/domain/inventory/reconstruction.py\<close>) and its
  abstract specification: the stock of a key at the end of a day is the net effect of every
  movement of that key up to that day. The lemmas show that the grouping, the day loop and the
  rebuild window implement it; a window is then a part of the full rebuild, and carrying the
  opening stock forward is the same as replaying the history.
\<close>

section \<open>The service\<close>

text \<open>\<open>strategy_cache[row.semantics_version]\<close> of each row, then the accumulation.\<close>

definition classify_day :: "(pystr \<times> semantics_strategy) list \<Rightarrow> ledger_row list \<Rightarrow> py_error + movement_buckets" where
  "classify_day cache rows = sbind
     (smap (\<lambda>r. case map_of cache (lr_semantics_version r) of
        None \<Rightarrow> Inl (KeyError (lr_semantics_version r))
      | Some s \<Rightarrow> Inr (classify_movement s r)) rows)
     (\<lambda>bs. Inr (foldl add_buckets no_movement bs))"

definition dominant_semantics_version :: "ledger_row list \<Rightarrow> py_error + pystr" where
  "dominant_semantics_version rows =
     sbind (collect_semantics_versions (map lr_semantics_version rows)) (\<lambda>versions.
       if versions = [] then Inl (UnsupportedSemanticsVersionError (asc ''<missing>''))
       else Inr (Max (set versions)))"

definition day_snapshot :: "stock_key \<Rightarrow> date \<Rightarrow> int \<Rightarrow> movement_buckets \<Rightarrow> pystr \<Rightarrow> stock_snapshot" where
  "day_snapshot key snapshot_date opening b version =
     (let expected_closing = opening + bk_inbound b - bk_sold b + bk_returned b - bk_lost b - bk_writeoff b;
          actual_stock = expected_closing + bk_adjustment b
      in \<lparr>ss_snapshot_date = snapshot_date, ss_sku = fst key, ss_nm_id = fst (snd key),
          ss_warehouse_name = snd (snd key), ss_opening_stock = opening, ss_inbound_units = bk_inbound b,
          ss_sold_units = bk_sold b, ss_returned_units = bk_returned b, ss_lost_units = bk_lost b,
          ss_writeoff_units = bk_writeoff b, ss_expected_closing_stock = expected_closing,
          ss_actual_stock = actual_stock, ss_discrepancy_units = actual_stock - expected_closing,
          ss_discrepancy_cost = 0, ss_discrepancy_sale_value = 0, ss_semantics_version = version\<rparr>)"

text \<open>The loop over the sorted dates of a key; \<open>skip\<close> is \<open>skip_carry_forward\<close>.\<close>

fun rebuild_days :: "(pystr \<times> semantics_strategy) list \<Rightarrow> stock_key \<Rightarrow> date option \<Rightarrow> date option \<Rightarrow> bool \<Rightarrow>
    int \<Rightarrow> (date \<times> ledger_row list) list \<Rightarrow> py_error + stock_snapshot list" where
  "rebuild_days cache key from_date to_date skip opening [] = Inr []"
| "rebuild_days cache key from_date to_date skip opening ((d, day_rows) # days) =
     (if (case to_date of None \<Rightarrow> False | Some t \<Rightarrow> t < d) then Inr []
      else sbind (classify_day cache day_rows) (\<lambda>b.
        (let actual_stock = opening + bk_inbound b - bk_sold b + bk_returned b - bk_lost b - bk_writeoff b
               + bk_adjustment b in
         if (case from_date of None \<Rightarrow> False | Some f \<Rightarrow> d < f) then
           rebuild_days cache key from_date to_date skip (if skip then opening else actual_stock) days
         else sbind (dominant_semantics_version day_rows) (\<lambda>version.
           sbind (rebuild_days cache key from_date to_date skip actual_stock days) (\<lambda>rest.
             Inr (day_snapshot key d opening b version # rest))))))"

definition rebuild_key :: "(pystr \<times> semantics_strategy) list \<Rightarrow> date option \<Rightarrow> date option \<Rightarrow> int option \<Rightarrow>
    stock_key \<Rightarrow> ledger_row list \<Rightarrow> py_error + stock_snapshot list" where
  "rebuild_key cache from_date to_date initial_opening key movements =
     rebuild_days cache key from_date to_date (initial_opening \<noteq> None)
       (case initial_opening of None \<Rightarrow> 0 | Some i \<Rightarrow> i)
       (sort_key fst (group_by lr_operation_date movements))"

definition snapshot_order :: "stock_snapshot \<Rightarrow> date \<times> pystr \<times> pystr" where
  "snapshot_order s = (ss_snapshot_date s, opt_text (ss_sku s), opt_text (ss_warehouse_name s))"

definition rebuild_from_ledger :: "lifecycle_cache \<Rightarrow> date option \<Rightarrow> date option \<Rightarrow> int option \<Rightarrow> ledger_row list \<Rightarrow>
    py_error + stock_snapshot list" where
  "rebuild_from_ledger lifecycle from_date to_date initial_opening movements =
     (if movements = [] then Inr []
      else sbind (collect_semantics_versions (map lr_semantics_version movements)) (\<lambda>versions.
        sbind (build_strategy_cache lifecycle versions) (\<lambda>cache.
        (let by_key = group_by row_key movements;
             key_initial = (if length by_key = 1 then initial_opening else None) in
         sbind (smap (\<lambda>(key, rows). rebuild_key cache from_date to_date key_initial key rows) by_key)
           (\<lambda>snapshots. Inr (sort_key snapshot_order (concat snapshots)))))))"

section \<open>The specification\<close>

definition in_window :: "date option \<Rightarrow> date option \<Rightarrow> date \<Rightarrow> bool" where
  "in_window from_date to_date d \<longleftrightarrow> (case from_date of None \<Rightarrow> True | Some f \<Rightarrow> f \<le> d) \<and>
     (case to_date of None \<Rightarrow> True | Some t \<Rightarrow> d \<le> t)"

text \<open>The net effect of the movements of a key before a day, and the rows of a day.\<close>

definition stock_before :: "ledger_row list \<Rightarrow> date \<Rightarrow> int" where
  "stock_before rows d = (\<Sum>r\<leftarrow>filter (\<lambda>r. lr_operation_date r < d) rows. net_quantity r)"

definition rows_on :: "ledger_row list \<Rightarrow> date \<Rightarrow> ledger_row list" where
  "rows_on rows d = filter (\<lambda>r. lr_operation_date r = d) rows"

definition rows_of :: "ledger_row list \<Rightarrow> stock_key \<Rightarrow> ledger_row list" where
  "rows_of rows key = filter (\<lambda>r. row_key r = key) rows"

text \<open>The snapshot of a key on a day, given the rows of the key.\<close>

definition spec_snapshot :: "int \<Rightarrow> ledger_row list \<Rightarrow> stock_key \<Rightarrow> date \<Rightarrow> stock_snapshot" where
  "spec_snapshot initial rows key d = day_snapshot key d (initial + stock_before rows d)
     (day_buckets (classify_movement StrategyV1) (rows_on rows d)) version_1"

definition all_v1 :: "ledger_row list \<Rightarrow> bool" where
  "all_v1 rows \<longleftrightarrow> (\<forall>r\<in>set rows. lr_semantics_version r = version_1)"

section \<open>The day loop\<close>

lemma classify_day_v1:
  assumes "all_v1 rows" and "map_of cache version_1 = Some StrategyV1"
  shows "classify_day cache rows = Inr (day_buckets (classify_movement StrategyV1) rows)"
proof -
  have "smap (\<lambda>r. case map_of cache (lr_semantics_version r) of
        None \<Rightarrow> Inl (KeyError (lr_semantics_version r))
      | Some s \<Rightarrow> Inr (classify_movement s r)) rows = Inr (map (classify_movement StrategyV1) rows)"
    by (rule smap_total) (use assms in \<open>simp add: all_v1_def\<close>)
  moreover have "foldl add_buckets b (map f xs) = foldl (\<lambda>b r. add_buckets b (f r)) b xs" for b f and xs :: "ledger_row list"
    by (induction xs arbitrary: b) simp_all
  ultimately show ?thesis by (simp add: classify_day_def day_buckets_def)
qed

lemma collect_v1:
  assumes "all_v1 rows" and "rows \<noteq> []"
  shows "collect_semantics_versions (map lr_semantics_version rows) = Inr [version_1]"
proof -
  have "smap (\<lambda>v. require_semantics_version (Some v)) (map lr_semantics_version rows) =
      Inr (map (\<lambda>_. version_1) (map lr_semantics_version rows))"
    by (rule smap_total) (use assms(1) in \<open>auto simp: all_v1_def\<close>)
  moreover have "remdups (map (\<lambda>_. version_1) ys) = [version_1]" if "ys \<noteq> []" for ys :: "pystr list"
    using that by (induction ys rule: induct_list012) simp_all
  ultimately show ?thesis using assms(2) by (simp add: collect_semantics_versions_def del: map_map)
qed

lemma dominant_v1: "all_v1 rows \<Longrightarrow> rows \<noteq> [] \<Longrightarrow> dominant_semantics_version rows = Inr version_1"
  by (simp add: dominant_semantics_version_def collect_v1)

definition day_net :: "ledger_row list \<Rightarrow> date \<Rightarrow> int" where
  "day_net rows d = (\<Sum>r\<leftarrow>rows_on rows d. net_quantity r)"

text \<open>A day before the window carries its effect forward unless an opening stock was given.\<close>

definition carried :: "bool \<Rightarrow> date option \<Rightarrow> ledger_row list \<Rightarrow> date \<Rightarrow> int" where
  "carried skip from_date rows d =
     (if skip \<and> (case from_date of None \<Rightarrow> False | Some f \<Rightarrow> d < f) then 0 else day_net rows d)"

lemma all_v1_filter: "all_v1 rows \<Longrightarrow> all_v1 (filter P rows)"
  by (simp add: all_v1_def)

lemma rebuild_days_spec:
  assumes "map_of cache version_1 = Some StrategyV1" and "all_v1 rows"
  shows "sorted_wrt (<) ks \<Longrightarrow> (\<And>k. k \<in> set ks \<Longrightarrow> rows_on rows k \<noteq> []) \<Longrightarrow>
    rebuild_days cache key from_date to_date skip o0 (map (\<lambda>k. (k, rows_on rows k)) ks) =
    Inr (map (\<lambda>d. day_snapshot key d (o0 + (\<Sum>k\<leftarrow>filter (\<lambda>k. k < d) ks. carried skip from_date rows k))
          (day_buckets (classify_movement StrategyV1) (rows_on rows d)) version_1)
        (filter (in_window from_date to_date) ks))"
proof (induction ks arbitrary: o0)
  case Nil
  then show ?case by simp
next
  case (Cons k ks)
  let ?b = "\<lambda>d. day_buckets (classify_movement StrategyV1) (rows_on rows d)"
  let ?c = "carried skip from_date rows"
  let ?R = "\<lambda>o' l. map (\<lambda>d. day_snapshot key d (o' + (\<Sum>k\<leftarrow>filter (\<lambda>k. k < d) ks. ?c k)) (?b d) version_1)
        (filter (in_window from_date to_date) l)"
  have v1: "all_v1 (rows_on rows k)" using assms(2) by (simp add: rows_on_def all_v1_filter)
  have later: "\<And>d. d \<in> set ks \<Longrightarrow> k < d" using Cons.prems(1) by simp
  have rest: "map (\<lambda>d. day_snapshot key d (o0 + (\<Sum>k\<leftarrow>filter (\<lambda>k. k < d) (k # ks). ?c k)) (?b d) version_1)
        (filter (in_window from_date to_date) ks) = ?R (o0 + ?c k) ks"
    using later by (intro map_cong) (auto simp: add.assoc)
  have first: "filter (\<lambda>j. j < k) ks = []"
    using later by (auto simp: filter_empty_conv dest: less_asym)
  have net: "o0 + bk_inbound (?b k) - bk_sold (?b k) + bk_returned (?b k) - bk_lost (?b k) - bk_writeoff (?b k)
      + bk_adjustment (?b k) = o0 + day_net rows k"
    using v1.day_net [of "rows_on rows k"] by (simp add: bucket_net_def day_net_def)
  have IH: "rebuild_days cache key from_date to_date skip o' (map (\<lambda>k. (k, rows_on rows k)) ks) = Inr (?R o' ks)" for o'
    using Cons by simp
  show ?case
  proof (cases "case to_date of None \<Rightarrow> False | Some t \<Rightarrow> t < k")
    case True
    then have "filter (in_window from_date to_date) (k # ks) = []"
      using later by (force simp: in_window_def filter_empty_conv split: option.splits)
    with True show ?thesis by simp
  next
    case to: False
    show ?thesis
    proof (cases "case from_date of None \<Rightarrow> False | Some f \<Rightarrow> k < f")
      case True
      then have out: "\<not> in_window from_date to_date k" by (auto simp: in_window_def split: option.splits)
      have c: "?c k = (if skip then 0 else day_net rows k)"
        using True by (simp add: carried_def)
      have "rebuild_days cache key from_date to_date skip o0 (map (\<lambda>k. (k, rows_on rows k)) (k # ks)) =
          Inr (?R (o0 + ?c k) ks)"
        using to True by (simp add: classify_day_v1 [OF v1 assms(1)] net Let_def IH c)
      with out show ?thesis unfolding rest [symmetric] by simp
    next
      case False
      then have inw: "in_window from_date to_date k" using to by (auto simp: in_window_def split: option.splits)
      have c: "?c k = day_net rows k" using False by (simp add: carried_def)
      have dom: "dominant_semantics_version (rows_on rows k) = Inr version_1"
        using dominant_v1 [OF v1] Cons.prems(2) by simp
      have "rebuild_days cache key from_date to_date skip o0 (map (\<lambda>k. (k, rows_on rows k)) (k # ks)) =
          Inr (day_snapshot key k o0 (?b k) version_1 # ?R (o0 + ?c k) ks)"
        using to False by (simp add: classify_day_v1 [OF v1 assms(1)] net Let_def IH dom c)
      with inw show ?thesis unfolding rest [symmetric] by (simp add: first)
    qed
  qed
qed

section \<open>Sums over the days\<close>

lemma stock_before_days:
  "(\<Sum>k\<leftarrow>filter (\<lambda>k. P k) (sorted_list_of_set (lr_operation_date ` set rows)). day_net rows k) =
     (\<Sum>r\<leftarrow>filter (\<lambda>r. P (lr_operation_date r)) rows. net_quantity r)"
proof -
  let ?ks = "filter P (sorted_list_of_set (lr_operation_date ` set rows))"
  let ?xs = "filter (\<lambda>r. P (lr_operation_date r)) rows"
  have "day_net rows k = (\<Sum>r\<leftarrow>filter (\<lambda>r. lr_operation_date r = k) ?xs. net_quantity r)" if "k \<in> set ?ks" for k
    using that by (simp add: day_net_def rows_on_def) (metis (mono_tags, lifting) filter_cong)
  then have "(\<Sum>k\<leftarrow>?ks. day_net rows k) =
      (\<Sum>k\<leftarrow>?ks. \<Sum>r\<leftarrow>filter (\<lambda>r. lr_operation_date r = k) ?xs. net_quantity r)"
    by (intro arg_cong [of _ _ sum_list] map_cong) simp_all
  also have "\<dots> = (\<Sum>r\<leftarrow>?xs. net_quantity r)"
    by (rule sum_list_filter_partition) auto
  finally show ?thesis .
qed

lemma carried_none: "carried False from_date rows = day_net rows"
  by (rule ext) (simp add: carried_def)

text \<open>A key without a given opening stock: the specification, restricted to the window.\<close>

lemma rebuild_key_spec:
  assumes "map_of cache version_1 = Some StrategyV1" and "all_v1 rows"
  shows "rebuild_key cache from_date to_date None key rows =
    Inr (map (spec_snapshot 0 rows key)
      (filter (in_window from_date to_date) (sorted_list_of_set (lr_operation_date ` set rows))))"
proof -
  let ?ks = "sorted_list_of_set (lr_operation_date ` set rows)"
  have days: "sort_key fst (group_by lr_operation_date rows) = map (\<lambda>k. (k, rows_on rows k)) ?ks"
    by (simp add: sorted_groups rows_on_def)
  have nonempty: "rows_on rows k \<noteq> []" if "k \<in> set ?ks" for k
    using that by (force simp: rows_on_def filter_empty_conv)
  have before: "(\<Sum>k\<leftarrow>filter (\<lambda>k. k < d) ?ks. day_net rows k) = stock_before rows d" for d
    using stock_before_days [of rows "\<lambda>k. k < d"] by (simp add: stock_before_def)
  show ?thesis
    unfolding rebuild_key_def days
    using rebuild_days_spec [OF assms, of ?ks] nonempty
    by (simp add: carried_none before spec_snapshot_def)
qed

text \<open>A key with a given opening stock: only the movements of the window count.\<close>

lemma rebuild_key_carry:
  assumes "map_of cache version_1 = Some StrategyV1" and "all_v1 rows"
  shows "rebuild_key cache (Some f) to_date (Some i) key rows =
    Inr (map (\<lambda>d. day_snapshot key d (i + stock_before (filter (\<lambda>r. f \<le> lr_operation_date r) rows) d)
          (day_buckets (classify_movement StrategyV1) (rows_on rows d)) version_1)
      (filter (in_window (Some f) to_date) (sorted_list_of_set (lr_operation_date ` set rows))))"
proof -
  let ?ks = "sorted_list_of_set (lr_operation_date ` set rows)"
  have days: "sort_key fst (group_by lr_operation_date rows) = map (\<lambda>k. (k, rows_on rows k)) ?ks"
    by (simp add: sorted_groups rows_on_def)
  have nonempty: "rows_on rows k \<noteq> []" if "k \<in> set ?ks" for k
    using that by (force simp: rows_on_def filter_empty_conv)
  have split: "(\<Sum>k\<leftarrow>ks. carried True (Some f) rows k) = (\<Sum>k\<leftarrow>filter (\<lambda>k. f \<le> k) ks. day_net rows k)" for ks
    by (induction ks) (simp_all add: carried_def not_less)
  have before: "(\<Sum>k\<leftarrow>filter (\<lambda>k. k < d) ?ks. carried True (Some f) rows k) =
      stock_before (filter (\<lambda>r. f \<le> lr_operation_date r) rows) d" for d
    using stock_before_days [of rows "\<lambda>k. f \<le> k \<and> k < d"]
    by (simp add: stock_before_def split conj_commute)
  show ?thesis
    unfolding rebuild_key_def days
    using rebuild_days_spec [OF assms, of ?ks] nonempty by (simp add: before)
qed

section \<open>The whole ledger\<close>

definition rebuild_allowed :: "lifecycle_cache \<Rightarrow> bool" where
  "rebuild_allowed lifecycle \<longleftrightarrow> assert_rebuild_allowed lifecycle version_1 = Inr ()"

lemma strategy_cache_v1:
  assumes "all_v1 movements" and "movements \<noteq> []" and "rebuild_allowed lifecycle"
  shows "sbind (collect_semantics_versions (map lr_semantics_version movements)) (\<lambda>versions.
      sbind (build_strategy_cache lifecycle versions) k) = k [(version_1, StrategyV1)]"
  using assms by (simp add: collect_v1 rebuild_allowed_def)

definition spec_snapshots :: "date option \<Rightarrow> date option \<Rightarrow> ledger_row list \<Rightarrow> stock_snapshot list" where
  "spec_snapshots from_date to_date movements =
     concat (map (\<lambda>(key, rows). map (spec_snapshot 0 rows key)
        (filter (in_window from_date to_date) (sorted_list_of_set (lr_operation_date ` set rows))))
      (group_by row_key movements))"

lemma all_v1_group: "all_v1 movements \<Longrightarrow> (key, rows) \<in> set (group_by row_key movements) \<Longrightarrow> all_v1 rows"
  by (auto simp: group_by_mem_iff all_v1_filter)

lemma rebuild_from_ledger_spec:
  assumes "all_v1 movements" and "rebuild_allowed lifecycle"
  shows "rebuild_from_ledger lifecycle from_date to_date None movements =
    Inr (sort_key snapshot_order (spec_snapshots from_date to_date movements))"
proof (cases "movements = []")
  case True
  then show ?thesis by (simp add: rebuild_from_ledger_def spec_snapshots_def)
next
  case False
  have "smap (\<lambda>(key, rows). rebuild_key [(version_1, StrategyV1)] from_date to_date None key rows)
        (group_by row_key movements) =
      Inr (map (\<lambda>(key, rows). map (spec_snapshot 0 rows key)
        (filter (in_window from_date to_date) (sorted_list_of_set (lr_operation_date ` set rows))))
        (group_by row_key movements))"
    by (rule smap_total) (use assms(1) in \<open>auto intro!: rebuild_key_spec dest: all_v1_group\<close>)
  with False assms show ?thesis
    by (simp add: rebuild_from_ledger_def strategy_cache_v1 spec_snapshots_def Let_def)
qed

lemma spec_snapshots_set:
  "set (spec_snapshots from_date to_date movements) =
     {spec_snapshot 0 (rows_of movements (row_key r)) (row_key r) (lr_operation_date r) | r.
        r \<in> set movements \<and> in_window from_date to_date (lr_operation_date r)}"
proof -
  have "set (spec_snapshots from_date to_date movements) =
      (\<Union>(key, rows)\<in>set (group_by row_key movements).
        spec_snapshot 0 rows key ` {d \<in> lr_operation_date ` set rows. in_window from_date to_date d})"
    by (simp add: spec_snapshots_def split_def)
  also have "set (group_by row_key movements) = (\<lambda>r. (row_key r, rows_of movements (row_key r))) ` set movements"
    by (auto simp: group_by_mem_iff rows_of_def image_iff) blast
  also have "(\<Union>(key, rows)\<in>(\<lambda>r. (row_key r, rows_of movements (row_key r))) ` set movements.
        spec_snapshot 0 rows key ` {d \<in> lr_operation_date ` set rows. in_window from_date to_date d}) =
      {spec_snapshot 0 (rows_of movements (row_key r)) (row_key r) (lr_operation_date r) | r.
        r \<in> set movements \<and> in_window from_date to_date (lr_operation_date r)}"
    by (auto simp: rows_of_def) metis
  finally show ?thesis .
qed

lemma spec_snapshot_date [simp]: "ss_snapshot_date (spec_snapshot i rows key d) = d"
  by (simp add: spec_snapshot_def day_snapshot_def Let_def)

lemma spec_snapshot_key [simp]:
  "(ss_sku (spec_snapshot i rows key d), ss_nm_id (spec_snapshot i rows key d), ss_warehouse_name (spec_snapshot i rows key d)) = key"
  by (simp add: spec_snapshot_def day_snapshot_def Let_def)

text \<open>A window is a part of the full rebuild.\<close>

lemma in_window_all [simp]: "in_window None None d"
  by (simp add: in_window_def)

lemma spec_snapshots_window:
  "spec_snapshots from_date to_date movements =
     filter (\<lambda>s. in_window from_date to_date (ss_snapshot_date s)) (spec_snapshots None None movements)"
  unfolding spec_snapshots_def filter_concat map_map
  by (rule arg_cong [of _ _ concat], rule map_cong [OF refl]) (simp add: split_def filter_map comp_def)

section \<open>The balance of a snapshot\<close>

definition stock_through :: "ledger_row list \<Rightarrow> date \<Rightarrow> int" where
  "stock_through rows d = (\<Sum>r\<leftarrow>filter (\<lambda>r. lr_operation_date r \<le> d) rows. net_quantity r)"

lemma stock_through_split: "stock_through rows d = stock_before rows d + day_net rows d"
proof -
  have "(\<Sum>r\<leftarrow>filter (\<lambda>r. lr_operation_date r \<le> d) rows. net_quantity r) =
      (\<Sum>r\<leftarrow>filter (\<lambda>r. lr_operation_date r < d) rows. net_quantity r) +
      (\<Sum>r\<leftarrow>filter (\<lambda>r. lr_operation_date r = d) rows. net_quantity r)"
    by (induction rows) auto
  then show ?thesis by (simp add: stock_through_def stock_before_def day_net_def rows_on_def)
qed

lemma spec_snapshot_balance:
  "ss_opening_stock (spec_snapshot i rows key d) = i + stock_before rows d"
  "ss_actual_stock (spec_snapshot i rows key d) = i + stock_through rows d"
proof -
  have "bucket_net (day_buckets (classify_movement StrategyV1) (rows_on rows d)) = day_net rows d"
    by (simp add: v1.day_net day_net_def)
  then show "ss_opening_stock (spec_snapshot i rows key d) = i + stock_before rows d"
    "ss_actual_stock (spec_snapshot i rows key d) = i + stock_through rows d"
    by (simp_all add: spec_snapshot_def day_snapshot_def Let_def bucket_net_def stock_through_split)
qed

lemma spec_snapshot_equation:
  "let s = spec_snapshot i rows key d in
     ss_expected_closing_stock s = ss_opening_stock s + ss_inbound_units s - ss_sold_units s
       + ss_returned_units s - ss_lost_units s - ss_writeoff_units s
     \<and> ss_discrepancy_units s = ss_actual_stock s - ss_expected_closing_stock s
     \<and> 0 \<le> ss_inbound_units s \<and> 0 \<le> ss_sold_units s \<and> 0 \<le> ss_returned_units s
     \<and> 0 \<le> ss_lost_units s \<and> 0 \<le> ss_writeoff_units s"
  using v1.day_counts [of "rows_on rows d"] by (simp add: spec_snapshot_def day_snapshot_def Let_def)

section \<open>Carrying the opening stock forward\<close>

lemma group_by_single:
  assumes "xs \<noteq> []" and "\<And>x. x \<in> set xs \<Longrightarrow> f x = k"
  shows "group_by f xs = [(k, xs)]"
proof -
  let ?g = "group_by f xs"
  have "filter (\<lambda>x. f x = k) xs = xs" using assms(2) by (simp add: filter_id_conv)
  then have all: "\<And>p. p \<in> set ?g \<Longrightarrow> p = (k, xs)"
    using assms(2) by (auto simp: group_by_mem_iff)
  have ne: "?g \<noteq> []" using assms(1) by simp
  then obtain p ps where g: "?g = p # ps" by (cases ?g) auto
  have "ps = []"
  proof (cases ps)
    case (Cons q qs)
    then have "p = q" using all g by (metis list.set_intros)
    then show ?thesis using group_by_distinct [of f xs] g Cons by simp
  qed
  with g all show ?thesis by simp
qed

lemma dates_in_window:
  "filter (in_window (Some f) to_date) (sorted_list_of_set (lr_operation_date ` set (filter (\<lambda>r. f \<le> lr_operation_date r) rows))) =
     filter (in_window (Some f) to_date) (sorted_list_of_set (lr_operation_date ` set rows))"
  by (rule sorted_distinct_set_unique) (auto simp: in_window_def sorted_wrt_filter)

lemma stock_before_split:
  assumes "f \<le> d"
  shows "stock_before rows f + stock_before (filter (\<lambda>r. f \<le> lr_operation_date r) rows) d = stock_before rows d"
  using assms by (induction rows) (auto simp: stock_before_def)

lemma rebuild_single_key:
  assumes "rows \<noteq> []" and "\<And>r. r \<in> set rows \<Longrightarrow> row_key r = key" and "all_v1 rows" and "rebuild_allowed lifecycle"
  shows "rebuild_from_ledger lifecycle from_date to_date initial rows =
    sbind (rebuild_key [(version_1, StrategyV1)] from_date to_date initial key rows)
      (\<lambda>snaps. Inr (sort_key snapshot_order snaps))"
  using assms by (simp add: rebuild_from_ledger_def strategy_cache_v1 group_by_single [of rows row_key key])
    (cases "rebuild_key [(version_1, StrategyV1)] from_date to_date initial key rows"; simp)

lemma carry_forward_single_key:
  assumes key: "\<And>r. r \<in> set rows \<Longrightarrow> row_key r = key" and v: "all_v1 rows" and lc: "rebuild_allowed lifecycle"
  shows "rebuild_from_ledger lifecycle (Some f) to_date (Some (stock_before rows f))
      (filter (\<lambda>r. f \<le> lr_operation_date r) rows) =
    rebuild_from_ledger lifecycle (Some f) to_date None rows"
proof -
  let ?win = "filter (\<lambda>r. f \<le> lr_operation_date r) rows"
  let ?ds = "filter (in_window (Some f) to_date) (sorted_list_of_set (lr_operation_date ` set rows))"
  have full: "rebuild_from_ledger lifecycle (Some f) to_date None rows =
      Inr (sort_key snapshot_order (map (spec_snapshot 0 rows key) ?ds))"
  proof (cases "rows = []")
    case False
    then show ?thesis using rebuild_single_key [OF False key v lc] v by (simp add: rebuild_key_spec)
  qed (simp add: rebuild_from_ledger_def)
  show ?thesis
  proof (cases "?win = []")
    case True
    then have "?ds = []" by (auto simp: filter_empty_conv in_window_def)
    with True full show ?thesis by (simp add: rebuild_from_ledger_def)
  next
    case False
    have same: "day_snapshot key d (stock_before rows f + stock_before (filter (\<lambda>r. f \<le> lr_operation_date r) ?win) d)
        (day_buckets (classify_movement StrategyV1) (rows_on ?win d)) version_1 = spec_snapshot 0 rows key d"
      if "d \<in> set ?ds" for d
    proof -
      have d: "f \<le> d" using that by (simp add: in_window_def)
      have "rows_on ?win d = rows_on rows d" using d by (auto simp: rows_on_def intro: filter_cong)
      then show ?thesis using stock_before_split [OF d, of rows] by (simp add: spec_snapshot_def)
    qed
    have snaps: "map (\<lambda>d. day_snapshot key d (stock_before rows f + stock_before (filter (\<lambda>r. f \<le> lr_operation_date r) ?win) d)
        (day_buckets (classify_movement StrategyV1) (rows_on ?win d)) version_1) ?ds =
        map (spec_snapshot 0 rows key) ?ds"
      using same by (rule map_cong [OF refl])
    have cache: "map_of [(version_1, StrategyV1)] version_1 = Some StrategyV1" by simp
    have carry: "rebuild_key [(version_1, StrategyV1)] (Some f) to_date (Some (stock_before rows f)) key ?win =
        Inr (map (spec_snapshot 0 rows key) ?ds)"
      using rebuild_key_carry [OF cache all_v1_filter [OF v], of f to_date "stock_before rows f" key]
      by (simp only: dates_in_window snaps)
    have "rebuild_from_ledger lifecycle (Some f) to_date (Some (stock_before rows f)) ?win =
        sbind (rebuild_key [(version_1, StrategyV1)] (Some f) to_date (Some (stock_before rows f)) key ?win)
          (\<lambda>snaps. Inr (sort_key snapshot_order snaps))"
      using False key all_v1_filter [OF v] lc by (intro rebuild_single_key) auto
    with full carry show ?thesis by simp
  qed
qed

end
