(* ===== verification/Cost_History.thy ===== *)
theory Cost_History
  imports Py_Text Py_Decimal
begin

text \<open>
  Effective-dated unit costs: \<open>SkuCostSnapshot\<close> (\<open>app/domain/finance/types.py\<close>), the lookup of the
  cost in force on a date (\<open>app/domain/inventory/cost.py\<close>, \<open>app/domain/finance/cost_lookup.py\<close>) and
  the index by SKU aliases. \<open>casefold\<close> is \<open>lower\<close> on the modelled alphabet.
\<close>

record sku_cost =
  sc_sku :: pystr
  sc_effective_from :: date
  sc_product_cost :: decimal
  sc_packaging_cost :: decimal
  sc_inbound_logistics_cost :: decimal
  sc_additional_cost :: decimal
  sc_currency :: pystr

type_synonym cost_table = "(pystr \<times> sku_cost list) list"

definition total_unit_cost :: "sku_cost \<Rightarrow> decimal" where
  "total_unit_cost c = dadd (dadd (dadd (sc_product_cost c) (sc_packaging_cost c))
     (sc_inbound_logistics_cost c)) (sc_additional_cost c)"

definition cost_on_date :: "sku_cost list \<Rightarrow> date \<Rightarrow> decimal option" where
  "cost_on_date history on_date =
     (case filter (\<lambda>item. sc_effective_from item \<le> on_date) history of
        [] \<Rightarrow> None
      | c # cs \<Rightarrow> Some (total_unit_cost (max_by sc_effective_from c cs)))"

text \<open>The same function, written again in \<open>cost_lookup.py\<close>.\<close>

definition unit_cost_on_date :: "sku_cost list \<Rightarrow> date \<Rightarrow> decimal option" where
  "unit_cost_on_date history on_date =
     (let applicable = filter (\<lambda>item. sc_effective_from item \<le> on_date) history in
      if applicable = [] then None
      else Some (total_unit_cost (max_by sc_effective_from (hd applicable) (tl applicable))))"

definition norm_sku :: "pystr \<Rightarrow> pystr" where
  "norm_sku s = lower (strip s)"

definition build_cost_lookup :: "cost_table \<Rightarrow> (pystr \<times> pystr) list \<Rightarrow> cost_table" where
  "build_cost_lookup costs aliases =
     fold (\<lambda>(marketplace_sku, internal) l. (case map_of costs internal of
          Some snaps \<Rightarrow> if snaps = [] then l
            else AList.update (norm_sku marketplace_sku) snaps (AList.update marketplace_sku snaps l)
        | None \<Rightarrow> l)) aliases
       (fold (\<lambda>(internal_sku, snapshots) l.
          AList.update (norm_sku internal_sku) snapshots (AList.update internal_sku snapshots l)) costs [])"

definition resolve_cost_snapshots :: "cost_table \<Rightarrow> pystr option \<Rightarrow> sku_cost list" where
  "resolve_cost_snapshots lookup sku = (case sku of
      None \<Rightarrow> []
    | Some s \<Rightarrow> if s = [] then []
        else (case map_of lookup s of
            Some (c # cs) \<Rightarrow> c # cs
          | _ \<Rightarrow> dict_get lookup (norm_sku s) []))"

section \<open>Laws\<close>

lemma unit_cost_same: "unit_cost_on_date = cost_on_date"
  by (rule ext)+ (simp add: unit_cost_on_date_def cost_on_date_def Let_def split: list.split)

lemma cost_on_date_Some:
  assumes "cost_on_date history d = Some x"
  obtains c where "c \<in> set history" "sc_effective_from c \<le> d" "x = total_unit_cost c"
    "\<And>k. k \<in> set history \<Longrightarrow> sc_effective_from k \<le> d \<Longrightarrow> sc_effective_from k \<le> sc_effective_from c"
proof -
  obtain a as where f: "filter (\<lambda>item. sc_effective_from item \<le> d) history = a # as"
    and x: "x = total_unit_cost (max_by sc_effective_from a as)"
    using assms by (auto simp: cost_on_date_def split: list.splits)
  let ?c = "max_by sc_effective_from a as"
  have set: "insert a (set as) = {k \<in> set history. sc_effective_from k \<le> d}"
    using arg_cong [OF f, of set] by auto
  have "?c \<in> {k \<in> set history. sc_effective_from k \<le> d}"
    using max_by_mem [of sc_effective_from a as] unfolding set .
  moreover have "sc_effective_from k \<le> sc_effective_from ?c" if "k \<in> set history" "sc_effective_from k \<le> d" for k
    using max_by_ge [of k a as sc_effective_from] that set by blast
  ultimately show ?thesis using that x by blast
qed

lemma cost_on_date_None: "cost_on_date history d = None \<longleftrightarrow> (\<forall>c\<in>set history. d < sc_effective_from c)"
proof -
  have "cost_on_date history d = None \<longleftrightarrow> filter (\<lambda>item. sc_effective_from item \<le> d) history = []"
    by (auto simp: cost_on_date_def split: list.splits)
  then show ?thesis by (simp add: filter_empty_conv not_le)
qed

lemma cost_on_date_mono:
  assumes "cost_on_date history d = Some x" and "d \<le> e"
  shows "cost_on_date history e \<noteq> None"
proof -
  obtain c where "c \<in> set history" "sc_effective_from c \<le> d" using assms(1) by (rule cost_on_date_Some)
  then show ?thesis using assms(2) by (auto simp: cost_on_date_None intro!: bexI [of _ c])
qed

end
