(* ===== verification/Inventory_Reconciliation.thy ===== *)
theory Inventory_Reconciliation
  imports Inventory_Reconstruction Cost_History
begin

text \<open>
  Valuation of the snapshots (\<open>app/domain/inventory/reconciliation.py\<close>), the pipeline from the ledger
  to the loss analytics (\<open>pipeline.py\<close>) and the rebuild window (\<open>rebuild_window.py\<close>).
\<close>

section \<open>Sale prices and discrepancies\<close>

type_synonym sale_key = "stock_key \<times> date"
type_synonym sale_index = "(sale_key \<times> decimal) list"

definition sale_key_of :: "ledger_row \<Rightarrow> sale_key" where
  "sale_key_of r = (row_key r, lr_operation_date r)"

definition add_sale :: "ledger_row \<Rightarrow> (sale_key \<times> (decimal \<times> int)) list \<Rightarrow> (sale_key \<times> (decimal \<times> int)) list" where
  "add_sale row totals =
     (if lr_operation_type row \<noteq> I_SALE then totals
      else (case lr_sale_price_per_unit row of
          None \<Rightarrow> totals
        | Some unit_price \<Rightarrow>
            (let key = sale_key_of row; (amount, units) = dict_get totals key (0, 0);
                 units_delta = \<bar>lr_quantity_delta row\<bar> in
             AList.update key (dadd amount (dmul unit_price (of_int units_delta)), units + units_delta) totals)))"

definition build_sale_price_index :: "ledger_row list \<Rightarrow> py_error + sale_index" where
  "build_sale_price_index movements =
     smap (\<lambda>(key, (amount, units)). sbind (dquantize 4 (ddiv amount (of_int units))) (\<lambda>p. Inr (key, p)))
       (filter (\<lambda>(key, (amount, units)). 0 < units) (fold add_sale movements []))"

definition snapshot_key :: "stock_snapshot \<Rightarrow> stock_key" where
  "snapshot_key s = (ss_sku s, ss_nm_id s, ss_warehouse_name s)"

definition snapshot_unit_cost :: "stock_snapshot \<Rightarrow> cost_table \<Rightarrow> decimal option" where
  "snapshot_unit_cost snap costs = (case ss_sku snap of
      None \<Rightarrow> None
    | Some s \<Rightarrow> if s = [] then None else cost_on_date (dict_get costs s []) (ss_snapshot_date snap))"

definition or_zero :: "decimal option \<Rightarrow> decimal" where
  "or_zero x = (case x of None \<Rightarrow> 0 | Some d \<Rightarrow> d)"

definition value_discrepancy :: "int \<Rightarrow> decimal option \<Rightarrow> decimal option \<Rightarrow> decimal \<times> decimal" where
  "value_discrepancy units unit_cost unit_sale =
     (dmul (or_zero unit_cost) (of_int units), dmul (or_zero unit_sale) (of_int units))"

text \<open>The semantics version is not copied: the new draft takes the default \<open>"1.0"\<close>.\<close>

definition reconcile_snapshot :: "cost_table \<Rightarrow> sale_index \<Rightarrow> stock_snapshot \<Rightarrow> stock_snapshot" where
  "reconcile_snapshot costs prices snap =
     (let unit_sale = map_of prices (snapshot_key snap, ss_snapshot_date snap);
          (cost, sale) = value_discrepancy (ss_discrepancy_units snap) (snapshot_unit_cost snap costs) unit_sale
      in snap\<lparr>ss_discrepancy_cost := cost, ss_discrepancy_sale_value := sale, ss_semantics_version := version_1\<rparr>)"

definition reconcile_snapshots :: "cost_table \<Rightarrow> sale_index \<Rightarrow> stock_snapshot list \<Rightarrow> stock_snapshot list" where
  "reconcile_snapshots costs prices snaps = map (reconcile_snapshot costs prices) snaps"

section \<open>Loss analytics\<close>

record discrepancy_summary =
  ds_sku :: "pystr option"
  ds_nm_id :: "pystr option"
  ds_warehouse_name :: "pystr option"
  ds_snapshot_date :: date
  ds_discrepancy_units :: int
  ds_discrepancy_cost :: decimal
  ds_discrepancy_sale_value :: decimal

record loss_analytics =
  la_losses_units :: int
  la_losses_cost :: decimal
  la_losses_sale_value :: decimal
  la_warehouse_discrepancies :: "discrepancy_summary list"
  la_top_loss_skus :: "(pystr \<times> decimal) list"

definition summary_of :: "stock_snapshot \<Rightarrow> discrepancy_summary" where
  "summary_of s = \<lparr>ds_sku = ss_sku s, ds_nm_id = ss_nm_id s, ds_warehouse_name = ss_warehouse_name s,
     ds_snapshot_date = ss_snapshot_date s, ds_discrepancy_units = ss_discrepancy_units s,
     ds_discrepancy_cost = ss_discrepancy_cost s, ds_discrepancy_sale_value = ss_discrepancy_sale_value s\<rparr>"

text \<open>\<open>d[sku] += x\<close> on a \<open>defaultdict\<close>.\<close>

definition add_at :: "pystr option \<Rightarrow> decimal \<Rightarrow> (pystr \<times> decimal) list \<Rightarrow> (pystr \<times> decimal) list" where
  "add_at sku x d = (case sku of
      None \<Rightarrow> d | Some s \<Rightarrow> if s = [] then d else AList.update s (dadd (dict_get d s 0) x) d)"

text \<open>The body of the valuation loop: cost, sale value, cost per SKU.\<close>

definition add_loss :: "cost_table \<Rightarrow> stock_snapshot \<Rightarrow> decimal \<times> decimal \<times> (pystr \<times> decimal) list \<Rightarrow>
    decimal \<times> decimal \<times> (pystr \<times> decimal) list" where
  "add_loss costs snap acc =
     (let (cost, sale, skus) = acc;
          unit_cost = or_zero (snapshot_unit_cost snap costs);
          lost = dmul unit_cost (of_int (ss_lost_units snap));
          counted = 0 < ss_lost_units snap \<and> ss_sku snap \<noteq> None \<and> ss_sku snap \<noteq> Some [];
          (cost, skus) = (if counted then (dadd cost lost, add_at (ss_sku snap) lost skus) else (cost, skus))
      in if ss_discrepancy_units snap \<noteq> 0 then
           (dadd cost (dabs (ss_discrepancy_cost snap)), dadd sale (dabs (ss_discrepancy_sale_value snap)),
            add_at (ss_sku snap) (dabs (ss_discrepancy_cost snap)) skus)
         else (cost, sale, skus))"

definition build_loss_analytics :: "cost_table \<Rightarrow> nat \<Rightarrow> stock_snapshot list \<Rightarrow> loss_analytics" where
  "build_loss_analytics costs limit_top_skus snaps =
     (let disc = filter (\<lambda>s. ss_discrepancy_units s \<noteq> 0) snaps;
          (cost, sale, skus) = fold (add_loss costs) snaps (0, 0, [])
      in \<lparr>la_losses_units = (\<Sum>s\<leftarrow>snaps. ss_lost_units s) + (\<Sum>s\<leftarrow>disc. \<bar>ss_discrepancy_units s\<bar>),
          la_losses_cost = cost, la_losses_sale_value = sale,
          la_warehouse_discrepancies = map summary_of disc,
          la_top_loss_skus = take limit_top_skus (sorted_desc snd skus)\<rparr>)"

section \<open>The pipeline and the window\<close>

definition pipeline_rebuild :: "lifecycle_cache \<Rightarrow> cost_table \<Rightarrow> date option \<Rightarrow> date option \<Rightarrow> int option \<Rightarrow>
    ledger_row list \<Rightarrow> py_error + (stock_snapshot list \<times> loss_analytics)" where
  "pipeline_rebuild lifecycle costs from_date to_date initial movements =
     (let window_movements = (case (initial, from_date) of
            (Some _, Some f) \<Rightarrow> filter (\<lambda>r. f \<le> lr_operation_date r) movements
          | _ \<Rightarrow> movements)
      in sbind (rebuild_from_ledger lifecycle from_date to_date initial window_movements) (\<lambda>raw.
         sbind (build_sale_price_index window_movements) (\<lambda>prices.
         (let reconciled = reconcile_snapshots costs prices raw in
          Inr (reconciled, build_loss_analytics costs 5 reconciled)))))"

record rebuild_window =
  rw_from :: date
  rw_to :: date

definition compute_rebuild_window :: "date \<Rightarrow> date option \<Rightarrow> date option \<Rightarrow> py_error + rebuild_window" where
  "compute_rebuild_window earliest latest_snapshot latest_ledger =
     (let h0 = earliest;
          h1 = (case latest_snapshot of Some d \<Rightarrow> if h0 < d then d else h0 | None \<Rightarrow> h0);
          h2 = (case latest_ledger of Some d \<Rightarrow> if h1 < d then d else h1 | None \<Rightarrow> h1)
      in if h2 < earliest then Inl (ValueError (asc ''Invalid rebuild window''))
         else Inr \<lparr>rw_from = earliest, rw_to = h2\<rparr>)"

section \<open>Laws\<close>

text \<open>What the valuation leaves alone: everything but the two amounts.\<close>

definition units_of :: "stock_snapshot \<Rightarrow> stock_snapshot" where
  "units_of s = s\<lparr>ss_discrepancy_cost := 0, ss_discrepancy_sale_value := 0, ss_semantics_version := version_1\<rparr>"

lemma units_of_reconciled [simp]: "units_of (reconcile_snapshot costs prices s) = units_of s"
  by (simp add: units_of_def reconcile_snapshot_def value_discrepancy_def Let_def)

lemma units_of_spec [simp]: "units_of (spec_snapshot i rows key d) = spec_snapshot i rows key d"
  by (simp add: units_of_def spec_snapshot_def day_snapshot_def Let_def)

lemma units_of_fields [simp]:
  "ss_snapshot_date (units_of s) = ss_snapshot_date s" "ss_sku (units_of s) = ss_sku s"
  "ss_nm_id (units_of s) = ss_nm_id s" "ss_warehouse_name (units_of s) = ss_warehouse_name s"
  "ss_actual_stock (units_of s) = ss_actual_stock s" "ss_opening_stock (units_of s) = ss_opening_stock s"
  by (simp_all add: units_of_def)

lemma compute_rebuild_window_ok:
  "\<exists>w. compute_rebuild_window e s l = Inr w \<and> rw_from w = e \<and> e \<le> rw_to w \<and>
     (\<forall>d. s = Some d \<longrightarrow> d \<le> rw_to w) \<and> (\<forall>d. l = Some d \<longrightarrow> d \<le> rw_to w) \<and>
     (rw_to w = e \<or> s = Some (rw_to w) \<or> l = Some (rw_to w))"
  by (auto simp: compute_rebuild_window_def Let_def split: option.splits)

text \<open>The pipeline without carry-forward yields the reconstruction of the ledger.\<close>

lemma pipeline_full_units:
  assumes "pipeline_rebuild lifecycle costs from_date to_date None rows = Inr (snaps, la)"
    and "all_v1 rows" and "rebuild_allowed lifecycle"
  shows "map units_of snaps = sort_key snapshot_order (spec_snapshots from_date to_date rows)"
proof -
  have units: "units_of s = s" if "s \<in> set (spec_snapshots from_date to_date rows)" for s
    using that by (auto simp: spec_snapshots_set)
  have "map units_of (map (reconcile_snapshot costs prices) (sort_key snapshot_order (spec_snapshots from_date to_date rows)))
      = sort_key snapshot_order (spec_snapshots from_date to_date rows)" for prices
    by (simp add: comp_def) (rule map_idI, simp add: units)
  then show ?thesis
    using assms by (auto simp: pipeline_rebuild_def rebuild_from_ledger_spec sbind_Inr_iff reconcile_snapshots_def Let_def)
qed

text \<open>With the right opening stock the pipeline yields the same from the window alone.\<close>

lemma pipeline_carry_units:
  assumes "pipeline_rebuild lifecycle costs (Some f) to_date (Some (stock_before rows f)) rows = Inr (snaps, la)"
    and "\<And>r. r \<in> set rows \<Longrightarrow> row_key r = key" and "all_v1 rows" and "rebuild_allowed lifecycle"
  shows "map units_of snaps = sort_key snapshot_order (spec_snapshots (Some f) to_date rows)"
proof -
  have units: "units_of s = s" if "s \<in> set (spec_snapshots (Some f) to_date rows)" for s
    using that by (auto simp: spec_snapshots_set)
  have "rebuild_from_ledger lifecycle (Some f) to_date (Some (stock_before rows f))
      (filter (\<lambda>r. f \<le> lr_operation_date r) rows) =
      Inr (sort_key snapshot_order (spec_snapshots (Some f) to_date rows))"
    using carry_forward_single_key [OF assms(2-4)] rebuild_from_ledger_spec [OF assms(3,4)] by simp
  moreover have "map units_of (map (reconcile_snapshot costs prices) (sort_key snapshot_order (spec_snapshots (Some f) to_date rows)))
      = sort_key snapshot_order (spec_snapshots (Some f) to_date rows)" for prices
    by (simp add: comp_def) (rule map_idI, simp add: units)
  ultimately show ?thesis
    using assms(1) by (auto simp: pipeline_rebuild_def sbind_Inr_iff reconcile_snapshots_def Let_def)
qed

end
