(* ===== verification/Operation_Labels.thy ===== *)
theory Operation_Labels
  imports Inventory_Ledger
begin

text \<open>
  Wildberries operation labels: the alias registry and the tolerant matching of
  \<open>app/parsers/wb/operation_semantics.py\<close>, and the row kinds of the finance report
  (\<open>app/domain/finance/wb_row_semantics.py\<close>). A label is \<open>None\<close> or a text. The NFKC normalization is
  the identity on the modelled alphabet.
\<close>

section \<open>Normalization\<close>

text \<open>\<open>re.sub(r"\s+", " ", text)\<close>; the flag tells that a space was just written.\<close>

fun collapse_spaces :: "bool \<Rightarrow> pystr \<Rightarrow> pystr" where
  "collapse_spaces b [] = []"
| "collapse_spaces b (c # cs) = (if is_space c then (if b then collapse_spaces True cs else 32 # collapse_spaces True cs)
     else c # collapse_spaces False cs)"

definition normalize_operation_label :: "pystr option \<Rightarrow> pystr" where
  "normalize_operation_label value = (case value of
      None \<Rightarrow> []
    | Some s \<Rightarrow> collapse_spaces False (replace_char 160 [32] (lower (strip s))))"

section \<open>The alias registry\<close>

definition sale_operations :: "pystr list" where
  "sale_operations =
   [asc ''sale'', ru ''prodaja'', ru ''prodaji'', ru ''realizaciA'', ru ''realizaciA tovara'',
    asc ''retail'', ru ''vYkup'', ru ''vYkuplen'', asc ''supplier sale'']"

definition return_operations :: "pystr list" where
  "return_operations =
   [asc ''return'', ru ''vozvrat'', ru ''vozvratY'', asc ''return of goods'',
    asc ''client return'', ru ''vozvrat tovara'']"

definition loss_operations :: "pystr list" where
  "loss_operations =
   [asc ''logistics loss'', asc ''logistics_loss'', ru ''uterA pri logistike'',
    ru ''uterA v logistike'', ru ''poterA pri dostavke'', asc ''loss in transit'',
    asc ''delivery loss'']"

definition warehouse_loss_operations :: "pystr list" where
  "warehouse_loss_operations =
   [asc ''warehouse loss'', asc ''warehouse_loss'', ru ''uterA na sklade'',
    ru ''poterA na sklade'', asc ''stock loss'', asc ''inventory loss warehouse'']"

definition defect_operations :: "pystr list" where
  "defect_operations =
   [asc ''defect'', ru ''brak'', ru ''defekt'', ru ''povrejdenie'', asc ''damaged'',
    asc ''damage'']"

definition writeoff_operations :: "pystr list" where
  "writeoff_operations =
   [asc ''writeoff'', asc ''write-off'', asc ''write off'', ru ''spisanie'', ru ''spisano'',
    ru ''utilizaciA'']"

definition compensation_operations :: "pystr list" where
  "compensation_operations =
   [asc ''compensation'', ru ''kompensaciA'', ru ''kompensacii'', ru ''vozmexenie'',
    asc ''reimbursement'']"

definition inbound_operations :: "pystr list" where
  "inbound_operations =
   [asc ''inbound'', ru ''priemka'', ru ''pri@mka'', ru ''postuplenie'', ru ''postavka'',
    ru ''prihod'', asc ''income'', asc ''receipt'', asc ''stock in'']"

definition transfer_operations :: "pystr list" where
  "transfer_operations =
   [asc ''transfer'', ru ''peremexenie'', ru ''peremexeniA'', ru ''transfer'',
    asc ''movement'', asc ''stock transfer'']"

definition inventory_adjustment_operations :: "pystr list" where
  "inventory_adjustment_operations =
   [asc ''inventory adjustment'', asc ''inventory_adjustment'', ru ''korrektirovka'',
    ru ''korrektirovka ostatkov'', ru ''inventarizaciA'', asc ''stock adjustment'',
    asc ''adjustment'']"

definition operation_groups :: "(inventory_op \<times> pystr list) list" where
  "operation_groups =
   [(I_SALE, sale_operations),
    (I_RETURN, return_operations),
    (I_LOGISTICS_LOSS, loss_operations),
    (I_WAREHOUSE_LOSS, warehouse_loss_operations),
    (I_DEFECT, defect_operations),
    (I_WRITEOFF, writeoff_operations),
    (I_COMPENSATION, compensation_operations),
    (I_INBOUND, inbound_operations),
    (I_TRANSFER, transfer_operations),
    (I_ADJUSTMENT, inventory_adjustment_operations)]"

definition alias_matches :: "pystr \<Rightarrow> pystr \<Rightarrow> bool" where
  "alias_matches normalized_label alias =
     (let alias_norm = normalize_operation_label (Some alias) in
      if alias_norm = [] \<or> normalized_label = [] then False
      else if normalized_label = alias_norm then True
      else contains alias_norm normalized_label \<or> contains normalized_label alias_norm)"

fun first_group :: "pystr \<Rightarrow> (inventory_op \<times> pystr list) list \<Rightarrow> inventory_op option" where
  "first_group label [] = None"
| "first_group label ((op, aliases) # groups) =
     (if list_ex (alias_matches label) aliases then Some op else first_group label groups)"

definition resolve_inventory_operation_type :: "pystr option \<Rightarrow> inventory_op option" where
  "resolve_inventory_operation_type operation_label =
     (let normalized = normalize_operation_label operation_label in
      if normalized = [] then None else first_group normalized operation_groups)"

section \<open>Kinds of finance rows\<close>

datatype finance_row_kind = K_SALE | K_RETURN | K_LOGISTICS | K_STORAGE | K_DEDUCTION | K_COMPENSATION
  | K_LOYALTY_COMPENSATION | K_VOLUNTARY_COMPENSATION | K_REIMBURSEMENT | K_PVZ_REIMBURSEMENT | K_OTHER

text \<open>The tokens of each kind, in the order of the tests.\<close>

definition finance_kind_tokens :: "(finance_row_kind \<times> pystr list) list" where
  "finance_kind_tokens =
   [(K_PVZ_REIMBURSEMENT, [ru ''vozmexenie za vYdaqu'', ru ''pvz'']),
    (K_REIMBURSEMENT, [ru ''vozmexenie izderjek'', asc ''reimbursement'']),
    (K_VOLUNTARY_COMPENSATION, [ru ''dobrovol~naA kompensaciA'']),
    (K_LOYALTY_COMPENSATION, [ru ''kompensaciA skidki po programme loAl~nosti'', ru ''korrekciA kompensacii skidki po programme loAl~nosti'']),
    (K_RETURN, [ru ''vozvrat'', asc ''return'']),
    (K_SALE, [ru ''prodaj'', asc ''sale'', ru ''realizac'', ru ''vYkup'']),
    (K_LOGISTICS, [ru ''logistik'', asc ''logistic'', ru ''dostavk'', asc ''delivery'']),
    (K_STORAGE, [ru ''hranen'', asc ''storage'']),
    (K_DEDUCTION, [ru ''uderjan'', asc ''deduction'']),
    (K_COMPENSATION, [ru ''kompensac'', asc ''compensation''])]"

definition classify_wb_finance_row :: "pystr option \<Rightarrow> finance_row_kind" where
  "classify_wb_finance_row operation_type =
     (let label = normalize_operation_label operation_type in
      if label = [] then K_OTHER
      else (case List.find (\<lambda>(kind, tokens). list_ex (\<lambda>t. contains t label) tokens) finance_kind_tokens of
          Some (kind, _) \<Rightarrow> kind | None \<Rightarrow> K_OTHER))"

definition allows_commission :: "finance_row_kind \<Rightarrow> bool" where
  "allows_commission kind \<longleftrightarrow> kind \<in> {K_SALE, K_RETURN}"

definition allows_payout :: "finance_row_kind \<Rightarrow> bool" where
  "allows_payout kind \<longleftrightarrow> kind = K_SALE"

definition allows_retail_amount :: "finance_row_kind \<Rightarrow> bool" where
  "allows_retail_amount kind \<longleftrightarrow> kind = K_SALE"

definition allows_logistics :: "finance_row_kind \<Rightarrow> bool" where
  "allows_logistics kind \<longleftrightarrow> kind = K_LOGISTICS"

definition allows_storage :: "finance_row_kind \<Rightarrow> bool" where
  "allows_storage kind \<longleftrightarrow> kind = K_STORAGE"

definition allows_pic_compensation :: "finance_row_kind \<Rightarrow> bool" where
  "allows_pic_compensation kind \<longleftrightarrow> kind = K_SALE"

definition allows_loyalty_compensation :: "finance_row_kind \<Rightarrow> bool" where
  "allows_loyalty_compensation kind \<longleftrightarrow> kind \<in> {K_SALE, K_LOYALTY_COMPENSATION}"

definition allows_voluntary_compensation :: "finance_row_kind \<Rightarrow> bool" where
  "allows_voluntary_compensation kind \<longleftrightarrow> kind = K_VOLUNTARY_COMPENSATION"

definition allows_wb_realized_amount :: "finance_row_kind \<Rightarrow> bool" where
  "allows_wb_realized_amount kind \<longleftrightarrow> kind \<in> {K_SALE, K_RETURN}"

definition allows_return_wb :: "finance_row_kind \<Rightarrow> bool" where
  "allows_return_wb kind \<longleftrightarrow> kind = K_RETURN"

definition allows_deduction :: "finance_row_kind \<Rightarrow> bool" where
  "allows_deduction kind \<longleftrightarrow> kind = K_DEDUCTION"

definition allows_penalty :: "finance_row_kind \<Rightarrow> bool" where
  "allows_penalty kind \<longleftrightarrow> kind \<in> {K_DEDUCTION, K_OTHER}"

lemmas allows_simps = allows_commission_def allows_payout_def allows_retail_amount_def
  allows_logistics_def allows_storage_def allows_pic_compensation_def allows_loyalty_compensation_def
  allows_voluntary_compensation_def allows_wb_realized_amount_def allows_return_wb_def
  allows_deduction_def allows_penalty_def

text \<open>\<open>LOGISTICS_RAW_KEYS\<close>; the first two begin with a capital letter.\<close>

definition logistics_raw_keys :: "pystr list" where
  "logistics_raw_keys = [1059 # ru ''slugi po dostavke tovara pokupatelU'',
    1057 # ru ''toimost~ logistiki'',
    ru ''logistika'',
    asc ''logistics'',
    asc ''delivery_rub'']"

section \<open>Laws\<close>

lemma normalize_None [simp]: "normalize_operation_label None = []"
  by (simp add: normalize_operation_label_def)

lemma resolve_no_label [simp]: "resolve_inventory_operation_type None = None"
  by (simp add: resolve_inventory_operation_type_def)

lemma alias_matches_contains:
  "alias_matches l a \<longleftrightarrow> l \<noteq> [] \<and> normalize_operation_label (Some a) \<noteq> [] \<and>
     (contains (normalize_operation_label (Some a)) l \<or> contains l (normalize_operation_label (Some a)))"
  by (auto simp: alias_matches_def Let_def)

lemma first_group_Some: "first_group l gs = Some op \<Longrightarrow> \<exists>aliases. (op, aliases) \<in> set gs \<and> (\<exists>a\<in>set aliases. alias_matches l a)"
  by (induction l gs rule: first_group.induct) (auto simp: list_ex_iff split: if_splits)

lemma first_group_None: "first_group l gs = None \<longleftrightarrow> (\<forall>(op, aliases)\<in>set gs. \<forall>a\<in>set aliases. \<not> alias_matches l a)"
  by (induction l gs rule: first_group.induct) (auto simp: list_ex_iff)

end
