(* ===== verification/Wb_Row.thy ===== *)
theory Wb_Row
  imports Py_Text Py_Decimal
begin

text \<open>
  The normalized Wildberries row (\<open>NormalizedWbRow\<close> in \<open>app/parsers/wb/base.py\<close>), its canonical
  fields (\<open>app/parsers/wb/mapping.py\<close>) and the parsing of amounts. A canonical payload is a total
  function of the field: \<open>VNone\<close> for an absent key, as \<open>dict.get\<close> gives. The parser makes the text
  fields \<open>None\<close> or \<open>str\<close>.
\<close>

section \<open>Values and fields\<close>

datatype pyval = VNone | VBool bool | VInt int | VFloat rat | VDec decimal | VStr pystr | VDate date

datatype canonical_field = F_operation_date | F_sale_date | F_sku | F_nm_id | F_operation_type
  | F_retail_amount | F_wb_realized_amount | F_commission | F_logistics | F_storage_fee | F_penalty
  | F_acquiring | F_compensation | F_payment_integration_compensation | F_loyalty_compensation
  | F_voluntary_compensation | F_deduction | F_payout | F_advertisement | F_quantity
  | F_return_amount | F_return_wb | F_warehouse_name | F_extra pystr

type_synonym canonical = "canonical_field \<Rightarrow> pyval"

record wb_row =
  w_source_row_id :: pystr
  w_source_row_index :: int
  w_operation_date :: "date option"
  w_sku :: "pystr option"
  w_nm_id :: "pystr option"
  w_canonical :: canonical
  w_raw :: "(pystr \<times> pystr) list"

text \<open>\<open>isinstance(v, Decimal)\<close>, the truth value, and the text of a text field.\<close>

definition dec_of :: "pyval \<Rightarrow> decimal option" where
  "dec_of v = (case v of VDec d \<Rightarrow> Some d | _ \<Rightarrow> None)"

definition truthy :: "pyval \<Rightarrow> bool" where
  "truthy v = (case v of VNone \<Rightarrow> False | VBool b \<Rightarrow> b | VInt i \<Rightarrow> i \<noteq> 0 | VFloat x \<Rightarrow> x \<noteq> 0
     | VDec d \<Rightarrow> d \<noteq> 0 | VStr s \<Rightarrow> s \<noteq> [] | VDate _ \<Rightarrow> True)"

definition text_of :: "pyval \<Rightarrow> pystr option" where
  "text_of v = (case v of VStr s \<Rightarrow> Some s | _ \<Rightarrow> None)"

text \<open>\<open>s or None\<close> of an optional text.\<close>

definition nonempty :: "pystr option \<Rightarrow> pystr option" where
  "nonempty s = (case s of Some t \<Rightarrow> if t = [] then None else Some t | None \<Rightarrow> None)"

section \<open>Column headers\<close>

definition normalize_header :: "pystr \<Rightarrow> pystr" where
  "normalize_header s = replace_char 160 [32] (lower (strip s))"

section \<open>Numbers in text\<close>

definition is_digit :: "nat \<Rightarrow> bool" where
  "is_digit c \<longleftrightarrow> 48 \<le> c \<and> c \<le> 57"

text \<open>
  Digits with single underscores between them, as \<open>int\<close> accepts: the value, or \<open>None\<close>. The flag
  tells that the last character was a digit.
\<close>

fun digits_value :: "nat \<Rightarrow> bool \<Rightarrow> pystr \<Rightarrow> nat option" where
  "digits_value n prev [] = (if prev then Some n else None)"
| "digits_value n prev (c # cs) = (if is_digit c then digits_value (10 * n + (c - 48)) True cs
     else if c = 95 \<and> prev then digits_value n False cs else None)"

definition py_int_of_str :: "pystr \<Rightarrow> py_error + int" where
  "py_int_of_str s = (let t = strip s;
       signed = (case t of c # cs \<Rightarrow> if c = 45 then (-1, cs) else if c = 43 then (1, cs) else (1, t) | [] \<Rightarrow> (1, []))
     in case digits_value 0 False (snd signed) of
          Some n \<Rightarrow> Inr (fst signed * int n)
        | None \<Rightarrow> Inl (ValueError (asc ''invalid literal for int() with base 10'')))"

text \<open>
  \<open>Decimal(text)\<close> for a finite literal: sign, digits with an optional point, optional exponent,
  underscores ignored. The literals of NaN and Infinity are outside the model and give \<open>None\<close>, as
  every other text that \<open>Decimal\<close> refuses.
\<close>

definition split_at :: "(nat \<Rightarrow> bool) \<Rightarrow> pystr \<Rightarrow> pystr \<times> pystr option" where
  "split_at P s = (takeWhile (\<lambda>c. \<not> P c) s,
     (case dropWhile (\<lambda>c. \<not> P c) s of [] \<Rightarrow> None | _ # r \<Rightarrow> Some r))"

definition nat_of_digits :: "pystr \<Rightarrow> nat" where
  "nat_of_digits s = foldl (\<lambda>n c. 10 * n + (c - 48)) 0 s"

definition split_sign :: "pystr \<Rightarrow> bool \<times> pystr" where
  "split_sign s = (case s of [] \<Rightarrow> (False, []) | c # cs \<Rightarrow> if c = 45 then (True, cs) else if c = 43 then (False, cs) else (False, s))"

definition decimal_of_text :: "pystr \<Rightarrow> decimal option" where
  "decimal_of_text text =
     (let (neg, body) = split_sign (filter (\<lambda>c. c \<noteq> 95) (strip text));
          (mantissa, ex) = split_at (\<lambda>c. c = 101 \<or> c = 69) body;
          (whole, frac) = split_at (\<lambda>c. c = 46) mantissa;
          f = (case frac of None \<Rightarrow> [] | Some f \<Rightarrow> f);
          (eneg, edigits) = (case ex of None \<Rightarrow> (False, [48]) | Some e \<Rightarrow> split_sign e);
          x = rat_of_nat (nat_of_digits (whole @ f)) / 10 ^ length f;
          e = nat_of_digits edigits;
          y = (if eneg then x / 10 ^ e else x * 10 ^ e)
      in if whole @ f \<noteq> [] \<and> list_all is_digit (whole @ f) \<and> edigits \<noteq> [] \<and> list_all is_digit edigits
         then Some (if neg then - y else y) else None)"

definition parse_decimal :: "pystr \<Rightarrow> decimal option" where
  "parse_decimal value =
     (let text = replace_char 44 [46] (replace_char 32 [] (strip value)) in
      if text = [] then None else decimal_of_text text)"

text \<open>\<open>int(d)\<close> of a Decimal or float truncates towards zero.\<close>

definition trunc :: "rat \<Rightarrow> int" where
  "trunc x = (if 0 \<le> x then \<lfloor>x\<rfloor> else - \<lfloor>- x\<rfloor>)"

lemma trunc_of_int [simp]: "trunc (of_int n) = n"
  by (simp add: trunc_def)

lemma abs_trunc_le: "\<bar>of_int (trunc x)\<bar> \<le> \<bar>x\<bar>"
  by (auto simp: trunc_def)

lemma dec_of_Some [simp]: "dec_of v = Some d \<longleftrightarrow> v = VDec d"
  by (cases v) (simp_all add: dec_of_def)

end
