(* ===== verification/Inventory_Movements.thy ===== *)
theory Inventory_Movements
  imports Operation_Labels Wb_Row Cost_History
begin

text \<open>
  Extraction of inventory movements from normalized rows (\<open>app/domain/inventory/movements.py\<close>), the
  ledger row of a movement (\<open>ledger_row.py\<close>) and the opening balance rules
  (\<open>opening_balance.py\<close>). The lemmas show the sign convention: the reconstruction counts a built
  movement for exactly its \<open>quantity_delta\<close>.
\<close>

section \<open>Movements\<close>

record movement_draft =
  md_operation_date :: date
  md_sku :: "pystr option"
  md_nm_id :: "pystr option"
  md_warehouse_name :: "pystr option"
  md_operation_type :: inventory_op
  md_quantity_delta :: int
  md_cost_per_unit :: "decimal option"
  md_sale_price_per_unit :: "decimal option"
  md_total_cost_delta :: decimal
  md_total_sale_delta :: decimal
  md_source_row_id :: pystr
  md_semantics_version :: pystr
  md_canonical_payload :: canonical
  md_raw_payload :: "(pystr \<times> pystr) list"

definition outbound_types :: "inventory_op set" where
  "outbound_types = {I_SALE, I_LOGISTICS_LOSS, I_WAREHOUSE_LOSS, I_DEFECT, I_WRITEOFF}"

definition inbound_types :: "inventory_op set" where
  "inbound_types = {I_INBOUND, I_RETURN, I_COMPENSATION}"

definition nonzero_dec :: "pyval \<Rightarrow> bool" where
  "nonzero_dec v = (case dec_of v of None \<Rightarrow> False | Some d \<Rightarrow> d \<noteq> 0)"

definition infer_from_amounts :: "canonical \<Rightarrow> inventory_op option" where
  "infer_from_amounts c =
     (if nonzero_dec (c F_return_amount) then Some I_RETURN
      else if nonzero_dec (c F_retail_amount) then Some I_SALE
      else if nonzero_dec (c F_compensation) then Some I_COMPENSATION
      else None)"

text \<open>The sign that the operation type gives to a quantity.\<close>

definition signed_quantity :: "inventory_op \<Rightarrow> int \<Rightarrow> int" where
  "signed_quantity op qty =
     (if qty = 0 then 0
      else if op = I_TRANSFER then qty
      else if op = I_ADJUSTMENT then qty
      else if op \<in> outbound_types then - \<bar>qty\<bar>
      else if op \<in> inbound_types then \<bar>qty\<bar>
      else qty)"

definition resolve_quantity :: "canonical \<Rightarrow> inventory_op \<Rightarrow> py_error + int" where
  "resolve_quantity c op = (case c F_quantity of
      VNone \<Rightarrow>
        if op = I_COMPENSATION then Inr 0
        else if op = I_SALE \<and> truthy (c F_retail_amount) then Inr (-1)
        else if op = I_RETURN \<and> truthy (c F_return_amount) then Inr 1
        else Inr 0
    | VBool _ \<Rightarrow> Inr 0
    | VInt qty \<Rightarrow> Inr (signed_quantity op qty)
    | VStr s \<Rightarrow> sbind (py_int_of_str s) (\<lambda>qty. Inr (signed_quantity op qty))
    | VFloat x \<Rightarrow> Inr (signed_quantity op (trunc x))
    | _ \<Rightarrow> Inr 0)"

definition sale_price_per_unit :: "canonical \<Rightarrow> int \<Rightarrow> py_error + decimal option" where
  "sale_price_per_unit c quantity_delta = (case dec_of (c F_retail_amount) of
      None \<Rightarrow> Inr None
    | Some retail \<Rightarrow> if \<bar>quantity_delta\<bar> = 0 then Inr None
        else sbind (dquantize 4 (ddiv retail (of_int \<bar>quantity_delta\<bar>))) (\<lambda>p. Inr (Some p)))"

definition total_sale_delta :: "inventory_op \<Rightarrow> int \<Rightarrow> decimal option \<Rightarrow> canonical \<Rightarrow> decimal" where
  "total_sale_delta op quantity_delta price c = (case dec_of (c F_retail_amount) of
      Some retail \<Rightarrow> if op \<in> {I_SALE, I_RETURN} then dabs retail
        else (case price of Some p \<Rightarrow> dmul p (of_int \<bar>quantity_delta\<bar>) | None \<Rightarrow> 0)
    | None \<Rightarrow> (case price of Some p \<Rightarrow> dmul p (of_int \<bar>quantity_delta\<bar>) | None \<Rightarrow> 0))"

definition total_cost_delta :: "int \<Rightarrow> decimal option \<Rightarrow> decimal" where
  "total_cost_delta quantity_delta unit_cost = (case unit_cost of
      None \<Rightarrow> 0 | Some c \<Rightarrow> dmul c (of_int quantity_delta))"

definition movement_for_row :: "lifecycle_cache \<Rightarrow> date \<Rightarrow> cost_table \<Rightarrow> wb_row \<Rightarrow> py_error + movement_draft option" where
  "movement_for_row lifecycle default_date costs row =
     (let c = w_canonical row in
      sbind (get_semantics_strategy lifecycle version_1) (\<lambda>strategy.
      (let op = (case resolve_inventory_operation_type (text_of (c F_operation_type)) of
           Some t \<Rightarrow> Some t | None \<Rightarrow> infer_from_amounts c)
       in case op of
          None \<Rightarrow> Inr None
        | Some t \<Rightarrow> sbind (resolve_quantity c t) (\<lambda>quantity.
            if quantity = 0 then Inr None
            else
              (let d = (case w_operation_date row of Some d \<Rightarrow> d | None \<Rightarrow> default_date);
                   unit_cost = (case nonempty (w_sku row) of
                       None \<Rightarrow> None | Some s \<Rightarrow> cost_on_date (dict_get costs s []) d)
               in sbind (sale_price_per_unit c quantity) (\<lambda>price.
                  Inr (Some \<lparr>md_operation_date = d, md_sku = w_sku row, md_nm_id = w_nm_id row,
                    md_warehouse_name = nonempty (map_option strip (nonempty (text_of (c F_warehouse_name)))),
                    md_operation_type = t, md_quantity_delta = quantity, md_cost_per_unit = unit_cost,
                    md_sale_price_per_unit = price, md_total_cost_delta = total_cost_delta quantity unit_cost,
                    md_total_sale_delta = total_sale_delta t quantity price c,
                    md_source_row_id = w_source_row_id row, md_semantics_version = version_1,
                    md_canonical_payload = c, md_raw_payload = w_raw row\<rparr>)))))))"

definition movements_from_rows :: "lifecycle_cache \<Rightarrow> date \<Rightarrow> cost_table \<Rightarrow> wb_row list \<Rightarrow> py_error + movement_draft list" where
  "movements_from_rows lifecycle default_date costs rows =
     sbind (smap (movement_for_row lifecycle default_date costs) rows)
       (\<lambda>drafts. Inr (concat (map (\<lambda>d. case d of None \<Rightarrow> [] | Some m \<Rightarrow> [m]) drafts)))"

definition ledger_row_of_draft :: "movement_draft \<Rightarrow> py_error + ledger_row" where
  "ledger_row_of_draft m = sbind (require_semantics_version (Some (md_semantics_version m))) (\<lambda>v.
     Inr \<lparr>lr_operation_date = md_operation_date m, lr_sku = md_sku m, lr_nm_id = md_nm_id m,
       lr_warehouse_name = md_warehouse_name m, lr_operation_type = md_operation_type m,
       lr_quantity_delta = md_quantity_delta m, lr_cost_per_unit = md_cost_per_unit m,
       lr_sale_price_per_unit = md_sale_price_per_unit m, lr_semantics_version = v,
       lr_source_row_id = md_source_row_id m\<rparr>)"

section \<open>Opening balance\<close>

definition is_opening_balance_movement :: "canonical \<Rightarrow> bool" where
  "is_opening_balance_movement c = (case c (F_extra (asc ''is_opening_balance'')) of
      VBool b \<Rightarrow> b | VStr s \<Rightarrow> s = asc ''true'' \<or> s = asc ''1'' | _ \<Rightarrow> False)"

text \<open>\<open>date.fromisoformat\<close> is a parameter: the date of a text, or \<open>None\<close> when it raises.\<close>

definition opening_effective_date :: "(pystr \<Rightarrow> date option) \<Rightarrow> canonical \<Rightarrow> date \<Rightarrow> py_error + date" where
  "opening_effective_date fromisoformat c fallback = (case c (F_extra (asc ''opening_effective_date'')) of
      VDate d \<Rightarrow> Inr d
    | VStr s \<Rightarrow> (case fromisoformat (strip s) of
        Some d \<Rightarrow> Inr d | None \<Rightarrow> Inl (ValueError (asc ''Invalid isoformat string'')))
    | _ \<Rightarrow> Inr fallback)"

definition earliest_first_ledger_date :: "date option \<Rightarrow> date option \<Rightarrow> date option" where
  "earliest_first_ledger_date persisted batch = (case persisted of
      None \<Rightarrow> batch
    | Some p \<Rightarrow> (case batch of None \<Rightarrow> Some p | Some b \<Rightarrow> Some (min p b)))"

definition validate_opening_balance :: "date \<Rightarrow> pystr option \<Rightarrow> date option \<Rightarrow> py_error + unit" where
  "validate_opening_balance opening_date sku first_ledger =
     (if nonempty sku = None then Inl OpeningBalanceIntegrityError
      else (case first_ledger of
          None \<Rightarrow> Inr ()
        | Some f \<Rightarrow> if f \<le> opening_date then Inl OpeningBalanceIntegrityError else Inr ()))"

section \<open>Laws\<close>

definition sign_ok :: "inventory_op \<Rightarrow> int \<Rightarrow> bool" where
  "sign_ok op q \<longleftrightarrow> (op \<in> outbound_types \<longrightarrow> q \<le> 0) \<and> (op \<in> inbound_types \<longrightarrow> 0 \<le> q)"

lemma signed_quantity_sign: "sign_ok op (signed_quantity op q)"
  by (cases op) (auto simp: sign_ok_def signed_quantity_def outbound_types_def inbound_types_def)

lemma signed_quantity_abs: "\<bar>signed_quantity op q\<bar> = \<bar>q\<bar>"
  by (simp add: signed_quantity_def)

lemma resolve_quantity_sign: "resolve_quantity c op = Inr q \<Longrightarrow> sign_ok op q"
  using signed_quantity_sign
  by (auto simp: resolve_quantity_def sbind_Inr_iff split: pyval.splits if_splits)
    (auto simp: sign_ok_def outbound_types_def inbound_types_def)

lemma net_of_signed: "sign_ok (lr_operation_type r) (lr_quantity_delta r) \<Longrightarrow> net_quantity r = lr_quantity_delta r"
  by (cases "lr_operation_type r") (auto simp: net_quantity_def sign_ok_def outbound_types_def inbound_types_def)

lemma movement_for_row_facts:
  assumes "movement_for_row lifecycle default_date costs row = Inr (Some m)"
  shows "sign_ok (md_operation_type m) (md_quantity_delta m)" "md_quantity_delta m \<noteq> 0"
    "md_semantics_version m = version_1" "md_source_row_id m = w_source_row_id row"
    "md_operation_date m = (case w_operation_date row of Some d \<Rightarrow> d | None \<Rightarrow> default_date)"
    "md_sku m = w_sku row" "md_nm_id m = w_nm_id row"
  using assms resolve_quantity_sign
  by (auto simp: movement_for_row_def Let_def sbind_Inr_iff split: option.splits if_splits)

lemma movements_from_rows_mem:
  assumes "movements_from_rows lifecycle default_date costs rows = Inr ms" and "m \<in> set ms"
  shows "\<exists>row\<in>set rows. movement_for_row lifecycle default_date costs row = Inr (Some m)"
proof -
  obtain ds where ds: "smap (movement_for_row lifecycle default_date costs) rows = Inr ds"
    and ms: "ms = concat (map (\<lambda>d. case d of None \<Rightarrow> [] | Some m \<Rightarrow> [m]) ds)"
    using assms(1) by (auto simp: movements_from_rows_def sbind_Inr_iff)
  have "Some m \<in> set ds" using assms(2) ms by (auto split: option.splits)
  then obtain i where i: "i < length ds" "ds ! i = Some m" by (auto simp: in_set_conv_nth)
  have all: "list_all2 (\<lambda>x y. movement_for_row lifecycle default_date costs x = Inr y) rows ds"
    by (rule smap_Inr_list_all2 [OF ds])
  have "movement_for_row lifecycle default_date costs (rows ! i) = Inr (Some m)" "rows ! i \<in> set rows"
    using list_all2_nthD2 [OF all i(1)] i list_all2_lengthD [OF all] by simp_all
  then show ?thesis by blast
qed

lemma ledger_row_of_built:
  assumes "movement_for_row lifecycle default_date costs row = Inr (Some m)"
  shows "\<exists>r. ledger_row_of_draft m = Inr r \<and> net_quantity r = md_quantity_delta m \<and> lr_semantics_version r = version_1"
  using movement_for_row_facts(1,3) [OF assms]
  by (simp add: ledger_row_of_draft_def net_of_signed)

end
