(* ===== verification/Snapshot_Rebuild.thy ===== *)
theory Snapshot_Rebuild
  imports Inventory_Reconciliation Inventory_Movements
begin

text \<open>
  The snapshot rebuilds over the stored ledger: streaming by key
  (\<open>app/etl/wb/inventory_ledger_streaming.py\<close>), the snapshot store
  (\<open>inventory_snapshot_store.py\<close>), the computation (\<open>inventory_snapshot_compute.py\<close>), the
  incremental and the full rebuild (\<open>inventory_snapshot_rebuild.py\<close>, \<open>full_inventory_rebuild.py\<close>)
  and the opening balance checks. The tables are those of one tenant; \<open>busy\<close> says that another
  session holds the tenant's advisory lock. Texts are ordered by code point where the database
  uses its collation.
\<close>

section \<open>The ledger stream\<close>

record ledger_entry =
  le_row :: ledger_row
  le_version :: "pystr option"
  le_created_at :: instant
  le_report_id :: uuid

definition row_from_entry :: "ledger_entry \<Rightarrow> py_error + ledger_row" where
  "row_from_entry e = sbind (require_semantics_version (le_version e)) (\<lambda>v.
     Inr ((le_row e)\<lparr>lr_semantics_version := v\<rparr>))"

definition row_kept_by_variant_b :: "stock_key \<Rightarrow> date \<Rightarrow> date option \<Rightarrow> stock_key set \<Rightarrow> bool" where
  "row_kept_by_variant_b key operation_date rebuild_from carry_keys =
     (case rebuild_from of
        None \<Rightarrow> True
      | Some f \<Rightarrow> if carry_keys = {} then True else if f \<le> operation_date then True else key \<notin> carry_keys)"

definition nulls_first :: "pystr option \<Rightarrow> nat \<times> pystr" where
  "nulls_first s = (case s of None \<Rightarrow> (0, []) | Some t \<Rightarrow> (1, t))"

definition stream_order :: "ledger_entry \<Rightarrow> (nat \<times> pystr) \<times> (nat \<times> pystr) \<times> date \<times> instant \<times> pystr" where
  "stream_order e = (nulls_first (lr_sku (le_row e)), nulls_first (lr_warehouse_name (le_row e)),
     lr_operation_date (le_row e), le_created_at e, lr_source_row_id (le_row e))"

text \<open>The loop that yields a group whenever the key changes.\<close>

fun group_runs :: "('a \<Rightarrow> 'k) \<Rightarrow> 'k \<Rightarrow> 'a list \<Rightarrow> 'a list \<Rightarrow> ('k \<times> 'a list) list" where
  "group_runs f current acc [] = [(current, acc)]"
| "group_runs f current acc (x # xs) =
     (if f x = current then group_runs f current (acc @ [x]) xs
      else (current, acc) # group_runs f (f x) [x] xs)"

definition group_consecutive :: "('a \<Rightarrow> 'k) \<Rightarrow> 'a list \<Rightarrow> ('k \<times> 'a list) list" where
  "group_consecutive f xs = (case xs of [] \<Rightarrow> [] | x # ys \<Rightarrow> group_runs f (f x) [x] ys)"

definition stream_grouped_by_key :: "date option \<Rightarrow> stock_key set \<Rightarrow> ledger_entry list \<Rightarrow>
    py_error + (stock_key \<times> ledger_row list) list" where
  "stream_grouped_by_key rebuild_from carry_keys entries =
     sbind (smap row_from_entry (sort_key stream_order
       (filter (\<lambda>e. row_kept_by_variant_b (row_key (le_row e)) (lr_operation_date (le_row e)) rebuild_from carry_keys) entries)))
       (\<lambda>rows. Inr (group_consecutive row_key rows))"

section \<open>The computation\<close>

definition compute_from_stream :: "lifecycle_cache \<Rightarrow> cost_table \<Rightarrow> date \<Rightarrow> date \<Rightarrow> (stock_key \<Rightarrow> int option) \<Rightarrow>
    (stock_key \<times> ledger_row list) list \<Rightarrow> py_error + (stock_snapshot list \<times> loss_analytics option)" where
  "compute_from_stream lifecycle costs rebuild_from rebuild_to carry groups =
     sbind (smap (\<lambda>(key, rows). pipeline_rebuild lifecycle costs (Some rebuild_from) (Some rebuild_to) (carry key) rows) groups)
       (\<lambda>chunks. (let snaps = concat (map fst chunks) in
          if snaps = [] then Inr ([], None) else Inr (snaps, Some (build_loss_analytics costs 5 snaps))))"

definition compute_full_from_stream :: "lifecycle_cache \<Rightarrow> cost_table \<Rightarrow> date \<Rightarrow> date \<Rightarrow>
    (stock_key \<times> ledger_row list) list \<Rightarrow> py_error + (stock_snapshot list \<times> loss_analytics option)" where
  "compute_full_from_stream lifecycle costs rebuild_from rebuild_to groups =
     compute_from_stream lifecycle costs rebuild_from rebuild_to (\<lambda>_. None) groups"

section \<open>The store\<close>

text \<open>\<open>_draft_to_values\<close>: a missing SKU or warehouse is stored as the empty text.\<close>

definition draft_to_values :: "stock_snapshot \<Rightarrow> stock_snapshot" where
  "draft_to_values s = s\<lparr>ss_sku := Some (opt_text (ss_sku s)), ss_warehouse_name := Some (opt_text (ss_warehouse_name s))\<rparr>"

text \<open>\<open>uq_warehouse_stock_snapshot_day_sku_wh\<close> (the article number is not part of it).\<close>

definition day_sku_wh :: "stock_snapshot \<Rightarrow> date \<times> pystr option \<times> pystr option" where
  "day_sku_wh s = (ss_snapshot_date s, ss_sku s, ss_warehouse_name s)"

definition upsert_one :: "stock_snapshot \<Rightarrow> stock_snapshot list \<Rightarrow> stock_snapshot list" where
  "upsert_one s live = (if \<exists>t\<in>set live. day_sku_wh t = day_sku_wh s
     then map (\<lambda>t. if day_sku_wh t = day_sku_wh s then s else t) live
     else live @ [s])"

definition upsert_snapshots :: "stock_snapshot list \<Rightarrow> stock_snapshot list \<Rightarrow> stock_snapshot list" where
  "upsert_snapshots snaps live = fold upsert_one (map draft_to_values snaps) live"

definition delete_window :: "date \<Rightarrow> date \<Rightarrow> stock_snapshot list \<Rightarrow> stock_snapshot list" where
  "delete_window rebuild_from rebuild_to live =
     filter (\<lambda>s. \<not> (rebuild_from \<le> ss_snapshot_date s \<and> ss_snapshot_date s \<le> rebuild_to)) live"

text \<open>\<open>DISTINCT ON (sku, nm_id, warehouse_name) ... ORDER BY snapshot_date DESC\<close>.\<close>

definition load_carry_forward_openings :: "date \<Rightarrow> stock_snapshot list \<Rightarrow> stock_key \<Rightarrow> int option" where
  "load_carry_forward_openings rebuild_from live key =
     (case filter (\<lambda>s. snapshot_key s = key \<and> ss_snapshot_date s < rebuild_from) live of
        [] \<Rightarrow> None
      | s # ss \<Rightarrow> Some (ss_actual_stock (max_by ss_snapshot_date s ss)))"

definition carry_keys :: "date \<Rightarrow> stock_snapshot list \<Rightarrow> stock_key set" where
  "carry_keys rebuild_from live = snapshot_key ` set (filter (\<lambda>s. ss_snapshot_date s < rebuild_from) live)"

definition latest_snapshot_date :: "stock_snapshot list \<Rightarrow> date option" where
  "latest_snapshot_date live = (if live = [] then None else Some (Max (set (map ss_snapshot_date live))))"

text \<open>\<open>INSERT ... SELECT\<close> of the staging rows into the emptied live table.\<close>

definition promote_staging_to_live :: "stock_snapshot list \<Rightarrow> py_error + stock_snapshot list" where
  "promote_staging_to_live staging =
     (if distinct (map day_sku_wh staging) then Inr staging else Inl IntegrityError)"

section \<open>The rebuilds\<close>

definition ledger_date_bounds :: "ledger_entry list \<Rightarrow> (date \<times> date) option" where
  "ledger_date_bounds entries = (let ds = set (map (\<lambda>e. lr_operation_date (le_row e)) entries) in
     if entries = [] then None else Some (Min ds, Max ds))"

definition incremental_rebuild :: "lifecycle_cache \<Rightarrow> bool \<Rightarrow> uuid \<Rightarrow> cost_table \<Rightarrow> ledger_entry list \<Rightarrow>
    stock_snapshot list \<Rightarrow> date option \<Rightarrow> py_error + (stock_snapshot list \<times> loss_analytics option)" where
  "incremental_rebuild lifecycle busy user costs entries live earliest =
     (if busy then Inl (InventoryRebuildBusyError user)
      else (case ledger_date_bounds entries of
          None \<Rightarrow> Inr (live, None)
        | Some (min_date, max_date) \<Rightarrow>
            sbind (compute_rebuild_window (case earliest of None \<Rightarrow> min_date | Some d \<Rightarrow> d)
                (latest_snapshot_date live) (Some max_date)) (\<lambda>w.
            (let live1 = delete_window (rw_from w) (rw_to w) live;
                 carry = load_carry_forward_openings (rw_from w) live1 in
             sbind (stream_grouped_by_key (Some (rw_from w)) (carry_keys (rw_from w) live1) entries) (\<lambda>groups.
             sbind (compute_from_stream lifecycle costs (rw_from w) (rw_to w) carry groups) (\<lambda>(snaps, analytics).
               if snaps = [] \<and> latest_snapshot_date live = None then Inr (live1, None)
               else Inr (upsert_snapshots snaps live1, analytics)))))))"

definition full_rebuild :: "lifecycle_cache \<Rightarrow> bool \<Rightarrow> uuid \<Rightarrow> cost_table \<Rightarrow> ledger_entry list \<Rightarrow>
    stock_snapshot list \<Rightarrow> py_error + (stock_snapshot list \<times> loss_analytics option)" where
  "full_rebuild lifecycle busy user costs entries live =
     (if busy then Inl (InventoryRebuildBusyError user)
      else (case ledger_date_bounds entries of
          None \<Rightarrow> Inr (live, None)
        | Some (min_date, max_date) \<Rightarrow>
            sbind (stream_grouped_by_key None {} entries) (\<lambda>groups.
            sbind (compute_full_from_stream lifecycle costs min_date max_date groups) (\<lambda>(snaps, analytics).
              if snaps = [] then Inr (live, analytics)
              else sbind (promote_staging_to_live (map draft_to_values snaps)) (\<lambda>live'. Inr (live', analytics))))))"

section \<open>Opening balance checks of an import\<close>

type_synonym sku_warehouse = "pystr option \<times> pystr option"

definition batch_first_operation_dates :: "movement_draft list \<Rightarrow> (sku_warehouse \<times> date) list" where
  "batch_first_operation_dates movements = fold (\<lambda>m first_dates.
     if nonempty (md_sku m) = None then first_dates
     else if is_opening_balance_movement (md_canonical_payload m) then first_dates
     else (let key = (md_sku m, md_warehouse_name m) in
       case map_of first_dates key of
         None \<Rightarrow> AList.update key (md_operation_date m) first_dates
       | Some existing \<Rightarrow> if md_operation_date m < existing
           then AList.update key (md_operation_date m) first_dates else first_dates)) movements []"

text \<open>\<open>MIN(operation_date)\<close> of a SKU and warehouse over the rows of the other reports.\<close>

definition first_ledger_operation_date :: "uuid option \<Rightarrow> ledger_entry list \<Rightarrow> sku_warehouse \<Rightarrow> date option" where
  "first_ledger_operation_date exclude entries key =
     (let ds = map (\<lambda>e. lr_operation_date (le_row e))
        (filter (\<lambda>e. (lr_sku (le_row e), lr_warehouse_name (le_row e)) = key \<and> Some (le_report_id e) \<noteq> exclude) entries)
      in if ds = [] then None else Some (Min (set ds)))"

fun validate_opening_movements :: "(pystr \<Rightarrow> date option) \<Rightarrow> uuid option \<Rightarrow> ledger_entry list \<Rightarrow>
    (sku_warehouse \<times> date) list \<Rightarrow> movement_draft list \<Rightarrow> py_error + unit" where
  "validate_opening_movements isoparse exclude entries batch_first [] = Inr ()"
| "validate_opening_movements isoparse exclude entries batch_first (m # ms) =
     sbind (opening_effective_date isoparse (md_canonical_payload m) (md_operation_date m)) (\<lambda>effective.
     sbind (case nonempty (md_sku m) of
        None \<Rightarrow> validate_opening_balance effective None None
      | Some _ \<Rightarrow>
          (let key = (md_sku m, md_warehouse_name m);
               first = earliest_first_ledger_date (first_ledger_operation_date exclude entries key) (map_of batch_first key)
           in validate_opening_balance effective (md_sku m) first)) (\<lambda>_.
     validate_opening_movements isoparse exclude entries batch_first ms))"

definition validate_opening_balances_for_movements :: "(pystr \<Rightarrow> date option) \<Rightarrow> uuid option \<Rightarrow> ledger_entry list \<Rightarrow>
    movement_draft list \<Rightarrow> py_error + unit" where
  "validate_opening_balances_for_movements isoparse exclude entries movements =
     validate_opening_movements isoparse exclude entries (batch_first_operation_dates movements)
       (filter (\<lambda>m. is_opening_balance_movement (md_canonical_payload m)) movements)"

end
