(* ===== verification/Snapshot_Correctness.thy ===== *)
theory Snapshot_Correctness
  imports Snapshot_Rebuild
begin

text \<open>
  The refinement of the rebuilds: the snapshots of the live table are those that the ledger
  determines. First the stream (consecutive runs are whole groups when the order of the query
  determines the key), then the store, then the incremental rebuild with its carried opening
  stocks.
\<close>

section \<open>Runs of a sorted list\<close>

lemma group_runs_sorted:
  fixes h :: "'a \<Rightarrow> 'o::linorder"
  assumes "sorted_wrt (\<lambda>x y. h x \<le> h y) (acc @ xs)" and "acc \<noteq> []" and "\<And>x. x \<in> set acc \<Longrightarrow> f x = current"
    and "\<And>x y. x \<in> set (acc @ xs) \<Longrightarrow> y \<in> set (acc @ xs) \<Longrightarrow> f x = f y \<longleftrightarrow> h x = h y"
  shows "distinct (map fst (group_runs f current acc xs)) \<and>
    set (group_runs f current acc xs) = (\<lambda>k. (k, filter (\<lambda>x. f x = k) (acc @ xs))) ` f ` set (acc @ xs)"
  using assms
proof (induction xs arbitrary: current acc)
  case Nil
  have "filter (\<lambda>x. f x = current) acc = acc" using Nil.prems(3) by (simp add: filter_id_conv)
  moreover have "f ` set acc = {current}" using Nil.prems(2,3) by (cases acc) auto
  ultimately show ?case by simp
next
  case (Cons x xs)
  show ?case
  proof (cases "f x = current")
    case True
    have "sorted_wrt (\<lambda>x y. h x \<le> h y) ((acc @ [x]) @ xs)" using Cons.prems(1) by simp
    moreover have "\<And>y. y \<in> set (acc @ [x]) \<Longrightarrow> f y = current" using Cons.prems(3) True by auto
    moreover have "\<And>y z. y \<in> set ((acc @ [x]) @ xs) \<Longrightarrow> z \<in> set ((acc @ [x]) @ xs) \<Longrightarrow> f y = f z \<longleftrightarrow> h y = h z"
      using Cons.prems(4) by simp
    ultimately show ?thesis using Cons.IH [of "acc @ [x]" current] True by simp
  next
    case False
    let ?gs = "group_runs f (f x) [x] xs"
    have IH: "distinct (map fst ?gs) \<and> set ?gs = (\<lambda>k. (k, filter (\<lambda>x. f x = k) (x # xs))) ` f ` set (x # xs)"
    proof -
      have "sorted_wrt (\<lambda>x y. h x \<le> h y) ([x] @ xs)" using Cons.prems(1) by (simp add: sorted_wrt_append)
      moreover have "\<And>y z. y \<in> set ([x] @ xs) \<Longrightarrow> z \<in> set ([x] @ xs) \<Longrightarrow> f y = f z \<longleftrightarrow> h y = h z"
        by (rule Cons.prems(4)) auto
      ultimately have "distinct (map fst ?gs) \<and> set ?gs = (\<lambda>k. (k, filter (\<lambda>x. f x = k) ([x] @ xs))) ` f ` set ([x] @ xs)"
        by (intro Cons.IH) simp_all
      then show ?thesis by (simp only: append_Cons append_Nil)
    qed
    have late: "f y \<noteq> current" if y: "y \<in> set (x # xs)" for y
    proof
      assume eq: "f y = current"
      obtain a where a: "a \<in> set acc" "f a = current" using Cons.prems(2,3) by (cases acc) auto
      have "h a \<le> h x" "h x \<le> h y" using Cons.prems(1) a y by (auto simp: sorted_wrt_append)
      moreover have "h y = h a" using Cons.prems(4) [of y a] a y eq by auto
      ultimately have "h x = h a" by simp
      then have "f x = f a" using Cons.prems(4) [of x a] a by auto
      with False a show False by simp
    qed
    have acc_id: "filter (\<lambda>x. f x = current) (acc @ x # xs) = acc"
    proof -
      have "filter (\<lambda>x. f x = current) (x # xs) = []" using late by (auto simp: filter_empty_conv)
      moreover have "filter (\<lambda>x. f x = current) acc = acc" using Cons.prems(3) by (simp add: filter_id_conv)
      ultimately show ?thesis by simp
    qed
    have rest: "filter (\<lambda>x. f x = k) (acc @ x # xs) = filter (\<lambda>x. f x = k) (x # xs)" if "k \<in> f ` set (x # xs)" for k
    proof -
      have "k \<noteq> current" using that late by auto
      then have "filter (\<lambda>x. f x = k) acc = []" using Cons.prems(3) by (auto simp: filter_empty_conv)
      then show ?thesis by simp
    qed
    have img: "f ` set (acc @ x # xs) = insert current (f ` set (x # xs))"
      using Cons.prems(2,3) by (cases acc) auto
    have "set ((current, acc) # ?gs) = (\<lambda>k. (k, filter (\<lambda>x. f x = k) (acc @ x # xs))) ` f ` set (acc @ x # xs)"
    proof -
      have gs: "set ?gs = (\<lambda>k. (k, filter (\<lambda>x. f x = k) (x # xs))) ` f ` set (x # xs)" using IH by (rule conjunct2)
      have "(\<lambda>k. (k, filter (\<lambda>x. f x = k) (acc @ x # xs))) ` f ` set (x # xs) = set ?gs"
        unfolding gs by (rule image_cong [OF refl]) (simp only: rest)
      then show ?thesis unfolding img image_insert acc_id by (simp only: list.set(2))
    qed
    moreover have "current \<notin> fst ` set ?gs"
    proof -
      have "fst ` set ?gs = f ` set (x # xs)" unfolding conjunct2 [OF IH] by (simp only: image_image fst_conv image_ident)
      with late show ?thesis by auto
    qed
    ultimately show ?thesis using conjunct1 [OF IH] False by simp
  qed
qed

lemma group_consecutive_sorted:
  fixes h :: "'a \<Rightarrow> 'o::linorder"
  assumes "sorted_wrt (\<lambda>x y. h x \<le> h y) xs"
    and "\<And>x y. x \<in> set xs \<Longrightarrow> y \<in> set xs \<Longrightarrow> f x = f y \<longleftrightarrow> h x = h y"
  shows "set (group_consecutive f xs) = (\<lambda>k. (k, filter (\<lambda>x. f x = k) xs)) ` f ` set xs"
proof (cases xs)
  case Nil
  then show ?thesis by (simp add: group_consecutive_def)
next
  case (Cons x ys)
  then show ?thesis
    using group_runs_sorted [of h "[x]" ys f "f x"] assms by (simp add: group_consecutive_def)
qed

section \<open>The stream\<close>

definition entry_row :: "ledger_entry \<Rightarrow> ledger_row" where
  "entry_row e = (le_row e)\<lparr>lr_semantics_version := version_1\<rparr>"

text \<open>
  What the query order needs: the SKU and the warehouse of an entry determine its article number, and
  both are given. \<open>entries_ok\<close> also asks for the current semantics version.
\<close>

definition entries_ok :: "ledger_entry list \<Rightarrow> bool" where
  "entries_ok entries \<longleftrightarrow> (\<forall>e\<in>set entries. le_version e = Some version_1 \<and>
       lr_sku (le_row e) \<noteq> None \<and> lr_warehouse_name (le_row e) \<noteq> None) \<and>
     (\<forall>e\<in>set entries. \<forall>g\<in>set entries. lr_sku (le_row e) = lr_sku (le_row g) \<longrightarrow>
        lr_warehouse_name (le_row e) = lr_warehouse_name (le_row g) \<longrightarrow> lr_nm_id (le_row e) = lr_nm_id (le_row g))"

lemma entry_row_fields [simp]:
  "row_key (entry_row e) = row_key (le_row e)" "lr_operation_date (entry_row e) = lr_operation_date (le_row e)"
  "lr_semantics_version (entry_row e) = version_1"
  by (simp_all add: entry_row_def row_key_def)

lemma rows_from_entries:
  assumes "\<And>e. e \<in> set es \<Longrightarrow> le_version e = Some version_1"
  shows "smap row_from_entry es = Inr (map entry_row es)"
  by (rule smap_total) (simp add: row_from_entry_def assms entry_row_def)

definition stream_prefix :: "ledger_row \<Rightarrow> (nat \<times> pystr) \<times> (nat \<times> pystr)" where
  "stream_prefix r = (nulls_first (lr_sku r), nulls_first (lr_warehouse_name r))"

lemma nulls_first_inj [simp]: "nulls_first a = nulls_first b \<longleftrightarrow> a = b"
  by (cases a; cases b) (simp_all add: nulls_first_def)

lemma prefix_le:
  fixes p p' :: "'a::linorder" and q q' :: "'b::linorder" and r r' :: "'c::linorder"
  shows "(p, q, r) \<le> (p', q', r') \<Longrightarrow> (p, q) \<le> (p', q')"
  by (auto simp: less_eq_prod_def)

lemma stream_order_prefix: "stream_order a \<le> stream_order b \<Longrightarrow> stream_prefix (le_row a) \<le> stream_prefix (le_row b)"
  unfolding stream_order_def stream_prefix_def by (rule prefix_le)

lemma stream_sorted:
  "sorted_wrt (\<lambda>r s. stream_prefix r \<le> stream_prefix s) (map entry_row (sort_key stream_order es))"
proof -
  have "sorted_wrt (\<lambda>a b. stream_order a \<le> stream_order b) (sort_key stream_order es)"
    by (rule sort_key_sorted_wrt)
  then have "sorted_wrt (\<lambda>a b. stream_prefix (le_row a) \<le> stream_prefix (le_row b)) (sort_key stream_order es)"
    by (rule sorted_wrt_mono_rel [rotated]) (simp add: stream_order_prefix)
  then show ?thesis by (simp add: sorted_wrt_map stream_prefix_def entry_row_def)
qed

lemma stream_groups:
  assumes "entries_ok entries"
  shows "\<exists>groups. stream_grouped_by_key from_date ks entries = Inr groups \<and>
    (let rows = map entry_row (filter (\<lambda>e. row_kept_by_variant_b (row_key (le_row e)) (lr_operation_date (le_row e)) from_date ks)
         (sort_key stream_order entries))
     in set groups = (\<lambda>k. (k, filter (\<lambda>r. row_key r = k) rows)) ` row_key ` set rows)"
proof -
  let ?kept = "\<lambda>e. row_kept_by_variant_b (row_key (le_row e)) (lr_operation_date (le_row e)) from_date ks"
  let ?es = "sort_key stream_order (filter ?kept entries)"
  have es: "?es = filter ?kept (sort_key stream_order entries)" by (simp add: filter_sort)
  have rows: "smap row_from_entry ?es = Inr (map entry_row ?es)"
    by (rule rows_from_entries) (use assms in \<open>auto simp: entries_ok_def\<close>)
  have "set (group_consecutive row_key (map entry_row ?es)) =
      (\<lambda>k. (k, filter (\<lambda>r. row_key r = k) (map entry_row ?es))) ` row_key ` set (map entry_row ?es)"
  proof (rule group_consecutive_sorted [OF stream_sorted])
    fix r s assume "r \<in> set (map entry_row ?es)" "s \<in> set (map entry_row ?es)"
    then obtain e g where e: "e \<in> set entries" "g \<in> set entries" "r = entry_row e" "s = entry_row g" by auto
    then have "lr_sku (le_row e) = lr_sku (le_row g) \<Longrightarrow> lr_warehouse_name (le_row e) = lr_warehouse_name (le_row g) \<Longrightarrow>
        lr_nm_id (le_row e) = lr_nm_id (le_row g)"
      using assms unfolding entries_ok_def by blast
    with e show "row_key r = row_key s \<longleftrightarrow> stream_prefix r = stream_prefix s"
      by (simp add: row_key_def stream_prefix_def entry_row_def) blast
  qed
  moreover have "stream_grouped_by_key from_date ks entries = Inr (group_consecutive row_key (map entry_row ?es))"
    by (simp only: stream_grouped_by_key_def rows sbind_simps)
  ultimately show ?thesis unfolding es Let_def by (intro exI conjI)
qed

section \<open>The snapshots of a ledger\<close>

text \<open>
  The specification of the live table: one snapshot for every key and day that has a movement, with
  the balance of the whole ledger.
\<close>

definition ledger_snapshots :: "ledger_row list \<Rightarrow> (date \<Rightarrow> bool) \<Rightarrow> stock_snapshot set" where
  "ledger_snapshots rows P = {spec_snapshot 0 (rows_of rows (row_key r)) (row_key r) (lr_operation_date r) | r.
     r \<in> set rows \<and> P (lr_operation_date r)}"

lemma day_buckets_from:
  "foldl (\<lambda>b r. add_buckets b (c r)) b rows =
    \<lparr>bk_inbound = bk_inbound b + (\<Sum>r\<leftarrow>rows. bk_inbound (c r)), bk_sold = bk_sold b + (\<Sum>r\<leftarrow>rows. bk_sold (c r)),
     bk_returned = bk_returned b + (\<Sum>r\<leftarrow>rows. bk_returned (c r)), bk_lost = bk_lost b + (\<Sum>r\<leftarrow>rows. bk_lost (c r)),
     bk_writeoff = bk_writeoff b + (\<Sum>r\<leftarrow>rows. bk_writeoff (c r)),
     bk_adjustment = bk_adjustment b + (\<Sum>r\<leftarrow>rows. bk_adjustment (c r))\<rparr>"
  by (induction rows arbitrary: b) (simp_all add: add_buckets_def)

lemma sum_filter_mset:
  fixes g :: "'a \<Rightarrow> int"
  assumes "mset xs = mset ys"
  shows "(\<Sum>x\<leftarrow>filter P xs. g x) = (\<Sum>x\<leftarrow>filter P ys. g x)"
  using assms by (metis mset_filter mset_map sum_mset_sum_list)

lemma spec_snapshot_mset:
  assumes "mset rows = mset rows'"
  shows "spec_snapshot i rows key d = spec_snapshot i rows' key d"
  unfolding spec_snapshot_def stock_before_def day_buckets_def day_buckets_from rows_on_def
  by (simp only: sum_filter_mset [OF assms])

lemma ledger_snapshots_mset:
  assumes "mset rows = mset rows'"
  shows "ledger_snapshots rows P = ledger_snapshots rows' P"
proof -
  have "set rows = set rows'" using assms by (metis set_mset_mset)
  moreover have "spec_snapshot 0 (rows_of rows k) k d = spec_snapshot 0 (rows_of rows' k) k d" for k d
    using assms by (intro spec_snapshot_mset) (simp add: rows_of_def)
  ultimately show ?thesis by (simp add: ledger_snapshots_def)
qed

lemma ledger_snapshots_split:
  "ledger_snapshots rows P \<union> ledger_snapshots rows Q = ledger_snapshots rows (\<lambda>d. P d \<or> Q d)"
  by (auto simp: ledger_snapshots_def)

lemma spec_snapshots_of_key:
  "set (spec_snapshots from_date to_date (rows_of rows k)) =
     {spec_snapshot 0 (rows_of rows k) k (lr_operation_date r) | r.
        r \<in> set rows \<and> row_key r = k \<and> in_window from_date to_date (lr_operation_date r)}"
proof -
  have "rows_of (rows_of rows k) k = rows_of rows k" by (simp add: rows_of_def)
  moreover have "r \<in> set (rows_of rows k) \<longleftrightarrow> r \<in> set rows \<and> row_key r = k" for r by (auto simp: rows_of_def)
  ultimately show ?thesis unfolding spec_snapshots_set by (intro Collect_cong ex_cong1) auto
qed

lemma snapshot_key_units [simp]: "snapshot_key (units_of s) = snapshot_key s"
  by (simp add: snapshot_key_def)

section \<open>Carried opening stocks\<close>

lemma carry_forward_correct:
  assumes live: "units_of ` {s \<in> set live. ss_snapshot_date s < f} = ledger_snapshots rows (\<lambda>d. d < f)"
  shows "load_carry_forward_openings f live k =
    (if k \<in> carry_keys f live then Some (stock_before (rows_of rows k) f) else None)"
proof (cases "filter (\<lambda>s. snapshot_key s = k \<and> ss_snapshot_date s < f) live")
  case Nil
  then have "k \<notin> carry_keys f live" by (auto simp: carry_keys_def filter_empty_conv)
  with Nil show ?thesis by (simp add: load_carry_forward_openings_def)
next
  case (Cons s ss)
  let ?m = "max_by ss_snapshot_date s ss"
  let ?l = "filter (\<lambda>s. snapshot_key s = k \<and> ss_snapshot_date s < f) live"
  have in_l: "insert s (set ss) = set ?l" using Cons by simp
  have m: "?m \<in> set ?l" using max_by_mem [of ss_snapshot_date s ss] unfolding in_l .
  then have k: "k \<in> carry_keys f live" by (auto simp: carry_keys_def)
  have "units_of ?m \<in> ledger_snapshots rows (\<lambda>d. d < f)" unfolding live [symmetric] using m by auto
  then obtain r where r: "units_of ?m = spec_snapshot 0 (rows_of rows (row_key r)) (row_key r) (lr_operation_date r)"
    by (auto simp: ledger_snapshots_def)
  have "row_key r = k"
    using arg_cong [OF r, of snapshot_key] m spec_snapshot_key [of 0 "rows_of rows (row_key r)" "row_key r"]
    by (simp add: snapshot_key_def)
  moreover have "lr_operation_date r = ss_snapshot_date ?m"
    using arg_cong [OF r, of ss_snapshot_date] by simp
  ultimately have actual: "ss_actual_stock ?m = stock_through (rows_of rows k) (ss_snapshot_date ?m)"
    using arg_cong [OF r, of ss_actual_stock] by (simp add: spec_snapshot_balance)
  have latest: "lr_operation_date q \<le> ss_snapshot_date ?m" if q: "q \<in> set (rows_of rows k)" "lr_operation_date q < f" for q
  proof -
    have "spec_snapshot 0 (rows_of rows k) k (lr_operation_date q) \<in> units_of ` {s \<in> set live. ss_snapshot_date s < f}"
      unfolding live using q by (auto simp: ledger_snapshots_def rows_of_def)
    then obtain t where t: "t \<in> set live" "ss_snapshot_date t < f"
      "units_of t = spec_snapshot 0 (rows_of rows k) k (lr_operation_date q)" by auto
    have "snapshot_key t = k" "ss_snapshot_date t = lr_operation_date q"
      using arg_cong [OF t(3), of snapshot_key] arg_cong [OF t(3), of ss_snapshot_date] spec_snapshot_key [of 0 "rows_of rows k" k]
      by (simp_all add: snapshot_key_def)
    then have "t \<in> insert s (set ss)" unfolding in_l using t by simp
    then show ?thesis using max_by_ge [of t s ss ss_snapshot_date] \<open>ss_snapshot_date t = lr_operation_date q\<close> by simp
  qed
  have "filter (\<lambda>r. lr_operation_date r < f) (rows_of rows k) =
      filter (\<lambda>r. lr_operation_date r \<le> ss_snapshot_date ?m) (rows_of rows k)"
    using latest m by (intro filter_cong) (auto dest: latest)
  then have "stock_before (rows_of rows k) f = ss_actual_stock ?m"
    by (simp add: stock_before_def actual stock_through_def)
  with Cons k show ?thesis by (simp add: load_carry_forward_openings_def)
qed

section \<open>The incremental rebuild\<close>

lemma pipeline_filtered:
  "pipeline_rebuild lifecycle costs (Some f) t (Some i) (filter (\<lambda>r. f \<le> lr_operation_date r) rows) =
   pipeline_rebuild lifecycle costs (Some f) t (Some i) rows"
  by (simp add: pipeline_rebuild_def)

text \<open>The rows of a key that the stream yields: with a carried opening, those of the window.\<close>

lemma kept_rows_of_key:
  "filter (\<lambda>r. row_key r = k) (map entry_row (filter (\<lambda>e. row_kept_by_variant_b (row_key (le_row e))
        (lr_operation_date (le_row e)) (Some f) ks) es)) =
     (if k \<in> ks then filter (\<lambda>r. f \<le> lr_operation_date r) (rows_of (map entry_row es) k)
      else rows_of (map entry_row es) k)"
  by (induction es) (auto simp: row_kept_by_variant_b_def rows_of_def)

lemma all_v1_entries [simp]: "all_v1 (map entry_row es)"
  by (simp add: all_v1_def)

lemma all_v1_rows_of: "all_v1 rows \<Longrightarrow> all_v1 (rows_of rows k)"
  by (simp add: rows_of_def all_v1_filter)

lemma group_units:
  assumes "pipeline_rebuild lifecycle costs (Some f) t
      (if k \<in> ks then Some (stock_before (rows_of rows k) f) else None)
      (if k \<in> ks then filter (\<lambda>r. f \<le> lr_operation_date r) (rows_of rows k) else rows_of rows k) = Inr (snaps, la)"
    and "all_v1 rows" and "rebuild_allowed lifecycle"
  shows "units_of ` set snaps = set (spec_snapshots (Some f) t (rows_of rows k))"
proof -
  have v: "all_v1 (rows_of rows k)" by (rule all_v1_rows_of [OF assms(2)])
  have key: "\<And>r. r \<in> set (rows_of rows k) \<Longrightarrow> row_key r = k" by (simp add: rows_of_def)
  have "map units_of snaps = sort_key snapshot_order (spec_snapshots (Some f) t (rows_of rows k))"
  proof (cases "k \<in> ks")
    case True
    with assms(1) have "pipeline_rebuild lifecycle costs (Some f) t (Some (stock_before (rows_of rows k) f)) (rows_of rows k) = Inr (snaps, la)"
      by (simp add: pipeline_filtered)
    then show ?thesis by (rule pipeline_carry_units [OF _ key v assms(3)])
  next
    case False
    with assms(1) have "pipeline_rebuild lifecycle costs (Some f) t None (rows_of rows k) = Inr (snaps, la)" by simp
    then show ?thesis by (rule pipeline_full_units [OF _ v assms(3)])
  qed
  from arg_cong [OF this, of set] show ?thesis by simp
qed

lemma compute_units:
  assumes "compute_from_stream lifecycle costs f t carry groups = Inr (snaps, la)"
    and carry: "\<And>k. carry k = (if k \<in> ks then Some (stock_before (rows_of rows k) f) else None)"
    and groups: "set groups = (\<lambda>k. (k, if k \<in> ks then filter (\<lambda>r. f \<le> lr_operation_date r) (rows_of rows k) else rows_of rows k)) ` K"
    and "all_v1 rows" and "rebuild_allowed lifecycle"
    and K: "\<And>r. r \<in> set rows \<Longrightarrow> f \<le> lr_operation_date r \<Longrightarrow> row_key r \<in> K"
  shows "units_of ` set snaps = ledger_snapshots rows (in_window (Some f) (Some t))"
proof -
  let ?g = "\<lambda>(key, rows). pipeline_rebuild lifecycle costs (Some f) (Some t) (carry key) rows"
  obtain chunks where chunks: "smap ?g groups = Inr chunks" and snaps: "snaps = concat (map fst chunks)"
    using assms(1) by (auto simp: compute_from_stream_def sbind_Inr_iff Let_def split: if_splits)
  have each: "\<exists>s la. ?g (k, rs) = Inr (s, la) \<and> units_of ` set s = set (spec_snapshots (Some f) (Some t) (rows_of rows k))"
    if "(k, rs) \<in> set groups" for k rs
  proof -
    have "\<forall>x\<in>set groups. \<exists>y. ?g x = Inr y"
      by (rule smap_Inr_iff [THEN iffD1], rule exI, rule chunks)
    with that obtain c where c: "?g (k, rs) = Inr c" by (drule_tac bspec) (assumption, elim exE)
    obtain s la where s: "c = (s, la)" by fastforce
    have "rs = (if k \<in> ks then filter (\<lambda>r. f \<le> lr_operation_date r) (rows_of rows k) else rows_of rows k)"
      using that unfolding groups by auto
    with c s carry have "units_of ` set s = set (spec_snapshots (Some f) (Some t) (rows_of rows k))"
      by (intro group_units [OF _ assms(4,5)]) simp
    with c s show ?thesis by blast
  qed
  have "units_of ` set snaps = (\<Union>c\<in>set chunks. units_of ` set (fst c))"
    by (auto simp: snaps)
  also have "\<dots> = (\<Union>g\<in>set groups. set (spec_snapshots (Some f) (Some t) (rows_of rows (fst g))))"
  proof (intro equalityI subsetI)
    fix x assume "x \<in> (\<Union>c\<in>set chunks. units_of ` set (fst c))"
    then obtain c where c: "c \<in> set chunks" "x \<in> units_of ` set (fst c)" by blast
    then obtain g where g: "g \<in> set groups" "?g g = Inr c" unfolding smap_set [OF chunks] by blast
    obtain k rs where "g = (k, rs)" by fastforce
    with g each [of k rs] c(2) show "x \<in> (\<Union>g\<in>set groups. set (spec_snapshots (Some f) (Some t) (rows_of rows (fst g))))"
      by (intro UN_I [of g]) auto
  next
    fix x assume "x \<in> (\<Union>g\<in>set groups. set (spec_snapshots (Some f) (Some t) (rows_of rows (fst g))))"
    then obtain k rs where g: "(k, rs) \<in> set groups" "x \<in> set (spec_snapshots (Some f) (Some t) (rows_of rows k))" by auto
    obtain s la where s: "?g (k, rs) = Inr (s, la)" "units_of ` set s = set (spec_snapshots (Some f) (Some t) (rows_of rows k))"
      using each [OF g(1)] by blast
    have "(s, la) \<in> set chunks" unfolding smap_set [OF chunks] using g(1) s(1) by blast
    with s(2) g(2) show "x \<in> (\<Union>c\<in>set chunks. units_of ` set (fst c))" by (intro UN_I [of "(s, la)"]) simp_all
  qed
  also have "\<dots> = (\<Union>k\<in>K. set (spec_snapshots (Some f) (Some t) (rows_of rows k)))"
    by (simp add: groups)
  also have "\<dots> = ledger_snapshots rows (in_window (Some f) (Some t))"
  proof (intro equalityI subsetI)
    fix x assume "x \<in> (\<Union>k\<in>K. set (spec_snapshots (Some f) (Some t) (rows_of rows k)))"
    then obtain k r where "x = spec_snapshot 0 (rows_of rows k) k (lr_operation_date r)" "r \<in> set rows" "row_key r = k"
      "in_window (Some f) (Some t) (lr_operation_date r)" unfolding spec_snapshots_of_key by blast
    then show "x \<in> ledger_snapshots rows (in_window (Some f) (Some t))" unfolding ledger_snapshots_def by blast
  next
    fix x assume "x \<in> ledger_snapshots rows (in_window (Some f) (Some t))"
    then obtain r where r: "x = spec_snapshot 0 (rows_of rows (row_key r)) (row_key r) (lr_operation_date r)" "r \<in> set rows"
      "in_window (Some f) (Some t) (lr_operation_date r)" unfolding ledger_snapshots_def by blast
    then have "row_key r \<in> K" using K by (simp add: in_window_def)
    with r show "x \<in> (\<Union>k\<in>K. set (spec_snapshots (Some f) (Some t) (rows_of rows k)))"
      unfolding spec_snapshots_of_key by blast
  qed
  finally show ?thesis .
qed

text \<open>The store keeps the units when rows with equal keys have equal units.\<close>

lemma upsert_units:
  "(\<And>a b. a \<in> set live \<union> set ss \<Longrightarrow> b \<in> set live \<union> set ss \<Longrightarrow> day_sku_wh a = day_sku_wh b \<Longrightarrow> units_of a = units_of b) \<Longrightarrow>
   units_of ` set (fold upsert_one ss live) = units_of ` set live \<union> units_of ` set ss"
proof (induction ss arbitrary: live)
  case Nil
  show ?case by simp
next
  case (Cons s ss)
  have sub: "set (upsert_one s live) \<subseteq> insert s (set live)" by (auto simp: upsert_one_def)
  have one: "units_of ` set (upsert_one s live) = insert (units_of s) (units_of ` set live)"
  proof (cases "\<exists>t\<in>set live. day_sku_wh t = day_sku_wh s")
    case True
    then obtain t where t: "t \<in> set live" "day_sku_wh t = day_sku_wh s" by blast
    have "units_of t = units_of s" using Cons.prems [of t s] t by simp
    moreover have "units_of ` set (upsert_one s live) = units_of ` set live"
    proof -
      have same: "units_of (if day_sku_wh u = day_sku_wh s then s else u) = units_of u" if "u \<in> set live" for u
        using Cons.prems [of s u] that by simp
      have "upsert_one s live = map (\<lambda>u. if day_sku_wh u = day_sku_wh s then s else u) live"
        using True by (simp add: upsert_one_def)
      then show ?thesis by (simp only: set_map image_image) (rule image_cong [OF refl], rule same)
    qed
    ultimately show ?thesis using t(1) by (metis imageI insert_absorb)
  next
    case False
    then show ?thesis by (auto simp: upsert_one_def)
  qed
  have "units_of ` set (fold upsert_one ss (upsert_one s live)) = units_of ` set (upsert_one s live) \<union> units_of ` set ss"
  proof (rule Cons.IH)
    fix a b assume "a \<in> set (upsert_one s live) \<union> set ss" "b \<in> set (upsert_one s live) \<union> set ss" "day_sku_wh a = day_sku_wh b"
    with sub show "units_of a = units_of b" by (intro Cons.prems) auto
  qed
  with one show ?case by simp
qed

lemma ledger_snapshot_row:
  assumes "units_of s \<in> ledger_snapshots (map entry_row es) P"
  obtains e where "e \<in> set es" "units_of s = spec_snapshot 0 (rows_of (map entry_row es) (snapshot_key s)) (snapshot_key s) (ss_snapshot_date s)"
    "row_key (le_row e) = snapshot_key s" "lr_operation_date (le_row e) = ss_snapshot_date s"
proof -
  obtain r where r: "r \<in> set (map entry_row es)"
    "units_of s = spec_snapshot 0 (rows_of (map entry_row es) (row_key r)) (row_key r) (lr_operation_date r)"
    using assms unfolding ledger_snapshots_def by blast
  obtain e where e: "e \<in> set es" "r = entry_row e" using r(1) by auto
  have "snapshot_key s = row_key r" "ss_snapshot_date s = lr_operation_date r"
    using arg_cong [OF r(2), of snapshot_key] arg_cong [OF r(2), of ss_snapshot_date]
      spec_snapshot_key [of 0 "rows_of (map entry_row es) (row_key r)" "row_key r"]
    by (simp_all add: snapshot_key_def)
  with r(2) e show ?thesis by (intro that [of e]) simp_all
qed

lemma ledger_snapshot_unique:
  assumes "entries_ok es" and "units_of a \<in> ledger_snapshots (map entry_row es) P"
    and "units_of b \<in> ledger_snapshots (map entry_row es) Q" and "day_sku_wh a = day_sku_wh b"
  shows "units_of a = units_of b"
proof -
  obtain e where e: "e \<in> set es" "units_of a = spec_snapshot 0 (rows_of (map entry_row es) (snapshot_key a)) (snapshot_key a) (ss_snapshot_date a)"
    "row_key (le_row e) = snapshot_key a" by (rule ledger_snapshot_row [OF assms(2)])
  obtain g where g: "g \<in> set es" "units_of b = spec_snapshot 0 (rows_of (map entry_row es) (snapshot_key b)) (snapshot_key b) (ss_snapshot_date b)"
    "row_key (le_row g) = snapshot_key b" by (rule ledger_snapshot_row [OF assms(3)])
  have "lr_sku (le_row e) = lr_sku (le_row g)" "lr_warehouse_name (le_row e) = lr_warehouse_name (le_row g)"
    using e(3) g(3) assms(4) by (simp_all add: row_key_def snapshot_key_def day_sku_wh_def)
  moreover have "lr_sku (le_row e) = lr_sku (le_row g) \<longrightarrow> lr_warehouse_name (le_row e) = lr_warehouse_name (le_row g) \<longrightarrow>
      lr_nm_id (le_row e) = lr_nm_id (le_row g)"
    using assms(1) e(1) g(1) unfolding entries_ok_def by blast
  ultimately have "snapshot_key a = snapshot_key b" using e(3) g(3) by (simp add: row_key_def)
  moreover have "ss_snapshot_date a = ss_snapshot_date b" using assms(4) by (simp add: day_sku_wh_def)
  ultimately show ?thesis using e(2) g(2) by simp
qed

lemma draft_to_values_id:
  assumes "entries_ok es" and "units_of s \<in> ledger_snapshots (map entry_row es) P"
  shows "draft_to_values s = s"
proof -
  obtain e where e: "e \<in> set es" "row_key (le_row e) = snapshot_key s" by (rule ledger_snapshot_row [OF assms(2)])
  have "lr_sku (le_row e) \<noteq> None" "lr_warehouse_name (le_row e) \<noteq> None"
    using assms(1) e(1) unfolding entries_ok_def by blast+
  then have "ss_sku s \<noteq> None" "ss_warehouse_name s \<noteq> None"
    using e(2) by (simp_all add: row_key_def snapshot_key_def)
  then show ?thesis by (auto simp: draft_to_values_def opt_text_def)
qed

lemma entries_ok_sort: "entries_ok (sort_key g es) = entries_ok es"
  by (simp add: entries_ok_def)

lemma delete_window_before:
  assumes "\<And>s. s \<in> set live \<Longrightarrow> ss_snapshot_date s \<le> t"
  shows "set (delete_window f t live) = {s \<in> set live. ss_snapshot_date s < f}"
  using assms by (auto simp: delete_window_def)

lemma latest_snapshot_date_ge:
  "latest_snapshot_date live = Some d \<Longrightarrow> s \<in> set live \<Longrightarrow> ss_snapshot_date s \<le> d"
  by (auto simp: latest_snapshot_date_def split: if_splits)

lemma incremental_rebuild_window:
  assumes "incremental_rebuild lifecycle busy user costs entries live (Some f) = Inr (live', la)" and "entries \<noteq> []"
  obtains t groups snaps an where
    "\<And>e. e \<in> set entries \<Longrightarrow> lr_operation_date (le_row e) \<le> t" "\<And>s. s \<in> set live \<Longrightarrow> ss_snapshot_date s \<le> t"
    "stream_grouped_by_key (Some f) (carry_keys f (delete_window f t live)) entries = Inr groups"
    "compute_from_stream lifecycle costs f t (load_carry_forward_openings f (delete_window f t live)) groups = Inr (snaps, an)"
    "live' = upsert_snapshots snaps (delete_window f t live)"
proof -
  let ?ds = "set (map (\<lambda>e. lr_operation_date (le_row e)) entries)"
  have bounds: "ledger_date_bounds entries = Some (Min ?ds, Max ?ds)"
    using assms(2) by (simp add: ledger_date_bounds_def Let_def)
  obtain w where w: "compute_rebuild_window f (latest_snapshot_date live) (Some (Max ?ds)) = Inr w"
    "rw_from w = f" "Max ?ds \<le> rw_to w" "\<forall>d. latest_snapshot_date live = Some d \<longrightarrow> d \<le> rw_to w"
    using compute_rebuild_window_ok [of f "latest_snapshot_date live" "Some (Max ?ds)"] by auto
  have dates: "lr_operation_date (le_row e) \<le> rw_to w" if "e \<in> set entries" for e
  proof -
    have "lr_operation_date (le_row e) \<le> Max ?ds" by (rule Max_ge) (use that in auto)
    also note w(3)
    finally show ?thesis .
  qed
  have live: "ss_snapshot_date s \<le> rw_to w" if "s \<in> set live" for s
  proof -
    have "latest_snapshot_date live \<noteq> None" using that by (auto simp: latest_snapshot_date_def)
    then obtain d where "latest_snapshot_date live = Some d" by blast
    with w(4) latest_snapshot_date_ge [OF _ that] show ?thesis by force
  qed
  from assms(1) bounds w(1,2) obtain groups snaps an where
    g: "stream_grouped_by_key (Some f) (carry_keys f (delete_window f (rw_to w) live)) entries = Inr groups"
    and c: "compute_from_stream lifecycle costs f (rw_to w) (load_carry_forward_openings f (delete_window f (rw_to w) live)) groups = Inr (snaps, an)"
    and l: "live' = upsert_snapshots snaps (delete_window f (rw_to w) live)"
    by (auto simp: incremental_rebuild_def sbind_Inr_iff Let_def upsert_snapshots_def split: if_splits)
  show ?thesis using that [OF dates live g c l] by blast
qed

lemma incremental_units:
  assumes run: "incremental_rebuild lifecycle busy user costs entries live (Some f) = Inr (live', la)"
    and ne: "entries \<noteq> []" and ok: "entries_ok entries" and lc: "rebuild_allowed lifecycle"
    and before: "units_of ` {s \<in> set live. ss_snapshot_date s < f} = ledger_snapshots (map entry_row entries) (\<lambda>d. d < f)"
  shows "units_of ` set live' = ledger_snapshots (map entry_row entries) (\<lambda>_. True)"
proof -
  obtain t groups snaps an where t: "\<And>e. e \<in> set entries \<Longrightarrow> lr_operation_date (le_row e) \<le> t"
    and lt: "\<And>s. s \<in> set live \<Longrightarrow> ss_snapshot_date s \<le> t"
    and groups: "stream_grouped_by_key (Some f) (carry_keys f (delete_window f t live)) entries = Inr groups"
    and snaps: "compute_from_stream lifecycle costs f t (load_carry_forward_openings f (delete_window f t live)) groups = Inr (snaps, an)"
    and live': "live' = upsert_snapshots snaps (delete_window f t live)"
    by (rule incremental_rebuild_window [OF run ne]) blast
  let ?es = "sort_key stream_order entries"
  let ?S = "map entry_row ?es" and ?live1 = "delete_window f t live"
  let ?ks = "carry_keys f ?live1"
  have same: "ledger_snapshots ?S P = ledger_snapshots (map entry_row entries) P" for P
    by (rule ledger_snapshots_mset) simp
  have live1: "set ?live1 = {s \<in> set live. ss_snapshot_date s < f}" by (rule delete_window_before [OF lt])
  have old: "units_of ` set ?live1 = ledger_snapshots ?S (\<lambda>d. d < f)" unfolding live1 before same ..
  have "{s \<in> set ?live1. ss_snapshot_date s < f} = set ?live1" unfolding live1 by auto
  then have carry: "load_carry_forward_openings f ?live1 k = (if k \<in> ?ks then Some (stock_before (rows_of ?S k) f) else None)" for k
    using old by (intro carry_forward_correct) simp
  obtain gs where gs: "stream_grouped_by_key (Some f) ?ks entries = Inr gs"
    "set gs = (\<lambda>k. (k, filter (\<lambda>r. row_key r = k) (map entry_row (filter (\<lambda>e. row_kept_by_variant_b (row_key (le_row e))
        (lr_operation_date (le_row e)) (Some f) ?ks) ?es)))) ` row_key ` set (map entry_row (filter (\<lambda>e. row_kept_by_variant_b (row_key (le_row e))
        (lr_operation_date (le_row e)) (Some f) ?ks) ?es))"
    using stream_groups [OF ok, of "Some f" ?ks] by (auto simp only: Let_def)
  have new: "units_of ` set snaps = ledger_snapshots ?S (in_window (Some f) (Some t))"
  proof (rule compute_units [OF snaps carry _ all_v1_entries lc])
    show "set groups = (\<lambda>k. (k, if k \<in> ?ks then filter (\<lambda>r. f \<le> lr_operation_date r) (rows_of ?S k) else rows_of ?S k)) `
        row_key ` set (map entry_row (filter (\<lambda>e. row_kept_by_variant_b (row_key (le_row e)) (lr_operation_date (le_row e)) (Some f) ?ks) ?es))"
      using gs groups by (simp only: kept_rows_of_key sum.inject)
    show "row_key r \<in> row_key ` set (map entry_row (filter (\<lambda>e. row_kept_by_variant_b (row_key (le_row e)) (lr_operation_date (le_row e)) (Some f) ?ks) ?es))"
      if "r \<in> set ?S" "f \<le> lr_operation_date r" for r
      using that by (auto simp: row_kept_by_variant_b_def)
  qed
  have window: "ledger_snapshots ?S (in_window (Some f) (Some t)) = ledger_snapshots ?S (\<lambda>d. f \<le> d)"
  proof -
    have "lr_operation_date r \<le> t" if "r \<in> set ?S" for r using that t by auto
    then show ?thesis unfolding ledger_snapshots_def in_window_def by (auto; blast)
  qed
  have ok': "entries_ok ?es" using ok by (simp add: entries_ok_sort)
  have drafts: "map draft_to_values snaps = snaps"
  proof (rule map_idI)
    fix s assume "s \<in> set snaps"
    then have "units_of s \<in> ledger_snapshots ?S (in_window (Some f) (Some t))" unfolding new [symmetric] by blast
    then show "draft_to_values s = s" by (rule draft_to_values_id [OF ok'])
  qed
  have "units_of ` set live' = units_of ` set ?live1 \<union> units_of ` set snaps"
    unfolding live' upsert_snapshots_def drafts
  proof (rule upsert_units)
    fix a b assume ab: "a \<in> set ?live1 \<union> set snaps" "b \<in> set ?live1 \<union> set snaps" "day_sku_wh a = day_sku_wh b"
    have "units_of a \<in> ledger_snapshots ?S (\<lambda>d. d < f \<or> in_window (Some f) (Some t) d)"
      "units_of b \<in> ledger_snapshots ?S (\<lambda>d. d < f \<or> in_window (Some f) (Some t) d)"
      unfolding ledger_snapshots_split [symmetric] old [symmetric] new [symmetric] using ab by blast+
    then show "units_of a = units_of b" using ab(3) by (rule ledger_snapshot_unique [OF ok'])
  qed
  also have "\<dots> = ledger_snapshots ?S (\<lambda>_. True)"
    unfolding old new window ledger_snapshots_split by (rule arg_cong [of _ _ "ledger_snapshots ?S"]) auto
  finally show ?thesis unfolding same .
qed

section \<open>The full rebuild\<close>

lemma stream_all_groups:
  assumes "entries_ok entries"
  obtains groups where "stream_grouped_by_key None {} entries = Inr groups"
    "set groups = (\<lambda>k. (k, rows_of (map entry_row (sort_key stream_order entries)) k)) `
       row_key ` set (map entry_row (sort_key stream_order entries))"
proof -
  have all: "filter (\<lambda>e. row_kept_by_variant_b (row_key (le_row e)) (lr_operation_date (le_row e)) None {}) es = es" for es
    by (simp add: row_kept_by_variant_b_def)
  show ?thesis
    using stream_groups [OF assms, of None "{}"] that unfolding all Let_def rows_of_def by blast
qed

lemma full_units:
  assumes run: "full_rebuild lifecycle busy user costs entries live = Inr (live', la)"
    and ne: "entries \<noteq> []" and ok: "entries_ok entries" and lc: "rebuild_allowed lifecycle"
  shows "units_of ` set live' = ledger_snapshots (map entry_row entries) (\<lambda>_. True)"
proof -
  let ?ds = "set (map (\<lambda>e. lr_operation_date (le_row e)) entries)"
  let ?es = "sort_key stream_order entries"
  let ?S = "map entry_row ?es"
  have bounds: "ledger_date_bounds entries = Some (Min ?ds, Max ?ds)"
    using ne by (simp add: ledger_date_bounds_def Let_def)
  have same: "ledger_snapshots ?S P = ledger_snapshots (map entry_row entries) P" for P
    by (rule ledger_snapshots_mset) simp
  obtain groups where g: "stream_grouped_by_key None {} entries = Inr groups"
    "set groups = (\<lambda>k. (k, rows_of ?S k)) ` row_key ` set ?S"
    by (rule stream_all_groups [OF ok])
  from run bounds g(1) obtain snaps an where
    c: "compute_from_stream lifecycle costs (Min ?ds) (Max ?ds) (\<lambda>_. None) groups = Inr (snaps, an)"
    and l: "live' = (if snaps = [] then live else map draft_to_values snaps)"
    by (auto simp: full_rebuild_def compute_full_from_stream_def sbind_Inr_iff promote_staging_to_live_def split: if_splits)
  have new: "units_of ` set snaps = ledger_snapshots ?S (in_window (Some (Min ?ds)) (Some (Max ?ds)))"
    by (rule compute_units [OF c, where ks = "{}" and K = "row_key ` set ?S"]) (use g(2) lc in \<open>simp_all add: image_eqI\<close>)
  have "ledger_snapshots ?S (in_window (Some (Min ?ds)) (Some (Max ?ds))) = ledger_snapshots ?S (\<lambda>_. True)"
  proof -
    have "in_window (Some (Min ?ds)) (Some (Max ?ds)) (lr_operation_date r)" if "r \<in> set ?S" for r
    proof -
      have "lr_operation_date r \<in> ?ds" using that by auto
      then show ?thesis by (simp add: in_window_def del: set_map)
    qed
    then show ?thesis unfolding ledger_snapshots_def by (auto; blast)
  qed
  with new have units: "units_of ` set snaps = ledger_snapshots ?S (\<lambda>_. True)" by simp
  have "?S \<noteq> []" using ne by (metis length_0_conv length_map length_sort)
  then have "ledger_snapshots ?S (\<lambda>_. True) \<noteq> {}" by (cases ?S) (auto simp: ledger_snapshots_def simp del: map_eq_Cons_conv)
  with units have nonempty: "snaps \<noteq> []" by auto
  have ok': "entries_ok ?es" using ok by (simp add: entries_ok_sort)
  have "map draft_to_values snaps = snaps"
  proof (rule map_idI)
    fix s assume "s \<in> set snaps"
    then have "units_of s \<in> ledger_snapshots ?S (\<lambda>_. True)" unfolding units [symmetric] by blast
    then show "draft_to_values s = s" by (rule draft_to_values_id [OF ok'])
  qed
  with nonempty l units show ?thesis by (simp add: same)
qed

section \<open>The rebuilds return\<close>

text \<open>
  Only the division of a sale price can raise (a quotient that needs more digits than the
  context has); a ledger without sale prices is rebuilt always.
\<close>

definition unpriced :: "ledger_row list \<Rightarrow> bool" where
  "unpriced rows \<longleftrightarrow> (\<forall>r\<in>set rows. lr_sale_price_per_unit r = None)"

lemma unpriced_index: "unpriced rows \<Longrightarrow> build_sale_price_index rows = Inr []"
proof -
  assume u: "unpriced rows"
  have "fold add_sale rows d = d" if "unpriced rows" for d rows
    using that by (induction rows arbitrary: d) (simp_all add: unpriced_def add_sale_def)
  with u show ?thesis by (simp add: build_sale_price_index_def)
qed

lemma pipeline_returns:
  assumes "\<And>r. r \<in> set rows \<Longrightarrow> row_key r = key" and "all_v1 rows" and "rebuild_allowed lifecycle" and "unpriced rows"
  shows "\<exists>y. pipeline_rebuild lifecycle costs (Some f) t initial rows = Inr y"
proof -
  let ?w = "case initial of None \<Rightarrow> rows | Some _ \<Rightarrow> filter (\<lambda>r. f \<le> lr_operation_date r) rows"
  have w: "\<And>r. r \<in> set ?w \<Longrightarrow> row_key r = key" "all_v1 ?w" "unpriced ?w"
    using assms(1,2,4) by (auto simp: all_v1_def unpriced_def split: option.splits)
  have "\<exists>raw. rebuild_from_ledger lifecycle (Some f) t initial ?w = Inr raw"
  proof (cases "?w = []")
    case True
    then show ?thesis by (simp add: rebuild_from_ledger_def)
  next
    case False
    then show ?thesis
      using rebuild_single_key [OF False w(1,2) assms(3)] w(2)
      by (cases initial) (simp_all add: rebuild_key_spec rebuild_key_carry)
  qed
  then obtain raw where "rebuild_from_ledger lifecycle (Some f) t initial ?w = Inr raw" ..
  with unpriced_index [OF w(3)] show ?thesis
    by (cases initial) (simp_all add: pipeline_rebuild_def Let_def)
qed

lemma compute_returns:
  assumes "\<And>k rs. (k, rs) \<in> set groups \<Longrightarrow> (\<forall>r\<in>set rs. row_key r = k) \<and> all_v1 rs \<and> unpriced rs"
    and "rebuild_allowed lifecycle"
  shows "\<exists>y. compute_from_stream lifecycle costs f t carry groups = Inr y"
proof -
  have "\<exists>chunks. smap (\<lambda>(key, rows). pipeline_rebuild lifecycle costs (Some f) (Some t) (carry key) rows) groups = Inr chunks"
  proof (unfold smap_Inr_iff, intro ballI)
    fix g assume g: "g \<in> set groups"
    obtain k rs where krs: "g = (k, rs)" by fastforce
    have "\<exists>y. pipeline_rebuild lifecycle costs (Some f) (Some t) (carry k) rs = Inr y"
      by (rule pipeline_returns [of rs k]) (use assms g krs in auto)
    with krs show "\<exists>y. (\<lambda>(key, rows). pipeline_rebuild lifecycle costs (Some f) (Some t) (carry key) rows) g = Inr y" by simp
  qed
  then show ?thesis by (auto simp: compute_from_stream_def Let_def)
qed

lemma stream_groups_unpriced:
  assumes "entries_ok entries" and "unpriced (map entry_row entries)"
  obtains groups where "stream_grouped_by_key from_date ks entries = Inr groups"
    "\<And>k rs. (k, rs) \<in> set groups \<Longrightarrow> (\<forall>r\<in>set rs. row_key r = k) \<and> all_v1 rs \<and> unpriced rs"
proof -
  let ?rows = "map entry_row (filter (\<lambda>e. row_kept_by_variant_b (row_key (le_row e)) (lr_operation_date (le_row e)) from_date ks)
     (sort_key stream_order entries))"
  from stream_groups [OF assms(1), of from_date ks]
  obtain gs where gs: "stream_grouped_by_key from_date ks entries = Inr gs"
    "set gs = (\<lambda>k. (k, filter (\<lambda>r. row_key r = k) ?rows)) ` row_key ` set ?rows"
    unfolding Let_def by (elim exE conjE)
  have sub: "set ?rows \<subseteq> set (map entry_row entries)" by auto
  show ?thesis
  proof (rule that [OF gs(1)])
    fix k rs assume "(k, rs) \<in> set gs"
    then have "rs = filter (\<lambda>r. row_key r = k) ?rows" unfolding gs(2) by blast
    moreover have "all_v1 ?rows" by simp
    moreover have "unpriced ?rows" unfolding unpriced_def by (rule ballI) (use sub assms(2) in \<open>unfold unpriced_def, blast\<close>)
    ultimately show "(\<forall>r\<in>set rs. row_key r = k) \<and> all_v1 rs \<and> unpriced rs"
      by (simp only: set_filter) (simp add: all_v1_def unpriced_def del: set_map)
  qed
qed

lemma incremental_returns:
  assumes "entries_ok entries" and "rebuild_allowed lifecycle" and "unpriced (map entry_row entries)"
  shows "\<exists>live' la. incremental_rebuild lifecycle False user costs entries live (Some f) = Inr (live', la)"
proof (cases "entries = []")
  case True
  then show ?thesis by (simp add: incremental_rebuild_def ledger_date_bounds_def)
next
  case False
  let ?ds = "set (map (\<lambda>e. lr_operation_date (le_row e)) entries)"
  have bounds: "ledger_date_bounds entries = Some (Min ?ds, Max ?ds)"
    using False by (simp add: ledger_date_bounds_def Let_def)
  obtain w where w: "compute_rebuild_window f (latest_snapshot_date live) (Some (Max ?ds)) = Inr w"
    using compute_rebuild_window_ok by blast
  let ?live1 = "delete_window (rw_from w) (rw_to w) live"
  obtain groups where g: "stream_grouped_by_key (Some (rw_from w)) (carry_keys (rw_from w) ?live1) entries = Inr groups"
    "\<And>k rs. (k, rs) \<in> set groups \<Longrightarrow> (\<forall>r\<in>set rs. row_key r = k) \<and> all_v1 rs \<and> unpriced rs"
    by (rule stream_groups_unpriced [OF assms(1,3), of "Some (rw_from w)" "carry_keys (rw_from w) ?live1"]) (rule that)
  obtain snaps an where c: "compute_from_stream lifecycle costs (rw_from w) (rw_to w)
      (load_carry_forward_openings (rw_from w) ?live1) groups = Inr (snaps, an)"
    using compute_returns [OF g(2) assms(2)] by (metis surj_pair)
  show ?thesis by (simp add: incremental_rebuild_def bounds w g(1) c Let_def del: set_map)
qed

section \<open>Articles that share a key\<close>

lemma group_runs_cover: "acc \<noteq> [] \<Longrightarrow> (\<Union>g\<in>set (group_runs f k acc xs). set (snd g)) = set acc \<union> set xs"
proof (induction xs arbitrary: k acc)
  case Nil
  then show ?case by simp
next
  case (Cons x xs)
  then show ?case using Cons.IH [of "acc @ [x]" k] Cons.IH [of "[x]" "f x"] by simp
qed

lemma group_consecutive_cover: "(\<Union>g\<in>set (group_consecutive f xs). set (snd g)) = set xs"
proof (cases xs)
  case (Cons x ys)
  then show ?thesis using group_runs_cover [of "[x]" f "f x" ys] by (simp add: group_consecutive_def)
qed (simp add: group_consecutive_def)

lemma full_snapshot_of_entry:
  assumes c: "compute_from_stream lifecycle costs lo hi (\<lambda>_. None) (group_consecutive row_key rows) = Inr (snaps, an)"
    and v: "all_v1 rows" and lc: "rebuild_allowed lifecycle"
    and r: "r \<in> set rows" "lo \<le> lr_operation_date r" "lr_operation_date r \<le> hi"
  shows "\<exists>s\<in>set snaps. snapshot_key s = row_key r \<and> ss_snapshot_date s = lr_operation_date r"
proof -
  let ?gs = "group_consecutive row_key rows"
  obtain chunks where chunks: "smap (\<lambda>(key, rows). pipeline_rebuild lifecycle costs (Some lo) (Some hi) None rows) ?gs = Inr chunks"
    and snaps: "snaps = concat (map fst chunks)"
    using c by (auto simp: compute_from_stream_def sbind_Inr_iff Let_def split: if_splits)
  obtain k rs where g: "(k, rs) \<in> set ?gs" "r \<in> set rs"
    using r(1) group_consecutive_cover [of row_key rows] by fastforce
  have "\<forall>g\<in>set ?gs. \<exists>y. (\<lambda>(key, rows). pipeline_rebuild lifecycle costs (Some lo) (Some hi) None rows) g = Inr y"
    by (rule smap_Inr_iff [THEN iffD1], rule exI, rule chunks)
  with g(1) obtain y where "pipeline_rebuild lifecycle costs (Some lo) (Some hi) None rs = Inr y" by fastforce
  then obtain ss la where y: "pipeline_rebuild lifecycle costs (Some lo) (Some hi) None rs = Inr (ss, la)" by (cases y) simp
  have "(ss, la) \<in> set chunks" unfolding smap_set [OF chunks] using g(1) y by force
  then have sub: "set ss \<subseteq> set snaps" unfolding snaps by force
  have "set rs \<subseteq> set rows" using g(1) group_consecutive_cover [of row_key rows] by fastforce
  then have "all_v1 rs" using v by (auto simp: all_v1_def)
  from arg_cong [OF pipeline_full_units [OF y this lc], of set]
  have "units_of ` set ss = set (spec_snapshots (Some lo) (Some hi) rs)" by simp
  then have "spec_snapshot 0 (rows_of rs (row_key r)) (row_key r) (lr_operation_date r) \<in> units_of ` set ss"
    unfolding spec_snapshots_set using g(2) r(2,3) by (auto simp: in_window_def)
  then obtain s where s: "s \<in> set ss" "units_of s = spec_snapshot 0 (rows_of rs (row_key r)) (row_key r) (lr_operation_date r)"
    by (metis imageE)
  have "snapshot_key s = row_key r" "ss_snapshot_date s = lr_operation_date r"
    using arg_cong [OF s(2), of snapshot_key] arg_cong [OF s(2), of ss_snapshot_date]
      spec_snapshot_key [of 0 "rows_of rs (row_key r)" "row_key r"]
    by (simp_all add: snapshot_key_def)
  with s(1) sub show ?thesis by blast
qed

lemma full_rebuild_collision:
  assumes e: "e \<in> set entries" "g \<in> set entries" and lc: "rebuild_allowed lifecycle"
    and v: "\<And>x. x \<in> set entries \<Longrightarrow> le_version x = Some version_1"
    and same: "lr_sku (le_row e) = lr_sku (le_row g)" "lr_warehouse_name (le_row e) = lr_warehouse_name (le_row g)"
      "lr_operation_date (le_row e) = lr_operation_date (le_row g)"
    and other: "lr_nm_id (le_row e) \<noteq> lr_nm_id (le_row g)"
  shows "full_rebuild lifecycle busy user costs entries live \<noteq> Inr y"
proof
  assume run: "full_rebuild lifecycle busy user costs entries live = Inr y"
  let ?ds = "set (map (\<lambda>e. lr_operation_date (le_row e)) entries)"
  let ?S = "map entry_row (sort_key stream_order entries)"
  have ne: "entries \<noteq> []" using e by auto
  have bounds: "ledger_date_bounds entries = Some (Min ?ds, Max ?ds)"
    using ne by (simp add: ledger_date_bounds_def Let_def)
  have all: "filter (\<lambda>e. row_kept_by_variant_b (row_key (le_row e)) (lr_operation_date (le_row e)) None {}) entries = entries"
    by (simp add: row_kept_by_variant_b_def)
  have rows: "smap row_from_entry (sort_key stream_order entries) = Inr ?S"
    by (rule rows_from_entries) (simp add: v)
  have stream: "stream_grouped_by_key None {} entries = Inr (group_consecutive row_key ?S)"
    by (simp only: stream_grouped_by_key_def all sbind_simps rows)
  have promoted: "snaps = [] \<or> distinct (map day_sku_wh (map draft_to_values snaps))"
    if "compute_from_stream lifecycle costs (Min ?ds) (Max ?ds) (\<lambda>_. None) (group_consecutive row_key ?S) = Inr (snaps, an)"
    for snaps an
    using run bounds stream that
    by (auto simp: full_rebuild_def compute_full_from_stream_def promote_staging_to_live_def split: if_splits)
  obtain snaps an where c: "compute_from_stream lifecycle costs (Min ?ds) (Max ?ds) (\<lambda>_. None) (group_consecutive row_key ?S) = Inr (snaps, an)"
    using run bounds stream by (auto simp: full_rebuild_def compute_full_from_stream_def sbind_Inr_iff split: if_splits)
  have snap: "\<exists>s\<in>set snaps. snapshot_key s = row_key (le_row x) \<and> ss_snapshot_date s = lr_operation_date (le_row x)"
    if "x \<in> set entries" for x
  proof -
    have "lr_operation_date (le_row x) \<in> ?ds" using that by auto
    then have "Min ?ds \<le> lr_operation_date (le_row x)" "lr_operation_date (le_row x) \<le> Max ?ds" by (simp_all del: set_map)
    with full_snapshot_of_entry [OF c all_v1_entries lc, of "entry_row x"] that show ?thesis by simp
  qed
  obtain s t where st: "s \<in> set snaps" "snapshot_key s = row_key (le_row e)" "ss_snapshot_date s = lr_operation_date (le_row e)"
    "t \<in> set snaps" "snapshot_key t = row_key (le_row g)" "ss_snapshot_date t = lr_operation_date (le_row g)"
    using snap [OF e(1)] snap [OF e(2)] by blast
  have "s \<noteq> t" using st other by (auto simp: row_key_def)
  moreover have "day_sku_wh (draft_to_values s) = day_sku_wh (draft_to_values t)"
    using st same by (auto simp: day_sku_wh_def draft_to_values_def snapshot_key_def row_key_def)
  ultimately have "\<not> distinct (map (\<lambda>x. day_sku_wh (draft_to_values x)) snaps)"
    using st by (auto simp: distinct_map inj_on_def)
  with promoted [OF c] st(1) show False by (auto simp: comp_def)
qed

end
