(* ===== verification/Inventory_Properties.thy ===== *)
theory Inventory_Properties
  imports Snapshot_Correctness
begin

text \<open>
  The properties of the inventory: conservation from the report rows to the stock, exactness of the
  reconstruction, the equivalence of the incremental and the full rebuild with the ledger, the
  unique key that the article number is missing from, the opening balance and the unit costs.
\<close>

section \<open>Concrete rows\<close>

definition demo_row :: "date \<Rightarrow> inventory_op \<Rightarrow> int \<Rightarrow> ledger_row" where
  "demo_row d op q = \<lparr>lr_operation_date = d, lr_sku = Some [1], lr_nm_id = Some [2], lr_warehouse_name = Some [3],
     lr_operation_type = op, lr_quantity_delta = q, lr_cost_per_unit = None, lr_sale_price_per_unit = None,
     lr_semantics_version = version_1, lr_source_row_id = []\<rparr>"

definition demo_entry :: "date \<Rightarrow> inventory_op \<Rightarrow> int \<Rightarrow> ledger_entry" where
  "demo_entry d op q = \<lparr>le_row = demo_row d op q, le_version = Some version_1, le_created_at = 0, le_report_id = 1\<rparr>"

lemma builtin_rebuild [simp]: "rebuild_allowed builtin_lifecycle"
  by (simp add: rebuild_allowed_def)

section \<open>Reconstruction\<close>



text \<open>
  A rebuild window is a part of the full rebuild: the snapshots of a window are those of the whole
  history whose date lies in it, in the same order.
\<close>

lemma reconstruction_window:
  assumes "\<forall>r\<in>set movements. lr_semantics_version r = version_1" and "rebuild_allowed lifecycle"
    and "rebuild_from_ledger lifecycle None None None movements = Inr all"
  shows "rebuild_from_ledger lifecycle from_date to_date None movements =
    Inr (filter (\<lambda>s. in_window from_date to_date (ss_snapshot_date s)) all)"
proof -
  have v: "all_v1 movements" using assms(1) by (simp add: all_v1_def)
  have "all = sort_key snapshot_order (spec_snapshots None None movements)"
    using assms(3) rebuild_from_ledger_spec [OF v assms(2)] by simp
  then show ?thesis
    using rebuild_from_ledger_spec [OF v assms(2)] spec_snapshots_window [of from_date to_date movements]
    by (simp add: filter_sort)
qed

lemma reconstruction_window_witness:
  "\<exists>all. rebuild_from_ledger builtin_lifecycle (Some 2) (Some 5) None [demo_row 1 I_INBOUND 10, demo_row 2 I_SALE (-3)] =
     Inr (filter (\<lambda>s. in_window (Some 2) (Some 5) (ss_snapshot_date s)) all)"
proof -
  let ?rows = "[demo_row 1 I_INBOUND 10, demo_row 2 I_SALE (-3)]"
  have v: "all_v1 ?rows" by (simp add: all_v1_def demo_row_def)
  from reconstruction_window [OF _ builtin_rebuild rebuild_from_ledger_spec [OF v builtin_rebuild]] v
  show ?thesis unfolding all_v1_def by blast
qed

section \<open>Rebuilds of the snapshot table\<close>

text \<open>
  C1. The incremental rebuild implements the ledger: if, before the first affected date, the live table
  has the snapshots that the ledger determines, then after a rebuild that succeeds it has them for all
  dates (up to the valuation of discrepancies). So deleting the window, carrying the last opening stocks,
  dropping the history of the carried keys from the query and replaying gives what a replay of the whole
  ledger gives. \<open>entries_ok\<close>: SKU and warehouse are given and determine the article number.
\<close>

theorem incremental_rebuild_matches_ledger:
  assumes "incremental_rebuild lifecycle busy user costs entries live (Some f) = Inr (live', la)"
    and "entries \<noteq> []" and "entries_ok entries" and "rebuild_allowed lifecycle"
    and "units_of ` {s \<in> set live. ss_snapshot_date s < f} = ledger_snapshots (map entry_row entries) (\<lambda>d. d < f)"
  shows "units_of ` set live' = ledger_snapshots (map entry_row entries) (\<lambda>_. True)"
  by (rule incremental_units [OF assms])

text \<open>
  C5. The full rebuild gives the same table from the ledger alone, whatever the live table held; so a
  full and an incremental rebuild that both succeed agree on every stock.
\<close>

theorem full_rebuild_matches_ledger:
  assumes "full_rebuild lifecycle busy user costs entries live = Inr (live', la)"
    and "entries \<noteq> []" and "entries_ok entries" and "rebuild_allowed lifecycle"
  shows "units_of ` set live' = ledger_snapshots (map entry_row entries) (\<lambda>_. True)"
  by (rule full_units [OF assms])

lemma demo_entries_ok: "entries_ok [demo_entry 1 I_INBOUND 10, demo_entry 2 I_SALE (-3)]"
  by (simp add: entries_ok_def demo_entry_def demo_row_def)

lemma demo_entries_unpriced: "unpriced (map entry_row [demo_entry 1 I_INBOUND 10, demo_entry 2 I_SALE (-3)])"
  by (simp add: unpriced_def demo_entry_def demo_row_def entry_row_def)

lemma demo_full_rebuild: "\<exists>live' la. full_rebuild builtin_lifecycle False 7 [] [demo_entry 1 I_INBOUND 10] [] = Inr (live', la)"
proof -
  let ?es = "[demo_entry 1 I_INBOUND 10]" and ?row = "entry_row (demo_entry 1 I_INBOUND 10)"
  have ok: "entries_ok ?es" by (simp add: entries_ok_def demo_entry_def demo_row_def)
  have rows: "smap row_from_entry ?es = Inr [?row]"
    using rows_from_entries [of ?es] by (simp add: demo_entry_def)
  have stream: "stream_grouped_by_key None {} ?es = Inr [(row_key ?row, [?row])]"
    using rows by (simp add: stream_grouped_by_key_def row_kept_by_variant_b_def group_consecutive_def)
  have bounds: "ledger_date_bounds ?es = Some (1, 1)"
    by (simp add: ledger_date_bounds_def demo_entry_def demo_row_def)
  have index: "build_sale_price_index [?row] = Inr []"
    by (rule unpriced_index) (simp add: unpriced_def demo_entry_def demo_row_def entry_row_def)
  have raw: "rebuild_from_ledger builtin_lifecycle (Some 1) (Some 1) None [?row] = Inr [spec_snapshot 0 [?row] (row_key ?row) 1]"
  proof -
    have one: "group_by row_key [?row] = [(row_key ?row, [?row])]" by (rule group_by_single) simp_all
    have day: "lr_operation_date (le_row (demo_entry 1 I_INBOUND 10)) = 1" by (simp add: demo_entry_def demo_row_def)
    have v: "all_v1 [?row]" using all_v1_entries [of ?es] by simp
    have "spec_snapshots (Some 1) (Some 1) [?row] = [spec_snapshot 0 [?row] (row_key ?row) 1]"
      by (simp only: spec_snapshots_def one) (simp add: day in_window_def)
    then show ?thesis using rebuild_from_ledger_spec [OF v builtin_rebuild, of "Some 1" "Some 1"] by simp
  qed
  show ?thesis
    using raw index
    by (simp add: full_rebuild_def bounds stream compute_full_from_stream_def compute_from_stream_def pipeline_rebuild_def
      reconcile_snapshots_def promote_staging_to_live_def Let_def)
qed

lemma full_rebuild_matches_ledger_witness:
  "\<exists>live' la. full_rebuild builtin_lifecycle False 7 [] [demo_entry 1 I_INBOUND 10] [] = Inr (live', la)
     \<and> units_of ` set live' = ledger_snapshots (map entry_row [demo_entry 1 I_INBOUND 10]) (\<lambda>_. True)"
proof -
  have ok: "entries_ok [demo_entry 1 I_INBOUND 10]" by (simp add: entries_ok_def demo_entry_def demo_row_def)
  from demo_full_rebuild full_rebuild_matches_ledger [OF _ _ ok builtin_rebuild] show ?thesis by blast
qed

text \<open>
  C22. The unique key of a snapshot has no article number, the grouping of the ledger has: when two
  ledger rows of one day share SKU and warehouse and differ in the article number, the full rebuild
  never succeeds (the insert from the staging table violates the key).
\<close>

theorem full_rebuild_article_collision:
  assumes "e \<in> set entries" and "g \<in> set entries" and "rebuild_allowed lifecycle"
    and "\<forall>x\<in>set entries. le_version x = Some version_1"
    and "(lr_sku (le_row e), lr_warehouse_name (le_row e), lr_operation_date (le_row e)) =
      (lr_sku (le_row g), lr_warehouse_name (le_row g), lr_operation_date (le_row g))"
    and "lr_nm_id (le_row e) \<noteq> lr_nm_id (le_row g)"
  shows "\<exists>err. full_rebuild lifecycle busy user costs entries live = Inl err"
proof (cases "full_rebuild lifecycle busy user costs entries live")
  case (Inr y)
  then show ?thesis
    using full_rebuild_collision [of e entries g lifecycle busy user costs live y] assms by simp
qed simp

definition other_article :: "ledger_entry \<Rightarrow> ledger_entry" where
  "other_article e = e\<lparr>le_row := (le_row e)\<lparr>lr_nm_id := Some [5]\<rparr>\<rparr>"

lemma full_rebuild_article_collision_witness:
  "\<exists>err. full_rebuild builtin_lifecycle False 7 [] [demo_entry 1 I_INBOUND 10, other_article (demo_entry 1 I_INBOUND 4)] [] = Inl err"
  by (rule full_rebuild_article_collision [of "demo_entry 1 I_INBOUND 10" _ "other_article (demo_entry 1 I_INBOUND 4)"])
    (simp_all add: demo_entry_def demo_row_def other_article_def)

text \<open>The snapshot of the first day, as an earlier rebuild left it.\<close>

definition demo_live :: "stock_snapshot list" where
  "demo_live = [spec_snapshot 0 [demo_row 1 I_INBOUND 10] (Some [1], Some [2], Some [3]) 1]"

lemma demo_live_before:
  "units_of ` {s \<in> set demo_live. ss_snapshot_date s < 2} =
     ledger_snapshots (map entry_row [demo_entry 1 I_INBOUND 10, demo_entry 2 I_SALE (-3)]) (\<lambda>d. d < 2)"
proof -
  let ?rows = "map entry_row [demo_entry 1 I_INBOUND 10, demo_entry 2 I_SALE (-3)]"
  have old: "{r \<in> set ?rows. lr_operation_date r < 2} = {demo_row 1 I_INBOUND 10}"
    by (auto simp: demo_entry_def demo_row_def entry_row_def)
  have "ledger_snapshots ?rows (\<lambda>d. d < 2) =
      (\<lambda>r. spec_snapshot 0 (rows_of ?rows (row_key r)) (row_key r) (lr_operation_date r)) ` {r \<in> set ?rows. lr_operation_date r < 2}"
    by (auto simp: ledger_snapshots_def)
  also have "\<dots> = {spec_snapshot 0 ?rows (Some [1], Some [2], Some [3]) 1}"
    unfolding old by (simp add: rows_of_def demo_entry_def demo_row_def entry_row_def row_key_def)
  also have "spec_snapshot 0 ?rows (Some [1], Some [2], Some [3]) 1 = spec_snapshot 0 [demo_row 1 I_INBOUND 10] (Some [1], Some [2], Some [3]) 1"
    by (simp add: spec_snapshot_def stock_before_def rows_on_def demo_entry_def demo_row_def entry_row_def)
  finally show ?thesis by (simp add: demo_live_def Collect_conv_if)
qed

lemma incremental_rebuild_matches_ledger_witness:
  "\<exists>live' la. incremental_rebuild builtin_lifecycle False 7 [] [demo_entry 1 I_INBOUND 10, demo_entry 2 I_SALE (-3)]
       demo_live (Some 2) = Inr (live', la)
     \<and> units_of ` set live' = ledger_snapshots (map entry_row [demo_entry 1 I_INBOUND 10, demo_entry 2 I_SALE (-3)]) (\<lambda>_. True)"
proof -
  obtain live' la where "incremental_rebuild builtin_lifecycle False 7 [] [demo_entry 1 I_INBOUND 10, demo_entry 2 I_SALE (-3)]
       demo_live (Some 2) = Inr (live', la)"
    using incremental_returns [OF demo_entries_ok builtin_rebuild demo_entries_unpriced] by blast
  with incremental_rebuild_matches_ledger [OF this _ demo_entries_ok builtin_rebuild demo_live_before]
  show ?thesis by blast
qed

section \<open>From the report rows to the stock\<close>

text \<open>The stock of a key at the end of a day, counted on the movements.\<close>

definition moved_through :: "movement_draft list \<Rightarrow> stock_key \<Rightarrow> date \<Rightarrow> int" where
  "moved_through ms key d = (\<Sum>m\<leftarrow>filter (\<lambda>m. (md_sku m, md_nm_id m, md_warehouse_name m) = key \<and> md_operation_date m \<le> d) ms.
     md_quantity_delta m)"

lemma ledger_row_of_draft_fields:
  assumes "ledger_row_of_draft m = Inr r"
  shows "row_key r = (md_sku m, md_nm_id m, md_warehouse_name m)" "lr_operation_date r = md_operation_date m"
  using assms by (auto simp: ledger_row_of_draft_def sbind_Inr_iff row_key_def)

lemma moved_through_ledger:
  assumes "\<forall>m\<in>set ms. \<exists>r. ledger_row_of_draft m = Inr r \<and> net_quantity r = md_quantity_delta m \<and> lr_semantics_version r = version_1"
  shows "\<exists>ledger. smap ledger_row_of_draft ms = Inr ledger \<and> (\<forall>r\<in>set ledger. lr_semantics_version r = version_1)
    \<and> (\<forall>key d. stock_through (rows_of ledger key) d = moved_through ms key d)"
  using assms
proof (induction ms)
  case Nil
  show ?case by (simp add: stock_through_def rows_of_def moved_through_def)
next
  case (Cons m ms)
  then obtain ledger where ledger: "smap ledger_row_of_draft ms = Inr ledger" "\<forall>r\<in>set ledger. lr_semantics_version r = version_1"
    "\<And>key d. stock_through (rows_of ledger key) d = moved_through ms key d" by auto
  obtain r where r: "ledger_row_of_draft m = Inr r" "net_quantity r = md_quantity_delta m" "lr_semantics_version r = version_1"
    using Cons.prems by auto
  have "stock_through (rows_of (r # ledger) key) d = moved_through (m # ms) key d" for key d
    using ledger(3) [of key d] r(2) ledger_row_of_draft_fields [OF r(1)]
    by (simp add: stock_through_def rows_of_def moved_through_def)
  with ledger(1,2) r show ?case by simp
qed

text \<open>
  C7. Stock is conserved from the report to the ledger: every movement that the builder extracts from the
  rows becomes a ledger row, its sign is that of its operation type (outbound types negative), and the
  stock that a replay of the ledger gives a key on a day is the sum of the quantities of its movements.
\<close>

theorem movements_conserve_stock:
  assumes "movements_from_rows lifecycle default_date costs rows = Inr ms"
  shows "\<exists>ledger. smap ledger_row_of_draft ms = Inr ledger
    \<and> (\<forall>m\<in>set ms. md_quantity_delta m \<noteq> 0
         \<and> (md_operation_type m \<in> outbound_types \<longrightarrow> md_quantity_delta m < 0)
         \<and> (md_operation_type m \<in> inbound_types \<longrightarrow> 0 < md_quantity_delta m)
         \<and> md_source_row_id m \<in> w_source_row_id ` set rows)
    \<and> (\<forall>r\<in>set ledger. lr_semantics_version r = version_1)
    \<and> (\<forall>key d. stock_through (rows_of ledger key) d = moved_through ms key d)"
proof -
  have each: "\<exists>row\<in>set rows. movement_for_row lifecycle default_date costs row = Inr (Some m)" if "m \<in> set ms" for m
    by (rule movements_from_rows_mem [OF assms that])
  have built: "\<forall>m\<in>set ms. \<exists>r. ledger_row_of_draft m = Inr r \<and> net_quantity r = md_quantity_delta m \<and> lr_semantics_version r = version_1"
    using each ledger_row_of_built by blast
  have "md_quantity_delta m \<noteq> 0 \<and> (md_operation_type m \<in> outbound_types \<longrightarrow> md_quantity_delta m < 0)
      \<and> (md_operation_type m \<in> inbound_types \<longrightarrow> 0 < md_quantity_delta m) \<and> md_source_row_id m \<in> w_source_row_id ` set rows"
    if m: "m \<in> set ms" for m
  proof -
    obtain row where row: "row \<in> set rows" "movement_for_row lifecycle default_date costs row = Inr (Some m)"
      using each [OF m] by blast
    then show ?thesis using movement_for_row_facts [OF row(2)] by (auto simp: sign_ok_def)
  qed
  with moved_through_ledger [OF built] show ?thesis by blast
qed

definition demo_wb_row :: "wb_row" where
  "demo_wb_row = \<lparr>w_source_row_id = [65], w_source_row_index = 1, w_operation_date = Some 5, w_sku = Some [1],
     w_nm_id = None, w_canonical = (\<lambda>_. VNone)(F_quantity := VInt 2, F_compensation := VDec 100),
     w_raw = []\<rparr>"

lemma movements_conserve_stock_witness:
  "\<exists>m ledger. movements_from_rows builtin_lifecycle 1 [] [demo_wb_row] = Inr [m] \<and> smap ledger_row_of_draft [m] = Inr ledger
     \<and> stock_through (rows_of ledger (Some [1], None, None)) 5 = 2"
proof -
  have strategy: "get_semantics_strategy builtin_lifecycle version_1 = Inr StrategyV1"
    by (simp add: get_semantics_strategy_def)
  obtain m where m: "movements_from_rows builtin_lifecycle 1 [] [demo_wb_row] = Inr [m]"
    "md_sku m = Some [1]" "md_nm_id m = None" "md_warehouse_name m = None" "md_operation_date m = 5" "md_quantity_delta m = 2"
    by (simp add: movements_from_rows_def movement_for_row_def demo_wb_row_def Let_def text_of_def dec_of_def
      infer_from_amounts_def nonzero_dec_def resolve_quantity_def signed_quantity_def outbound_types_def inbound_types_def
      sale_price_per_unit_def nonempty_def strategy)
  from movements_conserve_stock [OF m(1)] m(2-) show ?thesis
    by (intro exI [of _ m]) (auto simp: m(1) moved_through_def)
qed

section \<open>Unit costs\<close>

text \<open>
  The unit cost of a day is the total of a cost entry that is in force on that day and has the latest
  effective date of those; it is missing exactly when every entry begins later.
\<close>

lemma cost_on_date_latest:
  "(cost_on_date history d = None \<longleftrightarrow> (\<forall>c\<in>set history. d < sc_effective_from c))
   \<and> (\<forall>x. cost_on_date history d = Some x \<longrightarrow>
        (\<exists>c\<in>set history. sc_effective_from c \<le> d \<and> x = total_unit_cost c
          \<and> (\<forall>k\<in>set history. sc_effective_from k \<le> d \<longrightarrow> sc_effective_from k \<le> sc_effective_from c)))
   \<and> unit_cost_on_date history d = cost_on_date history d"
proof (intro conjI allI impI)
  show "cost_on_date history d = None \<longleftrightarrow> (\<forall>c\<in>set history. d < sc_effective_from c)" by (rule cost_on_date_None)
  show "unit_cost_on_date history d = cost_on_date history d" by (simp add: unit_cost_same)
  fix x assume x: "cost_on_date history d = Some x"
  show "\<exists>c\<in>set history. sc_effective_from c \<le> d \<and> x = total_unit_cost c
      \<and> (\<forall>k\<in>set history. sc_effective_from k \<le> d \<longrightarrow> sc_effective_from k \<le> sc_effective_from c)"
    by (rule cost_on_date_Some [OF x]) blast
qed

definition demo_cost :: "date \<Rightarrow> sku_cost" where
  "demo_cost d = \<lparr>sc_sku = [1], sc_effective_from = d, sc_product_cost = of_int d, sc_packaging_cost = 0,
     sc_inbound_logistics_cost = 0, sc_additional_cost = 0, sc_currency = []\<rparr>"

lemma cost_on_date_latest_witness:
  "\<exists>x. cost_on_date [demo_cost 3, demo_cost 7, demo_cost 9] 8 = Some x \<and> x = total_unit_cost (demo_cost 7)"
proof -
  have "cost_on_date [demo_cost 3, demo_cost 7, demo_cost 9] 8 \<noteq> None"
    using cost_on_date_latest [of "[demo_cost 3, demo_cost 7, demo_cost 9]" 8] by (auto simp: demo_cost_def)
  then obtain x where x: "cost_on_date [demo_cost 3, demo_cost 7, demo_cost 9] 8 = Some x" by blast
  with cost_on_date_latest [of "[demo_cost 3, demo_cost 7, demo_cost 9]" 8]
  obtain c where "c \<in> set [demo_cost 3, demo_cost 7, demo_cost 9]" "sc_effective_from c \<le> 8" "x = total_unit_cost c"
    "sc_effective_from (demo_cost 7) \<le> 8 \<longrightarrow> sc_effective_from (demo_cost 7) \<le> sc_effective_from c" by auto
  then have "x = total_unit_cost (demo_cost 7)" by (auto simp: demo_cost_def)
  with x show ?thesis by blast
qed

section \<open>Opening balances\<close>

abbreviation opening_movement :: "movement_draft \<Rightarrow> bool" where
  "opening_movement m \<equiv> is_opening_balance_movement (md_canonical_payload m)"

lemma batch_first_step:
  assumes "m \<in> set ms" and "nonempty (md_sku m) \<noteq> None" and "\<not> opening_movement m"
  shows "\<exists>b. map_of (batch_first_operation_dates ms) (md_sku m, md_warehouse_name m) = Some b \<and> b \<le> md_operation_date m"
proof -
  let ?step = "\<lambda>m first_dates.
     if nonempty (md_sku m) = None then first_dates
     else if opening_movement m then first_dates
     else (let key = (md_sku m, md_warehouse_name m) in
       case map_of first_dates key of
         None \<Rightarrow> AList.update key (md_operation_date m) first_dates
       | Some existing \<Rightarrow> if md_operation_date m < existing
           then AList.update key (md_operation_date m) first_dates else first_dates)"
  have keep: "\<exists>b. map_of (fold ?step xs d) key = Some b \<and> b \<le> b0" if "map_of d key = Some b1" "b1 \<le> b0" for xs d key b0 b1
    using that
  proof (induction xs arbitrary: d b1)
    case (Cons x xs)
    have "\<exists>b2. map_of (?step x d) key = Some b2 \<and> b2 \<le> b0"
      using Cons.prems by (auto simp: Let_def update_conv' split: option.splits)
    then obtain b2 where "map_of (?step x d) key = Some b2" "b2 \<le> b0" by blast
    with Cons.IH show ?case by (simp only: fold_simps)
  qed auto
  have "\<exists>b. map_of (fold ?step ms d) (md_sku m, md_warehouse_name m) = Some b \<and> b \<le> md_operation_date m" for d
    using assms(1)
  proof (induction ms arbitrary: d)
    case (Cons x xs)
    show ?case
    proof (cases "x = m")
      case True
      have "\<exists>b. map_of (?step m d) (md_sku m, md_warehouse_name m) = Some b \<and> b \<le> md_operation_date m"
        using assms(2,3) by (auto simp: Let_def update_conv' split: option.splits)
      with keep True show ?thesis by (fastforce simp only: fold_simps)
    next
      case False
      with Cons.prems have "m \<in> set xs" by simp
      from Cons.IH [OF this] show ?thesis by (simp only: fold_simps)
    qed
  qed simp
  then show ?thesis by (simp add: batch_first_operation_dates_def)
qed

lemma validated_opening:
  assumes "validate_opening_movements isoparse exclude entries batch_first ms = Inr ()" and "m \<in> set ms"
  shows "\<exists>eff s. opening_effective_date isoparse (md_canonical_payload m) (md_operation_date m) = Inr eff
    \<and> md_sku m = Some s \<and> s \<noteq> []
    \<and> (\<forall>d. earliest_first_ledger_date (first_ledger_operation_date exclude entries (md_sku m, md_warehouse_name m))
          (map_of batch_first (md_sku m, md_warehouse_name m)) = Some d \<longrightarrow> eff < d)"
  using assms
proof (induction ms)
  case (Cons x xs)
  from Cons.prems(1) have head: "sbind (opening_effective_date isoparse (md_canonical_payload x) (md_operation_date x))
      (\<lambda>eff. case nonempty (md_sku x) of None \<Rightarrow> validate_opening_balance eff None None
        | Some _ \<Rightarrow> validate_opening_balance eff (md_sku x) (earliest_first_ledger_date
            (first_ledger_operation_date exclude entries (md_sku x, md_warehouse_name x))
            (map_of batch_first (md_sku x, md_warehouse_name x)))) = Inr ()"
    and tail: "validate_opening_movements isoparse exclude entries batch_first xs = Inr ()"
    by (auto simp: sbind_Inr_iff Let_def split: option.splits)
  show ?case
  proof (cases "m = x")
    case True
    with head show ?thesis
      by (auto simp: sbind_Inr_iff nonempty_def validate_opening_balance_def split: option.splits if_splits)
  next
    case False
    with Cons.prems(2) have "m \<in> set xs" by simp
    with Cons.IH tail show ?thesis by blast
  qed
qed simp

lemma earliest_first_le:
  "persisted = Some p \<Longrightarrow> \<exists>d. earliest_first_ledger_date persisted batch = Some d \<and> d \<le> p"
  "batch = Some b \<Longrightarrow> \<exists>d. earliest_first_ledger_date persisted batch = Some d \<and> d \<le> b"
  by (auto simp: earliest_first_ledger_date_def split: option.splits)

lemma first_ledger_le:
  assumes "e \<in> set entries" and "(lr_sku (le_row e), lr_warehouse_name (le_row e)) = key" and "Some (le_report_id e) \<noteq> exclude"
  shows "\<exists>p. first_ledger_operation_date exclude entries key = Some p \<and> p \<le> lr_operation_date (le_row e)"
proof -
  let ?ds = "map (\<lambda>e. lr_operation_date (le_row e))
        (filter (\<lambda>e. (lr_sku (le_row e), lr_warehouse_name (le_row e)) = key \<and> Some (le_report_id e) \<noteq> exclude) entries)"
  have mem: "lr_operation_date (le_row e) \<in> set ?ds" using assms by auto
  then have "?ds \<noteq> []" by (metis empty_iff empty_set)
  moreover have "Min (set ?ds) \<le> lr_operation_date (le_row e)" using mem by (intro Min_le) simp_all
  ultimately show ?thesis unfolding first_ledger_operation_date_def Let_def by simp
qed


definition demo_opening :: "movement_draft" where
  "demo_opening = \<lparr>md_operation_date = 5, md_sku = Some [1], md_nm_id = None, md_warehouse_name = Some [3],
     md_operation_type = I_INBOUND, md_quantity_delta = 10, md_cost_per_unit = None, md_sale_price_per_unit = None,
     md_total_cost_delta = 0, md_total_sale_delta = 0, md_source_row_id = [66], md_semantics_version = version_1,
     md_canonical_payload = (\<lambda>_. VNone)(F_extra (asc ''is_opening_balance'') := VBool True,
        F_extra (asc ''opening_effective_date'') := VDate 4), md_raw_payload = []\<rparr>"

definition demo_sale :: "movement_draft" where
  "demo_sale = demo_opening\<lparr>md_operation_type := I_SALE, md_quantity_delta := -1, md_canonical_payload := (\<lambda>_. VNone)\<rparr>"



end
