(* ===== verification/Finance_Ledger.thy ===== *)
theory Finance_Ledger
  imports Inventory_Movements
begin

text \<open>
  The financial ledger of a report (\<open>app/domain/finance/ledger.py\<close>): which amounts of a normalized row
  become ledger entries, with which sign and identifier. Entry metadata keeps numbers as numbers
  where the code stores their text. The lemmas give the sign discipline and show that the
  identifiers of the entries of a row are distinct, as \<open>uq_ledger_report_source_row\<close> needs.
\<close>

section \<open>Entries\<close>

datatype ledger_op = L_SALE | L_RETURN | L_LOGISTICS | L_STORAGE_FEE | L_COMMISSION | L_PENALTY | L_ACQUIRING
  | L_COMPENSATION | L_PAYOUT | L_DEDUCTION | L_ADVERTISEMENT | L_OTHER

definition ledger_op_value :: "ledger_op \<Rightarrow> pystr" where
  "ledger_op_value op = asc (case op of L_SALE \<Rightarrow> ''sale'' | L_RETURN \<Rightarrow> ''return'' | L_LOGISTICS \<Rightarrow> ''logistics''
     | L_STORAGE_FEE \<Rightarrow> ''storage_fee'' | L_COMMISSION \<Rightarrow> ''commission'' | L_PENALTY \<Rightarrow> ''penalty''
     | L_ACQUIRING \<Rightarrow> ''acquiring'' | L_COMPENSATION \<Rightarrow> ''compensation'' | L_PAYOUT \<Rightarrow> ''payout''
     | L_DEDUCTION \<Rightarrow> ''deduction'' | L_ADVERTISEMENT \<Rightarrow> ''advertisement'' | L_OTHER \<Rightarrow> ''other'')"

datatype compensation_kind = CK_PIC | CK_LOYALTY | CK_VOLUNTARY | CK_LEGACY

definition compensation_kind_value :: "compensation_kind \<Rightarrow> pystr" where
  "compensation_kind_value k = asc (case k of CK_PIC \<Rightarrow> ''pic'' | CK_LOYALTY \<Rightarrow> ''loyalty''
     | CK_VOLUNTARY \<Rightarrow> ''voluntary'' | CK_LEGACY \<Rightarrow> ''legacy'')"

datatype return_basis = BASIS_WB | BASIS_GMV

text \<open>The keys of \<open>entry_metadata\<close>; \<open>None\<close> for an absent key.\<close>

record entry_metadata =
  em_parser_row_index :: "int option"
  em_quantity :: "int option"
  em_wb_realized_amount :: "decimal option"
  em_return_basis :: "return_basis option"
  em_compensation_kind :: "compensation_kind option"

definition no_metadata :: entry_metadata where
  "no_metadata = \<lparr>em_parser_row_index = None, em_quantity = None, em_wb_realized_amount = None,
     em_return_basis = None, em_compensation_kind = None\<rparr>"

record entry_draft =
  ed_operation_date :: date
  ed_sku :: "pystr option"
  ed_nm_id :: "pystr option"
  ed_operation_type :: ledger_op
  ed_amount :: decimal
  ed_currency :: pystr
  ed_source_row_id :: pystr
  ed_entry_metadata :: "entry_metadata option"

section \<open>Amounts\<close>

definition as_positive :: "pyval \<Rightarrow> decimal option" where
  "as_positive v = map_option dabs (dec_of v)"

definition as_negative :: "pyval \<Rightarrow> decimal option" where
  "as_negative v = (case dec_of v of None \<Rightarrow> None | Some d \<Rightarrow> if d = 0 then None else Some (dneg (dabs d)))"

definition nonzero :: "decimal option \<Rightarrow> decimal option" where
  "nonzero x = (case x of None \<Rightarrow> None | Some d \<Rightarrow> if d = 0 then None else Some d)"

text \<open>The first raw column, in the order of the columns, whose name contains the key and that has an amount.\<close>

fun first_raw_amount :: "pystr \<Rightarrow> (pystr \<times> pystr) list \<Rightarrow> decimal option" where
  "first_raw_amount key_lower [] = None"
| "first_raw_amount key_lower ((k, v) # raw) =
     (if contains key_lower (lower k) then
        (case nonzero (parse_decimal v) of Some d \<Rightarrow> Some d | None \<Rightarrow> first_raw_amount key_lower raw)
      else first_raw_amount key_lower raw)"

fun raw_logistics :: "(pystr \<times> pystr) list \<Rightarrow> pystr list \<Rightarrow> decimal option" where
  "raw_logistics raw [] = None"
| "raw_logistics raw (key # keys) =
     (case Option.bind (map_of raw key) (\<lambda>v. nonzero (parse_decimal v)) of
        Some d \<Rightarrow> Some d
      | None \<Rightarrow> (case first_raw_amount (lower key) raw of Some d \<Rightarrow> Some d | None \<Rightarrow> raw_logistics raw keys))"

definition resolve_logistics :: "canonical \<Rightarrow> (pystr \<times> pystr) list \<Rightarrow> decimal option" where
  "resolve_logistics c raw = (case nonzero (dec_of (c F_logistics)) of
      Some d \<Rightarrow> Some d | None \<Rightarrow> raw_logistics raw logistics_raw_keys)"

definition resolve_wb_return :: "canonical \<Rightarrow> decimal option \<times> return_basis option" where
  "resolve_wb_return c = (case as_positive (c F_return_wb) of
      Some r \<Rightarrow> (Some (dneg r), Some BASIS_WB)
    | None \<Rightarrow> (case as_positive (c F_wb_realized_amount) of
        Some r \<Rightarrow> (Some (dneg r), Some BASIS_WB)
      | None \<Rightarrow> (case as_positive (c F_retail_amount) of
          Some r \<Rightarrow> (Some (dneg r), Some BASIS_GMV)
        | None \<Rightarrow> (None, None))))"

definition sale_quantity :: "canonical \<Rightarrow> finance_row_kind \<Rightarrow> int" where
  "sale_quantity c kind = (if kind \<noteq> K_SALE then 0 else (case c F_quantity of
      VInt q \<Rightarrow> if 0 < q then q else 1
    | VDec d \<Rightarrow> if 0 < d then trunc d else 1
    | _ \<Rightarrow> 1))"

section \<open>Metadata\<close>

definition wb_realized_metadata_value :: "canonical \<Rightarrow> decimal option" where
  "wb_realized_metadata_value c = nonzero (dec_of (c F_wb_realized_amount))"

definition build_sale_metadata :: "canonical \<Rightarrow> finance_row_kind \<Rightarrow> int \<Rightarrow> int \<Rightarrow> entry_metadata option" where
  "build_sale_metadata c kind source_row_index quantity =
     (if kind \<noteq> K_SALE then None
      else Some (no_metadata\<lparr>em_parser_row_index := Some source_row_index,
        em_quantity := (if 0 < quantity then Some quantity else None),
        em_wb_realized_amount := (if allows_wb_realized_amount kind then wb_realized_metadata_value c else None)\<rparr>))"

definition build_return_metadata :: "canonical \<Rightarrow> finance_row_kind \<Rightarrow> int \<Rightarrow> return_basis option \<Rightarrow> entry_metadata option" where
  "build_return_metadata c kind source_row_index basis =
     (if kind \<noteq> K_RETURN then None
      else Some (no_metadata\<lparr>em_parser_row_index := Some source_row_index,
        em_wb_realized_amount := (if allows_wb_realized_amount kind then wb_realized_metadata_value c else None),
        em_return_basis := basis\<rparr>))"

section \<open>The entries of a row\<close>

definition typed_amounts :: "finance_row_kind \<Rightarrow> canonical \<Rightarrow> (pystr \<times> pystr) list \<Rightarrow> (ledger_op \<times> decimal option) list" where
  "typed_amounts kind c raw = map snd (filter fst
     [(allows_retail_amount kind, L_SALE, as_positive (c F_retail_amount)),
      (allows_commission kind, L_COMMISSION, as_negative (c F_commission)),
      (allows_logistics kind, L_LOGISTICS, as_negative (case resolve_logistics c raw of None \<Rightarrow> VNone | Some d \<Rightarrow> VDec d)),
      (allows_storage kind, L_STORAGE_FEE, as_negative (c F_storage_fee)),
      (allows_penalty kind, L_PENALTY, as_negative (c F_penalty)),
      (True, L_ACQUIRING, as_negative (c F_acquiring)),
      (allows_deduction kind, L_DEDUCTION, as_negative (c F_deduction)),
      (allows_payout kind, L_PAYOUT, dec_of (c F_payout)),
      (True, L_ADVERTISEMENT, as_negative (c F_advertisement)),
      (allows_return_wb kind \<and> fst (resolve_wb_return c) \<noteq> None, L_RETURN, fst (resolve_wb_return c))])"

definition amount_present :: "decimal option \<times> compensation_kind \<Rightarrow> (decimal \<times> compensation_kind) list" where
  "amount_present spec = (case fst spec of None \<Rightarrow> [] | Some d \<Rightarrow> [(d, snd spec)])"

definition compensation_entry_specs :: "canonical \<Rightarrow> finance_row_kind \<Rightarrow> (decimal \<times> compensation_kind) list" where
  "compensation_entry_specs c kind = concat (map amount_present (map snd (filter fst
     [(allows_pic_compensation kind, as_positive (c F_payment_integration_compensation), CK_PIC),
      (allows_loyalty_compensation kind, as_positive (c F_loyalty_compensation), CK_LOYALTY),
      (allows_voluntary_compensation kind, (case as_positive (c F_voluntary_compensation) of
           Some d \<Rightarrow> Some d | None \<Rightarrow> map_option dabs (nonzero (dec_of (c F_payout)))), CK_VOLUNTARY),
      (kind = K_COMPENSATION, as_positive (c F_compensation), CK_LEGACY)])))"

definition row_operation_date :: "date \<Rightarrow> wb_row \<Rightarrow> date" where
  "row_operation_date default_date row = (case w_operation_date row of Some d \<Rightarrow> d | None \<Rightarrow> default_date)"

definition draft_of :: "date \<Rightarrow> wb_row \<Rightarrow> ledger_op \<Rightarrow> decimal \<Rightarrow> pystr \<Rightarrow> entry_metadata option \<Rightarrow> entry_draft" where
  "draft_of d row op amount suffix meta = \<lparr>ed_operation_date = d, ed_sku = w_sku row, ed_nm_id = w_nm_id row,
     ed_operation_type = op, ed_amount = amount, ed_currency = asc ''RUB'',
     ed_source_row_id = w_source_row_id row @ 58 # suffix, ed_entry_metadata = meta\<rparr>"

definition typed_draft :: "date \<Rightarrow> wb_row \<Rightarrow> finance_row_kind \<Rightarrow> ledger_op \<times> decimal option \<Rightarrow> entry_draft list" where
  "typed_draft d row kind = (\<lambda>(op, amount). (case nonzero amount of
      None \<Rightarrow> []
    | Some a \<Rightarrow> [draft_of d row op a (ledger_op_value op)
        (if op = L_SALE then build_sale_metadata (w_canonical row) kind (w_source_row_index row) (sale_quantity (w_canonical row) kind)
         else if op = L_RETURN then build_return_metadata (w_canonical row) kind (w_source_row_index row)
           (if allows_return_wb kind then snd (resolve_wb_return (w_canonical row)) else None)
         else None)]))"

definition compensation_draft :: "date \<Rightarrow> wb_row \<Rightarrow> decimal \<times> compensation_kind \<Rightarrow> entry_draft" where
  "compensation_draft d row = (\<lambda>(amount, k). draft_of d row L_COMPENSATION amount
     (ledger_op_value L_COMPENSATION @ 58 # compensation_kind_value k)
     (Some (no_metadata\<lparr>em_compensation_kind := Some k\<rparr>)))"

definition entries_for_row :: "date \<Rightarrow> wb_row \<Rightarrow> entry_draft list" where
  "entries_for_row default_date row =
     (let d = row_operation_date default_date row;
          c = w_canonical row;
          kind = classify_wb_finance_row (text_of (c F_operation_type));
          drafts = concat (map (typed_draft d row kind) (typed_amounts kind c (w_raw row)))
            @ map (compensation_draft d row) (compensation_entry_specs c kind)
      in if drafts = [] \<and> allows_payout kind
         then (case nonzero (dec_of (c F_payout)) of
             Some p \<Rightarrow> [draft_of d row L_PAYOUT p (asc ''payout'') None] | None \<Rightarrow> [])
         else drafts)"

definition from_normalized_rows :: "date \<Rightarrow> wb_row list \<Rightarrow> entry_draft list" where
  "from_normalized_rows default_date rows = concat (map (entries_for_row default_date) rows)"

section \<open>Laws\<close>

definition expense_ops :: "ledger_op set" where
  "expense_ops = {L_COMMISSION, L_LOGISTICS, L_STORAGE_FEE, L_PENALTY, L_ACQUIRING, L_DEDUCTION, L_ADVERTISEMENT, L_RETURN}"

text \<open>The sign of an amount of each type.\<close>

definition amount_sign_ok :: "ledger_op \<Rightarrow> decimal \<Rightarrow> bool" where
  "amount_sign_ok op a \<longleftrightarrow> (op \<in> expense_ops \<longrightarrow> a < 0) \<and> (op = L_SALE \<longrightarrow> 0 < a) \<and> (op = L_COMPENSATION \<longrightarrow> 0 \<le> a)
     \<and> op \<noteq> L_OTHER"

lemma dneg_sgn [simp]: "dneg a < 0 \<longleftrightarrow> 0 < a" "dneg a = 0 \<longleftrightarrow> a = 0"
  by (simp_all add: dneg_def)

lemma nonzero_Some: "nonzero x = Some d \<longleftrightarrow> x = Some d \<and> d \<noteq> 0"
  by (auto simp: nonzero_def split: option.splits)

lemma as_negative_sgn: "as_negative v = Some a \<Longrightarrow> a < 0"
proof -
  have "0 < dabs d" if "d \<noteq> 0" for d
    using that dabs_nonneg [of d] dabs_eq_0 [of d] by (simp add: order_less_le)
  then show "as_negative v = Some a \<Longrightarrow> a < 0"
    by (auto simp: as_negative_def split: option.splits if_splits)
qed

lemma as_positive_sgn: "as_positive v = Some a \<Longrightarrow> 0 \<le> a"
  by (auto simp: as_positive_def)

lemma dneg_nonpos: "0 \<le> a \<Longrightarrow> dneg a \<le> 0"
  by (simp add: dneg_def)

lemma resolve_wb_return_sgn: "fst (resolve_wb_return c) = Some a \<Longrightarrow> a \<le> 0"
  by (auto simp: resolve_wb_return_def dest!: as_positive_sgn intro: dneg_nonpos split: option.splits)

text \<open>Which kinds of rows give which types; a payout keeps the sign of the report.\<close>

definition op_allowed :: "finance_row_kind \<Rightarrow> ledger_op \<Rightarrow> bool" where
  "op_allowed kind op = (case op of
      L_SALE \<Rightarrow> kind = K_SALE | L_PAYOUT \<Rightarrow> kind = K_SALE
    | L_RETURN \<Rightarrow> kind = K_RETURN | L_COMMISSION \<Rightarrow> kind \<in> {K_SALE, K_RETURN}
    | L_LOGISTICS \<Rightarrow> kind = K_LOGISTICS | L_STORAGE_FEE \<Rightarrow> kind = K_STORAGE
    | L_DEDUCTION \<Rightarrow> kind = K_DEDUCTION | L_PENALTY \<Rightarrow> kind \<in> {K_DEDUCTION, K_OTHER}
    | L_COMPENSATION \<Rightarrow> kind \<in> {K_SALE, K_COMPENSATION, K_LOYALTY_COMPENSATION, K_VOLUNTARY_COMPENSATION}
    | L_ACQUIRING \<Rightarrow> True | L_ADVERTISEMENT \<Rightarrow> True | L_OTHER \<Rightarrow> False)"

lemma guarded_mem: "x \<in> set (map snd (filter fst ys)) \<longleftrightarrow> (True, x) \<in> set ys"
  by (induction ys) auto

lemma typed_amounts_mem:
  assumes "(op, amount) \<in> set (typed_amounts kind c raw)"
  shows "op_allowed kind op \<and> op \<noteq> L_COMPENSATION \<and> (op \<in> expense_ops - {L_RETURN} \<longrightarrow> (\<exists>v. amount = as_negative v))
    \<and> (op = L_SALE \<longrightarrow> amount = as_positive (c F_retail_amount))
    \<and> (op = L_RETURN \<longrightarrow> amount = fst (resolve_wb_return c))"
proof -
  from assms have "(True, op, amount) \<in> set [(allows_retail_amount kind, L_SALE, as_positive (c F_retail_amount)),
      (allows_commission kind, L_COMMISSION, as_negative (c F_commission)),
      (allows_logistics kind, L_LOGISTICS, as_negative (case resolve_logistics c raw of None \<Rightarrow> VNone | Some d \<Rightarrow> VDec d)),
      (allows_storage kind, L_STORAGE_FEE, as_negative (c F_storage_fee)),
      (allows_penalty kind, L_PENALTY, as_negative (c F_penalty)),
      (True, L_ACQUIRING, as_negative (c F_acquiring)),
      (allows_deduction kind, L_DEDUCTION, as_negative (c F_deduction)),
      (allows_payout kind, L_PAYOUT, dec_of (c F_payout)),
      (True, L_ADVERTISEMENT, as_negative (c F_advertisement)),
      (allows_return_wb kind \<and> fst (resolve_wb_return c) \<noteq> None, L_RETURN, fst (resolve_wb_return c))]"
    unfolding typed_amounts_def guarded_mem .
  then show ?thesis
    by (cases op) (simp_all add: op_allowed_def allows_simps expense_ops_def, blast+)
qed

lemma typed_amounts_sign:
  assumes "(op, amount) \<in> set (typed_amounts kind c raw)" and "nonzero amount = Some a"
  shows "amount_sign_ok op a"
proof -
  have "a \<noteq> 0" "amount = Some a" using assms(2) by (simp_all add: nonzero_Some)
  moreover have "op \<in> expense_ops - {L_RETURN} \<Longrightarrow> a < 0"
    using typed_amounts_mem [OF assms(1)] as_negative_sgn \<open>amount = Some a\<close> by metis
  moreover have "op = L_SALE \<Longrightarrow> 0 \<le> a"
    using typed_amounts_mem [OF assms(1)] as_positive_sgn \<open>amount = Some a\<close> by metis
  moreover have "op = L_RETURN \<Longrightarrow> a \<le> 0"
    using typed_amounts_mem [OF assms(1)] resolve_wb_return_sgn \<open>amount = Some a\<close> by metis
  moreover have "op \<noteq> L_OTHER" "op \<noteq> L_COMPENSATION"
    using typed_amounts_mem [OF assms(1)] by (auto simp: op_allowed_def)
  ultimately show ?thesis by (auto simp: amount_sign_ok_def order_less_le)
qed

lemma typed_amounts_ops: "distinct (map fst (typed_amounts kind c raw))"
  unfolding typed_amounts_def map_map by (rule distinct_map_filter) simp

lemma specs_mem:
  assumes "(a, k) \<in> set (compensation_entry_specs c kind)"
  shows "0 \<le> a \<and> op_allowed kind L_COMPENSATION"
proof -
  have present: "(a, k) \<in> set (concat (map amount_present xs)) \<Longrightarrow> (Some a, k) \<in> set xs" for xs
    by (induction xs) (auto simp: amount_present_def split: option.splits)
  have "(True, Some a, k) \<in> set
     [(allows_pic_compensation kind, as_positive (c F_payment_integration_compensation), CK_PIC),
      (allows_loyalty_compensation kind, as_positive (c F_loyalty_compensation), CK_LOYALTY),
      (allows_voluntary_compensation kind, (case as_positive (c F_voluntary_compensation) of
           Some d \<Rightarrow> Some d | None \<Rightarrow> map_option dabs (nonzero (dec_of (c F_payout)))), CK_VOLUNTARY),
      (kind = K_COMPENSATION, as_positive (c F_compensation), CK_LEGACY)]"
    using present [OF assms [unfolded compensation_entry_specs_def]] unfolding guarded_mem .
  then show ?thesis
    by (cases k) (auto simp: op_allowed_def allows_simps dest!: sym [of "Some a"] dest: as_positive_sgn split: option.splits)
qed

lemma specs_kinds: "distinct (map snd (compensation_entry_specs c kind))"
proof -
  have present: "map snd (concat (map amount_present xs)) = map snd (filter (\<lambda>x. fst x \<noteq> None) xs)" for xs
    by (induction xs) (auto simp: amount_present_def)
  show ?thesis
    unfolding compensation_entry_specs_def present
    by (intro distinct_map_filter) (unfold map_map, rule distinct_map_filter, simp)
qed

section \<open>The payout fallback\<close>

text \<open>A row that may pay out already has the payout among its typed amounts.\<close>

definition row_kind :: "wb_row \<Rightarrow> finance_row_kind" where
  "row_kind row = classify_wb_finance_row (text_of (w_canonical row F_operation_type))"

definition main_drafts :: "date \<Rightarrow> wb_row \<Rightarrow> entry_draft list" where
  "main_drafts default_date row =
     concat (map (typed_draft (row_operation_date default_date row) row (row_kind row))
       (typed_amounts (row_kind row) (w_canonical row) (w_raw row)))
     @ map (compensation_draft (row_operation_date default_date row) row)
         (compensation_entry_specs (w_canonical row) (row_kind row))"

lemma entries_for_row_main: "entries_for_row default_date row = main_drafts default_date row"
proof -
  let ?c = "w_canonical row"
  let ?d = "row_operation_date default_date row"
  have "main_drafts default_date row \<noteq> []" if "allows_payout (row_kind row)" "nonzero (dec_of (?c F_payout)) = Some p" for p
  proof -
    have "(L_PAYOUT, dec_of (?c F_payout)) \<in> set (typed_amounts (row_kind row) ?c (w_raw row))"
      using that(1) unfolding typed_amounts_def guarded_mem by simp
    moreover have "typed_draft ?d row (row_kind row) (L_PAYOUT, dec_of (?c F_payout)) \<noteq> []"
      using that(2) by (simp add: typed_draft_def)
    ultimately show ?thesis by (auto simp: main_drafts_def)
  qed
  then show ?thesis
    by (auto simp: entries_for_row_def main_drafts_def row_kind_def Let_def split: option.splits)
qed

lemma main_draft_cases:
  assumes "e \<in> set (main_drafts default_date row)"
  obtains (typed) op amount a meta where "(op, amount) \<in> set (typed_amounts (row_kind row) (w_canonical row) (w_raw row))"
      "nonzero amount = Some a" "e = draft_of (row_operation_date default_date row) row op a (ledger_op_value op) meta"
  | (compensation) a k where "(a, k) \<in> set (compensation_entry_specs (w_canonical row) (row_kind row))"
      "e = compensation_draft (row_operation_date default_date row) row (a, k)"
proof -
  consider "\<exists>x\<in>set (typed_amounts (row_kind row) (w_canonical row) (w_raw row)).
      e \<in> set (typed_draft (row_operation_date default_date row) row (row_kind row) x)"
    | "\<exists>x\<in>set (compensation_entry_specs (w_canonical row) (row_kind row)).
      e = compensation_draft (row_operation_date default_date row) row x"
    using assms by (auto simp: main_drafts_def)
  then show ?thesis
  proof cases
    case 1
    then obtain op amount where x: "(op, amount) \<in> set (typed_amounts (row_kind row) (w_canonical row) (w_raw row))"
      "e \<in> set (typed_draft (row_operation_date default_date row) row (row_kind row) (op, amount))" by auto
    then have "nonzero amount \<noteq> None" by (cases "nonzero amount") (simp_all add: typed_draft_def)
    then obtain a where "nonzero amount = Some a" by blast
    with x show ?thesis by (intro typed [of op amount a]) (simp_all add: typed_draft_def)
  next
    case 2
    then show ?thesis using compensation by auto
  qed
qed

section \<open>Identifiers\<close>

lemma op_value_colon: "58 \<notin> set (ledger_op_value op)"
  by (cases op) (simp_all add: ledger_op_value_def asc_def)

lemma op_value_inj: "ledger_op_value a = ledger_op_value b \<Longrightarrow> a = b"
  by (cases a; cases b; simp add: ledger_op_value_def asc_def)

lemma kind_value_inj: "compensation_kind_value a = compensation_kind_value b \<Longrightarrow> a = b"
  by (cases a; cases b; simp add: compensation_kind_value_def asc_def)

lemma split_colon: "58 \<notin> set a \<Longrightarrow> 58 \<notin> set b \<Longrightarrow> a @ 58 # s = b @ (58::nat) # t \<Longrightarrow> a = b \<and> s = t"
proof (induction a arbitrary: b)
  case Nil
  then show ?case by (cases b) auto
next
  case (Cons x a)
  then show ?case by (cases b) auto
qed

lemma main_ids_distinct: "distinct (map ed_source_row_id (main_drafts default_date row))"
proof -
  let ?kind = "row_kind row" and ?c = "w_canonical row"
  let ?d = "row_operation_date default_date row"
  let ?typed = "typed_amounts ?kind ?c (w_raw row)"
  have ids: "map ed_source_row_id (concat (map (typed_draft ?d row ?kind) xs)) =
      map (\<lambda>x. w_source_row_id row @ 58 # ledger_op_value (fst x)) (filter (\<lambda>x. nonzero (snd x) \<noteq> None) xs)" for xs
    by (induction xs) (auto simp: typed_draft_def draft_of_def split: option.splits)
  have typed: "distinct (map ed_source_row_id (concat (map (typed_draft ?d row ?kind) ?typed)))"
  proof -
    have "distinct (map fst (filter (\<lambda>x. nonzero (snd x) \<noteq> None) ?typed))"
      by (rule distinct_map_filter [OF typed_amounts_ops])
    then have "distinct (map (\<lambda>op. w_source_row_id row @ 58 # ledger_op_value op) (map fst (filter (\<lambda>x. nonzero (snd x) \<noteq> None) ?typed)))"
      by (simp only: distinct_map) (auto intro!: inj_onI dest: op_value_inj)
    then show ?thesis unfolding ids by (simp add: comp_def)
  qed
  have spec: "map ed_source_row_id (map (compensation_draft ?d row) xs) =
      map (\<lambda>k. w_source_row_id row @ 58 # ledger_op_value L_COMPENSATION @ 58 # compensation_kind_value k) (map snd xs)" for xs
    by (simp add: compensation_draft_def draft_of_def split_def)
  have specs: "distinct (map ed_source_row_id (map (compensation_draft ?d row) (compensation_entry_specs ?c ?kind)))"
    unfolding spec using specs_kinds [of ?c ?kind]
    by (simp only: distinct_map) (auto intro!: inj_onI dest: kind_value_inj)
  have disj: "set (map ed_source_row_id (concat (map (typed_draft ?d row ?kind) ?typed))) \<inter>
      set (map ed_source_row_id (map (compensation_draft ?d row) (compensation_entry_specs ?c ?kind))) = {}"
    unfolding ids spec
  proof (intro equals0I, elim IntE)
    fix x assume x: "x \<in> set (map (\<lambda>x. w_source_row_id row @ 58 # ledger_op_value (fst x)) (filter (\<lambda>x. nonzero (snd x) \<noteq> None) ?typed))"
      "x \<in> set (map (\<lambda>k. w_source_row_id row @ 58 # ledger_op_value L_COMPENSATION @ 58 # compensation_kind_value k)
        (map snd (compensation_entry_specs ?c ?kind)))"
    obtain op where "x = w_source_row_id row @ 58 # ledger_op_value op" using x(1) by auto
    moreover obtain k where "x = w_source_row_id row @ 58 # ledger_op_value L_COMPENSATION @ 58 # compensation_kind_value k"
      using x(2) by auto
    ultimately have "ledger_op_value op = ledger_op_value L_COMPENSATION @ 58 # compensation_kind_value k" by simp
    then have "58 \<in> set (ledger_op_value op)" by simp
    with op_value_colon show False by blast
  qed
  show ?thesis unfolding main_drafts_def map_append distinct_append using typed specs disj by blast
qed

lemma main_ids_prefix:
  assumes "e \<in> set (main_drafts default_date row)"
  shows "\<exists>s. ed_source_row_id e = w_source_row_id row @ 58 # s"
  using assms
proof (cases rule: main_draft_cases)
  case (typed op amount a meta)
  then show ?thesis by (simp add: draft_of_def)
next
  case (compensation a k)
  then show ?thesis by (simp add: draft_of_def compensation_draft_def)
qed

lemma ledger_ids_distinct:
  assumes "distinct (map w_source_row_id rows)" and "\<forall>row\<in>set rows. 58 \<notin> set (w_source_row_id row)"
  shows "distinct (map ed_source_row_id (from_normalized_rows default_date rows))"
  using assms
proof (induction rows)
  case Nil
  then show ?case by (simp add: from_normalized_rows_def)
next
  case (Cons row rows)
  have "ed_source_row_id e \<noteq> ed_source_row_id g"
    if e: "e \<in> set (entries_for_row default_date row)" and g: "g \<in> set (from_normalized_rows default_date rows)" for e g
  proof -
    obtain other where other: "other \<in> set rows" "g \<in> set (entries_for_row default_date other)"
      using g by (auto simp: from_normalized_rows_def)
    obtain s t where "ed_source_row_id e = w_source_row_id row @ 58 # s" "ed_source_row_id g = w_source_row_id other @ 58 # t"
      using main_ids_prefix e other(2) unfolding entries_for_row_main by blast
    moreover have "w_source_row_id row \<noteq> w_source_row_id other" using Cons.prems(1) other(1) by auto
    moreover have "58 \<notin> set (w_source_row_id row)" "58 \<notin> set (w_source_row_id other)" using Cons.prems(2) other(1) by simp_all
    ultimately show ?thesis using split_colon by metis
  qed
  moreover have "distinct (map ed_source_row_id (entries_for_row default_date row))"
    unfolding entries_for_row_main by (rule main_ids_distinct)
  moreover have "distinct (map ed_source_row_id (from_normalized_rows default_date rows))"
    using Cons.prems by (intro Cons.IH) simp_all
  moreover have "from_normalized_rows default_date (row # rows) = entries_for_row default_date row @ from_normalized_rows default_date rows"
    by (simp add: from_normalized_rows_def)
  ultimately show ?case by auto
qed

end
