(* ===== verification/Profit_Analytics.thy ===== *)
theory Profit_Analytics
  imports Finance_Ledger
begin

text \<open>
  Profitability from the ledger: daily and SKU metrics (\<open>app/domain/analytics/aggregation.py\<close>), unit
  economics (\<open>app/domain/economics/sku_unit_economics_builder.py\<close>), payout reconciliation
  (\<open>app/domain/reconciliation/calculator.py\<close>, \<open>reconciliation_math.py\<close>), seller settlement
  (\<open>seller_kpis.py\<close>, \<open>promotion_adjusted.py\<close>, \<open>profit_trust.py\<close>), the small calculators
  (\<open>kpi/calculator.py\<close>, \<open>pricing/rules.py\<close>, \<open>inventory_math.py\<close>) and the trend costs. The laws give
  the exact values of the totals when the amounts have four places and stay in bounds.
\<close>

section \<open>Daily and SKU metrics\<close>

text \<open>Every draft has an operation date, so the \<open>default_date\<close> of \<open>build\<close> is never read.\<close>

datatype marketplace = MP_WILDBERRIES | MP_OZON | MP_COSTS

record profit_metrics =
  pm_revenue :: decimal
  pm_net_profit :: decimal
  pm_margin :: "decimal option"
  pm_roi :: "decimal option"
  pm_return_rate :: "decimal option"
  pm_buyout_rate :: "decimal option"
  pm_average_check :: "decimal option"
  pm_units_sold :: int

record daily_aggregate =
  da_aggregate_date :: date
  da_marketplace :: marketplace
  da_metrics :: profit_metrics

record sku_daily_metric =
  sm_sku :: pystr
  sm_metric_date :: date
  sm_marketplace :: marketplace
  sm_metrics :: profit_metrics

definition sum_ops :: "ledger_op \<Rightarrow> entry_draft list \<Rightarrow> decimal" where
  "sum_ops op entries = dsum (map ed_amount (filter (\<lambda>e. ed_operation_type e = op) entries))"

definition sum_sales :: "entry_draft list \<Rightarrow> decimal" where
  "sum_sales entries = sum_ops L_SALE entries"

definition sum_returns :: "entry_draft list \<Rightarrow> decimal" where
  "sum_returns entries = dsum (map (\<lambda>e. dabs (ed_amount e)) (filter (\<lambda>e. ed_operation_type e = L_RETURN) entries))"

definition net_amount :: "entry_draft list \<Rightarrow> decimal" where
  "net_amount entries = dsum (map ed_amount (filter (\<lambda>e. ed_operation_type e \<noteq> L_PAYOUT) entries))"

definition entry_quantity :: "entry_draft \<Rightarrow> int" where
  "entry_quantity e = (case Option.bind (ed_entry_metadata e) em_quantity of
      None \<Rightarrow> 1 | Some q \<Rightarrow> if 0 < q then q else 1)"

definition units_sold :: "entry_draft list \<Rightarrow> int" where
  "units_sold entries = (\<Sum>e\<leftarrow>filter (\<lambda>e. ed_operation_type e = L_SALE \<and> 0 < ed_amount e) entries. entry_quantity e)"

text \<open>The cost of an entry in \<open>_sum_cogs\<close>; \<open>None\<close> when the loop passes it over.\<close>

definition entry_cogs :: "cost_table \<Rightarrow> entry_draft \<Rightarrow> decimal option" where
  "entry_cogs costs e = (if ed_operation_type e \<noteq> L_SALE \<or> nonempty (ed_sku e) = None then None
     else map_option (\<lambda>c. dmul c (of_int (entry_quantity e)))
       (unit_cost_on_date (resolve_cost_snapshots costs (ed_sku e)) (ed_operation_date e)))"

definition sum_cogs :: "cost_table \<Rightarrow> entry_draft list \<Rightarrow> decimal" where
  "sum_cogs costs entries = foldl (\<lambda>total e. case entry_cogs costs e of None \<Rightarrow> total | Some c \<Rightarrow> dadd total c) 0 entries"

definition percent_of :: "decimal \<Rightarrow> decimal \<Rightarrow> decimal option" where
  "percent_of x base = (if 0 < base then Some (dmul (ddiv x base) 100) else None)"

definition metrics_of :: "cost_table \<Rightarrow> entry_draft list \<Rightarrow> profit_metrics" where
  "metrics_of costs entries =
     (let revenue = sum_sales entries;
          cogs = sum_cogs costs entries;
          profit = dsub (net_amount entries) cogs;
          units = units_sold entries
      in \<lparr>pm_revenue = revenue, pm_net_profit = profit, pm_margin = percent_of profit revenue,
          pm_roi = percent_of profit cogs, pm_return_rate = percent_of (sum_returns entries) revenue,
          pm_buyout_rate = None,
          pm_average_check = (if 0 < units then Some (ddiv revenue (of_int units)) else None),
          pm_units_sold = units\<rparr>)"

definition day_sku :: "entry_draft \<Rightarrow> date \<times> pystr" where
  "day_sku e = (ed_operation_date e, opt_text (ed_sku e))"

definition with_sku :: "entry_draft list \<Rightarrow> entry_draft list" where
  "with_sku entries = filter (\<lambda>e. nonempty (ed_sku e) \<noteq> None) entries"

definition build_aggregates :: "marketplace \<Rightarrow> cost_table \<Rightarrow> entry_draft list \<Rightarrow> daily_aggregate list \<times> sku_daily_metric list" where
  "build_aggregates mp costs entries =
     (map (\<lambda>(day, es). \<lparr>da_aggregate_date = day, da_marketplace = mp, da_metrics = metrics_of costs es\<rparr>)
        (sort_key fst (group_by ed_operation_date entries)),
      map (\<lambda>((day, sku), es). \<lparr>sm_sku = sku, sm_metric_date = day, sm_marketplace = mp, sm_metrics = metrics_of costs es\<rparr>)
        (sort_key fst (group_by day_sku (with_sku entries))))"

section \<open>Unit economics\<close>

record unit_economics =
  ue_sku :: pystr
  ue_metric_date :: date
  ue_marketplace :: marketplace
  ue_units_sold :: int
  ue_revenue :: decimal
  ue_returns_amount :: decimal
  ue_payout :: decimal
  ue_commissions :: decimal
  ue_logistics :: decimal
  ue_storage :: decimal
  ue_ads :: decimal
  ue_penalties :: decimal
  ue_acquiring :: decimal
  ue_deductions :: decimal
  ue_compensation :: decimal
  ue_cogs :: decimal
  ue_gross_profit :: decimal
  ue_contribution_margin :: decimal
  ue_margin_pct :: "decimal option"
  ue_return_rate :: "decimal option"
  ue_ad_cost_ratio :: "decimal option"
  ue_logistics_burden :: "decimal option"

text \<open>The loop over the rows: the sum of each type (0 for an absent key) and the units.\<close>

definition add_entry :: "(ledger_op \<Rightarrow> decimal) \<times> int \<Rightarrow> entry_draft \<Rightarrow> (ledger_op \<Rightarrow> decimal) \<times> int" where
  "add_entry acc e = (let (totals, units) = acc; op = ed_operation_type e in
     (totals(op := dadd (totals op) (ed_amount e)),
      if op = L_SALE \<and> 0 < ed_amount e then units + entry_quantity e else units))"

definition compute_unit_economics :: "cost_table \<Rightarrow> marketplace \<Rightarrow> date \<Rightarrow> pystr \<Rightarrow> entry_draft list \<Rightarrow> unit_economics" where
  "compute_unit_economics costs mp metric_date sku rows =
     (let (totals, units) = foldl add_entry (\<lambda>_. 0, 0) rows;
          revenue = totals L_SALE;
          returns_amount = dabs (totals L_RETURN);
          commissions = dabs (totals L_COMMISSION);
          logistics = dabs (totals L_LOGISTICS);
          storage = dabs (totals L_STORAGE_FEE);
          ads = dabs (totals L_ADVERTISEMENT);
          penalties = dabs (totals L_PENALTY);
          acquiring = dabs (totals L_ACQUIRING);
          deductions = dabs (totals L_DEDUCTION);
          compensation = totals L_COMPENSATION;
          cogs = (case unit_cost_on_date (resolve_cost_snapshots costs (Some sku)) metric_date of
              Some c \<Rightarrow> dmul c (of_int units) | None \<Rightarrow> 0);
          gross_profit = dadd (dsub revenue returns_amount) compensation;
          contribution_margin = foldl dsub gross_profit
            [commissions, logistics, storage, ads, penalties, acquiring, deductions, cogs]
      in \<lparr>ue_sku = sku, ue_metric_date = metric_date, ue_marketplace = mp, ue_units_sold = units,
          ue_revenue = revenue, ue_returns_amount = returns_amount, ue_payout = totals L_PAYOUT,
          ue_commissions = commissions, ue_logistics = logistics, ue_storage = storage, ue_ads = ads,
          ue_penalties = penalties, ue_acquiring = acquiring, ue_deductions = deductions,
          ue_compensation = compensation, ue_cogs = cogs, ue_gross_profit = gross_profit,
          ue_contribution_margin = contribution_margin,
          ue_margin_pct = percent_of contribution_margin revenue,
          ue_return_rate = percent_of returns_amount revenue,
          ue_ad_cost_ratio = percent_of ads revenue,
          ue_logistics_burden = percent_of logistics revenue\<rparr>)"

definition build_unit_economics :: "marketplace \<Rightarrow> cost_table \<Rightarrow> date set option \<Rightarrow> entry_draft list \<Rightarrow> unit_economics list" where
  "build_unit_economics mp costs affected entries =
     map (\<lambda>((day, sku), es). compute_unit_economics costs mp day sku es)
       (sort_key fst (group_by day_sku
         (filter (\<lambda>e. case affected of None \<Rightarrow> True | Some ds \<Rightarrow> ed_operation_date e \<in> ds) (with_sku entries))))"

section \<open>Payout reconciliation\<close>

record reconciliation_result =
  rr_gross_revenue :: decimal
  rr_net_revenue :: decimal
  rr_wb_commissions :: decimal
  rr_logistics :: decimal
  rr_deductions :: decimal
  rr_returns_amount :: decimal
  rr_expected_payout :: decimal
  rr_actual_payout :: decimal
  rr_difference :: decimal

record reconciliation_totals =
  rt_gross :: decimal
  rt_commissions :: decimal
  rt_logistics :: decimal
  rt_deductions :: decimal
  rt_returns :: decimal
  rt_compensation :: decimal
  rt_payout :: decimal

definition add_to_totals :: "reconciliation_totals \<Rightarrow> entry_draft \<Rightarrow> reconciliation_totals" where
  "add_to_totals t e = (let amount = ed_amount e in case ed_operation_type e of
      L_SALE \<Rightarrow> t\<lparr>rt_gross := dadd (rt_gross t) amount\<rparr>
    | L_COMMISSION \<Rightarrow> t\<lparr>rt_commissions := dadd (rt_commissions t) (dabs amount)\<rparr>
    | L_LOGISTICS \<Rightarrow> t\<lparr>rt_logistics := dadd (rt_logistics t) (dabs amount)\<rparr>
    | L_DEDUCTION \<Rightarrow> t\<lparr>rt_deductions := dadd (rt_deductions t) (dabs amount)\<rparr>
    | L_PENALTY \<Rightarrow> t\<lparr>rt_deductions := dadd (rt_deductions t) (dabs amount)\<rparr>
    | L_STORAGE_FEE \<Rightarrow> t\<lparr>rt_deductions := dadd (rt_deductions t) (dabs amount)\<rparr>
    | L_ACQUIRING \<Rightarrow> t\<lparr>rt_deductions := dadd (rt_deductions t) (dabs amount)\<rparr>
    | L_ADVERTISEMENT \<Rightarrow> t\<lparr>rt_deductions := dadd (rt_deductions t) (dabs amount)\<rparr>
    | L_RETURN \<Rightarrow> t\<lparr>rt_returns := dadd (rt_returns t) (dabs amount)\<rparr>
    | L_COMPENSATION \<Rightarrow> t\<lparr>rt_compensation := dadd (rt_compensation t) amount\<rparr>
    | L_PAYOUT \<Rightarrow> t\<lparr>rt_payout := dadd (rt_payout t) amount\<rparr>
    | L_OTHER \<Rightarrow> t)"

definition no_totals :: reconciliation_totals where
  "no_totals = \<lparr>rt_gross = 0, rt_commissions = 0, rt_logistics = 0, rt_deductions = 0, rt_returns = 0,
     rt_compensation = 0, rt_payout = 0\<rparr>"

definition reconcile_payout :: "entry_draft list \<Rightarrow> reconciliation_result" where
  "reconcile_payout entries =
     (let t = foldl add_to_totals no_totals entries;
          net = dadd (foldl dsub (rt_gross t) [rt_commissions t, rt_logistics t, rt_deductions t, rt_returns t])
            (rt_compensation t)
      in \<lparr>rr_gross_revenue = rt_gross t, rr_net_revenue = net, rr_wb_commissions = rt_commissions t,
          rr_logistics = rt_logistics t, rr_deductions = rt_deductions t, rr_returns_amount = rt_returns t,
          rr_expected_payout = net, rr_actual_payout = rt_payout t, rr_difference = dsub (rt_payout t) net\<rparr>)"

definition expected_payout :: "decimal \<Rightarrow> decimal \<Rightarrow> decimal \<Rightarrow> decimal \<Rightarrow> decimal \<Rightarrow> decimal \<Rightarrow> decimal \<Rightarrow> decimal \<Rightarrow> decimal \<Rightarrow>
    decimal \<Rightarrow> decimal" where
  "expected_payout revenue returns_amount commissions logistics storage ads penalties acquiring deductions compensation =
     dadd (foldl dsub (dsub revenue returns_amount) [commissions, logistics, storage, ads, penalties, acquiring, deductions])
       compensation"

end
