(* ===== verification/Profit_Laws.thy ===== *)
theory Profit_Laws
  imports Profit_Analytics
begin

text \<open>
  The exact values of the profit views: with amounts on the grid of four decimal places (the column
  \<open>Numeric(18, 4)\<close>) and sums that stay below the 28 digits of the context, nothing is rounded, and the
  sign discipline of the ledger turns the sums of absolute values into plain sums.
\<close>

section \<open>Chains of exact operations\<close>

lemma amounts_within_Cons:
  "amounts_within s L (x # xs) \<longleftrightarrow> on_grid s x \<and> amounts_within s (L - \<bar>x\<bar>) xs"
  by (auto simp: amounts_within_def)

lemma amounts_within_exact:
  assumes "amounts_within s L xs" and "L < 10 ^ 28 / 10 ^ s" and "on_grid s y" and "\<bar>y\<bar> \<le> (\<Sum>x\<leftarrow>xs. \<bar>x\<bar>)"
  shows "exact_amount s y"
  using assms by (auto simp: amounts_within_def exact_amount_def)

lemma dsub_within:
  assumes "amounts_within s L (a # b # xs)" and "L < 10 ^ 28 / 10 ^ s"
  shows "dsub a b = a - b" and "amounts_within s L ((a - b) # xs)"
proof -
  have ab: "on_grid s a" "on_grid s b" "\<bar>a - b\<bar> \<le> \<bar>a\<bar> + \<bar>b\<bar>" using assms(1) by (auto simp: amounts_within_def)
  have nn: "0 \<le> (\<Sum>x\<leftarrow>xs. \<bar>x\<bar>)" by (induction xs) auto
  have "exact_amount s (a - b)"
    by (rule amounts_within_exact [OF assms]) (use ab nn in \<open>auto intro: on_grid_diff\<close>)
  then show "dsub a b = a - b" by (rule dsub_exact)
  show "amounts_within s L ((a - b) # xs)" using assms(1) ab by (auto simp: amounts_within_def)
qed

lemma dadd_within:
  assumes "amounts_within s L (a # b # xs)" and "L < 10 ^ 28 / 10 ^ s"
  shows "dadd a b = a + b" and "amounts_within s L ((a + b) # xs)"
proof -
  have ab: "on_grid s a" "on_grid s b" "\<bar>a + b\<bar> \<le> \<bar>a\<bar> + \<bar>b\<bar>" using assms(1) by (auto simp: amounts_within_def)
  have nn: "0 \<le> (\<Sum>x\<leftarrow>xs. \<bar>x\<bar>)" by (induction xs) auto
  have "exact_amount s (a + b)"
    by (rule amounts_within_exact [OF assms]) (use ab nn in \<open>auto intro: on_grid_add\<close>)
  then show "dadd a b = a + b" by (rule dadd_exact)
  show "amounts_within s L ((a + b) # xs)" using assms(1) ab by (auto simp: amounts_within_def)
qed

lemma foldl_dsub_within:
  "amounts_within s L (a # xs) \<Longrightarrow> L < 10 ^ 28 / 10 ^ s \<Longrightarrow> foldl dsub a xs = a - (\<Sum>x\<leftarrow>xs. x)"
proof (induction xs arbitrary: a)
  case Nil
  then show ?case by simp
next
  case (Cons x xs)
  from dsub_within [OF Cons.prems] Cons.IH [of "a - x"] Cons.prems(2) show ?case by simp
qed

lemma foldl_dadd_within:
  "amounts_within s L (a # xs) \<Longrightarrow> L < 10 ^ 28 / 10 ^ s \<Longrightarrow> foldl dadd a xs = a + (\<Sum>x\<leftarrow>xs. x)"
proof (induction xs arbitrary: a)
  case Nil
  then show ?case by simp
next
  case (Cons x xs)
  from dadd_within [OF Cons.prems] Cons.IH [of "a + x"] Cons.prems(2) show ?case by (simp add: add.assoc)
qed

lemma amounts_within_mono: "amounts_within s L xs \<Longrightarrow> L \<le> M \<Longrightarrow> amounts_within s M xs"
  by (auto simp: amounts_within_def)

section \<open>Sums by type\<close>

definition op_total :: "ledger_op \<Rightarrow> entry_draft list \<Rightarrow> rat" where
  "op_total op es = (\<Sum>e\<leftarrow>filter (\<lambda>e. ed_operation_type e = op) es. ed_amount e)"

definition all_ops :: "ledger_op list" where
  "all_ops = [L_SALE, L_RETURN, L_LOGISTICS, L_STORAGE_FEE, L_COMMISSION, L_PENALTY, L_ACQUIRING, L_COMPENSATION,
     L_PAYOUT, L_DEDUCTION, L_ADVERTISEMENT, L_OTHER]"

lemma all_ops_complete [simp]: "op \<in> set all_ops" "distinct all_ops"
  by (cases op) (simp_all add: all_ops_def)

definition amounts :: "entry_draft list \<Rightarrow> rat list" where
  "amounts es = map ed_amount es"

lemma amounts_Nil [simp]: "amounts [] = []"
  by (simp add: amounts_def)

lemma op_total_simps [simp]:
  "op_total op [] = 0"
  "op_total op (e # es) = (if ed_operation_type e = op then ed_amount e + op_total op es else op_total op es)"
  by (simp_all add: op_total_def)

lemma op_totals_abs: "(\<Sum>op\<leftarrow>all_ops. \<bar>op_total op es\<bar>) \<le> (\<Sum>x\<leftarrow>amounts es. \<bar>x\<bar>)"
proof -
  have "(\<Sum>op\<leftarrow>all_ops. \<bar>op_total op es\<bar>) \<le> (\<Sum>op\<leftarrow>all_ops. \<Sum>e\<leftarrow>filter (\<lambda>e. ed_operation_type e = op) es. \<bar>ed_amount e\<bar>)"
    by (rule sum_list_mono) (unfold op_total_def, rule order_trans [OF sum_list_abs], simp add: comp_def)
  also have "\<dots> = (\<Sum>e\<leftarrow>es. \<bar>ed_amount e\<bar>)"
    by (rule sum_list_filter_partition) auto
  finally show ?thesis by (simp add: amounts_def comp_def)
qed

lemma op_total_grid: "amounts_within s L (amounts es) \<Longrightarrow> on_grid s (op_total op es)"
  using on_grid_sum_list [of "map ed_amount (filter (\<lambda>e. ed_operation_type e = op) es)" s]
  by (auto simp: op_total_def amounts_within_def amounts_def)

text \<open>The totals of any distinct types are amounts within the bound of the entries.\<close>

lemma op_totals_within:
  assumes "amounts_within s L (amounts es)" and "distinct ops"
  shows "amounts_within s L (map (\<lambda>op. op_total op es) ops)"
proof -
  have "(\<Sum>op\<leftarrow>ops. \<bar>op_total op es\<bar>) = (\<Sum>op\<in>set ops. \<bar>op_total op es\<bar>)"
    using assms(2) by (simp add: sum_list_distinct_conv_sum_set)
  also have "\<dots> \<le> (\<Sum>op\<in>set all_ops. \<bar>op_total op es\<bar>)" by (rule sum_mono2) auto
  also have "\<dots> = (\<Sum>op\<leftarrow>all_ops. \<bar>op_total op es\<bar>)" by (simp add: sum_list_distinct_conv_sum_set)
  also note op_totals_abs
  finally show ?thesis using assms(1) op_total_grid [OF assms(1)] by (auto simp: amounts_within_def comp_def)
qed

section \<open>The net result of the entries\<close>

text \<open>Everything but the payouts: what the seller earns before the cost of goods.\<close>

definition profit_and_loss :: "entry_draft list \<Rightarrow> rat" where
  "profit_and_loss es = (\<Sum>e\<leftarrow>filter (\<lambda>e. ed_operation_type e \<noteq> L_PAYOUT) es. ed_amount e)"

definition signs_ok :: "entry_draft list \<Rightarrow> bool" where
  "signs_ok es \<longleftrightarrow> (\<forall>e\<in>set es. amount_sign_ok (ed_operation_type e) (ed_amount e))"

lemma profit_and_loss_ops:
  "profit_and_loss es = (\<Sum>op\<leftarrow>all_ops. if op = L_PAYOUT then 0 else op_total op es)"
proof (induction es)
  case Nil
  then show ?case by (simp add: profit_and_loss_def all_ops_def)
next
  case (Cons e es)
  then show ?case by (cases "ed_operation_type e") (simp_all add: profit_and_loss_def all_ops_def)
qed

lemma signs_total:
  "signs_ok es \<Longrightarrow> op \<in> expense_ops \<Longrightarrow> \<bar>op_total op es\<bar> = - op_total op es"
  "signs_ok es \<Longrightarrow> op_total L_OTHER es = 0"
proof -
  have "signs_ok es \<Longrightarrow> op \<in> expense_ops \<Longrightarrow> op_total op es \<le> 0"
    by (induction es) (auto simp: signs_ok_def amount_sign_ok_def)
  then show "signs_ok es \<Longrightarrow> op \<in> expense_ops \<Longrightarrow> \<bar>op_total op es\<bar> = - op_total op es" by simp
  show "signs_ok es \<Longrightarrow> op_total L_OTHER es = 0"
    by (induction es) (auto simp: signs_ok_def amount_sign_ok_def)
qed

lemma net_amount_exact:
  assumes "amounts_within 4 L (amounts es)" and "L < 10 ^ 24"
  shows "net_amount es = profit_and_loss es"
proof -
  have "amounts_within 4 L (map ed_amount (filter (\<lambda>e. ed_operation_type e \<noteq> L_PAYOUT) es))"
  proof -
    have "(\<Sum>e\<leftarrow>filter (\<lambda>e. ed_operation_type e \<noteq> L_PAYOUT) es. \<bar>ed_amount e\<bar>) \<le> (\<Sum>e\<leftarrow>es. \<bar>ed_amount e\<bar>)"
      by (induction es) auto
    then show ?thesis using assms(1) by (auto simp: amounts_within_def amounts_def comp_def)
  qed
  then have "dsum (map ed_amount (filter (\<lambda>e. ed_operation_type e \<noteq> L_PAYOUT) es)) =
      (\<Sum>x\<leftarrow>map ed_amount (filter (\<lambda>e. ed_operation_type e \<noteq> L_PAYOUT) es). x)"
    by (rule dsum_exact) (use assms(2) in simp)
  then show ?thesis by (simp add: net_amount_def profit_and_loss_def)
qed

section \<open>Unit economics\<close>

lemma add_entry_fold:
  "foldl add_entry (t, u) es =
     ((\<lambda>op. foldl dadd (t op) (map ed_amount (filter (\<lambda>e. ed_operation_type e = op) es))), u + units_sold es)"
proof (induction es arbitrary: t u)
  case Nil
  then show ?case by (simp add: units_sold_def)
next
  case (Cons e es)
  have step: "add_entry (t, u) e = (t(ed_operation_type e := dadd (t (ed_operation_type e)) (ed_amount e)),
      u + units_sold [e])"
    by (simp add: add_entry_def units_sold_def Let_def)
  have "units_sold (e # es) = units_sold [e] + units_sold es" by (simp add: units_sold_def)
  then show ?case by (simp add: step Cons.IH fun_eq_iff)
qed

lemma filtered_within:
  assumes "amounts_within s L (amounts es)"
  shows "amounts_within s L (map ed_amount (filter P es))"
proof -
  have "(\<Sum>e\<leftarrow>filter P es. \<bar>ed_amount e\<bar>) \<le> (\<Sum>e\<leftarrow>es. \<bar>ed_amount e\<bar>)" by (induction es) auto
  then show ?thesis using assms by (auto simp: amounts_within_def amounts_def comp_def)
qed

lemma amounts_within_0: "amounts_within s L (0 # xs) \<longleftrightarrow> amounts_within s L xs"
  by (simp add: amounts_within_def)

lemma op_sums_exact:
  assumes "amounts_within 4 L (amounts es)" and "L < 10 ^ 24"
  shows "foldl dadd 0 (map ed_amount (filter (\<lambda>e. ed_operation_type e = op) es)) = op_total op es"
proof -
  have "amounts_within 4 L (0 # map ed_amount (filter (\<lambda>e. ed_operation_type e = op) es))"
    using filtered_within [OF assms(1)] by (simp add: amounts_within_0)
  from foldl_dadd_within [OF this] assms(2) show ?thesis by (simp add: op_total_def)
qed

text \<open>The cost of goods of the rows of one SKU and day.\<close>

definition goods_cost :: "cost_table \<Rightarrow> date \<Rightarrow> pystr \<Rightarrow> entry_draft list \<Rightarrow> decimal" where
  "goods_cost costs d sku es = (case unit_cost_on_date (resolve_cost_snapshots costs (Some sku)) d of
      None \<Rightarrow> 0 | Some c \<Rightarrow> dmul c (of_int (units_sold es)))"

definition abs_total :: "ledger_op \<Rightarrow> entry_draft list \<Rightarrow> rat" where
  "abs_total op es = \<bar>op_total op es\<bar>"

lemma contribution_margin_exact:
  assumes a: "amounts_within 4 L (amounts es)" and s: "signs_ok es"
    and c: "on_grid 4 (goods_cost costs d sku es)" "\<bar>goods_cost costs d sku es\<bar> \<le> C" and b: "L + C < 10 ^ 24"
  shows "ue_contribution_margin (compute_unit_economics costs mp d sku es) = profit_and_loss es - goods_cost costs d sku es"
proof -
  let ?T = "\<lambda>op. op_total op es" and ?c = "goods_cost costs d sku es"
  have L: "L < 10 ^ 24" and C: "0 \<le> C" using b c(2) by auto
  have L0: "0 \<le> L"
  proof -
    have "0 \<le> (\<Sum>x\<leftarrow>amounts es. \<bar>x\<bar>)" by (induction es) (auto simp: amounts_def)
    then show ?thesis using a by (simp add: amounts_within_def)
  qed
  have lim: "L + C < 10 ^ 28 / 10 ^ 4" using b by simp
  have abs: "dabs (?T op) = \<bar>?T op\<bar>" for op
  proof (rule dabs_exact)
    show "exact_amount 4 (?T op)"
      using op_totals_within [OF a, of "[op]"] op_total_grid [OF a] L by (auto simp: exact_amount_def amounts_within_def)
  qed
  let ?parts = "[?T L_SALE, \<bar>?T L_RETURN\<bar>, ?T L_COMPENSATION, \<bar>?T L_COMMISSION\<bar>, \<bar>?T L_LOGISTICS\<bar>, \<bar>?T L_STORAGE_FEE\<bar>,
     \<bar>?T L_ADVERTISEMENT\<bar>, \<bar>?T L_PENALTY\<bar>, \<bar>?T L_ACQUIRING\<bar>, \<bar>?T L_DEDUCTION\<bar>, ?c]"
  have parts: "amounts_within 4 (L + C) ?parts"
    using op_totals_within [OF a, of "[L_SALE, L_RETURN, L_COMPENSATION, L_COMMISSION, L_LOGISTICS, L_STORAGE_FEE,
      L_ADVERTISEMENT, L_PENALTY, L_ACQUIRING, L_DEDUCTION]"] c
    by (simp add: amounts_within_def)
  note p1 = dsub_within [OF parts lim]
  note p2 = dadd_within [OF p1(2) lim]
  note p3 = foldl_dsub_within [OF p2(2) lim]
  have "ue_contribution_margin (compute_unit_economics costs mp d sku es) =
      foldl dsub (dadd (dsub (?T L_SALE) \<bar>?T L_RETURN\<bar>) (?T L_COMPENSATION))
        [\<bar>?T L_COMMISSION\<bar>, \<bar>?T L_LOGISTICS\<bar>, \<bar>?T L_STORAGE_FEE\<bar>, \<bar>?T L_ADVERTISEMENT\<bar>, \<bar>?T L_PENALTY\<bar>, \<bar>?T L_ACQUIRING\<bar>,
         \<bar>?T L_DEDUCTION\<bar>, ?c]"
    by (simp add: compute_unit_economics_def add_entry_fold op_sums_exact [OF a L] abs goods_cost_def Let_def split: option.split)
  also have "\<dots> = ?T L_SALE - \<bar>?T L_RETURN\<bar> + ?T L_COMPENSATION
      - (\<Sum>x\<leftarrow>[\<bar>?T L_COMMISSION\<bar>, \<bar>?T L_LOGISTICS\<bar>, \<bar>?T L_STORAGE_FEE\<bar>, \<bar>?T L_ADVERTISEMENT\<bar>, \<bar>?T L_PENALTY\<bar>, \<bar>?T L_ACQUIRING\<bar>,
         \<bar>?T L_DEDUCTION\<bar>, ?c]. x)"
    by (simp only: p1(1) p2(1) p3)
  also have "\<dots> = profit_and_loss es - ?c"
    using signs_total [OF s] by (simp add: profit_and_loss_ops all_ops_def expense_ops_def)
  finally show ?thesis .
qed

section \<open>The SKU metrics\<close>

lemma units_sold_nonneg: "0 \<le> units_sold es"
  by (induction es) (auto simp: units_sold_def entry_quantity_def split: option.splits)

lemma mult_nonneg_bound: "\<bar>c\<bar> * of_int u \<le> (C::rat) \<Longrightarrow> 0 \<le> u \<Longrightarrow> \<bar>c * of_int u\<bar> \<le> C"
  by (simp add: abs_mult)

text \<open>A loop that updates an observation only on some elements.\<close>

lemma foldl_observe:
  assumes "\<And>t e. f (g t e) = (if P e then h (f t) (k e) else f t)"
  shows "f (foldl g t es) = foldl h (f t) (map k (filter P es))"
  by (induction es arbitrary: t) (simp_all add: assms)

abbreviation of_ops :: "ledger_op set \<Rightarrow> entry_draft list \<Rightarrow> entry_draft list" where
  "of_ops S es \<equiv> filter (\<lambda>e. ed_operation_type e \<in> S) es"

lemma sales_quantity:
  assumes "signs_ok es"
  shows "(\<Sum>e\<leftarrow>of_ops {L_SALE} es. entry_quantity e) = units_sold es"
proof -
  have "of_ops {L_SALE} es = filter (\<lambda>e. ed_operation_type e = L_SALE \<and> 0 < ed_amount e) es"
    using assms by (intro filter_cong) (auto simp: signs_ok_def amount_sign_ok_def)
  then show ?thesis by (simp add: units_sold_def)
qed

lemma entry_quantity_pos: "0 < entry_quantity e"
  by (simp add: entry_quantity_def split: option.split)

text \<open>The loop over the sale entries adds up to one product.\<close>

lemma cogs_fold:
  assumes s: "signs_ok es" and key: "\<And>e. e \<in> set es \<Longrightarrow> ed_operation_date e = d \<and> ed_sku e = Some sku" and "sku \<noteq> []"
    and cost: "unit_cost_on_date (resolve_cost_snapshots costs (Some sku)) d = Some c" and grid: "on_grid 4 c"
    and b: "\<bar>c\<bar> * of_int (units_sold es) \<le> C" "C < 10 ^ 24"
  shows "sum_cogs costs es = c * of_int (units_sold es)"
proof -
  let ?sales = "of_ops {L_SALE} es"
  have total: "(\<Sum>e\<leftarrow>xs. k * rat_of_int (entry_quantity e)) = k * of_int (\<Sum>e\<leftarrow>xs. entry_quantity e)" for k xs
    by (induction xs) (simp_all add: distrib_left)
  have bound: "(\<Sum>e\<leftarrow>?sales. \<bar>c * of_int (entry_quantity e)\<bar>) \<le> C"
  proof -
    have "(\<Sum>e\<leftarrow>?sales. \<bar>c * of_int (entry_quantity e)\<bar>) = (\<Sum>e\<leftarrow>?sales. \<bar>c\<bar> * of_int (entry_quantity e))"
      using entry_quantity_pos by (intro arg_cong [of _ _ sum_list] map_cong) (simp_all add: abs_mult less_imp_le)
    also have "\<dots> = \<bar>c\<bar> * of_int (units_sold es)" by (simp only: total sales_quantity [OF s])
    finally show ?thesis using b(1) by simp
  qed
  have within: "amounts_within 4 C (0 # map (\<lambda>e. c * of_int (entry_quantity e)) ?sales)"
    using bound grid by (auto simp: amounts_within_def comp_def)
  have mul: "dmul c (of_int (entry_quantity e)) = c * of_int (entry_quantity e)" if "e \<in> set ?sales" for e
  proof (rule dmul_exact [of 4])
    have "\<bar>c * of_int (entry_quantity e)\<bar> \<le> (\<Sum>e\<leftarrow>?sales. \<bar>c * of_int (entry_quantity e)\<bar>)"
      using that by (intro member_le_sum_list) auto
    with bound b(2) grid show "exact_amount 4 (c * of_int (entry_quantity e))" by (auto simp: exact_amount_def)
  qed
  have cogs: "entry_cogs costs e = (if ed_operation_type e = L_SALE then Some (dmul c (of_int (entry_quantity e))) else None)"
    if "e \<in> set es" for e
    using key [OF that] cost assms(3) by (simp add: entry_cogs_def nonempty_def)
  have "sum_cogs costs es = foldl (\<lambda>total e. if ed_operation_type e \<in> {L_SALE} then dadd total (dmul c (of_int (entry_quantity e))) else total) 0 es"
    unfolding sum_cogs_def by (rule foldl_cong) (simp_all add: cogs)
  also have "\<dots> = foldl dadd 0 (map (\<lambda>e. dmul c (of_int (entry_quantity e))) ?sales)"
    by (rule foldl_observe [of "\<lambda>x. x"]) simp
  also have "map (\<lambda>e. dmul c (of_int (entry_quantity e))) ?sales = map (\<lambda>e. c * of_int (entry_quantity e)) ?sales"
    by (rule map_cong [OF refl mul])
  also have "foldl dadd 0 \<dots> = c * of_int (units_sold es)"
    using foldl_dadd_within [OF within] b(2) by (simp add: total sales_quantity [OF s, simplified])
  finally show ?thesis .
qed

lemma sum_cogs_exact:
  assumes "signs_ok es" and "\<And>e. e \<in> set es \<Longrightarrow> ed_operation_date e = d \<and> ed_sku e = Some sku" and "sku \<noteq> []"
    and cost: "\<And>c. unit_cost_on_date (resolve_cost_snapshots costs (Some sku)) d = Some c \<Longrightarrow>
      on_grid 4 c \<and> \<bar>c\<bar> * of_int (units_sold es) \<le> C" and "C < 10 ^ 24" and "0 \<le> C"
  shows "sum_cogs costs es = goods_cost costs d sku es" and "on_grid 4 (goods_cost costs d sku es)"
    and "\<bar>goods_cost costs d sku es\<bar> \<le> C"
proof -
  have "sum_cogs costs es = goods_cost costs d sku es \<and> on_grid 4 (goods_cost costs d sku es) \<and> \<bar>goods_cost costs d sku es\<bar> \<le> C"
  proof (cases "unit_cost_on_date (resolve_cost_snapshots costs (Some sku)) d")
    case None
    have "entry_cogs costs e = None" if "e \<in> set es" for e
      using assms(2) [OF that] None by (simp add: entry_cogs_def)
    then have "foldl (\<lambda>total e. case entry_cogs costs e of None \<Rightarrow> total | Some x \<Rightarrow> dadd total x) t es = t" for t
      by (induction es arbitrary: t) simp_all
    with None assms(6) show ?thesis by (simp add: sum_cogs_def goods_cost_def)
  next
    case (Some c)
    note c = cost [OF Some]
    have b: "\<bar>c * of_int (units_sold es)\<bar> \<le> C" by (rule mult_nonneg_bound) (use c units_sold_nonneg in auto)
    then have "exact_amount 4 (c * of_int (units_sold es))" using c assms(5) by (auto simp: exact_amount_def)
    then have "goods_cost costs d sku es = c * of_int (units_sold es)" by (simp add: goods_cost_def Some dmul_exact)
    moreover have "sum_cogs costs es = c * of_int (units_sold es)"
      using cogs_fold [OF assms(1,2,3) Some] c assms(5) by blast
    ultimately show ?thesis using b c by auto
  qed
  then show "sum_cogs costs es = goods_cost costs d sku es" "on_grid 4 (goods_cost costs d sku es)"
    "\<bar>goods_cost costs d sku es\<bar> \<le> C" by simp_all
qed

lemma profit_and_loss_within:
  assumes "amounts_within 4 L (amounts es)"
  shows "\<bar>profit_and_loss es\<bar> \<le> L" and "on_grid 4 (profit_and_loss es)"
proof -
  have w: "amounts_within 4 L (map ed_amount (filter (\<lambda>e. ed_operation_type e \<noteq> L_PAYOUT) es))" by (rule filtered_within [OF assms])
  from amounts_sum_bound [OF w] on_grid_sum_list [of "map ed_amount (filter (\<lambda>e. ed_operation_type e \<noteq> L_PAYOUT) es)" 4] w
  show "\<bar>profit_and_loss es\<bar> \<le> L" "on_grid 4 (profit_and_loss es)"
    by (auto simp: profit_and_loss_def amounts_within_def)
qed

lemma net_profit_exact:
  assumes a: "amounts_within 4 L (amounts es)" and c: "on_grid 4 (sum_cogs costs es)" "\<bar>sum_cogs costs es\<bar> \<le> C"
    and b: "L + C < 10 ^ 24"
  shows "pm_net_profit (metrics_of costs es) = profit_and_loss es - sum_cogs costs es"
proof -
  have L: "L < 10 ^ 24" using b c(2) by auto
  have "amounts_within 4 (L + C) [profit_and_loss es, sum_cogs costs es]"
    using profit_and_loss_within [OF a] c by (simp add: amounts_within_def)
  from dsub_within(1) [OF this] b show ?thesis by (simp add: metrics_of_def Let_def net_amount_exact [OF a L])
qed

section \<open>The reconciliation\<close>

definition deduction_ops :: "ledger_op set" where
  "deduction_ops = {L_DEDUCTION, L_PENALTY, L_STORAGE_FEE, L_ACQUIRING, L_ADVERTISEMENT}"

lemma totals_step:
  "rt_gross (add_to_totals t e) = (if ed_operation_type e \<in> {L_SALE} then dadd (rt_gross t) (ed_amount e) else rt_gross t)"
  "rt_commissions (add_to_totals t e) = (if ed_operation_type e \<in> {L_COMMISSION} then dadd (rt_commissions t) (dabs (ed_amount e)) else rt_commissions t)"
  "rt_logistics (add_to_totals t e) = (if ed_operation_type e \<in> {L_LOGISTICS} then dadd (rt_logistics t) (dabs (ed_amount e)) else rt_logistics t)"
  "rt_deductions (add_to_totals t e) = (if ed_operation_type e \<in> deduction_ops then dadd (rt_deductions t) (dabs (ed_amount e)) else rt_deductions t)"
  "rt_returns (add_to_totals t e) = (if ed_operation_type e \<in> {L_RETURN} then dadd (rt_returns t) (dabs (ed_amount e)) else rt_returns t)"
  "rt_compensation (add_to_totals t e) = (if ed_operation_type e \<in> {L_COMPENSATION} then dadd (rt_compensation t) (ed_amount e) else rt_compensation t)"
  "rt_payout (add_to_totals t e) = (if ed_operation_type e \<in> {L_PAYOUT} then dadd (rt_payout t) (ed_amount e) else rt_payout t)"
  by (cases "ed_operation_type e"; simp add: add_to_totals_def Let_def deduction_ops_def)+

lemma totals_fold:
  "rt_gross (foldl add_to_totals t es) = foldl dadd (rt_gross t) (map ed_amount (of_ops {L_SALE} es))"
  "rt_commissions (foldl add_to_totals t es) = foldl dadd (rt_commissions t) (map (\<lambda>e. dabs (ed_amount e)) (of_ops {L_COMMISSION} es))"
  "rt_logistics (foldl add_to_totals t es) = foldl dadd (rt_logistics t) (map (\<lambda>e. dabs (ed_amount e)) (of_ops {L_LOGISTICS} es))"
  "rt_deductions (foldl add_to_totals t es) = foldl dadd (rt_deductions t) (map (\<lambda>e. dabs (ed_amount e)) (of_ops deduction_ops es))"
  "rt_returns (foldl add_to_totals t es) = foldl dadd (rt_returns t) (map (\<lambda>e. dabs (ed_amount e)) (of_ops {L_RETURN} es))"
  "rt_compensation (foldl add_to_totals t es) = foldl dadd (rt_compensation t) (map ed_amount (of_ops {L_COMPENSATION} es))"
  "rt_payout (foldl add_to_totals t es) = foldl dadd (rt_payout t) (map ed_amount (of_ops {L_PAYOUT} es))"
  by (rule foldl_observe, rule totals_step)+

definition ops_total :: "ledger_op set \<Rightarrow> entry_draft list \<Rightarrow> rat" where
  "ops_total S es = (\<Sum>e\<leftarrow>of_ops S es. ed_amount e)"

lemma ops_sum_exact:
  assumes "amounts_within 4 L (amounts es)" and "L < 10 ^ 24"
  shows "foldl dadd 0 (map ed_amount (of_ops S es)) = ops_total S es"
proof -
  have "amounts_within 4 L (0 # map ed_amount (of_ops S es))"
    using filtered_within [OF assms(1)] by (simp add: amounts_within_0)
  from foldl_dadd_within [OF this] assms(2) show ?thesis by (simp add: ops_total_def)
qed

lemma ops_abs_exact:
  assumes "amounts_within 4 L (amounts es)" and "L < 10 ^ 24" and "signs_ok es" and "S \<subseteq> expense_ops"
  shows "foldl dadd 0 (map (\<lambda>e. dabs (ed_amount e)) (of_ops S es)) = - ops_total S es"
proof -
  have amounts: "amounts_within 4 L (map ed_amount (of_ops S es))" by (rule filtered_within [OF assms(1)])
  have one: "dabs (ed_amount e) = - ed_amount e" if "e \<in> set (of_ops S es)" for e
  proof -
    have "\<bar>ed_amount e\<bar> \<le> (\<Sum>x\<leftarrow>map ed_amount (of_ops S es). \<bar>x\<bar>)"
      using that by (intro member_le_sum_list) auto
    then have "exact_amount 4 (ed_amount e)"
      using that amounts assms(2) by (auto simp: exact_amount_def amounts_within_def)
    then have "dabs (ed_amount e) = \<bar>ed_amount e\<bar>" by (rule dabs_exact)
    moreover have "ed_amount e < 0" using that assms(3,4) by (auto simp: signs_ok_def amount_sign_ok_def)
    ultimately show ?thesis by simp
  qed
  have same: "map (\<lambda>e. dabs (ed_amount e)) (of_ops S es) = map (\<lambda>e. - ed_amount e) (of_ops S es)"
    by (rule map_cong [OF refl one])
  have within: "amounts_within 4 L (0 # map (\<lambda>e. - ed_amount e) (of_ops S es))"
    using amounts by (auto simp: amounts_within_def comp_def)
  have "foldl dadd 0 (map (\<lambda>e. - ed_amount e) (of_ops S es)) = (\<Sum>e\<leftarrow>of_ops S es. - ed_amount e)"
    using foldl_dadd_within [OF within] assms(2) by simp
  also have "\<dots> = - ops_total S es" by (simp add: ops_total_def uminus_sum_list_map comp_def)
  finally show ?thesis unfolding same .
qed

lemma ops_total_ops:
  "ops_total {L_SALE} es = op_total L_SALE es" "ops_total {L_COMMISSION} es = op_total L_COMMISSION es"
  "ops_total {L_LOGISTICS} es = op_total L_LOGISTICS es" "ops_total {L_RETURN} es = op_total L_RETURN es"
  "ops_total {L_COMPENSATION} es = op_total L_COMPENSATION es" "ops_total {L_PAYOUT} es = op_total L_PAYOUT es"
  "ops_total deduction_ops es = op_total L_DEDUCTION es + op_total L_PENALTY es + op_total L_STORAGE_FEE es
     + op_total L_ACQUIRING es + op_total L_ADVERTISEMENT es"
proof -
  show "ops_total deduction_ops es = op_total L_DEDUCTION es + op_total L_PENALTY es + op_total L_STORAGE_FEE es
     + op_total L_ACQUIRING es + op_total L_ADVERTISEMENT es"
  proof (induction es)
    case (Cons e es)
    then show ?case by (cases "ed_operation_type e") (simp_all add: ops_total_def deduction_ops_def)
  qed (simp add: ops_total_def)
qed (simp_all add: ops_total_def op_total_def)

lemma reconciliation_exact:
  assumes a: "amounts_within 4 L (amounts es)" and L: "L < 10 ^ 24" and s: "signs_ok es"
  shows "rr_expected_payout (reconcile_payout es) = profit_and_loss es"
    and "rr_actual_payout (reconcile_payout es) = op_total L_PAYOUT es"
proof -
  let ?T = "\<lambda>op. op_total op es" and ?D = "ops_total deduction_ops es"
  have within: "amounts_within 4 L [?T L_SALE, - ?T L_COMMISSION, - ?T L_LOGISTICS, - ?D, - ?T L_RETURN, ?T L_COMPENSATION]"
  proof -
    have t: "amounts_within 4 L (map ?T [L_SALE, L_COMMISSION, L_LOGISTICS, L_RETURN, L_COMPENSATION, L_DEDUCTION, L_PENALTY,
        L_STORAGE_FEE, L_ACQUIRING, L_ADVERTISEMENT])" by (rule op_totals_within [OF a]) simp
    have "on_grid 4 ?D" unfolding ops_total_ops by (intro on_grid_add op_total_grid [OF a])
    moreover have "\<bar>?D\<bar> \<le> \<bar>?T L_DEDUCTION\<bar> + \<bar>?T L_PENALTY\<bar> + \<bar>?T L_STORAGE_FEE\<bar> + \<bar>?T L_ACQUIRING\<bar> + \<bar>?T L_ADVERTISEMENT\<bar>"
      unfolding ops_total_ops by linarith
    ultimately show ?thesis using t by (simp add: amounts_within_def)
  qed
  have lim: "L < 10 ^ 28 / 10 ^ 4" using L by simp
  have exp: "{L_COMMISSION} \<subseteq> expense_ops" "{L_LOGISTICS} \<subseteq> expense_ops" "deduction_ops \<subseteq> expense_ops" "{L_RETURN} \<subseteq> expense_ops"
    by (simp_all add: expense_ops_def deduction_ops_def)
  note d = dsub_within [OF within lim]
  note d2 = dsub_within [OF d(2) lim]
  note d3 = dsub_within [OF d2(2) lim]
  note d4 = dsub_within [OF d3(2) lim]
  note d5 = dadd_within [OF d4(2) lim]
  have "rr_expected_payout (reconcile_payout es) =
      dadd (foldl dsub (?T L_SALE) [- ?T L_COMMISSION, - ?T L_LOGISTICS, - ?D, - ?T L_RETURN]) (?T L_COMPENSATION)"
    by (simp only: reconcile_payout_def Let_def reconciliation_result.simps totals_fold no_totals_def reconciliation_totals.simps
      ops_sum_exact [OF a L] ops_abs_exact [OF a L s exp(1)] ops_abs_exact [OF a L s exp(2)] ops_abs_exact [OF a L s exp(3)]
      ops_abs_exact [OF a L s exp(4)] ops_total_ops(1-6))
  also have "\<dots> = ?T L_SALE + ?T L_COMMISSION + ?T L_LOGISTICS + ?D + ?T L_RETURN + ?T L_COMPENSATION"
    by (simp add: d(1) d2(1) d3(1) d4(1) d5(1) del: minus_diff_eq diff_minus_eq_add)
  also have "\<dots> = profit_and_loss es"
    using signs_total(2) [OF s] by (simp add: profit_and_loss_ops all_ops_def ops_total_ops)
  finally show "rr_expected_payout (reconcile_payout es) = profit_and_loss es" .
  show "rr_actual_payout (reconcile_payout es) = op_total L_PAYOUT es"
    by (simp only: reconcile_payout_def Let_def reconciliation_result.simps totals_fold no_totals_def reconciliation_totals.simps
      ops_sum_exact [OF a L] ops_total_ops)
qed

end
