(* ===== verification/Table_Ops.thy ===== *)
theory Table_Ops
  imports Prelude
begin

text \<open>
  Database tables as lists: the batched inserts with \<open>ON CONFLICT DO UPDATE\<close> and
  \<open>ON CONFLICT DO NOTHING\<close>, the chunking of lists (\<open>app/etl/db_batch.py\<close>), and the contract of a store
  whose writes may be replayed (locale \<open>replay_store\<close>): after an interruption, writing everything
  again from the start gives what one uninterrupted run gives.
\<close>

section \<open>Upserts\<close>

text \<open>\<open>INSERT ... ON CONFLICT (key) DO UPDATE\<close> of one row.\<close>

definition upsert_by :: "('a \<Rightarrow> 'k) \<Rightarrow> 'a \<Rightarrow> 'a list \<Rightarrow> 'a list" where
  "upsert_by key x table = (if \<exists>t\<in>set table. key t = key x
     then map (\<lambda>t. if key t = key x then x else t) table else table @ [x])"

definition upsert_all :: "('a \<Rightarrow> 'k) \<Rightarrow> 'a list \<Rightarrow> 'a list \<Rightarrow> 'a list" where
  "upsert_all key xs table = fold (upsert_by key) xs table"

section \<open>Inserts that skip\<close>

text \<open>\<open>INSERT ... ON CONFLICT (key) DO NOTHING\<close>.\<close>

definition insert_ignore :: "('a \<Rightarrow> 'k) \<Rightarrow> 'a \<Rightarrow> 'a list \<Rightarrow> 'a list" where
  "insert_ignore key x table = (if key x \<in> key ` set table then table else table @ [x])"

definition insert_all :: "('a \<Rightarrow> 'k) \<Rightarrow> 'a list \<Rightarrow> 'a list \<Rightarrow> 'a list" where
  "insert_all key xs table = fold (insert_ignore key) xs table"

section \<open>Chunks\<close>

text \<open>\<open>items[offset : offset + n]\<close> for \<open>offset in range(0, len(items), n)\<close>, with \<open>0 < n\<close>.\<close>

fun iter_chunks :: "nat \<Rightarrow> 'a list \<Rightarrow> 'a list list" where
  "iter_chunks n [] = []"
| "iter_chunks n (x # xs) = take n (x # xs) # iter_chunks n (drop (n - 1) xs)"

definition insert_batch_size :: nat where
  "insert_batch_size = 5000"

definition insert_batches :: "('a \<Rightarrow> 'k) \<Rightarrow> 'a list \<Rightarrow> 'a list \<Rightarrow> 'a list" where
  "insert_batches key values table = fold (insert_all key) (iter_chunks insert_batch_size values) table"

lemma concat_iter_chunks [simp]: "0 < n \<Longrightarrow> concat (iter_chunks n xs) = xs"
proof (induction n xs rule: iter_chunks.induct)
  case (2 n x xs)
  then obtain k where n: "n = Suc k" by (metis gr0_implies_Suc)
  with 2 show ?case by simp
qed simp

lemma iter_chunks_sizes: "0 < n \<Longrightarrow> c \<in> set (iter_chunks n xs) \<Longrightarrow> c \<noteq> [] \<and> length c \<le> n"
  by (induction n xs rule: iter_chunks.induct) auto

lemma insert_batches_all: "insert_batches key values table = insert_all key values table"
proof -
  have "fold (insert_all key) css table = insert_all key (concat css) table" for css
    by (induction css arbitrary: table) (simp_all add: insert_all_def)
  then show ?thesis by (simp add: insert_batches_def insert_batch_size_def)
qed

section \<open>Laws\<close>

lemma upsert_by_set: "key x \<notin> key ` set table \<Longrightarrow> set (upsert_by key x table) = insert x (set table)"
proof -
  assume "key x \<notin> key ` set table"
  then have "\<not> (\<exists>t\<in>set table. key t = key x)" by (metis imageI)
  then show ?thesis by (simp add: upsert_by_def)
qed

lemma upsert_all_set:
  "distinct (map key xs) \<Longrightarrow> key ` set xs \<inter> key ` set table = {} \<Longrightarrow> set (upsert_all key xs table) = set table \<union> set xs"
proof (induction xs arbitrary: table)
  case Nil
  then show ?case by (simp add: upsert_all_def)
next
  case (Cons x xs)
  have one: "set (upsert_by key x table) = insert x (set table)" by (rule upsert_by_set) (use Cons.prems in auto)
  have "set (upsert_all key xs (upsert_by key x table)) = set (upsert_by key x table) \<union> set xs"
    by (rule Cons.IH) (use Cons.prems one in auto)
  with one show ?case by (simp add: upsert_all_def)
qed


lemma insert_ignore_keeps: "x \<in> set table \<Longrightarrow> x \<in> set (insert_ignore key y table)"
  by (simp add: insert_ignore_def)

lemma insert_ignore_keys: "key ` set (insert_ignore key x table) = insert (key x) (key ` set table)"
  by (auto simp: insert_ignore_def)

lemma insert_all_keys: "key ` set (insert_all key xs table) = key ` set xs \<union> key ` set table"
  by (induction xs arbitrary: table) (simp_all add: insert_all_def insert_ignore_keys)

lemma insert_all_fresh:
  "distinct (map key xs) \<Longrightarrow> key ` set xs \<inter> key ` set table = {} \<Longrightarrow> insert_all key xs table = table @ xs"
proof (induction xs arbitrary: table)
  case Nil
  then show ?case by (simp add: insert_all_def)
next
  case (Cons x xs)
  have "key x \<notin> key ` set table" using Cons.prems by auto
  then have "insert_ignore key x table = table @ [x]" by (simp add: insert_ignore_def)
  moreover have "insert_all key xs (table @ [x]) = (table @ [x]) @ xs" by (rule Cons.IH) (use Cons.prems in auto)
  ultimately show ?case by (simp add: insert_all_def)
qed

lemma insert_all_present: "key ` set xs \<subseteq> key ` set table \<Longrightarrow> insert_all key xs table = table"
proof (induction xs)
  case Nil
  then show ?case by (simp add: insert_all_def)
next
  case (Cons x xs)
  then show ?case by (simp add: insert_all_def insert_ignore_def)
qed

text \<open>Columns that are not part of the key may be changed before or after the insert.\<close>

lemma insert_all_map:
  assumes "\<And>x. key (f x) = key x"
  shows "map f (insert_all key xs table) = insert_all key (map f xs) (map f table)"
proof -
  have keys: "key ` set (map f t) = key ` set t" for t using assms by (auto simp: image_iff)
  have "map f (insert_ignore key x t) = insert_ignore key (f x) (map f t)" for x t
    using keys [of t] assms by (simp add: insert_ignore_def)
  then show ?thesis by (induction xs arbitrary: table) (simp_all add: insert_all_def)
qed

section \<open>Stores whose writes may be replayed\<close>

locale replay_store =
  fixes put :: "'a \<Rightarrow> 's \<Rightarrow> 's" and has :: "'a \<Rightarrow> 's \<Rightarrow> bool"
  assumes has_put: "has x (put x s)"
    and put_has: "has x s \<Longrightarrow> put x s = s"
    and has_mono: "has x s \<Longrightarrow> has x (put y s)"
begin

lemma has_fold: "has x s \<Longrightarrow> has x (fold put ys s)"
  by (induction ys arbitrary: s) (simp_all add: has_mono)

lemma has_written: "x \<in> set xs \<Longrightarrow> has x (fold put xs s)"
  by (induction xs arbitrary: s) (auto simp: has_put has_fold)

lemma put_written: "\<forall>x\<in>set xs. has x s \<Longrightarrow> fold put xs s = s"
  by (induction xs) (simp_all add: put_has)

lemma replay_prefix: "fold put (xs @ ys) (fold put xs s) = fold put (xs @ ys) s"
  by (simp add: put_written has_written)

lemma replay: "fold put xs (fold put (take k xs) s) = fold put xs s"
  using replay_prefix [of "take k xs" "drop k xs" s] by simp

text \<open>Any number of interrupted attempts before the complete one changes nothing.\<close>

lemma replay_attempts: "fold put xs (fold (\<lambda>k. fold put (take k xs)) ks s) = fold put xs s"
proof (induction ks arbitrary: s)
  case Nil
  then show ?case by simp
next
  case (Cons k ks)
  then show ?case by (simp add: replay)
qed

end

interpretation table_insert: replay_store "insert_ignore key" "\<lambda>x table. key x \<in> key ` set table" for key
  by unfold_locales (auto simp: insert_ignore_def)

end
