(* ===== verification/Aggregate_Projections.thy ===== *)
theory Aggregate_Projections
  imports Profit_Laws Table_Ops
begin

text \<open>
  The projections of the financial ledger of one tenant (\<open>app/etl/wb/persist_aggregates.py\<close>): the daily
  totals, the SKU metrics and the unit economics are purged and recomputed from the ledger for the
  affected dates. The tables are lists; a batched upsert is the upsert of its rows in order.
\<close>

section \<open>Tables\<close>

record ledger_table_row =
  lt_report_id :: uuid
  lt_entry :: entry_draft

record projections =
  pj_daily :: "daily_aggregate list"
  pj_sku :: "sku_daily_metric list"
  pj_unit_economics :: "unit_economics list"

text \<open>\<open>load_cost_snapshots\<close>: the cost history and the marketplace SKUs of the tenant.\<close>

definition load_cost_snapshots :: "sku_cost list \<Rightarrow> (pystr \<times> pystr) list \<Rightarrow> cost_table" where
  "load_cost_snapshots history mappings =
     build_cost_lookup (group_by sc_sku history) (fold (\<lambda>(marketplace_sku, internal). AList.update marketplace_sku internal) mappings [])"

definition daily_key :: "daily_aggregate \<Rightarrow> date \<times> marketplace" where
  "daily_key a = (da_aggregate_date a, da_marketplace a)"

definition sku_key :: "sku_daily_metric \<Rightarrow> pystr \<times> date \<times> marketplace" where
  "sku_key m = (sm_sku m, sm_metric_date m, sm_marketplace m)"

definition unit_key :: "unit_economics \<Rightarrow> pystr \<times> date \<times> marketplace" where
  "unit_key u = (ue_sku u, ue_metric_date u, ue_marketplace u)"

definition purge_daily :: "date set \<Rightarrow> marketplace \<Rightarrow> projections \<Rightarrow> projections" where
  "purge_daily dates mp p = p\<lparr>pj_daily := filter (\<lambda>a. \<not> (da_aggregate_date a \<in> dates \<and> da_marketplace a = mp)) (pj_daily p)\<rparr>"

definition purge_sku :: "date set \<Rightarrow> marketplace \<Rightarrow> projections \<Rightarrow> projections" where
  "purge_sku dates mp p = p\<lparr>pj_sku := filter (\<lambda>m. \<not> (sm_metric_date m \<in> dates \<and> sm_marketplace m = mp)) (pj_sku p),
     pj_unit_economics := filter (\<lambda>u. \<not> (ue_metric_date u \<in> dates \<and> ue_marketplace u = mp)) (pj_unit_economics p)\<rparr>"

text \<open>\<open>_load_ledger_drafts_for_dates\<close> does not pass \<open>entry_metadata\<close> on.\<close>

definition load_ledger_drafts_for_dates :: "date set \<Rightarrow> ledger_table_row list \<Rightarrow> entry_draft list" where
  "load_ledger_drafts_for_dates dates ledger = map (\<lambda>r. (lt_entry r)\<lparr>ed_entry_metadata := None\<rparr>)
     (filter (\<lambda>r. ed_operation_date (lt_entry r) \<in> dates) ledger)"

definition write_projections :: "cost_table \<Rightarrow> date set \<Rightarrow> entry_draft list \<Rightarrow> projections \<Rightarrow> projections" where
  "write_projections costs dates drafts p =
     (let (daily, sku_rows) = build_aggregates MP_WILDBERRIES costs drafts;
          unit_rows = build_unit_economics MP_WILDBERRIES costs (Some dates) drafts
      in p\<lparr>pj_daily := upsert_all daily_key (filter (\<lambda>a. da_aggregate_date a \<in> dates) daily) (pj_daily p),
           pj_sku := upsert_all sku_key (filter (\<lambda>m. sm_metric_date m \<in> dates \<and> sm_sku m \<noteq> []) sku_rows) (pj_sku p),
           pj_unit_economics := upsert_all unit_key unit_rows (pj_unit_economics p)\<rparr>)"

definition resolve_affected_dates :: "daily_aggregate list \<Rightarrow> uuid \<Rightarrow> ledger_table_row list \<Rightarrow> date set" where
  "resolve_affected_dates result_daily report_id ledger =
     (let dates = set (map da_aggregate_date result_daily) in
      if dates \<noteq> {} then dates
      else set (map (\<lambda>r. ed_operation_date (lt_entry r)) (filter (\<lambda>r. lt_report_id r = report_id) ledger)))"

text \<open>\<open>_rebuild_aggregates\<close>, after an import.\<close>

definition rebuild_aggregates :: "cost_table \<Rightarrow> daily_aggregate list \<Rightarrow> uuid \<Rightarrow> ledger_table_row list \<Rightarrow> projections \<Rightarrow> projections" where
  "rebuild_aggregates costs result_daily report_id ledger p =
     (let dates = resolve_affected_dates result_daily report_id ledger in
      if dates = {} then p
      else (let drafts = load_ledger_drafts_for_dates dates ledger in
        if drafts = [] then p
        else write_projections costs dates drafts
          (purge_daily dates MP_WILDBERRIES (purge_sku dates MP_WILDBERRIES p))))"

text \<open>\<open>rebuild_projections_for_dates\<close>, after the ledger was changed otherwise.\<close>

definition rebuild_projections_for_dates :: "cost_table \<Rightarrow> date set \<Rightarrow> ledger_table_row list \<Rightarrow> projections \<Rightarrow> projections" where
  "rebuild_projections_for_dates costs dates ledger p =
     (if dates = {} then p
      else (let purged = purge_daily dates MP_WILDBERRIES (purge_sku dates MP_WILDBERRIES p);
                drafts = load_ledger_drafts_for_dates dates ledger
        in if drafts = [] then purge_daily dates MP_WILDBERRIES purged
           else (let orphan_dates = dates - set (map da_aggregate_date (fst (build_aggregates MP_WILDBERRIES costs drafts)))
             in write_projections costs dates drafts
               (if orphan_dates = {} then purged else purge_daily orphan_dates MP_WILDBERRIES purged))))"

definition rebuild_all_financial_projections :: "cost_table \<Rightarrow> ledger_table_row list \<Rightarrow> projections \<Rightarrow> projections" where
  "rebuild_all_financial_projections costs ledger p =
     (let dates = set (map (\<lambda>r. ed_operation_date (lt_entry r)) ledger) in
      if dates = {} then p else rebuild_projections_for_dates costs dates ledger p)"

text \<open>
  \<open>rebuild_ledger_from_normalized_rows\<close>: the entries of the re-read rows replace the ledger; a conflict on
  \<open>(report, source row id)\<close> keeps the first. \<open>rehydrate\<close> reads the row from its stored raw payload, \<open>today\<close>
  is the date of rows without one.
\<close>

definition ledger_key :: "ledger_table_row \<Rightarrow> uuid \<times> pystr" where
  "ledger_key r = (lt_report_id r, ed_source_row_id (lt_entry r))"

record stored_row =
  st_report_id :: uuid
  st_source_row_index :: int
  st_row :: wb_row

definition rebuild_ledger_from_normalized_rows :: "(wb_row \<Rightarrow> wb_row) \<Rightarrow> date \<Rightarrow> cost_table \<Rightarrow> stored_row list \<Rightarrow>
    ledger_table_row list \<times> projections \<Rightarrow> ledger_table_row list \<times> projections" where
  "rebuild_ledger_from_normalized_rows rehydrate today costs stored_rows state =
     (if stored_rows = [] then state
      else (let new = concat (map (\<lambda>s. (let norm = rehydrate (st_row s);
              default_date = (case w_operation_date norm of Some d \<Rightarrow> d | None \<Rightarrow> today)
              in map (\<lambda>e. \<lparr>lt_report_id = st_report_id s, lt_entry = e\<rparr>) (from_normalized_rows default_date [norm])))
            (sort_key st_source_row_index stored_rows));
          ledger = insert_all ledger_key new [];
          dates = set (map (\<lambda>r. ed_operation_date (lt_entry r)) new)
        in (ledger, if dates = {} then snd state else rebuild_projections_for_dates costs dates ledger (snd state))))"

section \<open>The projections are those of the ledger\<close>

lemma build_daily_keys:
  "set (fst (build_aggregates mp costs es)) =
     {\<lparr>da_aggregate_date = d, da_marketplace = mp, da_metrics = metrics_of costs (filter (\<lambda>e. ed_operation_date e = d) es)\<rparr> | d.
       d \<in> ed_operation_date ` set es}"
  by (auto simp: build_aggregates_def sorted_groups)

lemma build_daily_distinct: "distinct (map daily_key (fst (build_aggregates mp costs es)))"
proof -
  have "distinct (map fst (sort_key fst (group_by ed_operation_date es)))"
    by (metis group_by_distinct mset_eq_imp_distinct_iff mset_map mset_sort)
  then show ?thesis
    by (auto simp: build_aggregates_def daily_key_def distinct_map inj_on_def split_def)
qed

lemma daily_after_rebuild:
  assumes "dates \<noteq> {}"
  shows "set (pj_daily (rebuild_projections_for_dates costs dates ledger p)) =
    {a \<in> set (pj_daily p). \<not> (da_aggregate_date a \<in> dates \<and> da_marketplace a = MP_WILDBERRIES)} \<union>
    set (fst (build_aggregates MP_WILDBERRIES costs (load_ledger_drafts_for_dates dates ledger)))"
proof (cases "load_ledger_drafts_for_dates dates ledger = []")
  case True
  with assms show ?thesis
    by (auto simp: rebuild_projections_for_dates_def purge_daily_def purge_sku_def build_aggregates_def)
next
  case False
  let ?drafts = "load_ledger_drafts_for_dates dates ledger"
  let ?daily = "fst (build_aggregates MP_WILDBERRIES costs ?drafts)"
  let ?kept = "filter (\<lambda>a. \<not> (da_aggregate_date a \<in> dates \<and> da_marketplace a = MP_WILDBERRIES)) (pj_daily p)"
  have in_dates: "da_aggregate_date a \<in> dates \<and> da_marketplace a = MP_WILDBERRIES" if "a \<in> set ?daily" for a
    using that by (auto simp: build_daily_keys load_ledger_drafts_for_dates_def)
  then have all: "filter (\<lambda>a. da_aggregate_date a \<in> dates) ?daily = ?daily" by (simp add: filter_id_conv)
  have orphan: "filter (\<lambda>a. \<not> (da_aggregate_date a \<in> dates - X \<and> da_marketplace a = MP_WILDBERRIES)) ?kept = ?kept" for X
    by (simp only: filter_id_conv) auto
  have "pj_daily (rebuild_projections_for_dates costs dates ledger p) = upsert_all daily_key ?daily ?kept"
    using False assms all orphan
    by (simp add: rebuild_projections_for_dates_def write_projections_def split_def Let_def purge_daily_def purge_sku_def)
  moreover have "set (upsert_all daily_key ?daily ?kept) = set ?kept \<union> set ?daily"
    by (rule upsert_all_set [OF build_daily_distinct]) (auto simp: daily_key_def dest!: in_dates)
  ultimately show ?thesis by auto
qed

lemma drafts_on_date:
  "d \<in> dates \<Longrightarrow> filter (\<lambda>e. ed_operation_date e = d) (load_ledger_drafts_for_dates dates ledger) =
     load_ledger_drafts_for_dates {d} ledger"
  by (induction ledger) (auto simp: load_ledger_drafts_for_dates_def)

lemma units_without_metadata:
  "units_sold (load_ledger_drafts_for_dates dates ledger) =
     int (length (filter (\<lambda>r. ed_operation_date (lt_entry r) \<in> dates \<and> ed_operation_type (lt_entry r) = L_SALE \<and> 0 < ed_amount (lt_entry r)) ledger))"
  by (induction ledger) (simp_all add: load_ledger_drafts_for_dates_def units_sold_def entry_quantity_def)

end
