(* ===== verification/Seller_Kpis.thy ===== *)
theory Seller_Kpis
  imports Profit_Analytics
begin

text \<open>
  Seller-facing figures: settlement KPIs (\<open>app/domain/analytics/seller_kpis.py\<close>), the promotion context
  (\<open>promotion_adjusted.py\<close>), trust in profits by cost coverage (\<open>profit_trust.py\<close>), trend costs
  (\<open>financial_trend_costs.py\<close>), and the small calculators of \<open>kpi\<close>, \<open>pricing\<close> and \<open>economics\<close>.
\<close>

section \<open>Settlement\<close>

record seller_kpis =
  sk_revenue :: decimal
  sk_payout_for_goods :: decimal
  sk_logistics :: decimal
  sk_storage :: decimal
  sk_deductions :: decimal
  sk_total_to_pay :: decimal
  sk_cogs :: decimal
  sk_seller_profit :: decimal
  sk_margin_pct :: "decimal option"
  sk_profitability_pct :: "decimal option"

definition compute_seller_kpis :: "decimal \<Rightarrow> decimal \<Rightarrow> decimal \<Rightarrow> decimal \<Rightarrow> decimal \<Rightarrow> decimal \<Rightarrow> decimal \<Rightarrow> seller_kpis" where
  "compute_seller_kpis revenue payout_sales payout_returns logistics storage deductions cogs =
     (let payout_for_goods = dsub payout_sales payout_returns;
          total_to_pay = dsub (dsub (dsub payout_for_goods logistics) storage) deductions;
          seller_profit = dsub total_to_pay cogs
      in \<lparr>sk_revenue = revenue, sk_payout_for_goods = payout_for_goods, sk_logistics = logistics, sk_storage = storage,
          sk_deductions = deductions, sk_total_to_pay = total_to_pay, sk_cogs = cogs, sk_seller_profit = seller_profit,
          sk_margin_pct = percent_of seller_profit revenue, sk_profitability_pct = percent_of seller_profit cogs\<rparr>)"

record promotion_adjusted_profit =
  pa_settlement_wb :: decimal
  pa_wb_promotion_expenses :: decimal
  pa_jam_subscription_expenses :: decimal
  pa_manual_expenses_total :: decimal
  pa_adjusted_settlement :: decimal
  pa_cogs :: decimal
  pa_seller_profit_raw :: decimal
  pa_seller_profit_after_promotion :: decimal
  pa_margin_pct :: "decimal option"
  pa_profitability_pct :: "decimal option"
  pa_margin_pct_raw :: "decimal option"
  pa_profitability_pct_raw :: "decimal option"

definition compute_promotion_impact_pct :: "decimal \<Rightarrow> decimal \<Rightarrow> decimal option" where
  "compute_promotion_impact_pct raw after =
     (if raw \<le> 0 then None else if after = raw then None
      else Some (ddiv (dmul (dsub raw after) 100) raw))"

definition compute_profit_after_promotion :: "decimal \<Rightarrow> decimal \<Rightarrow> decimal \<Rightarrow> decimal \<Rightarrow> decimal \<Rightarrow> promotion_adjusted_profit" where
  "compute_profit_after_promotion settlement_wb promotion jam cogs revenue =
     (let raw = dsub settlement_wb cogs;
          margin = percent_of raw revenue; profitability = percent_of raw cogs
      in \<lparr>pa_settlement_wb = settlement_wb, pa_wb_promotion_expenses = promotion, pa_jam_subscription_expenses = jam,
          pa_manual_expenses_total = dadd promotion jam, pa_adjusted_settlement = settlement_wb, pa_cogs = cogs,
          pa_seller_profit_raw = raw, pa_seller_profit_after_promotion = raw,
          pa_margin_pct = margin, pa_profitability_pct = profitability,
          pa_margin_pct_raw = margin, pa_profitability_pct_raw = profitability\<rparr>)"

section \<open>Trust\<close>

datatype profit_trust = TRUST_FULL | TRUST_PARTIAL | TRUST_INSUFFICIENT

definition classify_profit_trust :: "decimal option \<Rightarrow> profit_trust" where
  "classify_profit_trust coverage = (case coverage of
      None \<Rightarrow> TRUST_INSUFFICIENT
    | Some c \<Rightarrow> if 100 \<le> c then TRUST_FULL else if 80 \<le> c then TRUST_PARTIAL
        else if 1 \<le> c then TRUST_PARTIAL else TRUST_INSUFFICIENT)"

definition apply_profit_trust_to_kpis :: "profit_trust \<Rightarrow> decimal \<Rightarrow> decimal option \<Rightarrow> decimal option \<times> decimal option" where
  "apply_profit_trust_to_kpis trust total_profit margin = (case trust of
      TRUST_FULL \<Rightarrow> (Some total_profit, margin) | TRUST_PARTIAL \<Rightarrow> (Some total_profit, None)
    | TRUST_INSUFFICIENT \<Rightarrow> (None, None))"

record top_sku_summary =
  ts_internal_sku :: pystr
  ts_revenue :: decimal
  ts_profit :: decimal
  ts_units_sold :: int

definition apply_profit_trust_to_ai_metrics :: "profit_trust \<Rightarrow> decimal option \<Rightarrow> decimal option \<Rightarrow> top_sku_summary list \<Rightarrow>
    decimal option \<times> decimal option \<times> top_sku_summary list" where
  "apply_profit_trust_to_ai_metrics trust total_profit margin top_skus =
     (let (profit_out, margin_out) = (case total_profit of
            None \<Rightarrow> (None, margin) | Some p \<Rightarrow> apply_profit_trust_to_kpis trust p margin)
      in (profit_out, margin_out,
          if trust = TRUST_FULL then top_skus else map (\<lambda>item. item\<lparr>ts_profit := 0\<rparr>) top_skus))"

definition gate_profit_decimal :: "decimal option \<Rightarrow> profit_trust \<Rightarrow> decimal option" where
  "gate_profit_decimal v trust = (case v of None \<Rightarrow> None
     | Some x \<Rightarrow> if trust = TRUST_FULL then v else if trust = TRUST_PARTIAL then v else None)"

definition gate_margin_decimal :: "decimal option \<Rightarrow> profit_trust \<Rightarrow> decimal option" where
  "gate_margin_decimal margin trust = (if trust = TRUST_FULL then margin else None)"

definition gate_profitability_decimal :: "decimal option \<Rightarrow> profit_trust \<Rightarrow> decimal option" where
  "gate_profitability_decimal profitability trust = (if trust = TRUST_FULL then profitability else None)"

definition compute_period_compare_delta_profit :: "decimal option \<Rightarrow> decimal option \<Rightarrow> decimal option" where
  "compute_period_compare_delta_profit a b = (case (a, b) of (Some x, Some y) \<Rightarrow> Some (dsub x y) | _ \<Rightarrow> None)"

section \<open>Trend costs\<close>

record trend_amounts =
  ta_sales_revenue :: decimal
  ta_returns_amount :: decimal
  ta_payout :: decimal
  ta_logistics :: decimal
  ta_advertisement :: decimal
  ta_commission :: decimal
  ta_storage_fee :: decimal
  ta_penalties :: decimal
  ta_deductions :: decimal
  ta_acquiring :: decimal
  ta_other :: decimal

definition ledger_day_trend_amounts :: "(ledger_op \<Rightarrow> decimal option) \<Rightarrow> trend_amounts" where
  "ledger_day_trend_amounts led =
     (let signed = (\<lambda>op. case led op of None \<Rightarrow> 0 | Some x \<Rightarrow> x); expense = (\<lambda>op. dabs (signed op))
      in \<lparr>ta_sales_revenue = signed L_SALE, ta_returns_amount = expense L_RETURN, ta_payout = signed L_PAYOUT,
          ta_logistics = expense L_LOGISTICS, ta_advertisement = expense L_ADVERTISEMENT,
          ta_commission = expense L_COMMISSION, ta_storage_fee = expense L_STORAGE_FEE,
          ta_penalties = expense L_PENALTY, ta_deductions = expense L_DEDUCTION,
          ta_acquiring = expense L_ACQUIRING, ta_other = expense L_OTHER\<rparr>)"

definition financial_trend_ledger_ops :: "ledger_op list" where
  "financial_trend_ledger_ops = [L_SALE, L_RETURN, L_PAYOUT, L_LOGISTICS, L_ADVERTISEMENT, L_COMMISSION, L_STORAGE_FEE,
     L_PENALTY, L_DEDUCTION, L_ACQUIRING, L_OTHER]"

section \<open>Calculators\<close>

definition calculate_margin :: "decimal \<Rightarrow> decimal \<Rightarrow> decimal" where
  "calculate_margin revenue cost = (if revenue \<le> 0 then 0 else dmul (ddiv (dsub revenue cost) revenue) 100)"

definition calculate_profit :: "decimal \<Rightarrow> decimal \<Rightarrow> decimal" where
  "calculate_profit revenue cost = dsub revenue cost"

definition calculate_break_even_price :: "decimal \<Rightarrow> decimal \<Rightarrow> py_error + decimal" where
  "calculate_break_even_price cost markup_percent =
     (if markup_percent < 0 then Inl (ValueError (asc ''Target markup percent cannot be negative''))
      else Inr (dmul cost (dadd 1 (ddiv markup_percent 100))))"

record turnover_result =
  to_turnover_ratio :: "decimal option"
  to_turnover_days :: "decimal option"

definition compute_turnover :: "int \<Rightarrow> decimal option \<Rightarrow> int \<Rightarrow> turnover_result" where
  "compute_turnover sold_units avg_stock period_days = (case avg_stock of
      None \<Rightarrow> \<lparr>to_turnover_ratio = None, to_turnover_days = None\<rparr>
    | Some avg \<Rightarrow> if avg \<le> 0 \<or> period_days \<le> 0 then \<lparr>to_turnover_ratio = None, to_turnover_days = None\<rparr>
        else (let ratio = ddiv (of_int sold_units) avg; daily = ddiv (of_int sold_units) (of_int period_days)
          in if daily \<le> 0 then \<lparr>to_turnover_ratio = Some ratio, to_turnover_days = None\<rparr>
             else \<lparr>to_turnover_ratio = Some ratio, to_turnover_days = Some (ddiv avg daily)\<rparr>))"

definition days_since :: "date \<Rightarrow> date option \<Rightarrow> date \<Rightarrow> int" where
  "days_since as_of last_event fallback_start = (case last_event of None \<Rightarrow> as_of - fallback_start | Some l \<Rightarrow> as_of - l)"

datatype stock_risk = RISK_OK | RISK_STOCKOUT | RISK_OVERSTOCK

text \<open>\<open>int(sold_units / period_days)\<close> of positive integers is the quotient rounded down.\<close>

definition stock_risk_label :: "int \<Rightarrow> int \<Rightarrow> int \<Rightarrow> int option \<Rightarrow> stock_risk" where
  "stock_risk_label stock_units sold_units period_days days_since_last_sale =
     (if stock_units \<le> 0 then RISK_OK
      else if 0 < period_days \<and> 0 < sold_units \<and> stock_units \<le> max 1 (sold_units div period_days) then RISK_STOCKOUT
      else (case days_since_last_sale of Some d \<Rightarrow> if 30 \<le> d then RISK_OVERSTOCK else RISK_OK | None \<Rightarrow> RISK_OK))"

end
