(* ===== verification/Report_Selection.thy ===== *)
theory Report_Selection
  imports Inventory_Movements
begin

text \<open>
  Reports and their periods: the choice of non-overlapping finance reports
  (\<open>app/domain/analytics/canonical_reports.py\<close>), sale period bounds (\<open>app/domain/reports/period.py\<close>,
  \<open>sale_date.py\<close>) and the report number of an upload (\<open>report_number.py\<close>). \<open>parse_date\<close> (pandas) is a
  parameter; \<open>\d\<close> matches ASCII digits.
\<close>

section \<open>Canonical finance reports\<close>

record finance_report =
  fr_id :: uuid
  fr_period_start :: date
  fr_period_end :: date
  fr_created_at :: "instant option"

definition inclusive_span_days :: "date \<Rightarrow> date \<Rightarrow> int" where
  "inclusive_span_days period_start period_end = period_end - period_start + 1"

definition is_proper_subset :: "finance_report \<Rightarrow> finance_report \<Rightarrow> bool" where
  "is_proper_subset inner outer =
     (if fr_period_start inner < fr_period_start outer \<or> fr_period_end outer < fr_period_end inner then False
      else fr_period_start outer < fr_period_start inner \<or> fr_period_end inner < fr_period_end outer)"

text \<open>\<open>datetime.min\<close> for a missing instant, before all others.\<close>

definition created_sort_key :: "instant option \<Rightarrow> nat \<times> instant" where
  "created_sort_key created_at = (case created_at of None \<Rightarrow> (0, 0) | Some t \<Rightarrow> (1, t))"

definition coverage_key :: "finance_report \<Rightarrow> int \<times> date \<times> nat \<times> instant" where
  "coverage_key c = (inclusive_span_days (fr_period_start c) (fr_period_end c), fr_period_end c, created_sort_key (fr_created_at c))"

definition same_period :: "finance_report \<Rightarrow> finance_report \<Rightarrow> bool" where
  "same_period a b \<longleftrightarrow> fr_period_start a = fr_period_start b \<and> fr_period_end a = fr_period_end b"

definition select_candidate :: "finance_report list \<Rightarrow> finance_report \<Rightarrow> finance_report list" where
  "select_candidate selected candidate =
     (if \<exists>kept\<in>set selected. same_period candidate kept then selected
      else if \<exists>kept\<in>set selected. is_proper_subset candidate kept then selected
      else selected @ [candidate])"

definition select_canonical_finance_reports :: "finance_report list \<Rightarrow> finance_report list" where
  "select_canonical_finance_reports candidates = foldl select_candidate [] (sorted_desc coverage_key candidates)"

definition select_canonical_finance_report_ids :: "finance_report list \<Rightarrow> uuid list" where
  "select_canonical_finance_report_ids candidates = map fr_id (select_canonical_finance_reports candidates)"

section \<open>Sale periods\<close>

type_synonym period_bounds = "date option \<times> date option"

definition is_wb_sale_payment_justification :: "pystr option \<Rightarrow> bool" where
  "is_wb_sale_payment_justification label \<longleftrightarrow> resolve_inventory_operation_type label = Some I_SALE"

definition merge_report_period_bounds :: "(uuid \<times> period_bounds) list \<Rightarrow> uuid \<Rightarrow> date \<Rightarrow> (uuid \<times> period_bounds) list" where
  "merge_report_period_bounds bounds report_id sale_date = (case map_of bounds report_id of
      None \<Rightarrow> AList.update report_id (Some sale_date, Some sale_date) bounds
    | Some (Some s, Some e) \<Rightarrow> AList.update report_id (Some (min s sale_date), Some (max e sale_date)) bounds
    | Some _ \<Rightarrow> AList.update report_id (Some sale_date, Some sale_date) bounds)"

definition build_period_bounds_from_row_samples :: "(uuid \<times> date \<times> pystr option) list \<Rightarrow> (uuid \<times> period_bounds) list" where
  "build_period_bounds_from_row_samples rows = foldl (\<lambda>bounds (report_id, sale_date, label).
     if \<not> is_wb_sale_payment_justification label then bounds
     else merge_report_period_bounds bounds report_id sale_date) [] rows"

fun sale_date_of_raw :: "(pystr \<Rightarrow> date option) \<Rightarrow> (pystr \<times> pystr) list \<Rightarrow> date option" where
  "sale_date_of_raw parse_date [] = None"
| "sale_date_of_raw parse_date ((key, v) # raw) =
     (if normalize_header key = ru ''data prodaji'' then
        (case parse_date v of Some d \<Rightarrow> Some d | None \<Rightarrow> sale_date_of_raw parse_date raw)
      else sale_date_of_raw parse_date raw)"

definition extract_sale_date :: "(pystr \<Rightarrow> date option) \<Rightarrow> canonical \<Rightarrow> (pystr \<times> pystr) list \<Rightarrow> date option" where
  "extract_sale_date parse_date c raw = (case c F_sale_date of
      VDate d \<Rightarrow> Some d
    | VStr s \<Rightarrow> (case (if strip s = [] then None else parse_date s) of
        Some d \<Rightarrow> Some d | None \<Rightarrow> sale_date_of_raw parse_date raw)
    | _ \<Rightarrow> sale_date_of_raw parse_date raw)"

definition row_sale_date :: "(pystr \<Rightarrow> date option) \<Rightarrow> wb_row \<Rightarrow> date option" where
  "row_sale_date parse_date row =
     (if is_wb_sale_payment_justification (text_of (w_canonical row F_operation_type))
      then extract_sale_date parse_date (w_canonical row) (w_raw row) else None)"

definition period_bounds_for_wb_rows :: "(pystr \<Rightarrow> date option) \<Rightarrow> wb_row list \<Rightarrow> period_bounds" where
  "period_bounds_for_wb_rows parse_date rows =
     (let sale_dates = List.map_filter (row_sale_date parse_date) rows in
      if sale_dates = [] then (None, None) else (Some (Min (set sale_dates)), Some (Max (set sale_dates))))"

section \<open>Report numbers\<close>

definition digits_prefix :: "pystr \<Rightarrow> pystr" where
  "digits_prefix s = takeWhile is_digit s"

text \<open>The number sign, spaces, then digits: the match at the first position that has one.\<close>

fun wb_report_number :: "pystr \<Rightarrow> pystr option" where
  "wb_report_number [] = None"
| "wb_report_number (c # cs) =
     (if c = 8470 \<and> digits_prefix (dropWhile is_space cs) \<noteq> [] then Some (digits_prefix (dropWhile is_space cs))
      else wb_report_number cs)"

definition six_digits :: "pystr \<Rightarrow> pystr option" where
  "six_digits s = (if 6 \<le> length (digits_prefix s) then Some (digits_prefix s) else None)"

definition after_report_word :: "pystr \<Rightarrow> pystr option" where
  "after_report_word s = (if starts_with (asc ''report'') (lower s)
     then six_digits (case drop 6 s of c # cs \<Rightarrow> if c = 95 \<or> c = 45 then cs else c # cs | [] \<Rightarrow> [])
     else None)"

fun ozon_search :: "bool \<Rightarrow> pystr \<Rightarrow> pystr option" where
  "ozon_search at_start [] = None"
| "ozon_search at_start (c # cs) = (case after_report_word (c # cs) of
      Some n \<Rightarrow> Some n
    | None \<Rightarrow> (case (if at_start then six_digits (c # cs) else None) of
        Some n \<Rightarrow> Some n | None \<Rightarrow> ozon_search False cs))"

definition extract_report_number :: "bool \<Rightarrow> pystr \<Rightarrow> pystr option" where
  "extract_report_number ozon filename =
     (if strip filename = [] then None
      else (case wb_report_number filename of
          Some n \<Rightarrow> Some n | None \<Rightarrow> if ozon then ozon_search True filename else None))"

section \<open>Laws of the selection\<close>

lemma proper_subset_smaller:
  "is_proper_subset a b \<Longrightarrow> inclusive_span_days (fr_period_start a) (fr_period_end a) < inclusive_span_days (fr_period_start b) (fr_period_end b)"
  by (auto simp: is_proper_subset_def inclusive_span_days_def split: if_splits)

text \<open>What the selection has kept after a part of the sorted candidates.\<close>

definition selection_ok :: "finance_report list \<Rightarrow> finance_report list \<Rightarrow> bool" where
  "selection_ok seen kept \<longleftrightarrow> set kept \<subseteq> set seen \<and>
     sorted_wrt (\<lambda>a b. coverage_key b \<le> coverage_key a \<and> \<not> same_period a b \<and> \<not> is_proper_subset b a) kept \<and>
     (\<forall>c\<in>set seen. \<exists>k\<in>set kept. (same_period c k \<or> is_proper_subset c k) \<and> coverage_key c \<le> coverage_key k)"

lemma select_candidate_ok:
  assumes "selection_ok seen kept" and "\<And>s. s \<in> set seen \<Longrightarrow> coverage_key c \<le> coverage_key s"
  shows "selection_ok (seen @ [c]) (select_candidate kept c)"
proof -
  have sub: "set kept \<subseteq> set seen" using assms(1) by (simp add: selection_ok_def)
  show ?thesis
  proof (cases "\<exists>k\<in>set kept. same_period c k \<or> is_proper_subset c k")
    case True
    then have "select_candidate kept c = kept" by (auto simp: select_candidate_def)
    moreover obtain k where "k \<in> set kept" "same_period c k \<or> is_proper_subset c k" using True by blast
    ultimately show ?thesis using assms sub by (auto simp: selection_ok_def)
  next
    case False
    then have "select_candidate kept c = kept @ [c]" by (auto simp: select_candidate_def)
    moreover have "same_period c c" by (simp add: same_period_def)
    moreover have "\<not> same_period k c" if "k \<in> set kept" for k using False that by (auto simp: same_period_def)
    ultimately show ?thesis using assms False sub by (auto simp: selection_ok_def sorted_wrt_append)
  qed
qed

lemma select_fold_ok:
  assumes "sorted_wrt (\<lambda>a b. coverage_key b \<le> coverage_key a) (seen @ cs)" and "selection_ok seen kept"
  shows "selection_ok (seen @ cs) (foldl select_candidate kept cs)"
  using assms
proof (induction cs arbitrary: seen kept)
  case Nil
  then show ?case by simp
next
  case (Cons c cs)
  have "selection_ok (seen @ [c]) (select_candidate kept c)"
    using Cons.prems by (intro select_candidate_ok) (auto simp: sorted_wrt_append)
  with Cons.IH [of "seen @ [c]" "select_candidate kept c"] Cons.prems(1) show ?case by simp
qed

lemma select_canonical_ok: "selection_ok (sorted_desc coverage_key candidates) (select_canonical_finance_reports candidates)"
  using select_fold_ok [of "[]" "sorted_desc coverage_key candidates" "[]"] sorted_desc_sorted [of coverage_key candidates]
  by (simp add: select_canonical_finance_reports_def selection_ok_def)

lemma coverage_span: "coverage_key a \<le> coverage_key b \<Longrightarrow>
    inclusive_span_days (fr_period_start a) (fr_period_end a) \<le> inclusive_span_days (fr_period_start b) (fr_period_end b)"
  by (auto simp: coverage_key_def)

lemma coverage_created: "coverage_key a \<le> coverage_key b \<Longrightarrow> same_period a b \<Longrightarrow>
    created_sort_key (fr_created_at a) \<le> created_sort_key (fr_created_at b)"
  by (auto simp: coverage_key_def same_period_def)

text \<open>An element of a list that is pairwise related is related to every other element, one way or the other.\<close>

lemma sorted_wrt_pair:
  "sorted_wrt R xs \<Longrightarrow> a \<in> set xs \<Longrightarrow> b \<in> set xs \<Longrightarrow> a = b \<or> R a b \<or> R b a"
  by (induction xs) auto

section \<open>Laws of the report numbers\<close>

lemma wb_number_prefix: "8470 \<notin> set p \<Longrightarrow> wb_report_number (p @ s) = wb_report_number s"
  by (induction p) auto

lemma digits_prefix_append:
  "list_all is_digit n \<Longrightarrow> (t \<noteq> [] \<Longrightarrow> \<not> is_digit (hd t)) \<Longrightarrow> digits_prefix (n @ t) = n"
  by (induction n) (auto simp: digits_prefix_def takeWhile_eq_Nil_iff)

lemma digit_no_space: "is_digit c \<Longrightarrow> \<not> is_space c"
  by (auto simp: is_digit_def is_space_def)

section \<open>Laws of the periods\<close>

lemma merge_bounds_lookup:
  "map_of (merge_report_period_bounds bounds r d) q =
     (if q = r then (case map_of bounds r of Some (Some s, Some e) \<Rightarrow> Some (Some (min s d), Some (max e d)) | _ \<Rightarrow> Some (Some d, Some d))
      else map_of bounds q)"
  by (auto simp: merge_report_period_bounds_def update_conv' split: option.splits)

definition sale_dates_of :: "uuid \<Rightarrow> (uuid \<times> date \<times> pystr option) list \<Rightarrow> date list" where
  "sale_dates_of r rows = map (\<lambda>(_, d, _). d) (filter (\<lambda>(q, _, label). q = r \<and> is_wb_sale_payment_justification label) rows)"

lemma period_bounds_fold:
  fixes ds :: "date list"
  assumes "map_of bounds r = (if ds = [] then None else Some (Some (Min (set ds)), Some (Max (set ds))))"
  shows "map_of (foldl (\<lambda>bounds (report_id, sale_date, label).
     if \<not> is_wb_sale_payment_justification label then bounds
     else merge_report_period_bounds bounds report_id sale_date) bounds rows) r =
     (let all = ds @ sale_dates_of r rows in if all = [] then None else Some (Some (Min (set all)), Some (Max (set all))))"
  using assms
proof (induction rows arbitrary: bounds ds)
  case Nil
  then show ?case by (simp add: sale_dates_of_def)
next
  case (Cons row rows)
  obtain q d label where row: "row = (q, d, label)" by (cases row)
  show ?case
  proof (cases "is_wb_sale_payment_justification label \<and> q = r")
    case False
    then have "sale_dates_of r (row # rows) = sale_dates_of r rows" by (auto simp: sale_dates_of_def row)
    moreover have "map_of (if \<not> is_wb_sale_payment_justification label then bounds else merge_report_period_bounds bounds q d) r = map_of bounds r"
      using False by (auto simp: merge_bounds_lookup)
    ultimately show ?thesis using Cons by (simp add: row)
  next
    case True
    have "map_of (merge_report_period_bounds bounds q d) r = Some (Some (Min (set (ds @ [d]))), Some (Max (set (ds @ [d]))))"
      using True Cons.prems by (auto simp: merge_bounds_lookup min.commute max.commute)
    then have "map_of (merge_report_period_bounds bounds q d) r =
        (if ds @ [d] = [] then None else Some (Some (Min (set (ds @ [d]))), Some (Max (set (ds @ [d])))))" by simp
    from Cons.IH [OF this] True show ?thesis by (simp add: row sale_dates_of_def)
  qed
qed

lemma period_bounds_exact:
  "map_of (build_period_bounds_from_row_samples rows) r =
     (let ds = sale_dates_of r rows in if ds = [] then None else Some (Some (Min (set ds)), Some (Max (set ds))))"
  using period_bounds_fold [of "[]" r "[]" rows] by (simp add: build_period_bounds_from_row_samples_def)

end
