(* ===== verification/Finance_Properties.thy ===== *)
theory Finance_Properties
  imports Aggregate_Projections Seller_Kpis Report_Selection
begin

text \<open>
  The properties of the finance side: signs and identifiers of the ledger, agreement of the profit
  views, the projections, trust gating, the selection of reports and their periods.
\<close>

section \<open>The ledger\<close>

text \<open>
  C10. Sign discipline: every entry of the ledger of a report comes from a row of it and has a type that
  the kind of the row allows; revenues are positive, expenses and returns negative, compensations not
  negative; only payouts keep the sign of the report.
\<close>

theorem ledger_entry_signs:
  "\<forall>e\<in>set (from_normalized_rows default_date rows). \<exists>row\<in>set rows.
     op_allowed (row_kind row) (ed_operation_type e) \<and> amount_sign_ok (ed_operation_type e) (ed_amount e)
     \<and> ed_sku e = w_sku row \<and> ed_nm_id e = w_nm_id row \<and> ed_operation_date e = row_operation_date default_date row
     \<and> (ed_operation_type e \<noteq> L_COMPENSATION \<longrightarrow> ed_amount e \<noteq> 0)"
proof
  fix e assume "e \<in> set (from_normalized_rows default_date rows)"
  then obtain row where row: "row \<in> set rows" "e \<in> set (main_drafts default_date row)"
    by (auto simp: from_normalized_rows_def entries_for_row_main)
  from row(2) have "op_allowed (row_kind row) (ed_operation_type e) \<and> amount_sign_ok (ed_operation_type e) (ed_amount e)
     \<and> ed_sku e = w_sku row \<and> ed_nm_id e = w_nm_id row \<and> ed_operation_date e = row_operation_date default_date row
     \<and> (ed_operation_type e \<noteq> L_COMPENSATION \<longrightarrow> ed_amount e \<noteq> 0)"
  proof (cases rule: main_draft_cases)
    case (typed op amount a meta)
    then show ?thesis
      using typed_amounts_mem [OF typed(1)] typed_amounts_sign [OF typed(1,2)] nonzero_Some [of amount a] by (simp add: draft_of_def)
  next
    case (compensation a k)
    then show ?thesis
      using specs_mem [OF compensation(1)] by (simp add: compensation_draft_def draft_of_def amount_sign_ok_def expense_ops_def)
  qed
  with row(1) show "\<exists>row\<in>set rows. op_allowed (row_kind row) (ed_operation_type e) \<and> amount_sign_ok (ed_operation_type e) (ed_amount e)
     \<and> ed_sku e = w_sku row \<and> ed_nm_id e = w_nm_id row \<and> ed_operation_date e = row_operation_date default_date row
     \<and> (ed_operation_type e \<noteq> L_COMPENSATION \<longrightarrow> ed_amount e \<noteq> 0)" by (intro bexI)
qed

definition acquiring_row :: wb_row where
  "acquiring_row = \<lparr>w_source_row_id = [114], w_source_row_index = 0, w_operation_date = Some 3, w_sku = Some [7], w_nm_id = None,
     w_canonical = (\<lambda>_. VNone)(F_acquiring := VDec 5), w_raw = []\<rparr>"

lemma acquiring_row_kind: "row_kind acquiring_row = K_OTHER"
  by (simp add: row_kind_def classify_wb_finance_row_def acquiring_row_def text_of_def)

lemma ledger_entry_signs_witness:
  "\<exists>e\<in>set (from_normalized_rows 1 [acquiring_row]). ed_operation_type e = L_ACQUIRING \<and> ed_amount e < 0"
proof -
  let ?d = "row_operation_date 1 acquiring_row" and ?a = "as_negative (w_canonical acquiring_row F_acquiring)"
  have "?a \<noteq> None" by (simp add: as_negative_def acquiring_row_def dec_of_def)
  then obtain a where a: "?a = Some a" by blast
  then have "nonzero ?a = Some a" using as_negative_sgn [OF a] by (simp add: nonzero_def)
  then have e: "draft_of ?d acquiring_row L_ACQUIRING a (ledger_op_value L_ACQUIRING) None \<in> set (typed_draft ?d acquiring_row K_OTHER (L_ACQUIRING, ?a))"
    by (simp add: typed_draft_def)
  have "(L_ACQUIRING, ?a) \<in> set (typed_amounts (row_kind acquiring_row) (w_canonical acquiring_row) (w_raw acquiring_row))"
    unfolding typed_amounts_def guarded_mem by simp
  with e have "draft_of ?d acquiring_row L_ACQUIRING a (ledger_op_value L_ACQUIRING) None \<in> set (main_drafts 1 acquiring_row)"
    unfolding main_drafts_def acquiring_row_kind set_append set_concat set_map by blast
  then have m: "draft_of ?d acquiring_row L_ACQUIRING a (ledger_op_value L_ACQUIRING) None \<in> set (from_normalized_rows 1 [acquiring_row])"
    by (simp add: from_normalized_rows_def entries_for_row_main)
  from bspec [OF ledger_entry_signs m] m show ?thesis
    by (intro bexI [OF _ m]) (simp add: draft_of_def amount_sign_ok_def expense_ops_def)
qed

text \<open>
  C35. The identifiers of the entries of a report are pairwise distinct when those of its rows are and
  contain no colon (the parser writes \<open>row-<n>\<close>), so the unique key of the ledger
  never drops an entry.
\<close>

theorem ledger_ids_unique:
  assumes "distinct (map w_source_row_id rows)" and "\<forall>row\<in>set rows. 58 \<notin> set (w_source_row_id row)"
  shows "distinct (map ed_source_row_id (from_normalized_rows default_date rows))"
  by (rule ledger_ids_distinct [OF assms])

lemma ledger_ids_unique_witness:
  "distinct (map ed_source_row_id (from_normalized_rows 1 [acquiring_row, acquiring_row\<lparr>w_source_row_id := [115]\<rparr>]))"
  by (rule ledger_ids_unique) (simp_all add: acquiring_row_def)

text \<open>
  The last branch of \<open>_entries_for_row\<close>, which writes a payout when nothing else was written, is never
  taken: a payout that it would write is already among the typed amounts of a sale row.
\<close>

lemma payout_fallback_never_taken:
  "entries_for_row default_date row =
     (let d = row_operation_date default_date row; c = w_canonical row;
          kind = classify_wb_finance_row (text_of (c F_operation_type))
      in concat (map (typed_draft d row kind) (typed_amounts kind c (w_raw row)))
         @ map (compensation_draft d row) (compensation_entry_specs c kind))"
  by (simp add: entries_for_row_main main_drafts_def row_kind_def Let_def)

section \<open>The profit views\<close>

lemma signs_ok_filter: "signs_ok es \<Longrightarrow> signs_ok (filter P es)"
  by (simp add: signs_ok_def)

lemma amounts_filter_entries: "amounts_within s L (amounts es) \<Longrightarrow> amounts_within s L (amounts (filter P es))"
  using filtered_within [of s L es P] by (simp add: amounts_def)

lemma units_sold_filter: "units_sold (filter P es) \<le> units_sold es"
  using entry_quantity_pos by (induction es) (auto simp: units_sold_def less_imp_le intro: add_increasing)

text \<open>Unit costs have four places and the cost of all units stays below a bound.\<close>

definition costs_bounded :: "cost_table \<Rightarrow> rat \<Rightarrow> entry_draft list \<Rightarrow> bool" where
  "costs_bounded costs C es \<longleftrightarrow> (\<forall>e\<in>set es. \<forall>c. unit_cost_on_date (resolve_cost_snapshots costs (ed_sku e)) (ed_operation_date e) = Some c
     \<longrightarrow> on_grid 4 c \<and> \<bar>c\<bar> * of_int (units_sold es) \<le> C)"

lemma group_views_agree:
  assumes a: "amounts_within 4 L (amounts entries)" and s: "signs_ok entries" and c: "costs_bounded costs C entries"
    and b: "L + C < 10 ^ 24" "0 \<le> L" "0 \<le> C"
    and k: "(d, sku) \<in> day_sku ` set (with_sku entries)"
    and es: "es = filter (\<lambda>e. day_sku e = (d, sku)) (with_sku entries)"
  shows "ue_contribution_margin (compute_unit_economics costs mp d sku es) = pm_net_profit (metrics_of costs es)
    \<and> ue_units_sold (compute_unit_economics costs mp d sku es) = pm_units_sold (metrics_of costs es)
    \<and> ue_revenue (compute_unit_economics costs mp d sku es) = pm_revenue (metrics_of costs es)"
proof -
  have es': "es = filter (\<lambda>e. nonempty (ed_sku e) \<noteq> None \<and> day_sku e = (d, sku)) entries"
    by (auto simp: es with_sku_def intro: filter_cong)
  have key: "ed_operation_date e = d \<and> ed_sku e = Some sku" if "e \<in> set es" for e
    using that by (auto simp: es' day_sku_def nonempty_def opt_text_def split: option.splits if_splits)
  have sku: "sku \<noteq> []"
    using k by (auto simp: with_sku_def day_sku_def nonempty_def opt_text_def split: option.splits if_splits)
  have a': "amounts_within 4 L (amounts es)" and s': "signs_ok es"
    unfolding es' by (rule amounts_filter_entries [OF a], rule signs_ok_filter [OF s])
  have cost: "on_grid 4 x \<and> \<bar>x\<bar> * of_int (units_sold es) \<le> C"
    if x: "unit_cost_on_date (resolve_cost_snapshots costs (Some sku)) d = Some x" for x
  proof -
    obtain e where e: "e \<in> set (with_sku entries)" "day_sku e = (d, sku)" using k by auto
    then have "e \<in> set es" by (simp add: es)
    then have "ed_operation_date e = d" "ed_sku e = Some sku" "e \<in> set entries" using key e(1) by (auto simp: with_sku_def)
    with c x have x': "on_grid 4 x" "\<bar>x\<bar> * of_int (units_sold entries) \<le> C" unfolding costs_bounded_def by metis+
    have "\<bar>x\<bar> * of_int (units_sold es) \<le> \<bar>x\<bar> * of_int (units_sold entries)"
      unfolding es' by (intro mult_left_mono) (simp_all add: units_sold_filter)
    with x' show ?thesis by simp
  qed
  have C: "C < 10 ^ 24" and L: "L < 10 ^ 24" using b by simp_all
  note cogs = sum_cogs_exact [OF s' key sku cost C b(3)]
  have "ue_contribution_margin (compute_unit_economics costs mp d sku es) = profit_and_loss es - goods_cost costs d sku es"
    by (rule contribution_margin_exact [OF a' s' cogs(2,3) b(1)])
  moreover have "pm_net_profit (metrics_of costs es) = profit_and_loss es - sum_cogs costs es"
    using cogs by (intro net_profit_exact [OF a' _ _ b(1)]) simp_all
  moreover have "ue_revenue (compute_unit_economics costs mp d sku es) = pm_revenue (metrics_of costs es)"
    by (simp add: compute_unit_economics_def metrics_of_def add_entry_fold sum_sales_def sum_ops_def dsum_def Let_def)
  moreover have "ue_units_sold (compute_unit_economics costs mp d sku es) = pm_units_sold (metrics_of costs es)"
    by (simp add: compute_unit_economics_def metrics_of_def add_entry_fold Let_def)
  ultimately show ?thesis using cogs(1) by simp
qed

text \<open>
  C6. The two profitability computations agree: for a ledger with the signs of the builder, amounts and
  unit costs of four decimal places and totals below \<open>10 ^ 24\<close>, the SKU metrics and the unit
  economics list the same days and SKUs with the same units, revenue and profit (the contribution margin,
  computed component by component, is the net amount less the cost of goods).
\<close>

theorem profit_views_agree:
  assumes "amounts_within 4 L (amounts entries)" and "signs_ok entries" and "costs_bounded costs C entries"
    and "L + C < 10 ^ 24" and "0 \<le> L" and "0 \<le> C"
  shows "map (\<lambda>u. (ue_metric_date u, ue_sku u, ue_units_sold u, ue_revenue u, ue_contribution_margin u))
      (build_unit_economics mp costs None entries)
    = map (\<lambda>m. (sm_metric_date m, sm_sku m, pm_units_sold (sm_metrics m), pm_revenue (sm_metrics m), pm_net_profit (sm_metrics m)))
      (snd (build_aggregates mp costs entries))"
proof -
  have names: "ue_metric_date (compute_unit_economics costs mp d sku es) = d" "ue_sku (compute_unit_economics costs mp d sku es) = sku"
    for d sku es by (simp_all add: compute_unit_economics_def split_def Let_def)
  have each: "(ue_metric_date u, ue_sku u, ue_units_sold u, ue_revenue u, ue_contribution_margin u) =
      (d, sku, pm_units_sold (metrics_of costs es), pm_revenue (metrics_of costs es), pm_net_profit (metrics_of costs es))"
    if "((d, sku), es) \<in> set (sort_key fst (group_by day_sku (with_sku entries)))" "u = compute_unit_economics costs mp d sku es"
    for d sku es u
    using that group_views_agree [OF assms, of d sku es mp] names by (simp add: group_by_mem_iff)
  show ?thesis
    unfolding build_unit_economics_def build_aggregates_def
    by (simp add: split_def comp_def) (auto intro!: each [of _ _ _, unfolded prod.inject, simplified])
qed

definition demo_entries :: "entry_draft list" where
  "demo_entries = [draft_of 3 acquiring_row L_SALE 1000 [] (Some (no_metadata\<lparr>em_quantity := Some 2\<rparr>)),
     draft_of 3 acquiring_row L_COMMISSION (-150) [] None, draft_of 3 acquiring_row L_PAYOUT 850 [] None]"

definition demo_costs :: cost_table where
  "demo_costs = [([7], [\<lparr>sc_sku = [7], sc_effective_from = 1, sc_product_cost = 100, sc_packaging_cost = 0,
     sc_inbound_logistics_cost = 0, sc_additional_cost = 0, sc_currency = []\<rparr>])]"

lemma demo_unit_cost: "unit_cost_on_date (resolve_cost_snapshots demo_costs (Some [7])) 3 = Some 100"
proof -
  have "exact_amount 4 100" using on_grid_of_int [of 4 100] by (simp add: exact_amount_def)
  then have "dctx 100 = 100" by (rule dctx_exact)
  then show ?thesis
    by (simp add: unit_cost_on_date_def resolve_cost_snapshots_def demo_costs_def total_unit_cost_def Let_def)
qed

lemma demo_entries_bounds:
  "amounts_within 4 2000 (amounts demo_entries)" "signs_ok demo_entries" "costs_bounded demo_costs 200 demo_entries"
proof -
  have g: "on_grid 4 (of_int n)" for n by simp
  from g [of 1000] g [of "-150"] g [of 850] show "amounts_within 4 2000 (amounts demo_entries)"
    by (simp add: amounts_within_def amounts_def demo_entries_def draft_of_def)
  show "signs_ok demo_entries"
    by (simp add: signs_ok_def demo_entries_def draft_of_def amount_sign_ok_def expense_ops_def)
  have "units_sold demo_entries = 2"
    by (simp add: units_sold_def demo_entries_def draft_of_def entry_quantity_def)
  moreover have "ed_sku e = Some [7] \<and> ed_operation_date e = 3" if "e \<in> set demo_entries" for e
    using that by (auto simp: demo_entries_def draft_of_def acquiring_row_def)
  ultimately show "costs_bounded demo_costs 200 demo_entries"
    using g [of 100] by (auto simp: costs_bounded_def demo_unit_cost)
qed

lemma profit_views_agree_witness:
  "map (\<lambda>u. (ue_metric_date u, ue_sku u, ue_units_sold u, ue_revenue u, ue_contribution_margin u))
      (build_unit_economics MP_WILDBERRIES demo_costs None demo_entries)
    = map (\<lambda>m. (sm_metric_date m, sm_sku m, pm_units_sold (sm_metrics m), pm_revenue (sm_metrics m), pm_net_profit (sm_metrics m)))
      (snd (build_aggregates MP_WILDBERRIES demo_costs demo_entries))"
  by (rule profit_views_agree [OF demo_entries_bounds]) simp_all

text \<open>
  C25. The payout reconciliation expects exactly what the profit computation counts before the cost of
  goods: its expected payout, summed type by type, is the net amount of the ledger, and its difference
  is the payouts of the report less that.
\<close>

theorem reconciliation_is_net_amount:
  assumes "amounts_within 4 L (amounts entries)" and "signs_ok entries" and "L < 10 ^ 24"
  shows "rr_expected_payout (reconcile_payout entries) = net_amount entries
    \<and> rr_difference (reconcile_payout entries) = op_total L_PAYOUT entries - net_amount entries"
proof -
  note exact = reconciliation_exact [OF assms(1,3,2)] net_amount_exact [OF assms(1,3)]
  then have expected: "rr_expected_payout (reconcile_payout entries) = net_amount entries" by simp
  have "\<bar>op_total L_PAYOUT entries\<bar> + \<bar>profit_and_loss entries\<bar> \<le> (\<Sum>op\<leftarrow>all_ops. \<bar>op_total op entries\<bar>)"
  proof -
    have "\<bar>profit_and_loss entries\<bar> \<le> (\<Sum>op\<leftarrow>all_ops. \<bar>if op = L_PAYOUT then 0 else op_total op entries\<bar>)"
      unfolding profit_and_loss_ops by (rule order_trans [OF sum_list_abs]) (simp add: comp_def)
    moreover have "(\<Sum>op\<leftarrow>all_ops. \<bar>if op = L_PAYOUT then 0 else op_total op entries\<bar>) + \<bar>op_total L_PAYOUT entries\<bar>
        = (\<Sum>op\<leftarrow>all_ops. \<bar>op_total op entries\<bar>)" by (simp add: all_ops_def)
    ultimately show ?thesis by linarith
  qed
  with op_totals_abs [of entries] assms(1) have "\<bar>op_total L_PAYOUT entries - profit_and_loss entries\<bar> \<le> L"
    unfolding amounts_within_def by linarith
  moreover have "on_grid 4 (op_total L_PAYOUT entries - profit_and_loss entries)"
    by (intro on_grid_diff op_total_grid [OF assms(1)] profit_and_loss_within(2) [OF assms(1)])
  ultimately have "exact_amount 4 (op_total L_PAYOUT entries - profit_and_loss entries)"
    using assms(3) by (simp add: exact_amount_def)
  then have "dsub (op_total L_PAYOUT entries) (profit_and_loss entries) = op_total L_PAYOUT entries - profit_and_loss entries"
    by (rule dsub_exact)
  moreover have "rr_difference (reconcile_payout entries) =
      dsub (rr_actual_payout (reconcile_payout entries)) (rr_expected_payout (reconcile_payout entries))"
    by (simp add: reconcile_payout_def Let_def)
  ultimately have "rr_difference (reconcile_payout entries) = op_total L_PAYOUT entries - net_amount entries"
    using exact by simp
  with expected show ?thesis by (rule conjI)
qed

lemma reconciliation_is_net_amount_witness:
  "rr_expected_payout (reconcile_payout demo_entries) = net_amount demo_entries
   \<and> rr_difference (reconcile_payout demo_entries) = op_total L_PAYOUT demo_entries - net_amount demo_entries"
  by (rule reconciliation_is_net_amount [OF demo_entries_bounds(1,2)]) simp

section \<open>The projections\<close>



text \<open>
  The quantity of a sale is lost between the ledger and the projections: the drafts that a rebuild
  reads have no metadata, so every sale counts as one unit, whatever \<open>quantity\<close> the ledger entry has.
\<close>

lemma projection_units_ignore_quantity:
  "units_sold (load_ledger_drafts_for_dates dates ledger) =
     int (length (filter (\<lambda>r. ed_operation_date (lt_entry r) \<in> dates \<and> ed_operation_type (lt_entry r) = L_SALE \<and> 0 < ed_amount (lt_entry r)) ledger))
   \<and> units_sold (load_ledger_drafts_for_dates {3} [\<lparr>lt_report_id = 1, lt_entry = hd demo_entries\<rparr>]) = 1
   \<and> units_sold [hd demo_entries] = 2"
  unfolding units_without_metadata by (simp add: demo_entries_def draft_of_def units_sold_def entry_quantity_def)

section \<open>Trust\<close>

text \<open>
  What is shown of a profit when the cost coverage is not complete: SKU profits are blanked and the
  margin is hidden; a total profit is hidden when the coverage is insufficient. The margin is let
  through when it comes without a total profit.
\<close>

lemma profit_trust_gating:
  assumes "apply_profit_trust_to_ai_metrics (classify_profit_trust coverage) profit margin skus = (profit', margin', skus')"
  shows "(coverage \<noteq> None \<and> 100 \<le> the coverage \<longrightarrow> (profit', margin', skus') = (profit, margin, skus))
    \<and> (coverage = None \<or> the coverage < 100 \<longrightarrow>
         (\<forall>s\<in>set skus'. ts_profit s = 0) \<and> map ts_revenue skus' = map ts_revenue skus
         \<and> margin' = (if profit = None then margin else None))
    \<and> (coverage = None \<or> the coverage < 1 \<longrightarrow> profit' = None)"
  using assms
  by (auto simp: apply_profit_trust_to_ai_metrics_def classify_profit_trust_def apply_profit_trust_to_kpis_def Let_def
    split: option.splits if_splits)

lemma profit_trust_gating_witness:
  "snd (apply_profit_trust_to_ai_metrics (classify_profit_trust None) None (Some 25) []) = (Some 25, [])"
proof -
  obtain p m s where r: "apply_profit_trust_to_ai_metrics (classify_profit_trust None) None (Some 25) [] = (p, m, s)"
    by (metis surj_pair)
  from profit_trust_gating [OF r] show ?thesis by (auto simp: r)
qed

section \<open>Reports\<close>

text \<open>
  C28. The selection of finance reports: what is kept is an antichain (no period inside another, no period
  twice), every candidate's period is that of a kept report or lies inside it, and of reports with
  the same period the latest is kept.
\<close>

theorem canonical_reports_cover:
  "set (select_canonical_finance_reports cs) \<subseteq> set cs
   \<and> sorted_wrt (\<lambda>a b. \<not> same_period a b) (select_canonical_finance_reports cs)
   \<and> (\<forall>a\<in>set (select_canonical_finance_reports cs). \<forall>b\<in>set (select_canonical_finance_reports cs). \<not> is_proper_subset a b)
   \<and> (\<forall>c\<in>set cs. \<exists>k\<in>set (select_canonical_finance_reports cs).
        (same_period c k \<and> created_sort_key (fr_created_at c) \<le> created_sort_key (fr_created_at k)) \<or> is_proper_subset c k)"
proof -
  let ?ks = "select_canonical_finance_reports cs"
  let ?R = "\<lambda>a b. coverage_key b \<le> coverage_key a \<and> \<not> same_period a b \<and> \<not> is_proper_subset b a"
  have ok: "selection_ok (sorted_desc coverage_key cs) ?ks" by (rule select_canonical_ok)
  then have sorted: "sorted_wrt ?R ?ks" by (simp add: selection_ok_def)
  have chain: "\<not> is_proper_subset a b" if "a \<in> set ?ks" "b \<in> set ?ks" for a b
  proof
    assume sub: "is_proper_subset a b"
    from sorted_wrt_pair [OF sorted that] show False
    proof (elim disjE)
      assume "a = b"
      with sub show False by (simp add: is_proper_subset_def)
    next
      assume "?R a b"
      then show False using coverage_span [of b a] proper_subset_smaller [OF sub] by simp
    next
      assume "?R b a"
      with sub show False by simp
    qed
  qed
  have cover: "\<exists>k\<in>set ?ks. (same_period c k \<and> created_sort_key (fr_created_at c) \<le> created_sort_key (fr_created_at k)) \<or> is_proper_subset c k"
    if "c \<in> set cs" for c
  proof -
    have "\<forall>c\<in>set cs. \<exists>k\<in>set ?ks. (same_period c k \<or> is_proper_subset c k) \<and> coverage_key c \<le> coverage_key k"
      using ok by (simp add: selection_ok_def)
    from bspec [OF this that] obtain k where k: "k \<in> set ?ks" "same_period c k \<or> is_proper_subset c k" "coverage_key c \<le> coverage_key k"
      by (elim bexE conjE)
    then show ?thesis using coverage_created [OF k(3)] by (intro bexI [of _ k]) auto
  qed
  have "sorted_wrt (\<lambda>a b. \<not> same_period a b) ?ks" by (rule sorted_wrt_mono_rel [OF _ sorted]) simp
  moreover have "set ?ks \<subseteq> set cs" using ok by (simp add: selection_ok_def)
  ultimately show ?thesis using chain cover by (intro conjI ballI)
qed

definition demo_report :: "uuid \<Rightarrow> date \<Rightarrow> date \<Rightarrow> finance_report" where
  "demo_report i s e = \<lparr>fr_id = i, fr_period_start = s, fr_period_end = e, fr_created_at = None\<rparr>"

lemma canonical_reports_cover_witness:
  "demo_report 2 15 21 \<in> set (select_canonical_finance_reports [demo_report 1 15 20, demo_report 2 15 21])
   \<and> demo_report 1 15 20 \<notin> set (select_canonical_finance_reports [demo_report 1 15 20, demo_report 2 15 21])"
proof -
  let ?cs = "[demo_report 1 15 20, demo_report 2 15 21]"
  have sub: "is_proper_subset (demo_report 1 15 20) (demo_report 2 15 21)" "\<not> is_proper_subset (demo_report 2 15 21) (demo_report 1 15 20)"
    "\<not> is_proper_subset (demo_report 2 15 21) (demo_report 2 15 21)" "\<not> same_period (demo_report 2 15 21) (demo_report 1 15 20)"
    by (simp_all add: is_proper_subset_def same_period_def demo_report_def)
  from canonical_reports_cover [of ?cs] have "set (select_canonical_finance_reports ?cs) \<subseteq> set ?cs"
    "\<forall>a\<in>set (select_canonical_finance_reports ?cs). \<forall>b\<in>set (select_canonical_finance_reports ?cs). \<not> is_proper_subset a b"
    "\<exists>k\<in>set (select_canonical_finance_reports ?cs). same_period (demo_report 2 15 21) k \<or> is_proper_subset (demo_report 2 15 21) k"
    by auto
  with sub show ?thesis by auto
qed

text \<open>
  The period bounds that are built row by row are, for every report, the earliest and the latest sale
  date of its sale rows, and absent when it has none.
\<close>

lemma period_bounds_min_max:
  "map_of (build_period_bounds_from_row_samples rows) r =
     (let ds = sale_dates_of r rows in if ds = [] then None else Some (Some (Min (set ds)), Some (Max (set ds))))"
  by (rule period_bounds_exact)

text \<open>
  Round trip of report numbers: a number that is written behind the number sign (with spaces between)
  into a file name without another number sign is read back, for every marketplace.
\<close>

lemma report_number_roundtrip:
  assumes "n \<noteq> []" and "list_all is_digit n" and "8470 \<notin> set prefix" and "list_all is_space gap"
    and "rest \<noteq> [] \<longrightarrow> \<not> is_digit (hd rest)"
  shows "extract_report_number ozon (prefix @ 8470 # gap @ n @ rest) = Some n"
proof -
  have gap: "dropWhile is_space (gap @ n @ rest) = n @ rest"
    using assms(1,2,4) digit_no_space by (cases n) (auto simp: dropWhile_append2 list_all_iff)
  have n: "digits_prefix (n @ rest) = n" using assms(2,5) by (intro digits_prefix_append) simp_all
  have wb: "wb_report_number (prefix @ 8470 # gap @ n @ rest) = Some n"
    using assms(1) by (simp add: wb_number_prefix [OF assms(3)] gap n)
  have "\<not> is_space 8470" by (simp add: is_space_def)
  then have "strip (prefix @ 8470 # gap @ n @ rest) \<noteq> []"
    by (simp add: strip_eq_Nil)
  with wb show ?thesis by (simp add: extract_report_number_def)
qed

lemma report_number_roundtrip_witness:
  "extract_report_number False (asc ''WB '' @ 8470 # [32] @ asc ''1234'' @ asc ''.xlsx'') = Some (asc ''1234'')"
  by (rule report_number_roundtrip) (simp_all add: asc_def is_digit_def is_space_def)

end
