(* ===== verification/Data_Quality.thy ===== *)
theory Data_Quality
  imports Inventory_Movements
begin

text \<open>
  The data quality rules of an import (\<open>app/domain/data_quality/validator.py\<close>): anomalies of inventory
  movements. The counter of seen keys is passed explicitly, since the streamed import shares it
  between chunks. Severity, type, stage and message of an anomaly are functions of its kind.
\<close>

section \<open>Anomalies\<close>

datatype anomaly_kind = A_UNSUPPORTED_SEMANTICS pystr | A_DUPLICATE_REPLAY | A_FUTURE_DATED date date
  | A_IMPOSSIBLE_TRANSITION | A_INVALID_DECIMAL pystr

datatype anomaly_severity = SEV_ERROR | SEV_WARNING

definition anomaly_severity_of :: "anomaly_kind \<Rightarrow> anomaly_severity" where
  "anomaly_severity_of k = (case k of A_UNSUPPORTED_SEMANTICS _ \<Rightarrow> SEV_ERROR | A_INVALID_DECIMAL _ \<Rightarrow> SEV_ERROR | _ \<Rightarrow> SEV_WARNING)"

definition anomaly_type :: "anomaly_kind \<Rightarrow> pystr" where
  "anomaly_type k = (case k of A_UNSUPPORTED_SEMANTICS _ \<Rightarrow> asc ''unsupported_semantics'' | A_DUPLICATE_REPLAY \<Rightarrow> asc ''duplicate_replay''
     | A_FUTURE_DATED _ _ \<Rightarrow> asc ''future_dated_operation'' | A_IMPOSSIBLE_TRANSITION \<Rightarrow> asc ''impossible_warehouse_transition''
     | A_INVALID_DECIMAL _ \<Rightarrow> asc ''invalid_decimal_coercion'')"

definition parser_stage :: "anomaly_kind \<Rightarrow> pystr" where
  "parser_stage k = (case k of A_INVALID_DECIMAL _ \<Rightarrow> asc ''normalize'' | _ \<Rightarrow> asc ''inventory'')"

definition anomaly_message :: "(date \<Rightarrow> pystr) \<Rightarrow> anomaly_kind \<Rightarrow> pystr" where
  "anomaly_message date_text k = (case k of
       A_UNSUPPORTED_SEMANTICS v \<Rightarrow> asc ''Unsupported default semantics version: '' @ v
     | A_DUPLICATE_REPLAY \<Rightarrow> asc ''Duplicate source_row_id and operation_type in batch''
     | A_FUTURE_DATED d ref \<Rightarrow> asc ''Operation date '' @ date_text d @ asc '' is after '' @ date_text ref
     | A_IMPOSSIBLE_TRANSITION \<Rightarrow> asc ''Negative quantity on inbound-class operation''
     | A_INVALID_DECIMAL field \<Rightarrow> asc ''Invalid decimal in field '' @ field)"

record anomaly_draft =
  an_report_id :: uuid
  an_source_file_name :: pystr
  an_row_number :: "int option"
  an_kind :: anomaly_kind
  an_raw_payload :: "(pystr \<times> pystr) list"
  an_normalized_payload :: "canonical option"
  an_semantics_version :: pystr

type_synonym seen_key = "pystr \<times> pystr \<times> pystr \<times> inventory_op"
type_synonym seen_keys = "seen_key \<Rightarrow> nat"

section \<open>Rules\<close>

definition row_index :: "(pystr \<times> pystr) list \<Rightarrow> int option" where
  "row_index raw =
     (let idx = (case nonempty (map_of raw (asc ''parser_row_index'')) of Some s \<Rightarrow> Some s | None \<Rightarrow> map_of raw (asc ''row_index''))
      in case idx of None \<Rightarrow> None
       | Some s \<Rightarrow> (case py_int_of_str s of Inl _ \<Rightarrow> None | Inr i \<Rightarrow> Some i))"

text \<open>\<open>Decimal(str(value))\<close> also accepts the names of infinities and NaN.\<close>

definition special_decimal :: "pystr \<Rightarrow> bool" where
  "special_decimal text =
     (let body = lower (snd (split_sign (filter (\<lambda>c. c \<noteq> 95) (strip text))));
          nan = (\<lambda>prefix. starts_with prefix body \<and> list_all is_digit (drop (length prefix) body))
      in body = asc ''inf'' \<or> body = asc ''infinity'' \<or> nan (asc ''nan'') \<or> nan (asc ''snan''))"

definition decimal_ok :: "pystr \<Rightarrow> bool" where
  "decimal_ok s \<longleftrightarrow> decimal_of_text s \<noteq> None \<or> special_decimal s"

definition movement_key :: "movement_draft \<Rightarrow> seen_key" where
  "movement_key m = (opt_text (md_sku m), opt_text (md_warehouse_name m), md_source_row_id m, md_operation_type m)"

definition movement_anomalies :: "date \<Rightarrow> nat \<Rightarrow> movement_draft \<Rightarrow> anomaly_kind list" where
  "movement_anomalies ref seen_count m =
     (if 1 < seen_count then [A_DUPLICATE_REPLAY] else [])
     @ (if ref < md_operation_date m then [A_FUTURE_DATED (md_operation_date m) ref] else [])
     @ (if md_quantity_delta m < 0 \<and> md_operation_type m \<in> {I_INBOUND, I_RETURN, I_COMPENSATION} then [A_IMPOSSIBLE_TRANSITION] else [])
     @ concat (map (\<lambda>field. case map_of (md_raw_payload m) field of
          None \<Rightarrow> [] | Some v \<Rightarrow> if \<not> decimal_ok v then [A_INVALID_DECIMAL field] else [])
         [asc ''cost_per_unit'', asc ''sale_price_per_unit''])"

definition validate_movement :: "uuid \<Rightarrow> pystr \<Rightarrow> date \<Rightarrow> seen_keys \<times> anomaly_draft list \<Rightarrow> movement_draft \<Rightarrow> seen_keys \<times> anomaly_draft list" where
  "validate_movement report_id file ref acc m =
     (let (seen, anomalies) = acc;
          key = movement_key m;
          seen' = seen(key := seen key + 1)
      in (seen', anomalies @ map (\<lambda>k. \<lparr>an_report_id = report_id, an_source_file_name = file, an_row_number = row_index (md_raw_payload m),
            an_kind = k, an_raw_payload = md_raw_payload m, an_normalized_payload = Some (md_canonical_payload m),
            an_semantics_version = md_semantics_version m\<rparr>) (movement_anomalies ref (seen' key) m)))"

definition unsupported_version_anomalies :: "uuid \<Rightarrow> pystr \<Rightarrow> anomaly_draft list" where
  "unsupported_version_anomalies report_id file =
     (if map_of semantics_registry version_1 = None then
        [\<lparr>an_report_id = report_id, an_source_file_name = file, an_row_number = None, an_kind = A_UNSUPPORTED_SEMANTICS version_1,
          an_raw_payload = [(asc ''semantics_version'', version_1)], an_normalized_payload = None, an_semantics_version = version_1\<rparr>]
      else [])"

definition validate_wb_process :: "uuid \<Rightarrow> pystr \<Rightarrow> date \<Rightarrow> seen_keys \<Rightarrow> movement_draft list \<Rightarrow> seen_keys \<times> anomaly_draft list" where
  "validate_wb_process report_id file ref seen movements =
     foldl (validate_movement report_id file ref) (seen, unsupported_version_anomalies report_id file) movements"

section \<open>Laws\<close>

lemma no_unsupported_version [simp]: "unsupported_version_anomalies report_id file = []"
  by (simp add: unsupported_version_anomalies_def semantics_registry_def)

lemma validate_movement_acc:
  "validate_movement r f ref (seen, as) m = (fst (validate_movement r f ref (seen, []) m), as @ snd (validate_movement r f ref (seen, []) m))"
  by (simp add: validate_movement_def Let_def)

lemma validate_fold_acc:
  "foldl (validate_movement r f ref) (seen, as) ms =
     (fst (foldl (validate_movement r f ref) (seen, []) ms), as @ snd (foldl (validate_movement r f ref) (seen, []) ms))"
proof (induction ms arbitrary: seen as)
  case Nil
  then show ?case by simp
next
  case (Cons m ms)
  let ?s = "fst (validate_movement r f ref (seen, []) m)" and ?a = "snd (validate_movement r f ref (seen, []) m)"
  have "foldl (validate_movement r f ref) (seen, as) (m # ms) = foldl (validate_movement r f ref) (?s, as @ ?a) ms"
    by (subst foldl_Cons) (subst validate_movement_acc, simp)
  moreover have "foldl (validate_movement r f ref) (seen, []) (m # ms) = foldl (validate_movement r f ref) (?s, ?a) ms"
    by simp
  ultimately show ?case by (simp only: Cons.IH [of ?s "as @ ?a"] Cons.IH [of ?s ?a]) simp
qed

lemma validate_append:
  "validate_wb_process r f ref seen (ms @ ns) =
     (let (seen', as) = validate_wb_process r f ref seen ms; (seen'', bs) = validate_wb_process r f ref seen' ns in (seen'', as @ bs))"
proof -
  obtain s as where ms: "foldl (validate_movement r f ref) (seen, []) ms = (s, as)" by (metis surj_pair)
  show ?thesis
    using validate_fold_acc [of r f ref s as ns] by (simp add: validate_wb_process_def ms split_def Let_def)
qed

lemma validate_seen: "fst (validate_wb_process r f ref seen ms) k = seen k + length (filter (\<lambda>m. movement_key m = k) ms)"
proof (induction ms rule: rev_induct)
  case Nil
  then show ?case by (simp add: validate_wb_process_def)
next
  case (snoc m ms)
  then show ?case
    by (simp add: validate_wb_process_def) (simp add: validate_movement_def split_def Let_def)
qed

definition is_duplicate :: "anomaly_draft \<Rightarrow> bool" where
  "is_duplicate a \<longleftrightarrow> an_kind a = A_DUPLICATE_REPLAY"

lemma movement_duplicates:
  "length (filter (\<lambda>k. k = A_DUPLICATE_REPLAY) (movement_anomalies ref n m)) = (if 1 < n then 1 else 0)"
  by (auto simp: movement_anomalies_def filter_concat comp_def split: option.splits)

text \<open>The duplicates of a batch: all movements but one for each key.\<close>

lemma duplicates_count:
  "length (filter is_duplicate (snd (validate_wb_process r f ref (\<lambda>_. 0) ms))) + card (movement_key ` set ms) = length ms"
proof (induction ms rule: rev_induct)
  case Nil
  then show ?case by (simp add: validate_wb_process_def)
next
  case (snoc m ms)
  let ?p = "validate_wb_process r f ref (\<lambda>_. 0) ms"
  have seen: "fst ?p (movement_key m) = length (filter (\<lambda>x. movement_key x = movement_key m) ms)"
    by (simp add: validate_seen)
  have step: "filter is_duplicate (snd (validate_wb_process r f ref (\<lambda>_. 0) (ms @ [m]))) = filter is_duplicate (snd ?p) @
      filter is_duplicate (snd (validate_movement r f ref (fst ?p, []) m))"
    by (simp add: validate_append split_def Let_def) (simp add: validate_wb_process_def)
  have pos: "1 < Suc (fst ?p (movement_key m)) \<longleftrightarrow> movement_key m \<in> movement_key ` set ms"
    unfolding seen by (auto simp: filter_empty_conv image_iff intro: sym)
  have len: "length (filter is_duplicate (snd (validate_movement r f ref (fst ?p, []) m))) = (if movement_key m \<in> movement_key ` set ms then 1 else 0)"
    using movement_duplicates [of ref "Suc (fst ?p (movement_key m))" m] unfolding pos
    by (simp add: validate_movement_def Let_def is_duplicate_def filter_map comp_def)
  have card: "card (movement_key ` set (ms @ [m])) = card (movement_key ` set ms) + (if movement_key m \<in> movement_key ` set ms then 0 else 1)"
    by (simp add: card_insert_if)
  show ?case using snoc.IH by (simp only: step length_append len card list.size) simp
qed

end
