(* ===== verification/Column_Mapping.thy ===== *)
theory Column_Mapping
  imports Wb_Row
begin

text \<open>
  The tolerant mapping of report columns to canonical fields: the alias registry
  (\<open>app/parsers/wb/mapping.py\<close>), the scoring of a column and the choice of a column per field
  (\<open>_column_match_score\<close> and \<open>resolve_column_map\<close> in \<open>app/parsers/wb/base.py\<close>). The laws: the first
  column with the greatest positive score is chosen, and a column that is exactly an alias
  beats every column that only contains one.
\<close>

section \<open>The registry\<close>

definition canonical_fields :: "canonical_field list" where
  "canonical_fields = [F_operation_date, F_sale_date, F_sku, F_nm_id, F_operation_type, F_retail_amount,
     F_wb_realized_amount, F_commission, F_logistics, F_storage_fee, F_penalty, F_acquiring, F_compensation,
     F_payment_integration_compensation, F_loyalty_compensation, F_voluntary_compensation, F_deduction,
     F_payout, F_advertisement, F_quantity, F_return_amount, F_return_wb, F_warehouse_name]"

fun field_aliases :: "canonical_field \<Rightarrow> pystr list" where
  "field_aliases F_operation_date = [ru ''data prodaji'', ru ''data operacii'', asc ''operation_date'', asc ''date'',
     asc ''report_date'', asc ''period'']"
| "field_aliases F_sale_date = [ru ''data prodaji'', asc ''sale_date'', asc ''sale date'']"
| "field_aliases F_sku = [asc ''sku'', asc ''internal_sku'', asc ''vendor_code'', asc ''supplier_article'',
     ru ''artikul'', ru ''artikul postavxika'']"
| "field_aliases F_nm_id = [asc ''nm_id'', asc ''nmid'', asc ''nm id'', ru ''nomenklatura'', ru ''kod nomenklaturY'']"
| "field_aliases F_operation_type = [asc ''operation_type'', asc ''operation'', asc ''doc_type'', ru ''tip operacii'',
     ru ''obosnovanie dlA oplatY'', asc ''supplier_oper_name'']"
| "field_aliases F_retail_amount = [asc ''retail_amount'', asc ''retail price'', asc ''retail_price'',
     ru ''rozniqnaA cena'', ru ''cena rozniqnaA'', asc ''retail price withdisc rub'']"
| "field_aliases F_wb_realized_amount = [asc ''wb_realized_amount'', asc ''wb realized'', asc ''wildberries realized'',
     ru ''vayldberriz realizoval'']"
| "field_aliases F_commission = [asc ''commission'', asc ''ppvz_sales_commission'', ru ''komissiA'', ru ''voznagrajdenie'',
     ru ''komissiA '' @ asc ''wb'']"
| "field_aliases F_logistics = [asc ''logistics'', asc ''delivery_rub'', ru ''logistika'', asc ''delivery_amount'',
     asc ''rebill_logistic_cost'', ru ''uslugi po dostavke tovara pokupatelU'', ru ''stoimost~ logistiki'',
     ru ''vozmexenie izderjek po perevozke'']"
| "field_aliases F_storage_fee = [asc ''storage_fee'', asc ''storage'', ru ''hranenie'', asc ''storage_amount'']"
| "field_aliases F_penalty = [asc ''penalty'', asc ''penalties'', ru ''wtraf'', asc ''penalty_amount'']"
| "field_aliases F_acquiring = [asc ''acquiring'', asc ''acquiring_fee'', ru ''Ekvayring'']"
| "field_aliases F_compensation = [asc ''compensation'', asc ''compens'']"
| "field_aliases F_payment_integration_compensation = [asc ''payment_integration_compensation'', asc ''payment integration'',
     ru ''kompensaciA plat@jnYh uslug'', ru ''komissiA za integraciU plat@jnYh'', ru ''plat@jnYh servisov'']"
| "field_aliases F_loyalty_compensation = [asc ''loyalty_compensation'', ru ''kompensaciA skidki po programme loAl~nosti'',
     ru ''loAl~nost'']"
| "field_aliases F_voluntary_compensation = [asc ''voluntary_compensation'', ru ''dobrovol~naA kompensaciA'']"
| "field_aliases F_deduction = [asc ''deduction'', asc ''deductions'', ru ''uderjanie'', ru ''uderjaniA'']"
| "field_aliases F_payout = [asc ''payout'', asc ''for_pay'', ru ''k pereqisleniU'', asc ''ppvz_for_pay'',
     ru ''pereqislenie'', asc ''amount_to_pay'']"
| "field_aliases F_advertisement = [asc ''advertisement'', asc ''ads'', ru ''reklama'', asc ''promo'']"
| "field_aliases F_quantity = [asc ''quantity'', asc ''qty'', ru ''kol-vo'', ru ''koliqestvo'']"
| "field_aliases F_return_amount = [asc ''return_amount'', asc ''return_qty'', ru ''koliqestvo vozvrata'']"
| "field_aliases F_return_wb = [asc ''return_wb'', ru ''vayldberriz realizoval'']"
| "field_aliases F_warehouse_name = [asc ''warehouse_name'', asc ''warehouse'', ru ''sklad'', asc ''office_name'', ru ''ofis'',
     ru ''sklad otgruzki'', asc ''warehouse of delivery'']"
| "field_aliases (F_extra _) = []"

definition parser_version_v1_signature :: "pystr set" where
  "parser_version_v1_signature = {asc ''ppvz_for_pay'', asc ''supplier_oper_name'', asc ''nm_id''}"

definition parser_version_v2_signature :: "pystr set" where
  "parser_version_v2_signature = {ru ''k pereqisleniU'', ru ''tip operacii'', ru ''nomenklatura''}"

section \<open>Scores\<close>

text \<open>The bonuses and penalties of a column that contains an alias of the field.\<close>

fun match_adjustment :: "canonical_field \<Rightarrow> pystr \<Rightarrow> int" where
  "match_adjustment F_operation_date c =
     (if contains (ru ''zakaz'') c \<and> \<not> contains (ru ''prodaj'') c then -120 else 0)
     + (if contains (ru ''fiksac'') c then -80 else 0)
     + (if contains (ru ''prodaj'') c then 40 else 0)
     + (if contains (ru ''operac'') c then 30 else 0)"
| "match_adjustment F_sale_date c =
     (if contains (ru ''prodaj'') c then 80 else 0)
     + (if contains (ru ''zakaz'') c \<or> contains (ru ''operac'') c then -200 else 0)"
| "match_adjustment F_retail_amount c =
     (if contains (ru ''skid'') c \<or> contains (asc ''withdisc'') c \<or> contains (asc ''disc'') c then -60 else 0)
     + (if contains (ru ''rozniq'') c \<or> contains (asc ''retail'') c then 30 else 0)"
| "match_adjustment F_wb_realized_amount c =
     (if contains (ru ''realizoval'') c then 40 else 0)
     + (if contains (ru ''pereqislen'') c then -80 else 0)"
| "match_adjustment F_payment_integration_compensation c =
     (if contains (ru ''plat@jn'') c \<or> contains (ru ''integrac'') c then 50 else 0)"
| "match_adjustment F_return_wb c =
     (if contains (ru ''realizoval'') c then 40 else 0)
     + (if contains (ru ''koliqestvo'') c then -100 else 0)"
| "match_adjustment F_return_amount c =
     (if contains (ru ''koliqestvo vozvrata'') c \<or> contains (asc ''return_qty'') c then 40 else 0)
     + (if contains (ru ''realizoval'') c then -120 else 0)
     + (if contains (ru ''pvz'') c then -120 else 0)"
| "match_adjustment F_commission c =
     (if contains (ru ''plat@jn'') c \<or> contains (ru ''integrac'') c then -120 else 0)"
| "match_adjustment _ c = 0"

definition alias_step :: "canonical_field \<Rightarrow> pystr \<Rightarrow> int \<Rightarrow> pystr \<Rightarrow> int" where
  "alias_step field column_norm best alias =
     (let alias_norm = normalize_header alias in
      if column_norm = alias_norm then max best (200 + int (length alias_norm))
      else if contains alias_norm column_norm
        then max best (100 + int (length alias_norm) + match_adjustment field column_norm)
      else best)"

definition column_match_score :: "canonical_field \<Rightarrow> pystr \<Rightarrow> int" where
  "column_match_score field column =
     (let column_norm = normalize_header column in
      if column_norm = [] then 0 else foldl (alias_step field column_norm) 0 (field_aliases field))"

definition best_step :: "canonical_field \<Rightarrow> int \<times> pystr option \<Rightarrow> pystr \<Rightarrow> int \<times> pystr option" where
  "best_step field best column =
     (let score = column_match_score field column in if fst best < score then (score, Some column) else best)"

text \<open>Keys that are not canonical fields have no alias and so no column.\<close>

definition resolve_column_map :: "pystr list \<Rightarrow> canonical_field \<Rightarrow> pystr option" where
  "resolve_column_map columns field = snd (foldl (best_step field) (0, None) columns)"

section \<open>The chosen column\<close>

lemma best_step_pair: "best_step field (b, r) x = (if b < column_match_score field x then (column_match_score field x, Some x) else (b, r))"
  by (simp add: best_step_def Let_def)

lemma best_step_fold:
  "foldl (best_step field) (0, None) columns = (b, r) \<Longrightarrow>
     (case r of None \<Rightarrow> b = 0 \<and> (\<forall>x\<in>set columns. column_match_score field x \<le> 0)
      | Some c \<Rightarrow> b = column_match_score field c \<and> 0 < b
        \<and> (\<exists>pre post. columns = pre @ c # post \<and> (\<forall>x\<in>set pre. column_match_score field x < b)
             \<and> (\<forall>x\<in>set post. column_match_score field x \<le> b)))"
proof (induction columns arbitrary: b r rule: rev_induct)
  case Nil
  then show ?case by auto
next
  case (snoc x xs)
  obtain b' r' where xs: "foldl (best_step field) (0, None) xs = (b', r')" by (metis surj_pair)
  note IH = snoc.IH [OF xs]
  have le: "\<forall>y\<in>set xs. column_match_score field y \<le> b'" and nonneg: "0 \<le> b'"
    using IH by (fastforce split: option.splits)+
  show ?case
  proof (cases "b' < column_match_score field x")
    case True
    then have br: "r = Some x" "b = column_match_score field x"
      using snoc.prems by (simp_all add: xs best_step_pair)
    have less: "\<forall>y\<in>set xs. column_match_score field y < b" and pos: "0 < b"
      using le nonneg True br by (auto intro: le_less_trans)
    have "\<exists>pre post. xs @ [x] = pre @ x # post \<and> (\<forall>y\<in>set pre. column_match_score field y < b)
        \<and> (\<forall>y\<in>set post. column_match_score field y \<le> b)"
      using less by (intro exI [of _ xs] exI [of _ "[]"]) simp
    with br pos show ?thesis by simp
  next
    case False
    then have br: "r = r'" "b = b'"
      using snoc.prems by (simp_all add: xs best_step_pair)
    show ?thesis
    proof (cases r')
      case None
      with IH br False show ?thesis by simp
    next
      case (Some c)
      with IH obtain pre post where "xs = pre @ c # post" "\<forall>y\<in>set pre. column_match_score field y < b'"
        "\<forall>y\<in>set post. column_match_score field y \<le> b'" by auto
      then have "\<exists>pre post. xs @ [x] = pre @ c # post \<and> (\<forall>y\<in>set pre. column_match_score field y < b')
          \<and> (\<forall>y\<in>set post. column_match_score field y \<le> b')"
        using False by (intro exI [of _ pre] exI [of _ "post @ [x]"]) simp
      with IH br Some show ?thesis by simp
    qed
  qed
qed

lemma resolve_NoneD: "resolve_column_map columns field = None \<Longrightarrow> \<forall>x\<in>set columns. column_match_score field x \<le> 0"
  using best_step_fold [of field columns] by (cases "foldl (best_step field) (0, None) columns") (auto simp: resolve_column_map_def)

lemma resolve_SomeD:
  assumes "resolve_column_map columns field = Some c"
  shows "0 < column_match_score field c"
    and "\<exists>pre post. columns = pre @ c # post \<and> (\<forall>x\<in>set pre. column_match_score field x < column_match_score field c)
      \<and> (\<forall>x\<in>set post. column_match_score field x \<le> column_match_score field c)"
proof -
  obtain b where "foldl (best_step field) (0, None) columns = (b, Some c)"
    using assms by (metis prod.collapse resolve_column_map_def)
  from best_step_fold [OF this] show "0 < column_match_score field c"
    and "\<exists>pre post. columns = pre @ c # post \<and> (\<forall>x\<in>set pre. column_match_score field x < column_match_score field c)
      \<and> (\<forall>x\<in>set post. column_match_score field x \<le> column_match_score field c)" by auto
qed

lemma resolve_mem: "resolve_column_map columns field = Some c \<Longrightarrow> c \<in> set columns"
  using resolve_SomeD(2) by fastforce

lemma resolve_max: "resolve_column_map columns field = Some c \<Longrightarrow> x \<in> set columns \<Longrightarrow>
    column_match_score field x \<le> column_match_score field c"
  using resolve_SomeD(2) by fastforce

text \<open>A repeated header changes nothing: the choice over the keys of the row dictionary is the same.\<close>

lemma resolve_remdups: "resolve_column_map (rev (remdups (rev columns))) field = resolve_column_map columns field"
proof -
  have "foldl (best_step field) (0, None) (rev (remdups (rev columns))) = foldl (best_step field) (0, None) columns"
  proof (induction columns rule: rev_induct)
    case Nil
    then show ?case by simp
  next
    case (snoc x xs)
    obtain b r where xs: "foldl (best_step field) (0, None) xs = (b, r)" by (metis surj_pair)
    have "\<not> b < column_match_score field x" if "x \<in> set xs"
      using best_step_fold [OF xs] that by (fastforce split: option.splits)
    then show ?case using snoc by (simp add: xs best_step_pair)
  qed
  then show ?thesis by (simp add: resolve_column_map_def)
qed

section \<open>Exact headers\<close>

definition exact_header :: "canonical_field \<Rightarrow> pystr \<Rightarrow> bool" where
  "exact_header field column \<longleftrightarrow> normalize_header column \<noteq> []
     \<and> normalize_header column \<in> normalize_header ` set (field_aliases field)"

lemma alias_step_ge: "best \<le> alias_step field c best alias"
  by (simp add: alias_step_def Let_def)

lemma alias_fold_ge: "best \<le> foldl (alias_step field c) best as"
  by (induction as arbitrary: best) (auto intro: order_trans [OF alias_step_ge])

lemma alias_fold_exact:
  assumes "a \<in> set as" and "normalize_header a = c"
  shows "200 + int (length c) \<le> foldl (alias_step field c) best as"
  using assms
proof (induction as arbitrary: best)
  case Nil
  then show ?case by simp
next
  case (Cons x as)
  show ?case
  proof (cases "x = a")
    case True
    then have "200 + int (length c) \<le> alias_step field c best x"
      using Cons.prems by (simp add: alias_step_def Let_def)
    then show ?thesis using alias_fold_ge order_trans by fastforce
  next
    case False
    with Cons show ?thesis by simp
  qed
qed

lemma alias_fold_le:
  assumes "\<forall>a\<in>set as. normalize_header a \<noteq> c \<and> int (length (normalize_header a)) + match_adjustment field c \<le> m"
    and "best \<le> 100 + m"
  shows "foldl (alias_step field c) best as \<le> 100 + m"
  using assms
proof (induction as arbitrary: best)
  case Nil
  then show ?case by simp
next
  case (Cons x as)
  then have "alias_step field c best x \<le> 100 + m" by (auto simp: alias_step_def Let_def)
  with Cons show ?case by simp
qed

lemma length_strip: "length (strip s) \<le> length s"
  unfolding strip_def by (metis length_dropWhile_le length_rev order_trans)

lemma length_normalize_header: "length (normalize_header s) \<le> length s"
proof -
  have "length (replace_char 160 [32] t) = length t" for t
    by (induction t) (simp_all add: replace_char_def)
  then show ?thesis by (simp add: normalize_header_def length_strip)
qed

lemma length_literals [simp]: "length (asc s) = length s" "length (ru s) = length s"
  by (simp_all add: asc_def ru_def)

lemma alias_bound: "a \<in> set (field_aliases field) \<Longrightarrow> int (length a) + match_adjustment field c \<le> 92"
  by (cases field) (auto split: if_splits)

lemma score_exact:
  assumes "exact_header field column"
  shows "200 < column_match_score field column"
proof -
  obtain a where a: "a \<in> set (field_aliases field)" "normalize_header a = normalize_header column"
    using assms unfolding exact_header_def by (metis imageE)
  have n: "0 < length (normalize_header column)" using assms by (simp add: exact_header_def)
  then have "200 < foldl (alias_step field (normalize_header column)) 0 (field_aliases field)"
    using alias_fold_exact [OF a, of field 0] by linarith
  with n show ?thesis by (simp add: column_match_score_def Let_def)
qed

lemma score_inexact: "\<not> exact_header field column \<Longrightarrow> column_match_score field column \<le> 192"
proof (cases "normalize_header column = []")
  case False
  assume inexact: "\<not> exact_header field column"
  have bound: "int (length (normalize_header a)) + match_adjustment field (normalize_header column) \<le> 92"
    if "a \<in> set (field_aliases field)" for a
    using alias_bound [OF that, of "normalize_header column"] length_normalize_header [of a] by linarith
  then have "foldl (alias_step field (normalize_header column)) 0 (field_aliases field) \<le> 100 + 92"
    using bound
  proof (intro alias_fold_le ballI conjI)
    fix a assume "a \<in> set (field_aliases field)"
    then show "normalize_header a \<noteq> normalize_header column"
      using inexact False unfolding exact_header_def by (metis imageI)
  qed simp_all
  then show ?thesis using False by (simp add: column_match_score_def Let_def)
qed (simp add: column_match_score_def)

lemma resolve_exact:
  assumes "c \<in> set columns" and "exact_header field c"
  shows "\<exists>k. resolve_column_map columns field = Some k \<and> exact_header field k"
proof (cases "resolve_column_map columns field")
  case None
  with resolve_NoneD [OF None] score_exact [OF assms(2)] assms(1) show ?thesis by auto
next
  case (Some k)
  then have "200 < column_match_score field k"
    using resolve_max [OF Some assms(1)] score_exact [OF assms(2)] by linarith
  then have "exact_header field k" using score_inexact [of field k] by (cases "exact_header field k") simp_all
  with Some show ?thesis by simp
qed

end
