(* ===== verification/Wb_Table.thy ===== *)
theory Wb_Table
  imports Column_Mapping
begin

text \<open>
  Cells, header rows and tables of report files (\<open>app/parsers/wb/header_detection.py\<close>). A cell is a
  Python value without NaN (an absent cell is \<open>VNone\<close>). What \<open>csv.reader\<close> and \<open>openpyxl\<close> read from
  the file is data of the model (\<open>report_file\<close>). How floats and dates are written by \<open>str\<close> and
  how dates are read from text is the argument \<open>cell_reader\<close>.
\<close>

section \<open>Cells\<close>

record cell_reader =
  cr_float_text :: "rat \<Rightarrow> pystr"
  cr_date_text :: "date \<Rightarrow> pystr"
  cr_text_date :: "pystr \<Rightarrow> date option"
  cr_pandas_date :: "pyval \<Rightarrow> date option"

definition py_str :: "cell_reader \<Rightarrow> pyval \<Rightarrow> pystr" where
  "py_str cr v = (case v of VNone \<Rightarrow> asc ''None'' | VBool b \<Rightarrow> if b then asc ''True'' else asc ''False''
     | VInt i \<Rightarrow> show_int i | VFloat x \<Rightarrow> cr_float_text cr x | VDec d \<Rightarrow> cr_float_text cr d
     | VStr s \<Rightarrow> s | VDate d \<Rightarrow> cr_date_text cr d)"

definition is_empty_cell :: "pyval \<Rightarrow> bool" where
  "is_empty_cell v = (case v of VNone \<Rightarrow> True | VStr s \<Rightarrow> strip s = [] | _ \<Rightarrow> False)"

definition row_has_data :: "pyval list \<Rightarrow> bool" where
  "row_has_data values \<longleftrightarrow> list_ex (\<lambda>v. \<not> is_empty_cell v) values"

definition cells_to_headers :: "cell_reader \<Rightarrow> pyval list \<Rightarrow> pystr list" where
  "cells_to_headers cr cells = map (\<lambda>c. if is_empty_cell c then [] else strip (py_str cr c)) cells"

section \<open>The header row\<close>

definition max_header_scan_rows :: nat where
  "max_header_scan_rows = 50"

definition min_signature_hits :: nat where
  "min_signature_hits = 2"

definition ru_markers :: "pystr list" where
  "ru_markers = [ru ''k pereqisleniU'', ru ''artikul'', ru ''nomenklatur'', ru ''tip operacii'', asc ''ppvz_for_pay'',
     asc ''supplier_oper_name'', ru ''cena rozniq'']"

text \<open>A Python set of headers is a list without repetitions.\<close>

definition header_signature_score :: "pystr list \<Rightarrow> nat" where
  "header_signature_score headers =
     (let normalized = remdups (map normalize_header (filter (\<lambda>h. strip h \<noteq> []) headers));
          v1 = length (filter (\<lambda>h. h \<in> parser_version_v1_signature) normalized);
          v2 = length (filter (\<lambda>h. h \<in> parser_version_v2_signature) normalized);
          hits = max v1 v2;
          signature_hits = (if hits < min_signature_hits
            then max hits (length (filter (\<lambda>h. list_ex (\<lambda>marker. contains marker h) ru_markers) normalized)) else hits);
          mapped = length (filter (\<lambda>f. case resolve_column_map headers f of None \<Rightarrow> False | Some c \<Rightarrow> c \<noteq> []) canonical_fields)
      in signature_hits * 100 + mapped)"

record table_location =
  tl_sheet_name :: "pystr option"
  tl_header_row_index :: nat
  tl_headers :: "pystr list"
  tl_estimated_data_rows :: nat

definition locate_step :: "cell_reader \<Rightarrow> pyval list list \<Rightarrow> (nat \<times> nat \<times> pystr list \<times> nat) option \<Rightarrow> nat \<times> pyval list \<Rightarrow>
    (nat \<times> nat \<times> pystr list \<times> nat) option" where
  "locate_step cr rows best = (\<lambda>(index, row).
     (let headers = cells_to_headers cr row;
          score = header_signature_score headers
      in if score < min_signature_hits * 100 then best
         else (let data_rows = length (filter row_has_data (drop (index + 1) (take max_header_scan_rows rows)));
                   total_score = score * 10000 + data_rows
               in case best of
                  None \<Rightarrow> Some (total_score, index, headers, data_rows)
                | Some (b, _) \<Rightarrow> if b < total_score then Some (total_score, index, headers, data_rows) else best)))"

definition locate_wb_table_in_rows :: "cell_reader \<Rightarrow> pyval list list \<Rightarrow> table_location option" where
  "locate_wb_table_in_rows cr rows =
     (case foldl (locate_step cr rows) None (enumerate 0 (take max_header_scan_rows rows)) of
        None \<Rightarrow> None
      | Some (_, index, headers, data_rows) \<Rightarrow> Some \<lparr>tl_sheet_name = None, tl_header_row_index = index,
          tl_headers = headers, tl_estimated_data_rows = data_rows\<rparr>)"

type_synonym sheet = "pystr \<times> pyval list list"

definition count_data_rows_after_header :: "pyval list list \<Rightarrow> nat \<Rightarrow> nat" where
  "count_data_rows_after_header rows header_row_index = length (filter row_has_data (drop (header_row_index + 1) rows))"

definition locate_sheet_step :: "cell_reader \<Rightarrow> (nat \<times> table_location) option \<Rightarrow> sheet \<Rightarrow> (nat \<times> table_location) option" where
  "locate_sheet_step cr best = (\<lambda>(title, rows).
     (case locate_wb_table_in_rows cr (take max_header_scan_rows rows) of
        None \<Rightarrow> best
      | Some candidate \<Rightarrow>
          (let data_rows = count_data_rows_after_header rows (tl_header_row_index candidate);
               total_score = header_signature_score (tl_headers candidate) * 10000 + data_rows;
               located = candidate\<lparr>tl_sheet_name := Some title, tl_estimated_data_rows := data_rows\<rparr>
           in case best of
              None \<Rightarrow> Some (total_score, located)
            | Some (b, _) \<Rightarrow> if b < total_score then Some (total_score, located) else best)))"

definition locate_wb_table_in_workbook :: "cell_reader \<Rightarrow> sheet list \<Rightarrow> table_location option" where
  "locate_wb_table_in_workbook cr sheets = map_option snd (foldl (locate_sheet_step cr) None sheets)"

section \<open>Report files\<close>

text \<open>
  A report file on disk: the name of its path, what \<open>csv.reader\<close> yields and the sheets that
  \<open>openpyxl\<close> loads, and the active one.
\<close>

record report_file =
  rf_path_name :: pystr
  rf_csv_rows :: "pystr list list"
  rf_sheets :: "sheet list"
  rf_active :: sheet

text \<open>\<open>Path(name).suffix.lower()\<close>: from the last point of the final component, unless it starts or ends there.\<close>

definition file_suffix :: "pystr \<Rightarrow> pystr" where
  "file_suffix path =
     (let name = rev (takeWhile (\<lambda>c. c \<noteq> 47) (rev path));
          ext = rev (takeWhile (\<lambda>c. c \<noteq> 46) (rev name))
      in if 46 \<in> set name \<and> ext \<noteq> [] \<and> length ext + 1 < length name then lower (46 # ext) else [])"

definition unsupported_streaming :: py_error where
  "unsupported_streaming = ValueError (asc ''Streaming parse is not supported'')"

definition no_data_rows :: py_error where
  "no_data_rows = ValueError (asc ''Report file contains no data rows'')"

definition locate_wb_table :: "cell_reader \<Rightarrow> report_file \<Rightarrow> pystr \<Rightarrow> py_error + table_location" where
  "locate_wb_table cr f filename =
     (if file_suffix filename = asc ''.csv'' then
        (let rows = map (map VStr) (rf_csv_rows f) in
         case locate_wb_table_in_rows cr rows of
           Some located \<Rightarrow> Inr located
         | None \<Rightarrow> (case rows of
             [] \<Rightarrow> Inl no_data_rows
           | r # rs \<Rightarrow> Inr \<lparr>tl_sheet_name = None, tl_header_row_index = 0, tl_headers = cells_to_headers cr r,
               tl_estimated_data_rows = length rs\<rparr>))
      else if file_suffix filename \<noteq> asc ''.xlsx'' then Inl unsupported_streaming
      else (case (case locate_wb_table_in_workbook cr (rf_sheets f) of
              Some located \<Rightarrow> if min_signature_hits * 100 \<le> header_signature_score (tl_headers located) then Some located else None
            | None \<Rightarrow> None) of
          Some located \<Rightarrow> Inr located
        | None \<Rightarrow> (case rf_active f of
            (title, []) \<Rightarrow> Inl no_data_rows
          | (title, r # rs) \<Rightarrow> Inr \<lparr>tl_sheet_name = Some title, tl_header_row_index = 0,
              tl_headers = cells_to_headers cr r, tl_estimated_data_rows = length rs\<rparr>)))"

section \<open>Laws\<close>

lemma locate_step_cases:
  obtains "locate_step cr rows best (i, row) = best"
  | b n where "locate_step cr rows best (i, row) = Some (b, i, cells_to_headers cr row, n)"
      "min_signature_hits * 100 \<le> header_signature_score (cells_to_headers cr row)"
proof (cases "header_signature_score (cells_to_headers cr row) < min_signature_hits * 100")
  case True
  then show ?thesis by (intro that(1)) (simp add: locate_step_def)
next
  case False
  then have ok: "min_signature_hits * 100 \<le> header_signature_score (cells_to_headers cr row)" by simp
  show ?thesis
  proof (cases best)
    case None
    with False show ?thesis by (intro that(2) [OF _ ok]) (simp add: locate_step_def Let_def)
  next
    case (Some p)
    obtain b q where "p = (b, q)" by (metis surj_pair)
    with Some False show ?thesis
      by (cases "locate_step cr rows best (i, row) = best") (auto intro: that simp: ok locate_step_def Let_def split: if_splits)
  qed
qed

lemma locate_fold:
  "foldl (locate_step cr rows) None irs = Some (b, index, headers, n) \<Longrightarrow>
     (\<exists>row. (index, row) \<in> set irs \<and> headers = cells_to_headers cr row) \<and> min_signature_hits * 100 \<le> header_signature_score headers"
proof (induction irs arbitrary: b index headers n rule: rev_induct)
  case Nil
  then show ?case by simp
next
  case (snoc ir irs)
  obtain i row where ir: "ir = (i, row)" by (metis surj_pair)
  show ?case
  proof (cases rule: locate_step_cases [of cr rows "foldl (locate_step cr rows) None irs" i row])
    case 1
    with snoc.prems ir have "foldl (locate_step cr rows) None irs = Some (b, index, headers, n)" by simp
    from snoc.IH [OF this] show ?thesis by auto
  next
    case (2 b' n')
    with snoc.prems ir show ?thesis by auto
  qed
qed

text \<open>A located header row is one of the first fifty rows and has a sufficient signature.\<close>

lemma locate_in_rows_SomeD:
  assumes "locate_wb_table_in_rows cr rows = Some t"
  shows "tl_header_row_index t < min max_header_scan_rows (length rows)"
    and "tl_headers t = cells_to_headers cr (rows ! tl_header_row_index t)"
    and "min_signature_hits * 100 \<le> header_signature_score (tl_headers t)"
proof -
  from assms obtain b index headers n
    where f: "foldl (locate_step cr rows) None (enumerate 0 (take max_header_scan_rows rows)) = Some (b, index, headers, n)"
      and t: "t = \<lparr>tl_sheet_name = None, tl_header_row_index = index, tl_headers = headers, tl_estimated_data_rows = n\<rparr>"
    by (auto simp: locate_wb_table_in_rows_def split: option.splits prod.splits)
  from locate_fold [OF f] obtain row where row: "(index, row) \<in> set (enumerate 0 (take max_header_scan_rows rows))"
    "headers = cells_to_headers cr row" "min_signature_hits * 100 \<le> header_signature_score headers" by blast
  then have i: "index < length (take max_header_scan_rows rows)" "row = take max_header_scan_rows rows ! index"
    by (auto simp: in_set_enumerate_eq)
  then show "tl_header_row_index t < min max_header_scan_rows (length rows)"
    and "tl_headers t = cells_to_headers cr (rows ! tl_header_row_index t)"
    and "min_signature_hits * 100 \<le> header_signature_score (tl_headers t)"
    using row by (simp_all add: t)
qed

end
