(* ===== verification/Wb_Streaming.thy ===== *)
theory Wb_Streaming
  imports Wb_Table
begin

text \<open>
  Rows of a report: the normalized row of a table row (\<open>app/parsers/wb/streaming.py\<close>, the pandas
  strategies of \<open>base.py\<close> and \<open>strategies/\<close>), the row that is read again from the stored raw payload
  (\<open>rehydrate.py\<close>), and the stream of chunks. The laws: the chunks are a partition of the data rows,
  row identifiers are distinct, and reading the stored payload again gives the row back.
\<close>

section \<open>Parsers\<close>

datatype parser_strategy = Realization_V1 | Realization_V2

definition parser_name :: "parser_strategy \<Rightarrow> pystr" where
  "parser_name p = asc ''wb_realization''"

definition parser_version :: "parser_strategy \<Rightarrow> pystr" where
  "parser_version p = (case p of Realization_V1 \<Rightarrow> asc ''v1'' | Realization_V2 \<Rightarrow> asc ''v2'')"

definition signature_hits :: "pystr set \<Rightarrow> pystr list \<Rightarrow> nat" where
  "signature_hits signature headers = length (filter (\<lambda>h. h \<in> signature) (remdups (map normalize_header headers)))"

definition select_parser_from_headers :: "pystr list \<Rightarrow> parser_strategy" where
  "select_parser_from_headers headers =
     (if 2 \<le> signature_hits parser_version_v2_signature (filter (\<lambda>h. h \<noteq> []) headers) then Realization_V2 else Realization_V1)"

text \<open>\<open>supports\<close> of the strategies, in the order of \<open>STRATEGIES\<close>.\<close>

definition select_wb_parser :: "pystr list \<Rightarrow> parser_strategy" where
  "select_wb_parser columns =
     (if 2 \<le> signature_hits parser_version_v2_signature columns then Realization_V2
      else if 2 \<le> signature_hits parser_version_v1_signature columns then Realization_V1 else Realization_V1)"

section \<open>The value of a field\<close>

definition cell_decimal :: "cell_reader \<Rightarrow> pyval \<Rightarrow> decimal option" where
  "cell_decimal cr v = (case v of VNone \<Rightarrow> None | _ \<Rightarrow> parse_decimal (py_str cr v))"

definition parse_date_value :: "cell_reader \<Rightarrow> pyval \<Rightarrow> date option" where
  "parse_date_value cr v =
     (if is_empty_cell v then None
      else case v of VDate d \<Rightarrow> Some d
        | _ \<Rightarrow> (let text = strip (py_str cr v) in if text = [] then None else cr_text_date cr text))"

definition cell_text :: "cell_reader \<Rightarrow> pyval \<Rightarrow> pystr option" where
  "cell_text cr v = (if is_empty_cell v then None else Some (strip (py_str cr v)))"

definition pandas_text :: "cell_reader \<Rightarrow> pyval \<Rightarrow> pystr option" where
  "pandas_text cr v = (case v of VNone \<Rightarrow> None | _ \<Rightarrow> Some (strip (py_str cr v)))"

definition stored_text :: "cell_reader \<Rightarrow> pyval \<Rightarrow> pystr option" where
  "stored_text cr v = (case v of VNone \<Rightarrow> None | _ \<Rightarrow> (let t = strip (py_str cr v) in if t = [] then None else Some t))"

text \<open>The branches that the three readers share; they differ in how dates and texts are read.\<close>

definition canonical_value :: "(pyval \<Rightarrow> date option) \<Rightarrow> (pyval \<Rightarrow> pystr option) \<Rightarrow> (pyval \<Rightarrow> decimal option) \<Rightarrow>
    canonical_field \<Rightarrow> pyval \<Rightarrow> pyval" where
  "canonical_value read_date read_text read_decimal field v =
     (if field \<in> {F_operation_date, F_sale_date} then (case read_date v of None \<Rightarrow> VNone | Some d \<Rightarrow> VDate d)
      else if field = F_quantity then (case read_decimal v of None \<Rightarrow> VNone | Some d \<Rightarrow> VInt (trunc d))
      else if field \<in> {F_sku, F_nm_id, F_warehouse_name, F_operation_type}
        then (case read_text v of None \<Rightarrow> VNone | Some s \<Rightarrow> VStr s)
      else (case read_decimal v of None \<Rightarrow> VNone | Some d \<Rightarrow> VDec d))"

definition date_of_value :: "pyval \<Rightarrow> date option" where
  "date_of_value v = (case v of VDate d \<Rightarrow> Some d | _ \<Rightarrow> None)"

text \<open>\<open>NormalizedWbRow(...)\<close> at the end of \<open>_row_from_values\<close> and \<open>_row_to_normalized\<close>.\<close>

definition row_of_canonical :: "nat \<Rightarrow> canonical \<Rightarrow> (pystr \<times> pystr) list \<Rightarrow> wb_row" where
  "row_of_canonical index c raw = \<lparr>w_source_row_id = asc ''row-'' @ show_nat index, w_source_row_index = int index,
     w_operation_date = date_of_value (c F_operation_date), w_sku = nonempty (text_of (c F_sku)),
     w_nm_id = nonempty (text_of (c F_nm_id)), w_canonical = c, w_raw = raw\<rparr>"

section \<open>Rows\<close>

definition row_map :: "pystr list \<Rightarrow> pyval list \<Rightarrow> (pystr \<times> pyval) list" where
  "row_map headers values = fold (\<lambda>(i, h). AList.update h (if i < length values then values ! i else VNone)) (enumerate 0 headers) []"

definition row_from_values :: "cell_reader \<Rightarrow> pystr list \<Rightarrow> (canonical_field \<Rightarrow> pystr option) \<Rightarrow> nat \<Rightarrow> pyval list \<Rightarrow> wb_row" where
  "row_from_values cr headers column_map index values =
     (let m = row_map headers values;
          raw = map (\<lambda>(k, v). (k, if is_empty_cell v then [] else py_str cr v)) m;
          canonical = (\<lambda>field. case column_map field of None \<Rightarrow> VNone
            | Some column \<Rightarrow> canonical_value (parse_date_value cr) (cell_text cr) (cell_decimal cr) field (dict_get m column VNone))
      in row_of_canonical index canonical raw)"

text \<open>\<open>_row_to_normalized\<close>; a pandas row is an association list from distinct column names, NaN is \<open>VNone\<close>.\<close>

definition row_to_normalized :: "cell_reader \<Rightarrow> (canonical_field \<Rightarrow> pystr option) \<Rightarrow> nat \<Rightarrow> (pystr \<times> pyval) list \<Rightarrow> wb_row" where
  "row_to_normalized cr column_map index row =
     (let raw = map (\<lambda>(k, v). (k, if v = VNone then [] else py_str cr v)) row;
          canonical = (\<lambda>field. case column_map field of None \<Rightarrow> VNone
            | Some column \<Rightarrow> canonical_value (cr_pandas_date cr) (pandas_text cr) (cell_decimal cr) field (dict_get row column VNone))
      in row_of_canonical index canonical raw)"

definition parse_wb_report :: "cell_reader \<Rightarrow> pystr list \<Rightarrow> (nat \<times> pyval list) list \<Rightarrow> parser_strategy \<times> wb_row list" where
  "parse_wb_report cr columns df =
     (select_wb_parser columns,
      map (\<lambda>(index, row). row_to_normalized cr (resolve_column_map columns) index (zip columns row)) df)"

section \<open>Rows from the stored payload\<close>

definition canonical_from_raw_payload :: "cell_reader \<Rightarrow> (pystr \<times> pystr) list \<Rightarrow> canonical" where
  "canonical_from_raw_payload cr raw =
     (\<lambda>field. case resolve_column_map (map fst raw) field of None \<Rightarrow> VNone
        | Some column \<Rightarrow> canonical_value (cr_pandas_date cr) (stored_text cr) (cell_decimal cr) field (VStr (dict_get raw column [])))"

text \<open>The stored columns of a row are the fields of \<open>wb_row\<close>; the canonical payload is not read.\<close>

definition normalized_row_from_stored :: "cell_reader \<Rightarrow> wb_row \<Rightarrow> wb_row" where
  "normalized_row_from_stored cr row =
     (let c = canonical_from_raw_payload cr (w_raw row)
      in row\<lparr>w_operation_date := (case c F_operation_date of VDate d \<Rightarrow> Some d | _ \<Rightarrow> w_operation_date row),
           w_sku := (case nonempty (text_of (c F_sku)) of Some s \<Rightarrow> Some (strip s) | None \<Rightarrow> w_sku row),
           w_nm_id := (case nonempty (text_of (c F_nm_id)) of Some s \<Rightarrow> Some (strip s) | None \<Rightarrow> w_nm_id row),
           w_canonical := c\<rparr>)"

section \<open>The stream of chunks\<close>

text \<open>The loop of \<open>_yield_normalized_chunks\<close>; \<open>mk\<close> makes the row of an index and its values.\<close>

fun yield_loop :: "nat \<Rightarrow> (nat \<Rightarrow> pyval list \<Rightarrow> wb_row) \<Rightarrow> nat \<Rightarrow> wb_row list \<Rightarrow> pyval list list \<Rightarrow> wb_row list list" where
  "yield_loop limit mk index chunk [] = (if chunk = [] then [] else [chunk])"
| "yield_loop limit mk index chunk (values # rest) =
     (if \<not> row_has_data values then yield_loop limit mk index chunk rest
      else (let chunk' = chunk @ [mk index values] in
        if limit \<le> length chunk' then chunk' # yield_loop limit mk (index + 1) [] rest
        else yield_loop limit mk (index + 1) chunk' rest))"

definition yield_normalized_chunks :: "cell_reader \<Rightarrow> nat \<Rightarrow> pystr list \<Rightarrow> pyval list list \<Rightarrow> (parser_strategy \<times> wb_row list) list" where
  "yield_normalized_chunks cr limit headers rows =
     map (Pair (select_parser_from_headers headers))
       (yield_loop limit (row_from_values cr headers (resolve_column_map headers)) 0 [] rows)"

definition iter_csv_chunks :: "cell_reader \<Rightarrow> nat \<Rightarrow> report_file \<Rightarrow> py_error + (parser_strategy \<times> wb_row list) list" where
  "iter_csv_chunks cr limit f = sbind (locate_wb_table cr f (rf_path_name f)) (\<lambda>located.
     Inr (yield_normalized_chunks cr limit (tl_headers located)
       (drop (tl_header_row_index located + 1) (map (map VStr) (rf_csv_rows f)))))"

definition iter_wb_normalized_rows :: "cell_reader \<Rightarrow> nat \<Rightarrow> report_file \<Rightarrow> pystr \<Rightarrow> py_error + (parser_strategy \<times> wb_row list) list" where
  "iter_wb_normalized_rows cr limit f filename =
     (if file_suffix filename = asc ''.csv'' then iter_csv_chunks cr limit f
      else if file_suffix filename \<noteq> asc ''.xlsx'' then Inl unsupported_streaming
      else sbind (locate_wb_table cr f filename) (\<lambda>located.
        (let title = (case nonempty (tl_sheet_name located) of Some t \<Rightarrow> t | None \<Rightarrow> fst (rf_active f)) in
         case map_of (rf_sheets f) title of
           None \<Rightarrow> Inl (KeyError title)
         | Some rows \<Rightarrow> Inr (yield_normalized_chunks cr limit (tl_headers located) (drop (tl_header_row_index located + 1) rows)))))"

section \<open>Laws of the stream\<close>

definition data_rows :: "pyval list list \<Rightarrow> pyval list list" where
  "data_rows rows = filter row_has_data rows"

definition numbered_rows :: "(nat \<Rightarrow> pyval list \<Rightarrow> wb_row) \<Rightarrow> nat \<Rightarrow> pyval list list \<Rightarrow> wb_row list" where
  "numbered_rows mk index rows = map (\<lambda>(i, v). mk i v) (enumerate index (data_rows rows))"

lemma yield_loop_concat: "concat (yield_loop limit mk index chunk rows) = chunk @ numbered_rows mk index rows"
  by (induction limit mk index chunk rows rule: yield_loop.induct)
    (simp_all add: numbered_rows_def data_rows_def Let_def)

lemma yield_loop_sizes:
  "0 < limit \<Longrightarrow> length chunk < limit \<Longrightarrow> c \<in> set (yield_loop limit mk index chunk rows) \<Longrightarrow> c \<noteq> [] \<and> length c \<le> limit"
  by (induction limit mk index chunk rows rule: yield_loop.induct) (auto simp: Let_def split: if_splits)

lemma yield_loop_full:
  "0 < limit \<Longrightarrow> length chunk < limit \<Longrightarrow> c \<in> set (butlast (yield_loop limit mk index chunk rows)) \<Longrightarrow> length c = limit"
proof (induction limit mk index chunk rows rule: yield_loop.induct)
  case (2 limit mk index chunk vs rest)
  let ?chunk = "chunk @ [mk index vs]"
  show ?case
  proof (cases "row_has_data vs \<and> limit \<le> length ?chunk")
    case True
    then have eq: "yield_loop limit mk index chunk (vs # rest) = ?chunk # yield_loop limit mk (index + 1) [] rest" by simp
    have "length ?chunk = limit" using True 2(5) by simp
    moreover have "length c = limit" if "c \<in> set (butlast (yield_loop limit mk (index + 1) [] rest))"
      using 2(2) [of ?chunk] True 2(4) that by simp
    ultimately show ?thesis using 2(6) unfolding eq by (auto split: if_splits)
  next
    case False
    with 2 show ?thesis by (auto simp: Let_def split: if_splits)
  qed
qed (simp split: if_splits)

lemma numbered_rows_map: "numbered_rows mk index rows = map (\<lambda>k. mk (index + k) (data_rows rows ! k)) [0..<length (data_rows rows)]"
  by (rule nth_equalityI) (simp_all add: numbered_rows_def nth_enumerate_eq)

text \<open>Identifiers.\<close>

lemma nat_of_digits_append: "nat_of_digits (s @ [c]) = 10 * nat_of_digits s + (c - 48)"
  by (simp add: nat_of_digits_def)

lemma nat_of_show_nat [simp]: "nat_of_digits (show_nat n) = n"
proof (induction n rule: show_nat.induct)
  case (1 n)
  show ?case
  proof (cases "n < 10")
    case True
    then show ?thesis by (subst show_nat.simps) (simp add: nat_of_digits_def)
  next
    case False
    then have "nat_of_digits (show_nat n) = 10 * nat_of_digits (show_nat (n div 10)) + n mod 10"
      by (subst show_nat.simps) (simp add: nat_of_digits_append)
    also have "\<dots> = n" using 1 False by simp
    finally show ?thesis .
  qed
qed

lemma show_nat_inject [simp]: "show_nat m = show_nat n \<longleftrightarrow> m = n"
  by (metis nat_of_show_nat)

lemma show_nat_digits: "list_all is_digit (show_nat n)"
proof (induction n rule: show_nat.induct)
  case (1 n)
  show ?case
  proof (cases "n < 10")
    case True
    then show ?thesis by (subst show_nat.simps) (simp add: is_digit_def)
  next
    case False
    then have "list_all is_digit (show_nat (n div 10))" by (rule 1)
    moreover have "is_digit (48 + n mod 10)" using mod_less_divisor [of 10 n] by (simp add: is_digit_def)
    ultimately show ?thesis using False by (subst show_nat.simps) simp
  qed
qed

lemma row_of_canonical_id [simp]: "w_source_row_id (row_of_canonical i c raw) = asc ''row-'' @ show_nat i"
  by (simp add: row_of_canonical_def)

lemma row_from_values_id [simp]: "w_source_row_id (row_from_values cr headers cm i vs) = asc ''row-'' @ show_nat i"
  by (simp add: row_from_values_def Let_def)

lemma numbered_ids:
  "map w_source_row_id (numbered_rows (row_from_values cr headers cm) index rows) =
     map (\<lambda>k. asc ''row-'' @ show_nat k) [index..<index + length (data_rows rows)]"
  by (rule nth_equalityI) (simp_all add: numbered_rows_def nth_enumerate_eq)

lemma numbered_ids_distinct: "distinct (map w_source_row_id (numbered_rows (row_from_values cr headers cm) index rows))"
  by (simp add: numbered_ids distinct_map inj_on_def)

lemma numbered_ids_no_colon:
  assumes "row \<in> set (numbered_rows (row_from_values cr headers cm) index rows)"
  shows "58 \<notin> set (w_source_row_id row)"
proof -
  from assms have "w_source_row_id row \<in> set (map w_source_row_id (numbered_rows (row_from_values cr headers cm) index rows))" by simp
  then obtain k where "w_source_row_id row = asc ''row-'' @ show_nat k" unfolding numbered_ids by auto
  moreover have "58 \<notin> set (show_nat k)" using show_nat_digits [of k] by (auto simp: list_all_iff is_digit_def)
  ultimately show ?thesis by (simp add: asc_def)
qed

section \<open>Laws of the stored payload\<close>

definition raw_text :: "cell_reader \<Rightarrow> pyval \<Rightarrow> pystr" where
  "raw_text cr v = (if is_empty_cell v then [] else py_str cr v)"

text \<open>
  What the round trip relies on: a cell that is not empty has a text that is not blank, and the
  two ways of reading dates agree on the text of a cell.
\<close>

definition reader_agrees :: "cell_reader \<Rightarrow> pyval list \<Rightarrow> bool" where
  "reader_agrees cr values \<longleftrightarrow> (\<forall>v\<in>set (VNone # values). (is_empty_cell v \<or> strip (py_str cr v) \<noteq> [])
     \<and> cr_pandas_date cr (VStr (raw_text cr v)) = parse_date_value cr v)"

lemma row_map_keys: "map fst (row_map headers values) = rev (remdups (rev headers))"
proof (induction headers rule: rev_induct)
  case Nil
  then show ?case by (simp add: row_map_def)
next
  case (snoc h hs)
  have "row_map (hs @ [h]) values = AList.update h (if length hs < length values then values ! length hs else VNone) (row_map hs values)"
    by (simp add: row_map_def enumerate_append_eq)
  with snoc show ?case by (simp add: update_keys)
qed

lemma row_map_values: "(k, v) \<in> set (row_map headers values) \<Longrightarrow> v \<in> set (VNone # values)"
proof (induction headers arbitrary: k v rule: rev_induct)
  case Nil
  then show ?case by (simp add: row_map_def)
next
  case (snoc h hs)
  have "row_map (hs @ [h]) values = AList.update h (if length hs < length values then values ! length hs else VNone) (row_map hs values)"
    by (simp add: row_map_def enumerate_append_eq)
  with snoc.prems have "(k, v) \<in> set (AList.update h (if length hs < length values then values ! length hs else VNone) (row_map hs values))"
    by simp
  from update_mem [OF this] have "v = (if length hs < length values then values ! length hs else VNone) \<or> (k, v) \<in> set (row_map hs values)"
    by auto
  then show ?case using snoc.IH by auto
qed

lemma is_empty_cell_raw: "is_empty_cell v \<or> strip (py_str cr v) \<noteq> [] \<Longrightarrow> strip (raw_text cr v) = [] \<longleftrightarrow> is_empty_cell v"
  by (auto simp: raw_text_def strip_def)

lemma parse_decimal_blank: "strip s = [] \<Longrightarrow> parse_decimal s = None"
  by (simp add: parse_decimal_def replace_char_def)

lemma cell_decimal_raw: "cell_decimal cr (VStr (raw_text cr v)) = cell_decimal cr v"
  by (cases v) (auto simp: cell_decimal_def raw_text_def is_empty_cell_def py_str_def parse_decimal_blank strip_def)

lemma stored_text_raw:
  "is_empty_cell v \<or> strip (py_str cr v) \<noteq> [] \<Longrightarrow> stored_text cr (VStr (raw_text cr v)) = cell_text cr v"
  by (auto simp: stored_text_def cell_text_def py_str_def raw_text_def Let_def strip_def)

lemma canonical_value_raw:
  assumes "reader_agrees cr values" and "v \<in> set (VNone # values)"
  shows "canonical_value (cr_pandas_date cr) (stored_text cr) (cell_decimal cr) field (VStr (raw_text cr v)) =
    canonical_value (parse_date_value cr) (cell_text cr) (cell_decimal cr) field v"
proof -
  have "is_empty_cell v \<or> strip (py_str cr v) \<noteq> []" "cr_pandas_date cr (VStr (raw_text cr v)) = parse_date_value cr v"
    using assms unfolding reader_agrees_def by blast+
  then show ?thesis by (simp add: canonical_value_def stored_text_raw cell_decimal_raw)
qed

lemma row_from_values_raw: "w_raw (row_from_values cr headers cm i vs) = map (\<lambda>(k, v). (k, raw_text cr v)) (row_map headers vs)"
  by (simp add: row_from_values_def row_of_canonical_def raw_text_def Let_def)

lemma row_from_values_canonical: "w_canonical (row_from_values cr headers cm i vs) =
    (\<lambda>field. case cm field of None \<Rightarrow> VNone
       | Some column \<Rightarrow> canonical_value (parse_date_value cr) (cell_text cr) (cell_decimal cr) field (dict_get (row_map headers vs) column VNone))"
  by (simp add: row_from_values_def row_of_canonical_def Let_def)

lemma canonical_rehydrated:
  assumes "reader_agrees cr vs"
  shows "canonical_from_raw_payload cr (w_raw (row_from_values cr headers (resolve_column_map headers) i vs)) =
    w_canonical (row_from_values cr headers (resolve_column_map headers) i vs)"
proof
  fix field
  let ?m = "row_map headers vs"
  have keys: "map fst (map (\<lambda>(k, v). (k, raw_text cr v)) ?m) = rev (remdups (rev headers))"
    by (simp add: comp_def split_def row_map_keys)
  have lookup: "map_of (map (\<lambda>(k, v). (k, raw_text cr v)) ?m) c = map_option (raw_text cr) (map_of ?m c)" for c
    by (rule map_of_map_snd)
  show "canonical_from_raw_payload cr (w_raw (row_from_values cr headers (resolve_column_map headers) i vs)) field =
    w_canonical (row_from_values cr headers (resolve_column_map headers) i vs) field"
  proof (cases "resolve_column_map headers field")
    case None
    then show ?thesis
      by (simp add: canonical_from_raw_payload_def row_from_values_raw row_from_values_canonical keys resolve_remdups del: map_map)
  next
    case (Some c)
    have "c \<in> set (map fst ?m)" using resolve_mem [OF Some] by (simp add: row_map_keys)
    then obtain v where v: "map_of ?m c = Some v" by (metis list.set_map map_of_eq_None_iff not_Some_eq)
    then have "v \<in> set (VNone # vs)" by (rule row_map_values [OF map_of_SomeD])
    note eq = canonical_value_raw [OF assms this, of field]
    show ?thesis
      by (simp add: canonical_from_raw_payload_def row_from_values_raw row_from_values_canonical keys resolve_remdups Some
          dict_get_def lookup v eq del: map_map)
  qed
qed

lemma canonical_text_stripped:
  assumes "text_of (canonical_value rd (cell_text cr) dec field v) = Some s"
  shows "strip s = s"
  using assms by (auto simp: canonical_value_def text_of_def cell_text_def split: option.splits if_splits)

lemma from_stored_same:
  assumes "canonical_from_raw_payload cr (w_raw r) = w_canonical r"
    and "w_operation_date r = date_of_value (w_canonical r F_operation_date)"
    and "w_sku r = nonempty (text_of (w_canonical r F_sku))" and "w_nm_id r = nonempty (text_of (w_canonical r F_nm_id))"
    and "\<And>s. w_sku r = Some s \<or> w_nm_id r = Some s \<Longrightarrow> strip s = s"
  shows "normalized_row_from_stored cr r = r"
proof -
  have date: "(case w_canonical r F_operation_date of VDate d \<Rightarrow> Some d | _ \<Rightarrow> w_operation_date r) = w_operation_date r"
    by (simp add: assms(2) date_of_value_def split: pyval.splits)
  have sku: "(case w_sku r of Some s \<Rightarrow> Some (strip s) | None \<Rightarrow> w_sku r) = w_sku r"
    using assms(5) by (cases "w_sku r") simp_all
  have nm: "(case w_nm_id r of Some s \<Rightarrow> Some (strip s) | None \<Rightarrow> w_nm_id r) = w_nm_id r"
    using assms(5) by (cases "w_nm_id r") simp_all
  show ?thesis
    unfolding normalized_row_from_stored_def Let_def assms(1) assms(3) [symmetric] assms(4) [symmetric] date sku nm by simp
qed

lemma rehydrate_row:
  assumes "reader_agrees cr vs"
  shows "normalized_row_from_stored cr (row_from_values cr headers (resolve_column_map headers) i vs) =
    row_from_values cr headers (resolve_column_map headers) i vs"
proof (rule from_stored_same)
  let ?r = "row_from_values cr headers (resolve_column_map headers) i vs"
  show "canonical_from_raw_payload cr (w_raw ?r) = w_canonical ?r" by (rule canonical_rehydrated [OF assms])
  show "w_operation_date ?r = date_of_value (w_canonical ?r F_operation_date)"
    and sku: "w_sku ?r = nonempty (text_of (w_canonical ?r F_sku))" and nm: "w_nm_id ?r = nonempty (text_of (w_canonical ?r F_nm_id))"
    by (simp_all add: row_from_values_def row_of_canonical_def Let_def)
  fix s assume "w_sku ?r = Some s \<or> w_nm_id ?r = Some s"
  then obtain f where "nonempty (text_of (w_canonical ?r f)) = Some s" unfolding sku nm by blast
  then show "strip s = s"
    using canonical_text_stripped [of "parse_date_value cr" cr "cell_decimal cr" f]
    by (auto simp: row_from_values_canonical nonempty_def text_of_def split: option.splits if_splits)
qed

end
