(* ===== verification/Wb_Process.thy ===== *)
theory Wb_Process
  imports Data_Quality Wb_Streaming Profit_Analytics Snapshot_Rebuild Table_Ops
begin

text \<open>
  The computation of an import: the in-memory processor (\<open>app/etl/wb/processor.py\<close>), the chunks of
  the streamed parse (\<open>stream_process.py\<close>, \<open>stream_types.py\<close>) and the state that is merged from chunk
  to chunk. What pandas reads from a file is an argument. The JSON form of the analytics
  payload is not modelled.
\<close>

section \<open>Results\<close>

definition process_chunk_size :: nat where "process_chunk_size = 1000"
definition raw_snapshot_sample_rows :: nat where "raw_snapshot_sample_rows = 5000"

record raw_snapshot =
  rs_columns :: "pystr list"
  rs_row_count :: nat
  rs_sample_rows :: "(pystr \<times> pystr) list list"

record top_sku =
  tk_sku :: pystr
  tk_revenue :: decimal
  tk_profit :: decimal
  tk_units_sold :: int

record insight_input =
  ii_report_id :: uuid
  ii_report_date :: date
  ii_sku_count :: nat
  ii_total_revenue :: decimal
  ii_total_profit :: decimal
  ii_margin :: "decimal option"
  ii_top_skus :: "top_sku list"
  ii_loss_analytics :: "loss_analytics option"

record process_result =
  pr_report_id :: uuid
  pr_parser :: "parser_strategy option"
  pr_raw_snapshot :: raw_snapshot
  pr_normalized_rows :: "wb_row list"
  pr_ledger_entries :: "entry_draft list"
  pr_inventory_movements :: "movement_draft list"
  pr_reconciliation :: reconciliation_result
  pr_daily_aggregates :: "daily_aggregate list"
  pr_sku_daily_metrics :: "sku_daily_metric list"
  pr_insight :: insight_input
  pr_default_date :: date
  pr_row_count :: nat
  pr_etl_anomalies :: "anomaly_draft list"
  pr_streamed :: bool
  pr_earliest_movement_date :: "date option"

definition raw_snapshot_from_normalized_rows :: "wb_row list \<Rightarrow> raw_snapshot" where
  "raw_snapshot_from_normalized_rows rows =
     (let sample = take raw_snapshot_sample_rows rows
      in \<lparr>rs_columns = (case sample of [] \<Rightarrow> [] | r # _ \<Rightarrow> sort (remdups (map fst (w_raw r)))),
          rs_row_count = length rows, rs_sample_rows = map w_raw sample\<rparr>)"

section \<open>Merging reconciliations\<close>

definition merge_reconciliation :: "reconciliation_result \<Rightarrow> reconciliation_result \<Rightarrow> reconciliation_result" where
  "merge_reconciliation l r =
     (let gross = dadd (rr_gross_revenue l) (rr_gross_revenue r);
          commissions = dadd (rr_wb_commissions l) (rr_wb_commissions r);
          logistics = dadd (rr_logistics l) (rr_logistics r);
          deductions = dadd (rr_deductions l) (rr_deductions r);
          returns_amount = dadd (rr_returns_amount l) (rr_returns_amount r);
          payout_actual = dadd (rr_actual_payout l) (rr_actual_payout r);
          net = foldl dsub gross [commissions, logistics, deductions, returns_amount]
      in \<lparr>rr_gross_revenue = gross, rr_net_revenue = net, rr_wb_commissions = commissions, rr_logistics = logistics,
          rr_deductions = deductions, rr_returns_amount = returns_amount, rr_expected_payout = net,
          rr_actual_payout = payout_actual, rr_difference = dsub payout_actual net\<rparr>)"

definition merge_partial :: "reconciliation_result option \<Rightarrow> reconciliation_result \<Rightarrow> reconciliation_result" where
  "merge_partial acc partial = (case acc of None \<Rightarrow> partial | Some r \<Rightarrow> merge_reconciliation r partial)"

text \<open>The reconciliation of a report from those of its chunks, of which there may be none.\<close>

definition merged_reconciliation :: "entry_draft list list \<Rightarrow> reconciliation_result" where
  "merged_reconciliation chunks =
     (case foldl (\<lambda>acc c. Some (merge_partial acc (reconcile_payout c))) None chunks of
        None \<Rightarrow> reconcile_payout [] | Some r \<Rightarrow> r)"

section \<open>The in-memory processor\<close>

fun process_chunks :: "lifecycle_cache \<Rightarrow> date \<Rightarrow> cost_table \<Rightarrow> wb_row list list \<Rightarrow>
    py_error + (entry_draft list list \<times> movement_draft list)" where
  "process_chunks lifecycle default_date costs [] = Inr ([], [])"
| "process_chunks lifecycle default_date costs (chunk # chunks) =
     sbind (movements_from_rows lifecycle default_date costs chunk) (\<lambda>movements.
     sbind (process_chunks lifecycle default_date costs chunks) (\<lambda>(ledgers, rest).
       Inr (from_normalized_rows default_date chunk # ledgers, movements @ rest)))"

definition top_skus_of :: "sku_daily_metric list \<Rightarrow> top_sku list" where
  "top_skus_of metrics = map (\<lambda>m. \<lparr>tk_sku = sm_sku m, tk_revenue = pm_revenue (sm_metrics m),
      tk_profit = pm_net_profit (sm_metrics m), tk_units_sold = pm_units_sold (sm_metrics m)\<rparr>)
     (take 5 (sorted_desc (\<lambda>m. pm_revenue (sm_metrics m)) metrics))"

definition sku_count :: "wb_row list \<Rightarrow> nat" where
  "sku_count rows = length (remdups (concat (map (\<lambda>r. case nonempty (w_sku r) of None \<Rightarrow> [] | Some s \<Rightarrow> [s]) rows)))"

text \<open>The insight and the analytics, of \<open>process\<close> and again with costs in \<open>enrich_with_costs\<close>.\<close>

definition prepare_insight :: "uuid \<Rightarrow> date \<Rightarrow> wb_row list \<Rightarrow> decimal \<Rightarrow> daily_aggregate list \<Rightarrow> sku_daily_metric list \<Rightarrow>
    loss_analytics \<Rightarrow> insight_input" where
  "prepare_insight report_id default_date rows total_revenue daily sku_metrics losses =
     (let total_profit = dsum (map (\<lambda>d. pm_net_profit (da_metrics d)) daily)
      in \<lparr>ii_report_id = report_id, ii_report_date = default_date, ii_sku_count = sku_count rows,
          ii_total_revenue = total_revenue, ii_total_profit = total_profit,
          ii_margin = percent_of total_profit total_revenue, ii_top_skus = top_skus_of sku_metrics,
          ii_loss_analytics = Some losses\<rparr>)"

definition process :: "lifecycle_cache \<Rightarrow> uuid \<Rightarrow> date \<Rightarrow> pystr \<Rightarrow> cost_table \<Rightarrow> parser_strategy \<times> wb_row list \<Rightarrow> py_error + process_result" where
  "process lifecycle report_id default_date filename costs parsed =
     sbind (assert_ingest_allowed lifecycle version_1) (\<lambda>_.
     (let (parser, rows) = parsed in
      sbind (process_chunks lifecycle default_date costs (iter_chunks process_chunk_size rows)) (\<lambda>(ledgers, movements).
      (let ledger = concat ledgers;
           reconciliation = merged_reconciliation ledgers;
           (daily, sku_metrics) = build_aggregates MP_WILDBERRIES costs ledger
       in sbind (smap ledger_row_of_draft movements) (\<lambda>ledger_rows.
          sbind (pipeline_rebuild lifecycle costs None None None ledger_rows) (\<lambda>(snapshots, losses).
          Inr \<lparr>pr_report_id = report_id, pr_parser = Some parser,
            pr_raw_snapshot = raw_snapshot_from_normalized_rows rows, pr_normalized_rows = rows,
            pr_ledger_entries = ledger, pr_inventory_movements = movements, pr_reconciliation = reconciliation,
            pr_daily_aggregates = daily, pr_sku_daily_metrics = sku_metrics,
            pr_insight = prepare_insight report_id default_date rows (rr_gross_revenue reconciliation) daily sku_metrics losses,
            pr_default_date = default_date, pr_row_count = length rows,
            pr_etl_anomalies = snd (validate_wb_process report_id filename default_date (\<lambda>_. 0) movements),
            pr_streamed = False, pr_earliest_movement_date = None\<rparr>))))))"

definition enrich_with_costs :: "lifecycle_cache \<Rightarrow> cost_table \<Rightarrow> process_result \<Rightarrow> py_error + process_result" where
  "enrich_with_costs lifecycle costs result =
     (if pr_streamed result then Inr result
      else (let (daily, sku_metrics) = build_aggregates MP_WILDBERRIES costs (pr_ledger_entries result) in
        sbind (process_chunks lifecycle (pr_default_date result) costs (iter_chunks process_chunk_size (pr_normalized_rows result)))
          (\<lambda>(_, movements).
        sbind (smap ledger_row_of_draft movements) (\<lambda>ledger_rows.
        sbind (pipeline_rebuild lifecycle costs None None None ledger_rows) (\<lambda>(snapshots, losses).
        Inr (result\<lparr>pr_inventory_movements := movements, pr_daily_aggregates := daily, pr_sku_daily_metrics := sku_metrics,
          pr_insight := prepare_insight (pr_report_id result) (pr_default_date result) (pr_normalized_rows result)
            (rr_gross_revenue (pr_reconciliation result)) daily sku_metrics losses\<rparr>))))))"

section \<open>The streamed parse\<close>

record process_chunk =
  pc_parser :: parser_strategy
  pc_normalized_rows :: "wb_row list"
  pc_ledger_entries :: "entry_draft list"
  pc_inventory_movements :: "movement_draft list"
  pc_reconciliation :: reconciliation_result

text \<open>One round of \<open>WbStreamChunkIterator\<close>: the chunk and the anomalies found in it.\<close>

definition make_chunk :: "lifecycle_cache \<Rightarrow> uuid \<Rightarrow> pystr \<Rightarrow> date \<Rightarrow> cost_table \<Rightarrow> seen_keys \<Rightarrow> parser_strategy \<times> wb_row list \<Rightarrow>
    py_error + (process_chunk \<times> seen_keys \<times> anomaly_draft list)" where
  "make_chunk lifecycle report_id filename default_date costs seen = (\<lambda>(parser, rows).
     sbind (movements_from_rows lifecycle default_date costs rows) (\<lambda>movements.
     (let ledger = from_normalized_rows default_date rows;
          (seen', anomalies) = validate_wb_process report_id filename default_date seen movements
      in Inr (\<lparr>pc_parser = parser, pc_normalized_rows = rows, pc_ledger_entries = ledger,
           pc_inventory_movements = movements, pc_reconciliation = reconcile_payout ledger\<rparr>, seen', anomalies))))"

section \<open>The state between chunks\<close>

record stream_state =
  st_reconciliation :: "reconciliation_result option"
  st_rows :: nat
  st_opening :: "movement_draft list"
  st_first_dates :: "(sku_warehouse \<times> date) list"
  st_earliest :: "date option"
  st_sample_rows :: "(pystr \<times> pystr) list list"
  st_columns :: "pystr list"
  st_sku_ids :: "pystr list"

definition empty_stream :: stream_state where
  "empty_stream = \<lparr>st_reconciliation = None, st_rows = 0, st_opening = [], st_first_dates = [], st_earliest = None,
     st_sample_rows = [], st_columns = [], st_sku_ids = []\<rparr>"

definition merge_movement :: "stream_state \<Rightarrow> movement_draft \<Rightarrow> stream_state" where
  "merge_movement s m =
     (let s1 = (if is_opening_balance_movement (md_canonical_payload m) then s\<lparr>st_opening := st_opening s @ [m]\<rparr>
        else if nonempty (md_sku m) \<noteq> None then
          (let key = (md_sku m, md_warehouse_name m) in
           case map_of (st_first_dates s) key of
             None \<Rightarrow> s\<lparr>st_first_dates := AList.update key (md_operation_date m) (st_first_dates s)\<rparr>
           | Some existing \<Rightarrow> if md_operation_date m < existing
               then s\<lparr>st_first_dates := AList.update key (md_operation_date m) (st_first_dates s)\<rparr> else s)
        else s)
      in case st_earliest s1 of
           None \<Rightarrow> s1\<lparr>st_earliest := Some (md_operation_date m)\<rparr>
         | Some e \<Rightarrow> if md_operation_date m < e then s1\<lparr>st_earliest := Some (md_operation_date m)\<rparr> else s1)"

definition merge_row :: "stream_state \<Rightarrow> wb_row \<Rightarrow> stream_state" where
  "merge_row s r =
     (let s1 = (case nonempty (w_sku r) of None \<Rightarrow> s | Some k \<Rightarrow> s\<lparr>st_sku_ids := List.insert k (st_sku_ids s)\<rparr>)
      in if length (st_sample_rows s1) < raw_snapshot_sample_rows
         then s1\<lparr>st_columns := fold List.insert (map fst (w_raw r)) (st_columns s1), st_sample_rows := st_sample_rows s1 @ [w_raw r]\<rparr>
         else s1)"

definition merge_stream_state :: "stream_state \<Rightarrow> process_chunk \<Rightarrow> stream_state" where
  "merge_stream_state s chunk =
     (let s1 = foldl merge_movement s (pc_inventory_movements chunk);
          s2 = foldl merge_row s1 (pc_normalized_rows chunk)
      in s2\<lparr>st_reconciliation := Some (merge_partial (st_reconciliation s2) (pc_reconciliation chunk))\<rparr>)"

definition build_streamed_result :: "uuid \<Rightarrow> parser_strategy option \<Rightarrow> date \<Rightarrow> stream_state \<Rightarrow> anomaly_draft list \<Rightarrow> process_result" where
  "build_streamed_result report_id parser default_date s anomalies =
     (let reconciliation = (case st_reconciliation s of None \<Rightarrow> reconcile_payout [] | Some r \<Rightarrow> r)
      in \<lparr>pr_report_id = report_id, pr_parser = parser,
          pr_raw_snapshot = \<lparr>rs_columns = sort (st_columns s), rs_row_count = st_rows s, rs_sample_rows = st_sample_rows s\<rparr>,
          pr_normalized_rows = [], pr_ledger_entries = [], pr_inventory_movements = [],
          pr_reconciliation = reconciliation, pr_daily_aggregates = [], pr_sku_daily_metrics = [],
          pr_insight = \<lparr>ii_report_id = report_id, ii_report_date = default_date, ii_sku_count = length (st_sku_ids s),
            ii_total_revenue = rr_gross_revenue reconciliation, ii_total_profit = 0, ii_margin = None, ii_top_skus = [],
            ii_loss_analytics = None\<rparr>,
          pr_default_date = default_date, pr_row_count = st_rows s, pr_etl_anomalies = anomalies,
          pr_streamed = True, pr_earliest_movement_date = st_earliest s\<rparr>)"

end
