(* ===== verification/Wb_Persist.thy ===== *)
theory Wb_Persist
  imports Wb_Process Aggregate_Projections Etl_Queue
begin

text \<open>
  Persisting an import: the layered idempotent inserts (\<open>app/etl/wb/persist_layers.py\<close>), the phases with
  their checks (\<open>persist.py\<close>, \<open>row_counts.py\<close>) and the streamed import that writes chunk by chunk
  (\<open>stream_pipeline.py\<close>). The tables are those of one tenant. A phase that fails leaves the tables as
  they were, as its transaction is rolled back; the worker runs the phases in one transaction.
\<close>

section \<open>Tables\<close>

record raw_report =
  rw_report_id :: uuid
  rw_storage_uri :: pystr
  rw_file_checksum :: pystr
  rw_parser :: "parser_strategy option"
  rw_row_count :: nat

record wb_tables =
  tb_raw :: "raw_report list"
  tb_normalized :: "stored_row list"
  tb_ledger :: "ledger_table_row list"
  tb_inventory :: "ledger_entry list"
  tb_reconciliation :: "(uuid \<times> reconciliation_result) list"
  tb_live :: "stock_snapshot list"
  tb_projections :: projections
  tb_costs :: "sku_cost list"
  tb_mappings :: "(pystr \<times> pystr) list"

record wb_report =
  rp_id :: uuid
  rp_created_date :: date
  rp_row_count :: "nat option"
  rp_file_checksum :: pystr
  rp_file_path :: pystr

definition normalized_key :: "stored_row \<Rightarrow> uuid \<times> pystr" where
  "normalized_key s = (st_report_id s, w_source_row_id (st_row s))"

definition inventory_key :: "ledger_entry \<Rightarrow> uuid \<times> pystr \<times> inventory_op" where
  "inventory_key e = (le_report_id e, lr_source_row_id (le_row e), lr_operation_type (le_row e))"

definition stored_of_row :: "uuid \<Rightarrow> wb_row \<Rightarrow> stored_row" where
  "stored_of_row report_id row = \<lparr>st_report_id = report_id, st_source_row_index = w_source_row_index row, st_row = row\<rparr>"

definition ledger_of_draft :: "uuid \<Rightarrow> entry_draft \<Rightarrow> ledger_table_row" where
  "ledger_of_draft report_id e = \<lparr>lt_report_id = report_id, lt_entry = e\<rparr>"

text \<open>\<open>now\<close> is the server default of \<open>created_at\<close>.\<close>

definition inventory_of_draft :: "instant \<Rightarrow> uuid \<Rightarrow> movement_draft \<Rightarrow> ledger_entry" where
  "inventory_of_draft now report_id m = \<lparr>le_row = \<lparr>lr_operation_date = md_operation_date m, lr_sku = md_sku m, lr_nm_id = md_nm_id m,
       lr_warehouse_name = md_warehouse_name m, lr_operation_type = md_operation_type m,
       lr_quantity_delta = md_quantity_delta m, lr_cost_per_unit = md_cost_per_unit m,
       lr_sale_price_per_unit = md_sale_price_per_unit m, lr_semantics_version = md_semantics_version m,
       lr_source_row_id = md_source_row_id m\<rparr>,
     le_version = Some (md_semantics_version m), le_created_at = now, le_report_id = report_id\<rparr>"

section \<open>Layers\<close>

definition persist_raw_report :: "wb_report \<Rightarrow> process_result \<Rightarrow> wb_tables \<Rightarrow> wb_tables" where
  "persist_raw_report report result t = t\<lparr>tb_raw := insert_ignore rw_report_id
     \<lparr>rw_report_id = rp_id report, rw_storage_uri = rp_file_path report, rw_file_checksum = rp_file_checksum report,
      rw_parser = pr_parser result, rw_row_count = pr_row_count result\<rparr> (tb_raw t)\<rparr>"

definition persist_normalized_rows :: "uuid \<Rightarrow> wb_row list \<Rightarrow> wb_tables \<Rightarrow> wb_tables" where
  "persist_normalized_rows report_id rows t =
     (if rows = [] then t
      else t\<lparr>tb_normalized := insert_batches normalized_key (map (stored_of_row report_id) rows) (tb_normalized t)\<rparr>)"

definition persist_ledger :: "uuid \<Rightarrow> entry_draft list \<Rightarrow> wb_tables \<Rightarrow> wb_tables" where
  "persist_ledger report_id entries t =
     (if entries = [] then t
      else t\<lparr>tb_ledger := insert_batches ledger_key (map (ledger_of_draft report_id) entries) (tb_ledger t)\<rparr>)"

definition persist_inventory_ledger :: "instant \<Rightarrow> uuid \<Rightarrow> movement_draft list \<Rightarrow> wb_tables \<Rightarrow> wb_tables" where
  "persist_inventory_ledger now report_id movements t =
     (if movements = [] then t
      else t\<lparr>tb_inventory := insert_batches inventory_key (map (inventory_of_draft now report_id) movements) (tb_inventory t)\<rparr>)"

definition persist_phase1_chunk :: "instant \<Rightarrow> uuid \<Rightarrow> process_chunk \<Rightarrow> wb_tables \<Rightarrow> wb_tables" where
  "persist_phase1_chunk now report_id chunk t =
     persist_inventory_ledger now report_id (pc_inventory_movements chunk)
       (persist_ledger report_id (pc_ledger_entries chunk)
         (persist_normalized_rows report_id (pc_normalized_rows chunk) t))"

definition persist_reconciliation :: "uuid \<Rightarrow> reconciliation_result \<Rightarrow> wb_tables \<Rightarrow> wb_tables" where
  "persist_reconciliation report_id rec t = t\<lparr>tb_reconciliation := AList.update report_id rec (tb_reconciliation t)\<rparr>"

section \<open>Row counts\<close>

definition count_phase1_rows :: "uuid \<Rightarrow> wb_tables \<Rightarrow> nat \<times> nat \<times> nat" where
  "count_phase1_rows report_id t =
     (length (filter (\<lambda>s. st_report_id s = report_id) (tb_normalized t)),
      length (filter (\<lambda>r. lt_report_id r = report_id) (tb_ledger t)),
      length (filter (\<lambda>e. le_report_id e = report_id) (tb_inventory t)))"

text \<open>\<open>WbRowCountMismatchError\<close> is a \<open>ValueError\<close>.\<close>

definition assert_row_count :: "pystr \<Rightarrow> nat \<Rightarrow> nat \<Rightarrow> py_error + unit" where
  "assert_row_count label actual expected = (if actual \<noteq> expected then Inl (ValueError label) else Inr ())"

section \<open>Phases\<close>

text \<open>
  What a run meets: the semantics cache, whether another session holds the rebuild lock, whether phase 3
  runs into the lock timeout, and the answers of the shutdown checks before phases 2 and 3.
\<close>

record run_env =
  re_lifecycle :: lifecycle_cache
  re_user :: uuid
  re_isoparse :: "pystr \<Rightarrow> date option"
  re_busy :: bool
  re_lock_timeout :: bool
  re_stop_phase2 :: bool
  re_stop_phase3 :: bool

datatype persist_error = PE_error py_error | PE_shutdown pystr | PE_retryable retry_reason pystr

definition pbind :: "persist_error + 'a \<Rightarrow> ('a \<Rightarrow> persist_error + 'b) \<Rightarrow> persist_error + 'b" where
  "pbind r f = (case r of Inl e \<Rightarrow> Inl e | Inr x \<Rightarrow> f x)"

lemma pbind_simps [simp]: "pbind (Inl e) f = Inl e" "pbind (Inr x) f = f x"
  by (simp_all add: pbind_def)

lemma pbind_Inr_iff: "pbind r f = Inr y \<longleftrightarrow> (\<exists>x. r = Inr x \<and> f x = Inr y)"
  by (cases r) auto

definition lift_error :: "py_error + 'a \<Rightarrow> persist_error + 'a" where
  "lift_error r = (case r of Inl e \<Rightarrow> Inl (PE_error e) | Inr x \<Rightarrow> Inr x)"

lemma lift_error_Inr [simp]: "lift_error r = Inr x \<longleftrightarrow> r = Inr x"
  by (cases r) (simp_all add: lift_error_def)

definition earliest_movement_date :: "process_result \<Rightarrow> date option" where
  "earliest_movement_date result = (case pr_earliest_movement_date result of
      Some d \<Rightarrow> Some d
    | None \<Rightarrow> if pr_inventory_movements result = [] then None
        else Some (Min (set (map md_operation_date (pr_inventory_movements result)))))"

definition assert_phase1_counts :: "nat \<Rightarrow> wb_report \<Rightarrow> process_result \<Rightarrow> wb_tables \<Rightarrow> py_error + unit" where
  "assert_phase1_counts phase report result t =
     assert_row_count (asc ''phase'' @ show_nat phase @ asc ''_normalized_rows'') (fst (count_phase1_rows (rp_id report) t)) (pr_row_count result)"

definition phase2 :: "run_env \<Rightarrow> wb_report \<Rightarrow> process_result \<Rightarrow> wb_tables \<Rightarrow> py_error + (wb_tables \<times> loss_analytics option)" where
  "phase2 env report result t =
     sbind (incremental_rebuild (re_lifecycle env) (re_busy env) (re_user env) (group_by sc_sku (tb_costs t)) (tb_inventory t)
         (tb_live t) (earliest_movement_date result)) (\<lambda>(live, losses).
       Inr (persist_reconciliation (rp_id report) (pr_reconciliation result) (t\<lparr>tb_live := live\<rparr>), losses))"

definition phase3 :: "run_env \<Rightarrow> wb_report \<Rightarrow> process_result \<Rightarrow> wb_tables \<Rightarrow> persist_error + wb_tables" where
  "phase3 env report result t =
     (if re_lock_timeout env then Inl (PE_retryable LOCK_TIMEOUT (asc ''Aggregate rebuild lock timeout''))
      else Inr (t\<lparr>tb_projections := rebuild_aggregates (load_cost_snapshots (tb_costs t) (tb_mappings t))
        (pr_daily_aggregates result) (rp_id report) (tb_ledger t) (tb_projections t)\<rparr>))"

definition persist_phases_2_3 :: "run_env \<Rightarrow> wb_report \<Rightarrow> process_result \<Rightarrow> wb_tables \<Rightarrow> persist_error + (wb_tables \<times> loss_analytics option)" where
  "persist_phases_2_3 env report result t =
     (if re_stop_phase2 env then Inl (PE_shutdown (asc ''persist_phase2''))
      else pbind (lift_error (phase2 env report result t)) (\<lambda>(t2, losses).
        pbind (lift_error (assert_phase1_counts 2 report result t2)) (\<lambda>_.
        if re_stop_phase3 env then Inl (PE_shutdown (asc ''persist_phase3''))
        else pbind (phase3 env report result t2) (\<lambda>t3.
        pbind (lift_error (assert_phase1_counts 3 report result t3)) (\<lambda>_. Inr (t3, losses))))))"

definition validate_before_persist :: "run_env \<Rightarrow> wb_report \<Rightarrow> process_result \<Rightarrow> movement_draft list \<Rightarrow>
    (sku_warehouse \<times> date) list \<Rightarrow> wb_tables \<Rightarrow> py_error + unit" where
  "validate_before_persist env report result opening first_dates t =
     sbind (assert_row_count (asc ''normalized_rows'') (fst (count_phase1_rows (rp_id report) t)) (pr_row_count result)) (\<lambda>_.
     sbind (case rp_row_count report of None \<Rightarrow> Inr ()
        | Some n \<Rightarrow> assert_row_count (asc ''report.row_count'') (pr_row_count result) n) (\<lambda>_.
     validate_opening_movements (re_isoparse env) (Some (rp_id report)) (tb_inventory t) first_dates opening))"

definition persist_phased :: "run_env \<Rightarrow> instant \<Rightarrow> wb_report \<Rightarrow> process_result \<Rightarrow> wb_tables \<Rightarrow> persist_error + (wb_tables \<times> loss_analytics option)" where
  "persist_phased env now report result t =
     pbind (lift_error (validate_opening_balances_for_movements (re_isoparse env) (Some (rp_id report)) (tb_inventory t)
         (pr_inventory_movements result))) (\<lambda>_.
     (let t1 = persist_inventory_ledger now (rp_id report) (pr_inventory_movements result)
           (persist_ledger (rp_id report) (pr_ledger_entries result)
             (persist_normalized_rows (rp_id report) (pr_normalized_rows result)
               (persist_raw_report report result t)))
      in pbind (lift_error (assert_phase1_counts 1 report result t1)) (\<lambda>_. persist_phases_2_3 env report result t1)))"

definition persist :: "run_env \<Rightarrow> instant \<Rightarrow> wb_report \<Rightarrow> process_result \<Rightarrow> movement_draft list \<Rightarrow> (sku_warehouse \<times> date) list \<Rightarrow>
    wb_tables \<Rightarrow> persist_error + (wb_tables \<times> loss_analytics option)" where
  "persist env now report result opening first_dates t =
     (if pr_streamed result then
        pbind (lift_error (validate_before_persist env report result opening first_dates t)) (\<lambda>_.
          persist_phases_2_3 env report result t)
      else persist_phased env now report result t)"

section \<open>The streamed import\<close>

datatype stream_outcome = Stream_done process_result "movement_draft list" "(sku_warehouse \<times> date) list"
  | Stream_stopped pystr nat | Stream_failed py_error

text \<open>
  The loop over the chunks, \<open>k\<close> of them completed: the parse checks for a shutdown before a chunk
  (\<open>stop (2 * k)\<close>), the pipeline after it has been written (\<open>stop (2 * k + 1)\<close>).
\<close>

fun stream_loop :: "(seen_keys \<Rightarrow> parser_strategy \<times> wb_row list \<Rightarrow> py_error + (process_chunk \<times> seen_keys \<times> anomaly_draft list)) \<Rightarrow>
    (nat \<Rightarrow> bool) \<Rightarrow> instant \<Rightarrow> uuid \<Rightarrow> nat \<Rightarrow> seen_keys \<times> anomaly_draft list \<times> stream_state \<Rightarrow>
    (parser_strategy \<times> wb_row list) list \<Rightarrow> wb_tables \<Rightarrow>
    wb_tables \<times> (stream_outcome + anomaly_draft list \<times> stream_state)" where
  "stream_loop mk stop now rid k (seen, anomalies, s) [] t = (t, Inr (anomalies, s))"
| "stream_loop mk stop now rid k (seen, anomalies, s) (c # cs) t =
     (if stop (2 * k) then (t, Inl (Stream_stopped (asc ''parse'') k))
      else (case mk seen c of
          Inl e \<Rightarrow> (t, Inl (Stream_failed e))
        | Inr (chunk, seen', new) \<Rightarrow>
            (let s' = merge_stream_state (s\<lparr>st_rows := st_rows s + length (pc_normalized_rows chunk)\<rparr>) chunk;
                 t' = persist_phase1_chunk now rid chunk t
             in if stop (2 * k + 1) then (t', Inl (Stream_stopped (asc ''persist_phase1'') (k + 1)))
                else stream_loop mk stop now rid (k + 1) (seen', anomalies @ new, s') cs t')))"

definition process_wb_streamed :: "lifecycle_cache \<Rightarrow> cell_reader \<Rightarrow> (nat \<Rightarrow> bool) \<Rightarrow> instant \<Rightarrow> wb_report \<Rightarrow> report_file \<Rightarrow> pystr \<Rightarrow>
    wb_tables \<Rightarrow> wb_tables \<times> stream_outcome" where
  "process_wb_streamed lifecycle cr stop now report f filename t =
     (let costs = load_cost_snapshots (tb_costs t) (tb_mappings t);
          default_date = rp_created_date report;
          mk = make_chunk lifecycle (rp_id report) filename default_date costs
      in case sbind (assert_ingest_allowed lifecycle version_1) (\<lambda>_. iter_wb_normalized_rows cr process_chunk_size f filename) of
           Inl e \<Rightarrow> (t, Stream_failed e)
         | Inr [] \<Rightarrow> (t, Stream_failed no_data_rows)
         | Inr (c # cs) \<Rightarrow> (case stream_loop mk stop now (rp_id report) 0 (\<lambda>_. 0, [], empty_stream) (c # cs) t of
             (t', Inl outcome) \<Rightarrow> (t', outcome)
           | (t', Inr (anomalies, s)) \<Rightarrow>
               (let result = build_streamed_result (rp_id report) (Some (fst c)) default_date s anomalies
                in (persist_raw_report report result t', Stream_done result (st_opening s) (st_first_dates s)))))"

definition wb_streaming_supported :: "pystr \<Rightarrow> bool" where
  "wb_streaming_supported filename \<longleftrightarrow> file_suffix filename \<in> {asc ''.xlsx'', asc ''.csv''}"

end
