(* ===== verification/Process_Laws.thy ===== *)
theory Process_Laws
  imports Wb_Process Profit_Laws
begin

text \<open>
  Laws of the import computation: processing by chunks is processing the whole, the state merged from
  chunk to chunk is that of all movements, and what the merged reconciliation of a report is.
\<close>

section \<open>Chunks and the whole\<close>

lemma smap_append: "smap f (xs @ ys) = sbind (smap f xs) (\<lambda>a. sbind (smap f ys) (\<lambda>b. Inr (a @ b)))"
proof (induction xs)
  case Nil
  then show ?case by (cases "smap f ys") simp_all
next
  case (Cons x xs)
  then show ?case by (cases "f x"; cases "smap f xs"; cases "smap f ys") simp_all
qed

lemma movements_append:
  "movements_from_rows lc d costs (xs @ ys) =
     sbind (movements_from_rows lc d costs xs) (\<lambda>a. sbind (movements_from_rows lc d costs ys) (\<lambda>b. Inr (a @ b)))"
  unfolding movements_from_rows_def smap_append
  by (cases "smap (movement_for_row lc d costs) xs"; cases "smap (movement_for_row lc d costs) ys") simp_all

lemma ledger_append: "from_normalized_rows d (xs @ ys) = from_normalized_rows d xs @ from_normalized_rows d ys"
  by (simp add: from_normalized_rows_def)

lemma ledger_concat: "from_normalized_rows d (concat chunks) = concat (map (from_normalized_rows d) chunks)"
  by (induction chunks) (simp_all add: ledger_append, simp add: from_normalized_rows_def)

lemma process_chunks_whole:
  "process_chunks lc d costs chunks =
     sbind (movements_from_rows lc d costs (concat chunks)) (\<lambda>ms. Inr (map (from_normalized_rows d) chunks, ms))"
proof (induction chunks)
  case Nil
  then show ?case by (simp add: movements_from_rows_def)
next
  case (Cons c cs)
  then show ?case
    by (cases "movements_from_rows lc d costs c"; cases "movements_from_rows lc d costs (concat cs)") (simp_all add: movements_append)
qed

section \<open>The merged reconciliation\<close>

definition parts_of :: "entry_draft list \<Rightarrow> rat list" where
  "parts_of es = [ops_total {L_SALE} es, - ops_total {L_COMMISSION} es, - ops_total {L_LOGISTICS} es,
     - ops_total deduction_ops es, - ops_total {L_RETURN} es, ops_total {L_PAYOUT} es]"

definition result_parts :: "reconciliation_result \<Rightarrow> rat list" where
  "result_parts r = [rr_gross_revenue r, rr_wb_commissions r, rr_logistics r, rr_deductions r, rr_returns_amount r, rr_actual_payout r]"

lemma reconcile_parts:
  assumes a: "amounts_within 4 L (amounts es)" and L: "L < 10 ^ 24" and s: "signs_ok es"
  shows "result_parts (reconcile_payout es) = parts_of es"
proof -
  have exp: "{L_COMMISSION} \<subseteq> expense_ops" "{L_LOGISTICS} \<subseteq> expense_ops" "deduction_ops \<subseteq> expense_ops" "{L_RETURN} \<subseteq> expense_ops"
    by (simp_all add: expense_ops_def deduction_ops_def)
  show ?thesis
    by (simp only: result_parts_def parts_of_def reconcile_payout_def Let_def reconciliation_result.simps totals_fold no_totals_def
      reconciliation_totals.simps ops_sum_exact [OF a L] ops_abs_exact [OF a L s exp(1)] ops_abs_exact [OF a L s exp(2)]
      ops_abs_exact [OF a L s exp(3)] ops_abs_exact [OF a L s exp(4)])
qed

lemma ops_total_append: "ops_total S (xs @ ys) = ops_total S xs + ops_total S ys"
  by (simp add: ops_total_def)

lemma ops_total_exact:
  assumes "amounts_within 4 L (amounts es)" and "L < 10 ^ 24"
  shows "exact_amount 4 (ops_total S es)" and "exact_amount 4 (- ops_total S es)"
proof -
  have w: "amounts_within 4 L (map ed_amount (of_ops S es))" by (rule filtered_within [OF assms(1)])
  have "on_grid 4 (ops_total S es)"
    using on_grid_sum_list [of "map ed_amount (of_ops S es)" 4] w by (auto simp: amounts_within_def ops_total_def)
  moreover have "\<bar>ops_total S es\<bar> \<le> L" using amounts_sum_bound [OF w] by (simp add: ops_total_def)
  ultimately show "exact_amount 4 (ops_total S es)" "exact_amount 4 (- ops_total S es)"
    using assms(2) by (auto simp: exact_amount_def)
qed

lemma merge_parts:
  assumes a: "amounts_within 4 L (amounts (xs @ ys))" "L < 10 ^ 24"
    and l: "result_parts l = parts_of xs" and r: "result_parts r = parts_of ys"
  shows "result_parts (merge_reconciliation l r) = parts_of (xs @ ys)"
proof -
  have pos: "dadd (ops_total S xs) (ops_total S ys) = ops_total S (xs @ ys)" for S
    using dadd_exact ops_total_exact(1) [OF a, of S] by (simp add: ops_total_append)
  have neg: "dadd (- ops_total S xs) (- ops_total S ys) = - ops_total S (xs @ ys)" for S
    using dadd_exact [of 4 "- ops_total S xs" "- ops_total S ys"] ops_total_exact(2) [OF a, of S] by (simp add: ops_total_append)
  show ?thesis
    using l r by (simp add: result_parts_def parts_of_def merge_reconciliation_def Let_def pos neg)
qed

lemma merge_expected:
  assumes a: "amounts_within 4 L (amounts es)" and L: "L < 10 ^ 24" and s: "signs_ok es"
    and p: "result_parts (merge_reconciliation l r) = parts_of es"
  shows "rr_expected_payout (merge_reconciliation l r) = profit_and_loss es - op_total L_COMPENSATION es"
proof -
  let ?T = "\<lambda>op. op_total op es" and ?D = "ops_total deduction_ops es"
  have within: "amounts_within 4 L [?T L_SALE, - ?T L_COMMISSION, - ?T L_LOGISTICS, - ?D, - ?T L_RETURN]"
  proof -
    have t: "amounts_within 4 L (map ?T [L_SALE, L_COMMISSION, L_LOGISTICS, L_RETURN, L_DEDUCTION, L_PENALTY,
        L_STORAGE_FEE, L_ACQUIRING, L_ADVERTISEMENT])" by (rule op_totals_within [OF a]) simp
    have "on_grid 4 ?D" unfolding ops_total_ops by (intro on_grid_add op_total_grid [OF a])
    moreover have "\<bar>?D\<bar> \<le> \<bar>?T L_DEDUCTION\<bar> + \<bar>?T L_PENALTY\<bar> + \<bar>?T L_STORAGE_FEE\<bar> + \<bar>?T L_ACQUIRING\<bar> + \<bar>?T L_ADVERTISEMENT\<bar>"
      unfolding ops_total_ops by linarith
    ultimately show ?thesis using t by (simp add: amounts_within_def)
  qed
  have "rr_expected_payout (merge_reconciliation l r) = foldl dsub (rr_gross_revenue (merge_reconciliation l r))
      [rr_wb_commissions (merge_reconciliation l r), rr_logistics (merge_reconciliation l r),
       rr_deductions (merge_reconciliation l r), rr_returns_amount (merge_reconciliation l r)]"
    by (simp add: merge_reconciliation_def Let_def)
  also have "\<dots> = foldl dsub (?T L_SALE) [- ?T L_COMMISSION, - ?T L_LOGISTICS, - ?D, - ?T L_RETURN]"
    using p by (simp add: result_parts_def parts_of_def ops_total_ops(1-6))
  also have "\<dots> = ?T L_SALE + ?T L_COMMISSION + ?T L_LOGISTICS + ?D + ?T L_RETURN"
    using foldl_dsub_within [OF within] L by simp
  also have "\<dots> = profit_and_loss es - ?T L_COMPENSATION"
    using signs_total(2) [OF s] by (simp add: profit_and_loss_ops all_ops_def ops_total_ops)
  finally show ?thesis .
qed

lemma signs_ok_append [simp]: "signs_ok (xs @ ys) \<longleftrightarrow> signs_ok xs \<and> signs_ok ys"
  by (auto simp: signs_ok_def)

lemma abs_sum_nonneg: "0 \<le> (\<Sum>x\<leftarrow>xs. \<bar>x\<bar> :: rat)"
  by (induction xs) auto

lemma amounts_within_append1: "amounts_within s L (amounts (xs @ ys)) \<Longrightarrow> amounts_within s L (amounts xs)"
  using abs_sum_nonneg [of "map ed_amount ys"] by (auto simp: amounts_within_def amounts_def)

lemma amounts_within_append2: "amounts_within s L (amounts (xs @ ys)) \<Longrightarrow> amounts_within s L (amounts ys)"
  using abs_sum_nonneg [of "map ed_amount xs"] by (auto simp: amounts_within_def amounts_def)

lemma merged_snoc:
  "chunks \<noteq> [] \<Longrightarrow> merged_reconciliation (chunks @ [c]) = merge_reconciliation (merged_reconciliation chunks) (reconcile_payout c)"
  by (cases chunks rule: rev_cases) (simp_all add: merged_reconciliation_def merge_partial_def)

lemma merged_parts:
  assumes "chunks \<noteq> []" and "amounts_within 4 L (amounts (concat chunks))" and "L < 10 ^ 24" and "signs_ok (concat chunks)"
  shows "result_parts (merged_reconciliation chunks) = parts_of (concat chunks)"
  using assms
proof (induction chunks rule: rev_nonempty_induct)
  case (single c)
  then show ?case using reconcile_parts [of L c] by (simp add: merged_reconciliation_def merge_partial_def)
next
  case (snoc c cs)
  have l: "result_parts (merged_reconciliation cs) = parts_of (concat cs)"
    by (rule snoc.IH) (use snoc.prems amounts_within_append1 [of 4 L "concat cs" c] in simp_all)
  have r: "result_parts (reconcile_payout c) = parts_of c"
    by (rule reconcile_parts) (use snoc.prems amounts_within_append2 [of 4 L "concat cs" c] in simp_all)
  show ?case using merge_parts [OF _ snoc.prems(2) l r] snoc.prems(1) snoc.hyps by (simp add: merged_snoc)
qed

lemma merged_expected:
  assumes "2 \<le> length chunks" and "amounts_within 4 L (amounts (concat chunks))" and "L < 10 ^ 24" and "signs_ok (concat chunks)"
  shows "rr_expected_payout (merged_reconciliation chunks) = profit_and_loss (concat chunks) - op_total L_COMPENSATION (concat chunks)"
proof -
  obtain cs c where chunks: "chunks = cs @ [c]" "cs \<noteq> []"
    using assms(1) by (cases chunks rule: rev_cases) (auto simp: Suc_le_length_iff)
  then have m: "merged_reconciliation chunks = merge_reconciliation (merged_reconciliation cs) (reconcile_payout c)"
    by (simp add: merged_snoc)
  have "chunks \<noteq> []" using chunks by simp
  from merged_parts [OF this assms(2-4)] show ?thesis
    unfolding m by (rule merge_expected [OF assms(2-4)])
qed

section \<open>The state between chunks\<close>

lemma merge_movement_fields:
  "st_opening (merge_movement s m) = st_opening s @ (if is_opening_balance_movement (md_canonical_payload m) then [m] else [])"
  "st_earliest (merge_movement s m) = Some (case st_earliest s of None \<Rightarrow> md_operation_date m | Some e \<Rightarrow> min e (md_operation_date m))"
  "st_reconciliation (merge_movement s m) = st_reconciliation s" "st_rows (merge_movement s m) = st_rows s"
  by (auto simp: merge_movement_def Let_def split: option.splits)

lemma merge_movement_dates:
  "st_first_dates (merge_movement s m) = (if nonempty (md_sku m) = None \<or> is_opening_balance_movement (md_canonical_payload m) then st_first_dates s
     else (case map_of (st_first_dates s) (md_sku m, md_warehouse_name m) of
         None \<Rightarrow> AList.update (md_sku m, md_warehouse_name m) (md_operation_date m) (st_first_dates s)
       | Some existing \<Rightarrow> if md_operation_date m < existing
           then AList.update (md_sku m, md_warehouse_name m) (md_operation_date m) (st_first_dates s) else st_first_dates s))"
  by (auto simp: merge_movement_def Let_def split: option.splits)

lemma merge_row_fields:
  "st_opening (merge_row s r) = st_opening s" "st_earliest (merge_row s r) = st_earliest s" "st_first_dates (merge_row s r) = st_first_dates s"
  "st_reconciliation (merge_row s r) = st_reconciliation s" "st_rows (merge_row s r) = st_rows s"
  by (simp_all add: merge_row_def Let_def split: option.splits)

lemma merge_rows_fields:
  "st_opening (foldl merge_row s rs) = st_opening s" "st_earliest (foldl merge_row s rs) = st_earliest s"
  "st_first_dates (foldl merge_row s rs) = st_first_dates s"
  "st_reconciliation (foldl merge_row s rs) = st_reconciliation s" "st_rows (foldl merge_row s rs) = st_rows s"
  by (induction rs arbitrary: s) (simp_all add: merge_row_fields)

lemma merge_movements_opening:
  "st_opening (foldl merge_movement s ms) = st_opening s @ filter (\<lambda>m. is_opening_balance_movement (md_canonical_payload m)) ms"
  by (induction ms arbitrary: s) (simp_all add: merge_movement_fields)

lemma merge_movements_kept:
  "st_reconciliation (foldl merge_movement s ms) = st_reconciliation s" "st_rows (foldl merge_movement s ms) = st_rows s"
  by (induction ms arbitrary: s) (simp_all add: merge_movement_fields)

lemma batch_first_snoc:
  "batch_first_operation_dates (ns @ [m]) = (let b = batch_first_operation_dates ns in
     if nonempty (md_sku m) = None \<or> is_opening_balance_movement (md_canonical_payload m) then b
     else (case map_of b (md_sku m, md_warehouse_name m) of
         None \<Rightarrow> AList.update (md_sku m, md_warehouse_name m) (md_operation_date m) b
       | Some existing \<Rightarrow> if md_operation_date m < existing
           then AList.update (md_sku m, md_warehouse_name m) (md_operation_date m) b else b))"
  by (simp add: batch_first_operation_dates_def Let_def)

lemma merge_movements_dates:
  "st_first_dates s = batch_first_operation_dates ns \<Longrightarrow>
     st_first_dates (foldl merge_movement s ms) = batch_first_operation_dates (ns @ ms)"
proof (induction ms arbitrary: s ns)
  case Nil
  then show ?case by simp
next
  case (Cons m ms)
  have "st_first_dates (merge_movement s m) = batch_first_operation_dates (ns @ [m])"
    by (simp only: merge_movement_dates batch_first_snoc Let_def Cons.prems)
  from Cons.IH [OF this] show ?case by simp
qed

definition earliest_of :: "movement_draft list \<Rightarrow> date option" where
  "earliest_of ms = (if ms = [] then None else Some (Min (set (map md_operation_date ms))))"

lemma earliest_of_snoc:
  "earliest_of (ms @ [m]) = Some (case earliest_of ms of None \<Rightarrow> md_operation_date m | Some e \<Rightarrow> min e (md_operation_date m))"
  by (simp add: earliest_of_def Min_Un min.commute)

lemma merge_movements_earliest:
  "st_earliest s = earliest_of ns \<Longrightarrow> st_earliest (foldl merge_movement s ms) = earliest_of (ns @ ms)"
proof (induction ms arbitrary: s ns)
  case Nil
  then show ?case by simp
next
  case (Cons m ms)
  have "st_earliest (merge_movement s m) = earliest_of (ns @ [m])"
    using Cons.prems by (simp add: merge_movement_fields earliest_of_snoc)
  from Cons.IH [OF this] show ?case by simp
qed

text \<open>Everything that the streamed checks read is what the whole list of movements gives.\<close>

definition stream_of :: "movement_draft list \<Rightarrow> entry_draft list list \<Rightarrow> nat \<Rightarrow> stream_state \<Rightarrow> bool" where
  "stream_of ms ledgers n s \<longleftrightarrow> st_opening s = filter (\<lambda>m. is_opening_balance_movement (md_canonical_payload m)) ms
     \<and> st_first_dates s = batch_first_operation_dates ms
     \<and> st_earliest s = earliest_of ms
     \<and> st_reconciliation s = (if ledgers = [] then None else Some (merged_reconciliation ledgers))
     \<and> st_rows s = n"

lemma stream_of_empty: "stream_of [] [] 0 empty_stream"
  by (simp add: stream_of_def empty_stream_def earliest_of_def batch_first_operation_dates_def)

lemma merged_Some:
  "merge_partial (if ls = [] then None else Some (merged_reconciliation ls)) (reconcile_payout l) = merged_reconciliation (ls @ [l])"
proof (cases "ls = []")
  case True
  then show ?thesis by (simp add: merge_partial_def merged_reconciliation_def)
next
  case False
  then show ?thesis by (simp add: merged_snoc merge_partial_def)
qed

lemma merge_stream_state_of:
  assumes "stream_of ms ledgers n s" and "pc_reconciliation chunk = reconcile_payout l"
  shows "stream_of (ms @ pc_inventory_movements chunk) (ledgers @ [l]) n (merge_stream_state s chunk)"
  using assms merge_movements_dates [of s ms "pc_inventory_movements chunk"] merge_movements_earliest [of s ms "pc_inventory_movements chunk"]
  by (simp add: stream_of_def merge_stream_state_def Let_def merge_rows_fields merge_movements_opening merge_movements_kept merged_Some)

section \<open>The chunks of the stream are those of the list\<close>

lemma iter_chunks_append: "0 < n \<Longrightarrow> length c = n \<Longrightarrow> iter_chunks n (c @ xs) = c # iter_chunks n xs"
  by (cases c) auto

lemma iter_chunks_short: "length c < n \<Longrightarrow> iter_chunks n c = (if c = [] then [] else [c])"
  by (cases c) auto

lemma yield_loop_chunks:
  "0 < n \<Longrightarrow> length chunk < n \<Longrightarrow> yield_loop n mk i chunk rows = iter_chunks n (chunk @ numbered_rows mk i rows)"
proof (induction n mk i chunk rows rule: yield_loop.induct)
  case (1 n mk i chunk)
  then show ?case by (simp add: numbered_rows_def data_rows_def iter_chunks_short)
next
  case (2 n mk i chunk vs rest)
  show ?case
  proof (cases "row_has_data vs")
    case False
    with 2 show ?thesis by (simp add: numbered_rows_def data_rows_def)
  next
    case True
    let ?c = "chunk @ [mk i vs]"
    have numbered: "chunk @ numbered_rows mk i (vs # rest) = ?c @ numbered_rows mk (i + 1) rest"
      using True by (simp add: numbered_rows_def data_rows_def)
    show ?thesis
    proof (cases "n \<le> length ?c")
      case full: True
      then have len: "length ?c = n" using 2(5) by simp
      have "yield_loop n mk (i + 1) [] rest = iter_chunks n ([] @ numbered_rows mk (i + 1) rest)"
        using 2(2) [OF _ refl] True full 2(4) by simp
      then show ?thesis
        unfolding numbered iter_chunks_append [OF 2(4) len] using True full by simp
    next
      case False
      have "yield_loop n mk (i + 1) ?c rest = iter_chunks n (?c @ numbered_rows mk (i + 1) rest)"
        using 2(3) [OF _ refl] True False 2(4) by simp
      then show ?thesis unfolding numbered using True False by simp
    qed
  qed
qed

lemma yield_chunks:
  "0 < n \<Longrightarrow> yield_normalized_chunks cr n headers rows =
     map (Pair (select_parser_from_headers headers))
       (iter_chunks n (numbered_rows (row_from_values cr headers (resolve_column_map headers)) 0 rows))"
  by (simp add: yield_normalized_chunks_def yield_loop_chunks)

end
