(* ===== verification/Persist_Laws.thy ===== *)
theory Persist_Laws
  imports Wb_Persist Process_Laws
begin

text \<open>
  Laws of the import: the writes of the streamed import are a store that may be replayed, an attempt
  that is interrupted writes a prefix of what a complete one writes, and a complete one leaves in the
  tables what the rows of the file determine.
\<close>

section \<open>Writes\<close>

text \<open>The columns \<open>created_at\<close> are the only ones that depend on the time.\<close>

definition erase_times :: "wb_tables \<Rightarrow> wb_tables" where
  "erase_times t = t\<lparr>tb_inventory := map (\<lambda>e. e\<lparr>le_created_at := 0\<rparr>) (tb_inventory t)\<rparr>"

lemma persist_chunk_tables:
  "persist_phase1_chunk now rid c t = t\<lparr>
     tb_normalized := insert_all normalized_key (map (stored_of_row rid) (pc_normalized_rows c)) (tb_normalized t),
     tb_ledger := insert_all ledger_key (map (ledger_of_draft rid) (pc_ledger_entries c)) (tb_ledger t),
     tb_inventory := insert_all inventory_key (map (inventory_of_draft now rid) (pc_inventory_movements c)) (tb_inventory t)\<rparr>"
  by (simp add: persist_phase1_chunk_def persist_normalized_rows_def persist_ledger_def persist_inventory_ledger_def
    insert_batches_all insert_all_def)

lemma erase_persist_chunk: "erase_times (persist_phase1_chunk now rid c t) = persist_phase1_chunk 0 rid c (erase_times t)"
proof -
  have key: "inventory_key (e\<lparr>le_created_at := 0\<rparr>) = inventory_key e" for e by (simp add: inventory_key_def)
  have one: "(inventory_of_draft now rid m)\<lparr>le_created_at := 0\<rparr> = inventory_of_draft 0 rid m" for m
    by (simp add: inventory_of_draft_def)
  show ?thesis
    by (simp add: one comp_def erase_times_def persist_chunk_tables insert_all_map [where key = inventory_key and f = "\<lambda>e. e\<lparr>le_created_at := 0\<rparr>", OF key])
qed

lemma erase_persist_raw: "erase_times (persist_raw_report report result t) = persist_raw_report report result (erase_times t)"
  by (simp add: erase_times_def persist_raw_report_def)

lemma persist_raw_keeps [simp]:
  "tb_normalized (persist_raw_report report r t) = tb_normalized t" "tb_ledger (persist_raw_report report r t) = tb_ledger t"
  "tb_inventory (persist_raw_report report r t) = tb_inventory t"
  by (simp_all add: persist_raw_report_def)

text \<open>The writes of an import: chunks, and the row of the raw report at its end.\<close>

fun write_action :: "wb_report \<Rightarrow> process_chunk + process_result \<Rightarrow> wb_tables \<Rightarrow> wb_tables" where
  "write_action report (Inl c) t = persist_phase1_chunk 0 (rp_id report) c t"
| "write_action report (Inr r) t = persist_raw_report report r t"

fun written :: "wb_report \<Rightarrow> process_chunk + process_result \<Rightarrow> wb_tables \<Rightarrow> bool" where
  "written report (Inl c) t \<longleftrightarrow>
     normalized_key ` stored_of_row (rp_id report) ` set (pc_normalized_rows c) \<subseteq> normalized_key ` set (tb_normalized t)
     \<and> ledger_key ` ledger_of_draft (rp_id report) ` set (pc_ledger_entries c) \<subseteq> ledger_key ` set (tb_ledger t)
     \<and> inventory_key ` inventory_of_draft 0 (rp_id report) ` set (pc_inventory_movements c) \<subseteq> inventory_key ` set (tb_inventory t)"
| "written report (Inr r) t \<longleftrightarrow> rp_id report \<in> rw_report_id ` set (tb_raw t)"

interpretation import_writes: replay_store "write_action report" "written report" for report
proof unfold_locales
  show "written report x (write_action report x s)" for x s
    by (cases x) (simp_all add: persist_chunk_tables insert_all_keys image_image persist_raw_report_def insert_ignore_keys)
  show "write_action report x s = s" if "written report x s" for x s
    using that by (cases x) (simp_all add: persist_chunk_tables insert_all_present image_image persist_raw_report_def insert_ignore_def)
  show "written report x (write_action report y s)" if "written report x s" for x y s
    using that by (cases x; cases y)
      (simp_all add: persist_chunk_tables insert_all_keys persist_raw_report_def insert_ignore_keys le_supI2)
qed

section \<open>Attempts\<close>

text \<open>What the loop computes when it is not stopped: the chunks up to the first error, and the final state.\<close>

fun run_chunks :: "(seen_keys \<Rightarrow> parser_strategy \<times> wb_row list \<Rightarrow> py_error + (process_chunk \<times> seen_keys \<times> anomaly_draft list)) \<Rightarrow>
    seen_keys \<times> anomaly_draft list \<times> stream_state \<Rightarrow> (parser_strategy \<times> wb_row list) list \<Rightarrow>
    process_chunk list \<times> (anomaly_draft list \<times> stream_state) option" where
  "run_chunks mk (seen, anomalies, s) [] = ([], Some (anomalies, s))"
| "run_chunks mk (seen, anomalies, s) (c # cs) = (case mk seen c of
       Inl e \<Rightarrow> ([], None)
     | Inr (chunk, seen', new) \<Rightarrow>
         (let s' = merge_stream_state (s\<lparr>st_rows := st_rows s + length (pc_normalized_rows chunk)\<rparr>) chunk;
              (chunks, final) = run_chunks mk (seen', anomalies @ new, s') cs
          in (chunk # chunks, final)))"

lemma stream_loop_prefix:
  "\<exists>j. fst (stream_loop mk stop now rid k st cs t) = fold (persist_phase1_chunk now rid) (take j (fst (run_chunks mk st cs))) t"
proof (induction mk stop now rid k st cs t rule: stream_loop.induct)
  case (1 mk stop now rid k seen anomalies s t)
  then show ?case by simp
next
  case (2 mk stop now rid k seen anomalies s c cs t)
  show ?case
  proof (cases "stop (2 * k)")
    case True
    then show ?thesis by (intro exI [of _ 0]) simp
  next
    case False
    show ?thesis
    proof (cases "mk seen c")
      case (Inl e)
      with False show ?thesis by simp
    next
      case (Inr x)
      obtain chunk seen' new where x: "x = (chunk, seen', new)" by (metis surj_pair)
      let ?s = "merge_stream_state (s\<lparr>st_rows := st_rows s + length (pc_normalized_rows chunk)\<rparr>) chunk"
      let ?rest = "run_chunks mk (seen', anomalies @ new, ?s) cs"
      have run: "fst (run_chunks mk (seen, anomalies, s) (c # cs)) = chunk # fst ?rest"
        by (simp add: Inr x split_def Let_def)
      show ?thesis
      proof (cases "stop (2 * k + 1)")
        case True
        with False Inr x run show ?thesis by (intro exI [of _ 1]) (simp add: Let_def)
      next
        case go: False
        from 2 [OF False Inr [unfolded x] refl refl refl refl go]
        obtain j where "fst (stream_loop mk stop now rid (k + 1) (seen', anomalies @ new, ?s) cs (persist_phase1_chunk now rid chunk t)) =
            fold (persist_phase1_chunk now rid) (take j (fst ?rest)) (persist_phase1_chunk now rid chunk t)" by blast
        with False go Inr x run show ?thesis by (intro exI [of _ "Suc j"]) (simp add: Let_def)
      qed
    qed
  qed
qed

lemma stream_loop_done:
  "stream_loop mk stop now rid k st cs t = (t', Inr final) \<Longrightarrow>
     snd (run_chunks mk st cs) = Some final \<and> t' = fold (persist_phase1_chunk now rid) (fst (run_chunks mk st cs)) t"
proof (induction mk stop now rid k st cs t rule: stream_loop.induct)
  case (1 mk stop now rid k seen anomalies s t)
  then show ?case by auto
next
  case (2 mk stop now rid k seen anomalies s c cs t)
  from 2(2) obtain chunk seen' new where go: "\<not> stop (2 * k)" "mk seen c = Inr (chunk, seen', new)" "\<not> stop (2 * k + 1)"
    by (auto simp: Let_def split: if_splits sum.splits prod.splits)
  let ?s = "merge_stream_state (s\<lparr>st_rows := st_rows s + length (pc_normalized_rows chunk)\<rparr>) chunk"
  from 2(2) go have "stream_loop mk stop now rid (k + 1) (seen', anomalies @ new, ?s) cs (persist_phase1_chunk now rid chunk t) = (t', Inr final)"
    by (simp add: Let_def)
  from 2(1) [OF go(1,2) refl refl refl refl go(3) this] go(2) show ?case by (simp add: split_def Let_def)
qed

text \<open>The writes of a complete import; an attempt performs a prefix of them.\<close>

definition import_chunks :: "lifecycle_cache \<Rightarrow> wb_report \<Rightarrow> pystr \<Rightarrow> cost_table \<Rightarrow> (parser_strategy \<times> wb_row list) list \<Rightarrow>
    process_chunk list \<times> (anomaly_draft list \<times> stream_state) option" where
  "import_chunks lc report filename costs cs =
     run_chunks (make_chunk lc (rp_id report) filename (rp_created_date report) costs) (\<lambda>_. 0, [], empty_stream) cs"

definition streamed_result :: "wb_report \<Rightarrow> (parser_strategy \<times> wb_row list) list \<Rightarrow> anomaly_draft list \<times> stream_state \<Rightarrow> process_result" where
  "streamed_result report cs = (\<lambda>(anomalies, s). build_streamed_result (rp_id report) (Some (fst (hd cs))) (rp_created_date report) s anomalies)"

definition import_actions :: "lifecycle_cache \<Rightarrow> wb_report \<Rightarrow> pystr \<Rightarrow> cost_table \<Rightarrow> (parser_strategy \<times> wb_row list) list \<Rightarrow>
    (process_chunk + process_result) list" where
  "import_actions lc report filename costs cs = (let (chunks, final) = import_chunks lc report filename costs cs
     in map Inl chunks @ (case final of None \<Rightarrow> [] | Some f \<Rightarrow> [Inr (streamed_result report cs f)]))"

definition tenant_costs :: "wb_tables \<Rightarrow> cost_table" where
  "tenant_costs t = load_cost_snapshots (tb_costs t) (tb_mappings t)"

lemma erase_fold_chunks:
  "erase_times (fold (persist_phase1_chunk now (rp_id report)) chunks t) = fold (write_action report) (map Inl chunks) (erase_times t)"
  by (induction chunks arbitrary: t) (simp_all add: erase_persist_chunk)

definition is_done :: "stream_outcome \<Rightarrow> bool" where
  "is_done outcome \<longleftrightarrow> (\<exists>r om fd. outcome = Stream_done r om fd)"

lemma is_done_simps [simp]: "is_done (Stream_done r om fd)" "\<not> is_done (Stream_stopped phase k)" "\<not> is_done (Stream_failed e)"
  by (simp_all add: is_done_def)

lemma stream_loop_not_done: "snd (stream_loop mk stop now rid k st cs t) = Inl outcome \<Longrightarrow> \<not> is_done outcome"
proof (induction mk stop now rid k st cs t rule: stream_loop.induct)
  case (1 mk stop now rid k seen anomalies s t)
  then show ?case by simp
next
  case (2 mk stop now rid k seen anomalies s c cs t)
  show ?case
  proof (cases "stop (2 * k) \<or> (\<exists>e. mk seen c = Inl e)")
    case True
    with 2(2) show ?thesis by (auto split: if_splits)
  next
    case False
    then obtain chunk seen' new where go: "mk seen c = Inr (chunk, seen', new)" "\<not> stop (2 * k)" by (metis sum.exhaust surj_pair)
    show ?thesis
    proof (cases "stop (2 * k + 1)")
      case True
      with 2(2) go show ?thesis by (auto simp: Let_def)
    next
      case False
      with 2(2) go show ?thesis by (intro 2(1) [OF go(2,1) refl refl refl refl False]) (simp add: Let_def)
    qed
  qed
qed

lemma process_streamed_cases:
  assumes "process_wb_streamed lc cr stop now report f filename t = (t', outcome)"
  obtains "t' = t" and "\<not> is_done outcome"
  | c cs where "iter_wb_normalized_rows cr process_chunk_size f filename = Inr (c # cs)"
    and "\<exists>j. t' = fold (persist_phase1_chunk now (rp_id report))
      (take j (fst (import_chunks lc report filename (tenant_costs t) (c # cs)))) t"
    and "\<not> is_done outcome"
  | c cs final where "iter_wb_normalized_rows cr process_chunk_size f filename = Inr (c # cs)"
    and "snd (import_chunks lc report filename (tenant_costs t) (c # cs)) = Some final"
    and "t' = persist_raw_report report (streamed_result report (c # cs) final)
      (fold (persist_phase1_chunk now (rp_id report)) (fst (import_chunks lc report filename (tenant_costs t) (c # cs))) t)"
    and "outcome = Stream_done (streamed_result report (c # cs) final) (st_opening (snd final)) (st_first_dates (snd final))"
proof -
  let ?start = "sbind (assert_ingest_allowed lc version_1) (\<lambda>_. iter_wb_normalized_rows cr process_chunk_size f filename)"
  show ?thesis
  proof (cases ?start)
    case (Inl e)
    with assms show ?thesis by (intro that(1)) (auto simp: process_wb_streamed_def Let_def)
  next
    case (Inr chunks)
    show ?thesis
    proof (cases chunks)
      case Nil
      with Inr assms show ?thesis by (intro that(1)) (auto simp: process_wb_streamed_def Let_def)
    next
      case (Cons c cs)
      have iter: "iter_wb_normalized_rows cr process_chunk_size f filename = Inr (c # cs)"
        using Inr Cons by (simp add: sbind_Inr_iff)
      let ?mk = "make_chunk lc (rp_id report) filename (rp_created_date report) (tenant_costs t)"
      obtain t1 r where loop: "stream_loop ?mk stop now (rp_id report) 0 (\<lambda>_. 0, [], empty_stream) (c # cs) t = (t1, r)"
        by (metis surj_pair)
      show ?thesis
      proof (cases r)
        case (Inl o1)
        with assms Inr Cons loop have "t' = t1" "outcome = o1" by (simp_all add: process_wb_streamed_def tenant_costs_def [symmetric])
        with stream_loop_prefix [of ?mk stop now "rp_id report" 0 "(\<lambda>_. 0, [], empty_stream)" "c # cs" t]
          stream_loop_not_done [of ?mk stop now "rp_id report" 0 "(\<lambda>_. 0, [], empty_stream)" "c # cs" t o1] loop Inl
        show ?thesis by (intro that(2) [OF iter]) (simp_all add: import_chunks_def)
      next
        case fin: (Inr final)
        obtain an s where f: "final = (an, s)" by (metis surj_pair)
        from stream_loop_done [OF loop [unfolded fin]] have run: "snd (import_chunks lc report filename (tenant_costs t) (c # cs)) = Some final"
          "t1 = fold (persist_phase1_chunk now (rp_id report)) (fst (import_chunks lc report filename (tenant_costs t) (c # cs))) t"
          by (simp_all add: import_chunks_def)
        from assms Inr Cons loop fin f have "t' = persist_raw_report report (streamed_result report (c # cs) final) t1"
          "outcome = Stream_done (streamed_result report (c # cs) final) (st_opening (snd final)) (st_first_dates (snd final))"
          by (simp_all add: process_wb_streamed_def tenant_costs_def [symmetric] streamed_result_def Let_def)
        with run show ?thesis by (intro that(3) [OF iter run(1)]) simp_all
      qed
    qed
  qed
qed

lemma attempt_prefix:
  assumes p: "process_wb_streamed lc cr stop now report f filename t = (t', outcome)"
    and iter: "iter_wb_normalized_rows cr process_chunk_size f filename = Inr cs"
  shows "\<exists>j. erase_times t' = fold (write_action report) (take j (import_actions lc report filename (tenant_costs t) cs)) (erase_times t)"
  using p
proof (cases rule: process_streamed_cases)
  case 1
  then show ?thesis by (intro exI [of _ 0]) simp
next
  case (2 c cs')
  let ?chunks = "fst (import_chunks lc report filename (tenant_costs t) cs)"
  from 2 iter obtain j where j: "t' = fold (persist_phase1_chunk now (rp_id report)) (take j ?chunks) t" by auto
  have "map Inl (take j ?chunks) = take (min j (length ?chunks)) (import_actions lc report filename (tenant_costs t) cs)"
    by (simp add: import_actions_def split_def Let_def take_map min_def)
  then show ?thesis unfolding j erase_fold_chunks by metis
next
  case (3 c cs' final)
  let ?actions = "import_actions lc report filename (tenant_costs t) cs"
  have "?actions = map Inl (fst (import_chunks lc report filename (tenant_costs t) cs)) @ [Inr (streamed_result report cs final)]"
    using 3(1,2) iter by (simp add: import_actions_def split_def)
  then have "erase_times t' = fold (write_action report) ?actions (erase_times t)"
    using 3(1,3) iter by (simp add: erase_persist_raw erase_fold_chunks)
  then show ?thesis by (intro exI [of _ "length ?actions"]) simp
qed

lemma attempt_done:
  assumes "process_wb_streamed lc cr stop now report f filename t = (t', Stream_done r om fd)"
    and "iter_wb_normalized_rows cr process_chunk_size f filename = Inr cs"
  shows "erase_times t' = fold (write_action report) (import_actions lc report filename (tenant_costs t) cs) (erase_times t)"
    and "\<exists>final. snd (import_chunks lc report filename (tenant_costs t) cs) = Some final
      \<and> r = streamed_result report cs final \<and> om = st_opening (snd final) \<and> fd = st_first_dates (snd final)"
proof -
  have cases: "\<exists>final. snd (import_chunks lc report filename (tenant_costs t) cs) = Some final
      \<and> t' = persist_raw_report report (streamed_result report cs final)
          (fold (persist_phase1_chunk now (rp_id report)) (fst (import_chunks lc report filename (tenant_costs t) cs)) t)
      \<and> r = streamed_result report cs final \<and> om = st_opening (snd final) \<and> fd = st_first_dates (snd final)"
    using assms(1)
  proof (cases rule: process_streamed_cases)
    case (3 c cs' final)
    with assms(2) show ?thesis by (intro exI [of _ final]) simp
  qed simp_all
  then show "\<exists>final. snd (import_chunks lc report filename (tenant_costs t) cs) = Some final
      \<and> r = streamed_result report cs final \<and> om = st_opening (snd final) \<and> fd = st_first_dates (snd final)" by blast
  from cases show "erase_times t' = fold (write_action report) (import_actions lc report filename (tenant_costs t) cs) (erase_times t)"
    by (auto simp: import_actions_def split_def erase_persist_raw erase_fold_chunks)
qed

lemma write_action_costs: "tenant_costs (write_action report a t) = tenant_costs t"
  by (cases a) (simp_all add: tenant_costs_def persist_chunk_tables persist_raw_report_def)

lemma writes_costs: "tenant_costs (fold (write_action report) as t) = tenant_costs t"
  by (induction as arbitrary: t) (simp_all add: write_action_costs)

lemma tenant_costs_erase [simp]: "tenant_costs (erase_times t) = tenant_costs t"
  by (simp add: tenant_costs_def erase_times_def)

text \<open>Any number of attempts, each with its time and its shutdown, and then one more.\<close>

definition attempts :: "lifecycle_cache \<Rightarrow> cell_reader \<Rightarrow> wb_report \<Rightarrow> report_file \<Rightarrow> pystr \<Rightarrow> ((nat \<Rightarrow> bool) \<times> instant) list \<Rightarrow> wb_tables \<Rightarrow> wb_tables" where
  "attempts lc cr report f filename runs t = foldl (\<lambda>t (stop, now). fst (process_wb_streamed lc cr stop now report f filename t)) t runs"

lemma attempts_prefixes:
  assumes iter: "iter_wb_normalized_rows cr process_chunk_size f filename = Inr cs"
  shows "\<exists>ks. erase_times (attempts lc cr report f filename runs t) =
      fold (\<lambda>k. fold (write_action report) (take k (import_actions lc report filename (tenant_costs t) cs))) ks (erase_times t)
    \<and> tenant_costs (attempts lc cr report f filename runs t) = tenant_costs t"
proof (induction runs rule: rev_induct)
  case Nil
  show ?case by (intro exI [of _ "[]"]) (simp add: attempts_def)
next
  case (snoc run runs)
  obtain stop now where run: "run = (stop, now)" by (metis surj_pair)
  let ?t1 = "attempts lc cr report f filename runs t"
  obtain t2 out where p: "process_wb_streamed lc cr stop now report f filename ?t1 = (t2, out)" by (metis surj_pair)
  from snoc obtain ks where ks: "erase_times ?t1 = fold (\<lambda>k. fold (write_action report) (take k (import_actions lc report filename (tenant_costs t) cs))) ks (erase_times t)"
    "tenant_costs ?t1 = tenant_costs t" by blast
  from attempt_prefix [OF p iter] ks(2) obtain j where j: "erase_times t2 =
      fold (write_action report) (take j (import_actions lc report filename (tenant_costs t) cs)) (erase_times ?t1)" by auto
  have "tenant_costs t2 = tenant_costs t"
    using arg_cong [OF j, of tenant_costs] ks(2) by (simp add: writes_costs)
  moreover have "attempts lc cr report f filename (runs @ [run]) t = t2" using p by (simp add: attempts_def run)
  ultimately show ?case using j ks(1) by (intro exI [of _ "ks @ [j]"]) simp
qed

section \<open>What a complete import writes\<close>

lemma make_chunk_facts:
  assumes "make_chunk lc rid fn d costs seen c = Inr (chunk, seen', new)"
  shows "pc_normalized_rows chunk = snd c" "pc_ledger_entries chunk = from_normalized_rows d (snd c)"
    "pc_reconciliation chunk = reconcile_payout (from_normalized_rows d (snd c))"
    "movements_from_rows lc d costs (snd c) = Inr (pc_inventory_movements chunk)"
    "validate_wb_process rid fn d seen (pc_inventory_movements chunk) = (seen', new)"
  using assms by (auto simp: make_chunk_def sbind_Inr_iff Let_def split: prod.splits)

lemma stream_of_rows: "stream_of ms ls n s \<Longrightarrow> stream_of ms ls (n + k) (s\<lparr>st_rows := st_rows s + k\<rparr>)"
  by (simp add: stream_of_def)

lemma run_chunks_complete:
  assumes "run_chunks (make_chunk lc rid fn d costs) (seen, an, s) cs = (chunks, Some (an', s'))" and "stream_of ms ls n s"
  shows "map pc_normalized_rows chunks = map snd cs \<and> map pc_ledger_entries chunks = map (from_normalized_rows d) (map snd cs)
    \<and> movements_from_rows lc d costs (concat (map snd cs)) = Inr (concat (map pc_inventory_movements chunks))
    \<and> an' = an @ snd (validate_wb_process rid fn d seen (concat (map pc_inventory_movements chunks)))
    \<and> stream_of (ms @ concat (map pc_inventory_movements chunks)) (ls @ map (from_normalized_rows d) (map snd cs))
        (n + length (concat (map snd cs))) s'"
  using assms
proof (induction cs arbitrary: seen an s chunks ms ls n)
  case Nil
  then show ?case by (simp add: movements_from_rows_def validate_wb_process_def)
next
  case (Cons c cs)
  obtain chunk seen' new where mk: "make_chunk lc rid fn d costs seen c = Inr (chunk, seen', new)"
    using Cons.prems(1) by (auto split: sum.splits)
  note facts = make_chunk_facts [OF mk]
  let ?s = "merge_stream_state (s\<lparr>st_rows := st_rows s + length (pc_normalized_rows chunk)\<rparr>) chunk"
  obtain rest where run: "run_chunks (make_chunk lc rid fn d costs) (seen', an @ new, ?s) cs = (rest, Some (an', s'))"
    and chunks: "chunks = chunk # rest"
    using Cons.prems(1) mk by (auto simp: Let_def split: prod.splits)
  have "stream_of (ms @ pc_inventory_movements chunk) (ls @ [from_normalized_rows d (snd c)]) (n + length (pc_normalized_rows chunk)) ?s"
    by (rule merge_stream_state_of [OF stream_of_rows [OF Cons.prems(2)] facts(3)])
  note IH = Cons.IH [OF run this]
  have "snd (validate_wb_process rid fn d seen (concat (map pc_inventory_movements chunks))) =
      new @ snd (validate_wb_process rid fn d seen' (concat (map pc_inventory_movements rest)))"
    by (simp add: chunks validate_append facts(5) split_def Let_def)
  with IH facts show ?case by (simp add: chunks movements_append add.assoc)
qed

lemma normalized_keys_of_rows: "map normalized_key (map (stored_of_row rid) rows) = map (Pair rid) (map w_source_row_id rows)"
  by (simp add: normalized_key_def stored_of_row_def)

lemma ledger_keys_of_entries: "map ledger_key (map (ledger_of_draft rid) es) = map (Pair rid) (map ed_source_row_id es)"
  by (simp add: ledger_key_def ledger_of_draft_def)

lemma fold_chunks_tables:
  "tb_normalized (fold (persist_phase1_chunk now rid) chunks t) =
     insert_all normalized_key (map (stored_of_row rid) (concat (map pc_normalized_rows chunks))) (tb_normalized t)"
  "tb_ledger (fold (persist_phase1_chunk now rid) chunks t) =
     insert_all ledger_key (map (ledger_of_draft rid) (concat (map pc_ledger_entries chunks))) (tb_ledger t)"
  "tb_inventory (fold (persist_phase1_chunk now rid) chunks t) =
     insert_all inventory_key (map (inventory_of_draft now rid) (concat (map pc_inventory_movements chunks))) (tb_inventory t)"
  by (induction chunks arbitrary: t) (simp_all add: persist_chunk_tables insert_all_def)

lemma insert_all_disjoint_report:
  assumes "distinct (map key xs)" and "\<And>x. x \<in> set xs \<Longrightarrow> fst (key x) = rid" and "\<And>y. y \<in> set table \<Longrightarrow> fst (key y) \<noteq> rid"
  shows "insert_all key xs table = table @ xs"
proof (rule insert_all_fresh [OF assms(1)])
  show "key ` set xs \<inter> key ` set table = {}" using assms(2,3) by fastforce
qed

text \<open>A row has at most one movement, so its identifier and type do not repeat.\<close>

lemma movements_ids:
  assumes "movements_from_rows lc d costs rows = Inr ms" and "distinct (map w_source_row_id rows)"
  shows "distinct (map md_source_row_id ms) \<and> set (map md_source_row_id ms) \<subseteq> set (map w_source_row_id rows)"
  using assms
proof (induction rows arbitrary: ms)
  case Nil
  then show ?case by (simp add: movements_from_rows_def)
next
  case (Cons r rows)
  have "movements_from_rows lc d costs ([r] @ rows) = Inr ms" using Cons.prems by simp
  then obtain a b where ab: "movements_from_rows lc d costs [r] = Inr a" "movements_from_rows lc d costs rows = Inr b" "ms = a @ b"
    unfolding movements_append by (auto simp: sbind_Inr_iff)
  from ab(1) obtain o1 where o1: "movement_for_row lc d costs r = Inr o1" "a = (case o1 of None \<Rightarrow> [] | Some m \<Rightarrow> [m])"
    by (auto simp: movements_from_rows_def sbind_Inr_iff)
  have a: "a = [] \<or> (\<exists>m. a = [m] \<and> md_source_row_id m = w_source_row_id r)"
    using o1 movement_for_row_facts(4) [of lc d costs r] by (cases o1) auto
  from Cons.IH [OF ab(2)] Cons.prems(2) a show ?case unfolding ab(3) by auto
qed

section \<open>Complete imports\<close>

lemma iter_is_stream:
  assumes "iter_wb_normalized_rows cr n f filename = Inr cs"
  shows "\<exists>headers rows. cs = yield_normalized_chunks cr n headers rows"
  using assms by (auto simp: iter_wb_normalized_rows_def iter_csv_chunks_def sbind_Inr_iff Let_def split: if_splits option.splits)

lemma iter_row_ids:
  assumes "iter_wb_normalized_rows cr n f filename = Inr cs"
  shows "distinct (map w_source_row_id (concat (map snd cs)))" and "\<forall>row\<in>set (concat (map snd cs)). 58 \<notin> set (w_source_row_id row)"
proof -
  obtain headers rows where cs: "cs = yield_normalized_chunks cr n headers rows" using iter_is_stream [OF assms] by blast
  let ?mk = "row_from_values cr headers (resolve_column_map headers)"
  have "concat (map snd cs) = numbered_rows ?mk 0 rows"
    by (simp add: cs yield_normalized_chunks_def comp_def yield_loop_concat)
  then show "distinct (map w_source_row_id (concat (map snd cs)))" "\<forall>row\<in>set (concat (map snd cs)). 58 \<notin> set (w_source_row_id row)"
    using numbered_ids_distinct [of cr headers _ 0 rows] numbered_ids_no_colon by auto
qed

lemma streamed_done:
  assumes "process_wb_streamed lc cr stop now report f filename t = (t1, Stream_done r om fd)"
    and "iter_wb_normalized_rows cr process_chunk_size f filename = Inr cs"
  obtains chunks anomalies s ms where
    "t1 = persist_raw_report report r (fold (persist_phase1_chunk now (rp_id report)) chunks t)"
    "r = streamed_result report cs (anomalies, s)" "om = st_opening s" "fd = st_first_dates s"
    "map pc_normalized_rows chunks = map snd cs"
    "map pc_ledger_entries chunks = map (from_normalized_rows (rp_created_date report)) (map snd cs)"
    "ms = concat (map pc_inventory_movements chunks)"
    "movements_from_rows lc (rp_created_date report) (tenant_costs t) (concat (map snd cs)) = Inr ms"
    "anomalies = snd (validate_wb_process (rp_id report) filename (rp_created_date report) (\<lambda>_. 0) ms)"
    "stream_of ms (map (from_normalized_rows (rp_created_date report)) (map snd cs)) (length (concat (map snd cs))) s"
  using assms(1)
proof (cases rule: process_streamed_cases)
  case (3 c cs' final)
  then have cs: "cs = c # cs'" using assms(2) by simp
  obtain anomalies s where final: "final = (anomalies, s)" by (metis surj_pair)
  obtain chunks where run: "import_chunks lc report filename (tenant_costs t) cs = (chunks, Some (anomalies, s))"
    using 3(2) final cs by (metis prod.collapse)
  note all = run_chunks_complete [OF run [unfolded import_chunks_def] stream_of_empty]
  show ?thesis
    by (rule that [of chunks anomalies s "concat (map pc_inventory_movements chunks)"])
      (use 3(3,4) all cs final run in simp_all)
qed simp_all

end
