(* ===== verification/Import_Properties.thy ===== *)
theory Import_Properties
  imports Persist_Laws
begin

text \<open>
  The properties of the import of reports: the choice of columns, the stream of chunks, rows read again
  from the stored payload, replay after interruptions, and the agreement of the streamed import
  with the in-memory processor.
\<close>

section \<open>Columns and rows\<close>

text \<open>
  C30. Column mapping: the column of a field is the first one with the greatest positive score, there is
  none when no score is positive, and a header that is exactly an alias of the field is never
  beaten by one that only contains an alias.
\<close>

theorem columns_resolve_best:
  "(case resolve_column_map columns field of
      None \<Rightarrow> \<forall>c\<in>set columns. column_match_score field c \<le> 0
    | Some c \<Rightarrow> 0 < column_match_score field c
        \<and> (\<exists>pre post. columns = pre @ c # post \<and> (\<forall>x\<in>set pre. column_match_score field x < column_match_score field c)
             \<and> (\<forall>x\<in>set post. column_match_score field x \<le> column_match_score field c)))
   \<and> ((\<exists>c\<in>set columns. exact_header field c) \<longrightarrow> (\<exists>c. resolve_column_map columns field = Some c \<and> exact_header field c))"
  using resolve_NoneD [of columns field] resolve_SomeD [of columns field] resolve_exact [of _ columns field]
  by (auto split: option.split)

lemma sku_is_exact: "exact_header F_sku (asc ''sku'')"
  by (simp add: exact_header_def) (simp add: normalize_header_def replace_char_def strip_def lower_def lower_char_def is_space_def asc_def)

lemma columns_resolve_best_witness: "\<exists>c. resolve_column_map [asc ''stock'', asc ''sku''] F_sku = Some c \<and> exact_header F_sku c"
  using columns_resolve_best [of "[asc ''stock'', asc ''sku'']" F_sku] sku_is_exact by auto

text \<open>
  The stream of chunks is a partition of the data rows in order: blank rows are dropped, the rows are
  numbered from zero without gaps (so their identifiers are distinct), no chunk is empty or longer than
  the chunk size, and all but the last are full.
\<close>

lemma chunks_partition_rows:
  assumes "0 < n"
  shows "concat (map snd (yield_normalized_chunks cr n headers rows)) =
      map (\<lambda>k. row_from_values cr headers (resolve_column_map headers) k (filter row_has_data rows ! k)) [0..<length (filter row_has_data rows)]
    \<and> distinct (map w_source_row_id (concat (map snd (yield_normalized_chunks cr n headers rows))))
    \<and> (\<forall>c\<in>set (yield_normalized_chunks cr n headers rows). snd c \<noteq> [] \<and> length (snd c) \<le> n)
    \<and> (\<forall>c\<in>set (butlast (yield_normalized_chunks cr n headers rows)). length (snd c) = n)"
proof -
  let ?mk = "row_from_values cr headers (resolve_column_map headers)"
  have snds: "map snd (yield_normalized_chunks cr n headers rows) = yield_loop n ?mk 0 [] rows"
    by (simp add: yield_normalized_chunks_def comp_def)
  have "concat (map snd (yield_normalized_chunks cr n headers rows)) = numbered_rows ?mk 0 rows"
    unfolding snds by (simp add: yield_loop_concat)
  moreover have "snd c \<noteq> [] \<and> length (snd c) \<le> n" if "c \<in> set (yield_normalized_chunks cr n headers rows)" for c
    using yield_loop_sizes [of n "[]" "snd c" ?mk 0 rows] that assms snds by (metis image_eqI length_0_conv list.set_map)
  moreover have "length (snd c) = n" if "c \<in> set (butlast (yield_normalized_chunks cr n headers rows))" for c
    using yield_loop_full [of n "[]" "snd c" ?mk 0 rows] that assms snds by (metis image_eqI length_0_conv list.set_map map_butlast)
  ultimately show ?thesis
    using numbered_ids_distinct [of cr headers "resolve_column_map headers" 0 rows]
    by (simp add: numbered_rows_map data_rows_def)
qed

definition plain_reader :: cell_reader where
  "plain_reader = \<lparr>cr_float_text = (\<lambda>_. asc ''0.0''), cr_date_text = (\<lambda>_. asc ''date''), cr_text_date = (\<lambda>_. None), cr_pandas_date = (\<lambda>_. None)\<rparr>"

lemma chunks_partition_rows_witness:
  "length (concat (map snd (yield_normalized_chunks plain_reader 2 [[]] [[VStr [49]], [VNone], [VStr [50]], [VInt 3]]))) = 3"
proof -
  have rows: "length (filter row_has_data [[VStr [49]], [VNone], [VStr [50]], [VInt 3]]) = 3"
    by (simp add: row_has_data_def is_empty_cell_def strip_def is_space_def)
  have "concat (map snd (yield_normalized_chunks plain_reader 2 [[]] [[VStr [49]], [VNone], [VStr [50]], [VInt 3]])) =
      map (\<lambda>k. row_from_values plain_reader [[]] (resolve_column_map [[]]) k (filter row_has_data [[VStr [49]], [VNone], [VStr [50]], [VInt 3]] ! k))
        [0..<length (filter row_has_data [[VStr [49]], [VNone], [VStr [50]], [VInt 3]])]"
    using chunks_partition_rows [of 2 plain_reader "[[]]" "[[VStr [49]], [VNone], [VStr [50]], [VInt 3]]"] by simp
  then show ?thesis by (simp only: rows length_map length_upt)
qed


lemma plain_reader_agrees: "reader_agrees plain_reader [VStr [49]]"
  by (simp add: reader_agrees_def is_empty_cell_def py_str_def strip_def is_space_def plain_reader_def parse_date_value_def)


lemma sort_by_index:
  "sort_key st_source_row_index (map (stored_of_row rid) (numbered_rows (row_from_values cr headers cm) 0 rows)) =
     map (stored_of_row rid) (numbered_rows (row_from_values cr headers cm) 0 rows)"
proof (rule sort_key_id_if_sorted)
  have "map st_source_row_index (map (stored_of_row rid) (numbered_rows (row_from_values cr headers cm) 0 rows)) =
      map int [0..<length (data_rows rows)]"
    by (simp add: numbered_rows_map stored_of_row_def row_from_values_def row_of_canonical_def Let_def comp_def)
  then show "sorted (map st_source_row_index (map (stored_of_row rid) (numbered_rows (row_from_values cr headers cm) 0 rows)))"
    by (simp add: sorted_map sorted_wrt_upt)
qed

lemma dated_entries: "w_operation_date row \<noteq> None \<Longrightarrow> entries_for_row d row = entries_for_row e row"
  by (auto simp: entries_for_row_def row_operation_date_def)


definition dated_reader :: cell_reader where
  "dated_reader = plain_reader\<lparr>cr_text_date := (\<lambda>_. Some 5), cr_pandas_date := (\<lambda>v. if v = VStr [49] then Some 5 else None)\<rparr>"

lemma date_column: "resolve_column_map [asc ''date''] F_operation_date = Some (asc ''date'')"
proof -
  have "exact_header F_operation_date (asc ''date'')"
    by (simp add: exact_header_def) (simp add: normalize_header_def replace_char_def strip_def lower_def lower_char_def is_space_def asc_def)
  from resolve_exact [of "asc ''date''" "[asc ''date'']", OF _ this] obtain k
    where "resolve_column_map [asc ''date''] F_operation_date = Some k" by auto
  with resolve_mem [OF this] show ?thesis by simp
qed

lemma dated_reader_agrees: "reader_agrees dated_reader [VStr [49]]"
  by (simp add: reader_agrees_def raw_text_def is_empty_cell_def py_str_def strip_def is_space_def dated_reader_def plain_reader_def parse_date_value_def)


section \<open>The merged reconciliation\<close>

text \<open>
  C36. The reconciliation of a report that is processed in chunks: gross revenue and payouts are those of
  all entries; the expected payout is the net amount for a report of one chunk, but for a report
  of two or more chunks all compensations are missing from it, since merging two partial
  results recomputes the net without them.
\<close>

theorem merged_reconciliation_loses_compensation:
  assumes "chunks \<noteq> []" and "amounts_within 4 L (amounts (concat chunks))" and "signs_ok (concat chunks)" and "L < 10 ^ 24"
  shows "rr_gross_revenue (merged_reconciliation chunks) = op_total L_SALE (concat chunks)
    \<and> rr_actual_payout (merged_reconciliation chunks) = op_total L_PAYOUT (concat chunks)
    \<and> rr_expected_payout (merged_reconciliation chunks) =
        (if length chunks = 1 then net_amount (concat chunks) else net_amount (concat chunks) - op_total L_COMPENSATION (concat chunks))"
proof -
  note parts = merged_parts [OF assms(1,2,4,3)]
  have net: "net_amount (concat chunks) = profit_and_loss (concat chunks)"
    by (rule net_amount_exact [OF assms(2,4)])
  have "rr_expected_payout (merged_reconciliation chunks) =
      (if length chunks = 1 then net_amount (concat chunks) else net_amount (concat chunks) - op_total L_COMPENSATION (concat chunks))"
  proof (cases "length chunks = 1")
    case True
    then obtain c where c: "chunks = [c]" by (cases chunks) auto
    then have "merged_reconciliation chunks = reconcile_payout c" by (simp add: merged_reconciliation_def merge_partial_def)
    with c net reconciliation_exact(1) [of L c] assms(2-4) show ?thesis by simp
  next
    case False
    then have "2 \<le> length chunks" using assms(1) by (cases chunks) (auto simp: Suc_le_eq)
    from merged_expected [OF this assms(2,4,3)] False net show ?thesis by simp
  qed
  with parts show ?thesis by (simp add: result_parts_def parts_of_def ops_total_ops)
qed

definition chunk_entry :: "ledger_op \<Rightarrow> decimal \<Rightarrow> entry_draft" where
  "chunk_entry op amount = \<lparr>ed_operation_date = 1, ed_sku = None, ed_nm_id = None, ed_operation_type = op, ed_amount = amount,
     ed_currency = [], ed_source_row_id = [], ed_entry_metadata = None\<rparr>"

lemma chunk_entry_bounds:
  "amounts_within 4 150 (amounts (concat [[chunk_entry L_SALE 100], [chunk_entry L_COMPENSATION 50]]))"
  "signs_ok (concat [[chunk_entry L_SALE 100], [chunk_entry L_COMPENSATION 50]])"
proof -
  show "signs_ok (concat [[chunk_entry L_SALE 100], [chunk_entry L_COMPENSATION 50]])"
    by (simp add: signs_ok_def amount_sign_ok_def expense_ops_def chunk_entry_def)
  have g: "on_grid 4 (of_int n)" for n by simp
  from g [of 100] g [of 50] show "amounts_within 4 150 (amounts (concat [[chunk_entry L_SALE 100], [chunk_entry L_COMPENSATION 50]]))"
    by (simp add: amounts_within_def amounts_def chunk_entry_def)
qed

lemma merged_reconciliation_loses_compensation_witness:
  "rr_expected_payout (merged_reconciliation [[chunk_entry L_SALE 100], [chunk_entry L_COMPENSATION 50]]) =
    net_amount [chunk_entry L_SALE 100, chunk_entry L_COMPENSATION 50] - 50"
  using merged_reconciliation_loses_compensation [OF _ chunk_entry_bounds] by (simp add: chunk_entry_def)

section \<open>A file that is read\<close>

text \<open>A file with one unnamed column and one value; a header row is not located in it, so its first row is the header.\<close>

definition demo_file :: report_file where
  "demo_file = \<lparr>rf_path_name = asc ''a.csv'', rf_csv_rows = [[[]], [[49]]], rf_sheets = [], rf_active = ([], [])\<rparr>"

definition demo_wb_report :: wb_report where
  "demo_wb_report = \<lparr>rp_id = 1, rp_created_date = 3, rp_row_count = None, rp_file_checksum = [], rp_file_path = []\<rparr>"

definition empty_tables :: wb_tables where
  "empty_tables = \<lparr>tb_raw = [], tb_normalized = [], tb_ledger = [], tb_inventory = [], tb_reconciliation = [], tb_live = [],
     tb_projections = \<lparr>pj_daily = [], pj_sku = [], pj_unit_economics = []\<rparr>, tb_costs = [], tb_mappings = []\<rparr>"

lemma single_column_score: "length headers \<le> 1 \<Longrightarrow> header_signature_score headers < 200"
proof -
  assume one: "length headers \<le> 1"
  have "length (remdups (map normalize_header (filter Q headers))) \<le> length (filter Q headers)" for Q
    using length_remdups_leq [of "map normalize_header (filter Q headers)"] by simp
  then have le: "length (filter P (remdups (map normalize_header (filter Q headers)))) \<le> 1" for P Q
    using one length_filter_le [of Q headers] length_filter_le [of P "remdups (map normalize_header (filter Q headers))"]
    by (meson le_trans)
  have "length (filter P canonical_fields) \<le> 23" for P
    using length_filter_le [of P canonical_fields] by (simp add: canonical_fields_def)
  note mapped = this [of "\<lambda>f. case resolve_column_map headers f of None \<Rightarrow> False | Some c \<Rightarrow> c \<noteq> []"]
  show ?thesis
    unfolding header_signature_score_def Let_def
    using mapped le [of "\<lambda>h. h \<in> parser_version_v1_signature" "\<lambda>h. strip h \<noteq> []"] le [of "\<lambda>h. h \<in> parser_version_v2_signature" "\<lambda>h. strip h \<noteq> []"]
      le [of "\<lambda>h. list_ex (\<lambda>marker. contains marker h) ru_markers" "\<lambda>h. strip h \<noteq> []"]
    by (auto simp: min_signature_hits_def max_def split: if_splits)
qed

lemma single_column_not_located:
  assumes "\<forall>row\<in>set rows. length row \<le> 1"
  shows "locate_wb_table_in_rows cr rows = None"
proof (rule ccontr)
  assume "locate_wb_table_in_rows cr rows \<noteq> None"
  then obtain t where t: "locate_wb_table_in_rows cr rows = Some t" by blast
  note d = locate_in_rows_SomeD [OF t]
  have "rows ! tl_header_row_index t \<in> set rows" using d(1) by simp
  then have "length (tl_headers t) \<le> 1" using assms d(2) by (simp add: cells_to_headers_def)
  from single_column_score [OF this] d(3) show False by (simp add: min_signature_hits_def)
qed

lemma unnamed_column: "resolve_column_map [[]] field = None"
  by (simp add: resolve_column_map_def best_step_def column_match_score_def normalize_header_def strip_def lower_def replace_char_def)

lemma unnamed_row_canonical: "w_canonical (row_from_values cr [[]] (resolve_column_map [[]]) i vs) = (\<lambda>_. VNone)"
  by (simp add: row_from_values_canonical unnamed_column)

lemma demo_iter: "iter_wb_normalized_rows plain_reader process_chunk_size demo_file (asc ''a.csv'') =
    Inr [(Realization_V1, [row_from_values plain_reader [[]] (resolve_column_map [[]]) 0 [VStr [49]]])]"
proof -
  have suffix: "file_suffix (asc ''a.csv'') = asc ''.csv''"
    by (simp add: file_suffix_def asc_def lower_def lower_char_def)
  have "locate_wb_table_in_rows plain_reader [[VStr []], [VStr [49]]] = None"
    by (rule single_column_not_located) simp
  then have located: "locate_wb_table plain_reader demo_file (asc ''a.csv'') =
      Inr \<lparr>tl_sheet_name = None, tl_header_row_index = 0, tl_headers = [[]], tl_estimated_data_rows = 1\<rparr>"
    by (simp add: locate_wb_table_def suffix demo_file_def cells_to_headers_def is_empty_cell_def strip_def)
  have "row_has_data [VStr [49]]" by (simp add: row_has_data_def is_empty_cell_def strip_def is_space_def)
  then have "yield_normalized_chunks plain_reader process_chunk_size [[]] [[VStr [49]]] =
      [(Realization_V1, [row_from_values plain_reader [[]] (resolve_column_map [[]]) 0 [VStr [49]]])]"
    by (simp add: yield_normalized_chunks_def process_chunk_size_def select_parser_from_headers_def signature_hits_def)
  then show ?thesis
    using located by (simp add: iter_wb_normalized_rows_def iter_csv_chunks_def suffix demo_file_def)
qed

lemma demo_movements: "movements_from_rows builtin_lifecycle d costs [row_from_values plain_reader [[]] (resolve_column_map [[]]) 0 [VStr [49]]] = Inr []"
proof -
  have "get_semantics_strategy builtin_lifecycle version_1 = Inr StrategyV1"
    by (simp add: get_semantics_strategy_def assert_ingest_allowed_def get_lifecycle_record_def builtin_lifecycle_def semantics_registry_def)
  then show ?thesis
    by (simp add: movements_from_rows_def movement_for_row_def unnamed_row_canonical text_of_def infer_from_amounts_def nonzero_dec_def
      dec_of_def Let_def resolve_inventory_operation_type_def normalize_operation_label_def)
qed

lemma demo_streamed:
  "\<exists>t1 r om fd. process_wb_streamed builtin_lifecycle plain_reader (\<lambda>_. False) now demo_wb_report demo_file (asc ''a.csv'') t = (t1, Stream_done r om fd)"
proof -
  have "assert_ingest_allowed builtin_lifecycle version_1 = Inr ()"
    by (simp add: assert_ingest_allowed_def get_lifecycle_record_def builtin_lifecycle_def semantics_registry_def)
  then show ?thesis
    by (simp add: process_wb_streamed_def demo_iter make_chunk_def demo_movements split_def Let_def)
qed

section \<open>The streamed import\<close>

text \<open>
  C2. Replay: after any number of attempts of the streamed import, each stopped by a shutdown at any
  point, failed or complete, a complete one leaves all tables as it would have left them alone (but for
  the times of creation of inventory rows) and returns the same result.
\<close>

theorem streamed_import_replay:
  assumes "process_wb_streamed lc cr stop now report f filename (attempts lc cr report f filename runs t) = (t1, Stream_done r1 om1 fd1)"
    and "process_wb_streamed lc cr stop' now' report f filename t = (t2, Stream_done r2 om2 fd2)"
  shows "erase_times t1 = erase_times t2 \<and> r1 = r2 \<and> om1 = om2 \<and> fd1 = fd2"
proof -
  from assms(2) obtain cs where cs: "iter_wb_normalized_rows cr process_chunk_size f filename = Inr cs"
    by (cases rule: process_streamed_cases) (auto simp: is_done_def)
  let ?actions = "import_actions lc report filename (tenant_costs t) cs"
  obtain ks where ks: "erase_times (attempts lc cr report f filename runs t) =
      fold (\<lambda>k. fold (write_action report) (take k ?actions)) ks (erase_times t)"
    "tenant_costs (attempts lc cr report f filename runs t) = tenant_costs t"
    using attempts_prefixes [OF cs] by blast
  note first = attempt_done [OF assms(1) cs, unfolded ks(2)] and second = attempt_done [OF assms(2) cs]
  have "erase_times t1 = erase_times t2"
    using first(1) second(1) import_writes.replay_attempts [of report ?actions ks "erase_times t"] ks(1) by simp
  with first(2) second(2) show ?thesis by auto
qed

lemma streamed_import_replay_witness:
  "\<exists>t1 t2 r om fd. process_wb_streamed builtin_lifecycle plain_reader (\<lambda>_. False) 8 demo_wb_report demo_file (asc ''a.csv'')
       (attempts builtin_lifecycle plain_reader demo_wb_report demo_file (asc ''a.csv'') [(\<lambda>k. k = 1, 5), (\<lambda>_. False, 6)] empty_tables)
       = (t1, Stream_done r om fd)
     \<and> process_wb_streamed builtin_lifecycle plain_reader (\<lambda>_. False) 7 demo_wb_report demo_file (asc ''a.csv'') empty_tables = (t2, Stream_done r om fd)
     \<and> erase_times t1 = erase_times t2"
proof -
  obtain t1 r1 om1 fd1 where a: "process_wb_streamed builtin_lifecycle plain_reader (\<lambda>_. False) 8 demo_wb_report demo_file (asc ''a.csv'')
       (attempts builtin_lifecycle plain_reader demo_wb_report demo_file (asc ''a.csv'') [(\<lambda>k. k = 1, 5), (\<lambda>_. False, 6)] empty_tables)
       = (t1, Stream_done r1 om1 fd1)" using demo_streamed by blast
  obtain t2 r2 om2 fd2 where b: "process_wb_streamed builtin_lifecycle plain_reader (\<lambda>_. False) 7 demo_wb_report demo_file (asc ''a.csv'') empty_tables =
       (t2, Stream_done r2 om2 fd2)" using demo_streamed by blast
  from streamed_import_replay [OF a b] a b show ?thesis by blast
qed

text \<open>
  C4. A complete import of a report that is not stored yet appends its rows, their ledger entries and their
  movements to the tables, each exactly once and in order, and the number of stored rows is the one
  that the checks before persisting ask for.
\<close>

theorem streamed_import_complete:
  assumes "process_wb_streamed lc cr stop now report f filename t = (t1, Stream_done r om fd)"
    and "iter_wb_normalized_rows cr process_chunk_size f filename = Inr cs"
    and "\<forall>s\<in>set (tb_normalized t). st_report_id s \<noteq> rp_id report" and "\<forall>x\<in>set (tb_ledger t). lt_report_id x \<noteq> rp_id report"
    and "\<forall>e\<in>set (tb_inventory t). le_report_id e \<noteq> rp_id report"
  shows "tb_normalized t1 = tb_normalized t @ map (stored_of_row (rp_id report)) (concat (map snd cs))
    \<and> tb_ledger t1 = tb_ledger t @ map (ledger_of_draft (rp_id report)) (from_normalized_rows (rp_created_date report) (concat (map snd cs)))
    \<and> (\<exists>ms. movements_from_rows lc (rp_created_date report) (tenant_costs t) (concat (map snd cs)) = Inr ms
         \<and> tb_inventory t1 = tb_inventory t @ map (inventory_of_draft now (rp_id report)) ms)
    \<and> pr_row_count r = length (concat (map snd cs))
    \<and> assert_row_count label (fst (count_phase1_rows (rp_id report) t1)) (pr_row_count r) = Inr ()"
proof -
  let ?rid = "rp_id report" and ?d = "rp_created_date report" and ?rows = "concat (map snd cs)"
  obtain chunks anomalies s ms where t1: "t1 = persist_raw_report report r (fold (persist_phase1_chunk now ?rid) chunks t)"
    and r: "r = streamed_result report cs (anomalies, s)"
    and rows: "map pc_normalized_rows chunks = map snd cs" and ledgers: "map pc_ledger_entries chunks = map (from_normalized_rows ?d) (map snd cs)"
    and ms: "ms = concat (map pc_inventory_movements chunks)" "movements_from_rows lc ?d (tenant_costs t) ?rows = Inr ms"
    and s: "stream_of ms (map (from_normalized_rows ?d) (map snd cs)) (length ?rows) s"
    by (rule streamed_done [OF assms(1,2)])
  note ids = iter_row_ids [OF assms(2)]
  have "distinct (map normalized_key (map (stored_of_row ?rid) ?rows))"
    unfolding normalized_keys_of_rows by (rule distinct_map [THEN iffD2]) (simp add: ids(1) inj_on_def)
  then have norm: "tb_normalized t1 = tb_normalized t @ map (stored_of_row ?rid) ?rows"
    unfolding t1 persist_raw_keeps fold_chunks_tables rows using assms(3)
    by (intro insert_all_disjoint_report [where rid = ?rid]) (auto simp: normalized_key_def stored_of_row_def)
  have "distinct (map ed_source_row_id (from_normalized_rows ?d ?rows))" by (rule ledger_ids_distinct [OF ids])
  then have "distinct (map ledger_key (map (ledger_of_draft ?rid) (from_normalized_rows ?d ?rows)))"
    unfolding ledger_keys_of_entries by (simp add: distinct_map inj_on_def)
  then have ledger: "tb_ledger t1 = tb_ledger t @ map (ledger_of_draft ?rid) (from_normalized_rows ?d ?rows)"
    unfolding t1 persist_raw_keeps fold_chunks_tables ledgers ledger_concat [symmetric] using assms(4)
    by (intro insert_all_disjoint_report [where rid = ?rid]) (auto simp: ledger_key_def ledger_of_draft_def)
  have "distinct (map md_source_row_id ms)" using movements_ids [OF ms(2) ids(1)] by simp
  then have "distinct (map inventory_key (map (inventory_of_draft now ?rid) ms))"
    by (auto simp: inventory_key_def inventory_of_draft_def distinct_map inj_on_def)
  then have inventory: "tb_inventory t1 = tb_inventory t @ map (inventory_of_draft now ?rid) ms"
    unfolding t1 persist_raw_keeps fold_chunks_tables ms(1) [symmetric] using assms(5)
    by (intro insert_all_disjoint_report [where rid = ?rid]) (auto simp: inventory_key_def inventory_of_draft_def)
  have count: "pr_row_count r = length ?rows"
    using s by (simp add: r streamed_result_def build_streamed_result_def stream_of_def Let_def)
  have "filter (\<lambda>x. st_report_id x = ?rid) (tb_normalized t1) = map (stored_of_row ?rid) ?rows"
    using assms(3) by (simp add: norm filter_empty_conv stored_of_row_def)
  then have "fst (count_phase1_rows ?rid t1) = length ?rows" by (simp add: count_phase1_rows_def)
  with norm ledger ms(2) inventory count show ?thesis by (auto simp: assert_row_count_def)
qed

lemma streamed_import_complete_witness:
  "\<exists>t1 r om fd. process_wb_streamed builtin_lifecycle plain_reader (\<lambda>_. False) 8 demo_wb_report demo_file (asc ''a.csv'') empty_tables = (t1, Stream_done r om fd)
     \<and> length (tb_normalized t1) = 1 \<and> pr_row_count r = 1"
proof -
  obtain t1 r om fd where a: "process_wb_streamed builtin_lifecycle plain_reader (\<lambda>_. False) 8 demo_wb_report demo_file (asc ''a.csv'') empty_tables =
       (t1, Stream_done r om fd)" using demo_streamed by blast
  have "length (tb_normalized t1) = 1 \<and> pr_row_count r = 1"
    using streamed_import_complete [OF a demo_iter] by (simp add: empty_tables_def)
  with a show ?thesis by blast
qed

text \<open>
  C16. The streamed import and the in-memory processor agree on the same rows: reconciliation, row count,
  data quality anomalies, the first affected day, and what the opening balance check reads.
\<close>

theorem streamed_equals_in_memory:
  assumes "process_wb_streamed lc cr stop now report f filename t = (t1, Stream_done r om fd)"
    and "iter_wb_normalized_rows cr process_chunk_size f filename = Inr cs"
    and "process lc (rp_id report) (rp_created_date report) filename (tenant_costs t) (parser, concat (map snd cs)) = Inr p"
  shows "pr_reconciliation r = pr_reconciliation p \<and> pr_row_count r = pr_row_count p \<and> pr_etl_anomalies r = pr_etl_anomalies p
    \<and> earliest_movement_date r = earliest_movement_date p
    \<and> om = filter (\<lambda>m. is_opening_balance_movement (md_canonical_payload m)) (pr_inventory_movements p)
    \<and> fd = batch_first_operation_dates (pr_inventory_movements p)"
proof -
  let ?d = "rp_created_date report" and ?rows = "concat (map snd cs)"
  obtain chunks anomalies s ms where r: "r = streamed_result report cs (anomalies, s)" and om: "om = st_opening s" "fd = st_first_dates s"
    and ms: "movements_from_rows lc ?d (tenant_costs t) ?rows = Inr ms"
    and an: "anomalies = snd (validate_wb_process (rp_id report) filename ?d (\<lambda>_. 0) ms)"
    and s: "stream_of ms (map (from_normalized_rows ?d) (map snd cs)) (length ?rows) s"
    by (rule streamed_done [OF assms(1,2)])
  have pos: "0 < process_chunk_size" by (simp add: process_chunk_size_def)
  obtain headers rows where cs: "cs = yield_normalized_chunks cr process_chunk_size headers rows" using iter_is_stream [OF assms(2)] by blast
  have part: "iter_chunks process_chunk_size ?rows = map snd cs"
    by (simp add: cs yield_chunks [OF pos] comp_def pos)
  have ledgers: "process_chunks lc ?d (tenant_costs t) (iter_chunks process_chunk_size ?rows) = Inr (map (from_normalized_rows ?d) (map snd cs), ms)"
    unfolding part process_chunks_whole using ms by simp
  from assms(3) have p: "pr_inventory_movements p = ms" "pr_reconciliation p = merged_reconciliation (map (from_normalized_rows ?d) (map snd cs))"
    "pr_row_count p = length ?rows" "pr_etl_anomalies p = anomalies" "pr_earliest_movement_date p = None"
    by (auto simp: process_def ledgers an sbind_Inr_iff Let_def split: prod.splits)
  have "pr_reconciliation r = merged_reconciliation (map (from_normalized_rows ?d) (map snd cs))"
    using s by (simp add: r streamed_result_def build_streamed_result_def stream_of_def merged_reconciliation_def Let_def)
  moreover have "pr_row_count r = length ?rows" "pr_etl_anomalies r = anomalies"
    using s by (simp_all add: r streamed_result_def build_streamed_result_def stream_of_def Let_def)
  moreover have "earliest_movement_date r = earliest_of ms"
    using s by (simp add: earliest_movement_date_def earliest_of_def r streamed_result_def build_streamed_result_def stream_of_def Let_def)
  moreover have "earliest_movement_date p = earliest_of ms"
    by (simp add: earliest_movement_date_def earliest_of_def p)
  ultimately show ?thesis using s p om by (simp add: stream_of_def)
qed

lemma demo_process: "\<exists>p. process builtin_lifecycle 1 3 filename costs
    (Realization_V1, [row_from_values plain_reader [[]] (resolve_column_map [[]]) 0 [VStr [49]]]) = Inr p"
proof -
  have "assert_ingest_allowed builtin_lifecycle version_1 = Inr ()"
    by (simp add: assert_ingest_allowed_def get_lifecycle_record_def builtin_lifecycle_def semantics_registry_def)
  moreover have "\<exists>x. pipeline_rebuild builtin_lifecycle costs None None None [] = Inr x"
    by (simp add: pipeline_rebuild_def rebuild_from_ledger_def collect_semantics_versions_def build_sale_price_index_def Let_def)
  moreover have "iter_chunks process_chunk_size [row_from_values plain_reader [[]] (resolve_column_map [[]]) 0 [VStr [49]]] =
      [[row_from_values plain_reader [[]] (resolve_column_map [[]]) 0 [VStr [49]]]]"
    by (rule iter_chunks_short [THEN trans]) (simp_all add: process_chunk_size_def)
  ultimately show ?thesis
    by (auto simp: process_def process_chunks_whole demo_movements split_def Let_def)
qed

lemma streamed_equals_in_memory_witness:
  "\<exists>t1 r om fd p. process_wb_streamed builtin_lifecycle plain_reader (\<lambda>_. False) 8 demo_wb_report demo_file (asc ''a.csv'') empty_tables = (t1, Stream_done r om fd)
     \<and> process builtin_lifecycle 1 3 (asc ''a.csv'') (tenant_costs empty_tables)
         (Realization_V1, [row_from_values plain_reader [[]] (resolve_column_map [[]]) 0 [VStr [49]]]) = Inr p
     \<and> pr_reconciliation r = pr_reconciliation p"
proof -
  obtain t1 r om fd where a: "process_wb_streamed builtin_lifecycle plain_reader (\<lambda>_. False) 8 demo_wb_report demo_file (asc ''a.csv'') empty_tables =
       (t1, Stream_done r om fd)" using demo_streamed by blast
  obtain p where p: "process builtin_lifecycle 1 3 (asc ''a.csv'') (tenant_costs empty_tables)
      (Realization_V1, [row_from_values plain_reader [[]] (resolve_column_map [[]]) 0 [VStr [49]]]) = Inr p" using demo_process by blast
  then have "process builtin_lifecycle (rp_id demo_wb_report) (rp_created_date demo_wb_report) (asc ''a.csv'') (tenant_costs empty_tables)
      (Realization_V1, concat (map snd [(Realization_V1, [row_from_values plain_reader [[]] (resolve_column_map [[]]) 0 [VStr [49]]])])) = Inr p"
    by (simp add: demo_wb_report_def)
  from streamed_equals_in_memory [OF a demo_iter this] a p show ?thesis by blast
qed

end
