(* ===== verification/Rebuild_Orchestration.thy ===== *)
theory Rebuild_Orchestration
  imports Job_Service
begin

text \<open>
  Snapshot rebuild requirements: the rows (\<open>app/models/semantics/governance.py\<close>), their priorities,
  eligibility, fair selection and status transitions (\<open>app/operations/rebuild_orchestration.py\<close>), the
  adaptive order (\<open>app/runtime/adaptive/prioritizer.py\<close>), the recovery of a tenant
  (\<open>app/operations/recovery.py\<close>), the maintenance pass (\<open>app/runtime/retry_supervisor.py\<close>) and the request of a
  rebuild (\<open>app/services/semantics_invalidation_service.py\<close>). Where the database may return rows in any order it
  returns them in the order of the table. The clock stands still during one pass.
\<close>

section \<open>Rows\<close>

datatype rebuild_status = RB_PENDING | RB_QUEUED | RB_RUNNING | RB_SUCCEEDED | RB_FAILED | RB_DEFERRED

datatype rebuild_mode = MODE_INCREMENTAL | MODE_FULL

record requirement =
  rq_id :: uuid
  rq_user_id :: uuid
  rq_semantics_version :: pystr
  rq_reason :: pystr
  rq_requires_rebuild :: bool
  rq_status :: rebuild_status
  rq_mode :: rebuild_mode
  rq_priority :: int
  rq_attempt_count :: int
  rq_max_attempts :: int
  rq_last_error :: "pystr option"
  rq_last_attempted_at :: "instant option"
  rq_next_eligible_at :: "instant option"
  rq_started_at :: "instant option"
  rq_completed_at :: "instant option"
  rq_created_at :: instant

text \<open>\<open>RebuildPriority\<close>: a lower number comes first.\<close>

definition prio_semantics_invalidation :: int where "prio_semantics_invalidation = 10"
definition prio_drift_repair :: int where "prio_drift_repair = 30"

definition request_rebuild :: "instant \<Rightarrow> uuid \<Rightarrow> uuid \<Rightarrow> pystr \<Rightarrow> pystr \<Rightarrow> requirement list \<Rightarrow> requirement list" where
  "request_rebuild now rid u version reason t =
     t @ [\<lparr>rq_id = rid, rq_user_id = u, rq_semantics_version = version, rq_reason = reason, rq_requires_rebuild = True,
       rq_status = RB_PENDING, rq_mode = MODE_INCREMENTAL, rq_priority = prio_semantics_invalidation,
       rq_attempt_count = 0, rq_max_attempts = 3, rq_last_error = None, rq_last_attempted_at = None,
       rq_next_eligible_at = None, rq_started_at = None, rq_completed_at = None, rq_created_at = now\<rparr>]"

section \<open>Eligibility\<close>

text \<open>The delay in seconds; the attempt counter is never negative.\<close>

definition rebuild_retry_delay :: "int \<Rightarrow> int" where
  "rebuild_retry_delay attempt_count = min (30 * 2 ^ nat attempt_count) 3600"

definition compute_next_eligible_at :: "instant \<Rightarrow> int \<Rightarrow> instant" where
  "compute_next_eligible_at now attempt_count = now + seconds (rebuild_retry_delay attempt_count)"

definition is_eligible_for_dispatch :: "instant \<Rightarrow> requirement \<Rightarrow> bool" where
  "is_eligible_for_dispatch now r =
     (if \<not> rq_requires_rebuild r then False
      else if rq_status r \<in> {RB_RUNNING, RB_SUCCEEDED} then False
      else if rq_max_attempts r \<le> rq_attempt_count r then False
      else if (case rq_next_eligible_at r of None \<Rightarrow> False | Some e \<Rightarrow> now < e) then False
      else rq_status r \<in> {RB_PENDING, RB_QUEUED, RB_FAILED, RB_DEFERRED})"

section \<open>Selection\<close>

fun fair_loop :: "int \<Rightarrow> int \<Rightarrow> requirement list \<Rightarrow> (uuid \<times> int) list \<Rightarrow> requirement list \<Rightarrow> requirement list" where
  "fair_loop limit cap picked per_tenant [] = picked"
| "fair_loop limit cap picked per_tenant (row # rows) =
     (if limit \<le> int (length picked) then picked
      else (let count = dict_get per_tenant (rq_user_id row) 0 in
        if cap \<le> count then fair_loop limit cap picked per_tenant rows
        else fair_loop limit cap (picked @ [row]) (AList.update (rq_user_id row) (count + 1) per_tenant) rows))"

definition dispatch_order :: "requirement \<Rightarrow> int \<times> instant" where
  "dispatch_order r = (rq_priority r, rq_created_at r)"

definition select_fair_batch :: "int \<Rightarrow> int \<Rightarrow> requirement list \<Rightarrow> requirement list" where
  "select_fair_batch limit cap rows = fair_loop limit cap [] [] (sort_key dispatch_order rows)"

text \<open>\<open>AdaptiveRebuildPrioritizer.adjust\<close>: the order with the boost of starved tenants.\<close>

definition oldest_by_tenant :: "requirement list \<Rightarrow> (uuid \<times> instant) list" where
  "oldest_by_tenant rows = fold (\<lambda>r d. case map_of d (rq_user_id r) of
       None \<Rightarrow> AList.update (rq_user_id r) (rq_created_at r) d
     | Some cur \<Rightarrow> if rq_created_at r < cur then AList.update (rq_user_id r) (rq_created_at r) d else d) rows []"

definition adjusted_priority :: "instant \<Rightarrow> int \<Rightarrow> (uuid \<times> instant) list \<Rightarrow> requirement \<Rightarrow> int" where
  "adjusted_priority now boost oldest r =
     (let age = now - dict_get oldest (rq_user_id r) (rq_created_at r)
      in if seconds 3600 < age \<and> prio_drift_repair < rq_priority r
         then max prio_semantics_invalidation (rq_priority r - boost) else rq_priority r)"

definition adjust :: "instant \<Rightarrow> int \<Rightarrow> requirement list \<Rightarrow> requirement list" where
  "adjust now boost rows = sort_key (\<lambda>r. (adjusted_priority now boost (oldest_by_tenant rows) r, rq_created_at r)) rows"

text \<open>\<open>RebuildDispatcher._select_requirement_id\<close>: the limit applies before the filter.\<close>

definition dispatchable :: "requirement \<Rightarrow> bool" where
  "dispatchable r \<longleftrightarrow> rq_requires_rebuild r \<and> rq_status r \<in> {RB_PENDING, RB_QUEUED, RB_DEFERRED, RB_FAILED}"

definition dispatch_candidates :: "settings \<Rightarrow> requirement list \<Rightarrow> requirement list" where
  "dispatch_candidates st t =
     take (orchestrator_dispatch_batch_size st) (sort_key dispatch_order (filter dispatchable t))"

definition select_requirement_id :: "settings \<Rightarrow> instant \<Rightarrow> requirement list \<Rightarrow> uuid option" where
  "select_requirement_id st now t =
     (let candidates = filter (is_eligible_for_dispatch now) (dispatch_candidates st t) in
      if candidates = [] then None
      else (case select_fair_batch (orchestrator_max_dispatch_per_cycle st) 1 (adjust now 15 candidates) of
          [] \<Rightarrow> None | row # _ \<Rightarrow> Some (rq_id row)))"

section \<open>Status transitions\<close>

definition mark_queued :: "requirement \<Rightarrow> requirement" where
  "mark_queued r = r\<lparr>rq_status := RB_QUEUED\<rparr>"

definition mark_running :: "instant \<Rightarrow> requirement \<Rightarrow> requirement" where
  "mark_running now r = r\<lparr>rq_status := RB_RUNNING, rq_started_at := Some now, rq_last_attempted_at := Some now,
     rq_attempt_count := rq_attempt_count r + 1\<rparr>"

definition mark_succeeded :: "instant \<Rightarrow> requirement \<Rightarrow> requirement" where
  "mark_succeeded now r = r\<lparr>rq_status := RB_SUCCEEDED, rq_requires_rebuild := False, rq_completed_at := Some now,
     rq_last_error := None\<rparr>"

definition mark_requirement_failed :: "instant \<Rightarrow> pystr \<Rightarrow> requirement \<Rightarrow> requirement" where
  "mark_requirement_failed now error r =
     (let r1 = r\<lparr>rq_last_error := Some error, rq_last_attempted_at := Some now\<rparr> in
      if rq_max_attempts r \<le> rq_attempt_count r then r1\<lparr>rq_status := RB_FAILED, rq_completed_at := Some now\<rparr>
      else r1\<lparr>rq_status := RB_DEFERRED, rq_next_eligible_at := Some (compute_next_eligible_at now (rq_attempt_count r))\<rparr>)"

definition mark_deferred_lock_busy :: "instant \<Rightarrow> int \<Rightarrow> requirement \<Rightarrow> requirement" where
  "mark_deferred_lock_busy now defer_seconds r =
     r\<lparr>rq_attempt_count := (if 0 < rq_attempt_count r then rq_attempt_count r - 1 else rq_attempt_count r),
       rq_status := RB_DEFERRED, rq_next_eligible_at := Some (now + seconds defer_seconds),
       rq_last_error := Some (asc ''inventory rebuild advisory lock busy''), rq_last_attempted_at := Some now,
       rq_started_at := None\<rparr>"

definition get_requirement :: "uuid \<Rightarrow> requirement list \<Rightarrow> requirement option" where
  "get_requirement rid t = List.find (\<lambda>r. rq_id r = rid) t"

definition update_requirement :: "uuid \<Rightarrow> (requirement \<Rightarrow> requirement) \<Rightarrow> requirement list \<Rightarrow> requirement list" where
  "update_requirement rid f t = map (\<lambda>r. if rq_id r = rid then f r else r) t"

section \<open>Recovery of a tenant\<close>

definition stale_running :: "instant \<Rightarrow> requirement \<Rightarrow> bool" where
  "stale_running cutoff r \<longleftrightarrow> rq_status r = RB_RUNNING \<and> (case rq_started_at r of None \<Rightarrow> False | Some s \<Rightarrow> s < cutoff)"

definition reset_stale :: "instant \<Rightarrow> requirement \<Rightarrow> requirement" where
  "reset_stale now r = r\<lparr>rq_status := RB_DEFERRED, rq_last_error := Some (asc ''stale RUNNING reset by recovery''),
     rq_next_eligible_at := Some (compute_next_eligible_at now (rq_attempt_count r))\<rparr>"

definition reset_stale_running_rebuilds :: "instant \<Rightarrow> uuid \<Rightarrow> int \<Rightarrow> requirement list \<Rightarrow> recovery_action \<times> requirement list" where
  "reset_stale_running_rebuilds now u stale_after t =
     (let hit = (\<lambda>r. rq_user_id r = u \<and> stale_running (now - seconds stale_after) r);
          n = int (length (filter hit t))
      in (\<lparr>ra_action = asc ''reset_stale_running_rebuilds'', ra_affected_count = n,
            ra_detail = asc ''reset '' @ show_int n @ asc '' stale RUNNING rebuild requirement(s)'', ra_job_ids = []\<rparr>,
          map (\<lambda>r. if hit r then reset_stale now r else r) t))"

definition needs_backoff :: "requirement \<Rightarrow> bool" where
  "needs_backoff r \<longleftrightarrow> rq_requires_rebuild r \<and> rq_status r \<in> {RB_DEFERRED, RB_FAILED, RB_PENDING}
     \<and> rq_attempt_count r < rq_max_attempts r \<and> rq_next_eligible_at r = None"

definition apply_backoff :: "instant \<Rightarrow> requirement \<Rightarrow> requirement" where
  "apply_backoff now r = r\<lparr>rq_next_eligible_at := Some (compute_next_eligible_at now (rq_attempt_count r)),
     rq_status := (if rq_status r = RB_FAILED then RB_DEFERRED else rq_status r)\<rparr>"

definition apply_rebuild_retry_backoff :: "instant \<Rightarrow> uuid \<Rightarrow> requirement list \<Rightarrow> recovery_action \<times> requirement list" where
  "apply_rebuild_retry_backoff now u t =
     (let hit = (\<lambda>r. rq_user_id r = u \<and> needs_backoff r);
          n = int (length (filter hit t))
      in (\<lparr>ra_action = asc ''apply_rebuild_retry_backoff'', ra_affected_count = n,
            ra_detail = asc ''scheduled backoff on '' @ show_int n @ asc '' rebuild requirement(s)'', ra_job_ids = []\<rparr>,
          map (\<lambda>r. if hit r then apply_backoff now r else r) t))"

section \<open>The maintenance pass\<close>

record supervisor_report =
  sr_stale_running_reset :: int
  sr_backoff_rows_updated :: int
  sr_poison_orchestration_rows :: int
  sr_tenants_recovery_jobs :: int

text \<open>One action per tenant in turn; the counts are added.\<close>

fun for_tenants :: "(uuid \<Rightarrow> 't \<Rightarrow> recovery_action \<times> 't) \<Rightarrow> uuid list \<Rightarrow> 't \<Rightarrow> int \<times> 't" where
  "for_tenants act [] t = (0, t)"
| "for_tenants act (u # us) t =
     (let (result, t1) = act u t; (n, t2) = for_tenants act us t1 in (ra_affected_count result + n, t2))"

definition reset_stale_running_globally :: "settings \<Rightarrow> instant \<Rightarrow> requirement list \<Rightarrow> int \<times> requirement list" where
  "reset_stale_running_globally st now t =
     for_tenants (\<lambda>u. reset_stale_running_rebuilds now u (recovery_stale_running_seconds st))
       (remdups (map rq_user_id (filter (stale_running (now - seconds (recovery_stale_running_seconds st))) t))) t"

definition apply_missing_backoff :: "instant \<Rightarrow> requirement list \<Rightarrow> int \<times> requirement list" where
  "apply_missing_backoff now t =
     for_tenants (apply_rebuild_retry_backoff now) (remdups (map rq_user_id (filter needs_backoff t))) t"

definition flag_poison_orchestration :: "requirement list \<Rightarrow> requirement list" where
  "flag_poison_orchestration t =
     take 50 (filter (\<lambda>r. rq_status r = RB_FAILED \<and> rq_max_attempts r \<le> rq_attempt_count r) t)"

definition recover_stale_processing_sample :: "nat \<Rightarrow> (uuid \<Rightarrow> bool) \<Rightarrow> instant \<Rightarrow> etl_job list \<Rightarrow> int \<times> etl_job list" where
  "recover_stale_processing_sample sample locked now jobs =
     for_tenants (\<lambda>u. recover_stuck_processing_jobs u locked now)
       (take sample (remdups (map j_user_id (filter (\<lambda>j. j_status j = PROCESSING) jobs)))) jobs"

definition run_maintenance :: "settings \<Rightarrow> (uuid \<Rightarrow> bool) \<Rightarrow> instant \<Rightarrow> requirement list \<Rightarrow> etl_job list \<Rightarrow>
    supervisor_report \<times> requirement list \<times> etl_job list" where
  "run_maintenance st locked now t jobs =
     (let (stale, t1) = reset_stale_running_globally st now t;
          (backoff, t2) = apply_missing_backoff now t1;
          poison = int (length (flag_poison_orchestration t2));
          (recovered, jobs') = recover_stale_processing_sample 20 locked now jobs
      in (\<lparr>sr_stale_running_reset = stale, sr_backoff_rows_updated = backoff,
            sr_poison_orchestration_rows = poison, sr_tenants_recovery_jobs = recovered\<rparr>, t2, jobs'))"

definition orchestration_retry_budget_remaining :: "requirement \<Rightarrow> int" where
  "orchestration_retry_budget_remaining r = max 0 (rq_max_attempts r - rq_attempt_count r)"

section \<open>Laws of the selection\<close>

lemma fair_loop_prefix: "\<exists>ys. fair_loop limit cap picked counts rows = picked @ ys"
proof (induction limit cap picked counts rows rule: fair_loop.induct)
  case (1 limit cap picked counts)
  then show ?case by simp
next
  case (2 limit cap picked counts row rows)
  let ?n = "dict_get counts (rq_user_id row) 0"
  show ?case
  proof (cases "limit \<le> int (length picked)")
    case False
    show ?thesis
    proof (cases "cap \<le> ?n")
      case True
      with False 2(1) [OF False refl True] show ?thesis by simp
    next
      case cap: False
      with False 2(2) [OF False refl cap] show ?thesis by auto
    qed
  qed simp
qed

lemma fair_batch_head:
  assumes "1 \<le> limit" and "rows \<noteq> []"
  shows "\<exists>ys. select_fair_batch limit 1 rows = hd (sort_key dispatch_order rows) # ys"
proof -
  have "sort_key dispatch_order rows \<noteq> []" using assms(2) by (metis length_0_conv length_sort)
  then obtain r rs where sorted: "sort_key dispatch_order rows = r # rs" by (cases "sort_key dispatch_order rows") auto
  have "select_fair_batch limit 1 rows = fair_loop limit 1 [r] [(rq_user_id r, 1)] rs"
    using assms(1) by (simp add: select_fair_batch_def sorted dict_get_def)
  with fair_loop_prefix [of limit 1 "[r]" "[(rq_user_id r, 1)]" rs] sorted show ?thesis by auto
qed

lemma set_adjust [simp]: "set (adjust now boost rows) = set rows"
  by (simp add: adjust_def)

lemma adjust_Nil_iff [simp]: "adjust now boost rows = [] \<longleftrightarrow> rows = []"
  by (metis set_adjust set_empty)

lemma hd_sort_key_least:
  assumes "xs \<noteq> []"
  shows "hd (sort_key f xs) \<in> set xs" and "x \<in> set xs \<Longrightarrow> f (hd (sort_key f xs)) \<le> f x"
proof -
  have "sort_key f xs \<noteq> []" using assms by (metis length_0_conv length_sort)
  then obtain y ys where y: "sort_key f xs = y # ys" by (cases "sort_key f xs") auto
  have "set (sort_key f xs) = set xs" by simp
  with y show "hd (sort_key f xs) \<in> set xs" by auto
  show "f (hd (sort_key f xs)) \<le> f x" if "x \<in> set xs"
    using sort_key_hd_le [OF y that] y by simp
qed

end
