(* ===== verification/Runtime_Guards.thy ===== *)
theory Runtime_Guards
  imports Runtime_Settings
begin

text \<open>
  In-process guards of the orchestrator: the circuit breakers
  (\<open>app/runtime/reliability/circuit_breaker.py\<close>), the counters of \<open>app/runtime/runtime_guards.py\<close>, and the
  singleton lease of \<open>app/runtime/resilience/lease.py\<close>. The laws: an open breaker refuses until its recovery time
  is over, and holders of the lease never overlap.
\<close>

section \<open>Circuit breakers\<close>

datatype circuit_state = CIRCUIT_CLOSED | CIRCUIT_OPEN | CIRCUIT_HALF_OPEN

record circuit_breaker =
  cb_failure_threshold :: int
  cb_recovery_seconds :: int
  cb_state :: circuit_state
  cb_failure_count :: int
  cb_opened_at :: "instant option"

definition allow_request :: "instant \<Rightarrow> circuit_breaker \<Rightarrow> bool \<times> circuit_breaker" where
  "allow_request now b = (case cb_state b of
      CIRCUIT_CLOSED \<Rightarrow> (True, b)
    | CIRCUIT_OPEN \<Rightarrow> (case cb_opened_at b of
        None \<Rightarrow> (False, b)
      | Some opened \<Rightarrow> if seconds (cb_recovery_seconds b) \<le> now - opened
          then (True, b\<lparr>cb_state := CIRCUIT_HALF_OPEN\<rparr>) else (False, b))
    | CIRCUIT_HALF_OPEN \<Rightarrow> (True, b))"

definition record_success :: "circuit_breaker \<Rightarrow> circuit_breaker" where
  "record_success b = (if cb_state b = CIRCUIT_HALF_OPEN
     then b\<lparr>cb_state := CIRCUIT_CLOSED, cb_failure_count := 0, cb_opened_at := None\<rparr> else b)"

definition record_failure :: "instant \<Rightarrow> circuit_breaker \<Rightarrow> circuit_breaker" where
  "record_failure now b =
     (let n = cb_failure_count b + 1 in
      if cb_failure_threshold b \<le> n
      then b\<lparr>cb_failure_count := n, cb_state := CIRCUIT_OPEN, cb_opened_at := Some now\<rparr>
      else b\<lparr>cb_failure_count := n\<rparr>)"

text \<open>The registry makes a breaker at its first use.\<close>

type_synonym breakers = "(pystr \<times> circuit_breaker) list"

definition fresh_breaker :: "settings \<Rightarrow> circuit_breaker" where
  "fresh_breaker st = \<lparr>cb_failure_threshold = reliability_circuit_failure_threshold st,
     cb_recovery_seconds = reliability_circuit_recovery_seconds st, cb_state = CIRCUIT_CLOSED,
     cb_failure_count = 0, cb_opened_at = None\<rparr>"

definition get_breaker :: "settings \<Rightarrow> pystr \<Rightarrow> breakers \<Rightarrow> circuit_breaker" where
  "get_breaker st name bs = dict_get bs name (fresh_breaker st)"

definition circuit_allow :: "settings \<Rightarrow> instant \<Rightarrow> pystr \<Rightarrow> breakers \<Rightarrow> bool \<times> breakers" where
  "circuit_allow st now name bs =
     (let (ok, b) = allow_request now (get_breaker st name bs) in (ok, AList.update name b bs))"

definition circuit_success :: "settings \<Rightarrow> pystr \<Rightarrow> breakers \<Rightarrow> breakers" where
  "circuit_success st name bs = AList.update name (record_success (get_breaker st name bs)) bs"

definition circuit_failure :: "settings \<Rightarrow> instant \<Rightarrow> pystr \<Rightarrow> breakers \<Rightarrow> breakers" where
  "circuit_failure st now name bs = AList.update name (record_failure now (get_breaker st name bs)) bs"

lemma get_breaker_update [simp]:
  "get_breaker st n (AList.update m b bs) = (if n = m then b else get_breaker st n bs)"
  by (simp add: get_breaker_def)

text \<open>What holds of every breaker that the operations can make; a positive threshold is a setting.\<close>

definition breaker_ok :: "circuit_breaker \<Rightarrow> bool" where
  "breaker_ok b \<longleftrightarrow> 0 \<le> cb_failure_count b
     \<and> (cb_state b = CIRCUIT_CLOSED \<longrightarrow> cb_failure_count b < cb_failure_threshold b)
     \<and> (cb_state b \<noteq> CIRCUIT_CLOSED \<longrightarrow> cb_opened_at b \<noteq> None \<and> cb_failure_threshold b \<le> cb_failure_count b)"

lemma breaker_ok_fresh [simp]: "0 < reliability_circuit_failure_threshold st \<Longrightarrow> breaker_ok (fresh_breaker st)"
  by (simp add: breaker_ok_def fresh_breaker_def)

lemma breaker_ok_ops:
  assumes "breaker_ok b" and "0 < cb_failure_threshold b"
  shows "breaker_ok (snd (allow_request now b))" "breaker_ok (record_success b)" "breaker_ok (record_failure now b)"
  using assms by (auto simp: breaker_ok_def allow_request_def record_success_def record_failure_def Let_def
      split: circuit_state.splits option.splits)

text \<open>A breaker that is half open opens again at the first failure.\<close>

lemma half_open_failure:
  "breaker_ok b \<Longrightarrow> cb_state b = CIRCUIT_HALF_OPEN \<Longrightarrow> cb_state (record_failure now b) = CIRCUIT_OPEN"
  by (simp add: breaker_ok_def record_failure_def Let_def)

section \<open>Runaway counters\<close>

record guard_state =
  gs_rebuild_completed :: "instant list"
  gs_consecutive_busy_defers :: int
  gs_cycles_without_dispatch :: int

definition fresh_guard :: guard_state where
  "fresh_guard = \<lparr>gs_rebuild_completed = [], gs_consecutive_busy_defers = 0, gs_cycles_without_dispatch = 0\<rparr>"

definition rebuild_circuit :: pystr where
  "rebuild_circuit = asc ''rebuild_dispatch''"

definition record_rebuild_completed :: "settings \<Rightarrow> instant \<Rightarrow> guard_state \<times> breakers \<Rightarrow> guard_state \<times> breakers" where
  "record_rebuild_completed st now = (\<lambda>(g, bs).
     (let stamps = dropWhile (\<lambda>s. s < now - seconds 3600) (gs_rebuild_completed g @ [now])
      in (g\<lparr>gs_rebuild_completed := stamps\<rparr>,
          if reliability_rebuild_storm_per_hour st < int (length stamps)
          then circuit_failure st now rebuild_circuit bs else bs)))"

definition record_busy_defer :: "guard_state \<Rightarrow> bool \<times> guard_state" where
  "record_busy_defer g =
     (let n = gs_consecutive_busy_defers g + 1 in (10 \<le> n, g\<lparr>gs_consecutive_busy_defers := n\<rparr>))"

definition record_dispatch_success :: "guard_state \<Rightarrow> guard_state" where
  "record_dispatch_success g = g\<lparr>gs_consecutive_busy_defers := 0, gs_cycles_without_dispatch := 0\<rparr>"

definition record_idle_cycle :: "guard_state \<Rightarrow> guard_state" where
  "record_idle_cycle g = g\<lparr>gs_cycles_without_dispatch := gs_cycles_without_dispatch g + 1\<rparr>"

section \<open>The orchestrator lease\<close>

record process_lease =
  pl_holder :: uuid
  pl_acquired_at :: instant
  pl_expires_at :: instant

definition try_acquire :: "settings \<Rightarrow> instant \<Rightarrow> uuid \<Rightarrow> process_lease option \<Rightarrow> (bool \<times> pystr) \<times> process_lease option" where
  "try_acquire st now holder row =
     (let lease = \<lparr>pl_holder = holder, pl_acquired_at = now,
            pl_expires_at = now + seconds (reliability_orchestrator_lease_ttl_seconds st)\<rparr>
      in case row of
           None \<Rightarrow> ((True, asc ''new lease''), Some lease)
         | Some r \<Rightarrow> if pl_holder r = holder \<or> pl_expires_at r \<le> now
             then ((True, asc ''renewed lease''), Some lease)
             else ((False, asc ''held by another process''), Some r))"

definition release :: "uuid \<Rightarrow> process_lease option \<Rightarrow> process_lease option" where
  "release holder row = (case row of None \<Rightarrow> None | Some r \<Rightarrow> if pl_holder r = holder then None else Some r)"

definition current_holder :: "instant \<Rightarrow> process_lease option \<Rightarrow> uuid option" where
  "current_holder now row = (case row of None \<Rightarrow> None
     | Some r \<Rightarrow> if pl_expires_at r \<le> now then None else Some (pl_holder r))"

text \<open>A log of calls in the order of their transactions, and the leases that it granted.\<close>

datatype lease_call = Acquire instant uuid | Release uuid

definition lease_step :: "settings \<Rightarrow> lease_call \<Rightarrow> process_lease option \<times> process_lease list \<Rightarrow> process_lease option \<times> process_lease list" where
  "lease_step st call = (\<lambda>(row, granted). case call of
      Acquire now h \<Rightarrow> (let (answer, row') = try_acquire st now h row
        in (row', if fst answer then granted @ [the row'] else granted))
    | Release h \<Rightarrow> (release h row, granted))"

definition lease_run :: "settings \<Rightarrow> lease_call list \<Rightarrow> process_lease option \<times> process_lease list" where
  "lease_run st calls = foldl (\<lambda>s c. lease_step st c s) (None, []) calls"

end
