(* ===== verification/Rebuild_Dispatch.thy ===== *)
theory Rebuild_Dispatch
  imports Rebuild_Orchestration Runtime_Guards Snapshot_Correctness
begin

text \<open>
  The dispatcher of snapshot rebuilds (\<open>app/runtime/rebuild_dispatcher.py\<close>): selection, the two checks of a
  requirement, the rebuild of its tenant (\<open>full_rebuild\<close>, \<open>incremental_rebuild\<close>) and what each of its ends does to the
  requirement, the runaway counters and the circuit breaker. \<open>describe e\<close> is \<open>str(e)\<close> of an exception.
\<close>

section \<open>State\<close>

record tenant_store =
  ts_entries :: "ledger_entry list"
  ts_costs :: cost_table
  ts_live :: "stock_snapshot list"

record orch_state =
  os_requirements :: "requirement list"
  os_stores :: "uuid \<Rightarrow> tenant_store"
  os_guard :: guard_state
  os_breakers :: breakers

datatype dispatch_outcome = D_blocked | D_circuit_open | D_idle | D_skipped | D_tenant_contained
  | D_succeeded | D_deferred_busy | D_failed

record dispatch_result =
  dr_dispatched :: bool
  dr_requirement_id :: "uuid option"
  dr_user_id :: "uuid option"
  dr_outcome :: dispatch_outcome
  dr_detail :: pystr

definition not_dispatched :: "uuid option \<Rightarrow> uuid option \<Rightarrow> dispatch_outcome \<Rightarrow> pystr \<Rightarrow> dispatch_result" where
  "not_dispatched rid u outcome detail = \<lparr>dr_dispatched = False, dr_requirement_id = rid, dr_user_id = u,
     dr_outcome = outcome, dr_detail = detail\<rparr>"

section \<open>Before the rebuild\<close>

definition should_escalate_to_full :: "settings \<Rightarrow> int \<Rightarrow> rebuild_mode \<Rightarrow> bool" where
  "should_escalate_to_full st attempt_count mode =
     (if mode = MODE_FULL then False else runtime_incremental_to_full_after_attempts st \<le> attempt_count)"

text \<open>The first transaction: the tenant of the requirement, unless it may not be dispatched.\<close>

definition peek_requirement :: "instant \<Rightarrow> containment_state list \<Rightarrow> uuid \<Rightarrow> requirement list \<Rightarrow> dispatch_result + uuid" where
  "peek_requirement now containment rid t = (case get_requirement rid t of
      None \<Rightarrow> Inl (not_dispatched (Some rid) None D_skipped (asc ''requirement no longer eligible''))
    | Some peek \<Rightarrow>
        if \<not> is_eligible_for_dispatch now peek
        then Inl (not_dispatched (Some rid) None D_skipped (asc ''requirement no longer eligible''))
        else (let guard = guard_check now (rq_user_id peek) containment in
          if \<not> tg_allowed guard
          then Inl (not_dispatched (Some rid) (Some (rq_user_id peek)) D_tenant_contained (tg_reason guard))
          else Inr (rq_user_id peek)))"

text \<open>The second transaction: the row is checked again, marked as running and possibly escalated.\<close>

definition start_row :: "settings \<Rightarrow> instant \<Rightarrow> requirement \<Rightarrow> requirement" where
  "start_row st now r =
     (let r1 = mark_running now (mark_queued r) in
      if should_escalate_to_full st (rq_attempt_count r1) (rq_mode r1) then r1\<lparr>rq_mode := MODE_FULL\<rparr> else r1)"

definition start_requirement :: "settings \<Rightarrow> instant \<Rightarrow> uuid \<Rightarrow> uuid \<Rightarrow> requirement list \<Rightarrow>
    dispatch_result + (requirement \<times> requirement list)" where
  "start_requirement st now u rid t = (case get_requirement rid t of
      None \<Rightarrow> Inl (not_dispatched (Some rid) (Some u) D_skipped (asc ''lost race or ineligible''))
    | Some row \<Rightarrow>
        if \<not> is_eligible_for_dispatch now row
        then Inl (not_dispatched (Some rid) (Some u) D_skipped (asc ''lost race or ineligible''))
        else Inr (start_row st now row, update_requirement rid (start_row st now) t))"

section \<open>The rebuild and its ends\<close>

definition run_rebuild :: "lifecycle_cache \<Rightarrow> bool \<Rightarrow> requirement \<Rightarrow> tenant_store \<Rightarrow> py_error + tenant_store" where
  "run_rebuild lifecycle busy row store =
     sbind (assert_rebuild_allowed lifecycle (rq_semantics_version row)) (\<lambda>_.
     sbind (if rq_mode row = MODE_FULL
            then full_rebuild lifecycle busy (rq_user_id row) (ts_costs store) (ts_entries store) (ts_live store)
            else incremental_rebuild lifecycle busy (rq_user_id row) (ts_costs store) (ts_entries store) (ts_live store) None)
       (\<lambda>(live, _). Inr (store\<lparr>ts_live := live\<rparr>)))"

definition run_result :: "requirement \<Rightarrow> dispatch_outcome \<Rightarrow> pystr \<Rightarrow> dispatch_result" where
  "run_result row outcome detail = \<lparr>dr_dispatched = True, dr_requirement_id = Some (rq_id row),
     dr_user_id = Some (rq_user_id row), dr_outcome = outcome, dr_detail = detail\<rparr>"

definition finish_succeeded :: "settings \<Rightarrow> instant \<Rightarrow> requirement \<Rightarrow> tenant_store \<Rightarrow> orch_state \<Rightarrow> orch_state" where
  "finish_succeeded st now row store s =
     (let (g, bs) = record_rebuild_completed st now (record_dispatch_success (os_guard s), os_breakers s)
      in s\<lparr>os_requirements := update_requirement (rq_id row) (mark_succeeded now) (os_requirements s),
           os_stores := (os_stores s)(rq_user_id row := store), os_guard := g,
           os_breakers := circuit_success st rebuild_circuit bs\<rparr>)"

definition finish_busy :: "settings \<Rightarrow> instant \<Rightarrow> requirement \<Rightarrow> orch_state \<Rightarrow> orch_state" where
  "finish_busy st now row s =
     s\<lparr>os_requirements := update_requirement (rq_id row)
         (mark_deferred_lock_busy now (orchestrator_defer_busy_seconds st)) (os_requirements s),
       os_guard := snd (record_busy_defer (os_guard s))\<rparr>"

definition finish_failed :: "settings \<Rightarrow> instant \<Rightarrow> bool \<Rightarrow> requirement \<Rightarrow> pystr \<Rightarrow> orch_state \<Rightarrow> orch_state" where
  "finish_failed st now breaks row error s =
     s\<lparr>os_requirements := update_requirement (rq_id row) (mark_requirement_failed now error) (os_requirements s),
       os_breakers := (if breaks then circuit_failure st now rebuild_circuit (os_breakers s) else os_breakers s)\<rparr>"

definition finish_requirement :: "settings \<Rightarrow> (py_error \<Rightarrow> pystr) \<Rightarrow> instant \<Rightarrow> requirement \<Rightarrow> py_error + tenant_store \<Rightarrow>
    orch_state \<Rightarrow> dispatch_result \<times> orch_state" where
  "finish_requirement st describe now row outcome s = (case outcome of
      Inr store \<Rightarrow> (run_result row D_succeeded (asc ''rebuild completed''), finish_succeeded st now row store s)
    | Inl (InventoryRebuildBusyError u) \<Rightarrow> (run_result row D_deferred_busy (asc ''advisory lock not acquired''), finish_busy st now row s)
    | Inl (UnsupportedSemanticsVersionError v) \<Rightarrow>
        (run_result row D_failed (describe (UnsupportedSemanticsVersionError v)),
         finish_failed st now False row (describe (UnsupportedSemanticsVersionError v)) s)
    | Inl e \<Rightarrow> (run_result row D_failed (describe e), finish_failed st now True row (describe e) s))"

section \<open>One dispatch\<close>

definition execute_requirement :: "settings \<Rightarrow> lifecycle_cache \<Rightarrow> bool \<Rightarrow> (py_error \<Rightarrow> pystr) \<Rightarrow> instant \<Rightarrow> instant \<Rightarrow>
    containment_state list \<Rightarrow> uuid \<Rightarrow> orch_state \<Rightarrow> dispatch_result \<times> orch_state" where
  "execute_requirement st lifecycle busy describe now later containment rid s =
     (case peek_requirement now containment rid (os_requirements s) of
        Inl refused \<Rightarrow> (refused, s)
      | Inr u \<Rightarrow> (case start_requirement st now u rid (os_requirements s) of
          Inl refused \<Rightarrow> (refused, s)
        | Inr (row, t) \<Rightarrow> finish_requirement st describe later row
            (run_rebuild lifecycle busy row (os_stores s (rq_user_id row))) (s\<lparr>os_requirements := t\<rparr>)))"

text \<open>\<open>dispatch_once\<close> without interference: \<open>now\<close> when it starts, \<open>later\<close> when the rebuild has ended.\<close>

definition dispatch_once :: "settings \<Rightarrow> lifecycle_cache \<Rightarrow> bool \<Rightarrow> (py_error \<Rightarrow> pystr) \<Rightarrow> instant \<Rightarrow> instant \<Rightarrow>
    containment_state list \<Rightarrow> orch_state \<Rightarrow> dispatch_result \<times> orch_state" where
  "dispatch_once st lifecycle busy describe now later containment s =
     (let switch = kill_switch_check st REBUILD_DISPATCH in
      if \<not> ks_allowed switch then (not_dispatched None None D_blocked (ks_reason switch), s)
      else (let (allowed, bs) = circuit_allow st now rebuild_circuit (os_breakers s); s1 = s\<lparr>os_breakers := bs\<rparr> in
        if \<not> allowed then (not_dispatched None None D_circuit_open (asc ''rebuild dispatch circuit open''), s1)
        else (case select_requirement_id st now (os_requirements s1) of
            None \<Rightarrow> (not_dispatched None None D_idle (asc ''no eligible rebuild requirements''), s1)
          | Some rid \<Rightarrow> execute_requirement st lifecycle busy describe now later containment rid s1)))"

section \<open>Rows under the operations\<close>

lemma get_requirement_SomeD: "get_requirement rid t = Some r \<Longrightarrow> r \<in> set t \<and> rq_id r = rid"
  by (auto simp: get_requirement_def find_Some_iff)

lemma get_requirement_update:
  assumes "\<And>r. rq_id (f r) = rq_id r"
  shows "get_requirement k (update_requirement rid f t) = (if k = rid then map_option f (get_requirement k t) else get_requirement k t)"
  unfolding get_requirement_def update_requirement_def by (induction t) (auto simp: assms)

lemma marks_keep_id [simp]:
  "rq_id (mark_queued r) = rq_id r" "rq_id (mark_running now r) = rq_id r" "rq_id (mark_succeeded now r) = rq_id r"
  "rq_id (mark_requirement_failed now e r) = rq_id r" "rq_id (mark_deferred_lock_busy now d r) = rq_id r"
  "rq_id (start_row st now r) = rq_id r" "rq_id (reset_stale now r) = rq_id r" "rq_id (apply_backoff now r) = rq_id r"
  by (simp_all add: mark_queued_def mark_running_def mark_succeeded_def mark_requirement_failed_def
      mark_deferred_lock_busy_def start_row_def reset_stale_def apply_backoff_def Let_def)

lemma start_row_simps [simp]:
  "rq_user_id (start_row st now r) = rq_user_id r" "rq_semantics_version (start_row st now r) = rq_semantics_version r"
  "rq_attempt_count (start_row st now r) = rq_attempt_count r + 1" "rq_max_attempts (start_row st now r) = rq_max_attempts r"
  "rq_status (start_row st now r) = RB_RUNNING" "rq_started_at (start_row st now r) = Some now"
  "rq_requires_rebuild (start_row st now r) = rq_requires_rebuild r"
  by (simp_all add: start_row_def mark_running_def mark_queued_def Let_def)

lemma start_requirement_Inr:
  "start_requirement st now u rid t = Inr (row, t') \<longleftrightarrow>
     (\<exists>r. get_requirement rid t = Some r \<and> is_eligible_for_dispatch now r \<and> row = start_row st now r
        \<and> t' = update_requirement rid (start_row st now) t)"
  by (auto simp: start_requirement_def split: option.splits if_splits)

lemma eligible_budget: "is_eligible_for_dispatch now r \<Longrightarrow> rq_requires_rebuild r \<and> rq_attempt_count r < rq_max_attempts r
     \<and> rq_status r \<notin> {RB_RUNNING, RB_SUCCEEDED} \<and> dispatchable r"
  by (auto simp: is_eligible_for_dispatch_def dispatchable_def split: if_splits)

section \<open>What a successful rebuild leaves\<close>

lemma incremental_None: "ledger_date_bounds entries = Some (f, t) \<Longrightarrow>
    incremental_rebuild lifecycle busy user costs entries live None = incremental_rebuild lifecycle busy user costs entries live (Some f)"
  by (simp add: incremental_rebuild_def)

lemma no_snapshots_before_first:
  assumes "ledger_date_bounds entries = Some (f, t)"
  shows "ledger_snapshots (map entry_row entries) (\<lambda>d. d < f) = {}"
proof -
  have f: "f = Min (set (map (\<lambda>e. lr_operation_date (le_row e)) entries))"
    using assms by (simp add: ledger_date_bounds_def Let_def split: if_splits)
  have "f \<le> lr_operation_date (entry_row e)" if "e \<in> set entries" for e
    unfolding f using that by simp
  then show ?thesis by (fastforce simp: ledger_snapshots_def)
qed

lemma run_rebuild_units:
  assumes run: "run_rebuild lifecycle busy row store = Inr store'"
    and ne: "ts_entries store \<noteq> []" and ok: "entries_ok (ts_entries store)" and lc: "rebuild_allowed lifecycle"
    and inc: "rq_mode row = MODE_INCREMENTAL \<Longrightarrow> \<forall>s\<in>set (ts_live store).
        \<exists>g\<in>set (ts_entries store). lr_operation_date (le_row g) \<le> ss_snapshot_date s"
  shows "units_of ` set (ts_live store') = ledger_snapshots (map entry_row (ts_entries store)) (\<lambda>_. True)
    \<and> ts_entries store' = ts_entries store"
proof -
  obtain live la where live: "(if rq_mode row = MODE_FULL
      then full_rebuild lifecycle busy (rq_user_id row) (ts_costs store) (ts_entries store) (ts_live store)
      else incremental_rebuild lifecycle busy (rq_user_id row) (ts_costs store) (ts_entries store) (ts_live store) None) = Inr (live, la)"
    and store': "store' = store\<lparr>ts_live := live\<rparr>"
    using run by (auto simp: run_rebuild_def sbind_Inr_iff)
  have "units_of ` set live = ledger_snapshots (map entry_row (ts_entries store)) (\<lambda>_. True)"
  proof (cases "rq_mode row")
    case MODE_FULL
    with live full_units [OF _ ne ok lc] show ?thesis by simp
  next
    case MODE_INCREMENTAL
    obtain f t where ft: "ledger_date_bounds (ts_entries store) = Some (f, t)"
      using ne by (simp add: ledger_date_bounds_def Let_def)
    have f: "f = Min (set (map (\<lambda>e. lr_operation_date (le_row e)) (ts_entries store)))"
      using ft by (simp add: ledger_date_bounds_def Let_def split: if_splits)
    have "f \<le> ss_snapshot_date s" if s: "s \<in> set (ts_live store)" for s
    proof -
      obtain g where g: "g \<in> set (ts_entries store)" "lr_operation_date (le_row g) \<le> ss_snapshot_date s"
        using inc [OF MODE_INCREMENTAL] s by blast
      then have "f \<le> lr_operation_date (le_row g)" unfolding f by simp
      with g(2) show ?thesis by simp
    qed
    then have none: "{s \<in> set (ts_live store). ss_snapshot_date s < f} = {}" by force
    have "incremental_rebuild lifecycle busy (rq_user_id row) (ts_costs store) (ts_entries store) (ts_live store) (Some f) = Inr (live, la)"
      using live MODE_INCREMENTAL by (simp add: incremental_None [OF ft])
    then show ?thesis
      by (rule incremental_units [OF _ ne ok lc]) (simp only: none no_snapshots_before_first [OF ft] image_empty)
  qed
  then show ?thesis by (simp add: store')
qed

end
