(* ===== verification/Platform_Health.thy ===== *)
theory Platform_Health
  imports Rebuild_Dispatch Py_Decimal "HOL-Library.Log_Nat"
begin

text \<open>
  How the control plane sees the platform: the queue and rebuild metrics
  (\<open>app/runtime/observability.py\<close>), the health report (\<open>app/runtime/health/evaluator.py\<close>), the degradation level
  (\<open>app/runtime/reliability/degradation.py\<close>), the throttling policy (\<open>app/runtime/policy/engine.py\<close>, a copy of the
  settings) and the forecast (\<open>app/runtime/enterprise/forecasting.py\<close>). Floats are rounded to 53 binary digits; a
  \<open>Decimal\<close> made from the text of a float stands for the float.
\<close>

section \<open>Metrics\<close>

record queue_metrics =
  qm_pending :: int
  qm_processing :: int
  qm_dead_letter :: int
  qm_oldest_lag :: "int option"

record rebuild_metrics =
  rm_pending_dispatch :: int
  rm_deferred :: int
  rm_running :: int
  rm_failed :: int

text \<open>\<open>int(delta.total_seconds())\<close>, towards zero.\<close>

definition whole_seconds :: "int \<Rightarrow> int" where
  "whole_seconds d = (if 0 \<le> d then d div 1000000 else - ((- d) div 1000000))"

definition count_where :: "('a \<Rightarrow> bool) \<Rightarrow> 'a list \<Rightarrow> int" where
  "count_where P t = int (length (filter P t))"

definition queue_metrics_of :: "instant \<Rightarrow> etl_job list \<Rightarrow> queue_metrics" where
  "queue_metrics_of now jobs =
     (let pending = filter (\<lambda>j. j_status j = PENDING) jobs
      in \<lparr>qm_pending = int (length pending), qm_processing = count_where (\<lambda>j. j_status j = PROCESSING) jobs,
          qm_dead_letter = count_where (\<lambda>j. j_status j = DEAD_LETTER) jobs,
          qm_oldest_lag = (if pending = [] then None else Some (whole_seconds (now - Min (set (map j_created_at pending)))))\<rparr>)"

definition collect_tenant_queue_metrics :: "instant \<Rightarrow> uuid \<Rightarrow> etl_job list \<Rightarrow> queue_metrics" where
  "collect_tenant_queue_metrics now u jobs = queue_metrics_of now (filter (\<lambda>j. j_user_id j = u) jobs)"

definition collect_rebuild_queue_metrics :: "requirement list \<Rightarrow> rebuild_metrics" where
  "collect_rebuild_queue_metrics t =
     \<lparr>rm_pending_dispatch = count_where (\<lambda>r. rq_requires_rebuild r \<and> rq_status r \<in> {RB_PENDING, RB_QUEUED}) t,
      rm_deferred = count_where (\<lambda>r. rq_status r = RB_DEFERRED) t,
      rm_running = count_where (\<lambda>r. rq_status r = RB_RUNNING) t,
      rm_failed = count_where (\<lambda>r. rq_status r = RB_FAILED) t\<rparr>"

definition collect_tenant_rebuild_metrics :: "uuid \<Rightarrow> requirement list \<Rightarrow> rebuild_metrics" where
  "collect_tenant_rebuild_metrics u t = collect_rebuild_queue_metrics (filter (\<lambda>r. rq_user_id r = u) t)"

definition rebuild_backlog :: "rebuild_metrics \<Rightarrow> int" where
  "rebuild_backlog m = rm_pending_dispatch m + rm_deferred m"

section \<open>Health\<close>

datatype health_severity = SEV_OK | SEV_WARN | SEV_CRITICAL

definition severity_rank :: "health_severity \<Rightarrow> nat" where
  "severity_rank s = (case s of SEV_OK \<Rightarrow> 0 | SEV_WARN \<Rightarrow> 1 | SEV_CRITICAL \<Rightarrow> 2)"

lemma severity_rank_eq: "severity_rank a = severity_rank b \<longleftrightarrow> a = b"
  by (cases a; cases b) (simp_all add: severity_rank_def)

text \<open>\<open>HEALTH_SEVERITY_ORDER\<close> of \<open>control_plane/lifecycle.py\<close>.\<close>

instantiation health_severity :: linorder
begin

definition less_eq_health_severity :: "health_severity \<Rightarrow> health_severity \<Rightarrow> bool" where
  "a \<le> b \<longleftrightarrow> severity_rank a \<le> severity_rank b"

definition less_health_severity :: "health_severity \<Rightarrow> health_severity \<Rightarrow> bool" where
  "a < b \<longleftrightarrow> severity_rank a < severity_rank b"

instance
  by standard (auto simp: less_eq_health_severity_def less_health_severity_def severity_rank_eq)

end

lemma severity_order [simp]: "SEV_OK \<le> s" "s \<le> SEV_CRITICAL" "SEV_CRITICAL \<le> s \<longleftrightarrow> s = SEV_CRITICAL" "s \<le> SEV_OK \<longleftrightarrow> s = SEV_OK"
  by (cases s; simp add: less_eq_health_severity_def severity_rank_def)+

record health_dimension =
  hd_name :: pystr
  hd_score :: rat
  hd_severity :: health_severity
  hd_detail :: pystr

record health_report =
  hr_overall_score :: rat
  hr_overall_severity :: health_severity
  hr_dimensions :: "health_dimension list"
  hr_recommendations :: "pystr list"

definition queue_dimension :: "settings \<Rightarrow> queue_metrics \<Rightarrow> health_dimension" where
  "queue_dimension st q =
     (let lag = (case qm_oldest_lag q of None \<Rightarrow> 0 | Some l \<Rightarrow> l) in
      if runtime_queue_overload_threshold st < qm_pending q
      then \<lparr>hd_name = asc ''queue'', hd_score = 40, hd_severity = SEV_CRITICAL,
            hd_detail = asc ''queue overload pending='' @ show_int (qm_pending q)\<rparr>
      else if lag \<noteq> 0 \<and> ops_queue_lag_warn_seconds st < lag
      then \<lparr>hd_name = asc ''queue'', hd_score = 65, hd_severity = SEV_WARN,
            hd_detail = asc ''queue lag '' @ show_int lag @ asc ''s''\<rparr>
      else \<lparr>hd_name = asc ''queue'', hd_score = 100, hd_severity = SEV_OK, hd_detail = asc ''queue nominal''\<rparr>)"

definition rebuild_dimension :: "settings \<Rightarrow> rebuild_metrics \<Rightarrow> health_dimension" where
  "rebuild_dimension st m =
     (let d1 = (if runtime_max_concurrent_rebuilds_global st < rm_running m
            then \<lparr>hd_name = asc ''rebuild'', hd_score = 50, hd_severity = SEV_WARN,
                  hd_detail = asc ''rebuild running='' @ show_int (rm_running m)\<rparr>
            else \<lparr>hd_name = asc ''rebuild'', hd_score = 100, hd_severity = SEV_OK, hd_detail = asc ''rebuild nominal''\<rparr>)
      in if runtime_rebuild_backlog_warn st < rebuild_backlog m
         then d1\<lparr>hd_score := min (hd_score d1) 55, hd_severity := SEV_WARN,
                hd_detail := asc ''rebuild backlog='' @ show_int (rebuild_backlog m)\<rparr> else d1)"

definition ai_dimension :: "int \<Rightarrow> health_dimension" where
  "ai_dimension failures =
     (if 5 < failures
      then \<lparr>hd_name = asc ''ai_execution'', hd_score = 60, hd_severity = SEV_WARN,
            hd_detail = asc ''ai failures='' @ show_int failures @ asc ''/h''\<rparr>
      else \<lparr>hd_name = asc ''ai_execution'', hd_score = 100, hd_severity = SEV_OK, hd_detail = asc ''ai nominal''\<rparr>)"

definition evaluate_health :: "settings \<Rightarrow> int \<Rightarrow> queue_metrics \<Rightarrow> rebuild_metrics \<Rightarrow> health_report" where
  "evaluate_health st ai_failures q m =
     (let dq = queue_dimension st q; dr = rebuild_dimension st m; da = ai_dimension ai_failures;
          dims = [dq, dr, da]
      in \<lparr>hr_overall_score = Min (set (map hd_score dims)), hr_overall_severity = hd_severity (max_by hd_severity dq [dr, da]),
          hr_dimensions = dims,
          hr_recommendations =
            (if hd_severity dq \<noteq> SEV_OK then [asc ''Review ETL worker capacity and queue depth.''] else [])
            @ (if hd_severity dr \<noteq> SEV_OK then [asc ''Inspect rebuild backlog and stale RUNNING rows.''] else [])
            @ (if hd_severity da \<noteq> SEV_OK then [asc ''Check AI provider health and AI_DISABLED_AGENTS.''] else [])\<rparr>)"

lemma overall_severity_max:
  "hr_overall_severity (evaluate_health st f q m) =
     Max {hd_severity (queue_dimension st q), hd_severity (rebuild_dimension st m), hd_severity (ai_dimension f)}"
proof -
  let ?S = "{hd_severity (queue_dimension st q), hd_severity (rebuild_dimension st m), hd_severity (ai_dimension f)}"
  let ?d = "queue_dimension st q" and ?ds = "[rebuild_dimension st m, ai_dimension f]"
  have report: "hr_overall_severity (evaluate_health st f q m) = hd_severity (max_by hd_severity ?d ?ds)"
    by (simp add: evaluate_health_def Let_def)
  have "hd_severity (max_by hd_severity ?d ?ds) \<in> ?S"
    using max_by_mem [of hd_severity ?d ?ds] by auto
  moreover have "x \<le> hd_severity (max_by hd_severity ?d ?ds)" if "x \<in> ?S" for x
    using that max_by_ge [of _ ?d ?ds hd_severity] by (auto simp del: max_by.simps)
  ultimately have "Max ?S = hd_severity (max_by hd_severity ?d ?ds)" by (intro Max_eqI) (simp_all del: max_by.simps)
  then show ?thesis by (simp only: report)
qed

section \<open>Degradation and throttling\<close>

datatype degradation_level = DEG_NORMAL | DEG_DEGRADED | DEG_LIMITED | DEG_MAINTENANCE

record degradation_assessment =
  dg_level :: degradation_level
  dg_reason :: pystr
  dg_severity :: health_severity

definition assess_platform_degradation :: "settings \<Rightarrow> health_report \<Rightarrow> int \<Rightarrow> degradation_assessment" where
  "assess_platform_degradation st health queue_pending =
     (let maintenance = kill_switch_check st MAINTENANCE; sev = hr_overall_severity health in
      if \<not> ks_allowed maintenance then \<lparr>dg_level = DEG_MAINTENANCE, dg_reason = ks_reason maintenance, dg_severity = sev\<rparr>
      else if sev = SEV_CRITICAL
      then \<lparr>dg_level = DEG_LIMITED, dg_reason = asc ''critical health '' @ 8212 # asc '' dispatch/AI may be throttled'', dg_severity = sev\<rparr>
      else if sev = SEV_WARN \<or> ai_paused_for_overload st queue_pending
      then \<lparr>dg_level = DEG_DEGRADED, dg_reason = asc ''elevated queue/rebuild pressure'', dg_severity = sev\<rparr>
      else \<lparr>dg_level = DEG_NORMAL, dg_reason = asc ''nominal'', dg_severity = sev\<rparr>)"

text \<open>The maintenance switch is never refused, so the level of maintenance is never reported.\<close>

lemma degradation_never_maintenance: "dg_level (assess_platform_degradation st health n) \<noteq> DEG_MAINTENANCE"
  by (simp add: assess_platform_degradation_def kill_switch_check_def Let_def)

definition should_throttle_dispatch :: "settings \<Rightarrow> int \<Rightarrow> int \<Rightarrow> bool" where
  "should_throttle_dispatch st queue_pending backlog =
     (if runtime_queue_overload_threshold st < queue_pending then True
      else int (orchestrator_dispatch_batch_size st) * 10 < backlog)"

section \<open>Forecast\<close>

text \<open>Rounding to a double: 53 significant binary digits, half to even, no overflow or subnormals.\<close>

definition binary_exponent :: "rat \<Rightarrow> int" where
  "binary_exponent x = (let a = \<bar>x\<bar> in
     if 1 \<le> a then int (floorlog 2 (nat \<lfloor>a\<rfloor>)) - 1 else - int (floorlog 2 (nat (\<lceil>1 / a\<rceil> - 1))))"

definition double :: "rat \<Rightarrow> rat" where
  "double x = (if x = 0 then 0
     else (let u = 2 powi (binary_exponent x - 52) in of_int (round_half_even (x / u)) * u))"

record operational_forecast =
  of_queue_saturation :: rat
  of_rebuild_pressure :: rat
  of_overload_risk :: rat
  of_autonomy_health :: rat
  of_ai_pressure :: rat
  of_drift :: rat
  of_recommendations :: "pystr list"

text \<open>\<open>min(100.0, 100.0 * n / max(1, d))\<close>.\<close>

definition saturation :: "int \<Rightarrow> int \<Rightarrow> rat" where
  "saturation n d = min 100 (double (double (100 * of_int n) / of_int (max 1 d)))"

definition forecast :: "settings \<Rightarrow> queue_metrics \<Rightarrow> rebuild_metrics \<Rightarrow> health_report \<Rightarrow> operational_forecast" where
  "forecast st q m health =
     (let queue_sat = saturation (qm_pending q) (runtime_queue_overload_threshold st);
          pressure = saturation (rebuild_backlog m) (int (orchestrator_dispatch_batch_size st) * 5);
          risk = min 100 (double (double (queue_sat * double (6 / 10)) + double (pressure * double (4 / 10))));
          ai = (if runtime_ai_pause_when_overloaded st \<and> runtime_queue_overload_threshold st div 2 < qm_pending q
            then min 100 (double (queue_sat * double (8 / 10))) else 0);
          failed_drift = (if 0 < rm_failed m then 10 else 0);
          drift = (if hr_overall_severity health = SEV_CRITICAL then min 100 (failed_drift + 40) else failed_drift)
      in \<lparr>of_queue_saturation = queue_sat, of_rebuild_pressure = pressure, of_overload_risk = risk,
          of_autonomy_health = max 0 (min 100 (hr_overall_score health)), of_ai_pressure = ai, of_drift = drift,
          of_recommendations =
            (if 70 \<le> risk then [asc ''Predictive overload risk elevated '' @ 8212 # asc '' expect dispatch throttle.''] else [])
            @ (if 60 \<le> pressure then [asc ''Rebuild backlog pressure high '' @ 8212 # asc '' review fairness and defer policies.''] else [])
            @ (if 3 < rm_failed m then [asc ''Failed rebuild count rising '' @ 8212 # asc '' investigate semantics drift.''] else [])\<rparr>)"

end
