(* ===== verification/Control_Plane.thy ===== *)
theory Control_Plane
  imports Platform_Health
begin

text \<open>
  The control plane of the orchestrator: the healer (\<open>app/runtime/autonomy/healer.py\<close>), the enterprise
  operations (\<open>app/runtime/enterprise/\<close>), the schedules (\<open>app/runtime/scheduling/\<close>), the cycle of
  \<open>app/runtime/control_plane/coordinator.py\<close> and the turn of the orchestrator (\<open>orchestration_worker.py\<close>).
  Identifiers that are drawn at random and the audit rows of the healer are not modelled.
\<close>

record runtime_state =
  rt_orch :: orch_state
  rt_jobs :: "etl_job list"

definition set_requirements :: "requirement list \<Rightarrow> runtime_state \<Rightarrow> runtime_state" where
  "set_requirements t s = s\<lparr>rt_orch := (rt_orch s)\<lparr>os_requirements := t\<rparr>\<rparr>"

definition requirements_of :: "runtime_state \<Rightarrow> requirement list" where
  "requirements_of s = os_requirements (rt_orch s)"

definition maintenance :: "settings \<Rightarrow> (uuid \<Rightarrow> bool) \<Rightarrow> instant \<Rightarrow> runtime_state \<Rightarrow> supervisor_report \<times> runtime_state" where
  "maintenance st locked now s =
     (let (report, t, jobs) = run_maintenance st locked now (requirements_of s) (rt_jobs s)
      in (report, (set_requirements t s)\<lparr>rt_jobs := jobs\<rparr>))"

section \<open>The healer\<close>

datatype healer_action = Reset_stale | Defer_overloaded | Recover_stuck

record autonomy_action =
  aa_type :: healer_action
  aa_affected_count :: int

text \<open>\<open>xs[:n]\<close>, also for a negative \<open>n\<close>.\<close>

definition py_prefix :: "int \<Rightarrow> 'a list \<Rightarrow> 'a list" where
  "py_prefix n xs = (if 0 \<le> n then take (nat n) xs else take (length xs - nat (- n)) xs)"

definition overloaded_tenants :: "settings \<Rightarrow> etl_job list \<Rightarrow> uuid list" where
  "overloaded_tenants st jobs =
     (let threshold = max 10 (runtime_queue_overload_threshold st div 2)
      in map fst (filter (\<lambda>(u, js). threshold \<le> int (length js)) (group_by j_user_id (filter (\<lambda>j. j_status j = PENDING) jobs))))"

definition deferrable :: "uuid \<Rightarrow> requirement \<Rightarrow> bool" where
  "deferrable u r \<longleftrightarrow> rq_user_id r = u \<and> rq_requires_rebuild r \<and> rq_status r \<in> {RB_PENDING, RB_QUEUED}"

definition defer_tenant :: "settings \<Rightarrow> instant \<Rightarrow> uuid \<Rightarrow> requirement list \<Rightarrow> int \<times> requirement list" where
  "defer_tenant st now u t =
     (let hit = map rq_id (take 2 (filter (deferrable u) t))
      in (int (length hit), map (\<lambda>r. if rq_id r \<in> set hit
            then mark_deferred_lock_busy now (orchestrator_defer_busy_seconds st * 2) r else r) t))"

fun defer_tenants :: "settings \<Rightarrow> instant \<Rightarrow> uuid list \<Rightarrow> requirement list \<Rightarrow> int \<times> requirement list" where
  "defer_tenants st now [] t = (0, t)"
| "defer_tenants st now (u # us) t =
     (let (n, t1) = defer_tenant st now u t; (m, t2) = defer_tenants st now us t1 in (n + m, t2))"

definition add_action :: "healer_action \<Rightarrow> int \<Rightarrow> autonomy_action list \<Rightarrow> autonomy_action list" where
  "add_action k n actions = (if n \<noteq> 0 then actions @ [\<lparr>aa_type = k, aa_affected_count = n\<rparr>] else actions)"

definition run_bounded_cycle :: "settings \<Rightarrow> (uuid \<Rightarrow> bool) \<Rightarrow> instant \<Rightarrow> runtime_state \<Rightarrow> autonomy_action list \<times> runtime_state" where
  "run_bounded_cycle st locked now s =
     (if \<not> runtime_autonomy_enabled st then ([], s)
      else (let cap = runtime_max_autonomous_actions_per_cycle st;
                (report, s1) = maintenance st locked now s;
                a1 = add_action Reset_stale (sr_stale_running_reset report) []
        in if cap \<le> int (length a1) then (py_prefix cap a1, s1)
        else (let (deferred, t) = defer_tenants st now (overloaded_tenants st (rt_jobs s1)) (requirements_of s1);
                  s2 = set_requirements t s1;
                  a2 = add_action Defer_overloaded deferred a1
        in if cap \<le> int (length a2) then (py_prefix cap a2, s2)
        else (let (recovered, jobs) = recover_stale_processing_sample 5 locked now (rt_jobs s2);
                  a3 = add_action Recover_stuck recovered a2
        in (py_prefix cap a3, s2\<lparr>rt_jobs := jobs\<rparr>)))))"

section \<open>Enterprise operations: decisions\<close>

datatype decision_kind = HEAL_QUEUE | RESET_STALE_REBUILD | DEFER_REBUILD | RECOVER_STUCK_JOBS | THROTTLE_DISPATCH | NO_ACTION

definition kind_value :: "decision_kind \<Rightarrow> pystr" where
  "kind_value k = (case k of HEAL_QUEUE \<Rightarrow> asc ''heal_queue'' | RESET_STALE_REBUILD \<Rightarrow> asc ''reset_stale_rebuild''
     | DEFER_REBUILD \<Rightarrow> asc ''defer_rebuild'' | RECOVER_STUCK_JOBS \<Rightarrow> asc ''recover_stuck_jobs''
     | THROTTLE_DISPATCH \<Rightarrow> asc ''throttle_dispatch'' | NO_ACTION \<Rightarrow> asc ''no_action'')"

record operational_decision =
  od_kind :: decision_kind
  od_requires_approval :: bool
  od_reversible :: bool
  od_priority :: int

definition decision :: "decision_kind \<Rightarrow> bool \<Rightarrow> int \<Rightarrow> operational_decision" where
  "decision k approval priority = \<lparr>od_kind = k, od_requires_approval = approval, od_reversible = True, od_priority = priority\<rparr>"

text \<open>\<open>max_rebuild_attempts_default\<close> of the policy is 5.\<close>

definition decide :: "settings \<Rightarrow> operational_forecast \<Rightarrow> queue_metrics \<Rightarrow> rebuild_metrics \<Rightarrow> bool \<Rightarrow> operational_decision list" where
  "decide st f q m in_blackout =
     (if in_blackout then [decision NO_ACTION False 0]
      else (let ds =
            (if 5 < rm_running m then [decision RESET_STALE_REBUILD False 90] else [])
            @ (if runtime_queue_overload_threshold st < qm_pending q
               then [decision DEFER_REBUILD True 80, decision HEAL_QUEUE False 70]
               else if 60 \<le> of_overload_risk f then [decision THROTTLE_DISPATCH True 50] else [])
            @ (if 0 < qm_processing q \<and> 20 \<le> of_drift f then [decision RECOVER_STUCK_JOBS False 60] else [])
        in sorted_desc od_priority (if ds = [] then [decision NO_ACTION False 0] else ds)))"

record strategy_advice =
  sa_dispatch_batch_size :: int
  sa_bias :: rat
  sa_throttle_dispatch :: bool

definition advise :: "settings \<Rightarrow> operational_forecast \<Rightarrow> queue_metrics \<Rightarrow> rebuild_metrics \<Rightarrow> strategy_advice" where
  "advise st f q m =
     (let batch = int (orchestrator_dispatch_batch_size st)
      in \<lparr>sa_dispatch_batch_size = (if 70 \<le> of_overload_risk f then max 1 (batch div 2) else batch),
          sa_bias = (if rm_running m * 2 < rm_pending_dispatch m then double (12 / 10) else 1),
          sa_throttle_dispatch = should_throttle_dispatch st (qm_pending q) (rebuild_backlog m)\<rparr>)"

text \<open>Blackout hours of the stored policy, a JSON list or an object with the key \<open>periods\<close>.\<close>

type_synonym blackout_period = "int option \<times> int option"
datatype blackout_json = Periods "blackout_period list" | Period_object "blackout_period list option"

definition utc_hour :: "instant \<Rightarrow> int" where
  "utc_hour now = now div seconds 3600 mod 24"

definition is_in_blackout :: "instant \<Rightarrow> blackout_period list \<Rightarrow> bool" where
  "is_in_blackout now periods \<longleftrightarrow> list_ex (\<lambda>(s, e).
     (case s of None \<Rightarrow> -1 | Some h \<Rightarrow> h) \<le> utc_hour now \<and> utc_hour now < (case e of None \<Rightarrow> -1 | Some h \<Rightarrow> h)) periods"

definition default_blackout :: "blackout_period list" where
  "default_blackout = [(Some 2, Some 4)]"

definition platform_in_blackout :: "instant \<Rightarrow> blackout_json option \<Rightarrow> bool" where
  "platform_in_blackout now stored = is_in_blackout now (case stored of
      None \<Rightarrow> default_blackout
    | Some (Periods ps) \<Rightarrow> if ps = [] then default_blackout else ps
    | Some (Period_object None) \<Rightarrow> default_blackout
    | Some (Period_object (Some ps)) \<Rightarrow> ps)"

section \<open>Enterprise operations: permissions and remediation\<close>

datatype safety_level = LEVEL_OFF | LEVEL_MONITOR | LEVEL_LIMITED | LEVEL_STANDARD

definition level_value :: "safety_level \<Rightarrow> pystr" where
  "level_value l = (case l of LEVEL_OFF \<Rightarrow> asc ''off'' | LEVEL_MONITOR \<Rightarrow> asc ''monitor''
     | LEVEL_LIMITED \<Rightarrow> asc ''limited'' | LEVEL_STANDARD \<Rightarrow> asc ''standard'')"

definition safety_level_of :: "pystr \<Rightarrow> safety_level" where
  "safety_level_of raw = (case List.find (\<lambda>l. level_value l = lower raw) [LEVEL_OFF, LEVEL_MONITOR, LEVEL_LIMITED, LEVEL_STANDARD]
     of None \<Rightarrow> LEVEL_STANDARD | Some l \<Rightarrow> l)"

definition allowed_by_level :: "safety_level \<Rightarrow> decision_kind set" where
  "allowed_by_level l = (case l of LEVEL_OFF \<Rightarrow> {} | LEVEL_MONITOR \<Rightarrow> {NO_ACTION}
     | LEVEL_LIMITED \<Rightarrow> {NO_ACTION, RESET_STALE_REBUILD, RECOVER_STUCK_JOBS}
     | LEVEL_STANDARD \<Rightarrow> {HEAL_QUEUE, RESET_STALE_REBUILD, DEFER_REBUILD, RECOVER_STUCK_JOBS, THROTTLE_DISPATCH, NO_ACTION})"

definition approval_required :: "decision_kind set" where
  "approval_required = {DEFER_REBUILD, THROTTLE_DISPATCH}"

record permission =
  pm_allowed :: bool
  pm_requires_approval :: bool
  pm_blocked_reason :: "pystr option"

definition evaluate_permission :: "settings \<Rightarrow> safety_level \<Rightarrow> bool \<Rightarrow> decision_kind \<Rightarrow> permission" where
  "evaluate_permission st level dry_run k =
     (if \<not> ks_allowed (kill_switch_check st AUTONOMY)
      then \<lparr>pm_allowed = dry_run, pm_requires_approval = True,
            pm_blocked_reason = Some (asc ''RUNTIME_AUTONOMY kill switch active'')\<rparr>
      else if k \<notin> allowed_by_level level
      then \<lparr>pm_allowed = False, pm_requires_approval = True, pm_blocked_reason =
            Some (asc ''action '' @ kind_value k @ asc '' not permitted at safety level '' @ level_value level)\<rparr>
      else \<lparr>pm_allowed = True, pm_requires_approval = k \<in> approval_required \<and> \<not> dry_run, pm_blocked_reason = None\<rparr>)"

record remediation_result =
  rr_dry_run :: bool
  rr_executed :: int
  rr_blocked :: int
  rr_details :: "pystr list"

definition build_plan :: "operational_decision list \<Rightarrow> decision_kind list" where
  "build_plan ds = map od_kind (filter (\<lambda>d. od_kind d \<noteq> NO_ACTION) ds)"

definition add_detail :: "int \<Rightarrow> int \<Rightarrow> pystr \<Rightarrow> remediation_result \<Rightarrow> remediation_result" where
  "add_detail e b d r = r\<lparr>rr_executed := rr_executed r + e, rr_blocked := rr_blocked r + b, rr_details := rr_details r @ [d]\<rparr>"

definition execute_step :: "settings \<Rightarrow> safety_level \<Rightarrow> (uuid \<Rightarrow> bool) \<Rightarrow> instant \<Rightarrow> bool \<Rightarrow>
    remediation_result \<times> runtime_state \<Rightarrow> decision_kind \<Rightarrow> remediation_result \<times> runtime_state" where
  "execute_step st level locked now dry_run = (\<lambda>(r, s) k.
     (let perm = evaluate_permission st level dry_run k in
      if \<not> pm_allowed perm then (add_detail 0 1 (asc ''blocked:'' @ kind_value k) r, s)
      else if pm_requires_approval perm \<and> \<not> dry_run then (add_detail 0 1 (asc ''approval_required:'' @ kind_value k) r, s)
      else if dry_run then (add_detail 1 0 (asc ''simulated:'' @ kind_value k) r, s)
      else if k \<in> {RESET_STALE_REBUILD, DEFER_REBUILD, HEAL_QUEUE, RECOVER_STUCK_JOBS}
      then (let (actions, s') = run_bounded_cycle st locked now s
        in (add_detail (int (length actions)) 0 (asc ''healer:'' @ show_int (int (length actions))) r, s'))
      else if k = THROTTLE_DISPATCH then (add_detail 1 0 (asc ''throttle:policy_active'') r, s)
      else (r, s)))"

definition execute_plan :: "settings \<Rightarrow> safety_level \<Rightarrow> (uuid \<Rightarrow> bool) \<Rightarrow> instant \<Rightarrow> bool \<Rightarrow> decision_kind list \<Rightarrow> runtime_state \<Rightarrow>
    remediation_result \<times> runtime_state" where
  "execute_plan st level locked now dry_run steps s =
     foldl (execute_step st level locked now dry_run)
       (\<lparr>rr_dry_run = dry_run, rr_executed = 0, rr_blocked = 0, rr_details = []\<rparr>, s)
       (py_prefix (runtime_max_autonomous_actions_per_cycle st) steps)"

text \<open>The journal (\<open>enterprise/audit.py\<close>): one row per decision other than to do nothing.\<close>

datatype action_status = ACT_EXECUTED | ACT_SIMULATED | ACT_BLOCKED

record journal_row =
  jr_action :: decision_kind
  jr_status :: action_status
  jr_dry_run :: bool
  jr_reversible :: bool
  jr_detail :: pystr
  jr_executed :: int
  jr_blocked :: int

definition remediation_detail :: "remediation_result \<Rightarrow> pystr" where
  "remediation_detail r = (if rr_details r = [] then asc ''no-op'' else join (asc ''; '') (rr_details r))"

definition record_autonomous_action :: "bool \<Rightarrow> remediation_result \<Rightarrow> operational_decision \<Rightarrow> journal_row" where
  "record_autonomous_action dry_run result d =
     \<lparr>jr_action = od_kind d,
      jr_status = (if 0 < rr_blocked result \<and> rr_executed result = 0 then ACT_BLOCKED
        else if dry_run then ACT_SIMULATED else ACT_EXECUTED),
      jr_dry_run = dry_run, jr_reversible = od_reversible d, jr_detail = take 4000 (remediation_detail result),
      jr_executed = rr_executed result, jr_blocked = rr_blocked result\<rparr>"

record ops_cycle_result =
  oc_forecast :: operational_forecast
  oc_decisions :: "operational_decision list"
  oc_remediation :: remediation_result
  oc_journal :: "journal_row list"

definition enterprise_cycle :: "settings \<Rightarrow> safety_level \<Rightarrow> blackout_json option \<Rightarrow> (uuid \<Rightarrow> bool) \<Rightarrow> instant \<Rightarrow> bool \<Rightarrow>
    runtime_state \<Rightarrow> ops_cycle_result \<times> runtime_state" where
  "enterprise_cycle st level blackout locked now dry_run s =
     (let q = queue_metrics_of now (rt_jobs s); m = collect_rebuild_queue_metrics (requirements_of s);
          health = evaluate_health st 0 q m; f = forecast st q m health
      in if \<not> runtime_enterprise_ops_enabled st
         then (\<lparr>oc_forecast = f, oc_decisions = [], oc_remediation = fst (execute_plan st level locked now True (build_plan []) s),
             oc_journal = []\<rparr>, s)
         else (let advice = advise st f q m;
                   decisions = decide st f q m (platform_in_blackout now blackout \<or> sa_throttle_dispatch advice);
                   (result, s') = execute_plan st level locked now dry_run (build_plan decisions) s
               in (\<lparr>oc_forecast = f, oc_decisions = decisions, oc_remediation = result,
                   oc_journal = map (record_autonomous_action dry_run result) (filter (\<lambda>d. od_kind d \<noteq> NO_ACTION) decisions)\<rparr>, s')))"

end
