(* ===== verification/Rebuild_System.thy ===== *)
theory Rebuild_System
  imports Control_Plane
begin

text \<open>
  The rebuild requirements as a system: requests, starts, ends of runs (also late ones, and runs that vanish),
  the maintenance pass and the healer, interleaved in any order. The states keep the runs that are under way and
  the history of starts and of ends that found the lock busy. The lemmas are the invariants of the
  reachable states: the attempt counter is the number of starts that did not end busy.
\<close>

section \<open>Steps\<close>

record rebuild_system =
  bs_orch :: orch_state
  bs_open :: "requirement list"
  bs_started :: "uuid list"
  bs_busy :: "uuid list"

definition ended_busy :: "py_error + tenant_store \<Rightarrow> bool" where
  "ended_busy outcome = (case outcome of Inl (InventoryRebuildBusyError u) \<Rightarrow> True | _ \<Rightarrow> False)"

definition with_requirements :: "requirement list \<Rightarrow> rebuild_system \<Rightarrow> rebuild_system" where
  "with_requirements t s = s\<lparr>bs_orch := (bs_orch s)\<lparr>os_requirements := t\<rparr>\<rparr>"

definition requirement_rows :: "rebuild_system \<Rightarrow> requirement list" where
  "requirement_rows s = os_requirements (bs_orch s)"

inductive rebuild_step :: "settings \<Rightarrow> rebuild_system \<Rightarrow> rebuild_system \<Rightarrow> bool" for st :: settings where
  request: "rid \<notin> rq_id ` set (requirement_rows s) \<Longrightarrow>
    rebuild_step st s (with_requirements (request_rebuild now rid u version reason (requirement_rows s)) s)"
| start: "start_requirement st now u rid (requirement_rows s) = Inr (row, t) \<Longrightarrow>
    rebuild_step st s ((with_requirements t s)\<lparr>bs_open := row # bs_open s, bs_started := rid # bs_started s\<rparr>)"
| finish: "row \<in> set (bs_open s) \<Longrightarrow> finish_requirement st describe now row outcome (bs_orch s) = (result, orch) \<Longrightarrow>
    rebuild_step st s (s\<lparr>bs_orch := orch, bs_open := remove1 row (bs_open s),
      bs_busy := (if ended_busy outcome then rq_id row # bs_busy s else bs_busy s)\<rparr>)"
| vanish: "row \<in> set (bs_open s) \<Longrightarrow> rebuild_step st s (s\<lparr>bs_open := remove1 row (bs_open s)\<rparr>)"
| maintain: "run_maintenance st locked now (requirement_rows s) jobs = (report, t, jobs') \<Longrightarrow>
    rebuild_step st s (with_requirements t s)"
| heal: "defer_tenants st now us (requirement_rows s) = (n, t) \<Longrightarrow> rebuild_step st s (with_requirements t s)"

definition initial_rebuild_system :: "rebuild_system \<Rightarrow> bool" where
  "initial_rebuild_system s \<longleftrightarrow> requirement_rows s = [] \<and> bs_open s = [] \<and> bs_started s = [] \<and> bs_busy s = []"

inductive rebuild_run :: "settings \<Rightarrow> rebuild_system \<Rightarrow> rebuild_system \<Rightarrow> bool" for st :: settings where
  stop: "rebuild_run st s s"
| step: "rebuild_run st s s' \<Longrightarrow> rebuild_step st s' s'' \<Longrightarrow> rebuild_run st s s''"

lemma requirement_rows_with [simp]: "requirement_rows (with_requirements t s) = t"
  by (simp add: requirement_rows_def with_requirements_def)

lemma requirement_rows_updates [simp]:
  "requirement_rows (s\<lparr>bs_open := x\<rparr>) = requirement_rows s" "requirement_rows (s\<lparr>bs_started := y\<rparr>) = requirement_rows s"
  "requirement_rows (s\<lparr>bs_busy := z\<rparr>) = requirement_rows s" "requirement_rows (s\<lparr>bs_orch := orch\<rparr>) = os_requirements orch"
  by (simp_all add: requirement_rows_def)

lemma history_with [simp]:
  "bs_open (with_requirements t s) = bs_open s" "bs_started (with_requirements t s) = bs_started s"
  "bs_busy (with_requirements t s) = bs_busy s"
  by (simp_all add: with_requirements_def)

section \<open>One row\<close>

text \<open>\<open>n\<close>: the number of starts, \<open>b\<close>: the number of ends that found the lock busy.\<close>

definition row_ok :: "nat \<Rightarrow> nat \<Rightarrow> requirement \<Rightarrow> bool" where
  "row_ok n b r \<longleftrightarrow> rq_attempt_count r = int n - int b \<and> b \<le> n \<and> rq_attempt_count r \<le> rq_max_attempts r
     \<and> (rq_status r = RB_PENDING \<longrightarrow> rq_attempt_count r = 0) \<and> rq_status r \<noteq> RB_QUEUED
     \<and> (rq_status r = RB_RUNNING \<longrightarrow> rq_started_at r \<noteq> None) \<and> (rq_status r = RB_SUCCEEDED \<longrightarrow> \<not> rq_requires_rebuild r)"

text \<open>A rewriting that no counter sees and that never asks for a rebuild again.\<close>

definition quiet :: "(requirement \<Rightarrow> requirement) \<Rightarrow> bool" where
  "quiet f \<longleftrightarrow> (\<forall>r. rq_id (f r) = rq_id r \<and> (rq_requires_rebuild (f r) \<longrightarrow> rq_requires_rebuild r)
     \<and> (\<forall>n b. row_ok n b r \<longrightarrow> row_ok n b (f r)))"

lemma quietD: "quiet f \<Longrightarrow> rq_id (f r) = rq_id r" "quiet f \<Longrightarrow> rq_requires_rebuild (f r) \<Longrightarrow> rq_requires_rebuild r"
  "quiet f \<Longrightarrow> row_ok n b r \<Longrightarrow> row_ok n b (f r)"
  by (simp_all add: quiet_def)

lemma quiet_intro:
  assumes "\<And>r. rq_id (f r) = rq_id r" and "\<And>r. rq_requires_rebuild (f r) \<Longrightarrow> rq_requires_rebuild r"
    and "\<And>n b r. row_ok n b r \<Longrightarrow> row_ok n b (f r)"
  shows "quiet f"
  unfolding quiet_def using assms by blast

lemma quiet_id [simp]: "quiet (\<lambda>r. r)"
  by (rule quiet_intro) simp_all

lemma quiet_comp:
  assumes "quiet f" and "quiet g"
  shows "quiet (\<lambda>r. g (f r))"
  by (rule quiet_intro) (simp add: assms quietD(1), metis assms quietD(2), metis assms quietD(3))

lemma quiet_if [intro]:
  assumes "quiet f"
  shows "quiet (\<lambda>r. if P r then f r else r)"
  using assms by (intro quiet_intro) (simp_all add: quietD(1,3) split: if_splits, metis quietD(2))

lemma quietI:
  assumes "\<And>r. rq_id (f r) = rq_id r" and "\<And>r. rq_requires_rebuild (f r) \<Longrightarrow> rq_requires_rebuild r"
    and "\<And>r. rq_attempt_count (f r) = rq_attempt_count r" and "\<And>r. rq_max_attempts (f r) = rq_max_attempts r"
    and "\<And>r. rq_status (f r) \<in> {RB_FAILED, RB_DEFERRED} \<or> rq_status (f r) = RB_SUCCEEDED \<and> \<not> rq_requires_rebuild (f r)
      \<or> rq_status (f r) = rq_status r \<and> rq_started_at (f r) = rq_started_at r"
  shows "quiet f"
proof (rule quiet_intro)
  show "row_ok n b (f r)" if "row_ok n b r" for n b r
  proof -
    have counts: "rq_attempt_count r = int n - int b" "b \<le> n" "rq_attempt_count r \<le> rq_max_attempts r"
      and status: "rq_status r = RB_PENDING \<longrightarrow> rq_attempt_count r = 0" "rq_status r \<noteq> RB_QUEUED"
        "rq_status r = RB_RUNNING \<longrightarrow> rq_started_at r \<noteq> None" "rq_status r = RB_SUCCEEDED \<longrightarrow> \<not> rq_requires_rebuild r"
      using that unfolding row_ok_def by blast+
    consider "rq_status (f r) = RB_FAILED" | "rq_status (f r) = RB_DEFERRED"
      | "rq_status (f r) = RB_SUCCEEDED" "\<not> rq_requires_rebuild (f r)"
      | "rq_status (f r) = rq_status r" "rq_started_at (f r) = rq_started_at r"
      using assms(5) [of r] by blast
    then show ?thesis
      unfolding row_ok_def assms(3,4) using counts status assms(2) [of r] by cases auto
  qed
qed (fact assms)+

lemma quiet_marks [simp]:
  "quiet (mark_succeeded now)" "quiet (mark_requirement_failed now e)"
  by (rule quietI; simp add: mark_succeeded_def mark_requirement_failed_def Let_def split: if_splits)+

lemma quiet_reset [simp]: "quiet (reset_stale now)"
  by (rule quietI; simp add: reset_stale_def)

lemma quiet_backoff [simp]: "quiet (apply_backoff now)"
  by (rule quietI; simp add: apply_backoff_def)

text \<open>The healer defers rows that were never started, so it returns no attempt.\<close>

lemma quiet_defer [simp]: "quiet (\<lambda>r. if deferrable u r then mark_deferred_lock_busy now d r else r)"
proof -
  have "row_ok n b (mark_deferred_lock_busy now d r)" if "row_ok n b r" "deferrable u r" for n b r
    using that unfolding row_ok_def deferrable_def by (simp add: mark_deferred_lock_busy_def)
  then show ?thesis by (simp add: quiet_def) (simp add: mark_deferred_lock_busy_def)
qed

lemma row_ok_start: "row_ok n b r \<Longrightarrow> is_eligible_for_dispatch now r \<Longrightarrow> row_ok (Suc n) b (start_row st now r)"
  by (auto simp: row_ok_def dest: eligible_budget)

lemma row_ok_busy: "row_ok n b r \<Longrightarrow> b < n \<Longrightarrow> row_ok n (Suc b) (mark_deferred_lock_busy now d r)"
  by (auto simp: row_ok_def mark_deferred_lock_busy_def)

section \<open>What the passes do to the rows\<close>

lemma map_quiet_comp:
  assumes "\<And>u t. \<exists>f. quiet f \<and> snd (act u t) = map f t"
  shows "\<exists>f. quiet f \<and> snd (for_tenants act us t) = map f t"
proof (induction us arbitrary: t)
  case Nil
  show ?case using quiet_id by (auto intro!: exI [of _ "\<lambda>r. r"])
next
  case (Cons u us)
  from assms obtain f where f: "quiet f" "snd (act u t) = map f t" by blast
  from Cons obtain g where g: "quiet g" "snd (for_tenants act us (map f t)) = map g (map f t)" by blast
  have "snd (for_tenants act (u # us) t) = map (\<lambda>r. g (f r)) t"
    using f g by (simp add: split_def Let_def)
  with quiet_comp [OF f(1) g(1)] show ?case by blast
qed

lemma maintenance_quiet:
  assumes "run_maintenance st locked now t jobs = (report, t', jobs')"
  shows "\<exists>f. quiet f \<and> t' = map f t"
proof -
  have r: "\<exists>f. quiet f \<and> snd (reset_stale_running_globally st now x) = map f x" for x
    unfolding reset_stale_running_globally_def
    by (rule map_quiet_comp) (simp only: reset_stale_running_rebuilds_def Let_def snd_conv, rule exI, rule conjI [OF _ refl], intro quiet_if quiet_reset)
  have b: "\<exists>f. quiet f \<and> snd (apply_missing_backoff now x) = map f x" for x
    unfolding apply_missing_backoff_def
    by (rule map_quiet_comp) (simp only: apply_rebuild_retry_backoff_def Let_def snd_conv, rule exI, rule conjI [OF _ refl], intro quiet_if quiet_backoff)
  obtain f where f: "quiet f" "snd (reset_stale_running_globally st now t) = map f t" using r by blast
  obtain g where g: "quiet g" "snd (apply_missing_backoff now (map f t)) = map g (map f t)" using b by blast
  have "t' = map g (map f t)" using assms f(2) g(2) by (auto simp del: map_map simp: run_maintenance_def split_def Let_def)
  then have "t' = map (\<lambda>r. g (f r)) t" by (simp add: comp_def)
  with quiet_comp [OF f(1) g(1)] show ?thesis by blast
qed

lemma defer_tenant_map:
  assumes "distinct (map rq_id t)"
  shows "\<exists>f. quiet f \<and> snd (defer_tenant st now u t) = map f t"
proof -
  let ?hit = "map rq_id (take 2 (filter (deferrable u) t))" and ?mark = "mark_deferred_lock_busy now (orchestrator_defer_busy_seconds st * 2)"
  have hit: "deferrable u r" if "r \<in> set t" "rq_id r \<in> set ?hit" for r
  proof -
    from that(2) obtain x where x: "x \<in> set (take 2 (filter (deferrable u) t))" "rq_id x = rq_id r" by auto
    then have "x \<in> set t" "deferrable u x" by (auto dest: in_set_takeD)
    with x(2) that(1) assms have "x = r" by (auto simp: distinct_map dest: inj_onD)
    with \<open>deferrable u x\<close> show ?thesis by simp
  qed
  have q: "quiet (\<lambda>r. if rq_id r \<in> set ?hit then (if deferrable u r then ?mark r else r) else r)"
    by (rule quiet_if, rule quiet_defer)
  have "snd (defer_tenant st now u t) = map (\<lambda>r. if rq_id r \<in> set ?hit then (if deferrable u r then ?mark r else r) else r) t"
    unfolding defer_tenant_def Let_def snd_conv by (intro map_cong refl if_cong) (simp only: hit if_True)
  with q show ?thesis by blast
qed

lemma map_ids: "quiet f \<Longrightarrow> map rq_id (map f t) = map rq_id t"
  by (simp add: quietD)

lemma defer_tenants_map:
  assumes "distinct (map rq_id t)" and "defer_tenants st now us t = (n, t')"
  shows "\<exists>f. quiet f \<and> t' = map f t"
  using assms
proof (induction us arbitrary: t n t')
  case Nil
  then show ?case using quiet_id by (auto intro!: exI [of _ "\<lambda>r. r"])
next
  case (Cons u us)
  obtain f where f: "quiet f" "snd (defer_tenant st now u t) = map f t" using defer_tenant_map [OF Cons.prems(1)] by blast
  obtain m where rest: "defer_tenants st now us (map f t) = (m, t')"
    using Cons.prems(2) f(2) by (auto simp: split_def Let_def) (metis prod.collapse)
  have "distinct (map rq_id (map f t))" using Cons.prems(1) unfolding map_ids [OF f(1)] .
  from Cons.IH [OF this rest] obtain g where g: "quiet g" "t' = map g (map f t)" by blast
  then have "t' = map (\<lambda>r. g (f r)) t" by simp
  with quiet_comp [OF f(1) g(1)] show ?case by blast
qed

lemma finish_rows:
  assumes "finish_requirement st describe now row outcome s = (result, s')"
  shows "os_requirements s' = update_requirement (rq_id row)
      (if ended_busy outcome then mark_deferred_lock_busy now (orchestrator_defer_busy_seconds st)
       else (case outcome of Inr _ \<Rightarrow> mark_succeeded now | Inl e \<Rightarrow> mark_requirement_failed now (describe e))) (os_requirements s)"
  using assms by (auto simp: finish_requirement_def ended_busy_def finish_succeeded_def finish_busy_def finish_failed_def
      split_def Let_def split: sum.splits py_error.splits)

section \<open>The invariant\<close>

definition open_runs :: "uuid \<Rightarrow> requirement list \<Rightarrow> nat" where
  "open_runs k rows = count_list (map rq_id rows) k"

definition rebuild_ok :: "rebuild_system \<Rightarrow> bool" where
  "rebuild_ok s \<longleftrightarrow> distinct (map rq_id (requirement_rows s))
     \<and> (\<forall>r\<in>set (requirement_rows s). row_ok (count_list (bs_started s) (rq_id r)) (count_list (bs_busy s) (rq_id r)) r)
     \<and> (\<forall>k. count_list (bs_busy s) k + open_runs k (bs_open s) \<le> count_list (bs_started s) k)
     \<and> set (bs_started s) \<subseteq> rq_id ` set (requirement_rows s)"

lemma rebuild_okD:
  assumes "rebuild_ok s"
  shows "distinct (map rq_id (requirement_rows s))"
    and "r \<in> set (requirement_rows s) \<Longrightarrow> row_ok (count_list (bs_started s) (rq_id r)) (count_list (bs_busy s) (rq_id r)) r"
    and "count_list (bs_busy s) k + open_runs k (bs_open s) \<le> count_list (bs_started s) k"
    and "set (bs_started s) \<subseteq> rq_id ` set (requirement_rows s)"
  using assms unfolding rebuild_ok_def by blast+

lemma rebuild_okI:
  assumes "distinct (map rq_id (requirement_rows s))"
    and "\<And>r. r \<in> set (requirement_rows s) \<Longrightarrow> row_ok (count_list (bs_started s) (rq_id r)) (count_list (bs_busy s) (rq_id r)) r"
    and "\<And>k. count_list (bs_busy s) k + open_runs k (bs_open s) \<le> count_list (bs_started s) k"
    and "set (bs_started s) \<subseteq> rq_id ` set (requirement_rows s)"
  shows "rebuild_ok s"
  unfolding rebuild_ok_def using assms by blast

lemma rebuild_ok_initial: "initial_rebuild_system s \<Longrightarrow> rebuild_ok s"
  by (simp add: initial_rebuild_system_def rebuild_ok_def open_runs_def)

lemma rebuild_ok_quiet:
  assumes ok: "rebuild_ok s" and f: "quiet f"
  shows "rebuild_ok (with_requirements (map f (requirement_rows s)) s)"
proof (rule rebuild_okI)
  show "distinct (map rq_id (requirement_rows (with_requirements (map f (requirement_rows s)) s)))"
    unfolding requirement_rows_with map_ids [OF f] by (rule rebuild_okD(1) [OF ok])
next
  fix r
  assume "r \<in> set (requirement_rows (with_requirements (map f (requirement_rows s)) s))"
  then obtain x where x: "x \<in> set (requirement_rows s)" "r = f x" by auto
  show "row_ok (count_list (bs_started (with_requirements (map f (requirement_rows s)) s)) (rq_id r))
      (count_list (bs_busy (with_requirements (map f (requirement_rows s)) s)) (rq_id r)) r"
    unfolding history_with x(2) quietD(1) [OF f] by (rule quietD(3) [OF f rebuild_okD(2) [OF ok x(1)]])
next
  show "set (bs_started (with_requirements (map f (requirement_rows s)) s)) \<subseteq>
      rq_id ` set (requirement_rows (with_requirements (map f (requirement_rows s)) s))"
    using rebuild_okD(4) [OF ok] by (simp add: image_image quietD(1) [OF f])
qed (simp add: rebuild_okD(3) [OF ok])

lemma open_runs_remove: "row \<in> set rows \<Longrightarrow> open_runs k rows = open_runs k (remove1 row rows) + (if rq_id row = k then 1 else 0)"
  unfolding open_runs_def by (induction rows) auto

lemma rebuild_ok_vanish:
  assumes ok: "rebuild_ok s" and row: "row \<in> set (bs_open s)"
  shows "rebuild_ok (s\<lparr>bs_open := remove1 row (bs_open s)\<rparr>)"
proof (rule rebuild_okI)
  fix k
  show "count_list (bs_busy (s\<lparr>bs_open := remove1 row (bs_open s)\<rparr>)) k + open_runs k (bs_open (s\<lparr>bs_open := remove1 row (bs_open s)\<rparr>))
      \<le> count_list (bs_started (s\<lparr>bs_open := remove1 row (bs_open s)\<rparr>)) k"
    using rebuild_okD(3) [OF ok, of k] open_runs_remove [OF row, of k] by simp
qed (use rebuild_okD [OF ok] in simp_all)

lemma update_as_map: "update_requirement rid f t = map (\<lambda>r. if rq_id r = rid then f r else r) t"
  by (simp add: update_requirement_def)

lemma set_update: "x \<in> set (update_requirement rid f t) \<Longrightarrow> (\<exists>r\<in>set t. rq_id r = rid \<and> x = f r) \<or> x \<in> set t \<and> rq_id x \<noteq> rid"
  unfolding update_requirement_def by (auto split: if_splits)

lemma update_ids: "(\<And>r. rq_id (f r) = rq_id r) \<Longrightarrow> map rq_id (update_requirement rid f t) = map rq_id t"
  by (simp add: update_requirement_def)

lemma rebuild_ok_start:
  assumes ok: "rebuild_ok s" and start: "start_requirement st now u rid (requirement_rows s) = Inr (row, t)"
  shows "rebuild_ok ((with_requirements t s)\<lparr>bs_open := row # bs_open s, bs_started := rid # bs_started s\<rparr>)" (is "rebuild_ok ?s")
proof -
  obtain r where r: "get_requirement rid (requirement_rows s) = Some r" "is_eligible_for_dispatch now r"
    and row: "row = start_row st now r" and t: "t = update_requirement rid (start_row st now) (requirement_rows s)"
    using start unfolding start_requirement_Inr by blast
  note mem = get_requirement_SomeD [OF r(1)]
  have ids: "map rq_id t = map rq_id (requirement_rows s)" unfolding t by (rule update_ids) simp
  show ?thesis
  proof (rule rebuild_okI)
    show "distinct (map rq_id (requirement_rows ?s))" using rebuild_okD(1) [OF ok] ids by simp
  next
    fix x
    assume "x \<in> set (requirement_rows ?s)"
    then have "x \<in> set (update_requirement rid (start_row st now) (requirement_rows s))" by (simp add: t)
    then consider y where "y \<in> set (requirement_rows s)" "rq_id y = rid" "x = start_row st now y"
      | "x \<in> set (requirement_rows s)" "rq_id x \<noteq> rid" using set_update by blast
    then show "row_ok (count_list (bs_started ?s) (rq_id x)) (count_list (bs_busy ?s) (rq_id x)) x"
    proof cases
      case 1
      then have "y = r" using mem rebuild_okD(1) [OF ok] by (auto simp: distinct_map dest: inj_onD)
      with 1 row_ok_start [OF rebuild_okD(2) [OF ok 1(1)], of now st] r(2) show ?thesis by simp
    next
      case 2
      with rebuild_okD(2) [OF ok 2(1)] show ?thesis by simp
    qed
  next
    fix k
    show "count_list (bs_busy ?s) k + open_runs k (bs_open ?s) \<le> count_list (bs_started ?s) k"
      using rebuild_okD(3) [OF ok, of k] mem by (simp add: row open_runs_def)
  next
    have "rq_id ` set t = rq_id ` set (requirement_rows s)" using arg_cong [OF ids, of set] by simp
    then show "set (bs_started ?s) \<subseteq> rq_id ` set (requirement_rows ?s)"
      using rebuild_okD(4) [OF ok] mem by auto
  qed
qed

lemma rebuild_ok_busy:
  assumes ok: "rebuild_ok s" and row: "row \<in> set (bs_open s)"
    and orch: "os_requirements orch = update_requirement (rq_id row) (mark_deferred_lock_busy now d) (requirement_rows s)"
  shows "rebuild_ok (s\<lparr>bs_orch := orch, bs_open := remove1 row (bs_open s), bs_busy := rq_id row # bs_busy s\<rparr>)" (is "rebuild_ok ?s")
proof -
  have rows: "requirement_rows ?s = update_requirement (rq_id row) (mark_deferred_lock_busy now d) (requirement_rows s)"
    using orch by (simp add: requirement_rows_def)
  have ids: "map rq_id (requirement_rows ?s) = map rq_id (requirement_rows s)" unfolding rows by (rule update_ids) simp
  have less: "count_list (bs_busy s) (rq_id row) < count_list (bs_started s) (rq_id row)"
    using rebuild_okD(3) [OF ok, of "rq_id row"] open_runs_remove [OF row, of "rq_id row"] by simp
  show ?thesis
  proof (rule rebuild_okI)
    show "distinct (map rq_id (requirement_rows ?s))" unfolding ids by (rule rebuild_okD(1) [OF ok])
  next
    fix x
    assume "x \<in> set (requirement_rows ?s)"
    then consider y where "y \<in> set (requirement_rows s)" "rq_id y = rq_id row" "x = mark_deferred_lock_busy now d y"
      | "x \<in> set (requirement_rows s)" "rq_id x \<noteq> rq_id row" unfolding rows using set_update by blast
    then show "row_ok (count_list (bs_started ?s) (rq_id x)) (count_list (bs_busy ?s) (rq_id x)) x"
    proof cases
      case 1
      with row_ok_busy [OF rebuild_okD(2) [OF ok 1(1)]] less show ?thesis by simp
    next
      case 2
      with rebuild_okD(2) [OF ok 2(1)] show ?thesis by simp
    qed
  next
    fix k
    show "count_list (bs_busy ?s) k + open_runs k (bs_open ?s) \<le> count_list (bs_started ?s) k"
      using rebuild_okD(3) [OF ok, of k] open_runs_remove [OF row, of k] by (cases "rq_id row = k") simp_all
  next
    have "rq_id ` set (requirement_rows ?s) = rq_id ` set (requirement_rows s)" using arg_cong [OF ids, of set] by simp
    then show "set (bs_started ?s) \<subseteq> rq_id ` set (requirement_rows ?s)" using rebuild_okD(4) [OF ok] by simp
  qed
qed

lemma rebuild_ok_request:
  assumes ok: "rebuild_ok s" and fresh: "rid \<notin> rq_id ` set (requirement_rows s)"
  shows "rebuild_ok (with_requirements (request_rebuild now rid u version reason (requirement_rows s)) s)" (is "rebuild_ok ?s")
proof -
  obtain x where x: "request_rebuild now rid u version reason (requirement_rows s) = requirement_rows s @ [x]" "rq_id x = rid" "rq_status x = RB_PENDING"
      "rq_attempt_count x = 0" "rq_max_attempts x = 3"
    by (simp add: request_rebuild_def)
  have "count_list (bs_started s) rid = 0" using fresh rebuild_okD(4) [OF ok] by (auto simp: count_list_0_iff)
  then have zero: "count_list (bs_started s) rid = 0" "count_list (bs_busy s) rid = 0"
    using rebuild_okD(3) [OF ok, of rid] by simp_all
  show ?thesis
  proof (rule rebuild_okI)
    fix r
    assume "r \<in> set (requirement_rows ?s)"
    then consider "r \<in> set (requirement_rows s)" | "r = x" unfolding requirement_rows_with x(1) by auto
    then show "row_ok (count_list (bs_started ?s) (rq_id r)) (count_list (bs_busy ?s) (rq_id r)) r"
    proof cases
      case 1
      with rebuild_okD(2) [OF ok] show ?thesis by simp
    next
      case 2
      with zero x show ?thesis by (simp add: row_ok_def)
    qed
  qed (use rebuild_okD [OF ok] fresh in \<open>auto simp: x(1,2) simp del: rebuild_step.intros\<close>)
qed

lemma rebuild_ok_step:
  assumes "rebuild_step st s s'" and "rebuild_ok s"
  shows "rebuild_ok s'"
  using assms
proof (cases rule: rebuild_step.cases)
  case (request rid now u version reason)
  with assms(2) rebuild_ok_request show ?thesis by simp
next
  case (start now u rid row t)
  with assms(2) rebuild_ok_start show ?thesis by simp
next
  case (finish row describe now outcome result orch)
  show ?thesis
  proof (cases "ended_busy outcome")
    case True
    with finish assms(2) finish_rows [OF finish(3)] show ?thesis
      by (simp add: rebuild_ok_busy requirement_rows_def)
  next
    case False
    let ?mark = "case outcome of Inr _ \<Rightarrow> mark_succeeded now | Inl e \<Rightarrow> mark_requirement_failed now (describe e)"
    let ?f = "\<lambda>r. if rq_id r = rq_id row then ?mark r else r"
    have "quiet ?mark" by (cases outcome) simp_all
    then have f: "quiet ?f" by (rule quiet_if)
    have orch: "os_requirements orch = map ?f (requirement_rows s)"
      using finish_rows [OF finish(3)] False by (simp add: update_as_map requirement_rows_def)
    have "rebuild_ok ((with_requirements (map ?f (requirement_rows s)) s)\<lparr>bs_open := remove1 row (bs_open s)\<rparr>)"
      using rebuild_ok_vanish [OF rebuild_ok_quiet [OF assms(2) f]] finish(2) by simp
    then have "rebuild_ok (s\<lparr>bs_orch := orch, bs_open := remove1 row (bs_open s)\<rparr>)"
      unfolding rebuild_ok_def by (simp add: orch)
    with finish(1) False show ?thesis by simp
  qed
next
  case (vanish row)
  with assms(2) rebuild_ok_vanish show ?thesis by simp
next
  case (maintain locked now jobs report t jobs')
  with assms(2) maintenance_quiet rebuild_ok_quiet show ?thesis by metis
next
  case (heal now us n t)
  with assms(2) defer_tenants_map [OF rebuild_okD(1) [OF assms(2)]] rebuild_ok_quiet show ?thesis by metis
qed

lemma rebuild_ok_run: "rebuild_run st s s' \<Longrightarrow> rebuild_ok s \<Longrightarrow> rebuild_ok s'"
  by (induction rule: rebuild_run.induct) (auto intro: rebuild_ok_step)

section \<open>A requirement that is settled stays settled\<close>

definition settled :: "uuid \<Rightarrow> rebuild_system \<Rightarrow> bool" where
  "settled k s \<longleftrightarrow> (\<exists>r\<in>set (requirement_rows s). rq_id r = k \<and> \<not> rq_requires_rebuild r)"

lemma settled_map:
  assumes "settled k s" and "\<And>r. rq_id (f r) = rq_id r" and "\<And>r. rq_requires_rebuild (f r) \<Longrightarrow> rq_requires_rebuild r"
    and "requirement_rows s' = map f (requirement_rows s) @ rest"
  shows "settled k s'"
proof -
  obtain r where "r \<in> set (requirement_rows s)" "rq_id r = k" "\<not> rq_requires_rebuild r" using assms(1) by (auto simp: settled_def)
  then have "f r \<in> set (requirement_rows s')" "rq_id (f r) = k" "\<not> rq_requires_rebuild (f r)" using assms(2-4) by auto
  then show ?thesis by (auto simp: settled_def)
qed

lemma busy_keeps: "rq_requires_rebuild (mark_deferred_lock_busy now d r) = rq_requires_rebuild r"
  by (simp add: mark_deferred_lock_busy_def)

lemma finish_keeps:
  assumes "finish_requirement st describe now row outcome s = (result, s')"
  shows "\<exists>f. (\<forall>r. rq_id (f r) = rq_id r) \<and> (\<forall>r. rq_requires_rebuild (f r) \<longrightarrow> rq_requires_rebuild r)
    \<and> os_requirements s' = map f (os_requirements s)"
proof -
  obtain g where g: "\<And>r. rq_id (g r) = rq_id r" "\<And>r. rq_requires_rebuild (g r) \<Longrightarrow> rq_requires_rebuild r"
    and rows: "os_requirements s' = update_requirement (rq_id row) g (os_requirements s)"
  proof (cases "ended_busy outcome")
    case True
    with that [of "mark_deferred_lock_busy now (orchestrator_defer_busy_seconds st)"] finish_rows [OF assms]
    show ?thesis by (simp add: busy_keeps)
  next
    case False
    let ?g = "case outcome of Inr _ \<Rightarrow> mark_succeeded now | Inl e \<Rightarrow> mark_requirement_failed now (describe e)"
    have "quiet ?g" by (cases outcome) simp_all
    with that [of ?g] finish_rows [OF assms] False show ?thesis by (simp add: quietD(1,2))
  qed
  show ?thesis
    by (rule exI [of _ "\<lambda>r. if rq_id r = rq_id row then g r else r"]) (simp add: g rows update_as_map)
qed

lemma settled_step:
  assumes step: "rebuild_step st s s'" and ok: "rebuild_ok s" and k: "settled k s"
  shows "settled k s' \<and> count_list (bs_started s') k = count_list (bs_started s) k"
  using step
proof (cases rule: rebuild_step.cases)
  case (request rid now u version reason)
  have "settled k s'" using request(1)
    by (intro settled_map [OF k, where f = "\<lambda>r. r" and rest = "request_rebuild now rid u version reason []"]) (simp_all add: request_rebuild_def)
  with request(1) show ?thesis by simp
next
  case (start now u rid row t)
  then obtain r where r: "get_requirement rid (requirement_rows s) = Some r" "is_eligible_for_dispatch now r"
      "t = update_requirement rid (start_row st now) (requirement_rows s)" unfolding start_requirement_Inr by blast
  have "rid \<noteq> k"
  proof
    assume "rid = k"
    with k get_requirement_SomeD [OF r(1)] rebuild_okD(1) [OF ok] have "\<not> rq_requires_rebuild r"
      by (auto simp: settled_def distinct_map dest: inj_onD)
    with eligible_budget [OF r(2)] show False by simp
  qed
  moreover have "settled k s'" using start(1) r(3)
    by (intro settled_map [OF k, where f = "\<lambda>r. if rq_id r = rid then start_row st now r else r" and rest = "[]"])
      (simp_all add: update_as_map split: if_splits)
  ultimately show ?thesis using start(1) by simp
next
  case (finish row describe now outcome result orch)
  obtain f where f: "\<And>r. rq_id (f r) = rq_id r" "\<And>r. rq_requires_rebuild (f r) \<Longrightarrow> rq_requires_rebuild r"
    and rows: "os_requirements orch = map f (os_requirements (bs_orch s))"
    using finish_keeps [OF finish(3)] by blast
  have "settled k s'"
    by (rule settled_map [OF k f, where rest = "[]"]) (simp_all add: finish(1) rows requirement_rows_def)
  with finish(1) show ?thesis by simp
next
  case (vanish row)
  with k show ?thesis by (simp add: settled_def)
next
  case (maintain locked now jobs report t jobs')
  then obtain f where "quiet f" "t = map f (requirement_rows s)" using maintenance_quiet by blast
  then have "settled k s'" using maintain(1) by (intro settled_map [OF k, where f = f and rest = "[]"]) (simp_all add: quietD)
  with maintain(1) show ?thesis by simp
next
  case (heal now us n t)
  then obtain f where "quiet f" "t = map f (requirement_rows s)" using defer_tenants_map [OF rebuild_okD(1) [OF ok]] by blast
  then have "settled k s'" using heal(1) by (intro settled_map [OF k, where f = f and rest = "[]"]) (simp_all add: quietD)
  with heal(1) show ?thesis by simp
qed

lemma settled_run:
  assumes "rebuild_run st s s'" and "rebuild_ok s" and "settled k s"
  shows "settled k s' \<and> count_list (bs_started s') k = count_list (bs_started s) k"
  using assms
proof (induction rule: rebuild_run.induct)
  case (stop s)
  then show ?case by simp
next
  case (step s s' s'')
  then show ?case using settled_step rebuild_ok_run by metis
qed

end
