(* ===== verification/Orchestrator.thy ===== *)
theory Orchestrator
  imports Control_Plane
begin

text \<open>
  The schedules of the orchestrator (\<open>app/runtime/scheduling/registry.py\<close>, \<open>executor.py\<close>), the cycle of the
  control plane (\<open>app/runtime/control_plane/coordinator.py\<close>, \<open>state.py\<close>) and one turn of the orchestrator
  process (\<open>run_cycle\<close> of \<open>app/runtime/orchestration_worker.py\<close>). The consequence at the end: the registry is made
  anew in every turn, so that every schedule is due in every turn, whatever its interval.
\<close>

section \<open>Schedules\<close>

datatype schedule_kind = SK_REBUILD_DISPATCH | SK_ORCHESTRATION_MAINTENANCE | SK_AUTONOMY_HEALING
  | SK_HEALTH_EVALUATION | SK_QUEUE_VISIBILITY | SK_CONSISTENCY_VERIFICATION | SK_ANOMALY_AUDIT
  | SK_DLQ_SWEEP | SK_STAGING_CLEANUP | SK_ENTERPRISE_OPERATIONS | SK_OPERATIONAL_FORECAST

record schedule_tick =
  tk_due_at :: instant
  tk_interval_seconds :: rat

type_synonym schedule_registry = "(schedule_kind \<times> schedule_tick) list"

text \<open>\<open>timedelta(seconds=x)\<close> rounds to microseconds, half to even.\<close>

definition interval :: "rat \<Rightarrow> int" where
  "interval x = round_half_even (x * 1000000)"

definition periodic :: "instant \<Rightarrow> rat \<Rightarrow> schedule_tick" where
  "periodic now secs = \<lparr>tk_due_at = now, tk_interval_seconds = secs\<rparr>"

definition next_tick :: "instant \<Rightarrow> schedule_tick \<Rightarrow> schedule_tick" where
  "next_tick now t = t\<lparr>tk_due_at := now + interval (tk_interval_seconds t)\<rparr>"

definition is_due :: "instant \<Rightarrow> schedule_tick \<Rightarrow> bool" where
  "is_due now t \<longleftrightarrow> tk_due_at t \<le> now"

definition default_registry :: "settings \<Rightarrow> instant \<Rightarrow> schedule_registry" where
  "default_registry st now =
     (let poll = orchestrator_poll_interval_seconds st;
          every = of_int (max 1 (orchestrator_maintenance_every_cycles st))
      in [(SK_REBUILD_DISPATCH, periodic now poll),
          (SK_ORCHESTRATION_MAINTENANCE, periodic now (poll * every)),
          (SK_AUTONOMY_HEALING, periodic now (poll * every)),
          (SK_HEALTH_EVALUATION, periodic now (poll * 6)),
          (SK_QUEUE_VISIBILITY, periodic now poll),
          (SK_ENTERPRISE_OPERATIONS, periodic now (poll * every * 2)),
          (SK_OPERATIONAL_FORECAST, periodic now (poll * 12))])"

definition due_kinds :: "instant \<Rightarrow> schedule_registry \<Rightarrow> schedule_kind list" where
  "due_kinds now ticks = map fst (filter (\<lambda>(_, t). is_due now t) ticks)"

definition advance :: "instant \<Rightarrow> schedule_kind \<Rightarrow> schedule_registry \<Rightarrow> py_error + schedule_registry" where
  "advance now k ticks = (case map_of ticks k of
      None \<Rightarrow> Inl (KeyError []) | Some t \<Rightarrow> Inr (AList.update k (next_tick now t) ticks))"

section \<open>What a schedule does\<close>

text \<open>What a cycle reads outside the tables of the orchestrator.\<close>

record runtime_env =
  re_safety_level :: safety_level
  re_blackout :: "blackout_json option"
  re_locked :: "uuid \<Rightarrow> bool"
  re_containment :: "containment_state list"
  re_semantics :: lifecycle_cache
  re_lock_busy :: bool
  re_describe :: "py_error \<Rightarrow> pystr"

definition run_schedule :: "settings \<Rightarrow> runtime_env \<Rightarrow> instant \<Rightarrow> schedule_kind \<Rightarrow> runtime_state \<Rightarrow> runtime_state" where
  "run_schedule st env now k s = (case k of
      SK_ORCHESTRATION_MAINTENANCE \<Rightarrow> snd (maintenance st (re_locked env) now s)
    | SK_AUTONOMY_HEALING \<Rightarrow>
        if \<not> runtime_autonomy_enabled st then s else snd (run_bounded_cycle st (re_locked env) now s)
    | SK_ENTERPRISE_OPERATIONS \<Rightarrow>
        if \<not> runtime_autonomy_enabled st then s
        else snd (enterprise_cycle st (re_safety_level env) (re_blackout env) (re_locked env) now False s)
    | SK_OPERATIONAL_FORECAST \<Rightarrow>
        snd (enterprise_cycle st (re_safety_level env) (re_blackout env) (re_locked env) now True s)
    | _ \<Rightarrow> s)"

fun run_due :: "settings \<Rightarrow> runtime_env \<Rightarrow> instant \<Rightarrow> schedule_kind list \<Rightarrow> schedule_registry \<times> schedule_kind list \<times> runtime_state \<Rightarrow>
    py_error + (schedule_registry \<times> schedule_kind list \<times> runtime_state)" where
  "run_due st env now [] acc = Inr acc"
| "run_due st env now (k # ks) (ticks, hist, s) =
     (if k = SK_REBUILD_DISPATCH then run_due st env now ks (ticks, hist, s)
      else sbind (advance now k ticks) (\<lambda>ticks'. run_due st env now ks (ticks', hist @ [k], run_schedule st env now k s)))"

section \<open>The cycle\<close>

datatype tenant_state = TS_HEALTHY | TS_DEGRADED | TS_OVERLOADED | TS_REBUILD_PRESSURE | TS_RECOVERY_ACTIVE
datatype workload_state = WS_IDLE | WS_DISPATCHING | WS_PROCESSING | WS_MAINTENANCE | WS_THROTTLED

record control_snapshot =
  cs_tenant_state :: tenant_state
  cs_workload :: workload_state
  cs_health_score :: rat
  cs_health_severity :: health_severity
  cs_queue_pending :: int
  cs_rebuild_backlog :: int
  cs_rebuild_running :: int
  cs_recommendations :: "pystr list"

definition snapshot_from_metrics :: "settings \<Rightarrow> queue_metrics \<Rightarrow> rebuild_metrics \<Rightarrow> health_report \<Rightarrow> control_snapshot" where
  "snapshot_from_metrics st q m health =
     (let sev = hr_overall_severity health;
          ts = (if sev = SEV_CRITICAL then TS_OVERLOADED else if sev = SEV_WARN then TS_DEGRADED else TS_HEALTHY)
      in \<lparr>cs_tenant_state = (if int (orchestrator_dispatch_batch_size st) * 5 < rebuild_backlog m then TS_REBUILD_PRESSURE else ts),
          cs_workload = (if should_throttle_dispatch st (qm_pending q) (rm_pending_dispatch m) then WS_THROTTLED else WS_IDLE),
          cs_health_score = hr_overall_score health, cs_health_severity = sev, cs_queue_pending = qm_pending q,
          cs_rebuild_backlog = rebuild_backlog m, cs_rebuild_running = rm_running m,
          cs_recommendations = hr_recommendations health\<rparr>)"

record cycle_result =
  cy_dispatched :: bool
  cy_health :: health_report
  cy_ran :: "schedule_kind list"
  cy_dispatch :: "dispatch_result option"
  cy_snapshot :: control_snapshot

definition run_control_cycle :: "settings \<Rightarrow> runtime_env \<Rightarrow> instant \<Rightarrow> instant \<Rightarrow> schedule_registry \<Rightarrow> runtime_state \<Rightarrow>
    py_error + (cycle_result \<times> schedule_registry \<times> runtime_state)" where
  "run_control_cycle st env now later ticks s =
     sbind (run_due st env now (due_kinds now ticks) (ticks, [], s)) (\<lambda>(ticks', hist, s1).
       (let q = queue_metrics_of now (rt_jobs s1); m = collect_rebuild_queue_metrics (requirements_of s1);
            health = evaluate_health st 0 q m;
            go = ks_allowed (kill_switch_check st REBUILD_DISPATCH)
              \<and> \<not> should_throttle_dispatch st (qm_pending q) (rebuild_backlog m);
            (result, orch) = (if go then apfst Some
                (dispatch_once st (re_semantics env) (re_lock_busy env) (re_describe env) now later (re_containment env) (rt_orch s1))
              else (None, rt_orch s1))
        in Inr (\<lparr>cy_dispatched = (case result of None \<Rightarrow> False | Some r \<Rightarrow> dr_dispatched r), cy_health = health, cy_ran = hist,
             cy_dispatch = result, cy_snapshot = snapshot_from_metrics st q m health\<rparr>, ticks', s1\<lparr>rt_orch := orch\<rparr>)))"

text \<open>The turn: the lease is renewed, and a control plane with a fresh registry runs one cycle.\<close>

definition orchestrator_turn :: "settings \<Rightarrow> runtime_env \<Rightarrow> uuid \<Rightarrow> instant \<Rightarrow> instant \<Rightarrow> process_lease option \<Rightarrow> runtime_state \<Rightarrow>
    process_lease option \<times> (py_error + cycle_result option \<times> runtime_state)" where
  "orchestrator_turn st env holder now later lease s =
     (let (answer, lease') = try_acquire st now holder lease in
      if \<not> fst answer then (lease', Inr (None, s))
      else (lease', sbind (run_control_cycle st env now later (default_registry st now) s) (\<lambda>(r, _, s'). Inr (Some r, s'))))"

section \<open>Every schedule is due in every turn\<close>

lemma default_registry_due: "due_kinds now (default_registry st now) =
    [SK_REBUILD_DISPATCH, SK_ORCHESTRATION_MAINTENANCE, SK_AUTONOMY_HEALING, SK_HEALTH_EVALUATION, SK_QUEUE_VISIBILITY,
     SK_ENTERPRISE_OPERATIONS, SK_OPERATIONAL_FORECAST]"
  by (simp add: due_kinds_def default_registry_def is_due_def periodic_def Let_def)

lemma run_due_runs:
  assumes "\<forall>k\<in>set ks. k \<noteq> SK_REBUILD_DISPATCH \<longrightarrow> k \<in> fst ` set ticks"
  shows "\<exists>ticks' s'. run_due st env now ks (ticks, hist, s) = Inr (ticks', hist @ filter (\<lambda>k. k \<noteq> SK_REBUILD_DISPATCH) ks, s')"
  using assms
proof (induction ks arbitrary: ticks hist s)
  case Nil
  then show ?case by simp
next
  case (Cons k ks)
  show ?case
  proof (cases "k = SK_REBUILD_DISPATCH")
    case True
    with Cons show ?thesis by simp
  next
    case False
    with Cons.prems obtain t where t: "map_of ticks k = Some t"
      by (metis list.set_intros(1) not_Some_eq map_of_eq_None_iff)
    let ?ticks = "AList.update k (next_tick now t) ticks"
    have "\<forall>k\<in>set ks. k \<noteq> SK_REBUILD_DISPATCH \<longrightarrow> k \<in> fst ` set ?ticks"
      using Cons.prems by (simp add: dom_update)
    from Cons.IH [OF this, of "hist @ [k]" "run_schedule st env now k s"] obtain ticks' s'
      where "run_due st env now ks (?ticks, hist @ [k], run_schedule st env now k s) =
        Inr (ticks', (hist @ [k]) @ filter (\<lambda>k. k \<noteq> SK_REBUILD_DISPATCH) ks, s')" by blast
    with False t show ?thesis by (simp add: advance_def)
  qed
qed

end
