(* ===== verification/Runtime_Properties.thy ===== *)
theory Runtime_Properties
  imports Rebuild_System Orchestrator Inventory_Properties
begin

text \<open>
  The properties of the rebuild orchestration and of the control plane, with their witnesses: how often a
  requirement is started, what the dispatcher selects and what blocks it, what a successful dispatch leaves in the
  snapshots, and what the enterprise operations do under overload.
\<close>

section \<open>Attempts\<close>


definition demo_store :: tenant_store where
  "demo_store = \<lparr>ts_entries = [], ts_costs = [], ts_live = []\<rparr>"

definition demo_orch :: "requirement list \<Rightarrow> orch_state" where
  "demo_orch t = \<lparr>os_requirements = t, os_stores = (\<lambda>_. demo_store), os_guard = fresh_guard, os_breakers = []\<rparr>"

definition demo_system :: "rebuild_system" where
  "demo_system = \<lparr>bs_orch = demo_orch [], bs_open = [], bs_started = [], bs_busy = []\<rparr>"


section \<open>Selection\<close>

text \<open>
  C34. What is dispatched: among the first \<open>dispatch_batch_size\<close> open requirements by priority and age, an
  eligible one that is least in that order (the adaptive boost has no influence), and none exactly if
  none of them is eligible. So when the open requirements fit into a batch, the dispatcher is idle only if
  no requirement is eligible.
\<close>

theorem dispatch_takes_least:
  assumes "1 \<le> orchestrator_max_dispatch_per_cycle st"
  shows "(case select_requirement_id st now t of
      None \<Rightarrow> \<forall>r\<in>set (dispatch_candidates st t). \<not> is_eligible_for_dispatch now r
    | Some rid \<Rightarrow> \<exists>r\<in>set (dispatch_candidates st t). rq_id r = rid \<and> is_eligible_for_dispatch now r
        \<and> (\<forall>x\<in>set (dispatch_candidates st t). is_eligible_for_dispatch now x \<longrightarrow> dispatch_order r \<le> dispatch_order x))
    \<and> (length (filter dispatchable t) \<le> orchestrator_dispatch_batch_size st \<longrightarrow>
        (select_requirement_id st now t = None \<longleftrightarrow> (\<forall>r\<in>set t. \<not> is_eligible_for_dispatch now r)))"
proof -
  let ?c = "filter (is_eligible_for_dispatch now) (dispatch_candidates st t)"
  have sel: "select_requirement_id st now t = (if ?c = [] then None else Some (rq_id (hd (sort_key dispatch_order (adjust now 15 ?c)))))"
  proof (cases "?c = []")
    case False
    then obtain ys where "select_fair_batch (orchestrator_max_dispatch_per_cycle st) 1 (adjust now 15 ?c) =
        hd (sort_key dispatch_order (adjust now 15 ?c)) # ys"
      using fair_batch_head [OF assms, of "adjust now 15 ?c"] by auto
    with False show ?thesis by (simp add: select_requirement_id_def Let_def)
  qed (simp add: select_requirement_id_def)
  have first: "hd (sort_key dispatch_order (adjust now 15 ?c)) \<in> set ?c"
    "x \<in> set ?c \<Longrightarrow> dispatch_order (hd (sort_key dispatch_order (adjust now 15 ?c))) \<le> dispatch_order x" if "?c \<noteq> []" for x
    using hd_sort_key_least [where xs = "adjust now 15 ?c" and f = dispatch_order] that by simp_all
  have all: "(\<forall>r\<in>set (dispatch_candidates st t). \<not> is_eligible_for_dispatch now r) \<longleftrightarrow> (\<forall>r\<in>set t. \<not> is_eligible_for_dispatch now r)"
    if "length (filter dispatchable t) \<le> orchestrator_dispatch_batch_size st"
    using that eligible_budget [of now] by (auto simp: dispatch_candidates_def)
  have none: "?c = [] \<longleftrightarrow> (\<forall>r\<in>set (dispatch_candidates st t). \<not> is_eligible_for_dispatch now r)" by (simp add: filter_empty_conv)
  show ?thesis
  proof (cases "?c = []")
    case True
    with sel none all show ?thesis by simp
  next
    case False
    have "\<exists>r\<in>set (dispatch_candidates st t). rq_id r = rq_id (hd (sort_key dispatch_order (adjust now 15 ?c)))
        \<and> is_eligible_for_dispatch now r \<and> (\<forall>x\<in>set (dispatch_candidates st t). is_eligible_for_dispatch now x \<longrightarrow> dispatch_order r \<le> dispatch_order x)"
      using first [OF False] by (intro bexI [of _ "hd (sort_key dispatch_order (adjust now 15 ?c))"]) auto
    with False sel none all show ?thesis by simp
  qed
qed

lemma dispatch_takes_least_witness:
  "select_requirement_id default_settings 5 (request_rebuild 1 1 7 version_1 [] []) \<noteq> None"
proof -
  let ?t = "request_rebuild 1 1 7 version_1 [] []"
  have "1 \<le> orchestrator_max_dispatch_per_cycle default_settings" by (simp add: default_settings_def)
  moreover have "length (filter dispatchable ?t) \<le> orchestrator_dispatch_batch_size default_settings"
    by (simp add: default_settings_def request_rebuild_def)
  moreover have "\<exists>r\<in>set ?t. is_eligible_for_dispatch 5 r" by (simp add: request_rebuild_def is_eligible_for_dispatch_def)
  ultimately show ?thesis using dispatch_takes_least [of default_settings, where now = 5 and t = ?t] by blast
qed

text \<open>A dispatch that starts nothing changes no row.\<close>

definition passed_over :: "dispatch_result \<Rightarrow> bool" where
  "passed_over r \<longleftrightarrow> \<not> dr_dispatched r \<and> dr_outcome r \<in> {D_blocked, D_circuit_open, D_idle}"

lemma dispatch_idle:
  assumes "select_requirement_id st now (os_requirements s) = None"
    and "dispatch_once st lifecycle busy describe now later containment s = (r, s')"
  shows "passed_over r \<and> os_requirements s' = os_requirements s"
  using assms by (auto simp: dispatch_once_def not_dispatched_def passed_over_def Let_def split: if_splits prod.splits)

text \<open>A request that comes later and is not more urgent does not change the first rows of the order.\<close>

lemma take_sort_append:
  assumes full: "length (take n (sort_key f xs)) = n" and later: "\<And>x y. x \<in> set (take n (sort_key f xs)) \<Longrightarrow> y \<in> set ys \<Longrightarrow> f x \<le> f y"
  shows "take n (sort_key f (xs @ ys)) = take n (sort_key f xs)"
proof -
  let ?E = "take n (sort_key f xs)" and ?R = "drop n (sort_key f xs)"
  have split: "sort_key f xs = ?E @ ?R" by simp
  have "sort_key f (xs @ ys) = ?E @ sort_key f (?R @ ys)"
  proof (rule properties_for_sort_key)
    show "mset (?E @ sort_key f (?R @ ys)) = mset (xs @ ys)"
      using arg_cong [OF split, of mset] by (simp del: append_take_drop_id)
    have stable: "filter (\<lambda>x. f k = f x) (sort_key f zs) = filter (\<lambda>x. f k = f x) zs" for k zs
      using sort_key_stable [of f "f k" zs] by (simp add: eq_commute)
    show "filter (\<lambda>x. f k = f x) (?E @ sort_key f (?R @ ys)) = filter (\<lambda>x. f k = f x) (xs @ ys)" for k
    proof -
      have "filter (\<lambda>x. f k = f x) (?E @ ?R) = filter (\<lambda>x. f k = f x) xs" by (simp only: append_take_drop_id stable)
      then show ?thesis by (simp only: filter_append stable append.assoc [symmetric])
    qed
    have "\<forall>x\<in>set ?E. \<forall>y\<in>set ?R. f x \<le> f y"
      using sort_key_sorted_wrt [of f xs] sorted_wrt_append [of "\<lambda>a b. f a \<le> f b" ?E ?R] by simp
    with later have "\<forall>x\<in>set ?E. \<forall>y\<in>set (sort_key f (?R @ ys)). f x \<le> f y" by auto
    moreover have "sorted_wrt (\<lambda>a b. f a \<le> f b) ?E"
      using sort_key_sorted_wrt [of f xs] by (rule sorted_wrt_take)
    ultimately have "sorted_wrt (\<lambda>a b. f a \<le> f b) (?E @ sort_key f (?R @ ys))"
      by (simp add: sorted_wrt_append sort_key_sorted_wrt)
    then show "sorted (map f (?E @ sort_key f (?R @ ys)))" by (simp only: sorted_map)
  qed
  with full show ?thesis by simp
qed

section \<open>What blocks the dispatcher\<close>

record dispatch_call =
  dc_lifecycle :: lifecycle_cache
  dc_busy :: bool
  dc_describe :: "py_error \<Rightarrow> pystr"
  dc_now :: instant
  dc_later :: instant
  dc_containment :: "containment_state list"

datatype orch_event = Requested instant uuid uuid pystr pystr | Dispatch_called dispatch_call

text \<open>Requests and dispatches in any order; the results of the dispatches.\<close>

fun orch_events :: "settings \<Rightarrow> orch_event list \<Rightarrow> orch_state \<Rightarrow> dispatch_result list \<times> orch_state" where
  "orch_events st [] s = ([], s)"
| "orch_events st (Requested now rid u version reason # es) s =
     orch_events st es (s\<lparr>os_requirements := request_rebuild now rid u version reason (os_requirements s)\<rparr>)"
| "orch_events st (Dispatch_called c # es) s =
     (let (r, s1) = dispatch_once st (dc_lifecycle c) (dc_busy c) (dc_describe c) (dc_now c) (dc_later c) (dc_containment c) s;
          (rs, s2) = orch_events st es s1 in (r # rs, s2))"

definition exhausted_batch :: "settings \<Rightarrow> instant \<Rightarrow> requirement list \<Rightarrow> bool" where
  "exhausted_batch st t0 t \<longleftrightarrow> length (dispatch_candidates st t) = orchestrator_dispatch_batch_size st
     \<and> (\<forall>r\<in>set (dispatch_candidates st t). rq_max_attempts r \<le> rq_attempt_count r
          \<and> rq_priority r \<le> prio_semantics_invalidation \<and> rq_created_at r \<le> t0)"

lemma exhausted_idle:
  assumes "exhausted_batch st t0 t"
  shows "select_requirement_id st now t = None"
proof -
  have "filter (is_eligible_for_dispatch now) (dispatch_candidates st t) = []"
    using assms eligible_budget by (fastforce simp: exhausted_batch_def filter_empty_conv)
  then show ?thesis by (simp add: select_requirement_id_def)
qed

lemma exhausted_request:
  assumes "exhausted_batch st t0 t" and "t0 \<le> now"
  shows "exhausted_batch st t0 (request_rebuild now rid u version reason t)"
proof -
  obtain x where x: "request_rebuild now rid u version reason t = t @ [x]" "dispatchable x"
      "dispatch_order x = (prio_semantics_invalidation, now)"
    by (simp add: request_rebuild_def dispatchable_def dispatch_order_def)
  let ?n = "orchestrator_dispatch_batch_size st"
  have "take ?n (sort_key dispatch_order (filter dispatchable t @ [x])) = take ?n (sort_key dispatch_order (filter dispatchable t))"
  proof (rule take_sort_append)
    show "length (take ?n (sort_key dispatch_order (filter dispatchable t))) = ?n"
      using assms(1) by (simp add: exhausted_batch_def dispatch_candidates_def)
    show "dispatch_order r \<le> dispatch_order y"
      if "r \<in> set (take ?n (sort_key dispatch_order (filter dispatchable t)))" "y \<in> set [x]" for r y
    proof -
      have r: "rq_priority r \<le> prio_semantics_invalidation" "rq_created_at r \<le> now"
        using assms that(1) by (auto simp: exhausted_batch_def dispatch_candidates_def)
      have "y = x" using that(2) by simp
      with r show ?thesis by (simp add: x(3)) (auto simp: dispatch_order_def less_eq_prod_def)
    qed
  qed
  then have "dispatch_candidates st (request_rebuild now rid u version reason t) = dispatch_candidates st t"
    by (simp add: dispatch_candidates_def x(1,2))
  with assms(1) show ?thesis by (simp add: exhausted_batch_def)
qed

text \<open>
  C37. Head-of-line blocking: requirements that have used up their attempts stay among the open
  ones, and the limit of the query counts them before eligibility is checked. Once a batch of such rows
  comes first, no dispatch starts anything any more, whatever is requested later and however often
  the dispatcher runs; rows behind them that have attempts left are never rebuilt.
\<close>

theorem exhausted_rows_block_dispatch:
  assumes "exhausted_batch st t0 (os_requirements s)"
    and "\<forall>e\<in>set es. case e of Requested now rid u version reason \<Rightarrow> t0 \<le> now | Dispatch_called c \<Rightarrow> True"
    and "orch_events st es s = (results, s')"
  shows "list_all passed_over results \<and> (\<exists>requested. os_requirements s' = os_requirements s @ requested)"
  using assms
proof (induction st es s arbitrary: results s' rule: orch_events.induct)
  case (1 st s)
  then show ?case by simp
next
  case (2 st now rid u version reason es s)
  let ?s = "s\<lparr>os_requirements := request_rebuild now rid u version reason (os_requirements s)\<rparr>"
  have "exhausted_batch st t0 (os_requirements ?s)" using 2(2,3) by (simp add: exhausted_request)
  from 2(1) [OF this] 2(3,4) have "list_all passed_over results \<and> (\<exists>rest. os_requirements s' = os_requirements ?s @ rest)" by simp
  then show ?case by (auto simp: request_rebuild_def)
next
  case (3 st c es s)
  obtain r s1 where one: "dispatch_once st (dc_lifecycle c) (dc_busy c) (dc_describe c) (dc_now c) (dc_later c) (dc_containment c) s = (r, s1)"
    by (metis surj_pair)
  obtain rs s2 where rest: "orch_events st es s1 = (rs, s2)" by (metis surj_pair)
  have idle: "passed_over r \<and> os_requirements s1 = os_requirements s"
    by (rule dispatch_idle [OF exhausted_idle [OF 3(2)] one])
  then have "exhausted_batch st t0 (os_requirements s1)" using 3(2) by simp
  from 3(1) [OF one [symmetric] refl this _ rest] 3(3) have "list_all passed_over rs \<and> (\<exists>requested. os_requirements s2 = os_requirements s1 @ requested)"
    by simp
  moreover have "results = r # rs" "s' = s2" using 3(4) one rest by simp_all
  ultimately show ?case using idle by simp
qed

definition spent_row :: requirement where
  "spent_row = (hd (request_rebuild 1 1 7 version_1 [] []))\<lparr>rq_status := RB_FAILED, rq_attempt_count := 3\<rparr>"

lemma exhausted_rows_block_dispatch_witness:
  "\<exists>results s'. orch_events (default_settings\<lparr>orchestrator_dispatch_batch_size := 1\<rparr>)
       [Requested 2 2 8 version_1 [], Dispatch_called \<lparr>dc_lifecycle = builtin_lifecycle, dc_busy = False,
          dc_describe = (\<lambda>_. []), dc_now = seconds 90000, dc_later = seconds 90001, dc_containment = []\<rparr>] (demo_orch [spent_row]) = (results, s')
     \<and> list_all passed_over results"
proof -
  let ?st = "default_settings\<lparr>orchestrator_dispatch_batch_size := 1\<rparr>"
  let ?es = "[Requested 2 2 8 version_1 [], Dispatch_called \<lparr>dc_lifecycle = builtin_lifecycle, dc_busy = False,
          dc_describe = (\<lambda>_. []), dc_now = seconds 90000, dc_later = seconds 90001, dc_containment = []\<rparr>]"
  have "dispatch_candidates ?st [spent_row] = [spent_row]"
    by (simp add: dispatch_candidates_def dispatchable_def spent_row_def request_rebuild_def)
  then have blocked: "exhausted_batch ?st 1 (os_requirements (demo_orch [spent_row]))"
    by (simp add: exhausted_batch_def demo_orch_def) (simp add: spent_row_def request_rebuild_def)
  obtain results s' where run: "orch_events ?st ?es (demo_orch [spent_row]) = (results, s')" by (metis surj_pair)
  from exhausted_rows_block_dispatch [OF blocked _ run] run show ?thesis by simp
qed

section \<open>A successful dispatch\<close>

lemma dispatch_succeededD:
  assumes "dispatch_once st lifecycle busy describe now later containment s = (res, s')" and "dr_outcome res = D_succeeded"
  obtains row store where "run_rebuild lifecycle busy row (os_stores s (rq_user_id row)) = Inr store"
    and "dr_requirement_id res = Some (rq_id row)" and "dr_user_id res = Some (rq_user_id row)"
    and "os_stores s' = (os_stores s)(rq_user_id row := store)"
    and "\<exists>t. os_requirements s' = update_requirement (rq_id row) (mark_succeeded later) t"
proof -
  obtain bs rid where exec: "execute_requirement st lifecycle busy describe now later containment rid (s\<lparr>os_breakers := bs\<rparr>) = (res, s')"
    using assms by (auto simp: dispatch_once_def not_dispatched_def Let_def split: if_splits prod.splits option.splits)
  obtain row t where fin: "finish_requirement st describe later row (run_rebuild lifecycle busy row (os_stores s (rq_user_id row)))
      (s\<lparr>os_breakers := bs, os_requirements := t\<rparr>) = (res, s')"
    using exec assms(2) unfolding execute_requirement_def
    by (auto simp: peek_requirement_def start_requirement_def not_dispatched_def Let_def split: if_splits sum.splits option.splits)
  obtain store where store: "run_rebuild lifecycle busy row (os_stores s (rq_user_id row)) = Inr store"
    using fin assms(2) by (auto simp: finish_requirement_def run_result_def split: sum.splits py_error.splits)
  have "res = run_result row D_succeeded (asc ''rebuild completed'')"
    and "s' = finish_succeeded st later row store (s\<lparr>os_breakers := bs, os_requirements := t\<rparr>)"
    using fin by (simp_all add: finish_requirement_def store)
  then show ?thesis
    by (intro that [OF store]) (auto simp: run_result_def finish_succeeded_def split_def Let_def)
qed

text \<open>
  C15. A dispatch that reports success has rebuilt the tenant of the requirement: its snapshots are those that its
  inventory ledger determines (full or incremental; no snapshot may precede the ledger), the requirement is
  settled, and the snapshots of other tenants are untouched.
\<close>

theorem dispatch_rebuilds_snapshots:
  assumes "dispatch_once st lifecycle busy describe now later containment s = (res, s')" and "dr_outcome res = D_succeeded"
    and "dr_user_id res = Some u" and "ts_entries (os_stores s u) \<noteq> []" and "entries_ok (ts_entries (os_stores s u))"
    and "rebuild_allowed lifecycle"
    and "\<forall>x\<in>set (ts_live (os_stores s u)). \<exists>e\<in>set (ts_entries (os_stores s u)). lr_operation_date (le_row e) \<le> ss_snapshot_date x"
  shows "units_of ` set (ts_live (os_stores s' u)) = ledger_snapshots (map entry_row (ts_entries (os_stores s u))) (\<lambda>_. True)
    \<and> (\<forall>v. v \<noteq> u \<longrightarrow> os_stores s' v = os_stores s v)
    \<and> (\<forall>r\<in>set (os_requirements s'). dr_requirement_id res = Some (rq_id r) \<longrightarrow>
         rq_status r = RB_SUCCEEDED \<and> \<not> rq_requires_rebuild r)"
proof -
  obtain row store where run: "run_rebuild lifecycle busy row (os_stores s (rq_user_id row)) = Inr store"
    and id: "dr_requirement_id res = Some (rq_id row)" and user: "dr_user_id res = Some (rq_user_id row)"
    and stores: "os_stores s' = (os_stores s)(rq_user_id row := store)"
    and rows: "\<exists>t. os_requirements s' = update_requirement (rq_id row) (mark_succeeded later) t"
    using dispatch_succeededD [OF assms(1,2)] by blast
  have u: "rq_user_id row = u" using user assms(3) by simp
  have "units_of ` set (ts_live store) = ledger_snapshots (map entry_row (ts_entries (os_stores s u))) (\<lambda>_. True)"
    using run_rebuild_units [OF run [unfolded u] assms(4-6)] assms(7) by blast
  moreover have "rq_status r = RB_SUCCEEDED \<and> \<not> rq_requires_rebuild r"
    if "r \<in> set (os_requirements s')" "rq_id r = rq_id row" for r
    using that rows by (auto simp: update_requirement_def mark_succeeded_def split: if_splits)
  ultimately show ?thesis by (simp add: stores u id)
qed

definition full_row :: requirement where
  "full_row = (hd (request_rebuild 1 1 7 version_1 [] []))\<lparr>rq_mode := MODE_FULL\<rparr>"

definition rebuild_demo :: orch_state where
  "rebuild_demo = (demo_orch [full_row])\<lparr>os_stores := (\<lambda>_. demo_store\<lparr>ts_entries := [demo_entry 1 I_INBOUND 10]\<rparr>)\<rparr>"

lemma dispatch_rebuilds_snapshots_witness:
  "\<exists>res s'. dispatch_once default_settings builtin_lifecycle False (\<lambda>_. []) 5 6 [] rebuild_demo = (res, s')
     \<and> units_of ` set (ts_live (os_stores s' 7)) = ledger_snapshots (map entry_row [demo_entry 1 I_INBOUND 10]) (\<lambda>_. True)"
proof -
  obtain live la where full: "full_rebuild builtin_lifecycle False 7 [] [demo_entry 1 I_INBOUND 10] [] = Inr (live, la)"
    using demo_full_rebuild by blast
  let ?row = "start_row default_settings 5 full_row"
  have full_row: "rq_id full_row = 1" "rq_user_id full_row = 7" "is_eligible_for_dispatch 5 full_row" "dispatchable full_row"
      "rq_semantics_version full_row = version_1" "rq_mode full_row = MODE_FULL"
    by (simp_all add: full_row_def request_rebuild_def is_eligible_for_dispatch_def dispatchable_def)
  have "rq_mode ?row = MODE_FULL" using full_row(6) by (simp add: start_row_def mark_running_def mark_queued_def Let_def)
  then have run: "run_rebuild builtin_lifecycle False ?row (os_stores rebuild_demo 7) =
      Inr (demo_store\<lparr>ts_entries := [demo_entry 1 I_INBOUND 10], ts_live := live\<rparr>)"
    using full by (simp add: run_rebuild_def rebuild_demo_def demo_store_def full_row)
  have sel: "select_requirement_id default_settings 5 [full_row] = Some 1"
    by (simp add: select_requirement_id_def dispatch_candidates_def default_settings_def full_row adjust_def select_fair_batch_def dict_get_def)
  have guard: "tg_allowed (guard_check 5 7 [])" by (simp add: guard_check_def containment_row_def result_from_row_def)
  have allow: "circuit_allow default_settings 5 rebuild_circuit [] = (True, [(rebuild_circuit, fresh_breaker default_settings)])"
    by (simp add: circuit_allow_def get_breaker_def dict_get_def allow_request_def fresh_breaker_def)
  have switch: "ks_allowed (kill_switch_check default_settings REBUILD_DISPATCH)"
    by (simp add: kill_switch_rebuild_dispatch default_settings_def)
  obtain res s' where d: "dispatch_once default_settings builtin_lifecycle False (\<lambda>_. []) 5 6 [] rebuild_demo = (res, s')" by (metis surj_pair)
  have "res = run_result ?row D_succeeded (asc ''rebuild completed'')"
    using d switch allow sel guard run
    by (simp add: dispatch_once_def rebuild_demo_def demo_orch_def execute_requirement_def peek_requirement_def get_requirement_def
        start_requirement_def full_row finish_requirement_def Let_def)
  then have res: "dr_outcome res = D_succeeded" "dr_user_id res = Some 7" by (simp_all add: run_result_def full_row)
  have store: "ts_entries (os_stores rebuild_demo 7) = [demo_entry 1 I_INBOUND 10]" "ts_live (os_stores rebuild_demo 7) = []"
    by (simp_all add: rebuild_demo_def demo_store_def)
  have "entries_ok [demo_entry 1 I_INBOUND 10]" by (simp add: entries_ok_def demo_entry_def demo_row_def)
  with dispatch_rebuilds_snapshots [OF d res _ _ builtin_rebuild] d store show ?thesis by simp
qed

section \<open>Enterprise operations\<close>

text \<open>
  The remediation of an overloaded queue is unreachable: when more jobs are pending than the overload
  threshold, the advice to throttle counts as a maintenance blackout, the only decision is to do nothing, and
  the cycle changes no row. (\<open>HEAL_QUEUE\<close> and \<open>DEFER_REBUILD\<close> are decided under the same condition.)
\<close>

lemma overloaded_queue_never_healed:
  assumes "runtime_queue_overload_threshold st < qm_pending (queue_metrics_of now (rt_jobs s))"
  shows "snd (enterprise_cycle st level blackout locked now dry_run s) = s
    \<and> od_kind ` set (oc_decisions (fst (enterprise_cycle st level blackout locked now dry_run s))) \<subseteq> {NO_ACTION}
    \<and> rr_executed (oc_remediation (fst (enterprise_cycle st level blackout locked now dry_run s))) = 0"
  using assms by (simp add: enterprise_cycle_def advise_def should_throttle_dispatch_def decide_def decision_def build_plan_def
      execute_plan_def py_prefix_def Let_def)

definition pending_job :: etl_job where
  "pending_job = \<lparr>j_id = 1, j_user_id = 7, j_report_id = 3, j_job_type = [], j_status = PENDING, j_attempt_count = 0, j_max_attempts = 3,
     j_visibility_timeout_seconds = 1800, j_claimed_at = None, j_processing_started_at = None, j_last_heartbeat_at = None,
     j_completed_at = None, j_idempotency_key = [], j_last_error = None, j_file_path = None, j_marketplace = [], j_report_type = [],
     j_original_filename = [], j_report_created_at = 1, j_file_size_bytes = None, j_created_at = 1\<rparr>"

lemma pending_job_counted: "qm_pending (queue_metrics_of 5 [pending_job]) = 1"
  by (simp add: queue_metrics_of_def pending_job_def Let_def)

lemma overloaded_queue_never_healed_witness:
  "snd (enterprise_cycle (default_settings\<lparr>runtime_queue_overload_threshold := 0\<rparr>) LEVEL_STANDARD None (\<lambda>_. False) 5 False
     \<lparr>rt_orch = demo_orch [spent_row], rt_jobs = [pending_job]\<rparr>) = \<lparr>rt_orch = demo_orch [spent_row], rt_jobs = [pending_job]\<rparr>"
  using overloaded_queue_never_healed [of "default_settings\<lparr>runtime_queue_overload_threshold := 0\<rparr>" 5
      "\<lparr>rt_orch = demo_orch [spent_row], rt_jobs = [pending_job]\<rparr>" LEVEL_STANDARD None "\<lambda>_. False" False]
  using pending_job_counted by simp

text \<open>
  The intervals of the schedules have no effect: a turn of the orchestrator that holds the lease runs a fresh
  registry, in which everything is due, so that a turn of the control plane runs each schedule.
\<close>

lemma every_schedule_in_every_turn:
  assumes "orchestrator_turn st env holder now later lease s = (lease', Inr (Some result, s'))"
  shows "cy_ran result = [SK_ORCHESTRATION_MAINTENANCE, SK_AUTONOMY_HEALING, SK_HEALTH_EVALUATION, SK_QUEUE_VISIBILITY,
    SK_ENTERPRISE_OPERATIONS, SK_OPERATIONAL_FORECAST]"
proof -
  let ?reg = "default_registry st now"
  have reg: "fst ` set ?reg = set (due_kinds now ?reg)" by (simp add: default_registry_due) (simp add: default_registry_def Let_def)
  obtain ticks s1 where due: "run_due st env now (due_kinds now ?reg) (?reg, [], s) =
      Inr (ticks, filter (\<lambda>k. k \<noteq> SK_REBUILD_DISPATCH) (due_kinds now ?reg), s1)"
    using run_due_runs [of "due_kinds now ?reg" ?reg st env now "[]" s] reg by auto
  have "cy_ran result = filter (\<lambda>k. k \<noteq> SK_REBUILD_DISPATCH) (due_kinds now ?reg)"
    using assms due by (auto simp: orchestrator_turn_def run_control_cycle_def split_def Let_def sbind_Inr_iff split: if_splits)
  then show ?thesis by (simp add: default_registry_due)
qed

definition idle_env :: runtime_env where
  "idle_env = \<lparr>re_safety_level = LEVEL_STANDARD, re_blackout = None, re_locked = (\<lambda>_. False), re_containment = [],
     re_semantics = builtin_lifecycle, re_lock_busy = False, re_describe = (\<lambda>_. [])\<rparr>"

lemma every_schedule_in_every_turn_witness:
  "\<exists>lease' result s'. orchestrator_turn default_settings idle_env 1 5 6 None \<lparr>rt_orch = demo_orch [], rt_jobs = []\<rparr> =
       (lease', Inr (Some result, s')) \<and> length (cy_ran result) = 6"
proof -
  let ?reg = "default_registry default_settings 5" and ?s = "\<lparr>rt_orch = demo_orch [], rt_jobs = []\<rparr>"
  have reg: "fst ` set ?reg = set (due_kinds 5 ?reg)" by (simp add: default_registry_due) (simp add: default_registry_def Let_def)
  obtain ticks hist s1 where due: "run_due default_settings idle_env 5 (due_kinds 5 ?reg) (?reg, [], ?s) = Inr (ticks, hist, s1)"
    using run_due_runs [of "due_kinds 5 ?reg" ?reg default_settings idle_env 5 "[]" ?s] reg by auto
  have lease: "fst (fst (try_acquire default_settings 5 1 None))" by (simp add: try_acquire_def Let_def)
  have "\<exists>lease' result s'. orchestrator_turn default_settings idle_env 1 5 6 None ?s = (lease', Inr (Some result, s'))"
    using lease due by (auto simp: orchestrator_turn_def run_control_cycle_def split_def Let_def)
  then show ?thesis using every_schedule_in_every_turn [of default_settings idle_env 1 5 6 None ?s] by fastforce
qed

end
