(* ===== verification/Sql_Queries.thy ===== *)
theory Sql_Queries
  imports Table_Ops Py_Decimal
begin

text \<open>
  What the read services take from the database: \<open>NUMERIC\<close> columns, aggregates and the order of results.
  \<open>SUM\<close> of a numeric column is exact. The scale of \<open>AVG\<close> and of numeric division, the collation of
  text columns and \<open>ILIKE\<close> are the engine's: they are the fields of the parameter \<open>db_engine\<close>. Rows that a query leaves
  unordered, or that tie in its \<open>ORDER BY\<close>, come in table order. A list of groups is in the order of first rows.
\<close>

section \<open>The engine\<close>

record db_engine =
  de_avg :: "rat list \<Rightarrow> rat"
  de_div :: "rat \<Rightarrow> rat \<Rightarrow> rat"
  de_collate :: "pystr \<Rightarrow> pystr"
  de_ilike :: "pystr \<Rightarrow> pystr \<Rightarrow> bool"

section \<open>Columns\<close>

text \<open>
  A value stored in a column \<open>NUMERIC(p, s)\<close> is rounded to \<open>s\<close> places, halves away from zero, and refused
  when it needs more than \<open>p\<close> digits.
\<close>

definition round_half_up :: "rat \<Rightarrow> int" where
  "round_half_up x = (if 0 \<le> x then \<lfloor>x + 1 / 2\<rfloor> else - \<lfloor>1 / 2 - x\<rfloor>)"

definition data_error :: py_error where
  "data_error = OtherException (asc ''DataError'')"

definition db_numeric :: "nat \<Rightarrow> nat \<Rightarrow> rat \<Rightarrow> py_error + rat" where
  "db_numeric p s x = (let n = round_half_up (x * 10 ^ s) in
     if 10 ^ p \<le> \<bar>n\<bar> then Inl data_error else Inr (of_int n / 10 ^ s))"

definition db_text :: "nat \<Rightarrow> pystr \<Rightarrow> py_error + pystr" where
  "db_text n s = (if n < length s then Inl data_error else Inr s)"

section \<open>Aggregates\<close>

definition sql_sum :: "('a \<Rightarrow> 'b::comm_monoid_add) \<Rightarrow> 'a list \<Rightarrow> 'b" where
  "sql_sum f rows = (\<Sum>r\<leftarrow>rows. f r)"

definition sql_max :: "('a \<Rightarrow> 'b::linorder) \<Rightarrow> 'a list \<Rightarrow> 'b option" where
  "sql_max f rows = (if rows = [] then None else Some (Max (f ` set rows)))"

definition sql_min :: "('a \<Rightarrow> 'b::linorder) \<Rightarrow> 'a list \<Rightarrow> 'b option" where
  "sql_min f rows = (if rows = [] then None else Some (Min (f ` set rows)))"

text \<open>\<open>AVG\<close> of a nullable column: the rows with a value, \<open>NULL\<close> when there is none.\<close>

definition sql_avg :: "db_engine \<Rightarrow> ('a \<Rightarrow> rat option) \<Rightarrow> 'a list \<Rightarrow> rat option" where
  "sql_avg e f rows = (let xs = List.map_filter f rows in if xs = [] then None else Some (de_avg e xs))"

text \<open>\<open>ORDER BY key DESC\<close> of a nullable key: \<open>NULL\<close> comes first; \<open>ASC\<close>: last.\<close>

definition null_high :: "rat option \<Rightarrow> nat \<times> rat" where
  "null_high x = (case x of None \<Rightarrow> (1, 0) | Some v \<Rightarrow> (0, v))"

definition order_by :: "bool \<Rightarrow> ('a \<Rightarrow> rat option) \<Rightarrow> 'a list \<Rightarrow> 'a list" where
  "order_by descending key rows =
     (if descending then sorted_desc (null_high \<circ> key) rows else sort_key (null_high \<circ> key) rows)"

section \<open>Laws\<close>

lemma round_half_up_of_int [simp]: "round_half_up (of_int n) = n"
proof (cases "0 \<le> n")
  case True
  have "\<lfloor>of_int n + 1 / 2 :: rat\<rfloor> = n" by (rule floor_unique) simp_all
  with True show ?thesis by (simp add: round_half_up_def)
next
  case False
  have "\<lfloor>1 / 2 - of_int n :: rat\<rfloor> = - n" by (rule floor_unique) simp_all
  with False show ?thesis by (simp add: round_half_up_def)
qed

text \<open>An amount with \<open>s\<close> places that fits is stored as it is.\<close>

lemma db_numeric_exact:
  assumes "on_grid s x" and "\<bar>x\<bar> * 10 ^ s < 10 ^ p"
  shows "db_numeric p s x = Inr x"
proof -
  obtain n where n: "x * 10 ^ s = of_int n" using assms(1) by (auto simp: on_grid_def elim: Ints_cases)
  have "\<bar>x\<bar> * 10 ^ s = of_int \<bar>n\<bar>" using n by (metis abs_mult abs_of_pos of_int_abs zero_less_numeral zero_less_power)
  then have "(of_int \<bar>n\<bar> :: rat) < of_int (10 ^ p)" using assms(2) by simp
  then have "\<bar>n\<bar> < 10 ^ p" by (simp only: of_int_less_iff)
  moreover have "of_int n / 10 ^ s = x" using n by (metis nonzero_mult_div_cancel_right power_not_zero zero_neq_numeral)
  ultimately show ?thesis by (simp add: db_numeric_def n)
qed

lemma db_numeric_grid: "db_numeric p s x = Inr y \<Longrightarrow> on_grid s y"
  by (auto simp: db_numeric_def on_grid_def Let_def split: if_splits)

text \<open>A value that is already stored is stored again unchanged.\<close>

lemma db_numeric_idem:
  assumes "db_numeric p s x = Inr y"
  shows "db_numeric p s y = Inr y"
proof -
  obtain n where n: "y = of_int n / 10 ^ s" "\<bar>n\<bar> < 10 ^ p"
    using assms by (auto simp: db_numeric_def Let_def split: if_splits)
  then have "y * 10 ^ s = of_int n" by simp
  with n show ?thesis by (simp add: db_numeric_def)
qed

lemma db_text_Inr [simp]: "db_text n s = Inr t \<longleftrightarrow> length s \<le> n \<and> t = s"
  by (auto simp: db_text_def)

lemma set_order_by [simp]: "set (order_by d key rows) = set rows"
  by (simp add: order_by_def)

lemma mset_order_by [simp]: "mset (order_by d key rows) = mset rows"
  by (simp add: order_by_def)

lemma length_order_by [simp]: "length (order_by d key rows) = length rows"
  by (simp add: order_by_def)

lemma order_by_sorted: "sorted_wrt (\<lambda>a b. null_high (key b) \<le> null_high (key a)) (order_by True key rows)"
  using sorted_desc_sorted [of "null_high \<circ> key" rows] by (simp add: order_by_def)

lemma sql_sum_append [simp]: "sql_sum f (xs @ ys) = sql_sum f xs + sql_sum f ys"
  by (simp add: sql_sum_def)

text \<open>The sums of the groups of a query add up to the sum of its rows.\<close>

lemma sql_sum_groups: "(\<Sum>(k, g)\<leftarrow>group_by key rows. sql_sum f g) = sql_sum f rows"
proof -
  have "map (\<lambda>(k, g). sql_sum f g) (group_by key rows) =
      map (\<lambda>k. sql_sum f (filter (\<lambda>x. key x = k) rows)) (map fst (group_by key rows))"
    by (auto simp: group_by_mem_iff)
  then have "(\<Sum>(k, g)\<leftarrow>group_by key rows. sql_sum f g) =
      (\<Sum>k\<leftarrow>map fst (group_by key rows). sql_sum f (filter (\<lambda>x. key x = k) rows))" by (simp only:)
  also have "\<dots> = sql_sum f rows" unfolding sql_sum_def
    by (rule sum_list_filter_partition) (auto simp: group_by_distinct group_by_keys)
  finally show ?thesis .
qed

end
