(* ===== verification/Cost_Service.thy ===== *)
theory Cost_Service
  imports Aggregate_Projections Wb_Streaming Sql_Queries
begin

text \<open>
  The unit costs that a seller enters: the table \<open>cost_history\<close> with its column widths, the operations of
  \<open>app/services/cost_service.py\<close>, the preview and the two imports of a cost file. Every change is committed first
  and then recomputes the projections of the ledger. A row added to the session is rounded to its column when it is
  read in a later request; sessions do not autoflush, so a query in an import does not see the rows added before it.
\<close>

section \<open>The table\<close>

record cost_row =
  cw_id :: uuid
  cw_internal_sku :: pystr
  cw_product_cost :: decimal
  cw_packaging_cost :: decimal
  cw_inbound_logistics_cost :: decimal
  cw_additional_cost :: decimal
  cw_cost :: decimal
  cw_currency :: pystr
  cw_effective_from :: date
  cw_effective_to :: "date option"
  cw_comment :: "pystr option"
  cw_created_at :: instant

record cost_db =
  cd_costs :: "cost_row list"
  cd_products :: "pystr option list"
  cd_mappings :: "(pystr \<times> pystr) list"
  cd_ledger :: "ledger_table_row list"
  cd_projections :: projections

definition snapshot_of_cost :: "cost_row \<Rightarrow> sku_cost" where
  "snapshot_of_cost r = \<lparr>sc_sku = cw_internal_sku r, sc_effective_from = cw_effective_from r,
     sc_product_cost = cw_product_cost r, sc_packaging_cost = cw_packaging_cost r,
     sc_inbound_logistics_cost = cw_inbound_logistics_cost r, sc_additional_cost = cw_additional_cost r,
     sc_currency = cw_currency r\<rparr>"

definition cost_table_of :: "'a cost_db_scheme \<Rightarrow> cost_table" where
  "cost_table_of db = load_cost_snapshots (map snapshot_of_cost (cd_costs db)) (cd_mappings db)"

text \<open>The columns of a row on its way into the table.\<close>

definition flush_cost_row :: "cost_row \<Rightarrow> py_error + cost_row" where
  "flush_cost_row r =
     sbind (db_text 128 (cw_internal_sku r)) (\<lambda>_. sbind (db_text 3 (cw_currency r)) (\<lambda>_.
     sbind (db_numeric 14 4 (cw_product_cost r)) (\<lambda>p. sbind (db_numeric 14 4 (cw_packaging_cost r)) (\<lambda>k.
     sbind (db_numeric 14 4 (cw_inbound_logistics_cost r)) (\<lambda>l. sbind (db_numeric 14 4 (cw_additional_cost r)) (\<lambda>a.
     sbind (db_numeric 14 2 (cw_cost r)) (\<lambda>c.
       Inr (r\<lparr>cw_product_cost := p, cw_packaging_cost := k, cw_inbound_logistics_cost := l,
         cw_additional_cost := a, cw_cost := c\<rparr>))))))))"

definition refresh_financial_projections :: "cost_db \<Rightarrow> cost_db" where
  "refresh_financial_projections db =
     db\<lparr>cd_projections := rebuild_all_financial_projections (cost_table_of db) (cd_ledger db) (cd_projections db)\<rparr>"

section \<open>Operations on one record\<close>

definition total_cost :: "decimal \<Rightarrow> decimal \<Rightarrow> decimal \<Rightarrow> decimal \<Rightarrow> decimal" where
  "total_cost product packaging inbound additional = dadd (dadd (dadd product packaging) inbound) additional"

definition new_cost_row :: "uuid \<Rightarrow> instant \<Rightarrow> pystr \<Rightarrow> date \<Rightarrow> decimal \<Rightarrow> decimal \<Rightarrow> decimal \<Rightarrow> decimal \<Rightarrow> pystr \<Rightarrow> pystr option \<Rightarrow> cost_row" where
  "new_cost_row rid now sku effective_from product packaging inbound additional currency comment =
     \<lparr>cw_id = rid, cw_internal_sku = sku, cw_product_cost = product, cw_packaging_cost = packaging,
      cw_inbound_logistics_cost = inbound, cw_additional_cost = additional,
      cw_cost = total_cost product packaging inbound additional, cw_currency = currency,
      cw_effective_from = effective_from, cw_effective_to = None, cw_comment = comment, cw_created_at = now\<rparr>"

definition create_cost :: "uuid \<Rightarrow> instant \<Rightarrow> pystr \<Rightarrow> date \<Rightarrow> decimal \<Rightarrow> decimal \<Rightarrow> decimal \<Rightarrow> decimal \<Rightarrow> pystr \<Rightarrow> pystr option \<Rightarrow>
    cost_db \<Rightarrow> py_error + cost_row \<times> cost_db" where
  "create_cost rid now sku effective_from product packaging inbound additional currency comment db =
     sbind (flush_cost_row (new_cost_row rid now sku effective_from product packaging inbound additional currency comment)) (\<lambda>r.
       Inr (r, refresh_financial_projections (db\<lparr>cd_costs := cd_costs db @ [r]\<rparr>)))"

definition get_cost :: "uuid \<Rightarrow> cost_db \<Rightarrow> py_error + cost_row" where
  "get_cost rid db = (case find (\<lambda>r. cw_id r = rid) (cd_costs db) of
      None \<Rightarrow> Inl (HTTPException 404 (asc ''Cost record not found'')) | Some r \<Rightarrow> Inr r)"

definition changed_cost :: "decimal option \<Rightarrow> decimal option \<Rightarrow> decimal option \<Rightarrow> decimal option \<Rightarrow> pystr option \<Rightarrow> pystr option \<Rightarrow>
    cost_row \<Rightarrow> cost_row" where
  "changed_cost product packaging inbound additional currency comment row =
     (let p = case_option (cw_product_cost row) (\<lambda>x. x) product;
          k = case_option (cw_packaging_cost row) (\<lambda>x. x) packaging;
          l = case_option (cw_inbound_logistics_cost row) (\<lambda>x. x) inbound;
          a = case_option (cw_additional_cost row) (\<lambda>x. x) additional
      in row\<lparr>cw_product_cost := p, cw_packaging_cost := k, cw_inbound_logistics_cost := l, cw_additional_cost := a,
           cw_currency := case_option (cw_currency row) (\<lambda>x. x) currency,
           cw_comment := (case comment of None \<Rightarrow> cw_comment row | Some c \<Rightarrow> Some c),
           cw_cost := total_cost p k l a\<rparr>)"

definition update_cost :: "uuid \<Rightarrow> decimal option \<Rightarrow> decimal option \<Rightarrow> decimal option \<Rightarrow> decimal option \<Rightarrow> pystr option \<Rightarrow> pystr option \<Rightarrow>
    cost_db \<Rightarrow> py_error + cost_row \<times> cost_db" where
  "update_cost rid product packaging inbound additional currency comment db =
     sbind (get_cost rid db) (\<lambda>row.
     sbind (flush_cost_row (changed_cost product packaging inbound additional currency comment row)) (\<lambda>r.
       Inr (r, refresh_financial_projections (db\<lparr>cd_costs := map (\<lambda>x. if cw_id x = rid then r else x) (cd_costs db)\<rparr>))))"

definition delete_cost :: "uuid \<Rightarrow> cost_db \<Rightarrow> py_error + cost_db" where
  "delete_cost rid db = sbind (get_cost rid db) (\<lambda>_.
     Inr (refresh_financial_projections (db\<lparr>cd_costs := filter (\<lambda>x. cw_id x \<noteq> rid) (cd_costs db)\<rparr>)))"

section \<open>Lists\<close>

definition cost_in_force :: "date \<Rightarrow> cost_row \<Rightarrow> bool" where
  "cost_in_force as_of r \<longleftrightarrow> cw_effective_from r \<le> as_of \<and> (case cw_effective_to r of None \<Rightarrow> True | Some e \<Rightarrow> as_of \<le> e)"

definition latest_step :: "date \<Rightarrow> (pystr \<times> cost_row) list \<Rightarrow> cost_row \<Rightarrow> (pystr \<times> cost_row) list" where
  "latest_step as_of latest row =
     (if \<not> cost_in_force as_of row then latest
      else case map_of latest (cw_internal_sku row) of
          None \<Rightarrow> AList.update (cw_internal_sku row) row latest
        | Some prev \<Rightarrow> if cw_effective_from prev < cw_effective_from row
            then AList.update (cw_internal_sku row) row latest else latest)"

definition filter_costs_as_of :: "cost_row list \<Rightarrow> date \<Rightarrow> cost_row list" where
  "filter_costs_as_of rows as_of =
     sorted_desc (\<lambda>r. (cw_internal_sku r, cw_effective_from r)) (map snd (foldl (latest_step as_of) [] rows))"

definition list_costs :: "db_engine \<Rightarrow> pystr option \<Rightarrow> date option \<Rightarrow> date option \<Rightarrow> date option \<Rightarrow> cost_db \<Rightarrow> cost_row list" where
  "list_costs e sku as_of effective_from effective_to db =
     (let rows = sort_key (\<lambda>r. (de_collate e (cw_internal_sku r), - cw_effective_from r))
            (filter (\<lambda>r. (nonempty sku = None \<or> Some (cw_internal_sku r) = sku)
               \<and> (case effective_from of None \<Rightarrow> True | Some d \<Rightarrow> d \<le> cw_effective_from r)
               \<and> (case effective_to of None \<Rightarrow> True | Some d \<Rightarrow> cw_effective_from r \<le> d)) (cd_costs db))
      in case as_of of None \<Rightarrow> rows | Some d \<Rightarrow> filter_costs_as_of rows d)"

section \<open>Cost files\<close>

text \<open>
  What pandas gives for a cell: a value, the missing float \<open>nan\<close>, or the missing date \<open>NaT\<close> of a date column.
  \<open>cf_rows\<close> are the rows of \<open>iterrows\<close>, \<open>cf_column_texts\<close> is \<open>df[column].fillna("").astype(str)\<close>. A cell of a
  column that is not in the file is \<open>None\<close>, as \<open>row.get\<close> gives.
\<close>

datatype cost_cell = Cell pyval | Cell_nan | Cell_nat

record cost_file =
  cf_columns :: "pystr list"
  cf_rows :: "(int \<times> (pystr \<Rightarrow> cost_cell)) list"
  cf_column_texts :: "pystr \<Rightarrow> pystr list"

definition cell_str :: "cell_reader \<Rightarrow> cost_cell \<Rightarrow> pystr" where
  "cell_str cr c = (case c of Cell v \<Rightarrow> py_str cr v | Cell_nan \<Rightarrow> asc ''nan'' | Cell_nat \<Rightarrow> asc ''NaT'')"

text \<open>\<open>isinstance(pd.NaT, datetime)\<close> holds, and \<open>NaT.date()\<close> raises.\<close>

definition parse_import_date :: "cell_reader \<Rightarrow> cost_cell \<Rightarrow> py_error + date option" where
  "parse_import_date cr c = (case c of
      Cell VNone \<Rightarrow> Inr None
    | Cell_nan \<Rightarrow> Inr None
    | Cell_nat \<Rightarrow> Inl (ValueError (asc ''NaTType does not support date''))
    | Cell (VDate d) \<Rightarrow> Inr (Some d)
    | Cell v \<Rightarrow> Inr (cr_pandas_date cr v))"

definition import_decimal :: "cell_reader \<Rightarrow> cost_cell \<Rightarrow> decimal option" where
  "import_decimal cr c = (case c of Cell v \<Rightarrow> cell_decimal cr v | Cell_nan \<Rightarrow> None | Cell_nat \<Rightarrow> parse_decimal (cell_str cr c))"

definition import_cell_text :: "cell_reader \<Rightarrow> cost_cell \<Rightarrow> pystr option" where
  "import_cell_text cr c = (case c of Cell VNone \<Rightarrow> None | Cell_nan \<Rightarrow> None
     | _ \<Rightarrow> (let text = strip (cell_str cr c) in if text = [] then None else Some text))"

section \<open>Columns\<close>

datatype cost_field = CF_internal_sku | CF_effective_from | CF_product_cost | CF_packaging_cost
  | CF_inbound_logistics_cost | CF_additional_cost | CF_currency | CF_comment

definition cost_aliases :: "cost_field \<Rightarrow> pystr list" where
  "cost_aliases f = (case f of
      CF_internal_sku \<Rightarrow> [asc ''internal_sku'', asc ''sku'', ru ''artikul'', ru ''artikul postavxika'']
    | CF_effective_from \<Rightarrow> [asc ''effective_from'', asc ''date'', ru ''data'', ru ''data naqala'']
    | CF_product_cost \<Rightarrow> [asc ''product_cost'', asc ''cost'', ru ''sebestoimost~'', asc ''product cost'']
    | CF_packaging_cost \<Rightarrow> [asc ''packaging_cost'', ru ''upakovka'', asc ''packaging'']
    | CF_inbound_logistics_cost \<Rightarrow> [asc ''inbound_logistics_cost'', asc ''logistics'', ru ''logistika'', asc ''inbound logistics'']
    | CF_additional_cost \<Rightarrow> [asc ''additional_cost'', ru ''dop'', asc ''additional'']
    | CF_currency \<Rightarrow> [asc ''currency'', ru ''valUta'']
    | CF_comment \<Rightarrow> [asc ''comment'', ru ''kommentariy''])"

type_synonym cost_columns = "cost_field \<Rightarrow> pystr option"

definition alias_column :: "(pystr \<times> pystr) list \<Rightarrow> pystr \<Rightarrow> pystr option" where
  "alias_column normalized alias =
     (case find (\<lambda>(header_norm, original). contains (normalize_header alias) header_norm) normalized of
        None \<Rightarrow> None | Some (_, original) \<Rightarrow> nonempty (Some original))"

fun first_alias_column :: "(pystr \<times> pystr) list \<Rightarrow> pystr list \<Rightarrow> pystr option" where
  "first_alias_column normalized [] = None"
| "first_alias_column normalized (alias # as) =
     (case alias_column normalized alias of Some c \<Rightarrow> Some c | None \<Rightarrow> first_alias_column normalized as)"

definition resolve_cost_columns :: "pystr list \<Rightarrow> cost_columns" where
  "resolve_cost_columns columns =
     (let normalized = fold (\<lambda>c. AList.update (normalize_header c) c) columns []
      in (\<lambda>f. first_alias_column normalized (cost_aliases f)))"

text \<open>\<open>row.get(column)\<close>, with \<open>None\<close> for no column.\<close>

definition field_cell :: "cost_columns \<Rightarrow> (pystr \<Rightarrow> cost_cell) \<Rightarrow> cost_field \<Rightarrow> cost_cell" where
  "field_cell cols row f = (case cols f of None \<Rightarrow> Cell VNone | Some c \<Rightarrow> row c)"

section \<open>Preview\<close>

datatype issue_severity = ISSUE_error | ISSUE_warning

datatype cost_issue_code = Missing_required_columns | Missing_product_cost | Empty_sku | Bad_date | Bad_cost | Unknown_sku | Duplicate_cost

record cost_issue =
  ci_severity :: issue_severity
  ci_code :: cost_issue_code
  ci_row_index :: "int option"

record cost_preview_row =
  cp_row_index :: int
  cp_internal_sku :: "pystr option"
  cp_effective_from :: "date option"
  cp_product_cost :: "decimal option"
  cp_packaging_cost :: "decimal option"
  cp_inbound_logistics_cost :: "decimal option"
  cp_additional_cost :: "decimal option"
  cp_currency :: "pystr option"
  cp_comment :: "pystr option"
  cp_total_cost :: "decimal option"

definition or_zero :: "decimal option \<Rightarrow> decimal" where
  "or_zero d = (case d of None \<Rightarrow> 0 | Some x \<Rightarrow> x)"

definition preview_row :: "cell_reader \<Rightarrow> cost_columns \<Rightarrow> int \<times> (pystr \<Rightarrow> cost_cell) \<Rightarrow> py_error + cost_preview_row" where
  "preview_row cr cols = (\<lambda>(index, row).
     (let cell = field_cell cols row;
          product = import_decimal cr (cell CF_product_cost);
          packaging = import_decimal cr (cell CF_packaging_cost);
          inbound = import_decimal cr (cell CF_inbound_logistics_cost);
          additional = import_decimal cr (cell CF_additional_cost)
      in sbind (parse_import_date cr (cell CF_effective_from)) (\<lambda>eff.
           Inr \<lparr>cp_row_index = index, cp_internal_sku = import_cell_text cr (cell CF_internal_sku), cp_effective_from = eff,
             cp_product_cost = product, cp_packaging_cost = packaging, cp_inbound_logistics_cost = inbound,
             cp_additional_cost = additional,
             cp_currency = nonempty (map_option (take 3) (import_cell_text cr (cell CF_currency))),
             cp_comment = import_cell_text cr (cell CF_comment),
             cp_total_cost = map_option (\<lambda>p. total_cost p (or_zero packaging) (or_zero inbound) (or_zero additional)) product\<rparr>)))"

record cost_preview =
  ip_detected_columns :: cost_columns
  ip_total_rows :: nat
  ip_preview_rows :: "cost_preview_row list"
  ip_issues :: "cost_issue list"

definition missing_key_columns :: "cost_columns \<Rightarrow> bool" where
  "missing_key_columns cols \<longleftrightarrow> cols CF_internal_sku = None \<or> cols CF_effective_from = None"

definition column_issues :: "cost_columns \<Rightarrow> cost_issue list" where
  "column_issues cols =
     (if missing_key_columns cols then [\<lparr>ci_severity = ISSUE_error, ci_code = Missing_required_columns, ci_row_index = None\<rparr>] else [])
     @ (if cols CF_product_cost = None then [\<lparr>ci_severity = ISSUE_error, ci_code = Missing_product_cost, ci_row_index = None\<rparr>] else [])"

definition preview_import :: "cell_reader \<Rightarrow> cost_file \<Rightarrow> py_error + cost_preview" where
  "preview_import cr file =
     (let cols = resolve_cost_columns (cf_columns file)
      in sbind (smap (preview_row cr cols) (take 20 (cf_rows file))) (\<lambda>rows.
           Inr \<lparr>ip_detected_columns = cols, ip_total_rows = length (cf_rows file), ip_preview_rows = rows,
             ip_issues = column_issues cols\<rparr>))"

section \<open>Import\<close>

text \<open>The costs and the texts of a row that is imported.\<close>

definition import_currency :: "cell_reader \<Rightarrow> cost_cell \<Rightarrow> pystr" where
  "import_currency cr c = (if c = Cell VNone then asc ''RUB''
     else (let t = take 3 (strip (cell_str cr c)) in if t = [] then asc ''RUB'' else t))"

definition import_comment :: "cell_reader \<Rightarrow> cost_cell \<Rightarrow> pystr option" where
  "import_comment cr c = (if c = Cell VNone then None else nonempty (Some (strip (cell_str cr c))))"

definition imported_row :: "cell_reader \<Rightarrow> cost_columns \<Rightarrow> uuid \<Rightarrow> instant \<Rightarrow> pystr \<Rightarrow> date \<Rightarrow> decimal \<Rightarrow> (pystr \<Rightarrow> cost_cell) \<Rightarrow> cost_row" where
  "imported_row cr cols rid now sku effective_from product row =
     (let cell = field_cell cols row
      in new_cost_row rid now sku effective_from product (or_zero (import_decimal cr (cell CF_packaging_cost)))
           (or_zero (import_decimal cr (cell CF_inbound_logistics_cost))) (or_zero (import_decimal cr (cell CF_additional_cost)))
           (import_currency cr (cell CF_currency)) (import_comment cr (cell CF_comment)))"

text \<open>The guards that both imports share, in their order: the row, or the reason why it is passed over.\<close>

definition accept_price :: "cell_reader \<Rightarrow> cost_columns \<Rightarrow> uuid \<Rightarrow> instant \<Rightarrow> pystr \<Rightarrow> date \<Rightarrow> (pystr \<Rightarrow> cost_cell) \<Rightarrow> cost_issue_code + cost_row" where
  "accept_price cr cols rid now sku d row =
     (case import_decimal cr (field_cell cols row CF_product_cost) of
        None \<Rightarrow> Inl Bad_cost
      | Some product \<Rightarrow> if product \<le> 0 then Inl Bad_cost else Inr (imported_row cr cols rid now sku d product row))"

definition accept_row :: "cell_reader \<Rightarrow> cost_columns \<Rightarrow> uuid \<Rightarrow> instant \<Rightarrow> (pystr \<Rightarrow> cost_cell) \<Rightarrow> py_error + (cost_issue_code + cost_row)" where
  "accept_row cr cols rid now row =
     (let cell = field_cell cols row; sku = strip (cell_str cr (cell CF_internal_sku))
      in if sku = [] then Inr (Inl Empty_sku)
         else sbind (parse_import_date cr (cell CF_effective_from)) (\<lambda>eff. case eff of
             None \<Rightarrow> Inr (Inl Bad_date) | Some d \<Rightarrow> Inr (accept_price cr cols rid now sku d row)))"

text \<open>The row that the duplicate check compares with: the latest of the same SKU and day in the table.\<close>

definition last_cost :: "cost_row list \<Rightarrow> pystr \<Rightarrow> date \<Rightarrow> cost_row option" where
  "last_cost table sku d =
     (case sorted_desc cw_created_at (filter (\<lambda>r. cw_internal_sku r = sku \<and> cw_effective_from r = d) table) of
        [] \<Rightarrow> None | r # _ \<Rightarrow> Some r)"

definition is_duplicate :: "cost_row list \<Rightarrow> cost_row \<Rightarrow> bool" where
  "is_duplicate table r = (case last_cost table (cw_internal_sku r) (cw_effective_from r) of
      None \<Rightarrow> False | Some l \<Rightarrow> cw_cost l = cw_cost r \<and> cw_currency l = cw_currency r)"

record import_state =
  is_issues :: "cost_issue list"
  is_skipped :: nat
  is_invalid_skus :: nat
  is_created :: "cost_row list"

definition warn :: "cost_issue_code \<Rightarrow> int \<Rightarrow> import_state \<Rightarrow> import_state" where
  "warn code index s = s\<lparr>is_issues := is_issues s @ [\<lparr>ci_severity = ISSUE_warning, ci_code = code, ci_row_index = Some index\<rparr>]\<rparr>"

definition skip_row :: "cost_issue_code \<Rightarrow> int \<Rightarrow> import_state \<Rightarrow> import_state" where
  "skip_row code index s = (warn code index s)\<lparr>is_skipped := is_skipped s + 1\<rparr>"

definition check_known :: "pystr set \<Rightarrow> int \<Rightarrow> cost_row \<Rightarrow> import_state \<Rightarrow> import_state" where
  "check_known known index r s =
     (if known \<noteq> {} \<and> cw_internal_sku r \<notin> known then (warn Unknown_sku index s)\<lparr>is_invalid_skus := is_invalid_skus s + 1\<rparr> else s)"

definition import_row :: "cell_reader \<Rightarrow> cost_columns \<Rightarrow> (nat \<Rightarrow> uuid) \<Rightarrow> instant \<Rightarrow> pystr set \<Rightarrow> cost_row list \<Rightarrow>
    int \<times> (pystr \<Rightarrow> cost_cell) \<Rightarrow> import_state \<Rightarrow> py_error + import_state" where
  "import_row cr cols ids now known table = (\<lambda>(index, row) s.
     sbind (accept_row cr cols (ids (length (is_created s))) now row) (\<lambda>a. case a of
         Inl code \<Rightarrow> Inr (skip_row code index s)
       | Inr r \<Rightarrow> (let s' = check_known known index r s in
           if is_duplicate table r then Inr (skip_row Duplicate_cost index s')
           else Inr (s'\<lparr>is_created := is_created s' @ [r]\<rparr>))))"

fun import_rows :: "cell_reader \<Rightarrow> cost_columns \<Rightarrow> (nat \<Rightarrow> uuid) \<Rightarrow> instant \<Rightarrow> pystr set \<Rightarrow> cost_row list \<Rightarrow>
    (int \<times> (pystr \<Rightarrow> cost_cell)) list \<Rightarrow> import_state \<Rightarrow> py_error + import_state" where
  "import_rows cr cols ids now known table [] s = Inr s"
| "import_rows cr cols ids now known table (row # rows) s =
     sbind (import_row cr cols ids now known table row s) (import_rows cr cols ids now known table rows)"

record cost_import_result =
  ir_detected_columns :: cost_columns
  ir_total_rows :: nat
  ir_imported_rows :: nat
  ir_skipped_rows :: nat
  ir_imported_distinct_skus :: nat
  ir_invalid_sku_count :: nat
  ir_issues :: "cost_issue list"

definition column_error :: "cost_columns \<Rightarrow> py_error option" where
  "column_error cols =
     (if missing_key_columns cols then Some (HTTPException 400 (asc ''SKU, effective_from''))
      else if cols CF_product_cost = None then Some (HTTPException 400 (asc ''product_cost'')) else None)"

definition known_skus :: "pystr list \<Rightarrow> pystr option list \<Rightarrow> pystr set" where
  "known_skus texts products =
     (let candidates = set (filter (\<lambda>t. t \<noteq> []) (map strip texts))
      in set (filter (\<lambda>s. s \<noteq> [] \<and> s \<in> candidates) (List.map_filter (\<lambda>x. x) products)))"

definition add_costs :: "cost_row list \<Rightarrow> cost_db \<Rightarrow> py_error + cost_db" where
  "add_costs created db = sbind (smap flush_cost_row created) (\<lambda>stored.
     Inr (refresh_financial_projections (db\<lparr>cd_costs := cd_costs db @ stored\<rparr>)))"

definition bulk_import_v2 :: "cell_reader \<Rightarrow> (nat \<Rightarrow> uuid) \<Rightarrow> instant \<Rightarrow> cost_file \<Rightarrow> cost_db \<Rightarrow> py_error + cost_import_result \<times> cost_db" where
  "bulk_import_v2 cr ids now file db =
     (let cols = resolve_cost_columns (cf_columns file)
      in case column_error cols of Some e \<Rightarrow> Inl e | None \<Rightarrow>
        (let texts = cf_column_texts file (the (cols CF_internal_sku)); known = known_skus texts (cd_products db)
         in sbind (import_rows cr cols ids now known (cd_costs db) (cf_rows file)
              \<lparr>is_issues = [], is_skipped = 0, is_invalid_skus = 0, is_created = []\<rparr>) (\<lambda>s.
            sbind (add_costs (is_created s) db) (\<lambda>db'.
              Inr (\<lparr>ir_detected_columns = cols, ir_total_rows = length (cf_rows file), ir_imported_rows = length (is_created s),
                 ir_skipped_rows = is_skipped s, ir_imported_distinct_skus = card (cw_internal_sku ` set (is_created s)),
                 ir_invalid_sku_count = is_invalid_skus s, ir_issues = take 200 (is_issues s)\<rparr>, db')))))"

text \<open>The first import, without reports and without the duplicate check.\<close>

fun accepted_rows :: "cell_reader \<Rightarrow> cost_columns \<Rightarrow> (nat \<Rightarrow> uuid) \<Rightarrow> instant \<Rightarrow> (int \<times> (pystr \<Rightarrow> cost_cell)) list \<Rightarrow> cost_row list \<Rightarrow>
    py_error + cost_row list" where
  "accepted_rows cr cols ids now [] created = Inr created"
| "accepted_rows cr cols ids now ((index, row) # rows) created =
     sbind (accept_row cr cols (ids (length created)) now row) (\<lambda>a.
       accepted_rows cr cols ids now rows (case a of Inl _ \<Rightarrow> created | Inr r \<Rightarrow> created @ [r]))"

definition bulk_import :: "cell_reader \<Rightarrow> (nat \<Rightarrow> uuid) \<Rightarrow> instant \<Rightarrow> cost_file \<Rightarrow> cost_db \<Rightarrow> py_error + cost_row list \<times> cost_db" where
  "bulk_import cr ids now file db =
     (let cols = resolve_cost_columns (cf_columns file)
      in case column_error cols of Some e \<Rightarrow> Inl e | None \<Rightarrow>
        sbind (accepted_rows cr cols ids now (cf_rows file) []) (\<lambda>created.
        sbind (smap flush_cost_row created) (\<lambda>stored.
        sbind (add_costs created db) (\<lambda>db'. Inr (stored, db')))))"

section \<open>Laws of the import\<close>

definition stamp :: "uuid \<Rightarrow> instant \<Rightarrow> cost_row \<Rightarrow> cost_row" where
  "stamp rid now r = r\<lparr>cw_id := rid, cw_created_at := now\<rparr>"

lemma stamp_simps [simp]:
  "cw_internal_sku (stamp rid now r) = cw_internal_sku r" "cw_effective_from (stamp rid now r) = cw_effective_from r"
  "cw_cost (stamp rid now r) = cw_cost r" "cw_currency (stamp rid now r) = cw_currency r"
  "cw_created_at (stamp rid now r) = now" "stamp i n (stamp rid now r) = stamp i n r"
  by (simp_all add: stamp_def)

lemma imported_row_stamp: "imported_row cr cols rid now sku d p row = stamp rid now (imported_row cr cols 0 0 sku d p row)"
  by (simp add: imported_row_def new_cost_row_def stamp_def Let_def)

text \<open>What a row of the file offers does not depend on the identifier and the instant it gets.\<close>

lemma accept_price_stamp:
  "accept_price cr cols rid now sku d row = map_sum id (stamp rid now) (accept_price cr cols 0 0 sku d row)"
  by (simp add: accept_price_def imported_row_stamp [of cr cols rid now] split: option.split)

lemma accept_row_stamp:
  "accept_row cr cols rid now row = map_sum id (map_sum id (stamp rid now)) (accept_row cr cols 0 0 row)"
proof (cases "parse_import_date cr (field_cell cols row CF_effective_from)")
  case (Inr eff)
  then show ?thesis by (cases eff) (simp_all add: accept_row_def Let_def accept_price_stamp [of cr cols rid now])
qed (simp add: accept_row_def Let_def)

definition offer :: "cell_reader \<Rightarrow> cost_columns \<Rightarrow> (pystr \<Rightarrow> cost_cell) \<Rightarrow> cost_row option" where
  "offer cr cols row = (case accept_row cr cols 0 0 row of Inr (Inr r) \<Rightarrow> Some r | _ \<Rightarrow> None)"

lemma accept_cases:
  assumes "accept_row cr cols rid now row = Inr a"
  obtains (skip) code where "a = Inl code" "offer cr cols row = None"
    | (take) r where "a = Inr (stamp rid now r)" "offer cr cols row = Some r"
proof (cases "accept_row cr cols 0 0 row")
  case (Inl e)
  with assms show ?thesis by (simp add: accept_row_stamp [of cr cols rid now])
next
  case (Inr b)
  have a: "a = map_sum id (stamp rid now) b" using assms Inr by (simp add: accept_row_stamp [of cr cols rid now])
  show ?thesis
    by (cases b) (use a Inr in \<open>auto simp: offer_def intro: that\<close>)
qed

lemma is_duplicate_stamp [simp]: "is_duplicate table (stamp rid now r) = is_duplicate table r"
  by (simp add: is_duplicate_def split: option.split)

lemma skip_row_simps [simp]:
  "is_created (skip_row c i s) = is_created s" "is_skipped (skip_row c i s) = is_skipped s + 1"
  by (simp_all add: skip_row_def warn_def)

lemma check_known_simps [simp]:
  "is_created (check_known k i r s) = is_created s" "is_skipped (check_known k i r s) = is_skipped s"
  by (simp_all add: check_known_def warn_def)

text \<open>The rows that one import creates: the offers that are not duplicates of the table it found.\<close>

definition fresh_offers :: "cell_reader \<Rightarrow> cost_columns \<Rightarrow> cost_row list \<Rightarrow> (int \<times> (pystr \<Rightarrow> cost_cell)) list \<Rightarrow> cost_row list" where
  "fresh_offers cr cols table rows = filter (\<lambda>r. \<not> is_duplicate table r) (List.map_filter (\<lambda>(i, row). offer cr cols row) rows)"

lemma fresh_offers_Cons:
  "fresh_offers cr cols table ((i, row) # rows) = (case offer cr cols row of None \<Rightarrow> fresh_offers cr cols table rows
     | Some r \<Rightarrow> if is_duplicate table r then fresh_offers cr cols table rows else r # fresh_offers cr cols table rows)"
  by (simp add: fresh_offers_def map_filter_simps split: option.split)

lemma import_row_cases:
  assumes "import_row cr cols ids now known table (i, row) s = Inr s'"
  shows "is_created s' = is_created s @ (case offer cr cols row of None \<Rightarrow> []
       | Some r \<Rightarrow> if is_duplicate table r then [] else [stamp (ids (length (is_created s))) now r])"
    and "is_skipped s' + length (is_created s') = Suc (is_skipped s + length (is_created s))"
proof -
  obtain a where a: "accept_row cr cols (ids (length (is_created s))) now row = Inr a"
    using assms by (auto simp: import_row_def sbind_Inr_iff)
  have s': "import_row cr cols ids now known table (i, row) s = (case a of Inl code \<Rightarrow> Inr (skip_row code i s)
       | Inr r \<Rightarrow> (let s' = check_known known i r s in
           if is_duplicate table r then Inr (skip_row Duplicate_cost i s') else Inr (s'\<lparr>is_created := is_created s' @ [r]\<rparr>)))"
    by (simp add: import_row_def a)
  from a show "is_created s' = is_created s @ (case offer cr cols row of None \<Rightarrow> []
       | Some r \<Rightarrow> if is_duplicate table r then [] else [stamp (ids (length (is_created s))) now r])"
    by (cases rule: accept_cases) (use assms s' in \<open>auto simp: Let_def split: if_splits\<close>)
  from a show "is_skipped s' + length (is_created s') = Suc (is_skipped s + length (is_created s))"
    by (cases rule: accept_cases) (use assms s' in \<open>auto simp: Let_def split: if_splits\<close>)
qed

lemma import_rows_spec:
  assumes "import_rows cr cols ids now known table rows s = Inr s'"
  shows "\<exists>js. is_created s' = is_created s @ map2 (\<lambda>j r. stamp (ids j) now r) js (fresh_offers cr cols table rows)
      \<and> length js = length (fresh_offers cr cols table rows)"
    and "is_skipped s' + length (is_created s') = length rows + is_skipped s + length (is_created s)"
proof -
  show "\<exists>js. is_created s' = is_created s @ map2 (\<lambda>j r. stamp (ids j) now r) js (fresh_offers cr cols table rows)
      \<and> length js = length (fresh_offers cr cols table rows)"
    using assms
  proof (induction rows arbitrary: s)
    case Nil
    then show ?case by (simp add: fresh_offers_def map_filter_simps)
  next
    case (Cons p rows)
    obtain i row where p: "p = (i, row)" by (cases p)
    obtain t where t: "import_row cr cols ids now known table (i, row) s = Inr t"
      and rest: "import_rows cr cols ids now known table rows t = Inr s'"
      using Cons.prems by (auto simp: p sbind_Inr_iff)
    obtain js where js: "is_created s' = is_created t @ map2 (\<lambda>j r. stamp (ids j) now r) js (fresh_offers cr cols table rows)"
      "length js = length (fresh_offers cr cols table rows)" using Cons.IH [OF rest] by blast
    note created = import_row_cases(1) [OF t]
    show ?case
    proof (cases "\<exists>r. offer cr cols row = Some r \<and> \<not> is_duplicate table r")
      case True
      then obtain r where r: "offer cr cols row = Some r" "\<not> is_duplicate table r" by blast
      show ?thesis
        by (rule exI [of _ "length (is_created s) # js"]) (use js created r in \<open>simp add: p fresh_offers_Cons\<close>)
    next
      case False
      then have "is_created t = is_created s" and "fresh_offers cr cols table (p # rows) = fresh_offers cr cols table rows"
        using created by (auto simp: p fresh_offers_Cons split: option.splits)
      with js show ?thesis by auto
    qed
  qed
  show "is_skipped s' + length (is_created s') = length rows + is_skipped s + length (is_created s)"
    using assms
  proof (induction rows arbitrary: s)
    case Nil
    then show ?case by simp
  next
    case (Cons p rows)
    obtain i row where p: "p = (i, row)" by (cases p)
    obtain t where t: "import_row cr cols ids now known table (i, row) s = Inr t"
      and rest: "import_rows cr cols ids now known table rows t = Inr s'"
      using Cons.prems by (auto simp: p sbind_Inr_iff)
    show ?case using Cons.IH [OF rest] import_row_cases(2) [OF t] by simp
  qed
qed

end
