(* ===== verification/Financial_Integrity.thy ===== *)
theory Financial_Integrity
  imports Cost_Service Seller_Kpis
begin

text \<open>
  What the seller is told about the quality of the figures: the integrity of a period
  (\<open>app/services/financial_integrity_service.py\<close>) and the coverage of sales by costs
  (\<open>app/services/cost_coverage_service.py\<close>). The database is the one of the costs with the tables that the
  analytics read. Messages are not modelled; a warning carries what its context shows.
\<close>

section \<open>The tables of the analytics\<close>

datatype report_type = RT_SALES | RT_ORDERS | RT_STOCK | RT_FINANCE | RT_COSTS | RT_OTHER

text \<open>\<open>an_processed\<close>: the status is \<open>PROCESSED\<close>.\<close>

record report_row =
  an_report_id :: uuid
  an_marketplace :: marketplace
  an_report_type :: report_type
  an_processed :: bool
  an_period_start :: "date option"
  an_period_end :: "date option"
  an_created_at :: "instant option"
  an_promotion_expenses :: decimal
  an_jam_subscription_expenses :: decimal

record analytics_db = cost_db +
  ad_reports :: "report_row list"
  ad_normalized :: "stored_row list"
  ad_snapshots :: "stock_snapshot list"
  ad_reconciliations :: "reconciliation_result list"

record period =
  pd_start :: date
  pd_end :: date

definition in_period :: "period \<Rightarrow> date \<Rightarrow> bool" where
  "in_period p d \<longleftrightarrow> pd_start p \<le> d \<and> d \<le> pd_end p"

definition daily_rows :: "marketplace \<Rightarrow> period \<Rightarrow> 'a analytics_db_scheme \<Rightarrow> daily_aggregate list" where
  "daily_rows mp p db = filter (\<lambda>a. da_marketplace a = mp \<and> in_period p (da_aggregate_date a)) (pj_daily (cd_projections db))"

definition unit_rows :: "marketplace \<Rightarrow> period \<Rightarrow> 'a analytics_db_scheme \<Rightarrow> unit_economics list" where
  "unit_rows mp p db = filter (\<lambda>u. ue_marketplace u = mp \<and> in_period p (ue_metric_date u)) (pj_unit_economics (cd_projections db))"

definition metric_rows :: "marketplace \<Rightarrow> period \<Rightarrow> 'a analytics_db_scheme \<Rightarrow> sku_daily_metric list" where
  "metric_rows mp p db = filter (\<lambda>m. sm_marketplace m = mp \<and> in_period p (sm_metric_date m)) (pj_sku (cd_projections db))"

section \<open>Coverage of the selling SKUs\<close>

text \<open>The SKUs of the sales, one group each, and those that have a unit cost on the last day.\<close>

definition selling_skus :: "marketplace \<Rightarrow> period \<Rightarrow> 'a analytics_db_scheme \<Rightarrow> pystr list" where
  "selling_skus mp p db = filter (\<lambda>s. s \<noteq> []) (map fst (group_by ue_sku (filter (\<lambda>u. 0 < ue_units_sold u) (unit_rows mp p db))))"

definition has_cost_on :: "'a analytics_db_scheme \<Rightarrow> date \<Rightarrow> pystr \<Rightarrow> bool" where
  "has_cost_on db d sku \<longleftrightarrow> unit_cost_on_date (resolve_cost_snapshots (cost_table_of db) (Some sku)) d \<noteq> None"

definition coverage_pct :: "nat \<Rightarrow> nat \<Rightarrow> py_error + decimal" where
  "coverage_pct covered n = dquantize 2 (dmul (ddiv (of_nat covered) (of_nat n)) 100)"

definition sku_cost_coverage_pct :: "marketplace \<Rightarrow> period \<Rightarrow> 'a analytics_db_scheme \<Rightarrow> py_error + decimal option" where
  "sku_cost_coverage_pct mp p db =
     (let selling = selling_skus mp p db in
      if selling = [] then Inr None
      else sbind (coverage_pct (length (filter (has_cost_on db (pd_end p)) selling)) (length selling)) (\<lambda>x. Inr (Some x)))"

section \<open>Integrity of a period\<close>

datatype severity_level = LEVEL_info | LEVEL_warning | LEVEL_critical

datatype integrity_warning = Negative_revenue | Profit_gt_revenue decimal decimal | Abnormal_margin decimal | Missing_cost_basis
  | Profit_kpi_suppressed decimal | Partial_cost_coverage decimal | Payout_reconciliation_mismatch decimal nat
  | Missing_cogs | Duplicate_cost_imports nat | Missing_sku_cost | Outdated_cost date | Missing_supplier_price

fun warning_severity :: "integrity_warning \<Rightarrow> severity_level" where
  "warning_severity Negative_revenue = LEVEL_critical"
| "warning_severity (Profit_gt_revenue _ _) = LEVEL_critical"
| "warning_severity (Outdated_cost _) = LEVEL_info"
| "warning_severity Missing_supplier_price = LEVEL_info"
| "warning_severity _ = LEVEL_warning"

record integrity_meta =
  im_warnings :: "integrity_warning list"
  im_completeness :: "decimal option"
  im_coverage_pct :: "decimal option"
  im_trust :: profit_trust

definition margin_warning :: "decimal \<Rightarrow> decimal \<Rightarrow> py_error + integrity_warning list" where
  "margin_warning revenue profit =
     (if 0 < revenue then (let margin = dmul (ddiv profit revenue) 100 in
        if margin < - 100 \<or> 100 < margin then sbind (dquantize 2 margin) (\<lambda>m. Inr [Abnormal_margin m]) else Inr [])
      else Inr [])"

definition trust_warning :: "decimal \<Rightarrow> decimal option \<Rightarrow> integrity_warning list" where
  "trust_warning revenue coverage =
     (case classify_profit_trust coverage of
        TRUST_INSUFFICIENT \<Rightarrow> if revenue \<noteq> 0 then [Profit_kpi_suppressed (or_zero coverage)] else []
      | TRUST_PARTIAL \<Rightarrow> [Partial_cost_coverage (or_zero coverage)]
      | TRUST_FULL \<Rightarrow> [])"

definition payout_warning :: "reconciliation_result list \<Rightarrow> integrity_warning list" where
  "payout_warning recs =
     (let d = sql_sum (\<lambda>r. \<bar>rr_difference r\<bar>) recs in
      if recs \<noteq> [] \<and> 0 < d then [Payout_reconciliation_mismatch d (length recs)] else [])"

definition completeness_score :: "bool \<Rightarrow> bool \<Rightarrow> integrity_warning list \<Rightarrow> decimal option" where
  "completeness_score any_day has_costs warnings =
     (if any_day then
        (let c0 = 100; c1 = (if has_costs then c0 else dsub c0 35);
             c2 = (if \<exists>w\<in>set warnings. warning_severity w = LEVEL_critical then dsub c1 40 else c1)
         in Some (max 0 (min 100 c2)))
      else None)"

definition validate_period :: "marketplace \<Rightarrow> period \<Rightarrow> 'a analytics_db_scheme \<Rightarrow> py_error + integrity_meta" where
  "validate_period mp p db =
     (let days = daily_rows mp p db;
          revenue = sql_sum (\<lambda>a. pm_revenue (da_metrics a)) days;
          profit = sql_sum (\<lambda>a. pm_net_profit (da_metrics a)) days;
          has_costs = (cd_costs db \<noteq> []);
          w1 = (if revenue < 0 then [Negative_revenue] else []);
          w2 = (if 0 \<le> revenue \<and> revenue < profit then [Profit_gt_revenue revenue profit] else [])
      in sbind (margin_warning revenue profit) (\<lambda>w3.
         sbind (sku_cost_coverage_pct mp p db) (\<lambda>coverage.
           (let w4 = (if \<not> has_costs \<and> revenue \<noteq> 0 then [Missing_cost_basis] else []);
                warnings = w1 @ w2 @ w3 @ w4 @ trust_warning revenue coverage @ payout_warning (ad_reconciliations db)
            in Inr \<lparr>im_warnings = warnings, im_completeness = completeness_score (days \<noteq> []) has_costs warnings,
                 im_coverage_pct = coverage, im_trust = classify_profit_trust coverage\<rparr>))))"

section \<open>Cost coverage\<close>

record coverage_gaps =
  cg_period :: "period option"
  cg_total_selling :: nat
  cg_covered :: nat
  cg_pct :: "decimal option"
  cg_missing :: "pystr list"

definition sales_bounds :: "marketplace \<Rightarrow> 'a analytics_db_scheme \<Rightarrow> period option" where
  "sales_bounds mp db =
     (let rows = filter (\<lambda>u. ue_marketplace u = mp \<and> 0 < ue_units_sold u) (pj_unit_economics (cd_projections db))
      in case (sql_min ue_metric_date rows, sql_max ue_metric_date rows) of
           (Some s, Some e) \<Rightarrow> Some \<lparr>pd_start = s, pd_end = e\<rparr> | _ \<Rightarrow> None)"

definition gaps_of_period :: "db_engine \<Rightarrow> marketplace \<Rightarrow> period \<Rightarrow> nat \<Rightarrow> 'a analytics_db_scheme \<Rightarrow> py_error + coverage_gaps" where
  "gaps_of_period e mp p limit db =
     (let selling = sort_key (de_collate e) (selling_skus mp p db);
          covered = filter (has_cost_on db (pd_end p)) selling;
          missing = filter (\<lambda>s. \<not> has_cost_on db (pd_end p) s) selling
      in if selling = [] then Inr \<lparr>cg_period = Some p, cg_total_selling = 0, cg_covered = 0, cg_pct = None, cg_missing = []\<rparr>
         else sbind (coverage_pct (length covered) (length selling)) (\<lambda>x.
           Inr \<lparr>cg_period = Some p, cg_total_selling = length selling, cg_covered = length covered, cg_pct = Some x,
             cg_missing = take limit missing\<rparr>))"

definition sales_coverage_gaps :: "db_engine \<Rightarrow> marketplace \<Rightarrow> period option \<Rightarrow> nat \<Rightarrow> 'a analytics_db_scheme \<Rightarrow> py_error + coverage_gaps" where
  "sales_coverage_gaps e mp period limit db =
     (case (case period of None \<Rightarrow> sales_bounds mp db | Some p \<Rightarrow> Some p) of
        None \<Rightarrow> Inr \<lparr>cg_period = None, cg_total_selling = 0, cg_covered = 0, cg_pct = None, cg_missing = []\<rparr>
      | Some p \<Rightarrow> gaps_of_period e mp p limit db)"

record coverage_sku_row =
  cs_sku :: pystr
  cs_units_sold :: int
  cs_revenue :: decimal
  cs_cogs :: decimal
  cs_cost_coverage_pct :: "decimal option"
  cs_last_cost :: "date option"
  cs_warnings :: "integrity_warning list"

record cost_coverage =
  cc_total_skus :: nat
  cc_covered_skus :: nat
  cc_pct :: "decimal option"
  cc_score :: "decimal option"
  cc_items :: "coverage_sku_row list"
  cc_missing_skus :: "pystr list"
  cc_warnings :: "integrity_warning list"

definition matches_query :: "db_engine \<Rightarrow> pystr option \<Rightarrow> pystr \<Rightarrow> bool" where
  "matches_query e query sku = (case nonempty query of None \<Rightarrow> True | Some q \<Rightarrow> de_ilike e q sku)"

definition duplicate_groups :: "cost_row list \<Rightarrow> nat" where
  "duplicate_groups costs =
     length (filter (\<lambda>(k, g). 1 < length g) (group_by (\<lambda>r. (cw_internal_sku r, cw_effective_from r, cw_cost r)) costs))"

definition coverage_item :: "'a analytics_db_scheme \<Rightarrow> date \<Rightarrow> pystr list \<Rightarrow> pystr \<times> unit_economics list \<Rightarrow> coverage_sku_row" where
  "coverage_item db cutoff missing = (\<lambda>(sku, rows).
     (let units = sql_sum ue_units_sold rows; cogs = sql_sum ue_cogs rows;
          last = sql_max cw_effective_from (filter (\<lambda>r. cw_internal_sku r = sku) (cd_costs db))
      in \<lparr>cs_sku = sku, cs_units_sold = units, cs_revenue = sql_sum ue_revenue rows, cs_cogs = cogs,
          cs_cost_coverage_pct = (if 0 < units \<and> sku \<notin> set missing then Some 100 else if 0 < units then Some 0 else None),
          cs_last_cost = last,
          cs_warnings = (if 0 < units \<and> cogs = 0 \<and> sku \<in> set missing then [Missing_sku_cost] else [])
            @ (case last of None \<Rightarrow> [Missing_supplier_price] | Some d \<Rightarrow> if d < cutoff then [Outdated_cost d] else [])\<rparr>))"

definition analyze_coverage :: "db_engine \<Rightarrow> marketplace \<Rightarrow> period \<Rightarrow> nat \<Rightarrow> pystr option \<Rightarrow> 'a analytics_db_scheme \<Rightarrow> py_error + cost_coverage" where
  "analyze_coverage e mp p limit query db =
     (let rows = filter (\<lambda>u. matches_query e query (ue_sku u)) (unit_rows mp p db);
          groups = group_by ue_sku rows;
          dups = duplicate_groups (cd_costs db)
      in sbind (sales_coverage_gaps e mp (Some p) 200 db) (\<lambda>gaps.
         (let total = (if cg_total_selling gaps \<noteq> 0 then cg_total_selling gaps else length groups);
              missing = cg_missing gaps
          in Inr \<lparr>cc_total_skus = total, cc_covered_skus = cg_covered gaps, cc_pct = cg_pct gaps,
               cc_score = (case cg_pct gaps of None \<Rightarrow> None | Some x \<Rightarrow> Some (if 0 < dups then max 0 (dsub x 10) else x)),
               cc_items = map (coverage_item db (pd_end p - 120) missing)
                 (take limit (order_by True (\<lambda>(k, g). Some (sql_sum ue_revenue g)) groups)),
               cc_missing_skus = missing,
               cc_warnings = (if 0 < total \<and> cg_covered gaps = 0 \<and> 0 < sql_sum ue_revenue rows then [Missing_cogs] else [])
                 @ (if 0 < dups then [Duplicate_cost_imports dups] else [])\<rparr>)))"

end
