(* ===== verification/Seller_Analytics.thy ===== *)
theory Seller_Analytics
  imports Financial_Integrity Report_Selection
begin

text \<open>
  The figures of a period that the seller sees (\<open>app/services/analytics_service.py\<close>): settlement figures of the
  canonical finance reports, the summaries and trends, the SKU tables, the ABC distribution and the gaps in the data.
  The request-scoped cache of the dashboard returns what the uncached queries return and is not modelled; neither is
  the freshness of the data, which \<open>Ops_Service\<close> has.
\<close>

section \<open>Canonical reports\<close>

text \<open>\<open>ReportStatus.PROCESSED\<close>, \<open>ReportType.FINANCE\<close>, a period that overlaps the asked one.\<close>

definition finance_candidate :: "marketplace \<Rightarrow> period \<Rightarrow> report_row \<Rightarrow> finance_report option" where
  "finance_candidate mp p r =
     (case (an_period_start r, an_period_end r) of
        (Some s, Some e) \<Rightarrow>
          if an_marketplace r = mp \<and> an_report_type r = RT_FINANCE \<and> an_processed r \<and> s \<le> pd_end p \<and> pd_start p \<le> e
          then Some \<lparr>fr_id = an_report_id r, fr_period_start = s, fr_period_end = e, fr_created_at = an_created_at r\<rparr> else None
      | _ \<Rightarrow> None)"

definition canonical_finance_report_ids :: "marketplace \<Rightarrow> period \<Rightarrow> 'a analytics_db_scheme \<Rightarrow> uuid list" where
  "canonical_finance_report_ids mp p db =
     select_canonical_finance_report_ids (List.map_filter (finance_candidate mp p) (ad_reports db))"

section \<open>Payouts of returns\<close>

text \<open>
  The rows whose operation type contains the word for a return, with a payout. \<open>CAST(... AS NUMERIC(18, 4))\<close>
  rounds the text of the amount; a payout of zero adds nothing, so the comparison with the text \<open>0\<close> is left out.
\<close>

definition is_return_row :: "stored_row \<Rightarrow> bool" where
  "is_return_row r \<longleftrightarrow> (case text_of (w_canonical (st_row r) F_operation_type) of
      None \<Rightarrow> False | Some t \<Rightarrow> contains (ru ''vozvrat'') (lower t))"

definition return_payout :: "stored_row \<Rightarrow> (date option \<times> decimal) option" where
  "return_payout r = (if is_return_row r
     then map_option (\<lambda>d. (w_operation_date (st_row r), d)) (dec_of (w_canonical (st_row r) F_payout)) else None)"

definition return_amounts :: "stored_row list \<Rightarrow> py_error + (date option \<times> decimal) list" where
  "return_amounts rows = smap (\<lambda>(day, d). sbind (db_numeric 18 4 d) (\<lambda>x. Inr (day, \<bar>x\<bar>))) (List.map_filter return_payout rows)"

definition of_marketplace :: "'a analytics_db_scheme \<Rightarrow> marketplace \<Rightarrow> uuid \<Rightarrow> bool" where
  "of_marketplace db mp rid \<longleftrightarrow> (\<exists>r\<in>set (ad_reports db). an_report_id r = rid \<and> an_marketplace r = mp)"

definition dated_in :: "period \<Rightarrow> stored_row \<Rightarrow> bool" where
  "dated_in p r \<longleftrightarrow> (case w_operation_date (st_row r) of None \<Rightarrow> False | Some d \<Rightarrow> in_period p d)"

section \<open>Seller figures of a period\<close>

text \<open>Without a canonical report: all ledger entries of the period, whatever their marketplace.\<close>

definition settlement_entries :: "uuid list \<Rightarrow> period \<Rightarrow> 'a analytics_db_scheme \<Rightarrow> ledger_table_row list" where
  "settlement_entries ids p db = (if ids \<noteq> [] then filter (\<lambda>r. lt_report_id r \<in> set ids) (cd_ledger db)
     else filter (\<lambda>r. in_period p (ed_operation_date (lt_entry r))) (cd_ledger db))"

definition settlement_rows :: "uuid list \<Rightarrow> marketplace \<Rightarrow> period \<Rightarrow> 'a analytics_db_scheme \<Rightarrow> stored_row list" where
  "settlement_rows ids mp p db = (if ids \<noteq> [] then filter (\<lambda>r. st_report_id r \<in> set ids) (ad_normalized db)
     else filter (\<lambda>r. of_marketplace db mp (st_report_id r) \<and> dated_in p r) (ad_normalized db))"

definition total_of :: "ledger_op \<Rightarrow> ledger_table_row list \<Rightarrow> decimal" where
  "total_of op rows = sql_sum (\<lambda>r. ed_amount (lt_entry r)) (filter (\<lambda>r. ed_operation_type (lt_entry r) = op) rows)"

definition kpis_of :: "ledger_table_row list \<Rightarrow> decimal \<Rightarrow> decimal \<Rightarrow> seller_kpis" where
  "kpis_of rows payout_returns cogs =
     compute_seller_kpis (total_of L_SALE rows) (total_of L_PAYOUT rows) payout_returns (dabs (total_of L_LOGISTICS rows))
       (dabs (total_of L_STORAGE_FEE rows)) (dabs (total_of L_DEDUCTION rows)) cogs"

definition wb_seller_kpis :: "marketplace \<Rightarrow> period \<Rightarrow> 'a analytics_db_scheme \<Rightarrow> py_error + seller_kpis" where
  "wb_seller_kpis mp p db =
     (let ids = canonical_finance_report_ids mp p db
      in sbind (return_amounts (settlement_rows ids mp p db)) (\<lambda>xs.
           Inr (kpis_of (settlement_entries ids p db) (sql_sum snd xs) (sql_sum ue_cogs (unit_rows mp p db)))))"

definition sum_manual_expenses :: "marketplace \<Rightarrow> period \<Rightarrow> 'a analytics_db_scheme \<Rightarrow> decimal \<times> decimal \<times> decimal" where
  "sum_manual_expenses mp p db =
     (let ids = canonical_finance_report_ids mp p db in
      if ids = [] then (0, 0, 0)
      else (let reports = filter (\<lambda>r. an_report_id r \<in> set ids) (ad_reports db);
                wb = sql_sum an_promotion_expenses reports; jam = sql_sum an_jam_subscription_expenses reports
            in (wb, jam, dadd wb jam)))"

definition promotion_adjusted_of :: "marketplace \<Rightarrow> period \<Rightarrow> seller_kpis \<Rightarrow> 'a analytics_db_scheme \<Rightarrow> promotion_adjusted_profit" where
  "promotion_adjusted_of mp p seller db =
     (case sum_manual_expenses mp p db of (wb, jam, _) \<Rightarrow>
        compute_profit_after_promotion (sk_total_to_pay seller) wb jam (sk_cogs seller) (sk_revenue seller))"

section \<open>Seller figures of the days\<close>

text \<open>The days of the ledger entries, of the costs and of the returns; entries and returns of the canonical reports only, if any.\<close>

definition day_entries :: "uuid list \<Rightarrow> period \<Rightarrow> 'a analytics_db_scheme \<Rightarrow> ledger_table_row list" where
  "day_entries ids p db =
     filter (\<lambda>r. in_period p (ed_operation_date (lt_entry r)) \<and> (ids \<noteq> [] \<longrightarrow> lt_report_id r \<in> set ids)) (cd_ledger db)"

definition day_return_rows :: "uuid list \<Rightarrow> marketplace \<Rightarrow> period \<Rightarrow> 'a analytics_db_scheme \<Rightarrow> stored_row list" where
  "day_return_rows ids mp p db =
     filter (\<lambda>r. dated_in p r \<and> (if ids \<noteq> [] then st_report_id r \<in> set ids else of_marketplace db mp (st_report_id r))) (ad_normalized db)"

definition entry_day :: "ledger_table_row \<Rightarrow> date" where
  "entry_day r = ed_operation_date (lt_entry r)"

definition day_kpis :: "ledger_table_row list \<Rightarrow> (date option \<times> decimal) list \<Rightarrow> unit_economics list \<Rightarrow> date \<Rightarrow> seller_kpis" where
  "day_kpis entries returns units day =
     kpis_of (filter (\<lambda>r. entry_day r = day) entries) (sql_sum snd (filter (\<lambda>(d, x). d = Some day) returns))
       (sql_sum ue_cogs (filter (\<lambda>u. ue_metric_date u = day) units))"

definition wb_seller_profit_by_day :: "marketplace \<Rightarrow> period \<Rightarrow> 'a analytics_db_scheme \<Rightarrow> py_error + (date \<times> seller_kpis) list" where
  "wb_seller_profit_by_day mp p db =
     (let ids = canonical_finance_report_ids mp p db; entries = day_entries ids p db; units = unit_rows mp p db
      in sbind (return_amounts (day_return_rows ids mp p db)) (\<lambda>returns.
           (let days = sorted_list_of_set (entry_day ` set entries \<union> ue_metric_date ` set units
                  \<union> {d. Some d \<in> fst ` set returns})
            in Inr (map (\<lambda>d. (d, day_kpis entries returns units d)) days))))"

section \<open>Summaries\<close>

record revenue_kpis =
  rk_total_revenue :: decimal
  rk_total_profit :: "decimal option"
  rk_margin_pct :: "decimal option"
  rk_profitability_pct :: "decimal option"
  rk_units_sold :: int
  rk_average_check :: "decimal option"

definition revenue_summary :: "marketplace \<Rightarrow> period \<Rightarrow> 'a analytics_db_scheme \<Rightarrow> py_error + revenue_kpis" where
  "revenue_summary mp p db =
     sbind (wb_seller_kpis mp p db) (\<lambda>seller.
     sbind (validate_period mp p db) (\<lambda>meta.
       (let trust = im_trust meta; units = sql_sum (\<lambda>a. pm_units_sold (da_metrics a)) (daily_rows mp p db);
            (profit, margin) = apply_profit_trust_to_kpis trust (sk_seller_profit seller) (sk_margin_pct seller)
        in Inr \<lparr>rk_total_revenue = sk_revenue seller, rk_total_profit = profit, rk_margin_pct = margin,
             rk_profitability_pct = gate_profitability_decimal (sk_profitability_pct seller) trust, rk_units_sold = units,
             rk_average_check = (if 0 < units then Some (ddiv (sk_revenue seller) (of_int units)) else None)\<rparr>)))"

record financial_kpis =
  fk_sales_revenue :: decimal
  fk_returns_amount :: decimal
  fk_payout_for_goods :: decimal
  fk_commission :: decimal
  fk_logistics :: decimal
  fk_storage_fee :: decimal
  fk_acquiring :: decimal
  fk_advertisement :: decimal
  fk_penalties :: decimal
  fk_deductions :: decimal
  fk_compensation :: decimal
  fk_cogs :: "decimal option"
  fk_gross_profit :: "decimal option"
  fk_seller_profit_raw :: "decimal option"
  fk_promotion_expenses :: decimal
  fk_jam_subscription_expenses :: decimal
  fk_manual_expenses_total :: decimal
  fk_adjusted_settlement :: decimal
  fk_margin_pct :: "decimal option"
  fk_profitability_pct :: "decimal option"
  fk_return_rate_pct :: "decimal option"
  fk_total_to_pay :: decimal

definition financial_summary :: "marketplace \<Rightarrow> period \<Rightarrow> 'a analytics_db_scheme \<Rightarrow> py_error + financial_kpis" where
  "financial_summary mp p db =
     sbind (wb_seller_kpis mp p db) (\<lambda>seller.
     (let adjusted = promotion_adjusted_of mp p seller db;
          entries = filter (\<lambda>r. in_period p (ed_operation_date (lt_entry r))) (cd_ledger db);
          returns = dabs (total_of L_RETURN entries)
      in sbind (validate_period mp p db) (\<lambda>meta.
       (let trust = im_trust meta;
            (profit, margin) = apply_profit_trust_to_kpis trust (sk_seller_profit seller) (sk_margin_pct seller)
        in Inr \<lparr>fk_sales_revenue = total_of L_SALE entries, fk_returns_amount = returns,
             fk_payout_for_goods = sk_payout_for_goods seller, fk_commission = dabs (total_of L_COMMISSION entries),
             fk_logistics = sk_logistics seller, fk_storage_fee = sk_storage seller,
             fk_acquiring = dabs (total_of L_ACQUIRING entries), fk_advertisement = dabs (total_of L_ADVERTISEMENT entries),
             fk_penalties = dabs (total_of L_PENALTY entries), fk_deductions = sk_deductions seller,
             fk_compensation = total_of L_COMPENSATION entries,
             fk_cogs = (if trust = TRUST_FULL then Some (sk_cogs seller) else None), fk_gross_profit = profit,
             fk_seller_profit_raw = gate_profit_decimal (Some (sk_seller_profit seller)) trust,
             fk_promotion_expenses = pa_wb_promotion_expenses adjusted,
             fk_jam_subscription_expenses = pa_jam_subscription_expenses adjusted,
             fk_manual_expenses_total = pa_manual_expenses_total adjusted, fk_adjusted_settlement = sk_total_to_pay seller,
             fk_margin_pct = margin, fk_profitability_pct = gate_profitability_decimal (sk_profitability_pct seller) trust,
             fk_return_rate_pct = percent_of returns (sk_revenue seller), fk_total_to_pay = sk_total_to_pay seller\<rparr>))))"

section \<open>Trends\<close>

record trend_point =
  tp_date :: date
  tp_amounts :: trend_amounts
  tp_gross_profit :: "decimal option"
  tp_margin_pct :: "decimal option"

definition day_amounts :: "date \<Rightarrow> ledger_table_row list \<Rightarrow> ledger_op \<Rightarrow> decimal option" where
  "day_amounts day entries op =
     (let rows = filter (\<lambda>r. entry_day r = day \<and> ed_operation_type (lt_entry r) = op \<and> op \<in> set financial_trend_ledger_ops) entries
      in if rows = [] then None else Some (sql_sum (\<lambda>r. ed_amount (lt_entry r)) rows))"

definition financial_trends :: "marketplace \<Rightarrow> period \<Rightarrow> 'a analytics_db_scheme \<Rightarrow> py_error + trend_point list" where
  "financial_trends mp p db =
     sbind (validate_period mp p db) (\<lambda>meta.
       (let entries = filter (\<lambda>r. in_period p (entry_day r)) (cd_ledger db)
        in Inr (map (\<lambda>a. (let (profit, margin) = apply_profit_trust_to_kpis (im_trust meta) (pm_net_profit (da_metrics a)) (pm_margin (da_metrics a))
             in \<lparr>tp_date = da_aggregate_date a, tp_amounts = ledger_day_trend_amounts (day_amounts (da_aggregate_date a) entries),
                 tp_gross_profit = profit, tp_margin_pct = margin\<rparr>)) (sort_key da_aggregate_date (daily_rows mp p db)))))"

record revenue_point =
  rv_date :: date
  rv_revenue :: decimal
  rv_net_profit :: "decimal option"
  rv_seller_profit :: "decimal option"
  rv_margin_pct :: "decimal option"
  rv_seller_margin_pct :: "decimal option"
  rv_units_sold :: int

definition units_by_day :: "daily_aggregate list \<Rightarrow> (date \<times> int) list" where
  "units_by_day days = fold (\<lambda>a. AList.update (da_aggregate_date a) (pm_units_sold (da_metrics a))) days []"

definition revenue_trend :: "marketplace \<Rightarrow> period \<Rightarrow> 'a analytics_db_scheme \<Rightarrow> py_error + revenue_point list" where
  "revenue_trend mp p db =
     sbind (wb_seller_profit_by_day mp p db) (\<lambda>by_day.
     sbind (validate_period mp p db) (\<lambda>meta.
       (let units = units_by_day (daily_rows mp p db);
            days = sorted_list_of_set (fst ` set by_day \<union> fst ` set units)
        in Inr (map (\<lambda>d. (let seller = map_of by_day d;
                 profit = gate_profit_decimal (map_option sk_seller_profit seller) (im_trust meta);
                 margin = gate_margin_decimal (Option.bind seller sk_margin_pct) (im_trust meta)
             in \<lparr>rv_date = d, rv_revenue = (case seller of None \<Rightarrow> 0 | Some k \<Rightarrow> sk_revenue k), rv_net_profit = profit,
                 rv_seller_profit = profit, rv_margin_pct = margin, rv_seller_margin_pct = margin,
                 rv_units_sold = dict_get units d 0\<rparr>)) days))))"

section \<open>SKU tables\<close>

record sku_economics_row =
  se_sku :: pystr
  se_revenue :: decimal
  se_contribution_margin :: "decimal option"
  se_gross_profit :: "decimal option"
  se_cogs :: "decimal option"
  se_returns_amount :: decimal
  se_payout :: decimal
  se_commissions :: decimal
  se_logistics :: decimal
  se_storage :: decimal
  se_ads :: decimal
  se_penalties :: decimal
  se_margin_pct :: "decimal option"
  se_return_rate :: "decimal option"
  se_ad_cost_ratio :: "decimal option"
  se_logistics_burden :: "decimal option"

definition economics_sort :: "db_engine \<Rightarrow> pystr \<Rightarrow> unit_economics list \<Rightarrow> decimal option" where
  "economics_sort e sort_name rows =
     (let k = lower sort_name in
      if k = asc ''revenue'' then Some (sql_sum ue_revenue rows)
      else if k = asc ''gross_profit'' then Some (sql_sum ue_gross_profit rows)
      else if k = asc ''contribution_margin'' then Some (sql_sum ue_contribution_margin rows)
      else if k = asc ''returns'' then Some (sql_sum ue_returns_amount rows)
      else if k = asc ''ads'' then Some (sql_sum ue_ads rows)
      else if k = asc ''margin_pct'' then sql_avg e ue_margin_pct rows
      else if k = asc ''return_rate'' then sql_avg e ue_return_rate rows
      else Some (sql_sum ue_contribution_margin rows))"

definition economics_row :: "db_engine \<Rightarrow> profit_trust \<Rightarrow> pystr \<times> unit_economics list \<Rightarrow> sku_economics_row" where
  "economics_row e trust = (\<lambda>(sku, rows).
     \<lparr>se_sku = sku, se_revenue = sql_sum ue_revenue rows,
      se_contribution_margin = gate_profit_decimal (Some (sql_sum ue_contribution_margin rows)) trust,
      se_gross_profit = gate_profit_decimal (Some (sql_sum ue_gross_profit rows)) trust,
      se_cogs = (if trust = TRUST_FULL then Some (sql_sum ue_cogs rows) else None),
      se_returns_amount = sql_sum ue_returns_amount rows, se_payout = sql_sum ue_payout rows,
      se_commissions = sql_sum ue_commissions rows, se_logistics = sql_sum ue_logistics rows,
      se_storage = sql_sum ue_storage rows, se_ads = sql_sum ue_ads rows, se_penalties = sql_sum ue_penalties rows,
      se_margin_pct = gate_margin_decimal (sql_avg e ue_margin_pct rows) trust, se_return_rate = sql_avg e ue_return_rate rows,
      se_ad_cost_ratio = sql_avg e ue_ad_cost_ratio rows, se_logistics_burden = sql_avg e ue_logistics_burden rows\<rparr>)"

definition sku_economics :: "db_engine \<Rightarrow> marketplace \<Rightarrow> period \<Rightarrow> nat \<Rightarrow> nat \<Rightarrow> pystr \<Rightarrow> pystr \<Rightarrow> pystr option \<Rightarrow>
    'a analytics_db_scheme \<Rightarrow> py_error + nat \<times> sku_economics_row list" where
  "sku_economics e mp p skip limit sort_name order query db =
     sbind (validate_period mp p db) (\<lambda>meta.
       (let groups = group_by ue_sku (filter (\<lambda>u. matches_query e query (ue_sku u)) (unit_rows mp p db));
            ordered = order_by (lower order \<noteq> asc ''asc'') (\<lambda>(k, g). economics_sort e sort_name g) groups
        in Inr (length groups, map (economics_row e (im_trust meta)) (take limit (drop skip ordered)))))"

record top_sku_row =
  tr_sku :: pystr
  tr_revenue :: decimal
  tr_net_profit :: "decimal option"
  tr_margin_pct :: "decimal option"
  tr_units_sold :: int
  tr_contribution_pct :: "decimal option"

definition top_sort :: "db_engine \<Rightarrow> pystr \<Rightarrow> sku_daily_metric list \<Rightarrow> decimal option" where
  "top_sort e sort_name rows =
     (let k = lower sort_name; revenue = sql_sum (\<lambda>m. pm_revenue (sm_metrics m)) rows; profit = sql_sum (\<lambda>m. pm_net_profit (sm_metrics m)) rows in
      if k = asc ''revenue'' then Some revenue
      else if k = asc ''margin'' \<or> k = asc ''margin_pct'' then (if revenue = 0 then None else Some (de_div e profit revenue))
      else Some profit)"

definition top_row :: "profit_trust \<Rightarrow> decimal \<Rightarrow> pystr \<times> sku_daily_metric list \<Rightarrow> top_sku_row" where
  "top_row trust total_revenue = (\<lambda>(sku, rows).
     (let revenue = sql_sum (\<lambda>m. pm_revenue (sm_metrics m)) rows; profit = sql_sum (\<lambda>m. pm_net_profit (sm_metrics m)) rows
      in \<lparr>tr_sku = sku, tr_revenue = revenue, tr_net_profit = gate_profit_decimal (Some profit) trust,
          tr_margin_pct = gate_margin_decimal (percent_of profit revenue) trust,
          tr_units_sold = sql_sum (\<lambda>m. pm_units_sold (sm_metrics m)) rows, tr_contribution_pct = percent_of revenue total_revenue\<rparr>))"

definition top_skus :: "db_engine \<Rightarrow> marketplace \<Rightarrow> period \<Rightarrow> nat \<Rightarrow> pystr \<Rightarrow> 'a analytics_db_scheme \<Rightarrow> py_error + top_sku_row list" where
  "top_skus e mp p limit sort_name db =
     sbind (validate_period mp p db) (\<lambda>meta.
       (let rows = metric_rows mp p db
        in Inr (map (top_row (im_trust meta) (sql_sum (\<lambda>m. pm_revenue (sm_metrics m)) rows))
             (take limit (order_by True (\<lambda>(k, g). top_sort e sort_name g) (group_by sm_sku rows))))))"

record sku_point =
  sp_unit :: unit_economics
  sp_stock_units :: "int option"

text \<open>A point shows the unit economics of the day, whatever the trust; the stock is summed over the warehouses.\<close>

definition sku_drilldown :: "marketplace \<Rightarrow> pystr \<Rightarrow> period \<Rightarrow> pystr \<Rightarrow> 'a analytics_db_scheme \<Rightarrow> sku_point list" where
  "sku_drilldown mp sku p version db =
     (let snaps = filter (\<lambda>s. ss_sku s = Some sku \<and> in_period p (ss_snapshot_date s) \<and> ss_semantics_version s = version) (ad_snapshots db);
          stock = map (\<lambda>(d, g). (d, sql_sum ss_actual_stock g)) (group_by ss_snapshot_date snaps)
      in map (\<lambda>u. \<lparr>sp_unit = u, sp_stock_units = map_of stock (ue_metric_date u)\<rparr>)
           (sort_key ue_metric_date (filter (\<lambda>u. ue_sku u = sku) (unit_rows mp p db))))"

section \<open>Comparison of two periods\<close>

record period_comparison =
  px_a :: revenue_kpis
  px_b :: revenue_kpis
  px_delta_revenue :: decimal
  px_delta_profit :: "decimal option"
  px_delta_margin :: "decimal option"

definition period_compare :: "marketplace \<Rightarrow> period \<Rightarrow> period \<Rightarrow> 'a analytics_db_scheme \<Rightarrow> py_error + period_comparison" where
  "period_compare mp a b db =
     sbind (revenue_summary mp a db) (\<lambda>x. sbind (revenue_summary mp b db) (\<lambda>y.
       Inr \<lparr>px_a = x, px_b = y, px_delta_revenue = dsub (rk_total_revenue x) (rk_total_revenue y),
         px_delta_profit = compute_period_compare_delta_profit (rk_total_profit x) (rk_total_profit y),
         px_delta_margin = (case (rk_margin_pct x, rk_margin_pct y) of (Some m, Some n) \<Rightarrow> Some (dsub m n) | _ \<Rightarrow> None)\<rparr>))"

section \<open>ABC distribution\<close>

record abc_bucket =
  ab_sku_count :: nat
  ab_revenue :: decimal
  ab_revenue_pct :: decimal

record abc_state =
  as_cum :: decimal
  as_a :: "nat \<times> decimal"
  as_b :: "nat \<times> decimal"
  as_c :: "nat \<times> decimal"

definition bucket_add :: "decimal \<Rightarrow> nat \<times> decimal \<Rightarrow> nat \<times> decimal" where
  "bucket_add amount b = (fst b + 1, dadd (snd b) amount)"

definition abc_step :: "decimal \<Rightarrow> abc_state \<Rightarrow> decimal \<Rightarrow> abc_state" where
  "abc_step whole s amount =
     (let cum = dadd (as_cum s) (if 0 < whole then ddiv amount whole else 0) in
      if cum \<le> 80 / 100 then s\<lparr>as_cum := cum, as_a := bucket_add amount (as_a s)\<rparr>
      else if cum \<le> 95 / 100 then s\<lparr>as_cum := cum, as_b := bucket_add amount (as_b s)\<rparr>
      else s\<lparr>as_cum := cum, as_c := bucket_add amount (as_c s)\<rparr>)"

definition abc_bucket_of :: "decimal \<Rightarrow> nat \<times> decimal \<Rightarrow> abc_bucket" where
  "abc_bucket_of whole b = \<lparr>ab_sku_count = fst b, ab_revenue = snd b,
     ab_revenue_pct = (if 0 < whole then dmul (ddiv (snd b) whole) 100 else 0)\<rparr>"

definition sku_revenues :: "sku_daily_metric list \<Rightarrow> decimal list" where
  "sku_revenues rows = map (\<lambda>(k, g). sql_sum (\<lambda>m. pm_revenue (sm_metrics m)) g)
     (order_by True (\<lambda>(k, g). Some (sql_sum (\<lambda>m. pm_revenue (sm_metrics m)) g)) (group_by sm_sku rows))"

definition abc_buckets :: "decimal \<Rightarrow> decimal list \<Rightarrow> abc_state" where
  "abc_buckets whole revenues = foldl (abc_step whole) \<lparr>as_cum = 0, as_a = (0, 0), as_b = (0, 0), as_c = (0, 0)\<rparr> revenues"

definition abc_analysis :: "marketplace \<Rightarrow> period \<Rightarrow> 'a analytics_db_scheme \<Rightarrow> abc_bucket \<times> abc_bucket \<times> abc_bucket" where
  "abc_analysis mp p db =
     (let rows = metric_rows mp p db; whole = sql_sum (\<lambda>m. pm_revenue (sm_metrics m)) rows;
          s = abc_buckets whole (sku_revenues rows)
      in (abc_bucket_of whole (as_a s), abc_bucket_of whole (as_b s), abc_bucket_of whole (as_c s)))"

section \<open>Coverage of the data\<close>

record missing_range =
  mr_start :: date
  mr_end :: date
  mr_days :: int

text \<open>The loop of \<open>_compute_missing_ranges\<close> from the previous day on, with the ranges found so far.\<close>

fun missing_loop :: "nat \<Rightarrow> date \<Rightarrow> missing_range list \<Rightarrow> date list \<Rightarrow> missing_range list" where
  "missing_loop limit prev missing [] = missing"
| "missing_loop limit prev missing (cur # days) =
     (if 1 < cur - prev then
        (let missing' = missing @ [\<lparr>mr_start = prev + 1, mr_end = cur - 1, mr_days = (cur - 1) - (prev + 1) + 1\<rparr>]
         in if limit \<le> length missing' then missing' else missing_loop limit cur missing' days)
      else missing_loop limit cur missing days)"

definition compute_missing_ranges :: "date list \<Rightarrow> nat \<Rightarrow> missing_range list" where
  "compute_missing_ranges days limit = (case days of [] \<Rightarrow> [] | d # ds \<Rightarrow> missing_loop limit d [] ds)"

datatype recommendation = Upload_costs | Upload_ads_report | Fill_missing_periods

record data_coverage =
  dv_marketplaces :: "marketplace list"
  dv_min_date :: "date option"
  dv_max_date :: "date option"
  dv_by_marketplace :: "(marketplace \<times> date option \<times> date option) list"
  dv_uploaded_types :: "((marketplace \<times> report_type) \<times> nat) list"
  dv_missing :: "missing_range list"
  dv_recommendations :: "recommendation list"
  dv_completeness :: "decimal option"
  dv_warnings :: "integrity_warning list"

text \<open>\<open>order\<close> is the order of the enumerations in the database.\<close>

definition uploaded_types :: "(marketplace \<times> report_type \<Rightarrow> nat) \<Rightarrow> report_row list \<Rightarrow> ((marketplace \<times> report_type) \<times> nat) list" where
  "uploaded_types order reports = map (\<lambda>(k, g). (k, length g))
     (sort_key (order \<circ> fst) (group_by (\<lambda>r. (an_marketplace r, an_report_type r)) reports))"

definition days_of :: "marketplace \<Rightarrow> 'a analytics_db_scheme \<Rightarrow> date list" where
  "days_of mp db = sort (map da_aggregate_date (filter (\<lambda>a. da_marketplace a = mp) (pj_daily (cd_projections db))))"

definition data_coverage_of :: "(marketplace \<times> report_type \<Rightarrow> nat) \<Rightarrow> period option \<Rightarrow> 'a analytics_db_scheme \<Rightarrow> py_error + data_coverage" where
  "data_coverage_of order for_period db =
     (let daily = pj_daily (cd_projections db);
          mps = map fst (group_by da_marketplace daily);
          lo = sql_min da_aggregate_date daily; hi = sql_max da_aggregate_date daily;
          missing = concat (map (\<lambda>mp. compute_missing_ranges (days_of mp db) 50) mps)
      in sbind (case (mps, lo, hi) of
            (mp # _, Some s, Some e) \<Rightarrow> sbind (validate_period mp (case for_period of None \<Rightarrow> \<lparr>pd_start = s, pd_end = e\<rparr> | Some p \<Rightarrow> p) db)
              (\<lambda>m. Inr (Some m))
          | _ \<Rightarrow> Inr None) (\<lambda>meta.
         (let warnings = (case meta of None \<Rightarrow> [] | Some m \<Rightarrow> im_warnings m)
          in Inr \<lparr>dv_marketplaces = mps, dv_min_date = lo, dv_max_date = hi,
               dv_by_marketplace = map (\<lambda>mp. (mp, sql_min da_aggregate_date (filter (\<lambda>a. da_marketplace a = mp) daily),
                 sql_max da_aggregate_date (filter (\<lambda>a. da_marketplace a = mp) daily))) mps,
               dv_uploaded_types = uploaded_types order (ad_reports db), dv_missing = missing,
               dv_recommendations = (if Missing_cost_basis \<in> set warnings then [Upload_costs] else [])
                 @ (if mps \<noteq> [] \<and> hi \<noteq> None \<and> filter (\<lambda>r. ed_operation_type (lt_entry r) = L_ADVERTISEMENT) (cd_ledger db) = []
                    then [Upload_ads_report] else [])
                 @ (if missing \<noteq> [] then [Fill_missing_periods] else []),
               dv_completeness = Option.bind meta im_completeness, dv_warnings = warnings\<rparr>)))"

end
