(* ===== verification/Analytics_Properties.thy ===== *)
theory Analytics_Properties
  imports Seller_Analytics
begin

text \<open>
  What the figures of a period promise the seller: the days add up to the period, the ABC classes are parts of the ranking,
  the gaps in the data are exactly the missing days.
\<close>

section \<open>The days of a period\<close>

text \<open>The amounts that a settlement figure is made of.\<close>

definition settlement_amounts :: "ledger_table_row list \<Rightarrow> (date option \<times> decimal) list \<Rightarrow> unit_economics list \<Rightarrow> decimal list" where
  "settlement_amounts entries returns units = map (\<lambda>r. ed_amount (lt_entry r)) entries @ map snd returns @ map ue_cogs units"

text \<open>The seller's profit as one sum, without rounding.\<close>

definition exact_profit :: "ledger_table_row list \<Rightarrow> (date option \<times> decimal) list \<Rightarrow> unit_economics list \<Rightarrow> decimal" where
  "exact_profit entries returns units = total_of L_PAYOUT entries - sql_sum snd returns + total_of L_LOGISTICS entries
     + total_of L_STORAGE_FEE entries + total_of L_DEDUCTION entries - sql_sum ue_cogs units"

lemma total_of_nonpos:
  assumes "\<forall>r\<in>set entries. amount_sign_ok (ed_operation_type (lt_entry r)) (ed_amount (lt_entry r))"
    and "op \<in> {L_LOGISTICS, L_STORAGE_FEE, L_DEDUCTION}"
  shows "total_of op entries \<le> 0"
proof -
  have "ed_amount (lt_entry r) \<le> 0" if "r \<in> set entries" "ed_operation_type (lt_entry r) = op" for r
    using bspec [OF assms(1) that(1)] that(2) assms(2) unfolding amount_sign_ok_def expense_ops_def by fastforce
  then show ?thesis unfolding total_of_def sql_sum_def by (intro sum_list_nonpos) auto
qed

lemma totals_within:
  "\<bar>total_of L_PAYOUT entries\<bar> + \<bar>total_of L_LOGISTICS entries\<bar> + \<bar>total_of L_STORAGE_FEE entries\<bar> + \<bar>total_of L_DEDUCTION entries\<bar>
     \<le> (\<Sum>r\<leftarrow>entries. \<bar>ed_amount (lt_entry r)\<bar>)"
proof (induction entries)
  case (Cons r entries)
  show ?case using Cons.IH
    by (cases "ed_operation_type (lt_entry r)") (simp_all add: total_of_def sql_sum_def)
qed (simp add: total_of_def sql_sum_def)

lemma sql_sum_abs: "\<bar>sql_sum f xs\<bar> \<le> (\<Sum>x\<leftarrow>xs. \<bar>f x :: rat\<bar>)"
  using sum_list_abs [of "map f xs"] by (simp add: sql_sum_def comp_def)

lemma sql_sum_grid: "(\<And>x. x \<in> set xs \<Longrightarrow> on_grid s (f x)) \<Longrightarrow> on_grid s (sql_sum f xs)"
  using on_grid_sum_list [of "map f xs" s] by (auto simp: sql_sum_def)

text \<open>With exact amounts no step of the computation rounds.\<close>

lemma kpis_exact:
  assumes amounts: "amounts_within 4 L (settlement_amounts entries returns units)" and L: "L < 10 ^ 24"
    and signs: "\<forall>r\<in>set entries. amount_sign_ok (ed_operation_type (lt_entry r)) (ed_amount (lt_entry r))"
  shows "sk_seller_profit (kpis_of entries (sql_sum snd returns) (sql_sum ue_cogs units)) = exact_profit entries returns units"
proof -
  have grid: "on_grid 4 x" if "x \<in> set (settlement_amounts entries returns units)" for x
    using amounts that by (simp add: amounts_within_def)
  have g: "on_grid 4 (total_of op entries)" "on_grid 4 (sql_sum snd returns)" "on_grid 4 (sql_sum ue_cogs units)" for op
    unfolding total_of_def by (rule sql_sum_grid, rule grid, force simp: settlement_amounts_def)+
  have bound: "(\<Sum>r\<leftarrow>entries. \<bar>ed_amount (lt_entry r)\<bar>) + (\<Sum>r\<leftarrow>returns. \<bar>snd r\<bar>) + (\<Sum>u\<leftarrow>units. \<bar>ue_cogs u\<bar>) \<le> L"
    using amounts by (simp add: amounts_within_def settlement_amounts_def comp_def)
  note abs = sql_sum_abs [of "snd :: date option \<times> rat \<Rightarrow> rat" returns] sql_sum_abs [of ue_cogs units] totals_within [of entries]
  have exact: "dctx x = x" if "on_grid 4 x" "\<bar>x\<bar> \<le> L" for x
    using that L by (intro dctx_exact [of 4]) (simp add: exact_amount_def)
  note nonpos = signs [THEN total_of_nonpos]
  have fees: "dabs (total_of op entries) = - total_of op entries" if "op \<in> {L_LOGISTICS, L_STORAGE_FEE, L_DEDUCTION}" for op
  proof -
    have "dabs (total_of op entries) = dctx (- total_of op entries)" using nonpos [OF that] by (simp add: dabs_def)
    also have "\<dots> = - total_of op entries" using that g(1) [of op] bound abs by (intro exact) (simp, (elim insertE emptyE; simp))
    finally show ?thesis .
  qed
  let ?p = "total_of L_PAYOUT entries" and ?r = "sql_sum snd returns" and ?l = "total_of L_LOGISTICS entries"
    and ?s = "total_of L_STORAGE_FEE entries" and ?d = "total_of L_DEDUCTION entries" and ?c = "sql_sum ue_cogs units"
  have "dsub ?p ?r = ?p - ?r" "dsub (?p - ?r) (- ?l) = ?p - ?r + ?l" "dsub (?p - ?r + ?l) (- ?s) = ?p - ?r + ?l + ?s"
    "dsub (?p - ?r + ?l + ?s) (- ?d) = ?p - ?r + ?l + ?s + ?d" "dsub (?p - ?r + ?l + ?s + ?d) ?c = ?p - ?r + ?l + ?s + ?d - ?c"
    unfolding dsub_def diff_minus_eq_add
    by ((rule exact, intro on_grid_diff on_grid_add g, insert bound abs, linarith)+)
  then show ?thesis by (simp add: kpis_of_def compute_seller_kpis_def exact_profit_def Let_def fees)
qed

text \<open>The canonical reports of the period have entries and returns of the period only.\<close>

definition reports_inside :: "marketplace \<Rightarrow> period \<Rightarrow> 'a analytics_db_scheme \<Rightarrow> bool" where
  "reports_inside mp p db \<longleftrightarrow>
     (\<forall>r\<in>set (cd_ledger db). lt_report_id r \<in> set (canonical_finance_report_ids mp p db) \<longrightarrow> in_period p (entry_day r))
     \<and> (\<forall>r\<in>set (ad_normalized db). st_report_id r \<in> set (canonical_finance_report_ids mp p db) \<longrightarrow> is_return_row r \<longrightarrow> dated_in p r)"

definition period_amounts :: "marketplace \<Rightarrow> period \<Rightarrow> 'a analytics_db_scheme \<Rightarrow> py_error + decimal list" where
  "period_amounts mp p db = (let ids = canonical_finance_report_ids mp p db in
     sbind (return_amounts (settlement_rows ids mp p db)) (\<lambda>returns.
       Inr (settlement_amounts (settlement_entries ids p db) returns (unit_rows mp p db))))"

lemma inside_same:
  assumes "reports_inside mp p db" and ids: "ids = canonical_finance_report_ids mp p db"
  shows "day_entries ids p db = settlement_entries ids p db"
    and "return_amounts (day_return_rows ids mp p db) = return_amounts (settlement_rows ids mp p db)"
proof -
  show "day_entries ids p db = settlement_entries ids p db"
    using assms by (auto simp: day_entries_def settlement_entries_def reports_inside_def entry_day_def intro!: filter_cong)
  have relevant: "List.map_filter return_payout (filter P xs) = List.map_filter return_payout (filter Q xs)"
    if "\<forall>r\<in>set xs. is_return_row r \<longrightarrow> P r = Q r" for P Q xs
    using that by (induction xs) (auto simp: map_filter_simps return_payout_def dec_of_def split: option.split pyval.split)
  have "List.map_filter return_payout (day_return_rows ids mp p db) = List.map_filter return_payout (settlement_rows ids mp p db)"
  proof (cases "ids = []")
    case False
    then have "?thesis \<longleftrightarrow> List.map_filter return_payout (filter (\<lambda>r. dated_in p r \<and> st_report_id r \<in> set ids) (ad_normalized db))
        = List.map_filter return_payout (filter (\<lambda>r. st_report_id r \<in> set ids) (ad_normalized db))"
      by (simp add: day_return_rows_def settlement_rows_def)
    then show ?thesis
      by (rule iffD2) (rule relevant, use assms in \<open>auto simp: reports_inside_def\<close>)
  qed (simp add: day_return_rows_def settlement_rows_def conj_commute)
  then show "return_amounts (day_return_rows ids mp p db) = return_amounts (settlement_rows ids mp p db)"
    by (simp only: return_amounts_def)
qed

lemma return_amounts_dated:
  assumes "return_amounts (day_return_rows ids mp p db) = Inr returns" and "(d, x) \<in> set returns"
  shows "\<exists>day. d = Some day \<and> in_period p day"
proof -
  obtain y where "y \<in> set (List.map_filter return_payout (day_return_rows ids mp p db))" and "fst y = d"
    using smap_set [OF assms(1) [unfolded return_amounts_def]] assms(2) by (auto simp: sbind_Inr_iff split: prod.splits)
  then obtain r where r: "r \<in> set (day_return_rows ids mp p db)" "d = w_operation_date (st_row r)"
    by (auto simp: return_payout_def dec_of_def List.map_filter_def split: if_splits)
  then show ?thesis by (auto simp: day_return_rows_def dated_in_def split: option.splits)
qed

text \<open>The sums of the days, over any days that cover the rows.\<close>

lemma day_sums:
  assumes "distinct days" and "entry_day ` set entries \<subseteq> set days" and "ue_metric_date ` set units \<subseteq> set days"
    and "fst ` set returns \<subseteq> Some ` set days"
  shows "(\<Sum>d\<leftarrow>days. total_of op (filter (\<lambda>r. entry_day r = d) entries)) = total_of op entries"
    and "(\<Sum>d\<leftarrow>days. sql_sum snd (filter (\<lambda>(day, x). day = Some d) returns)) = sql_sum snd returns"
    and "(\<Sum>d\<leftarrow>days. sql_sum ue_cogs (filter (\<lambda>u. ue_metric_date u = d) units)) = sql_sum ue_cogs units"
proof -
  have swap: "filter (\<lambda>r. ed_operation_type (lt_entry r) = op) (filter (\<lambda>r. entry_day r = d) entries)
      = filter (\<lambda>r. entry_day r = d) (filter (\<lambda>r. ed_operation_type (lt_entry r) = op) entries)" for d
    by (simp add: conj_commute)
  show "(\<Sum>d\<leftarrow>days. total_of op (filter (\<lambda>r. entry_day r = d) entries)) = total_of op entries"
    unfolding total_of_def swap unfolding sql_sum_def by (rule sum_list_filter_partition) (use assms in auto)
  show "(\<Sum>d\<leftarrow>days. sql_sum ue_cogs (filter (\<lambda>u. ue_metric_date u = d) units)) = sql_sum ue_cogs units"
    unfolding sql_sum_def by (rule sum_list_filter_partition) (use assms in auto)
  have "sql_sum snd (filter (\<lambda>(day, x). day = Some d) returns) = (\<Sum>x\<leftarrow>filter (\<lambda>x. fst x = Some d) returns. snd x)" for d
    by (simp add: sql_sum_def case_prod_unfold)
  moreover have "(\<Sum>k\<leftarrow>map Some days. \<Sum>x\<leftarrow>filter (\<lambda>x. fst x = k) returns. snd x) = (\<Sum>x\<leftarrow>returns. snd x)"
    by (rule sum_list_filter_partition) (use assms in \<open>auto simp: distinct_map\<close>)
  ultimately show "(\<Sum>d\<leftarrow>days. sql_sum snd (filter (\<lambda>(day, x). day = Some d) returns)) = sql_sum snd returns"
    by (simp add: sql_sum_def comp_def)
qed

lemma sum_abs_filter: "(\<Sum>x\<leftarrow>filter S xs. \<bar>f x :: rat\<bar>) \<le> (\<Sum>x\<leftarrow>xs. \<bar>f x\<bar>)"
  by (induction xs) auto

lemma settlement_amounts_part:
  assumes "amounts_within s L (settlement_amounts entries returns units)"
  shows "amounts_within s L (settlement_amounts (filter P entries) (filter Q returns) (filter R units))"
  using assms sum_abs_filter [where S = P and f = "\<lambda>r. ed_amount (lt_entry r)" and xs = entries]
    sum_abs_filter [where S = Q and f = snd and xs = returns] sum_abs_filter [where S = R and f = ue_cogs and xs = units]
  by (auto simp: amounts_within_def settlement_amounts_def comp_def)

text \<open>
  C12. The daily figures of a period add up to its total: when the canonical reports lie in the period and the
  amounts are exact, the days are in the period, each once, and the profits and revenues of the days sum to those
  of the period.
\<close>

theorem daily_figures_add_up:
  assumes whole: "wb_seller_kpis mp p db = Inr whole" and days: "wb_seller_profit_by_day mp p db = Inr days"
    and inside: "reports_inside mp p db" and figures: "period_amounts mp p db = Inr figures"
    and exact: "amounts_within 4 (10 ^ 20) figures"
    and signs: "\<forall>r\<in>set (cd_ledger db). amount_sign_ok (ed_operation_type (lt_entry r)) (ed_amount (lt_entry r))"
  shows "(\<Sum>(d, k)\<leftarrow>days. sk_seller_profit k) = sk_seller_profit whole \<and> (\<Sum>(d, k)\<leftarrow>days. sk_revenue k) = sk_revenue whole
    \<and> distinct (map fst days) \<and> (\<forall>(d, k)\<in>set days. in_period p d)"
proof -
  let ?ids = "canonical_finance_report_ids mp p db"
  let ?entries = "day_entries ?ids p db" and ?units = "unit_rows mp p db"
  note same = inside_same [OF inside refl]
  obtain returns where returns: "return_amounts (day_return_rows ?ids mp p db) = Inr returns"
    and parts: "figures = settlement_amounts ?entries returns ?units"
    and whole_eq: "whole = kpis_of ?entries (sql_sum snd returns) (sql_sum ue_cogs ?units)"
    using whole figures unfolding wb_seller_kpis_def period_amounts_def Let_def same [symmetric] sbind_Inr_iff by auto
  define ds where "ds = sorted_list_of_set (entry_day ` set ?entries \<union> ue_metric_date ` set ?units \<union> {d. Some d \<in> fst ` set returns})"
  have days_eq: "days = map (\<lambda>d. (d, day_kpis ?entries returns ?units d)) ds"
    using days returns by (simp add: wb_seller_profit_by_day_def Let_def ds_def)
  have "finite {d. Some d \<in> fst ` set returns}" by (rule finite_inverse_image) simp_all
  then have set_ds: "set ds = entry_day ` set ?entries \<union> ue_metric_date ` set ?units \<union> {d. Some d \<in> fst ` set returns}"
    by (simp add: ds_def)
  have distinct: "distinct ds" by (simp add: ds_def)
  have dated: "fst ` set returns \<subseteq> Some ` set ds" using return_amounts_dated [OF returns] by (force simp: set_ds)
  have "entry_day ` set ?entries \<subseteq> set ds" "ue_metric_date ` set ?units \<subseteq> set ds" by (auto simp: set_ds)
  note day = day_sums [OF distinct this dated]
  have signed: "\<forall>r\<in>set ?entries. amount_sign_ok (ed_operation_type (lt_entry r)) (ed_amount (lt_entry r))"
    using signs by (simp add: day_entries_def)
  have L: "(10 ^ 20 :: rat) < 10 ^ 24" by simp
  have profit: "sk_seller_profit (day_kpis ?entries returns ?units d) =
      exact_profit (filter (\<lambda>r. entry_day r = d) ?entries) (filter (\<lambda>(day, x). day = Some d) returns)
        (filter (\<lambda>u. ue_metric_date u = d) ?units)" for d
    unfolding day_kpis_def
    by (rule kpis_exact [OF settlement_amounts_part [OF exact [unfolded parts]] L]) (simp add: signed)
  have "(\<Sum>(d, k)\<leftarrow>days. sk_seller_profit k) = exact_profit ?entries returns ?units"
    by (simp add: days_eq comp_def profit exact_profit_def sum_list_addf sum_list_subtractf day)
  also have "\<dots> = sk_seller_profit whole"
    unfolding whole_eq by (rule kpis_exact [OF exact [unfolded parts] L signed, symmetric])
  finally have "(\<Sum>(d, k)\<leftarrow>days. sk_seller_profit k) = sk_seller_profit whole" .
  moreover have "(\<Sum>(d, k)\<leftarrow>days. sk_revenue k) = sk_revenue whole"
    by (simp add: days_eq whole_eq comp_def day_kpis_def kpis_of_def compute_seller_kpis_def Let_def day)
  moreover have "distinct (map fst days)" using distinct by (simp add: days_eq comp_def)
  moreover have "in_period p d" if "d \<in> set ds" for d
    using that return_amounts_dated [OF returns] by (force simp: set_ds day_entries_def entry_day_def unit_rows_def)
  ultimately show ?thesis by (auto simp: days_eq)
qed

text \<open>A report with a sale, its payout and fees on two days, a return of 30 and a unit cost of 100.\<close>

definition demo_entry :: "date \<Rightarrow> ledger_op \<Rightarrow> decimal \<Rightarrow> ledger_table_row" where
  "demo_entry d op a = \<lparr>lt_report_id = 1, lt_entry = \<lparr>ed_operation_date = d, ed_sku = Some [7], ed_nm_id = None, ed_operation_type = op,
     ed_amount = a, ed_currency = [], ed_source_row_id = [], ed_entry_metadata = None\<rparr>\<rparr>"

definition demo_unit :: "pystr \<Rightarrow> date \<Rightarrow> int \<Rightarrow> decimal \<Rightarrow> unit_economics" where
  "demo_unit sku d units cogs = \<lparr>ue_sku = sku, ue_metric_date = d, ue_marketplace = MP_WILDBERRIES, ue_units_sold = units, ue_revenue = 700,
     ue_returns_amount = 0, ue_payout = 500, ue_commissions = 0, ue_logistics = 0, ue_storage = 0, ue_ads = 0, ue_penalties = 0,
     ue_acquiring = 0, ue_deductions = 0, ue_compensation = 0, ue_cogs = cogs, ue_gross_profit = 0, ue_contribution_margin = 0,
     ue_margin_pct = None, ue_return_rate = None, ue_ad_cost_ratio = None, ue_logistics_burden = None\<rparr>"

definition demo_return :: stored_row where
  "demo_return = \<lparr>st_report_id = 1, st_source_row_index = 0, st_row = \<lparr>w_source_row_id = [], w_source_row_index = 0, w_operation_date = Some 4,
     w_sku = Some [7], w_nm_id = None, w_canonical = (\<lambda>_. VNone)(F_operation_type := VStr (ru ''vozvrat''), F_payout := VDec 30), w_raw = []\<rparr>\<rparr>"

definition demo_period :: period where
  "demo_period = \<lparr>pd_start = 3, pd_end = 5\<rparr>"

definition demo_db :: analytics_db where
  "demo_db = \<lparr>cd_costs = [], cd_products = [], cd_mappings = [],
     cd_ledger = [demo_entry 3 L_PAYOUT 500, demo_entry 3 L_LOGISTICS (- 50), demo_entry 4 L_SALE 700, demo_entry 4 L_DEDUCTION (- 20)],
     cd_projections = \<lparr>pj_daily = [], pj_sku = [], pj_unit_economics = [demo_unit [7] 3 1 100]\<rparr>,
     ad_reports = [\<lparr>an_report_id = 1, an_marketplace = MP_WILDBERRIES, an_report_type = RT_FINANCE, an_processed = True,
       an_period_start = Some 3, an_period_end = Some 5, an_created_at = None, an_promotion_expenses = 0, an_jam_subscription_expenses = 0\<rparr>],
     ad_normalized = [demo_return], ad_snapshots = [], ad_reconciliations = []\<rparr>"

lemma demo_canonical: "canonical_finance_report_ids MP_WILDBERRIES demo_period demo_db = [1]"
  by (simp add: canonical_finance_report_ids_def demo_db_def finance_candidate_def demo_period_def map_filter_simps
      select_canonical_finance_report_ids_def select_canonical_finance_reports_def select_candidate_def sorted_desc_def)

lemma vozvrat_lower: "lower (ru ''vozvrat'') = ru ''vozvrat''"
  by (simp add: ru_def ru_char_def ru_table_def upt_rec lower_def lower_char_def)

lemma demo_is_return: "is_return_row demo_return"
  using vozvrat_lower by (simp add: is_return_row_def demo_return_def text_of_def)

lemma demo_returns: "return_amounts (settlement_rows [1] MP_WILDBERRIES demo_period demo_db) = Inr [(Some 4, 30)]"
proof -
  have "db_numeric 18 4 30 = Inr 30" using on_grid_of_int [of 4 30] by (intro db_numeric_exact) simp_all
  then show ?thesis
    using demo_is_return
    by (simp add: return_amounts_def settlement_rows_def demo_db_def map_filter_simps return_payout_def)
      (simp add: demo_return_def dec_of_def)
qed

theorem daily_figures_add_up_witness:
  "\<exists>whole days. wb_seller_kpis MP_WILDBERRIES demo_period demo_db = Inr whole
     \<and> wb_seller_profit_by_day MP_WILDBERRIES demo_period demo_db = Inr days
     \<and> (\<Sum>(d, k)\<leftarrow>days. sk_seller_profit k) = sk_seller_profit whole \<and> sk_seller_profit whole = 300"
proof -
  let ?db = demo_db and ?p = demo_period
  have inside: "reports_inside MP_WILDBERRIES ?p ?db"
    unfolding reports_inside_def demo_canonical
    by (simp add: demo_db_def demo_entry_def entry_day_def demo_period_def in_period_def dated_in_def demo_return_def)
  have entries: "settlement_entries [1] ?p ?db = cd_ledger ?db"
    by (simp add: settlement_entries_def demo_db_def demo_entry_def)
  have units: "unit_rows MP_WILDBERRIES ?p ?db = [demo_unit [7] 3 1 100]"
    by (simp add: unit_rows_def demo_db_def demo_unit_def demo_period_def in_period_def)
  obtain days where days: "wb_seller_profit_by_day MP_WILDBERRIES ?p ?db = Inr days"
    using demo_returns inside_same(2) [OF inside refl] by (simp add: wb_seller_profit_by_day_def demo_canonical Let_def)
  let ?whole = "kpis_of (cd_ledger ?db) (sql_sum snd [(Some (4::date), 30)]) (sql_sum ue_cogs [demo_unit [7] 3 1 100])"
  let ?figures = "settlement_amounts (cd_ledger ?db) [(Some 4, 30)] [demo_unit [7] 3 1 100]"
  have whole: "wb_seller_kpis MP_WILDBERRIES ?p ?db = Inr ?whole"
    unfolding wb_seller_kpis_def demo_canonical Let_def demo_returns entries units by simp
  have figures: "period_amounts MP_WILDBERRIES ?p ?db = Inr ?figures"
    unfolding period_amounts_def demo_canonical Let_def demo_returns entries units by simp
  have list: "?figures = [500, - 50, 700, - 20, 30, 100]"
    by (simp add: settlement_amounts_def demo_db_def demo_entry_def demo_unit_def)
  have exact: "amounts_within 4 (10 ^ 20) ?figures" unfolding list amounts_within_def by simp
  have signs: "\<forall>r\<in>set (cd_ledger ?db). amount_sign_ok (ed_operation_type (lt_entry r)) (ed_amount (lt_entry r))"
    by (simp add: demo_db_def demo_entry_def amount_sign_ok_def expense_ops_def)
  have "sk_seller_profit ?whole = 300"
    by (subst kpis_exact [OF exact _ signs])
      (simp_all add: exact_profit_def total_of_def sql_sum_def demo_db_def demo_entry_def demo_unit_def)
  moreover have "(\<Sum>(d, k)\<leftarrow>days. sk_seller_profit k) = sk_seller_profit ?whole"
    using daily_figures_add_up [OF whole days inside figures exact signs] by (rule conjunct1)
  ultimately show ?thesis using whole days by blast
qed

section \<open>ABC classes\<close>

text \<open>The cumulative shares that the loop tests.\<close>

primrec cum_shares :: "decimal \<Rightarrow> decimal \<Rightarrow> decimal list \<Rightarrow> decimal list" where
  "cum_shares whole c [] = []"
| "cum_shares whole c (x # xs) =
     (let c' = dadd c (if 0 < whole then ddiv x whole else 0) in c' # cum_shares whole c' xs)"

lemma length_cum_shares [simp]: "length (cum_shares whole c xs) = length xs"
  by (induction xs arbitrary: c) (simp_all add: Let_def)

definition class_of :: "(decimal \<Rightarrow> bool) \<Rightarrow> decimal \<Rightarrow> decimal \<Rightarrow> decimal list \<Rightarrow> decimal list" where
  "class_of P whole c xs = map snd (filter (P \<circ> fst) (zip (cum_shares whole c xs) xs))"

lemma bucket_fold: "foldl (\<lambda>b x. bucket_add x b) (n, a) xs = (n + length xs, foldl dadd a xs)"
  by (induction xs arbitrary: n a) (simp_all add: bucket_add_def)

lemma abc_fold:
  fixes ta tb :: decimal
  assumes "ta = 80 / 100" and "tb = 95 / 100"
  shows "as_a (foldl (abc_step whole) s xs) = foldl (\<lambda>b x. bucket_add x b) (as_a s) (class_of (\<lambda>c. c \<le> ta) whole (as_cum s) xs)
   \<and> as_b (foldl (abc_step whole) s xs) = foldl (\<lambda>b x. bucket_add x b) (as_b s) (class_of (\<lambda>c. ta < c \<and> c \<le> tb) whole (as_cum s) xs)
   \<and> as_c (foldl (abc_step whole) s xs) = foldl (\<lambda>b x. bucket_add x b) (as_c s) (class_of (\<lambda>c. tb < c) whole (as_cum s) xs)"
proof (induction xs arbitrary: s)
  case (Cons x xs)
  define c where "c = dadd (as_cum s) (if 0 < whole then ddiv x whole else 0)"
  have step: "as_cum (abc_step whole s x) = c"
    "as_a (abc_step whole s x) = (if c \<le> ta then bucket_add x (as_a s) else as_a s)"
    "as_b (abc_step whole s x) = (if ta < c \<and> c \<le> tb then bucket_add x (as_b s) else as_b s)"
    "as_c (abc_step whole s x) = (if ta < c \<and> tb < c then bucket_add x (as_c s) else as_c s)"
    unfolding abc_step_def Let_def c_def [symmetric] assms [symmetric] by simp_all
  have cls: "class_of P whole (as_cum s) (x # xs) = (if P c then [x] else []) @ class_of P whole c xs" for P
    by (simp add: class_of_def Let_def c_def)
  have "ta < tb" by (simp add: assms)
  then consider "c \<le> ta" "\<not> tb < c" | "ta < c" "c \<le> tb" | "ta < c" "tb < c" by linarith
  then show ?case
    using Cons.IH [of "abc_step whole s x"] unfolding cls step foldl_Cons by cases simp_all
qed (simp add: class_of_def)

lemma cum_shares_sorted:
  assumes "\<forall>x\<in>set xs. 0 \<le> x"
  shows "sorted (cum_shares whole (dctx c) xs) \<and> (\<forall>y\<in>set (cum_shares whole (dctx c) xs). dctx c \<le> y)"
  using assms
proof (induction xs arbitrary: c)
  case (Cons x xs)
  define y where "y = dctx c + (if 0 < whole then ddiv x whole else 0)"
  have "dctx c \<le> y" using Cons.prems by (simp add: y_def ddiv_def)
  then have "dctx c \<le> dctx y" using dctx_mono [of "dctx c" y] by simp
  moreover have "cum_shares whole (dctx c) (x # xs) = dctx y # cum_shares whole (dctx y) xs"
    by (simp add: Let_def dadd_def y_def)
  ultimately show ?case using Cons.IH [of y] Cons.prems by fastforce
qed simp

lemma filter_zip_sorted:
  assumes "sorted cs" and "length cs = length xs"
  shows "map snd (filter ((\<lambda>c. c \<le> t) \<circ> fst) (zip cs xs)) = take (length (filter (\<lambda>c. c \<le> t) cs)) xs"
    and "map snd (filter ((\<lambda>c. t < c) \<circ> fst) (zip cs xs)) = drop (length (filter (\<lambda>c. c \<le> t) cs)) xs"
  using assms(2,1)
proof (induction cs xs rule: list_induct2)
  case (Cons c cs x xs)
  {
    case 1
    have "filter (\<lambda>c. c \<le> t) cs = [] \<and> filter ((\<lambda>c. c \<le> t) \<circ> fst) (zip cs xs) = []" if "t < c"
      using that 1 by (auto simp: filter_empty_conv dest!: set_zip_leftD)
    moreover have "\<not> t < c" if "c \<le> t" using that by simp
    ultimately show ?case using Cons 1 by (cases "c \<le> t") simp_all
  next
    case 2
    have "filter (\<lambda>c. c \<le> t) cs = [] \<and> filter ((\<lambda>c. t < c) \<circ> fst) (zip cs xs) = zip cs xs" if "t < c"
      using that 2 by (auto simp: filter_empty_conv filter_id_conv dest!: set_zip_leftD)
    moreover have "\<not> t < c" if "c \<le> t" using that by simp
    ultimately show ?case using Cons 2 by (cases "c \<le> t") simp_all
  }
qed simp_all

lemma filter_zip_between:
  assumes "sorted cs" and "length cs = length xs" and "s \<le> t"
  shows "map snd (filter ((\<lambda>c. s < c \<and> c \<le> t) \<circ> fst) (zip cs xs))
    = drop (length (filter (\<lambda>c. c \<le> s) cs)) (take (length (filter (\<lambda>c. c \<le> t) cs)) xs)"
  using assms(2,1)
proof (induction cs xs rule: list_induct2)
  case (Cons c cs x xs)
  have none: "filter (\<lambda>c. c \<le> s) cs = []" if "s < c" using that Cons.prems by (auto simp: filter_empty_conv)
  show ?case
  proof (cases "t < c")
    case True
    then have "filter ((\<lambda>c. s < c \<and> c \<le> t) \<circ> fst) (zip (c # cs) (x # xs)) = []" "filter (\<lambda>c. c \<le> t) (c # cs) = []"
      using Cons.prems by (auto simp: filter_empty_conv dest!: set_zip_leftD)
    then show ?thesis by (simp only: list.map list.size take_0 drop_Nil)
  next
    case False
    moreover have "s < c" if "\<not> c \<le> s" using that by simp
    moreover have "\<not> s < c" if "c \<le> s" using that by simp
    ultimately show ?thesis using Cons none assms(3) by (cases "c \<le> s") simp_all
  qed
qed simp

text \<open>The number of cumulative shares that do not exceed a limit.\<close>

definition shares_upto :: "decimal \<Rightarrow> decimal \<Rightarrow> decimal list \<Rightarrow> nat" where
  "shares_upto t whole xs = length (filter (\<lambda>c. c \<le> t) (cum_shares whole 0 xs))"

lemma shares_upto_le: "shares_upto t whole xs \<le> length xs" "s \<le> t \<Longrightarrow> shares_upto s whole xs \<le> shares_upto t whole xs"
proof -
  show "shares_upto t whole xs \<le> length xs"
    using length_filter_le [of "\<lambda>c. c \<le> t" "cum_shares whole 0 xs"] by (simp add: shares_upto_def)
  assume "s \<le> t"
  then have "filter (\<lambda>c. c \<le> s) (cum_shares whole 0 xs) = filter (\<lambda>c. c \<le> s) (filter (\<lambda>c. c \<le> t) (cum_shares whole 0 xs))"
    by (auto intro: filter_cong)
  then show "shares_upto s whole xs \<le> shares_upto t whole xs" by (simp only: shares_upto_def length_filter_le)
qed

lemma abc_buckets_classes:
  fixes whole :: decimal
  assumes "\<forall>x\<in>set xs. 0 \<le> x"
  defines "i \<equiv> shares_upto (80 / 100) whole xs" and "j \<equiv> shares_upto (95 / 100) whole xs"
  shows "as_a (abc_buckets whole xs) = (i, dsum (take i xs)) \<and> as_b (abc_buckets whole xs) = (j - i, dsum (drop i (take j xs)))
    \<and> as_c (abc_buckets whole xs) = (length xs - j, dsum (drop j xs))"
proof -
  have sorted: "sorted (cum_shares whole 0 xs)" using cum_shares_sorted [OF assms(1), of whole 0] by simp
  have "(80 / 100 :: decimal) \<le> 95 / 100" by simp
  note between = filter_zip_between [OF sorted length_cum_shares this] and split = filter_zip_sorted [OF sorted length_cum_shares]
  have classes: "class_of (\<lambda>c. c \<le> 80 / 100) whole 0 xs = take i xs"
    "class_of (\<lambda>c. 95 / 100 < c) whole 0 xs = drop j xs"
    "class_of (\<lambda>c. 80 / 100 < c \<and> c \<le> 95 / 100) whole 0 xs = drop i (take j xs)"
    unfolding class_of_def i_def j_def shares_upto_def
    by (rule split between)+
  have "i \<le> length xs" "j \<le> length xs" by (simp_all add: i_def j_def shares_upto_le)
  then show ?thesis
    unfolding abc_buckets_def abc_fold [OF refl refl, THEN conjunct1] abc_fold [OF refl refl, THEN conjunct2, THEN conjunct1]
      abc_fold [OF refl refl, THEN conjunct2, THEN conjunct2] abc_state.select_convs classes bucket_fold
    by (simp add: dsum_def min_def)
qed

text \<open>
  C31. When no SKU has a negative revenue, the classes of the ABC analysis are consecutive parts of the ranking by
  revenue: \<open>A\<close> has the SKUs whose cumulative share stays within 80 percent, \<open>B\<close> those up to 95 percent, \<open>C\<close> the
  rest; each class reports the number and the sum of its part.
\<close>

theorem abc_classes_consecutive:
  assumes revenues: "revenues = sku_revenues (metric_rows mp p db)" and "\<forall>x\<in>set revenues. 0 \<le> x"
    and "whole = sql_sum (\<lambda>m. pm_revenue (sm_metrics m)) (metric_rows mp p db)"
    and "i = shares_upto (80 / 100) whole revenues" and "j = shares_upto (95 / 100) whole revenues"
  shows "i \<le> j \<and> j \<le> length revenues \<and> sorted_wrt (\<ge>) revenues \<and> abc_analysis mp p db =
    (abc_bucket_of whole (i, dsum (take i revenues)), abc_bucket_of whole (j - i, dsum (drop i (take j revenues))),
     abc_bucket_of whole (length revenues - j, dsum (drop j revenues)))"
proof -
  have "sorted_wrt (\<ge>) revenues"
    unfolding revenues sku_revenues_def sorted_wrt_map
    by (rule sorted_wrt_mono_rel [OF _ order_by_sorted]) (auto simp: null_high_def)
  with abc_buckets_classes [OF assms(2), of whole] shares_upto_le assms show ?thesis
    by (simp add: abc_analysis_def Let_def)
qed

text \<open>
  A single SKU with more than 95 percent of the revenue is counted in class \<open>C\<close> with all others, and the classes
  \<open>A\<close> and \<open>B\<close> are empty: the share is tested after the revenue of the SKU is added.
\<close>

lemma abc_best_seller_in_c:
  assumes "sku_revenues (metric_rows mp p db) = best # others" and "\<forall>x\<in>set (best # others). 0 \<le> x"
    and "95 / 100 < ddiv best (sql_sum (\<lambda>m. pm_revenue (sm_metrics m)) (metric_rows mp p db))"
    and "0 < sql_sum (\<lambda>m. pm_revenue (sm_metrics m)) (metric_rows mp p db)"
  shows "case abc_analysis mp p db of (a, b, c) \<Rightarrow> ab_sku_count a = 0 \<and> ab_sku_count b = 0 \<and> ab_sku_count c = Suc (length others)"
proof -
  let ?whole = "sql_sum (\<lambda>m. pm_revenue (sm_metrics m)) (metric_rows mp p db)"
  define y where "y = best / ?whole"
  have "cum_shares ?whole 0 (best # others) = dctx y # cum_shares ?whole (dctx y) others"
    using assms(4) by (simp add: ddiv_def y_def Let_def)
  moreover have "\<forall>c\<in>set (cum_shares ?whole (dctx y) others). dctx y \<le> c"
    using cum_shares_sorted [of others ?whole y] assms(2) by simp
  ultimately have none: "shares_upto t ?whole (best # others) = 0" if "t \<le> 95 / 100" for t
    using assms(3) that by (force simp: shares_upto_def filter_empty_conv ddiv_def simp flip: y_def)
  show ?thesis
    using abc_buckets_classes [OF assms(2), of ?whole] none [of "80 / 100"] none [of "95 / 100"]
    by (simp add: abc_analysis_def Let_def assms(1) abc_bucket_of_def)
qed

text \<open>Three SKUs on one day.\<close>

definition demo_metric :: "pystr \<Rightarrow> decimal \<Rightarrow> sku_daily_metric" where
  "demo_metric sku revenue = \<lparr>sm_sku = sku, sm_metric_date = 4, sm_marketplace = MP_WILDBERRIES, sm_metrics = \<lparr>pm_revenue = revenue,
     pm_net_profit = 0, pm_margin = None, pm_roi = None, pm_return_rate = None, pm_buyout_rate = None, pm_average_check = None,
     pm_units_sold = 1\<rparr>\<rparr>"

definition abc_db :: "decimal \<Rightarrow> decimal \<Rightarrow> decimal \<Rightarrow> analytics_db" where
  "abc_db a b c = \<lparr>cd_costs = [], cd_products = [], cd_mappings = [], cd_ledger = [],
     cd_projections = \<lparr>pj_daily = [], pj_sku = [demo_metric [2] b, demo_metric [1] a, demo_metric [3] c], pj_unit_economics = []\<rparr>,
     ad_reports = [], ad_normalized = [], ad_snapshots = [], ad_reconciliations = []\<rparr>"

lemma abc_db_rows: "metric_rows MP_WILDBERRIES \<lparr>pd_start = 3, pd_end = 5\<rparr> (abc_db a b c) = [demo_metric [2] b, demo_metric [1] a, demo_metric [3] c]"
  by (simp add: metric_rows_def abc_db_def demo_metric_def in_period_def)

lemma abc_db_revenues:
  assumes "b < a" and "c < b"
  shows "sku_revenues [demo_metric [2] b, demo_metric [1] a, demo_metric [3] c] = [a, b, c]"
  using assms
  by (simp add: sku_revenues_def order_by_def sorted_desc_def null_high_def group_by_def group_add_def dict_get_def demo_metric_def sql_sum_def)

lemma abc_db_whole:
  "sql_sum (\<lambda>m. pm_revenue (sm_metrics m)) [demo_metric [2] b, demo_metric [1] a, demo_metric [3] c] = a + b + c"
  by (simp add: sql_sum_def demo_metric_def)

theorem abc_classes_consecutive_witness:
  "case abc_analysis MP_WILDBERRIES \<lparr>pd_start = 3, pd_end = 5\<rparr> (abc_db 70 20 10) of
     (a, b, c) \<Rightarrow> (ab_sku_count a, ab_sku_count b, ab_sku_count c) = (1, 1, 1) \<and> (ab_revenue a, ab_revenue b, ab_revenue c) = (70, 20, 10)"
proof -
  let ?p = "\<lparr>pd_start = 3, pd_end = 5\<rparr>"
  have exact: "dctx (of_int n / 10) = of_int n / 10" if "\<bar>n\<bar> < 1000" for n
  proof (rule dctx_exact [of 1])
    have "\<bar>of_int n :: rat\<bar> < 1000" using that by (simp flip: of_int_abs)
    then show "exact_amount 1 (of_int n / 10)" by (simp add: exact_amount_def on_grid_def)
  qed
  have revenues: "sku_revenues (metric_rows MP_WILDBERRIES ?p (abc_db 70 20 10)) = [70, 20, 10]"
    unfolding abc_db_rows by (rule abc_db_revenues) simp_all
  have whole: "sql_sum (\<lambda>m. pm_revenue (sm_metrics m)) (metric_rows MP_WILDBERRIES ?p (abc_db 70 20 10)) = 100"
    unfolding abc_db_rows abc_db_whole by simp
  have v: "dctx (7 / 10) = 7 / 10" "dctx (1 / 5) = 1 / 5" "dctx (1 / 10) = 1 / 10" "dctx (9 / 10) = 9 / 10" "dctx 1 = 1"
    using exact [of 7] exact [of 2] exact [of 1] exact [of 9] exact [of 10] by simp_all
  have shares: "cum_shares 100 0 [70, 20, 10] = [7 / 10, 9 / 10, 1]"
    by (simp add: ddiv_def dadd_def Let_def v)
  have upto: "shares_upto (80 / 100) 100 [70, 20, 10] = 1" "shares_upto (95 / 100) 100 [70, 20, 10] = 2"
    unfolding shares_upto_def shares by simp_all
  show ?thesis
    using abc_classes_consecutive [OF revenues [symmetric] _ whole [symmetric] upto [symmetric]] exact [of 700] exact [of 200] exact [of 100]
    by (simp add: abc_bucket_of_def dsum_def)
qed

theorem abc_best_seller_in_c_witness:
  "case abc_analysis MP_WILDBERRIES \<lparr>pd_start = 3, pd_end = 5\<rparr> (abc_db 97 2 1) of
     (a, b, c) \<Rightarrow> ab_sku_count a = 0 \<and> ab_sku_count b = 0 \<and> ab_sku_count c = 3"
proof -
  let ?p = "\<lparr>pd_start = 3, pd_end = 5\<rparr>"
  have revenues: "sku_revenues (metric_rows MP_WILDBERRIES ?p (abc_db 97 2 1)) = [97, 2, 1]"
    unfolding abc_db_rows by (rule abc_db_revenues) simp_all
  have whole: "sql_sum (\<lambda>m. pm_revenue (sm_metrics m)) (metric_rows MP_WILDBERRIES ?p (abc_db 97 2 1)) = 100"
    unfolding abc_db_rows abc_db_whole by simp
  have "ddiv 97 100 = 97 / 100" unfolding ddiv_def by (rule dctx_exact [of 2]) (simp add: exact_amount_def on_grid_def)
  with abc_best_seller_in_c [OF revenues] show ?thesis by (simp add: whole numeral_3_eq_3)
qed

section \<open>Gaps in the data\<close>

definition covers :: "missing_range list \<Rightarrow> date \<Rightarrow> bool" where
  "covers rs d \<longleftrightarrow> (\<exists>r\<in>set rs. mr_start r \<le> d \<and> d \<le> mr_end r)"

definition range_ok :: "missing_range \<Rightarrow> bool" where
  "range_ok r \<longleftrightarrow> 0 < mr_days r \<and> mr_days r = mr_end r - mr_start r + 1"

lemma missing_loop_length: "length missing < limit \<Longrightarrow> length (missing_loop limit prev missing days) \<le> limit"
  by (induction limit prev missing days rule: missing_loop.induct) (auto simp: Let_def)

lemma missing_loop_exact:
  "sorted (prev # days) \<Longrightarrow> length (missing_loop limit prev missing days) < limit \<Longrightarrow>
    covers (missing_loop limit prev missing days) d \<longleftrightarrow>
      covers missing d \<or> prev < d \<and> d \<notin> set days \<and> (\<exists>b\<in>set days. d < b)"
proof (induction limit prev missing days rule: missing_loop.induct)
  case (2 limit prev missing cur days)
  let ?new = "missing @ [\<lparr>mr_start = prev + 1, mr_end = cur - 1, mr_days = (cur - 1) - (prev + 1) + 1\<rparr>]"
  have new: "covers ?new d \<longleftrightarrow> covers missing d \<or> prev < d \<and> d < cur" by (auto simp: covers_def)
  have days: "sorted (cur # days)" "prev \<le> cur" "\<forall>b\<in>set days. cur \<le> b" using "2.prems"(1) by auto
  show ?case
  proof (cases "1 < cur - prev")
    case True
    then have loop: "missing_loop limit prev missing (cur # days) = (if limit \<le> length ?new then ?new else missing_loop limit cur ?new days)"
      by (simp add: Let_def)
    with "2.prems"(2) have "\<not> limit \<le> length ?new" by (auto split: if_splits)
    moreover from this have "covers (missing_loop limit cur ?new days) d \<longleftrightarrow>
        covers ?new d \<or> cur < d \<and> d \<notin> set days \<and> (\<exists>b\<in>set days. d < b)"
      using "2.prems" loop days(1) by (intro "2.IH"(1) [OF True refl]) auto
    ultimately show ?thesis unfolding loop new using days True by force
  next
    case False
    then have loop: "missing_loop limit prev missing (cur # days) = missing_loop limit cur missing days" by simp
    have "covers (missing_loop limit cur missing days) d \<longleftrightarrow>
        covers missing d \<or> cur < d \<and> d \<notin> set days \<and> (\<exists>b\<in>set days. d < b)"
      using "2.prems" False days(1) by (intro "2.IH"(2)) auto
    then show ?thesis unfolding loop using days False by force
  qed
qed simp

lemma missing_loop_ranges:
  "\<forall>r\<in>set missing. range_ok r \<Longrightarrow> r \<in> set (missing_loop limit prev missing days) \<Longrightarrow> range_ok r"
proof (induction limit prev missing days rule: missing_loop.induct)
  case (2 limit prev missing cur days)
  then show ?case by (simp add: Let_def range_ok_def split: if_splits) fastforce+
qed simp

text \<open>
  The gaps of a list of days, when they are fewer than the limit, hold exactly the days between two days of the
  list that are not in it; a gap has as many days as it says, at least one, and there are never more gaps than the limit.
\<close>

lemma missing_ranges_exact:
  assumes "sorted days" and "ranges = compute_missing_ranges days limit" and "0 < limit"
  shows "length ranges \<le> limit \<and> (\<forall>r\<in>set ranges. range_ok r) \<and> (length ranges < limit \<longrightarrow>
    (\<forall>d. covers ranges d \<longleftrightarrow> d \<notin> set days \<and> (\<exists>a\<in>set days. a < d) \<and> (\<exists>b\<in>set days. d < b)))"
proof (cases days)
  case (Cons first rest)
  have loop: "ranges = missing_loop limit first [] rest" by (simp add: assms(2) compute_missing_ranges_def Cons)
  have "length ranges \<le> limit" using missing_loop_length [of "[]" limit first rest] assms(3) by (simp add: loop)
  moreover have "range_ok r" if "r \<in> set ranges" for r
    using missing_loop_ranges [of "[]" r limit first rest] that by (simp add: loop)
  moreover have "covers ranges d \<longleftrightarrow> d \<notin> set days \<and> (\<exists>a\<in>set days. a < d) \<and> (\<exists>b\<in>set days. d < b)" if "length ranges < limit" for d
    using missing_loop_exact [of first rest limit "[]" d] that assms(1)
    by (auto simp: loop Cons covers_def intro: order.strict_trans1)
  ultimately show ?thesis by blast
qed (simp add: assms compute_missing_ranges_def covers_def)

theorem missing_ranges_exact_witness:
  "covers (compute_missing_ranges [3, 4, 8, 9] 50) 6 \<and> \<not> covers (compute_missing_ranges [3, 4, 8, 9] 50) 8"
proof -
  have "length (compute_missing_ranges [3, 4, 8, 9] 50) < 50" by (simp add: compute_missing_ranges_def Let_def)
  with missing_ranges_exact [of "[3, 4, 8, 9]" "compute_missing_ranges [3, 4, 8, 9] 50" 50]
  show ?thesis by (auto simp del: compute_missing_ranges_def)
qed

end
