(* ===== verification/Inventory_Analytics.thy ===== *)
theory Inventory_Analytics
  imports Financial_Integrity
begin

text \<open>
  What the stock snapshots tell the seller: stock economics, slow movers and dead stock
  (\<open>app/services/analytics_service.py\<close>) and the inventory signals of the analysts
  (\<open>app/domain/inventory/intelligence.py\<close>). Both read the snapshots of the last day of a period and the cost in
  force on it, which is the column \<open>cost\<close> of the history.
\<close>

section \<open>Queries\<close>

definition snapshots_of :: "pystr \<Rightarrow> (stock_snapshot \<Rightarrow> bool) \<Rightarrow> 'a analytics_db_scheme \<Rightarrow> stock_snapshot list" where
  "snapshots_of version P db = filter (\<lambda>s. ss_semantics_version s = version \<and> ss_sku s \<noteq> None \<and> P s) (ad_snapshots db)"

definition latest_stock_date :: "date \<Rightarrow> pystr \<Rightarrow> 'a analytics_db_scheme \<Rightarrow> date option" where
  "latest_stock_date period_end version db =
     sql_max ss_snapshot_date (filter (\<lambda>s. ss_snapshot_date s \<le> period_end \<and> ss_semantics_version s = version) (ad_snapshots db))"

text \<open>
  The greatest effective date of a SKU among the records in force, and the rows that have it, the last one winning;
  the rows of the join need not be in force themselves.
\<close>

definition unit_costs_as_of :: "date \<Rightarrow> cost_row list \<Rightarrow> (pystr \<times> decimal) list" where
  "unit_costs_as_of as_of costs =
     fold (\<lambda>r. AList.update (cw_internal_sku r) (cw_cost r))
       (filter (\<lambda>r. sql_max cw_effective_from (filter (\<lambda>x. cw_internal_sku x = cw_internal_sku r \<and> cost_in_force as_of x) costs)
          = Some (cw_effective_from r)) costs) []"

definition stock_by_sku :: "pystr \<Rightarrow> date \<Rightarrow> (pystr \<Rightarrow> bool) \<Rightarrow> 'a analytics_db_scheme \<Rightarrow> (pystr \<times> int) list" where
  "stock_by_sku version day wanted db =
     map (\<lambda>(sku, g). (sku, sql_sum ss_actual_stock g))
       (group_by (\<lambda>s. the (ss_sku s)) (snapshots_of version (\<lambda>s. ss_snapshot_date s = day \<and> wanted (the (ss_sku s))) db))"

definition sold_and_average :: "db_engine \<Rightarrow> pystr \<Rightarrow> period \<Rightarrow> 'a analytics_db_scheme \<Rightarrow> pystr \<Rightarrow> int \<times> decimal option" where
  "sold_and_average e version p db sku =
     (let rows = snapshots_of version (\<lambda>s. in_period p (ss_snapshot_date s) \<and> ss_sku s = Some sku) db
      in (sql_sum ss_sold_units rows, sql_avg e (\<lambda>s. Some (of_int (ss_actual_stock s))) rows))"

definition last_sale_date :: "pystr \<Rightarrow> period \<Rightarrow> 'a analytics_db_scheme \<Rightarrow> pystr \<Rightarrow> date option" where
  "last_sale_date version p db sku =
     sql_max ss_snapshot_date (snapshots_of version (\<lambda>s. in_period p (ss_snapshot_date s) \<and> ss_sku s = Some sku \<and> 0 < ss_sold_units s) db)"

definition period_days :: "period \<Rightarrow> int" where
  "period_days p = max (pd_end p - pd_start p + 1) 1"

definition frozen_of :: "(pystr \<times> decimal) list \<Rightarrow> pystr \<Rightarrow> int \<Rightarrow> decimal option" where
  "frozen_of costs sku stock = map_option (\<lambda>c. dmul (of_int stock) c) (map_of costs sku)"

text \<open>\<open>frozen_capital or Decimal("-1")\<close>: a capital of zero sorts with the missing ones.\<close>

definition frozen_key :: "decimal option \<Rightarrow> decimal" where
  "frozen_key f = (case f of None \<Rightarrow> - 1 | Some x \<Rightarrow> if x = 0 then - 1 else x)"

section \<open>Tables of the warehouse\<close>

text \<open>\<open>warehouse_analytics\<close> lists the snapshots of a day as they are.\<close>

definition warehouse_analytics :: "date \<Rightarrow> pystr \<Rightarrow> 'a analytics_db_scheme \<Rightarrow> stock_snapshot list" where
  "warehouse_analytics day version db =
     filter (\<lambda>s. ss_snapshot_date s = day \<and> ss_semantics_version s = version) (ad_snapshots db)"

text \<open>\<open>COUNT(DISTINCT warehouse_name)\<close> does not count \<open>NULL\<close>.\<close>

definition inventory_risk :: "date \<Rightarrow> pystr \<Rightarrow> 'a analytics_db_scheme \<Rightarrow> nat \<times> decimal" where
  "inventory_risk day version db =
     (let rows = filter (\<lambda>s. ss_discrepancy_units s \<noteq> 0) (warehouse_analytics day version db)
      in (card (set (List.map_filter ss_warehouse_name rows)), sql_sum ss_discrepancy_cost rows))"

section \<open>Stock economics\<close>

record stock_economics_row =
  sr_sku :: pystr
  sr_stock_units :: int
  sr_sold_units :: int
  sr_avg_stock_units :: "decimal option"
  sr_turnover :: turnover_result
  sr_frozen_capital :: "decimal option"
  sr_unit_cost :: "decimal option"
  sr_days_since_last_sale :: "int option"
  sr_stock_risk :: stock_risk

definition economics_item :: "db_engine \<Rightarrow> pystr \<Rightarrow> period \<Rightarrow> date \<Rightarrow> (pystr \<times> decimal) list \<Rightarrow> 'a analytics_db_scheme \<Rightarrow>
    pystr \<times> int \<Rightarrow> stock_economics_row" where
  "economics_item e version p day costs db = (\<lambda>(sku, stock).
     (let (sold, avg) = sold_and_average e version p db sku; days = period_days p;
          since = map_option (\<lambda>d. day - d) (last_sale_date version p db sku)
      in \<lparr>sr_sku = sku, sr_stock_units = stock, sr_sold_units = sold, sr_avg_stock_units = avg,
          sr_turnover = compute_turnover sold avg days, sr_frozen_capital = frozen_of costs sku stock,
          sr_unit_cost = map_of costs sku, sr_days_since_last_sale = since,
          sr_stock_risk = stock_risk_label stock sold days since\<rparr>))"

definition inventory_economics :: "db_engine \<Rightarrow> period \<Rightarrow> nat \<Rightarrow> pystr option \<Rightarrow> pystr \<Rightarrow> 'a analytics_db_scheme \<Rightarrow>
    date option \<times> nat \<times> stock_economics_row list" where
  "inventory_economics e p limit query version db =
     (case latest_stock_date (pd_end p) version db of
        None \<Rightarrow> (None, 0, [])
      | Some day \<Rightarrow>
          (let stock = stock_by_sku version day (matches_query e query) db; costs = unit_costs_as_of day (cd_costs db)
           in (Some day, length stock,
               take limit (sorted_desc (\<lambda>r. frozen_key (sr_frozen_capital r)) (map (economics_item e version p day costs db) stock)))))"

section \<open>Slow movers and dead stock\<close>

record idle_row =
  ir_sku :: pystr
  ir_stock_units :: int
  ir_frozen_capital :: "decimal option"
  ir_unit_cost :: "decimal option"
  ir_days_since_last_sale :: int

definition idle_item :: "pystr \<Rightarrow> period \<Rightarrow> date \<Rightarrow> (pystr \<times> decimal) list \<Rightarrow> 'a analytics_db_scheme \<Rightarrow> pystr \<times> int \<Rightarrow> idle_row" where
  "idle_item version p day costs db = (\<lambda>(sku, stock).
     \<lparr>ir_sku = sku, ir_stock_units = stock, ir_frozen_capital = frozen_of costs sku stock, ir_unit_cost = map_of costs sku,
      ir_days_since_last_sale = days_since day (last_sale_date version p db sku) (pd_start p)\<rparr>)"

text \<open>\<open>inventory_slow_movers\<close> and \<open>inventory_dead_stock\<close> differ in their default thresholds (30 and 60 days) only.\<close>

definition idle_stock :: "period \<Rightarrow> int \<Rightarrow> nat \<Rightarrow> pystr \<Rightarrow> 'a analytics_db_scheme \<Rightarrow> date option \<times> idle_row list" where
  "idle_stock p threshold limit version db =
     (case latest_stock_date (pd_end p) version db of
        None \<Rightarrow> (None, [])
      | Some day \<Rightarrow>
          (let costs = unit_costs_as_of day (cd_costs db);
               stock = filter (\<lambda>(sku, n). 0 < n) (stock_by_sku version day (\<lambda>_. True) db)
           in (Some day, take limit (sorted_desc (\<lambda>r. frozen_key (ir_frozen_capital r))
                (filter (\<lambda>r. threshold \<le> ir_days_since_last_sale r) (map (idle_item version p day costs db) stock))))))"

definition inventory_slow_movers :: "period \<Rightarrow> int \<Rightarrow> nat \<Rightarrow> pystr \<Rightarrow> 'a analytics_db_scheme \<Rightarrow> date option \<times> idle_row list" where
  "inventory_slow_movers p threshold limit version db = idle_stock p threshold limit version db"

definition inventory_dead_stock :: "period \<Rightarrow> int \<Rightarrow> nat \<Rightarrow> pystr \<Rightarrow> 'a analytics_db_scheme \<Rightarrow> date option \<times> idle_row list" where
  "inventory_dead_stock p threshold limit version db = idle_stock p threshold limit version db"

section \<open>Inventory intelligence\<close>

record sku_signal =
  sg_sku :: pystr
  sg_stock_units :: int
  sg_frozen_capital :: "decimal option"
  sg_days_since_last_sale :: int
  sg_share_pct :: decimal

datatype risk_level = RL_low | RL_medium | RL_high

record inventory_intelligence =
  ii_available :: bool
  ii_turnover_available :: bool
  ii_frozen_available :: bool
  ii_snapshot_date :: "date option"
  ii_total_skus :: nat
  ii_total_frozen :: decimal
  ii_frozen_share_pct :: "decimal option"
  ii_slow_mover_count :: nat
  ii_dead_stock_count :: nat
  ii_overstock_count :: nat
  ii_concentration_pct :: "decimal option"
  ii_risk_level :: risk_level
  ii_slow_movers :: "sku_signal list"
  ii_dead_stock :: "sku_signal list"
  ii_top_frozen :: "sku_signal list"

definition slow_mover_threshold_days :: int where "slow_mover_threshold_days = 30"
definition dead_stock_threshold_days :: int where "dead_stock_threshold_days = 60"
definition inventory_risk_item_threshold :: nat where "inventory_risk_item_threshold = 3"

definition inventory_risk_level :: "nat \<Rightarrow> nat \<Rightarrow> decimal option \<Rightarrow> decimal option \<Rightarrow> risk_level" where
  "inventory_risk_level slow dead frozen_share concentration =
     (let at_least = (\<lambda>x t. case x of None \<Rightarrow> False | Some v \<Rightarrow> t \<le> v) in
      if inventory_risk_item_threshold \<le> dead then RL_high
      else if at_least frozen_share 30 then RL_high
      else if at_least concentration 70 then RL_high
      else if inventory_risk_item_threshold \<le> slow then RL_medium
      else if at_least frozen_share 20 then RL_medium
      else if at_least concentration 60 then RL_medium
      else if 0 < dead \<or> 0 < slow then RL_medium else RL_low)"

definition no_intelligence :: inventory_intelligence where
  "no_intelligence = \<lparr>ii_available = False, ii_turnover_available = False, ii_frozen_available = False, ii_snapshot_date = None,
     ii_total_skus = 0, ii_total_frozen = 0, ii_frozen_share_pct = None, ii_slow_mover_count = 0, ii_dead_stock_count = 0,
     ii_overstock_count = 0, ii_concentration_pct = None, ii_risk_level = RL_low, ii_slow_movers = [], ii_dead_stock = [],
     ii_top_frozen = []\<rparr>"

text \<open>What the loop over the stock makes of a SKU: the signal, its risk, and whether it shows a turnover.\<close>

definition sku_signal_of :: "db_engine \<Rightarrow> pystr \<Rightarrow> period \<Rightarrow> date \<Rightarrow> (pystr \<times> decimal) list \<Rightarrow> 'a analytics_db_scheme \<Rightarrow>
    pystr \<times> int \<Rightarrow> sku_signal \<times> stock_risk \<times> bool" where
  "sku_signal_of e version p day costs db = (\<lambda>(sku, stock).
     (let (sold, avg) = sold_and_average e version p db sku; days = period_days p;
          idle = days_since day (last_sale_date version p db sku) (pd_start p)
      in (\<lparr>sg_sku = sku, sg_stock_units = stock, sg_frozen_capital = frozen_of costs sku stock, sg_days_since_last_sale = idle,
             sg_share_pct = 0\<rparr>,
          stock_risk_label stock sold days (Some idle),
          to_turnover_ratio (compute_turnover sold avg days) \<noteq> None \<and> 0 < sold)))"

definition frozen_value :: "sku_signal \<Rightarrow> decimal" where
  "frozen_value s = or_zero (sg_frozen_capital s)"

definition share_of :: "decimal \<Rightarrow> decimal \<Rightarrow> py_error + decimal" where
  "share_of x whole = dquantize 1 (dmul (ddiv x whole) 100)"

definition optional_share :: "bool \<Rightarrow> decimal \<Rightarrow> decimal \<Rightarrow> py_error + decimal option" where
  "optional_share cond x whole = (if cond then sbind (share_of x whole) (\<lambda>s. Inr (Some s)) else Inr None)"

definition by_frozen :: "sku_signal list \<Rightarrow> sku_signal list" where
  "by_frozen xs = sorted_desc (\<lambda>s. frozen_key (sg_frozen_capital s)) xs"

definition signals_of_stock :: "db_engine \<Rightarrow> pystr \<Rightarrow> period \<Rightarrow> date \<Rightarrow> 'a analytics_db_scheme \<Rightarrow> (sku_signal \<times> stock_risk \<times> bool) list" where
  "signals_of_stock e version p day db =
     map (sku_signal_of e version p day (unit_costs_as_of day (cd_costs db)) db)
       (filter (\<lambda>(sku, n). 0 < n) (stock_by_sku version day (\<lambda>_. True) db))"

definition intelligence_of :: "date \<Rightarrow> nat \<Rightarrow> decimal \<Rightarrow> (sku_signal \<times> stock_risk \<times> bool) list \<Rightarrow> py_error + inventory_intelligence" where
  "intelligence_of day total_skus total_revenue found =
     (let signals = map fst found;
          dead = by_frozen (filter (\<lambda>s. dead_stock_threshold_days \<le> sg_days_since_last_sale s) signals);
          slow = by_frozen (filter (\<lambda>s. slow_mover_threshold_days \<le> sg_days_since_last_sale s
            \<and> sg_days_since_last_sale s < dead_stock_threshold_days) signals);
          frozen = by_frozen (filter (\<lambda>s. 0 < frozen_value s) signals);
          whole = dsum (map frozen_value frozen)
      in sbind (optional_share (0 < total_revenue \<and> 0 < whole) whole total_revenue) (\<lambda>share.
         sbind (optional_share (0 < whole \<and> 2 \<le> length frozen) (dsum (map frozen_value (take 3 frozen))) whole) (\<lambda>concentration.
         sbind (if 0 < whole then smap (\<lambda>s. sbind (share_of (frozen_value s) whole) (\<lambda>x. Inr (s\<lparr>sg_share_pct := x\<rparr>))) (take 5 frozen)
           else Inr []) (\<lambda>top.
           Inr \<lparr>ii_available = True, ii_turnover_available = list_ex (\<lambda>(s, r, t). t) found, ii_frozen_available = (0 < whole),
             ii_snapshot_date = Some day, ii_total_skus = total_skus, ii_total_frozen = whole, ii_frozen_share_pct = share,
             ii_slow_mover_count = length slow, ii_dead_stock_count = length dead,
             ii_overstock_count = length (filter (\<lambda>(s, r, t). r = RISK_OVERSTOCK) found), ii_concentration_pct = concentration,
             ii_risk_level = inventory_risk_level (length slow) (length dead) share concentration,
             ii_slow_movers = take 5 slow, ii_dead_stock = take 5 dead, ii_top_frozen = top\<rparr>))))"

definition build_inventory_intelligence :: "db_engine \<Rightarrow> period \<Rightarrow> decimal \<Rightarrow> pystr \<Rightarrow> 'a analytics_db_scheme \<Rightarrow> py_error + inventory_intelligence" where
  "build_inventory_intelligence e p total_revenue version db =
     (case latest_stock_date (pd_end p) version db of
        None \<Rightarrow> Inr no_intelligence
      | Some day \<Rightarrow>
          (if filter (\<lambda>s. in_period p (ss_snapshot_date s)) (ad_snapshots db) = [] then Inr no_intelligence
           else (let stock = stock_by_sku version day (\<lambda>_. True) db in
             if stock = [] then Inr no_intelligence
             else intelligence_of day (length stock) total_revenue (signals_of_stock e version p day db))))"

section \<open>Bullets\<close>

datatype inventory_bullet = Dead_stock nat | Slow_turnover nat | Frozen_share decimal decimal | Frozen_only decimal | Concentration decimal

text \<open>The fields of the metrics snapshot that the bullets read; the total is shown in cents.\<close>

definition inventory_deep_bullets :: "inventory_intelligence \<Rightarrow> py_error + inventory_bullet list" where
  "inventory_deep_bullets r =
     sbind (if 0 < ii_total_frozen r then sbind (dquantize 2 (ii_total_frozen r)) (\<lambda>x. Inr (Some x)) else Inr None) (\<lambda>frozen.
       Inr (if \<not> ii_available r then []
            else take 4 ((if ii_dead_stock_count r \<noteq> 0 then [Dead_stock (ii_dead_stock_count r)] else [])
              @ (if ii_slow_mover_count r \<noteq> 0 then [Slow_turnover (ii_slow_mover_count r)] else [])
              @ (case frozen of None \<Rightarrow> [] | Some f \<Rightarrow> (case ii_frozen_share_pct r of Some s \<Rightarrow> [Frozen_share f s] | None \<Rightarrow> [Frozen_only f]))
              @ (case ii_concentration_pct r of None \<Rightarrow> [] | Some c \<Rightarrow> if 60 \<le> c then [Concentration c] else []))))"

end
