(* ===== verification/Cost_Properties.thy ===== *)
theory Cost_Properties
  imports Cost_Service
begin

text \<open>
  Properties of the unit costs: importing a cost file again, rows that a file repeats, the cost in force after a new
  record, and the list of the costs in force on a day.
\<close>

section \<open>Importing again\<close>

lemma db_numeric_on_grid: "on_grid s x \<Longrightarrow> db_numeric p s x = Inr y \<Longrightarrow> y = x"
proof -
  assume "on_grid s x" and y: "db_numeric p s x = Inr y"
  then obtain n where n: "x * 10 ^ s = of_int n" by (auto simp: on_grid_def elim: Ints_cases)
  then have "x = of_int n / 10 ^ s" by (metis nonzero_mult_div_cancel_right power_not_zero zero_neq_numeral)
  then show "y = x" using y by (simp add: db_numeric_def n split: if_splits)
qed

lemma smap_InrD: "smap f xs = Inr ys \<Longrightarrow> \<forall>x\<in>set xs. \<exists>y. f x = Inr y"
  using smap_Inr_iff [of f xs] by blast

lemma flush_fields:
  assumes "flush_cost_row r = Inr r'"
  shows "cw_internal_sku r' = cw_internal_sku r" "cw_effective_from r' = cw_effective_from r" "cw_currency r' = cw_currency r"
    "cw_created_at r' = cw_created_at r" "db_numeric 14 2 (cw_cost r) = Inr (cw_cost r')"
  using assms by (auto simp: flush_cost_row_def sbind_Inr_iff)

lemma map_sbind: "map_sum id g (sbind a f) = sbind a (\<lambda>x. map_sum id g (f x))"
  by (cases a) simp_all

lemma flush_stamp: "flush_cost_row (stamp rid now r) = map_sum id (stamp rid now) (flush_cost_row r)"
  by (cases r) (simp add: flush_cost_row_def map_sbind stamp_def)

lemma import_rows_total:
  "(\<exists>s'. import_rows cr cols ids now known table rows s = Inr s') \<longleftrightarrow> (\<forall>(i, row)\<in>set rows. \<exists>a. accept_row cr cols 0 0 row = Inr a)"
proof (induction rows arbitrary: s)
  case Nil
  then show ?case by simp
next
  case (Cons p rows)
  obtain i row where p: "p = (i, row)" by (cases p)
  have "(\<exists>t. import_row cr cols ids now known table (i, row) s = Inr t) \<longleftrightarrow> (\<exists>a. accept_row cr cols 0 0 row = Inr a)"
    by (cases "accept_row cr cols 0 0 row")
      (auto simp: import_row_def accept_row_stamp [of cr cols "ids (length (is_created s))" now] Let_def split: sum.splits)
  then have "(\<exists>t. import_row cr cols ids now known table (i, row) s = Inr t \<and>
      (\<forall>(i, row)\<in>set rows. \<exists>a. accept_row cr cols 0 0 row = Inr a)) \<longleftrightarrow>
    (\<forall>(i, row)\<in>set (p # rows). \<exists>a. accept_row cr cols 0 0 row = Inr a)" by (simp add: p)
  moreover have "(\<exists>s'. import_rows cr cols ids now known table (p # rows) s = Inr s') \<longleftrightarrow>
      (\<exists>t. import_row cr cols ids now known table (i, row) s = Inr t \<and> (\<exists>s'. import_rows cr cols ids now known table rows t = Inr s'))"
    by (auto simp: p sbind_Inr_iff)
  ultimately show ?case by (simp only: Cons.IH)
qed

text \<open>A row newer than all others comes first.\<close>

lemma sorted_desc_newest: "(\<And>x. x \<in> set xs \<Longrightarrow> f x < f y) \<Longrightarrow> sorted_desc f (xs @ [y]) = y # sorted_desc f xs"
proof -
  assume less: "\<And>x. x \<in> set xs \<Longrightarrow> f x < f y"
  have ins: "insort_key f y zs = zs @ [y]" if "\<And>x. x \<in> set zs \<Longrightarrow> f x < f y" for zs
    using that by (induction zs) (fastforce dest: leD)+
  have "insort_key f y (sort_key f (rev xs)) = sort_key f (rev xs) @ [y]" by (rule ins) (use less in simp)
  then show ?thesis by (simp add: sorted_desc_def)
qed

abbreviation cost_key :: "cost_row \<Rightarrow> pystr \<times> date" where
  "cost_key r \<equiv> (cw_internal_sku r, cw_effective_from r)"

definition file_offers :: "cell_reader \<Rightarrow> cost_file \<Rightarrow> cost_row list" where
  "file_offers cr file = List.map_filter (\<lambda>(i, row). offer cr (resolve_cost_columns (cf_columns file)) row) (cf_rows file)"

definition file_fresh :: "cell_reader \<Rightarrow> cost_row list \<Rightarrow> cost_file \<Rightarrow> cost_row list" where
  "file_fresh cr table file = fresh_offers cr (resolve_cost_columns (cf_columns file)) table (cf_rows file)"

lemma file_fresh_filter: "file_fresh cr table file = filter (\<lambda>r. \<not> is_duplicate table r) (file_offers cr file)"
  by (simp add: file_fresh_def file_offers_def fresh_offers_def)

text \<open>An import that succeeds: what it stored and what it reports.\<close>

lemma bulk_importD:
  assumes "bulk_import_v2 cr ids now file db = Inr (res, db')"
  obtains js stored where
    "length js = length (file_fresh cr (cd_costs db) file)"
    "smap flush_cost_row (map2 (\<lambda>j r. stamp (ids j) now r) js (file_fresh cr (cd_costs db) file)) = Inr stored"
    "cd_costs db' = cd_costs db @ stored" "cd_ledger db' = cd_ledger db" "cd_products db' = cd_products db"
    "ir_imported_rows res = length (file_fresh cr (cd_costs db) file)"
    "ir_skipped_rows res + ir_imported_rows res = ir_total_rows res" "ir_total_rows res = length (cf_rows file)"
    "column_error (resolve_cost_columns (cf_columns file)) = None"
    "\<forall>(i, row)\<in>set (cf_rows file). \<exists>a. accept_row cr (resolve_cost_columns (cf_columns file)) 0 0 row = Inr a"
proof -
  let ?cols = "resolve_cost_columns (cf_columns file)"
  let ?s0 = "\<lparr>is_issues = [], is_skipped = 0, is_invalid_skus = 0, is_created = []\<rparr>"
  let ?known = "known_skus (cf_column_texts file (the (?cols CF_internal_sku))) (cd_products db)"
  have err: "column_error ?cols = None" using assms by (auto simp: bulk_import_v2_def Let_def split: option.splits)
  then obtain s where s: "import_rows cr ?cols ids now ?known (cd_costs db) (cf_rows file) ?s0 = Inr s"
    and more: "sbind (add_costs (is_created s) db) (\<lambda>db'.
              Inr (\<lparr>ir_detected_columns = ?cols, ir_total_rows = length (cf_rows file), ir_imported_rows = length (is_created s),
                 ir_skipped_rows = is_skipped s, ir_imported_distinct_skus = card (cw_internal_sku ` set (is_created s)),
                 ir_invalid_sku_count = is_invalid_skus s, ir_issues = take 200 (is_issues s)\<rparr>, db')) = Inr (res, db')"
    using assms by (auto simp: bulk_import_v2_def Let_def sbind_Inr_iff)
  obtain js where js: "is_created s = map2 (\<lambda>j r. stamp (ids j) now r) js (file_fresh cr (cd_costs db) file)"
    "length js = length (file_fresh cr (cd_costs db) file)"
    using import_rows_spec(1) [OF s] by (auto simp: file_fresh_def)
  have count: "is_skipped s + length (is_created s) = length (cf_rows file)" using import_rows_spec(2) [OF s] by simp
  obtain stored where stored: "smap flush_cost_row (is_created s) = Inr stored"
    and db': "db' = refresh_financial_projections (db\<lparr>cd_costs := cd_costs db @ stored\<rparr>)"
    using more by (auto simp: sbind_Inr_iff add_costs_def)
  have total: "\<forall>(i, row)\<in>set (cf_rows file). \<exists>a. accept_row cr ?cols 0 0 row = Inr a"
    using s import_rows_total [of cr ?cols ids now ?known "cd_costs db" "cf_rows file" ?s0] by blast
  show ?thesis
    by (rule that [of js stored])
      (use js stored db' count err total more in \<open>auto simp: refresh_financial_projections_def sbind_Inr_iff\<close>)
qed

text \<open>Conversely, an import whose rows can be read and stored succeeds.\<close>

lemma bulk_importI:
  assumes "column_error (resolve_cost_columns (cf_columns file)) = None"
    and "\<forall>(i, row)\<in>set (cf_rows file). \<exists>a. accept_row cr (resolve_cost_columns (cf_columns file)) 0 0 row = Inr a"
    and "\<forall>r\<in>set (file_fresh cr (cd_costs db) file). \<exists>x. flush_cost_row r = Inr x"
  shows "\<exists>res db'. bulk_import_v2 cr ids now file db = Inr (res, db')"
proof -
  let ?cols = "resolve_cost_columns (cf_columns file)"
  let ?s0 = "\<lparr>is_issues = [], is_skipped = 0, is_invalid_skus = 0, is_created = []\<rparr>"
  let ?known = "known_skus (cf_column_texts file (the (?cols CF_internal_sku))) (cd_products db)"
  obtain s where s: "import_rows cr ?cols ids now ?known (cd_costs db) (cf_rows file) ?s0 = Inr s"
    using assms(2) import_rows_total [of cr ?cols ids now ?known "cd_costs db" "cf_rows file" ?s0] by blast
  obtain js where js: "is_created s = map2 (\<lambda>j r. stamp (ids j) now r) js (file_fresh cr (cd_costs db) file)"
    using import_rows_spec(1) [OF s] by (auto simp: file_fresh_def)
  have "\<exists>x. flush_cost_row r = Inr x" if r: "r \<in> set (is_created s)" for r
  proof -
    obtain j r0 where "r0 \<in> set (file_fresh cr (cd_costs db) file)" "r = stamp (ids j) now r0"
      using r by (auto simp: js dest: set_zip_rightD)
    then show ?thesis using assms(3) by (auto simp: flush_stamp)
  qed
  then obtain stored where "smap flush_cost_row (is_created s) = Inr stored" by (metis smap_Inr_iff)
  with s assms(1) show ?thesis by (simp add: bulk_import_v2_def Let_def add_costs_def)
qed

definition more_than_cents :: "cost_row \<Rightarrow> bool" where
  "more_than_cents r \<longleftrightarrow> \<not> on_grid 2 (cw_cost r)"

lemma last_cost_other:
  assumes "\<forall>s\<in>set stored. cost_key s \<noteq> (sku, d)"
  shows "last_cost (table @ stored) sku d = last_cost table sku d"
proof -
  have "filter (\<lambda>r. cw_internal_sku r = sku \<and> cw_effective_from r = d) stored = []"
    using assms by (auto simp: filter_empty_conv)
  then show ?thesis by (simp add: last_cost_def)
qed

lemma last_cost_new:
  assumes "distinct (map cost_key stored)" and "s \<in> set stored" and "\<forall>r\<in>set table. cw_created_at r < cw_created_at s"
  shows "last_cost (table @ stored) (cw_internal_sku s) (cw_effective_from s) = Some s"
proof -
  let ?P = "\<lambda>r. cw_internal_sku r = cw_internal_sku s \<and> cw_effective_from r = cw_effective_from s"
  have "filter ?P stored = [s]" using assms(1,2)
    by (induction stored) (auto simp: filter_empty_conv image_iff)
  then have "sorted_desc cw_created_at (filter ?P (table @ stored)) = s # sorted_desc cw_created_at (filter ?P table)"
    using sorted_desc_newest [of "filter ?P table" cw_created_at s] assms(3) by simp
  then show ?thesis by (simp add: last_cost_def)
qed

text \<open>Against the table after the import, an offer that was fresh is a duplicate exactly when its total is in whole cents.\<close>

lemma fresh_after_import:
  assumes stored: "smap flush_cost_row (map2 (\<lambda>j r. stamp (ids j) now r) js fresh) = Inr stored"
    and len: "length js = length fresh" and fresh: "fresh = filter (\<lambda>r. \<not> is_duplicate table r) offers"
    and keys: "distinct (map cost_key offers)" and later: "\<forall>r\<in>set table. cw_created_at r < now" and r: "r \<in> set offers"
  shows "is_duplicate (table @ stored) r \<longleftrightarrow> is_duplicate table r \<or> \<not> more_than_cents r"
proof -
  have all2: "list_all2 (\<lambda>x y. flush_cost_row x = Inr y) (map2 (\<lambda>j r. stamp (ids j) now r) js fresh) stored"
    by (rule smap_Inr_list_all2 [OF stored])
  have st: "length stored = length fresh" "\<And>i. i < length fresh \<Longrightarrow> flush_cost_row (stamp (ids (js ! i)) now (fresh ! i)) = Inr (stored ! i)"
    using list_all2_lengthD [OF all2] list_all2_nthD [OF all2] len by simp_all
  have fields: "cost_key (stored ! i) = cost_key (fresh ! i)" "cw_currency (stored ! i) = cw_currency (fresh ! i)"
      "cw_created_at (stored ! i) = now" "db_numeric 14 2 (cw_cost (fresh ! i)) = Inr (cw_cost (stored ! i))"
    if "i < length fresh" for i using flush_fields [OF st(2) [OF that]] by simp_all
  have map_keys: "map cost_key stored = map cost_key fresh"
    by (rule nth_equalityI) (simp_all add: st(1) fields(1))
  have dist: "distinct (map cost_key fresh)" using keys unfolding fresh by (simp add: distinct_map_filter)
  show ?thesis
  proof (cases "is_duplicate table r")
    case True
    have "cost_key s \<noteq> cost_key r" if "s \<in> set stored" for s
    proof
      assume "cost_key s = cost_key r"
      have "cost_key s \<in> set (map cost_key fresh)" unfolding map_keys [symmetric] using that by simp
      then obtain f where f: "cost_key s = cost_key f" "f \<in> set fresh" unfolding set_map by (rule imageE)
      have "inj_on cost_key (set offers)" using keys by (simp only: distinct_map)
      moreover have "f \<in> set offers" "\<not> is_duplicate table f" using f(2) by (simp_all add: fresh)
      ultimately have "f = r" using r f(1) \<open>cost_key s = cost_key r\<close> unfolding inj_on_def by metis
      with True \<open>\<not> is_duplicate table f\<close> show False by simp
    qed
    then have "last_cost (table @ stored) (cw_internal_sku r) (cw_effective_from r) = last_cost table (cw_internal_sku r) (cw_effective_from r)"
      by (intro last_cost_other) blast
    with True show ?thesis by (simp add: is_duplicate_def)
  next
    case False
    then have "r \<in> set fresh" using r by (simp add: fresh)
    then obtain i where i: "i < length fresh" "fresh ! i = r" unfolding in_set_conv_nth by blast
    let ?s = "stored ! i"
    have s: "?s \<in> set stored" using i st(1) by simp
    have "last_cost (table @ stored) (cw_internal_sku ?s) (cw_effective_from ?s) = Some ?s"
      by (rule last_cost_new) (use dist map_keys s later fields(3) [OF i(1)] in \<open>simp_all\<close>)
    then have dup: "is_duplicate (table @ stored) r \<longleftrightarrow> cw_cost ?s = cw_cost r"
      using fields [OF i(1)] i(2) by (simp add: is_duplicate_def)
    have num: "db_numeric 14 2 (cw_cost r) = Inr (cw_cost ?s)" using fields(4) [OF i(1)] i(2) by simp
    have "cw_cost ?s = cw_cost r \<longleftrightarrow> on_grid 2 (cw_cost r)"
    proof
      assume "cw_cost ?s = cw_cost r"
      with db_numeric_grid [OF num] show "on_grid 2 (cw_cost r)" by (simp only:)
    next
      assume "on_grid 2 (cw_cost r)"
      then show "cw_cost ?s = cw_cost r" by (rule db_numeric_on_grid [OF _ num])
    qed
    with dup False show ?thesis by (simp add: more_than_cents_def)
  qed
qed

text \<open>
  C29. Importing a cost file again (rows for different SKUs and days, the table older than the first import) adds
  exactly the rows of the first import whose total cost has fractions of a cent: the stored \<open>cost\<close> is rounded to
  cents, and the duplicate check compares it with the unrounded total. A file priced in whole cents adds nothing.
\<close>

theorem cost_reimport_exact:
  assumes first: "bulk_import_v2 cr ids now file db = Inr (res, db1)"
    and keys: "distinct (map cost_key (file_offers cr file))"
    and older: "\<forall>r\<in>set (cd_costs db). cw_created_at r < now"
  shows "\<exists>res2 db2. bulk_import_v2 cr ids2 now2 file db1 = Inr (res2, db2)
    \<and> ir_imported_rows res2 = length (filter more_than_cents (file_fresh cr (cd_costs db) file))
    \<and> ((\<forall>r\<in>set (file_offers cr file). \<not> more_than_cents r) \<longrightarrow> cd_costs db2 = cd_costs db1)"
proof -
  let ?fresh = "file_fresh cr (cd_costs db) file" and ?again = "file_fresh cr (cd_costs db1) file"
  obtain js stored where f: "length js = length ?fresh"
    "smap flush_cost_row (map2 (\<lambda>j r. stamp (ids j) now r) js ?fresh) = Inr stored" "cd_costs db1 = cd_costs db @ stored"
    "column_error (resolve_cost_columns (cf_columns file)) = None"
    "\<forall>(i, row)\<in>set (cf_rows file). \<exists>a. accept_row cr (resolve_cost_columns (cf_columns file)) 0 0 row = Inr a"
    by (rule bulk_importD [OF first]) blast
  have dup: "is_duplicate (cd_costs db1) r \<longleftrightarrow> is_duplicate (cd_costs db) r \<or> \<not> more_than_cents r"
    if "r \<in> set (file_offers cr file)" for r
    unfolding f(3) by (rule fresh_after_import [OF f(2,1) file_fresh_filter keys older that])
  then have again: "?again = filter more_than_cents ?fresh"
    unfolding file_fresh_filter filter_filter by (intro filter_cong) auto
  have "\<exists>x. flush_cost_row r = Inr x" if "r \<in> set ?fresh" for r
  proof -
    have "\<exists>i<length ?fresh. ?fresh ! i = r" using that unfolding in_set_conv_nth .
    then obtain i where i: "i < length ?fresh" "?fresh ! i = r" by blast
    have "map2 (\<lambda>j r. stamp (ids j) now r) js ?fresh ! i = stamp (ids (js ! i)) now r" "i < length (map2 (\<lambda>j r. stamp (ids j) now r) js ?fresh)"
      using i f(1) by (simp_all only: nth_map length_map length_zip nth_zip min.idem prod.case)
    then have "stamp (ids (js ! i)) now r \<in> set (map2 (\<lambda>j r. stamp (ids j) now r) js ?fresh)" by (metis nth_mem)
    with smap_InrD [OF f(2)] have "\<exists>y. flush_cost_row (stamp (ids (js ! i)) now r) = Inr y" by (rule bspec)
    then show ?thesis by (cases "flush_cost_row r") (simp_all add: flush_stamp)
  qed
  then have "\<forall>r\<in>set ?again. \<exists>x. flush_cost_row r = Inr x" by (simp add: again)
  then obtain res2 db2 where second: "bulk_import_v2 cr ids2 now2 file db1 = Inr (res2, db2)"
    using bulk_importI [OF f(4,5)] by blast
  obtain js2 stored2 where s: "smap flush_cost_row (map2 (\<lambda>j r. stamp (ids2 j) now2 r) js2 ?again) = Inr stored2"
    "length js2 = length ?again" "cd_costs db2 = cd_costs db1 @ stored2" "ir_imported_rows res2 = length ?again"
    by (rule bulk_importD [OF second]) blast
  have "cd_costs db2 = cd_costs db1" if none: "\<forall>r\<in>set (file_offers cr file). \<not> more_than_cents r"
  proof -
    have "?again = []" unfolding again unfolding file_fresh_filter using none by (simp add: filter_empty_conv)
    then have "stored2 = []" using smap_Inr_length [OF s(1)] by simp
    with s(3) show ?thesis by simp
  qed
  with second s(4) again show ?thesis by auto
qed

text \<open>A file of one row: a lens with the columns \<open>sku\<close>, \<open>date\<close>, \<open>cost\<close>, priced at a given amount.\<close>

definition demo_reader :: cell_reader where
  "demo_reader = \<lparr>cr_float_text = (\<lambda>_. []), cr_date_text = (\<lambda>_. []), cr_text_date = (\<lambda>_. None), cr_pandas_date = (\<lambda>_. None)\<rparr>"

definition demo_cost_row :: "pystr \<Rightarrow> pystr \<Rightarrow> cost_cell" where
  "demo_cost_row price c = (if c = asc ''sku'' then Cell (VStr (asc ''lens'')) else if c = asc ''date'' then Cell (VDate 100)
     else if c = asc ''cost'' then Cell (VStr price) else Cell VNone)"

definition demo_cost_file :: "pystr list \<Rightarrow> cost_file" where
  "demo_cost_file prices = \<lparr>cf_columns = [asc ''sku'', asc ''date'', asc ''cost''],
     cf_rows = map (\<lambda>p. (0, demo_cost_row p)) prices, cf_column_texts = (\<lambda>_. [])\<rparr>"

definition demo_cost_db :: cost_db where
  "demo_cost_db = \<lparr>cd_costs = [], cd_products = [], cd_mappings = [], cd_ledger = [],
     cd_projections = \<lparr>pj_daily = [], pj_sku = [], pj_unit_economics = []\<rparr>\<rparr>"

lemmas literal_simps = asc_def ru_def ru_char_def ru_table_def upt_rec
lemmas header_simps = normalize_header_def replace_char_def strip_def lower_def lower_char_def is_space_def

lemma demo_columns:
  "resolve_cost_columns (cf_columns (demo_cost_file ps)) f = (case f of CF_internal_sku \<Rightarrow> Some (asc ''sku'')
     | CF_effective_from \<Rightarrow> Some (asc ''date'') | CF_product_cost \<Rightarrow> Some (asc ''cost'') | _ \<Rightarrow> None)"
proof -
  have cols: "resolve_cost_columns (cf_columns (demo_cost_file ps)) = (\<lambda>f. first_alias_column
      [([115, 107, 117], asc ''sku''), ([100, 97, 116, 101], asc ''date''), ([99, 111, 115, 116], asc ''cost'')] (cost_aliases f))"
    by (simp add: demo_cost_file_def resolve_cost_columns_def header_simps asc_def)
  show ?thesis unfolding cols
    by (cases f) (simp_all add: cost_aliases_def alias_column_def header_simps literal_simps nonempty_def)
qed

lemma demo_total: "exact_amount 3 p \<Longrightarrow> total_cost p 0 0 0 = p"
  by (simp add: total_cost_def dctx_exact)

lemma demo_offer:
  assumes "parse_decimal price = Some p" and "0 < p"
  shows "offer demo_reader (resolve_cost_columns (cf_columns (demo_cost_file ps))) (demo_cost_row price) =
    Some (new_cost_row 0 0 (asc ''lens'') 100 p 0 0 0 (asc ''RUB'') None)"
proof -
  have "strip (asc ''lens'') = asc ''lens''" "asc ''lens'' \<noteq> []" by (simp_all add: strip_def is_space_def asc_def)
  moreover have "asc ''sku'' \<noteq> asc ''date''" "asc ''cost'' \<noteq> asc ''sku''" "asc ''cost'' \<noteq> asc ''date''" by (simp_all add: asc_def)
  ultimately show ?thesis using assms
    by (simp add: offer_def accept_row_def accept_price_def imported_row_def field_cell_def demo_columns demo_cost_row_def
        cell_str_def py_str_def parse_import_date_def import_decimal_def cell_decimal_def import_currency_def import_comment_def
        or_zero_def Let_def)
qed

lemma demo_import:
  assumes prices: "\<And>price. price \<in> set prices \<Longrightarrow> \<exists>p. parse_decimal price = Some p \<and> 0 < p \<and> exact_amount 3 p \<and> p < 1000"
  shows "\<exists>res db1. bulk_import_v2 demo_reader ids now (demo_cost_file prices) (demo_cost_db) = Inr (res, db1)"
proof (rule bulk_importI)
  let ?cols = "resolve_cost_columns (cf_columns (demo_cost_file prices))"
  show "column_error ?cols = None" by (simp add: column_error_def missing_key_columns_def demo_columns)
  have offers: "\<exists>p. offer demo_reader ?cols (demo_cost_row price) = Some (new_cost_row 0 0 (asc ''lens'') 100 p 0 0 0 (asc ''RUB'') None)
      \<and> 0 < p \<and> exact_amount 3 p \<and> p < 1000" if "price \<in> set prices" for price
    using prices [OF that] demo_offer by blast
  show "\<forall>(i, row)\<in>set (cf_rows (demo_cost_file prices)). \<exists>a. accept_row demo_reader ?cols 0 0 row = Inr a"
  proof (clarsimp simp: demo_cost_file_def)
    fix price assume "price \<in> set prices"
    then obtain r where "offer demo_reader ?cols (demo_cost_row price) = Some r" using offers by blast
    then show "\<exists>a. accept_row demo_reader (resolve_cost_columns [asc ''sku'', asc ''date'', asc ''cost'']) 0 0 (demo_cost_row price) = Inr a"
      by (auto simp: offer_def demo_cost_file_def split: sum.splits)
  qed
  show "\<forall>r\<in>set (file_fresh demo_reader (cd_costs demo_cost_db) (demo_cost_file prices)). \<exists>x. flush_cost_row r = Inr x"
  proof
    fix r assume "r \<in> set (file_fresh demo_reader (cd_costs demo_cost_db) (demo_cost_file prices))"
    then obtain price where "price \<in> set prices" "offer demo_reader ?cols (demo_cost_row price) = Some r"
      by (auto simp: file_fresh_filter file_offers_def demo_cost_file_def List.map_filter_def)
    then obtain p where r: "r = new_cost_row 0 0 (asc ''lens'') 100 p 0 0 0 (asc ''RUB'') None" and p: "0 < p" "exact_amount 3 p" "p < 1000"
      using offers by (metis option.inject)
    have n: "\<exists>y. db_numeric 14 k p = Inr y" if "k \<in> {2, 4}" for k
    proof -
      have "\<bar>round_half_up (p * 10 ^ k)\<bar> < 10 ^ 14"
        using that p by (auto simp: round_half_up_def floor_less_iff abs_less_iff less_floor_iff)
      then show ?thesis by (simp add: db_numeric_def)
    qed
    have z: "db_numeric 14 4 0 = Inr 0" by (rule db_numeric_exact) simp_all
    obtain y2 y4 where "db_numeric 14 2 p = Inr y2" "db_numeric 14 4 p = Inr y4" using n [of 2] n [of 4] by auto
    then show "\<exists>x. flush_cost_row r = Inr x"
      by (simp add: r flush_cost_row_def new_cost_row_def demo_total p(2) z db_text_def asc_def)
  qed
qed

theorem cost_reimport_exact_witness:
  "\<exists>res db1 res2 db2. bulk_import_v2 demo_reader id 0 (demo_cost_file [asc ''10.005'']) demo_cost_db = Inr (res, db1)
     \<and> bulk_import_v2 demo_reader id 1 (demo_cost_file [asc ''10.005'']) db1 = Inr (res2, db2) \<and> ir_imported_rows res2 = 1"
proof -
  let ?file = "demo_cost_file [asc ''10.005'']"
  have price: "parse_decimal (asc ''10.005'') = Some (2001 / 200)"
    by (simp add: parse_decimal_def decimal_of_text_def replace_char_def strip_def is_space_def split_sign_def split_at_def
        nat_of_digits_def is_digit_def asc_def Let_def)
  have "(2001 / 200 :: rat) * 10 ^ 3 = of_int 10005" by simp
  then have "(2001 / 200 :: rat) * 10 ^ 3 \<in> \<int>" by (metis Ints_of_int)
  then have exact: "exact_amount 3 (2001 / 200)" by (simp add: exact_amount_def on_grid_def)
  let ?r = "new_cost_row 0 0 (asc ''lens'') 100 (2001 / 200) 0 0 0 (asc ''RUB'') None"
  have offers: "file_offers demo_reader ?file = [?r]"
    using demo_offer [OF price, of "[asc ''10.005'']"] by (simp add: file_offers_def demo_cost_file_def map_filter_simps)
  have "(2001 / 200 :: rat) * 10 ^ 2 \<notin> \<int>"
  proof
    assume "(2001 / 200 :: rat) * 10 ^ 2 \<in> \<int>"
    then obtain n where "(2001 / 200 :: rat) * 10 ^ 2 = of_int n" by (auto elim: Ints_cases)
    then have "(2001 :: rat) = of_int (2 * n)" by simp
    then have "(2001 :: int) = 2 * n" by (metis of_int_eq_iff of_int_numeral)
    then show False by presburger
  qed
  then have frac: "more_than_cents ?r" using exact by (simp add: more_than_cents_def on_grid_def new_cost_row_def demo_total)
  have fresh: "file_fresh demo_reader (cd_costs demo_cost_db) ?file = [?r]"
    by (simp add: file_fresh_filter offers is_duplicate_def last_cost_def demo_cost_db_def sorted_desc_def)
  have ex: "\<exists>p. parse_decimal price = Some p \<and> 0 < p \<and> exact_amount 3 p \<and> p < 1000" if "price \<in> set [asc ''10.005'']" for price
    using that price exact by (intro exI [of _ "2001 / 200"]) simp
  obtain res db1 where first: "bulk_import_v2 demo_reader id 0 ?file demo_cost_db = Inr (res, db1)"
    using demo_import [of "[asc ''10.005'']" id 0, OF ex] by blast
  have "\<exists>res2 db2. bulk_import_v2 demo_reader id 1 ?file db1 = Inr (res2, db2)
    \<and> ir_imported_rows res2 = length (filter more_than_cents (file_fresh demo_reader (cd_costs demo_cost_db) ?file))
    \<and> ((\<forall>r\<in>set (file_offers demo_reader ?file). \<not> more_than_cents r) \<longrightarrow> cd_costs db2 = cd_costs db1)"
    by (rule cost_reimport_exact [OF first]) (simp_all add: offers demo_cost_db_def)
  with first fresh frac show ?thesis by auto
qed

section \<open>Rows that a file repeats\<close>

lemma file_fresh_append:
  "cf_columns file = cf_columns f1 \<Longrightarrow> cf_columns f2 = cf_columns f1 \<Longrightarrow> cf_rows file = cf_rows f1 @ cf_rows f2 \<Longrightarrow>
    file_fresh cr table file = file_fresh cr table f1 @ file_fresh cr table f2"
  by (simp add: file_fresh_def fresh_offers_def List.map_filter_def)

text \<open>
  The duplicate check of an import sees the table before the import only: a file whose rows are repeated is
  imported with every repetition.
\<close>

lemma repeated_rows_imported_again:
  assumes once: "bulk_import_v2 cr ids now file db = Inr (res, db1)"
    and twice: "bulk_import_v2 cr ids now (file\<lparr>cf_rows := cf_rows file @ cf_rows file\<rparr>) db = Inr (res2, db2)"
  shows "ir_imported_rows res2 = 2 * ir_imported_rows res \<and>
    map cost_key (cd_costs db2) = map cost_key (cd_costs db1) @ drop (length (cd_costs db)) (map cost_key (cd_costs db1))"
proof -
  let ?double = "file\<lparr>cf_rows := cf_rows file @ cf_rows file\<rparr>" and ?fresh = "file_fresh cr (cd_costs db) file"
  have fresh: "file_fresh cr (cd_costs db) ?double = ?fresh @ ?fresh" by (rule file_fresh_append) simp_all
  have keys: "map cost_key stored = map cost_key fs"
    if "smap flush_cost_row (map2 (\<lambda>j r. stamp (ids j) now r) js fs) = Inr stored" "length js = length fs" for js fs stored
  proof (rule nth_equalityI)
    note all2 = smap_Inr_list_all2 [OF that(1)]
    show "length (map cost_key stored) = length (map cost_key fs)" using list_all2_lengthD [OF all2] that(2) by simp
    fix i assume "i < length (map cost_key stored)"
    then have i: "i < length stored" by simp
    with list_all2_lengthD [OF all2] that(2) have j: "i < length js" "i < length fs" by simp_all
    have "flush_cost_row (stamp (ids (js ! i)) now (fs ! i)) = Inr (stored ! i)"
      using list_all2_nthD2 [OF all2 i] j by simp
    from flush_fields(1,2) [OF this] show "map cost_key stored ! i = map cost_key fs ! i" using i j by simp
  qed
  obtain js stored where a: "length js = length ?fresh"
    "smap flush_cost_row (map2 (\<lambda>j r. stamp (ids j) now r) js ?fresh) = Inr stored" "cd_costs db1 = cd_costs db @ stored"
    "ir_imported_rows res = length ?fresh" by (rule bulk_importD [OF once]) blast
  obtain js2 stored2 where b: "length js2 = length (?fresh @ ?fresh)"
    "smap flush_cost_row (map2 (\<lambda>j r. stamp (ids j) now r) js2 (?fresh @ ?fresh)) = Inr stored2" "cd_costs db2 = cd_costs db @ stored2"
    "ir_imported_rows res2 = length (?fresh @ ?fresh)" by (rule bulk_importD [OF twice, unfolded fresh]) blast
  have "ir_imported_rows res2 = 2 * ir_imported_rows res" using a(4) b(4) by simp
  moreover have "map cost_key (cd_costs db2) = map cost_key (cd_costs db1) @ drop (length (cd_costs db)) (map cost_key (cd_costs db1))"
    using keys [OF a(2,1)] keys [OF b(2,1)] by (simp add: a(3) b(3))
  ultimately show ?thesis ..
qed

section \<open>The cost in force\<close>

lemma max_by_append: "max_by f m (xs @ [y]) = (if f (max_by f m xs) < f y then y else max_by f m xs)"
  by (induction xs arbitrary: m) auto

text \<open>A record added to a history counts from its day on, unless the history has one of the same day or later.\<close>

lemma cost_on_date_snoc:
  "cost_on_date (h @ [c]) d = (if sc_effective_from c \<le> d \<and> (\<forall>x\<in>set h. sc_effective_from x \<le> d \<longrightarrow> sc_effective_from x < sc_effective_from c)
     then Some (total_unit_cost c) else cost_on_date h d)"
proof (cases "sc_effective_from c \<le> d")
  case True
  let ?P = "\<lambda>x. sc_effective_from x \<le> d"
  have f: "filter ?P (h @ [c]) = filter ?P h @ [c]" using True by simp
  show ?thesis
  proof (cases "filter ?P h")
    case Nil
    then have "\<forall>x\<in>set h. \<not> ?P x" by (simp add: filter_empty_conv)
    with Nil True show ?thesis by (auto simp: cost_on_date_def)
  next
    case (Cons a as)
    let ?m = "max_by sc_effective_from a as"
    have set: "insert a (set as) = {x \<in> set h. ?P x}" using arg_cong [OF Cons, of set] by auto
    have m: "?m \<in> set h" "?P ?m" using max_by_mem [of sc_effective_from a as] unfolding set by blast+
    have ge: "sc_effective_from x \<le> sc_effective_from ?m" if "x \<in> set h" "?P x" for x
      using max_by_ge [of x a as sc_effective_from] that unfolding set by blast
    have "(\<forall>x\<in>set h. ?P x \<longrightarrow> sc_effective_from x < sc_effective_from c) \<longleftrightarrow> sc_effective_from ?m < sc_effective_from c"
      using m ge by (meson le_less_trans)
    moreover have "cost_on_date (h @ [c]) d = Some (total_unit_cost (max_by sc_effective_from a (as @ [c])))"
      unfolding cost_on_date_def f Cons by simp
    moreover have "cost_on_date h d = Some (total_unit_cost ?m)" unfolding cost_on_date_def Cons by simp
    ultimately show ?thesis using True by (simp add: max_by_append)
  qed
qed (simp add: cost_on_date_def)

text \<open>The SKU is written in one way in the cost table and is not the article of another one.\<close>

definition plain_sku :: "'a cost_db_scheme \<Rightarrow> pystr \<Rightarrow> bool" where
  "plain_sku db sku \<longleftrightarrow> sku \<noteq> [] \<and> (\<forall>r\<in>set (cd_costs db). norm_sku (cw_internal_sku r) = sku \<longrightarrow> cw_internal_sku r = sku) \<and>
     (\<forall>(alias, internal)\<in>set (cd_mappings db). alias \<noteq> sku \<and> norm_sku alias \<noteq> sku)"

lemma alias_fold_other:
  assumes "\<forall>(a, i)\<in>set ms. a \<noteq> s \<and> norm_sku a \<noteq> s"
  shows "map_of (fold (\<lambda>(marketplace_sku, internal) l. (case map_of costs internal of
          Some snaps \<Rightarrow> if snaps = [] then l
            else AList.update (norm_sku marketplace_sku) snaps (AList.update marketplace_sku snaps l)
        | None \<Rightarrow> l)) ms l) s = map_of l s"
  using assms by (induction ms arbitrary: l) (auto simp: update_conv' split: option.split)

lemma cost_fold_lookup:
  assumes "\<forall>(i, v)\<in>set cs. norm_sku i = s \<longrightarrow> i = s"
  shows "map_of (fold (\<lambda>(internal_sku, snapshots) l.
          AList.update (norm_sku internal_sku) snapshots (AList.update internal_sku snapshots l)) cs l) s =
    (case map_of (rev cs) s of Some v \<Rightarrow> Some v | None \<Rightarrow> map_of l s)"
  using assms
  by (induction cs arbitrary: l) (auto simp: update_conv' map_add_def split: option.split)

lemma alias_keys: "(k, v) \<in> set (fold (\<lambda>(marketplace_sku, internal). AList.update marketplace_sku internal) ms l) \<Longrightarrow>
    (k, v) \<in> set ms \<or> (k, v) \<in> set l"
proof (induction ms arbitrary: l)
  case (Cons p ms)
  obtain a b where p: "p = (a, b)" by (cases p)
  then have "(k, v) \<in> set ms \<or> (k, v) \<in> set (AList.update a b l)" using Cons.IH [of "AList.update a b l"] Cons.prems by simp
  then show ?case using update_mem [of k v a b l] p by auto
qed simp

text \<open>The history that the finance side finds for a SKU.\<close>

definition sku_history :: "'a cost_db_scheme \<Rightarrow> pystr \<Rightarrow> sku_cost list" where
  "sku_history db sku = map snapshot_of_cost (filter (\<lambda>r. cw_internal_sku r = sku) (cd_costs db))"

lemma resolve_plain:
  assumes "plain_sku db sku"
  shows "resolve_cost_snapshots (cost_table_of db) (Some sku) = sku_history db sku
    \<or> sku_history db sku = [] \<and> norm_sku sku \<noteq> sku"
proof -
  let ?groups = "group_by sc_sku (map snapshot_of_cost (cd_costs db))"
  have "sc_sku (snapshot_of_cost r) = cw_internal_sku r" for r by (simp add: snapshot_of_cost_def)
  then have hist: "filter (\<lambda>x. sc_sku x = sku) (map snapshot_of_cost (cd_costs db)) = sku_history db sku"
    by (simp add: sku_history_def filter_map comp_def)
  have keys: "\<forall>(i, v)\<in>set ?groups. norm_sku i = sku \<longrightarrow> i = sku"
    using assms by (auto simp: plain_sku_def group_by_mem_iff snapshot_of_cost_def)
  have "map_of (rev ?groups) sku = map_of ?groups sku"
    using map_of_inject_set [of "rev ?groups" ?groups] group_by_distinct [of sc_sku "map snapshot_of_cost (cd_costs db)"]
    by (simp flip: rev_map)
  then have "map_of (cost_table_of db) sku = map_of ?groups sku"
    using assms alias_keys [of _ _ "cd_mappings db" "[]"]
    by (subst cost_table_of_def, subst load_cost_snapshots_def, subst build_cost_lookup_def, subst alias_fold_other)
      (fastforce simp: plain_sku_def cost_fold_lookup [OF keys] split: option.split)+
  also have "\<dots> = (if sku_history db sku = [] then None else Some (sku_history db sku))"
    unfolding hist [symmetric] by (auto simp: group_by_lookup filter_empty_conv)
  finally have look: "map_of (cost_table_of db) sku = (if sku_history db sku = [] then None else Some (sku_history db sku))" .
  show ?thesis
  proof (cases "sku_history db sku = []")
    case True
    then have "resolve_cost_snapshots (cost_table_of db) (Some sku) = dict_get (cost_table_of db) (norm_sku sku) []"
      using look assms by (simp add: resolve_cost_snapshots_def plain_sku_def)
    with True look show ?thesis by (auto simp: dict_get_def)
  next
    case False
    with look assms show ?thesis
      by (auto simp: resolve_cost_snapshots_def plain_sku_def split: list.split)
  qed
qed

lemma refresh_fields [simp]:
  "cd_costs (refresh_financial_projections db) = cd_costs db" "cd_mappings (refresh_financial_projections db) = cd_mappings db"
  "cd_ledger (refresh_financial_projections db) = cd_ledger db"
  by (simp_all add: refresh_financial_projections_def)


text \<open>A cost of 10 for a day that already has a cost of 7: the old one stays.\<close>

definition old_cost :: cost_row where
  "old_cost = new_cost_row 1 0 [97] 50 7 0 0 0 (asc ''RUB'') None"


theorem repeated_rows_imported_again_witness:
  "\<exists>res db1 res2 db2. bulk_import_v2 demo_reader id 0 (demo_cost_file [asc ''10'']) demo_cost_db = Inr (res, db1)
     \<and> bulk_import_v2 demo_reader id 0 ((demo_cost_file [asc ''10''])\<lparr>cf_rows := cf_rows (demo_cost_file [asc ''10'']) @ cf_rows (demo_cost_file [asc ''10''])\<rparr>)
         demo_cost_db = Inr (res2, db2)
     \<and> ir_imported_rows res = 1 \<and> ir_imported_rows res2 = 2"
proof -
  have price: "parse_decimal (asc ''10'') = Some 10"
    by (simp add: parse_decimal_def decimal_of_text_def replace_char_def strip_def is_space_def split_sign_def split_at_def
        nat_of_digits_def is_digit_def asc_def Let_def)
  have ok: "\<exists>p. parse_decimal price = Some p \<and> 0 < p \<and> exact_amount 3 p \<and> p < 1000" if "price \<in> set [asc ''10'', asc ''10'']" for price
    using that price by (intro exI [of _ 10]) (simp add: exact_amount_def on_grid_def)
  have double: "(demo_cost_file [asc ''10''])\<lparr>cf_rows := cf_rows (demo_cost_file [asc ''10'']) @ cf_rows (demo_cost_file [asc ''10''])\<rparr>
      = demo_cost_file [asc ''10'', asc ''10'']" by (simp add: demo_cost_file_def)
  obtain res db1 where once: "bulk_import_v2 demo_reader id 0 (demo_cost_file [asc ''10'']) demo_cost_db = Inr (res, db1)"
    using demo_import [of "[asc ''10'']" id 0] ok by auto
  obtain res2 db2 where twice: "bulk_import_v2 demo_reader id 0 ((demo_cost_file [asc ''10''])\<lparr>cf_rows := cf_rows (demo_cost_file [asc ''10''])
      @ cf_rows (demo_cost_file [asc ''10''])\<rparr>) demo_cost_db = Inr (res2, db2)"
    unfolding double using demo_import [of "[asc ''10'', asc ''10'']" id 0, OF ok] by blast
  let ?r = "new_cost_row 0 0 (asc ''lens'') 100 10 0 0 0 (asc ''RUB'') None"
  have "file_offers demo_reader (demo_cost_file [asc ''10'']) = [?r]"
    using demo_offer [OF price, of "[asc ''10'']"] by (simp add: file_offers_def demo_cost_file_def map_filter_simps)
  then have "length (file_fresh demo_reader (cd_costs demo_cost_db) (demo_cost_file [asc ''10''])) = 1"
    by (simp add: file_fresh_filter is_duplicate_def last_cost_def demo_cost_db_def sorted_desc_def)
  moreover have "ir_imported_rows res = length (file_fresh demo_reader (cd_costs demo_cost_db) (demo_cost_file [asc ''10'']))"
    by (rule bulk_importD [OF once])
  ultimately have "ir_imported_rows res = 1" by simp
  then show ?thesis using once twice repeated_rows_imported_again [OF once twice] by auto
qed

section \<open>The costs in force on a day\<close>

text \<open>What \<open>latest_by_sku\<close> holds after the rows \<open>seen\<close>.\<close>

definition latest_ok :: "date \<Rightarrow> cost_row list \<Rightarrow> (pystr \<times> cost_row) list \<Rightarrow> bool" where
  "latest_ok as_of seen latest \<longleftrightarrow> distinct (map fst latest)
     \<and> (\<forall>(sku, r)\<in>set latest. sku = cw_internal_sku r \<and> r \<in> set seen \<and> cost_in_force as_of r)
     \<and> (\<forall>r\<in>set seen. cost_in_force as_of r \<longrightarrow> (\<exists>l. map_of latest (cw_internal_sku r) = Some l \<and> cw_effective_from r \<le> cw_effective_from l))"

lemma latest_step_ok:
  assumes "latest_ok as_of seen latest"
  shows "latest_ok as_of (seen @ [row]) (latest_step as_of latest row)"
proof (cases "cost_in_force as_of row")
  case False
  with assms show ?thesis by (auto simp: latest_ok_def latest_step_def)
next
  case True
  have upd: "latest_ok as_of (seen @ [row]) (AList.update (cw_internal_sku row) row latest)"
    if newer: "\<And>prev. map_of latest (cw_internal_sku row) = Some prev \<Longrightarrow> cw_effective_from prev \<le> cw_effective_from row"
  proof -
    have "cw_effective_from r \<le> cw_effective_from row"
      if r: "r \<in> set seen" "cost_in_force as_of r" "cw_internal_sku r = cw_internal_sku row" for r
    proof -
      obtain l where "map_of latest (cw_internal_sku row) = Some l" "cw_effective_from r \<le> cw_effective_from l"
        using assms r unfolding latest_ok_def by metis
      with newer show ?thesis by fastforce
    qed
    with assms True show ?thesis unfolding latest_ok_def
      by (auto simp: distinct_update update_conv' simp del: map_of_eq_Some_iff dest!: update_mem split: if_splits)
  qed
  have keep: "latest_ok as_of (seen @ [row]) latest"
    if "map_of latest (cw_internal_sku row) = Some prev" "cw_effective_from row \<le> cw_effective_from prev" for prev
    using assms that unfolding latest_ok_def by (auto simp del: map_of_eq_Some_iff)
  show ?thesis
  proof (cases "map_of latest (cw_internal_sku row)")
    case None
    with True upd show ?thesis by (simp add: latest_step_def)
  next
    case (Some prev)
    with True upd keep show ?thesis by (auto simp: latest_step_def not_less)
  qed
qed

lemma latest_fold_ok: "latest_ok as_of seen latest \<Longrightarrow> latest_ok as_of (seen @ rows) (foldl (latest_step as_of) latest rows)"
proof (induction rows arbitrary: seen latest)
  case (Cons r rows)
  from Cons.IH [OF latest_step_ok [OF Cons.prems]] show ?case by simp
qed simp

text \<open>
  The list of the costs in force on a day has each SKU once, with a record that is in force and that no other
  record in force of the SKU follows, and every record in force is represented.
\<close>

lemma costs_as_of_exact:
  "distinct (map cw_internal_sku (filter_costs_as_of rows as_of))
   \<and> (\<forall>r\<in>set (filter_costs_as_of rows as_of). r \<in> set rows \<and> cost_in_force as_of r)
   \<and> (\<forall>x\<in>set rows. cost_in_force as_of x \<longrightarrow> (\<exists>r\<in>set (filter_costs_as_of rows as_of).
        cw_internal_sku r = cw_internal_sku x \<and> cw_effective_from x \<le> cw_effective_from r))"
proof -
  let ?latest = "foldl (latest_step as_of) [] rows"
  have "latest_ok as_of [] []" by (simp add: latest_ok_def)
  from latest_fold_ok [OF this, of rows] have ok: "latest_ok as_of rows ?latest" unfolding append_Nil .
  note h = ok [unfolded latest_ok_def]
  note dist = h [THEN conjunct1] and mem = h [THEN conjunct2, THEN conjunct1] and rep = h [THEN conjunct2, THEN conjunct2]
  have entry: "sku = cw_internal_sku r \<and> r \<in> set rows \<and> cost_in_force as_of r" if "(sku, r) \<in> set ?latest" for sku r
    using bspec [OF mem that] by simp
  have keys: "map fst ?latest = map (cw_internal_sku \<circ> snd) ?latest" by (rule map_cong) (auto dest: entry)
  have set: "set (filter_costs_as_of rows as_of) = snd ` set ?latest" by (simp add: filter_costs_as_of_def)
  have "mset (map cw_internal_sku (filter_costs_as_of rows as_of)) = mset (map fst ?latest)"
    unfolding keys filter_costs_as_of_def by (simp add: multiset.map_comp)
  then have "distinct (map cw_internal_sku (filter_costs_as_of rows as_of))"
    using dist by (rule mset_eq_imp_distinct_iff [THEN iffD2])
  moreover have "\<exists>r\<in>snd ` set ?latest. cw_internal_sku r = cw_internal_sku x \<and> cw_effective_from x \<le> cw_effective_from r"
    if x: "x \<in> set rows" "cost_in_force as_of x" for x
  proof -
    obtain l where l: "map_of ?latest (cw_internal_sku x) = Some l" "cw_effective_from x \<le> cw_effective_from l"
      using bspec [OF rep x(1), THEN mp, OF x(2)] by (elim exE conjE)
    note m = map_of_SomeD [OF l(1)]
    show ?thesis by (rule bexI [of _ l]) (use entry [OF m] l(2) m image_eqI [of l snd, OF _ m] in simp_all)
  qed
  moreover have "\<forall>r\<in>snd ` set ?latest. r \<in> set rows \<and> cost_in_force as_of r" by (auto dest: entry)
  ultimately show ?thesis unfolding set by blast
qed

lemma costs_as_of_exact_witness:
  "filter_costs_as_of [old_cost, old_cost\<lparr>cw_effective_from := 70\<rparr>, old_cost\<lparr>cw_effective_from := 60\<rparr>] 65 = [old_cost\<lparr>cw_effective_from := 60\<rparr>]
   \<and> distinct (map cw_internal_sku (filter_costs_as_of [old_cost, old_cost\<lparr>cw_effective_from := 70\<rparr>, old_cost\<lparr>cw_effective_from := 60\<rparr>] 65))"
proof
  show "filter_costs_as_of [old_cost, old_cost\<lparr>cw_effective_from := 70\<rparr>, old_cost\<lparr>cw_effective_from := 60\<rparr>] 65 = [old_cost\<lparr>cw_effective_from := 60\<rparr>]"
    by (simp add: filter_costs_as_of_def latest_step_def cost_in_force_def old_cost_def new_cost_row_def sorted_desc_def)
  show "distinct (map cw_internal_sku (filter_costs_as_of [old_cost, old_cost\<lparr>cw_effective_from := 70\<rparr>, old_cost\<lparr>cw_effective_from := 60\<rparr>] 65))"
    using costs_as_of_exact by (rule conjunct1)
qed

end
