(* ===== verification/Integrity_Properties.thy ===== *)
theory Integrity_Properties
  imports Analytics_Properties Inventory_Analytics Cost_Properties
begin

text \<open>
  What the views of a period have in common: the trust in the profits and what it hides, the coverage of sales by costs,
  the costs that value the stock, and the idle stock of the tables and of the analysts' signals.
\<close>

section \<open>Trust in the profits\<close>

lemma coverage_full: "0 < n \<Longrightarrow> coverage_pct n n = Inr 100"
  using dctx_exact [of 0 1] dctx_exact [of 0 100] round_half_even_of_int [of 10000]
  by (simp add: coverage_pct_def ddiv_def dmul_def dquantize_def exact_amount_def on_grid_def del: round_half_even_of_int)

lemma coverage_partial:
  assumes "c < n" and "n < 20000"
  shows "\<exists>x. coverage_pct c n = Inr x \<and> 0 \<le> x \<and> x < 100"
proof -
  let ?r = "9999499975 / 10000000000 :: rat"
  have r: "dctx ?r = ?r" "dctx (?r * 100) = ?r * 100"
    by (rule dctx_exact [of 10], simp add: exact_amount_def on_grid_def)+
  define a b where "a = (of_nat c :: rat)" and "b = (of_nat n :: rat)"
  have "Suc c \<le> n" "n \<le> 19999" using assms by simp_all
  then have "of_nat (Suc c) \<le> (of_nat n :: rat)" "of_nat n \<le> (of_nat 19999 :: rat)" by (simp_all only: of_nat_le_iff)
  then have ab: "a + 1 \<le> b" "b \<le> 19999" "0 \<le> a" by (simp_all add: a_def b_def)
  then have "a \<le> ?r * b" by linarith
  then have "a / b \<le> ?r" using ab by (simp add: pos_divide_le_eq)
  then have "ddiv a b \<le> ?r" unfolding ddiv_def using dctx_mono [of "a / b" ?r] unfolding r(1) by simp
  then have "dmul (ddiv a b) 100 \<le> ?r * 100"
    using dctx_mono [of "ddiv a b * 100" "?r * 100"] unfolding r(2) dmul_def by simp
  moreover have "0 \<le> dmul (ddiv a b) 100" using ab by (simp add: dmul_def ddiv_def)
  moreover define y where "y = dmul (ddiv a b) 100"
  ultimately have y: "0 \<le> y" "y * 10 ^ 2 \<le> 9999499975 / 1000000" by simp_all
  have "\<lfloor>9999499975 / 1000000 :: rat\<rfloor> = 9999" by (rule floor_unique) simp_all
  then have "round_half_even (9999499975 / 1000000) = 9999" by (simp add: round_half_even_def Let_def)
  with round_half_even_mono [OF y(2)] have "round_half_even (y * 10 ^ 2) \<le> 9999" by simp
  moreover have "0 \<le> round_half_even (y * 10 ^ 2)" using round_half_even_ge [of 0 "y * 10 ^ 2"] y(1) by simp
  moreover define m where "m = round_half_even (y * 10 ^ 2)"
  ultimately have m: "m \<le> 9999" "0 \<le> m" by simp_all
  then have "(of_int m :: rat) \<le> of_int 9999" by (simp only: of_int_le_iff)
  then have "(of_int m :: rat) / 10 ^ 2 < 100" by simp
  moreover have "coverage_pct c n = Inr (of_int m / 10 ^ 2)"
    using m by (simp add: coverage_pct_def dquantize_def Let_def flip: a_def b_def y_def) (simp add: m_def)
  ultimately show ?thesis using m by (intro exI [of _ "of_int m / 10 ^ 2"]) simp
qed

lemma classify_full: "classify_profit_trust c = TRUST_FULL \<longleftrightarrow> (\<exists>x. c = Some x \<and> 100 \<le> x)"
  by (auto simp: classify_profit_trust_def split: option.split)

lemma validate_period_fields:
  assumes "validate_period mp p db = Inr meta"
  shows "sku_cost_coverage_pct mp p db = Inr (im_coverage_pct meta)" and "im_trust meta = classify_profit_trust (im_coverage_pct meta)"
  using assms by (auto simp: validate_period_def Let_def sbind_Inr_iff)

text \<open>
  C18. Profits are fully trusted exactly when something was sold and every SKU that sold has a unit cost on the last
  day of the period, as long as fewer than 20000 SKUs sold: from there on one SKU without a cost can round to 100 percent.
\<close>

theorem full_trust_iff_costed:
  assumes "validate_period mp p db = Inr meta" and "length (selling_skus mp p db) < 20000"
  shows "im_trust meta = TRUST_FULL \<longleftrightarrow>
    selling_skus mp p db \<noteq> [] \<and> (\<forall>sku\<in>set (selling_skus mp p db). has_cost_on db (pd_end p) sku)"
proof (cases "selling_skus mp p db = []")
  case True
  then show ?thesis using validate_period_fields [OF assms(1)] by (simp add: sku_cost_coverage_pct_def classify_profit_trust_def)
next
  case False
  let ?sold = "selling_skus mp p db"
  let ?covered = "filter (has_cost_on db (pd_end p)) ?sold"
  obtain x where x: "coverage_pct (length ?covered) (length ?sold) = Inr x" "im_coverage_pct meta = Some x"
    using validate_period_fields(1) [OF assms(1)] False by (auto simp: sku_cost_coverage_pct_def Let_def sbind_Inr_iff)
  have "100 \<le> x \<longleftrightarrow> length ?covered = length ?sold"
  proof (cases "length ?covered = length ?sold")
    case True
    then show ?thesis using x(1) False coverage_full [of "length ?sold"] by simp
  next
    case less: False
    then have "length ?covered < length ?sold" using length_filter_le [of _ ?sold] by (simp add: le_neq_implies_less)
    then show ?thesis using coverage_partial [OF _ assms(2)] x(1) less by fastforce
  qed
  also have "\<dots> \<longleftrightarrow> (\<forall>sku\<in>set ?sold. has_cost_on db (pd_end p) sku)"
    using length_filter_less filter_True by (metis nat_neq_iff)
  finally show ?thesis using False x(2) validate_period_fields(2) [OF assms(1)] by (simp add: classify_full)
qed

text \<open>
  The coverage that the dashboard shows with a period and the coverage report of the period agree: the same
  percentage, the number of selling SKUs with a cost, and among the reported missing SKUs only and, up to 200, all of
  those without one.
\<close>

lemma coverage_views_agree:
  assumes "validate_period mp p db = Inr meta" and "analyze_coverage e mp p limit query db = Inr c"
  shows "cc_pct c = im_coverage_pct meta
    \<and> cc_covered_skus c = length (filter (has_cost_on db (pd_end p)) (selling_skus mp p db))
    \<and> set (cc_missing_skus c) \<subseteq> {s \<in> set (selling_skus mp p db). \<not> has_cost_on db (pd_end p) s}
    \<and> length (cc_missing_skus c) = min 200 (length (filter (\<lambda>s. \<not> has_cost_on db (pd_end p) s) (selling_skus mp p db)))"
proof -
  let ?sold = "selling_skus mp p db" and ?sorted = "sort_key (de_collate e) (selling_skus mp p db)"
  let ?has = "has_cost_on db (pd_end p)"
  obtain gaps where gaps: "gaps_of_period e mp p 200 db = Inr gaps"
    and c: "cc_pct c = cg_pct gaps" "cc_covered_skus c = cg_covered gaps" "cc_missing_skus c = cg_missing gaps"
    using assms(2) by (auto simp: analyze_coverage_def sales_coverage_gaps_def Let_def sbind_Inr_iff)
  have len: "length (filter P ?sorted) = length (filter P ?sold)" for P
    by (metis mset_filter mset_sort size_mset)
  have pct: "sku_cost_coverage_pct mp p db = Inr (im_coverage_pct meta)" by (rule validate_period_fields [OF assms(1)])
  show ?thesis
  proof (cases "?sold = []")
    case True
    with gaps pct show ?thesis by (auto simp: c gaps_of_period_def sku_cost_coverage_pct_def)
  next
    case False
    then have "?sorted \<noteq> []" by (metis set_empty set_sort)
    then obtain x where x: "coverage_pct (length (filter ?has ?sold)) (length ?sold) = Inr x"
      and g: "cg_pct gaps = Some x" "cg_covered gaps = length (filter ?has ?sold)" "cg_missing gaps = take 200 (filter (\<lambda>s. \<not> ?has s) ?sorted)"
      using gaps by (auto simp: gaps_of_period_def Let_def sbind_Inr_iff len)
    have "im_coverage_pct meta = Some x" using pct x False by (simp add: sku_cost_coverage_pct_def Let_def)
    then show ?thesis using len [of "\<lambda>s. \<not> ?has s"] by (auto simp: c g min.commute dest!: in_set_takeD)
  qed
qed

section \<open>Unit costs of the stock\<close>

lemma costs_fold_lookup:
  "map_of (fold (\<lambda>r. AList.update (f r) (g r)) rows d) k =
     (case rev (filter (\<lambda>r. f r = k) rows) of [] \<Rightarrow> map_of d k | r # _ \<Rightarrow> Some (g r))"
proof (induction rows arbitrary: d)
  case (Cons r rows)
  show ?case unfolding fold_Cons o_apply Cons.IH by (auto simp: update_conv' split: list.split)
qed simp

lemma max_by_map: "max_by f (g m) (map g xs) = g (max_by (f \<circ> g) m xs)"
  by (induction xs arbitrary: m) (simp_all add: Let_def)

text \<open>The records of a SKU are open ended, one per day, and their stored total is the sum of their parts.\<close>

definition plain_records :: "'a cost_db_scheme \<Rightarrow> pystr \<Rightarrow> bool" where
  "plain_records db sku \<longleftrightarrow> (\<forall>r\<in>set (cd_costs db). cw_internal_sku r = sku \<longrightarrow>
     cw_effective_to r = None \<and> cw_cost r = total_unit_cost (snapshot_of_cost r)
     \<and> (\<forall>x\<in>set (cd_costs db). cw_internal_sku x = sku \<and> cw_effective_from x = cw_effective_from r \<longrightarrow> x = r))"


text \<open>One SKU with a sale and a cost of 7 from day 50 on, another sold without a cost.\<close>

definition trust_period :: period where
  "trust_period = \<lparr>pd_start = 55, pd_end = 60\<rparr>"

definition trust_db :: "unit_economics list \<Rightarrow> analytics_db" where
  "trust_db units = \<lparr>cd_costs = [old_cost], cd_products = [], cd_mappings = [], cd_ledger = [],
     cd_projections = \<lparr>pj_daily = [], pj_sku = [], pj_unit_economics = units\<rparr>,
     ad_reports = [], ad_normalized = [], ad_snapshots = [], ad_reconciliations = []\<rparr>"

lemma trust_plain: "plain_sku (trust_db units) [97]"
  by (simp add: plain_sku_def trust_db_def old_cost_def new_cost_row_def)

lemma old_cost_total: "total_unit_cost (snapshot_of_cost old_cost) = 7"
  using ctx.exact [of 0 7] by (simp add: total_unit_cost_def snapshot_of_cost_def old_cost_def new_cost_row_def)

lemma trust_cost: "unit_cost_on_date (resolve_cost_snapshots (cost_table_of (trust_db units)) (Some [97])) 60 = Some 7"
proof -
  have "sku_history (trust_db units) [97] = [snapshot_of_cost old_cost]"
    by (simp add: sku_history_def trust_db_def old_cost_def new_cost_row_def)
  with resolve_plain [OF trust_plain, of units] have "resolve_cost_snapshots (cost_table_of (trust_db units)) (Some [97]) = [snapshot_of_cost old_cost]"
    by auto
  then show ?thesis using old_cost_total
    by (simp add: unit_cost_same cost_on_date_def) (simp add: snapshot_of_cost_def old_cost_def new_cost_row_def)
qed

lemma trust_no_cost: "unit_cost_on_date (resolve_cost_snapshots (cost_table_of (trust_db units)) (Some [98])) 60 = None"
proof -
  have "plain_sku (trust_db units) [98]" 
    by (simp add: plain_sku_def trust_db_def old_cost_def new_cost_row_def norm_sku_def lower_def lower_char_def strip_def is_space_def)
  moreover have "norm_sku [98] = [98]" "sku_history (trust_db units) [98] = []"
    by (simp_all add: norm_sku_def lower_def lower_char_def strip_def is_space_def sku_history_def trust_db_def old_cost_def new_cost_row_def)
  ultimately have "resolve_cost_snapshots (cost_table_of (trust_db units)) (Some [98]) = []"
    using resolve_plain [of "trust_db units" "[98]"] by simp
  then show ?thesis by (simp add: unit_cost_same cost_on_date_def)
qed


lemma trust_selling: "selling_skus MP_WILDBERRIES trust_period (trust_db [demo_unit [97] 58 1 7, demo_unit [98] 59 2 0]) = [[97], [98]]"
  by (simp add: selling_skus_def unit_rows_def trust_db_def demo_unit_def trust_period_def in_period_def group_by_def group_add_def)

lemma trust_pct: "coverage_pct (Suc 0) (Suc (Suc 0)) = Inr 50"
proof -
  have v: "dctx (1 / 2) = 1 / 2" "dctx 50 = 50" by (rule dctx_exact [of 1], simp add: exact_amount_def on_grid_def)+
  have "round_half_even 5000 = 5000" using round_half_even_of_int [of 5000] by simp
  then show ?thesis by (simp add: coverage_pct_def ddiv_def dmul_def dquantize_def v)
qed

lemma trust_meta:
  "\<exists>meta. validate_period MP_WILDBERRIES trust_period (trust_db [demo_unit [97] 58 1 7, demo_unit [98] 59 2 0]) = Inr meta
     \<and> im_coverage_pct meta = Some 50"
proof -
  let ?db = "trust_db [demo_unit [97] 58 1 7, demo_unit [98] 59 2 0]"
  have "has_cost_on ?db 60 [97]" "\<not> has_cost_on ?db 60 [98]" by (simp_all add: has_cost_on_def trust_cost trust_no_cost)
  then have "sku_cost_coverage_pct MP_WILDBERRIES trust_period ?db = Inr (Some 50)"
    using trust_pct unfolding sku_cost_coverage_pct_def trust_selling by (simp add: trust_period_def)
  moreover have "daily_rows MP_WILDBERRIES trust_period ?db = []" by (simp add: daily_rows_def trust_db_def)
  ultimately show ?thesis by (simp add: validate_period_def margin_warning_def sql_sum_def Let_def)
qed

theorem full_trust_iff_costed_witness:
  "\<exists>meta. validate_period MP_WILDBERRIES trust_period (trust_db [demo_unit [97] 58 1 7, demo_unit [98] 59 2 0]) = Inr meta
     \<and> im_trust meta \<noteq> TRUST_FULL"
proof -
  let ?db = "trust_db [demo_unit [97] 58 1 7, demo_unit [98] 59 2 0]"
  obtain meta where meta: "validate_period MP_WILDBERRIES trust_period ?db = Inr meta" using trust_meta by blast
  have "\<not> has_cost_on ?db (pd_end trust_period) [98]" by (simp add: has_cost_on_def trust_no_cost trust_period_def)
  with full_trust_iff_costed [OF meta] meta show ?thesis unfolding trust_selling by auto
qed

lemma gaps_total:
  assumes "sku_cost_coverage_pct mp p db = Inr x"
  shows "\<exists>gaps. gaps_of_period e mp p limit db = Inr gaps"
proof -
  have len: "length (filter P (sort_key f xs)) = length (filter P xs)" for P f and xs :: "pystr list"
    by (metis mset_filter mset_sort size_mset)
  have "sort_key (de_collate e) (selling_skus mp p db) = [] \<longleftrightarrow> selling_skus mp p db = []" by (metis set_empty set_sort)
  with assms show ?thesis
    by (auto simp: gaps_of_period_def sku_cost_coverage_pct_def Let_def len sbind_Inr_iff split: if_splits)
qed

definition demo_engine :: db_engine where
  "demo_engine = \<lparr>de_avg = (\<lambda>xs. sum_list xs / of_nat (length xs)), de_div = (/), de_collate = (\<lambda>s. s), de_ilike = contains\<rparr>"

theorem coverage_views_agree_witness:
  "\<exists>c. analyze_coverage demo_engine MP_WILDBERRIES trust_period 10 None (trust_db [demo_unit [97] 58 1 7, demo_unit [98] 59 2 0]) = Inr c
     \<and> cc_pct c = Some 50 \<and> cc_covered_skus c = 1 \<and> length (cc_missing_skus c) = 1"
proof -
  let ?db = "trust_db [demo_unit [97] 58 1 7, demo_unit [98] 59 2 0]"
  obtain meta where meta: "validate_period MP_WILDBERRIES trust_period ?db = Inr meta" "im_coverage_pct meta = Some 50"
    using trust_meta by blast
  obtain gaps where "gaps_of_period demo_engine MP_WILDBERRIES trust_period 200 ?db = Inr gaps"
    using gaps_total [OF validate_period_fields(1) [OF meta(1)]] by blast
  then obtain c where c: "analyze_coverage demo_engine MP_WILDBERRIES trust_period 10 None ?db = Inr c"
    by (simp add: analyze_coverage_def sales_coverage_gaps_def Let_def)
  have "has_cost_on ?db (pd_end trust_period) [97]" "\<not> has_cost_on ?db (pd_end trust_period) [98]"
    by (simp_all add: has_cost_on_def trust_cost trust_no_cost trust_period_def)
  with coverage_views_agree [OF meta(1) c] c meta(2) show ?thesis unfolding trust_selling by simp
qed

section \<open>Idle stock\<close>

lemma sort_key_map_key: "sort_key f (map g xs) = map g (sort_key (f \<circ> g) xs)"
proof -
  have "insort_key f (g x) (map g ys) = map g (insort_key (f \<circ> g) x ys)" for x ys by (induction ys) simp_all
  then show ?thesis by (induction xs) simp_all
qed

lemma sorted_desc_map: "sorted_desc f (map g xs) = map g (sorted_desc (f \<circ> g) xs)"
  by (simp add: sorted_desc_def sort_key_map_key rev_map)

text \<open>The stock that both the tables and the intelligence look at, and what they make of it.\<close>

definition idle_base :: "period \<Rightarrow> pystr \<Rightarrow> date \<Rightarrow> 'a analytics_db_scheme \<Rightarrow> (int \<Rightarrow> bool) \<Rightarrow> (pystr \<times> int) list" where
  "idle_base p version day db P = sorted_desc (\<lambda>(sku, n). frozen_key (frozen_of (unit_costs_as_of day (cd_costs db)) sku n))
     (filter (\<lambda>(sku, n). P (days_since day (last_sale_date version p db sku) (pd_start p)))
       (filter (\<lambda>(sku, n). 0 < n) (stock_by_sku version day (\<lambda>_. True) db)))"

lemma idle_stock_base:
  "latest_stock_date (pd_end p) version db = Some day \<Longrightarrow> idle_stock p t limit version db =
    (Some day, map (idle_item version p day (unit_costs_as_of day (cd_costs db)) db) (take limit (idle_base p version day db (\<lambda>d. t \<le> d))))"
  by (simp add: idle_stock_def Let_def filter_map sorted_desc_map take_map idle_base_def)
    (simp add: comp_def idle_item_def case_prod_unfold)

lemma signals_base:
  "by_frozen (filter (\<lambda>s. P (sg_days_since_last_sale s)) (map fst (signals_of_stock e version p day db))) =
    map (fst \<circ> sku_signal_of e version p day (unit_costs_as_of day (cd_costs db)) db) (idle_base p version day db P)"
  by (simp add: by_frozen_def signals_of_stock_def filter_map sorted_desc_map idle_base_def)
    (simp add: comp_def sku_signal_of_def case_prod_unfold Let_def)

lemma length_idle_base:
  "length (idle_base p version day db (\<lambda>d. a \<le> d \<and> d < b)) + length (idle_base p version day db (\<lambda>d. b \<le> d))
    = length (idle_base p version day db (\<lambda>d. a \<le> d))" if "a \<le> b"
proof -
  have "length (filter (\<lambda>x. a \<le> f x \<and> f x < b) xs) + length (filter (\<lambda>x. b \<le> f x) xs) = length (filter (\<lambda>x. a \<le> f x) xs)"
    for f :: "pystr \<times> int \<Rightarrow> int" and xs
    using that by (induction xs) auto
  then show ?thesis by (simp add: idle_base_def case_prod_unfold del: filter_filter)
qed

lemma intelligence_counts:
  assumes "intelligence_of day n revenue found = Inr i"
  shows "ii_slow_mover_count i = length (by_frozen (filter (\<lambda>s. slow_mover_threshold_days \<le> sg_days_since_last_sale s
        \<and> sg_days_since_last_sale s < dead_stock_threshold_days) (map fst found)))
    \<and> ii_dead_stock_count i = length (by_frozen (filter (\<lambda>s. dead_stock_threshold_days \<le> sg_days_since_last_sale s) (map fst found)))
    \<and> ii_dead_stock i = take 5 (by_frozen (filter (\<lambda>s. dead_stock_threshold_days \<le> sg_days_since_last_sale s) (map fst found)))"
  using assms unfolding intelligence_of_def Let_def sbind_Inr_iff by (elim exE conjE) (simp; fastforce)


text \<open>Ten pieces of a SKU that did not sell for seventy days.\<close>
definition idle_snapshot :: stock_snapshot where
  "idle_snapshot = \<lparr>ss_snapshot_date = 100, ss_sku = Some [97], ss_nm_id = None, ss_warehouse_name = None, ss_opening_stock = 10,
     ss_inbound_units = 0, ss_sold_units = 0, ss_returned_units = 0, ss_lost_units = 0, ss_writeoff_units = 0, ss_expected_closing_stock = 10,
     ss_actual_stock = 10, ss_discrepancy_units = 0, ss_discrepancy_cost = 0, ss_discrepancy_sale_value = 0, ss_semantics_version = []\<rparr>"

definition idle_db :: analytics_db where
  "idle_db = (trust_db [])\<lparr>ad_snapshots := [idle_snapshot]\<rparr>"

lemma idle_stock_rows: "stock_by_sku [] 100 (\<lambda>_. True) idle_db = [([97], 10)]"
  by (simp add: stock_by_sku_def snapshots_of_def idle_db_def idle_snapshot_def group_by_def group_add_def dict_get_def sql_sum_def)

lemma idle_last_sale: "last_sale_date [] \<lparr>pd_start = 30, pd_end = 100\<rparr> idle_db [97] = None"
  by (simp add: last_sale_date_def snapshots_of_def idle_db_def idle_snapshot_def sql_max_def)

lemma idle_latest: "latest_stock_date 100 [] idle_db = Some 100"
  by (simp add: latest_stock_date_def idle_db_def idle_snapshot_def sql_max_def)

lemma idle_costs: "map_of (unit_costs_as_of 100 (cd_costs idle_db)) [97] = Some 7"
proof -
  have "sql_max cw_effective_from [old_cost] = Some 50" by (simp add: sql_max_def old_cost_def new_cost_row_def)
  moreover have "cw_cost old_cost = 7" using dctx_exact [of 0 7] by (simp add: old_cost_def new_cost_row_def total_cost_def exact_amount_def on_grid_def)
  ultimately show ?thesis
    by (simp add: unit_costs_as_of_def idle_db_def trust_db_def cost_in_force_def) (simp add: old_cost_def new_cost_row_def)
qed


section \<open>Hidden profits\<close>

lemmas gates = gate_profit_decimal_def gate_margin_decimal_def gate_profitability_decimal_def apply_profit_trust_to_kpis_def



section \<open>Ranking by margin\<close>

lemma top_skus_rows:
  assumes "top_skus e mp p limit sort_name db = Inr best"
  shows "\<exists>meta :: integrity_meta. best = map (top_row (im_trust meta) (sql_sum (\<lambda>m. pm_revenue (sm_metrics m)) (metric_rows mp p db)))
    (take limit (order_by True (\<lambda>(k, g). top_sort e sort_name g) (group_by sm_sku (metric_rows mp p db))))"
proof (cases "validate_period mp p db")
  case (Inr meta)
  with assms show ?thesis by (intro exI [of _ meta]) (simp add: top_skus_def Let_def)
qed (use assms in \<open>simp add: top_skus_def\<close>)

text \<open>
  Ranked by margin, the best sellers start with SKUs that have no revenue at all, whenever there is one: their margin is
  unknown, and a descending order of the database puts unknown values first.
\<close>

lemma margin_ranking_starts_without_revenue:
  assumes top: "top_skus e mp p limit (asc ''margin'') db = Inr best" and "0 < limit"
    and group: "(sku, g) \<in> set (group_by sm_sku (metric_rows mp p db))" and none: "sql_sum (\<lambda>m. pm_revenue (sm_metrics m)) g = 0"
  shows "best \<noteq> [] \<and> tr_revenue (hd best) = 0"
proof -
  let ?key = "\<lambda>(k, g). top_sort e (asc ''margin'') g"
  let ?groups = "order_by True ?key (group_by sm_sku (metric_rows mp p db))"
  have margin: "top_sort e (asc ''margin'') rows = (if sql_sum (\<lambda>m. pm_revenue (sm_metrics m)) rows = 0 then None
      else Some (de_div e (sql_sum (\<lambda>m. pm_net_profit (sm_metrics m)) rows) (sql_sum (\<lambda>m. pm_revenue (sm_metrics m)) rows)))" for rows
    by (simp add: top_sort_def asc_def lower_def lower_char_def Let_def)
  have "(sku, g) \<in> set ?groups" using group by simp
  then obtain first rest where split: "?groups = first # rest" by (cases ?groups) auto
  have "null_high (?key x) \<le> null_high (?key first)" if "x \<in> set ?groups" for x
    using order_by_sorted [of ?key "group_by sm_sku (metric_rows mp p db)"] that unfolding split by auto
  from this [OF \<open>(sku, g) \<in> set ?groups\<close>] have "sql_sum (\<lambda>m. pm_revenue (sm_metrics m)) (snd first) = 0"
    by (simp add: margin none null_high_def case_prod_beta split: if_splits)
  moreover obtain meta :: integrity_meta where "best = map (top_row (im_trust meta) (sql_sum (\<lambda>m. pm_revenue (sm_metrics m)) (metric_rows mp p db))) (take limit ?groups)"
    using top_skus_rows [OF top] by (elim exE)
  ultimately show ?thesis using \<open>0 < limit\<close> unfolding split by (cases limit) (auto simp: top_row_def Let_def case_prod_beta)
qed

lemma margin_ranking_starts_without_revenue_witness:
  "\<exists>best. top_skus demo_engine MP_WILDBERRIES \<lparr>pd_start = 3, pd_end = 5\<rparr> 10 (asc ''margin'') (abc_db 70 20 0) = Inr best \<and> tr_revenue (hd best) = 0"
proof -
  let ?p = "\<lparr>pd_start = 3, pd_end = 5\<rparr>" and ?db = "abc_db 70 20 0"
  have "selling_skus MP_WILDBERRIES ?p ?db = []" by (simp add: selling_skus_def unit_rows_def abc_db_def)
  then obtain meta where "validate_period MP_WILDBERRIES ?p ?db = Inr meta"
    by (simp add: validate_period_def sku_cost_coverage_pct_def daily_rows_def abc_db_def margin_warning_def sql_sum_def Let_def)
  then obtain best where best: "top_skus demo_engine MP_WILDBERRIES ?p 10 (asc ''margin'') ?db = Inr best"
    by (simp add: top_skus_def Let_def)
  have group: "([3], [demo_metric [3] 0]) \<in> set (group_by sm_sku (metric_rows MP_WILDBERRIES ?p ?db))"
    unfolding abc_db_rows by (simp add: group_by_def group_add_def dict_get_def demo_metric_def)
  show ?thesis
    using margin_ranking_starts_without_revenue [OF best _ group] best by (simp add: sql_sum_def demo_metric_def)
qed

end
