(* ===== verification/Ops_Service.thy ===== *)
theory Ops_Service
  imports Orchestrator
begin

text \<open>
  The operational reads of a tenant (\<open>app/services/ops_service.py\<close>): pages of rebuilds, jobs, checks and anomalies, the
  health and the summary of the runtime, the forecast, the simulation and the schedule policy; and the freshness of the
  figures that the analytics show with them. Row-level security is the filter on the user.
\<close>

section \<open>Pages\<close>

definition page :: "nat \<Rightarrow> nat \<Rightarrow> 'a list \<Rightarrow> 'a list" where
  "page skip limit rows = take limit (drop skip rows)"

definition list_rebuilds :: "uuid \<Rightarrow> nat \<Rightarrow> nat \<Rightarrow> rebuild_status option \<Rightarrow> requirement list \<Rightarrow> requirement list \<times> nat" where
  "list_rebuilds u skip limit status t =
     (let rows = filter (\<lambda>r. rq_user_id r = u \<and> (case status of None \<Rightarrow> True | Some s \<Rightarrow> rq_status r = s)) t
      in (page skip limit (sort_key (\<lambda>r. (rq_priority r, - rq_created_at r)) rows), length rows))"

text \<open>\<open>list_anomalies\<close>, \<open>list_drift_checks\<close> and \<open>list_remediation_history\<close>: a page of the newest rows, and their number.\<close>

definition list_newest :: "('a \<Rightarrow> instant) \<Rightarrow> ('a \<Rightarrow> bool) \<Rightarrow> nat \<Rightarrow> nat \<Rightarrow> 'a list \<Rightarrow> 'a list \<times> nat" where
  "list_newest created wanted skip limit t =
     (let rows = filter wanted t in (page skip limit (sorted_desc created rows), length rows))"

definition list_queue_jobs :: "uuid \<Rightarrow> nat \<Rightarrow> nat \<Rightarrow> job_status option \<Rightarrow> etl_job list \<Rightarrow> etl_job list \<times> nat \<times> (job_status \<times> nat) list" where
  "list_queue_jobs u skip limit status t =
     (let own = filter (\<lambda>j. j_user_id j = u) t;
          rows = filter (\<lambda>j. case status of None \<Rightarrow> True | Some s \<Rightarrow> j_status j = s) own
      in (page skip limit (sorted_desc j_created_at rows), length rows,
          map (\<lambda>(s, g). (s, length g)) (group_by j_status own)))"

definition list_dead_letter_jobs :: "uuid \<Rightarrow> nat \<Rightarrow> nat \<Rightarrow> etl_job list \<Rightarrow> etl_job list \<times> nat" where
  "list_dead_letter_jobs u skip limit t =
     (case list_queue_jobs u skip limit (Some DEAD_LETTER) t of (rows, n, _) \<Rightarrow> (rows, n))"

section \<open>Health and summary\<close>

definition runtime_health :: "settings \<Rightarrow> instant \<Rightarrow> uuid \<Rightarrow> runtime_state \<Rightarrow> health_report" where
  "runtime_health st now u s =
     evaluate_health st 0 (collect_tenant_queue_metrics now u (rt_jobs s)) (collect_tenant_rebuild_metrics u (requirements_of s))"

record runtime_summary =
  rs_tenant_state :: tenant_state
  rs_workload_state :: workload_state
  rs_queue :: queue_metrics
  rs_rebuild :: rebuild_metrics
  rs_health :: health_report
  rs_autonomy_enabled :: bool
  rs_overload_threshold :: int

definition runtime_summary_of :: "settings \<Rightarrow> instant \<Rightarrow> uuid \<Rightarrow> runtime_state \<Rightarrow> runtime_summary" where
  "runtime_summary_of st now u s =
     (let q = collect_tenant_queue_metrics now u (rt_jobs s); m = collect_tenant_rebuild_metrics u (requirements_of s);
          health = evaluate_health st 0 q m; snap = snapshot_from_metrics st q m health
      in \<lparr>rs_tenant_state = cs_tenant_state snap, rs_workload_state = cs_workload snap, rs_queue = q, rs_rebuild = m,
          rs_health = health, rs_autonomy_enabled = runtime_autonomy_enabled st,
          rs_overload_threshold = runtime_queue_overload_threshold st\<rparr>)"

record freshness =
  fm_data_as_of :: "date option"
  fm_rebuild_running :: int
  fm_rebuild_pending :: int
  fm_queue_processing :: int
  fm_queue_pending :: int
  fm_dead_letters :: int
  fm_stale :: bool
  fm_degraded :: bool

definition severity_value :: "health_severity \<Rightarrow> pystr" where
  "severity_value s = asc (case s of SEV_OK \<Rightarrow> ''ok'' | SEV_WARN \<Rightarrow> ''warn'' | SEV_CRITICAL \<Rightarrow> ''critical'')"

definition freshness_of :: "date option \<Rightarrow> runtime_summary \<Rightarrow> freshness" where
  "freshness_of data_as_of r =
     \<lparr>fm_data_as_of = data_as_of, fm_rebuild_running = rm_running (rs_rebuild r),
      fm_rebuild_pending = rm_pending_dispatch (rs_rebuild r), fm_queue_processing = qm_processing (rs_queue r),
      fm_queue_pending = qm_pending (rs_queue r), fm_dead_letters = qm_dead_letter (rs_queue r),
      fm_stale = (0 < rm_running (rs_rebuild r) \<or> 0 < rm_pending_dispatch (rs_rebuild r)),
      fm_degraded = (lower (severity_value (hr_overall_severity (rs_health r))) \<in> {asc ''warning'', asc ''critical''})\<rparr>"

section \<open>Autonomy, forecast and simulation\<close>

record autonomy_status =
  au_level :: safety_level
  au_emergency_stop :: bool
  au_ops_enabled :: bool
  au_autonomy_enabled :: bool
  au_pending_journal :: nat

definition emergency_stop_active :: "settings \<Rightarrow> bool" where
  "emergency_stop_active st \<longleftrightarrow> \<not> ks_allowed (kill_switch_check st AUTONOMY)"

text \<open>The journal only gets executed, simulated and blocked rows, so none is \<open>PLANNED\<close>: \<open>planned\<close> counts rows of other origin.\<close>

definition autonomy_status_of :: "settings \<Rightarrow> safety_level \<Rightarrow> nat \<Rightarrow> autonomy_status" where
  "autonomy_status_of st level planned =
     \<lparr>au_level = level, au_emergency_stop = emergency_stop_active st, au_ops_enabled = runtime_enterprise_ops_enabled st,
      au_autonomy_enabled = runtime_autonomy_enabled st, au_pending_journal = planned\<rparr>"

definition tenant_forecast :: "settings \<Rightarrow> instant \<Rightarrow> uuid \<Rightarrow> runtime_state \<Rightarrow> operational_forecast" where
  "tenant_forecast st now u s =
     (let q = collect_tenant_queue_metrics now u (rt_jobs s); m = collect_tenant_rebuild_metrics u (requirements_of s)
      in forecast st q m (evaluate_health st 0 q m))"

text \<open>\<open>OperationalSimulationEngine.simulate_cycle\<close>; its journal rows are written as those of any cycle.\<close>

definition run_simulation :: "settings \<Rightarrow> safety_level \<Rightarrow> blackout_json option \<Rightarrow> (uuid \<Rightarrow> bool) \<Rightarrow> instant \<Rightarrow> runtime_state \<Rightarrow>
    ops_cycle_result \<times> runtime_state" where
  "run_simulation st level blackout locked now s = enterprise_cycle st level blackout locked now True s"

text \<open>\<open>schedule_policy\<close>: the periods of the tenant's own row, none without a row.\<close>

definition shown_blackout :: "instant \<Rightarrow> blackout_json option \<Rightarrow> bool" where
  "shown_blackout now stored = is_in_blackout now (case stored of
      None \<Rightarrow> [] | Some (Periods ps) \<Rightarrow> ps | Some (Period_object None) \<Rightarrow> [] | Some (Period_object (Some ps)) \<Rightarrow> ps)"

section \<open>Laws\<close>

text \<open>The flag \<open>degraded_mode\<close> compares with \<open>warning\<close>, the severity is called \<open>warn\<close>: a warning never shows.\<close>

lemma degraded_only_critical:
  "fm_degraded (freshness_of d r) \<longleftrightarrow> hr_overall_severity (rs_health r) = SEV_CRITICAL"
  by (cases "hr_overall_severity (rs_health r)")
    (simp_all add: freshness_of_def severity_value_def asc_def lower_def lower_char_def)

text \<open>At three in the morning the default blackout is in force and not shown.\<close>

lemma default_blackout_not_shown: "platform_in_blackout (seconds 10800) None \<and> \<not> shown_blackout (seconds 10800) None"
  by (simp add: platform_in_blackout_def shown_blackout_def is_in_blackout_def default_blackout_def utc_hour_def seconds_def)

lemma dry_step: "snd (execute_step st level locked now True (r, s) k) = s"
  by (simp add: execute_step_def Let_def)

lemma dry_steps: "snd (foldl (execute_step st level locked now True) (r, s) ks) = s"
proof (induction ks arbitrary: r)
  case (Cons k ks)
  obtain r' s' where step: "execute_step st level locked now True (r, s) k = (r', s')" by fastforce
  with dry_step [of st level locked now r s k] have "s' = s" by simp
  with step Cons.IH show ?case by simp
qed simp

text \<open>A simulation leaves the jobs and the requirements as they are.\<close>

lemma simulation_leaves_state: "snd (run_simulation st level blackout locked now s) = s"
  using dry_steps by (auto simp: run_simulation_def enterprise_cycle_def execute_plan_def Let_def split_def)

text \<open>The pages of a list, put together, are the list.\<close>

lemma pages_concat: "0 < limit \<Longrightarrow> page skip limit rows @ page (skip + limit) (length rows) rows = drop skip rows"
  by (simp add: page_def add.commute flip: drop_drop)

end
