(* ===== verification/Sha256.thy ===== *)
theory Sha256
  imports Py_Text "HOL-Library.Word"
begin

unbundle bit_operations_syntax

text \<open>
  The two functions of the standard library that turn a secret token into the text its table stores:
  \<open>str.encode("utf-8")\<close>, on the Unicode scalar values that a validated request holds, and
  \<open>hashlib.sha256(...).hexdigest()\<close> (FIPS 180-4, on 32-bit words).
\<close>

section \<open>UTF-8\<close>

definition utf8_char :: "nat \<Rightarrow> nat list" where
  "utf8_char c =
     (if c < 128 then [c]
      else if c < 2048 then [192 + c div 64, 128 + c mod 64]
      else if c < 65536 then [224 + c div 4096, 128 + c div 64 mod 64, 128 + c mod 64]
      else [240 + c div 262144, 128 + c div 4096 mod 64, 128 + c div 64 mod 64, 128 + c mod 64])"

definition encode_utf8 :: "pystr \<Rightarrow> nat list" where
  "encode_utf8 s = concat (map utf8_char s)"

section \<open>SHA-256\<close>

type_synonym hash_state = "32 word list"

definition round_constants :: "32 word list" where
  "round_constants =
    [1116352408, 1899447441, 3049323471, 3921009573, 961987163, 1508970993, 2453635748, 2870763221,
     3624381080, 310598401, 607225278, 1426881987, 1925078388, 2162078206, 2614888103, 3248222580,
     3835390401, 4022224774, 264347078, 604807628, 770255983, 1249150122, 1555081692, 1996064986,
     2554220882, 2821834349, 2952996808, 3210313671, 3336571891, 3584528711, 113926993, 338241895,
     666307205, 773529912, 1294757372, 1396182291, 1695183700, 1986661051, 2177026350, 2456956037,
     2730485921, 2820302411, 3259730800, 3345764771, 3516065817, 3600352804, 4094571909, 275423344,
     430227734, 506948616, 659060556, 883997877, 958139571, 1322822218, 1537002063, 1747873779,
     1955562222, 2024104815, 2227730452, 2361852424, 2428436474, 2756734187, 3204031479, 3329325298]"

definition initial_hash :: hash_state where
  "initial_hash = [1779033703, 3144134277, 1013904242, 2773480762, 1359893119, 2600822924, 528734635, 1541459225]"

fun big_endian :: "nat \<Rightarrow> nat \<Rightarrow> nat list" where
  "big_endian 0 n = []"
| "big_endian (Suc k) n = big_endian k (n div 256) @ [n mod 256]"

definition pad_message :: "nat list \<Rightarrow> nat list" where
  "pad_message bs = bs @ [128] @ replicate ((119 - length bs mod 64) mod 64) 0 @ big_endian 8 (8 * length bs)"

fun words_of :: "nat list \<Rightarrow> 32 word list" where
  "words_of (a # b # c # d # bs) = (((of_nat a * 256 + of_nat b) * 256 + of_nat c) * 256 + of_nat d) # words_of bs"
| "words_of _ = []"

definition small_sigma0 :: "32 word \<Rightarrow> 32 word" where
  "small_sigma0 x = (word_rotr 7 x XOR word_rotr 18 x) XOR drop_bit 3 x"

definition small_sigma1 :: "32 word \<Rightarrow> 32 word" where
  "small_sigma1 x = (word_rotr 17 x XOR word_rotr 19 x) XOR drop_bit 10 x"

definition big_sigma0 :: "32 word \<Rightarrow> 32 word" where
  "big_sigma0 x = (word_rotr 2 x XOR word_rotr 13 x) XOR word_rotr 22 x"

definition big_sigma1 :: "32 word \<Rightarrow> 32 word" where
  "big_sigma1 x = (word_rotr 6 x XOR word_rotr 11 x) XOR word_rotr 25 x"

text \<open>The message schedule: sixteen words of the block, then forty-eight from the words before.\<close>

fun extend_schedule :: "nat \<Rightarrow> 32 word list \<Rightarrow> 32 word list" where
  "extend_schedule 0 w = w"
| "extend_schedule (Suc n) w =
     (let t = length w
      in extend_schedule n (w @ [small_sigma1 (w ! (t - 2)) + w ! (t - 7) + small_sigma0 (w ! (t - 15)) + w ! (t - 16)]))"

fun hash_round :: "32 word \<times> 32 word \<Rightarrow> hash_state \<Rightarrow> hash_state" where
  "hash_round (k, w) [a, b, c, d, e, f, g, h] =
     (let t1 = h + big_sigma1 e + ((e AND f) XOR (NOT e AND g)) + k + w;
          t2 = big_sigma0 a + (((a AND b) XOR (a AND c)) XOR (b AND c))
      in [t1 + t2, a, b, c, d + t1, e, f, g])"
| "hash_round _ st = st"

definition compress_block :: "32 word list \<Rightarrow> hash_state \<Rightarrow> hash_state" where
  "compress_block blk st = map2 (+) st (fold hash_round (zip round_constants (extend_schedule 48 blk)) st)"

fun hash_blocks :: "nat \<Rightarrow> 32 word list \<Rightarrow> hash_state \<Rightarrow> hash_state" where
  "hash_blocks 0 ws st = st"
| "hash_blocks (Suc n) ws st = hash_blocks n (drop 16 ws) (compress_block (take 16 ws) st)"

definition hex_digit :: "nat \<Rightarrow> nat" where
  "hex_digit n = (if n < 10 then 48 + n else 87 + n)"

fun hex_digits :: "nat \<Rightarrow> 32 word \<Rightarrow> pystr" where
  "hex_digits 0 w = []"
| "hex_digits (Suc k) w = hex_digits k (drop_bit 4 w) @ [hex_digit (unat (w AND 15))]"

definition sha256_hex :: "nat list \<Rightarrow> pystr" where
  "sha256_hex bs = (let ws = words_of (pad_message bs)
     in concat (map (hex_digits 8) (hash_blocks (length ws div 16) ws initial_hash)))"

section \<open>The digest has 64 hexadecimal digits\<close>

lemma length_big_endian [simp]: "length (big_endian k n) = k"
  by (induction k arbitrary: n) simp_all

lemma length_hex_digits [simp]: "length (hex_digits k w) = k"
  by (induction k arbitrary: w) simp_all

lemma pad_message_blocks: "length (pad_message bs) mod 64 = 0"
proof -
  define q r where "q = length bs div 64" and "r = length bs mod 64"
  have len: "length bs = 64 * q + r" and r: "r < 64" by (simp_all add: q_def r_def)
  have "(119 - r) mod 64 = (if r \<le> 55 then 55 - r else 119 - r)"
  proof (cases "r \<le> 55")
    case True
    then have "119 - r = 55 - r + 64" by simp
    then show ?thesis using True by (simp only: mod_add_self2) simp
  next
    case False
    then show ?thesis by simp
  qed
  then have "length (pad_message bs) = 64 * (if r \<le> 55 then q + 1 else q + 2)"
    using r by (simp add: pad_message_def len)
  then show ?thesis by simp
qed

lemma hash_round_length: "length st = 8 \<Longrightarrow> length (hash_round p st) = 8"
  by (cases "(p, st)" rule: hash_round.cases) (simp_all add: Let_def)

lemma fold_hash_round_length: "length st = 8 \<Longrightarrow> length (fold hash_round ps st) = 8"
  by (induction ps arbitrary: st) (simp_all add: hash_round_length)

lemma compress_block_length: "length st = 8 \<Longrightarrow> length (compress_block blk st) = 8"
  by (simp add: compress_block_def fold_hash_round_length)

lemma hash_blocks_length: "length st = 8 \<Longrightarrow> length (hash_blocks n ws st) = 8"
  by (induction n arbitrary: ws st) (simp_all add: compress_block_length)

lemma length_sha256_hex [simp]: "length (sha256_hex bs) = 64"
proof -
  define h where "h = hash_blocks (length (words_of (pad_message bs)) div 16) (words_of (pad_message bs)) initial_hash"
  have "length h = 8" unfolding h_def by (rule hash_blocks_length) (simp add: initial_hash_def)
  moreover have "length (concat (map (hex_digits 8) ws)) = 8 * length ws" for ws :: "32 word list"
    by (induction ws) simp_all
  ultimately show ?thesis by (simp add: sha256_hex_def Let_def flip: h_def)
qed

end
