(* ===== verification/Accounts.thy ===== *)
theory Accounts
  imports Sha256
begin

text \<open>
  Accounts: registration, invitations, sign-in and passwords (\<open>app/services/auth_service.py\<close>,
  \<open>app/services/invite_service.py\<close>, \<open>app/core/deps.py\<close>, \<open>app/core/registration.py\<close>, the routes of
  \<open>app/api/auth.py\<close> and \<open>app/api/admin.py\<close>). A request is one database transaction: its result is an error and
  the unchanged tables, or a value and the new tables. The clock \<open>now\<close>, the new identifier, the random token
  (\<open>secrets.token_urlsafe\<close>) and the salt (\<open>bcrypt.gensalt\<close>) of a request are arguments. \<open>bcrypt\<close>, the decoder
  of the JSON web tokens (\<open>jose\<close>) and the SMTP server are parameters. Texts have passed the request schemas.
\<close>

section \<open>Settings and libraries\<close>

record auth_settings =
  registration_mode :: pystr
  password_reset_token_expire_minutes :: int
  invite_token_expire_hours :: int
  smtp_host :: pystr
  smtp_user :: pystr
  smtp_password :: pystr
  smtp_from :: pystr
  app_public_url :: pystr

definition default_auth_settings :: auth_settings where
  "default_auth_settings = \<lparr>registration_mode = asc ''invite_only'', password_reset_token_expire_minutes = 60,
     invite_token_expire_hours = 72, smtp_host = [], smtp_user = [], smtp_password = [], smtp_from = [],
     app_public_url = asc ''http://localhost''\<rparr>"

text \<open>\<open>checkpw\<close> is \<open>None\<close> where the library raises \<open>ValueError\<close> or \<open>TypeError\<close>; \<open>hashpw\<close> takes the salt first.\<close>

record bcrypt =
  checkpw :: "nat list \<Rightarrow> nat list \<Rightarrow> bool option"
  hashpw :: "nat \<Rightarrow> nat list \<Rightarrow> pystr"

definition verify_password :: "bcrypt \<Rightarrow> pystr \<Rightarrow> pystr \<Rightarrow> bool" where
  "verify_password B plain hashed =
     (case checkpw B (encode_utf8 plain) (encode_utf8 hashed) of None \<Rightarrow> False | Some b \<Rightarrow> b)"

definition get_password_hash :: "bcrypt \<Rightarrow> nat \<Rightarrow> pystr \<Rightarrow> pystr" where
  "get_password_hash B salt password = hashpw B salt (encode_utf8 password)"

section \<open>Tables\<close>

definition user_role_seller :: pystr where
  "user_role_seller = asc ''seller''"

definition user_role_platform_admin :: pystr where
  "user_role_platform_admin = asc ''platform_admin''"

definition default_user_role :: pystr where
  "default_user_role = user_role_seller"

definition is_platform_admin :: "pystr \<Rightarrow> bool" where
  "is_platform_admin role \<longleftrightarrow> role = user_role_platform_admin"

record user =
  us_id :: uuid
  us_email :: pystr
  us_hashed_password :: pystr
  us_full_name :: "pystr option"
  us_is_active :: bool
  us_role :: pystr
  us_created_at :: instant

record registration_invite =
  in_id :: uuid
  in_email :: pystr
  in_role :: pystr
  in_token_hash :: pystr
  in_invited_by_id :: uuid
  in_expires_at :: instant
  in_used_at :: "instant option"
  in_revoked_at :: "instant option"
  in_created_at :: instant

record password_reset_token =
  rt_id :: uuid
  rt_user_id :: uuid
  rt_token_hash :: pystr
  rt_expires_at :: instant
  rt_used_at :: "instant option"
  rt_created_at :: instant

datatype auth_audit_event_type =
    PASSWORD_CHANGED | PASSWORD_RESET_REQUESTED | PASSWORD_RESET_COMPLETED
  | INVITE_CREATED | INVITE_REVOKED | INVITE_ACCEPTED

record auth_audit_event =
  av_user_id :: uuid
  av_event_type :: auth_audit_event_type
  av_detail :: pystr
  av_invite_id :: "uuid option"
  av_created_at :: instant

text \<open>A mail that the server accepted: its address and the link of its body.\<close>

record reset_mail =
  ml_to :: pystr
  ml_reset_url :: pystr

record accounts =
  ac_users :: "user list"
  ac_invites :: "registration_invite list"
  ac_resets :: "password_reset_token list"
  ac_audit :: "auth_audit_event list"
  ac_mails :: "reset_mail list"

text \<open>The inserts, with the primary keys, the unique columns and the reference of an invitation to its admin.\<close>

definition insert_user :: "user \<Rightarrow> accounts \<Rightarrow> py_error + accounts" where
  "insert_user u st = (if \<exists>v\<in>set (ac_users st). us_id v = us_id u \<or> us_email v = us_email u then Inl IntegrityError
     else Inr (st\<lparr>ac_users := ac_users st @ [u]\<rparr>))"

definition insert_invite :: "registration_invite \<Rightarrow> accounts \<Rightarrow> py_error + accounts" where
  "insert_invite i st =
     (if (\<exists>j\<in>set (ac_invites st). in_id j = in_id i \<or> in_token_hash j = in_token_hash i)
         \<or> in_invited_by_id i \<notin> us_id ` set (ac_users st) then Inl IntegrityError
      else Inr (st\<lparr>ac_invites := ac_invites st @ [i]\<rparr>))"

definition insert_reset :: "password_reset_token \<Rightarrow> accounts \<Rightarrow> py_error + accounts" where
  "insert_reset r st =
     (if \<exists>q\<in>set (ac_resets st). rt_id q = rt_id r \<or> rt_token_hash q = rt_token_hash r then Inl IntegrityError
      else Inr (st\<lparr>ac_resets := ac_resets st @ [r]\<rparr>))"

definition record_auth_audit ::
  "instant \<Rightarrow> uuid \<Rightarrow> auth_audit_event_type \<Rightarrow> pystr \<Rightarrow> uuid option \<Rightarrow> accounts \<Rightarrow> accounts" where
  "record_auth_audit now uid kind detail iid st =
     st\<lparr>ac_audit := ac_audit st @ [\<lparr>av_user_id = uid, av_event_type = kind, av_detail = take 4000 detail,
        av_invite_id = iid, av_created_at = now\<rparr>]\<rparr>"

definition update_invite :: "uuid \<Rightarrow> (registration_invite \<Rightarrow> registration_invite) \<Rightarrow> accounts \<Rightarrow> accounts" where
  "update_invite iid f st = st\<lparr>ac_invites := map (\<lambda>i. if in_id i = iid then f i else i) (ac_invites st)\<rparr>"

definition set_password :: "uuid \<Rightarrow> pystr \<Rightarrow> accounts \<Rightarrow> accounts" where
  "set_password uid h st =
     st\<lparr>ac_users := map (\<lambda>u. if us_id u = uid then u\<lparr>us_hashed_password := h\<rparr> else u) (ac_users st)\<rparr>"

definition get_user_by_email :: "accounts \<Rightarrow> pystr \<Rightarrow> user option" where
  "get_user_by_email st email = find (\<lambda>u. us_email u = lower email) (ac_users st)"

definition get_user_by_id :: "accounts \<Rightarrow> uuid \<Rightarrow> user option" where
  "get_user_by_id st uid = find (\<lambda>u. us_id u = uid) (ac_users st)"

section \<open>Sessions\<close>

text \<open>\<open>decode\<close> is the user of a session token, \<open>None\<close> for a token that \<open>jose\<close> refuses or that names no user.\<close>

definition get_current_user :: "(pystr \<Rightarrow> uuid option) \<Rightarrow> pystr \<Rightarrow> accounts \<Rightarrow> py_error + user" where
  "get_current_user decode token st =
     (case decode token of
        None \<Rightarrow> Inl (HTTPException 401 (asc ''Invalid or expired token''))
      | Some uid \<Rightarrow>
          (case get_user_by_id st uid of
             None \<Rightarrow> Inl (HTTPException 401 (asc ''User not found or inactive''))
           | Some u \<Rightarrow> if us_is_active u then Inr u
               else Inl (HTTPException 401 (asc ''User not found or inactive''))))"

definition require_platform_admin :: "user \<Rightarrow> py_error + user" where
  "require_platform_admin u = (if \<not> is_platform_admin (us_role u)
     then Inl (HTTPException 403 (asc ''Platform admin access required.'')) else Inr u)"

definition authenticate :: "bcrypt \<Rightarrow> pystr \<Rightarrow> pystr \<Rightarrow> accounts \<Rightarrow> py_error + user" where
  "authenticate B email password st =
     (case get_user_by_email st email of
        None \<Rightarrow> Inl (HTTPException 401 (asc ''Incorrect email or password''))
      | Some u \<Rightarrow>
          if \<not> verify_password B password (us_hashed_password u)
          then Inl (HTTPException 401 (asc ''Incorrect email or password''))
          else if \<not> us_is_active u then Inl (HTTPException 403 (asc ''User account is inactive''))
          else Inr u)"

section \<open>Invitations\<close>

datatype invite_status = Invite_pending | Invite_used | Invite_expired | Invite_revoked

definition hash_token :: "pystr \<Rightarrow> pystr" where
  "hash_token token = sha256_hex (encode_utf8 token)"

definition derive_status :: "instant \<Rightarrow> registration_invite \<Rightarrow> invite_status" where
  "derive_status now i =
     (if in_used_at i \<noteq> None then Invite_used
      else if in_revoked_at i \<noteq> None then Invite_revoked
      else if in_expires_at i \<le> now then Invite_expired
      else Invite_pending)"

definition active_invite :: "instant \<Rightarrow> pystr \<Rightarrow> accounts \<Rightarrow> registration_invite option" where
  "active_invite now email st =
     find (\<lambda>i. lower (in_email i) = email \<and> in_used_at i = None \<and> in_revoked_at i = None \<and> now < in_expires_at i)
       (ac_invites st)"

definition create_invite ::
  "auth_settings \<Rightarrow> instant \<Rightarrow> uuid \<Rightarrow> pystr \<Rightarrow> user \<Rightarrow> pystr \<Rightarrow> int option \<Rightarrow> accounts
     \<Rightarrow> py_error + (registration_invite \<times> pystr) \<times> accounts" where
  "create_invite cfg now iid raw admin email hours st =
     (let normalized = lower (strip email); ttl = (case hours of None \<Rightarrow> invite_token_expire_hours cfg | Some h \<Rightarrow> h)
      in if get_user_by_email st normalized \<noteq> None then Inl (HTTPException 400 (asc ''Email already registered.''))
         else if active_invite now normalized st \<noteq> None
         then Inl (HTTPException 400 (asc ''An active invitation already exists for this email.''))
         else if ttl < 1 \<or> 24 * 30 < ttl
         then Inl (HTTPException 400 (asc ''expires_in_hours must be between 1 and 720''))
         else (let invite = \<lparr>in_id = iid, in_email = normalized, in_role = user_role_seller, in_token_hash = hash_token raw,
                     in_invited_by_id = us_id admin, in_expires_at = now + seconds (3600 * ttl), in_used_at = None,
                     in_revoked_at = None, in_created_at = now\<rparr>
               in sbind (insert_invite invite st) (\<lambda>st1.
                    Inr ((invite, raw), record_auth_audit now (us_id admin) INVITE_CREATED
                      (asc ''Registration invite created for '' @ normalized) (Some iid) st1))))"

definition get_invite_by_id :: "accounts \<Rightarrow> uuid \<Rightarrow> registration_invite option" where
  "get_invite_by_id st iid = find (\<lambda>i. in_id i = iid) (ac_invites st)"

definition get_invite_by_token_hash :: "accounts \<Rightarrow> pystr \<Rightarrow> registration_invite option" where
  "get_invite_by_token_hash st h = find (\<lambda>i. in_token_hash i = h) (ac_invites st)"

definition revoke_invite :: "instant \<Rightarrow> uuid \<Rightarrow> user \<Rightarrow> accounts \<Rightarrow> py_error + registration_invite \<times> accounts" where
  "revoke_invite now iid admin st =
     (case get_invite_by_id st iid of
        None \<Rightarrow> Inl (HTTPException 404 (asc ''Invitation not found''))
      | Some i \<Rightarrow>
          if derive_status now i \<noteq> Invite_pending
          then Inl (HTTPException 400 (asc ''Only pending invitations can be revoked''))
          else Inr (i\<lparr>in_revoked_at := Some now\<rparr>,
            record_auth_audit now (us_id admin) INVITE_REVOKED (asc ''Registration invite revoked for '' @ in_email i)
              (Some iid) (update_invite iid (\<lambda>j. j\<lparr>in_revoked_at := Some now\<rparr>) st)))"

definition validate_token :: "instant \<Rightarrow> pystr \<Rightarrow> accounts \<Rightarrow> registration_invite option" where
  "validate_token now raw st =
     (case get_invite_by_token_hash st (hash_token raw) of
        None \<Rightarrow> None
      | Some i \<Rightarrow> if derive_status now i \<noteq> Invite_pending then None else Some i)"

definition invalid_invite :: py_error where
  "invalid_invite = HTTPException 403 (asc ''Invalid or expired invitation.'')"

definition consume_token :: "instant \<Rightarrow> pystr \<Rightarrow> pystr \<Rightarrow> accounts \<Rightarrow> py_error + registration_invite \<times> accounts" where
  "consume_token now raw email st =
     (case get_invite_by_token_hash st (hash_token raw) of
        None \<Rightarrow> Inl invalid_invite
      | Some i \<Rightarrow>
          if derive_status now i \<noteq> Invite_pending then Inl invalid_invite
          else if lower (in_email i) \<noteq> lower (strip email) then Inl invalid_invite
          else Inr (i\<lparr>in_used_at := Some now\<rparr>, update_invite (in_id i) (\<lambda>j. j\<lparr>in_used_at := Some now\<rparr>) st))"

definition list_invites :: "nat \<Rightarrow> nat \<Rightarrow> accounts \<Rightarrow> registration_invite list \<times> nat" where
  "list_invites skip limit st =
     (take limit (drop skip (sorted_desc in_created_at (ac_invites st))), length (ac_invites st))"

section \<open>Registration\<close>

record user_create =
  uc_email :: pystr
  uc_password :: pystr
  uc_full_name :: "pystr option"
  uc_invite_token :: "pystr option"

definition new_user :: "bcrypt \<Rightarrow> instant \<Rightarrow> uuid \<Rightarrow> nat \<Rightarrow> user_create \<Rightarrow> pystr \<Rightarrow> user" where
  "new_user B now uid salt data role =
     \<lparr>us_id = uid, us_email = lower (uc_email data), us_hashed_password = get_password_hash B salt (uc_password data),
      us_full_name = uc_full_name data, us_is_active = True, us_role = role, us_created_at = now\<rparr>"

definition register :: "bcrypt \<Rightarrow> instant \<Rightarrow> uuid \<Rightarrow> nat \<Rightarrow> user_create \<Rightarrow> accounts \<Rightarrow> py_error + user \<times> accounts" where
  "register B now uid salt data st =
     (if get_user_by_email st (uc_email data) \<noteq> None then Inl (HTTPException 400 (asc ''Email already registered''))
      else (let u = new_user B now uid salt data default_user_role in sbind (insert_user u st) (\<lambda>st1. Inr (u, st1))))"

definition register_with_invite ::
  "bcrypt \<Rightarrow> instant \<Rightarrow> uuid \<Rightarrow> nat \<Rightarrow> user_create \<Rightarrow> accounts \<Rightarrow> py_error + user \<times> accounts" where
  "register_with_invite B now uid salt data st =
     (if opt_text (uc_invite_token data) = [] then Inl (HTTPException 403 (asc ''Valid invitation required.''))
      else sbind (consume_token now (opt_text (uc_invite_token data)) (uc_email data) st) (\<lambda>(invite, st1).
        if get_user_by_email st1 (uc_email data) \<noteq> None then Inl (HTTPException 400 (asc ''Email already registered''))
        else (let u = new_user B now uid salt data (if in_role invite = [] then default_user_role else in_role invite)
              in sbind (insert_user u st1) (\<lambda>st2.
                   Inr (u, record_auth_audit now uid INVITE_ACCEPTED
                     (asc ''Registration completed via invitation for '' @ us_email u) (Some (in_id invite)) st2)))))"

definition normalize_registration_mode :: "pystr \<Rightarrow> pystr" where
  "normalize_registration_mode mode = lower (strip mode)"

definition is_registration_open :: "auth_settings \<Rightarrow> bool" where
  "is_registration_open cfg \<longleftrightarrow> normalize_registration_mode (registration_mode cfg) = asc ''open''"

definition is_invite_only_mode :: "auth_settings \<Rightarrow> bool" where
  "is_invite_only_mode cfg \<longleftrightarrow> normalize_registration_mode (registration_mode cfg) = asc ''invite_only''"

definition register_route ::
  "auth_settings \<Rightarrow> bcrypt \<Rightarrow> instant \<Rightarrow> uuid \<Rightarrow> nat \<Rightarrow> user_create \<Rightarrow> accounts \<Rightarrow> py_error + user \<times> accounts" where
  "register_route cfg B now uid salt data st =
     (if is_registration_open cfg then register B now uid salt data st
      else if is_invite_only_mode cfg
      then (if opt_text (uc_invite_token data) = [] then Inl (HTTPException 403 (asc ''Valid invitation required.''))
            else register_with_invite B now uid salt data st)
      else Inl (HTTPException 403 (asc ''Registration is currently unavailable.'')))"

section \<open>Passwords\<close>

definition validate_new_password :: "bcrypt \<Rightarrow> pystr \<Rightarrow> pystr \<Rightarrow> pystr \<Rightarrow> pystr \<Rightarrow> py_error + unit" where
  "validate_new_password B current_hash current_plain new_plain confirm_plain =
     (if new_plain \<noteq> confirm_plain then Inl (HTTPException 400 (asc ''New password and confirmation do not match''))
      else if verify_password B new_plain current_hash
      then Inl (HTTPException 400 (asc ''New password must differ from the current password''))
      else if \<not> verify_password B current_plain current_hash
      then Inl (HTTPException 401 (asc ''Incorrect current password''))
      else Inr ())"

definition change_password ::
  "bcrypt \<Rightarrow> instant \<Rightarrow> nat \<Rightarrow> user \<Rightarrow> pystr \<Rightarrow> pystr \<Rightarrow> pystr \<Rightarrow> accounts \<Rightarrow> py_error + accounts" where
  "change_password B now salt u current_password new_password confirm_password st =
     sbind (validate_new_password B (us_hashed_password u) current_password new_password confirm_password) (\<lambda>_.
       Inr (record_auth_audit now (us_id u) PASSWORD_CHANGED (asc ''Password changed via authenticated session'') None
         (set_password (us_id u) (get_password_hash B salt new_password) st)))"

definition smtp_configured :: "auth_settings \<Rightarrow> bool" where
  "smtp_configured cfg \<longleftrightarrow> strip (smtp_host cfg) \<noteq> [] \<and> strip (smtp_from cfg) \<noteq> []
     \<and> strip (smtp_user cfg) \<noteq> [] \<and> strip (smtp_password cfg) \<noteq> []"

definition email_unavailable :: py_error where
  "email_unavailable = HTTPException 503 (asc ''Email delivery is unavailable. Contact support.'')"

definition rstrip_slash :: "pystr \<Rightarrow> pystr" where
  "rstrip_slash s = rev (dropWhile (\<lambda>c. c = 47) (rev s))"

text \<open>\<open>delivered\<close>: the SMTP server takes the mail.\<close>

definition request_password_reset ::
  "auth_settings \<Rightarrow> bool \<Rightarrow> instant \<Rightarrow> uuid \<Rightarrow> pystr \<Rightarrow> pystr \<Rightarrow> accounts \<Rightarrow> py_error + accounts" where
  "request_password_reset cfg delivered now rid raw email st =
     (case get_user_by_email st email of
        None \<Rightarrow> Inr st
      | Some u \<Rightarrow>
          if \<not> us_is_active u then Inr st
          else if \<not> smtp_configured cfg then Inl email_unavailable
          else sbind (insert_reset \<lparr>rt_id = rid, rt_user_id = us_id u, rt_token_hash = hash_token raw,
                   rt_expires_at = now + seconds (60 * password_reset_token_expire_minutes cfg), rt_used_at = None,
                   rt_created_at = now\<rparr> st) (\<lambda>st1.
            if \<not> delivered then Inl email_unavailable
            else Inr (record_auth_audit now (us_id u) PASSWORD_RESET_REQUESTED (asc ''Password reset email requested'') None
              (st1\<lparr>ac_mails := ac_mails st1 @ [\<lparr>ml_to = us_email u,
                 ml_reset_url = rstrip_slash (app_public_url cfg) @ asc ''/reset-password?token='' @ raw\<rparr>]\<rparr>))))"

definition usable_reset :: "instant \<Rightarrow> pystr \<Rightarrow> password_reset_token \<Rightarrow> bool" where
  "usable_reset now token r \<longleftrightarrow> rt_token_hash r = hash_token token \<and> rt_used_at r = None \<and> now < rt_expires_at r"

definition use_reset :: "instant \<Rightarrow> uuid \<Rightarrow> accounts \<Rightarrow> accounts" where
  "use_reset now rid st =
     st\<lparr>ac_resets := map (\<lambda>r. if rt_id r = rid then r\<lparr>rt_used_at := Some now\<rparr> else r) (ac_resets st)\<rparr>"

definition invalid_reset :: py_error where
  "invalid_reset = HTTPException 400 (asc ''Invalid or expired password reset link'')"

definition reset_password_with_token ::
  "bcrypt \<Rightarrow> instant \<Rightarrow> nat \<Rightarrow> pystr \<Rightarrow> pystr \<Rightarrow> pystr \<Rightarrow> accounts \<Rightarrow> py_error + user \<times> accounts" where
  "reset_password_with_token B now salt token new_password confirm_password st =
     (if new_password \<noteq> confirm_password then Inl (HTTPException 400 (asc ''New password and confirmation do not match''))
      else case find (usable_reset now token) (ac_resets st) of
        None \<Rightarrow> Inl invalid_reset
      | Some r \<Rightarrow>
          (case get_user_by_id st (rt_user_id r) of
             None \<Rightarrow> Inl invalid_reset
           | Some u \<Rightarrow>
               if \<not> us_is_active u then Inl invalid_reset
               else (let h = get_password_hash B salt new_password
                     in Inr (u\<lparr>us_hashed_password := h\<rparr>,
                          record_auth_audit now (us_id u) PASSWORD_RESET_COMPLETED
                            (asc ''Password reset completed via email token'') None
                            (use_reset now (rt_id r) (set_password (us_id u) h st))))))"

section \<open>Requests\<close>

text \<open>
  The requests that change the tables, each with the session token it carries; what the server adds to a request is
  its environment. A refused request leaves the tables as they are.
\<close>

datatype auth_request =
    Register user_create
  | Create_invite pystr pystr "int option"
  | Revoke_invite pystr uuid
  | Change_password pystr pystr pystr pystr
  | Forgot_password pystr
  | Reset_password pystr pystr pystr

record auth_env =
  ev_now :: instant
  ev_decode :: "pystr \<Rightarrow> uuid option"
  ev_id :: uuid
  ev_raw :: pystr
  ev_salt :: nat
  ev_delivered :: bool

definition current_admin :: "auth_env \<Rightarrow> pystr \<Rightarrow> accounts \<Rightarrow> py_error + user" where
  "current_admin env tok st = sbind (get_current_user (ev_decode env) tok st) require_platform_admin"

definition handle_request :: "auth_settings \<Rightarrow> bcrypt \<Rightarrow> auth_env \<Rightarrow> auth_request \<Rightarrow> accounts \<Rightarrow> py_error + accounts" where
  "handle_request cfg B env req st =
     (case req of
        Register data \<Rightarrow> sbind (register_route cfg B (ev_now env) (ev_id env) (ev_salt env) data st) (\<lambda>(u, st1). Inr st1)
      | Create_invite tok email hours \<Rightarrow> sbind (current_admin env tok st) (\<lambda>admin.
          sbind (create_invite cfg (ev_now env) (ev_id env) (ev_raw env) admin email hours st) (\<lambda>(r, st1). Inr st1))
      | Revoke_invite tok iid \<Rightarrow> sbind (current_admin env tok st) (\<lambda>admin.
          sbind (revoke_invite (ev_now env) iid admin st) (\<lambda>(i, st1). Inr st1))
      | Change_password tok cur new conf \<Rightarrow> sbind (get_current_user (ev_decode env) tok st) (\<lambda>u.
          change_password B (ev_now env) (ev_salt env) u cur new conf st)
      | Forgot_password email \<Rightarrow>
          request_password_reset cfg (ev_delivered env) (ev_now env) (ev_id env) (ev_raw env) email st
      | Reset_password tok new conf \<Rightarrow>
          sbind (reset_password_with_token B (ev_now env) (ev_salt env) tok new conf st) (\<lambda>(u, st1). Inr st1))"

definition serve_request :: "auth_settings \<Rightarrow> bcrypt \<Rightarrow> auth_env \<times> auth_request \<Rightarrow> accounts \<Rightarrow> accounts" where
  "serve_request cfg B q st = (case handle_request cfg B (fst q) (snd q) st of Inl e \<Rightarrow> st | Inr st1 \<Rightarrow> st1)"

definition serve_requests :: "auth_settings \<Rightarrow> bcrypt \<Rightarrow> (auth_env \<times> auth_request) list \<Rightarrow> accounts \<Rightarrow> accounts" where
  "serve_requests cfg B qs st = fold (serve_request cfg B) qs st"

end
