(* ===== verification/Account_Properties.thy ===== *)
theory Account_Properties
  imports Accounts
begin

text \<open>
  Accounts are opened by invitations, one each; passwords change only with the old one or with an unused reset link;
  what forgot-password and reset leave open.
\<close>

section \<open>Rows of the tables\<close>

definition accounts_ok :: "accounts \<Rightarrow> bool" where
  "accounts_ok st \<longleftrightarrow> distinct (map us_id (ac_users st)) \<and> distinct (map us_email (ac_users st))
     \<and> distinct (map in_id (ac_invites st)) \<and> distinct (map in_token_hash (ac_invites st))
     \<and> distinct (map rt_id (ac_resets st)) \<and> distinct (map rt_token_hash (ac_resets st))"

lemma find_SomeD: "find P xs = Some x \<Longrightarrow> x \<in> set xs \<and> P x"
  by (auto simp: find_Some_iff)

lemma distinct_key_unique: "\<lbrakk>distinct (map f xs); x \<in> set xs; y \<in> set xs; f x = f y\<rbrakk> \<Longrightarrow> x = y"
  by (simp add: distinct_map inj_on_def)

section \<open>What each request does\<close>

lemma insert_user_Inr:
  "insert_user u st = Inr st' \<longleftrightarrow>
     us_id u \<notin> us_id ` set (ac_users st) \<and> us_email u \<notin> us_email ` set (ac_users st)
     \<and> st' = st\<lparr>ac_users := ac_users st @ [u]\<rparr>"
  by (auto simp: insert_user_def image_iff) (metis+)

lemma register_Inr:
  assumes "register B now uid salt data st = Inr (u, st')"
  shows "u = new_user B now uid salt data default_user_role" and "insert_user u st = Inr st'"
  using assms by (auto simp: register_def Let_def sbind_Inr_iff split: if_splits)

lemma consume_token_Inr:
  assumes "consume_token now raw email st = Inr (i', st')"
  obtains i where "i \<in> set (ac_invites st)" and "in_token_hash i = hash_token raw" and "derive_status now i = Invite_pending"
    and "lower (in_email i) = lower (strip email)" and "i' = i\<lparr>in_used_at := Some now\<rparr>"
    and "st' = update_invite (in_id i) (\<lambda>j. j\<lparr>in_used_at := Some now\<rparr>) st"
proof (cases "get_invite_by_token_hash st (hash_token raw)")
  case None
  with assms show ?thesis by (simp add: consume_token_def)
next
  case (Some i)
  then have "i \<in> set (ac_invites st)" "in_token_hash i = hash_token raw"
    by (auto simp: get_invite_by_token_hash_def dest: find_SomeD)
  with assms Some that show ?thesis by (simp add: consume_token_def split: if_splits)
qed

lemma register_with_invite_Inr:
  assumes "register_with_invite B now uid salt data st = Inr (u, st')"
  obtains i st1 where "i \<in> set (ac_invites st)" and "in_token_hash i = hash_token (opt_text (uc_invite_token data))"
    and "derive_status now i = Invite_pending" and "lower (in_email i) = lower (strip (uc_email data))"
    and "st1 = update_invite (in_id i) (\<lambda>j. j\<lparr>in_used_at := Some now\<rparr>) st"
    and "u = new_user B now uid salt data (if in_role i = [] then default_user_role else in_role i)"
    and "us_id u \<notin> us_id ` set (ac_users st)" and "us_email u \<notin> us_email ` set (ac_users st)"
    and "ac_users st' = ac_users st @ [u]" and "ac_invites st' = ac_invites st1" and "ac_resets st' = ac_resets st"
proof -
  from assms obtain i' st1 where c: "consume_token now (opt_text (uc_invite_token data)) (uc_email data) st = Inr (i', st1)"
    by (auto simp: register_with_invite_def sbind_Inr_iff split: if_splits)
  from consume_token_Inr [OF c] obtain i where i: "i \<in> set (ac_invites st)"
      "in_token_hash i = hash_token (opt_text (uc_invite_token data))" "derive_status now i = Invite_pending"
      "lower (in_email i) = lower (strip (uc_email data))" "i' = i\<lparr>in_used_at := Some now\<rparr>"
      "st1 = update_invite (in_id i) (\<lambda>j. j\<lparr>in_used_at := Some now\<rparr>) st" by metis
  define w where "w = new_user B now uid salt data (if in_role i = [] then default_user_role else in_role i)"
  have role: "in_role i' = in_role i" by (simp add: i(5))
  have "sbind (insert_user w st1) (\<lambda>st2. Inr (w, record_auth_audit now uid INVITE_ACCEPTED
      (asc ''Registration completed via invitation for '' @ us_email w) (Some (in_id i')) st2)) = Inr (u, st')"
    using assms c by (simp add: register_with_invite_def Let_def role w_def split: if_splits)
  then obtain st2 where st2: "insert_user w st1 = Inr st2" "u = w" and st': "ac_users st' = ac_users st2"
      "ac_invites st' = ac_invites st2" "ac_resets st' = ac_resets st2"
    by (auto simp: sbind_Inr_iff record_auth_audit_def)
  have users: "ac_users st1 = ac_users st" "ac_resets st1 = ac_resets st" by (simp_all add: i(6) update_invite_def)
  show ?thesis
    by (rule that [OF i(1-4) i(6)]) (use st2 st' users w_def in \<open>auto simp: insert_user_Inr\<close>)
qed

lemma create_invite_Inr:
  assumes "create_invite cfg now iid raw admin email hours st = Inr (res, st')"
  obtains i where "in_role i = user_role_seller" and "in_invited_by_id i = us_id admin" and "in_used_at i = None"
    and "in_id i \<notin> in_id ` set (ac_invites st)" and "in_token_hash i \<notin> in_token_hash ` set (ac_invites st)"
    and "ac_invites st' = ac_invites st @ [i]" and "ac_users st' = ac_users st" and "ac_resets st' = ac_resets st"
proof -
  define i where "i = \<lparr>in_id = iid, in_email = lower (strip email), in_role = user_role_seller,
    in_token_hash = hash_token raw, in_invited_by_id = us_id admin,
    in_expires_at = now + seconds (3600 * (case hours of None \<Rightarrow> invite_token_expire_hours cfg | Some h \<Rightarrow> h)),
    in_used_at = None, in_revoked_at = None, in_created_at = now\<rparr>"
  obtain st1 where st1: "insert_invite i st = Inr st1" and st': "ac_invites st' = ac_invites st1"
      "ac_users st' = ac_users st1" "ac_resets st' = ac_resets st1"
    using assms by (auto simp: create_invite_def Let_def sbind_Inr_iff record_auth_audit_def simp flip: i_def split: if_splits)
  show ?thesis
    by (rule that [of i]) (use st1 st' in \<open>auto simp: insert_invite_def i_def split: if_splits\<close>)
qed

lemma revoke_invite_Inr:
  assumes "revoke_invite now iid admin st = Inr (res, st')"
  obtains i where "i \<in> set (ac_invites st)" and "in_id i = iid" and "derive_status now i = Invite_pending"
    and "ac_invites st' = map (\<lambda>j. if in_id j = iid then j\<lparr>in_revoked_at := Some now\<rparr> else j) (ac_invites st)"
    and "ac_users st' = ac_users st" and "ac_resets st' = ac_resets st"
proof (cases "get_invite_by_id st iid")
  case None
  with assms show ?thesis by (simp add: revoke_invite_def)
next
  case (Some i)
  then have "i \<in> set (ac_invites st)" "in_id i = iid" by (auto simp: get_invite_by_id_def dest: find_SomeD)
  with assms Some that [of i] show ?thesis
    by (auto simp: revoke_invite_def record_auth_audit_def update_invite_def split: if_splits)
qed

lemma get_current_user_Inr:
  assumes "get_current_user decode tok st = Inr u"
  shows "u \<in> set (ac_users st)" and "decode tok = Some (us_id u)" and "us_is_active u"
  using assms by (auto simp: get_current_user_def get_user_by_id_def dest!: find_SomeD split: option.splits if_splits)

lemma current_admin_Inr:
  assumes "current_admin env tok st = Inr a"
  shows "a \<in> set (ac_users st)" and "is_platform_admin (us_role a)"
  using assms by (auto simp: current_admin_def require_platform_admin_def sbind_Inr_iff split: if_splits
    dest: get_current_user_Inr)

lemma change_password_Inr:
  assumes "change_password B now salt u cur new conf st = Inr st'"
  shows "conf = new" and "verify_password B cur (us_hashed_password u)"
    and "ac_users st' = ac_users (set_password (us_id u) (get_password_hash B salt new) st)"
    and "ac_invites st' = ac_invites st" and "ac_resets st' = ac_resets st"
  using assms by (auto simp: change_password_def validate_new_password_def sbind_Inr_iff record_auth_audit_def
    set_password_def split: if_splits)

lemma insert_reset_Inr:
  "insert_reset r st = Inr st' \<longleftrightarrow>
     rt_id r \<notin> rt_id ` set (ac_resets st) \<and> rt_token_hash r \<notin> rt_token_hash ` set (ac_resets st)
     \<and> st' = st\<lparr>ac_resets := ac_resets st @ [r]\<rparr>"
  by (auto simp: insert_reset_def image_iff) (metis+)

lemma request_password_reset_Inr:
  assumes "request_password_reset cfg ok now rid raw email st = Inr st'"
  shows "ac_users st' = ac_users st" and "ac_invites st' = ac_invites st"
    and "ac_resets st' = ac_resets st \<or> (\<exists>r. ac_resets st' = ac_resets st @ [r] \<and> rt_id r \<notin> rt_id ` set (ac_resets st)
      \<and> rt_token_hash r \<notin> rt_token_hash ` set (ac_resets st))"
  using assms by (auto simp: request_password_reset_def insert_reset_Inr sbind_Inr_iff record_auth_audit_def
    split: option.splits if_splits)

lemma reset_password_Inr:
  assumes "reset_password_with_token B now salt tok new conf st = Inr (u', st')"
  obtains r u where "conf = new" and "r \<in> set (ac_resets st)" and "usable_reset now tok r"
    and "u \<in> set (ac_users st)" and "us_id u = rt_user_id r" and "us_is_active u"
    and "ac_users st' = ac_users (set_password (us_id u) (get_password_hash B salt new) st)"
    and "ac_invites st' = ac_invites st"
    and "ac_resets st' = map (\<lambda>q. if rt_id q = rt_id r then q\<lparr>rt_used_at := Some now\<rparr> else q) (ac_resets st)"
    and "u' = u\<lparr>us_hashed_password := get_password_hash B salt new\<rparr>"
proof (cases "find (usable_reset now tok) (ac_resets st)")
  case None
  with assms show ?thesis by (simp add: reset_password_with_token_def split: if_splits)
next
  case (Some r)
  then have r: "r \<in> set (ac_resets st)" "usable_reset now tok r" by (auto dest: find_SomeD)
  obtain u where u: "get_user_by_id st (rt_user_id r) = Some u" "us_is_active u" and conf: "conf = new"
    using assms Some by (auto simp: reset_password_with_token_def split: if_splits option.splits)
  have "u \<in> set (ac_users st)" "us_id u = rt_user_id r"
    using u(1) by (auto simp: get_user_by_id_def dest: find_SomeD)
  then have st': "st' = record_auth_audit now (us_id u) PASSWORD_RESET_COMPLETED (asc ''Password reset completed via email token'') None
      (use_reset now (rt_id r) (set_password (us_id u) (get_password_hash B salt new) st))"
      "u' = u\<lparr>us_hashed_password := get_password_hash B salt new\<rparr>"
    using assms Some u conf by (auto simp: reset_password_with_token_def Let_def)
  show ?thesis
    by (rule that [OF conf r \<open>u \<in> set (ac_users st)\<close> \<open>us_id u = rt_user_id r\<close> u(2)])
      (simp_all add: st' record_auth_audit_def use_reset_def set_password_def)
qed

section \<open>The keys stay unique\<close>

lemma map_update_invite: "(\<And>i. g (f i) = g i) \<Longrightarrow> map g (ac_invites (update_invite iid f st)) = map g (ac_invites st)"
  by (simp add: update_invite_def)

lemma map_set_password:
  "map us_id (ac_users (set_password uid h st)) = map us_id (ac_users st)"
  "map us_email (ac_users (set_password uid h st)) = map us_email (ac_users st)"
  "map us_role (ac_users (set_password uid h st)) = map us_role (ac_users st)"
  by (simp_all add: set_password_def)

lemma keys_register:
  assumes "register_route cfg B now uid salt data st = Inr (u, st')" and "accounts_ok st"
  shows "accounts_ok st'"
proof (cases "is_registration_open cfg")
  case True
  with assms(1) have "insert_user u st = Inr st'" by (auto simp: register_route_def dest: register_Inr)
  with assms(2) show ?thesis by (auto simp: accounts_ok_def insert_user_Inr)
next
  case False
  with assms(1) have r: "register_with_invite B now uid salt data st = Inr (u, st')"
    by (auto simp: register_route_def split: if_splits)
  show ?thesis
    using r
  proof (rule register_with_invite_Inr)
    fix i st1
    assume st1: "st1 = update_invite (in_id i) (\<lambda>j. j\<lparr>in_used_at := Some now\<rparr>) st" and inv: "ac_invites st' = ac_invites st1"
      and fresh: "us_id u \<notin> us_id ` set (ac_users st)" "us_email u \<notin> us_email ` set (ac_users st)"
      and us: "ac_users st' = ac_users st @ [u]" and rs: "ac_resets st' = ac_resets st"
    have "map in_id (ac_invites st') = map in_id (ac_invites st)"
        "map in_token_hash (ac_invites st') = map in_token_hash (ac_invites st)"
      by (simp_all add: inv st1 map_update_invite)
    with fresh us rs assms(2) show ?thesis by (simp add: accounts_ok_def)
  qed
qed

lemma handle_request_Inr:
  "handle_request cfg B env (Register data) st = Inr st'
     \<longleftrightarrow> (\<exists>u. register_route cfg B (ev_now env) (ev_id env) (ev_salt env) data st = Inr (u, st'))"
  "handle_request cfg B env (Create_invite tok email hours) st = Inr st'
     \<longleftrightarrow> (\<exists>a res. current_admin env tok st = Inr a \<and>
       create_invite cfg (ev_now env) (ev_id env) (ev_raw env) a email hours st = Inr (res, st'))"
  "handle_request cfg B env (Revoke_invite tok iid) st = Inr st'
     \<longleftrightarrow> (\<exists>a i. current_admin env tok st = Inr a \<and> revoke_invite (ev_now env) iid a st = Inr (i, st'))"
  "handle_request cfg B env (Change_password tok cur new conf) st = Inr st'
     \<longleftrightarrow> (\<exists>u. get_current_user (ev_decode env) tok st = Inr u \<and>
       change_password B (ev_now env) (ev_salt env) u cur new conf st = Inr st')"
  "handle_request cfg B env (Forgot_password email) st = Inr st'
     \<longleftrightarrow> request_password_reset cfg (ev_delivered env) (ev_now env) (ev_id env) (ev_raw env) email st = Inr st'"
  "handle_request cfg B env (Reset_password tok new conf) st = Inr st'
     \<longleftrightarrow> (\<exists>u. reset_password_with_token B (ev_now env) (ev_salt env) tok new conf st = Inr (u, st'))"
  by (simp_all add: handle_request_def sbind_Inr_iff split_paired_Ex)

lemma keys_handled:
  assumes h: "handle_request cfg B env req st = Inr st'" and ok: "accounts_ok st"
  shows "accounts_ok st'"
proof (cases req)
  case (Register data)
  with h ok show ?thesis by (auto simp: handle_request_Inr intro: keys_register)
next
  case (Create_invite tok email hours)
  with h obtain a res where "create_invite cfg (ev_now env) (ev_id env) (ev_raw env) a email hours st = Inr (res, st')"
    by (auto simp: handle_request_Inr)
  then show ?thesis by (rule create_invite_Inr) (use ok in \<open>simp add: accounts_ok_def\<close>)
next
  case (Revoke_invite tok iid)
  with h obtain a i where "revoke_invite (ev_now env) iid a st = Inr (i, st')" by (auto simp: handle_request_Inr)
  then show ?thesis
    by (rule revoke_invite_Inr) (use ok in \<open>simp add: accounts_ok_def comp_def if_distrib cong: if_cong\<close>)
next
  case (Change_password tok cur new conf)
  with h obtain u where "change_password B (ev_now env) (ev_salt env) u cur new conf st = Inr st'"
    by (auto simp: handle_request_Inr)
  from change_password_Inr(3-5) [OF this] ok show ?thesis by (simp add: accounts_ok_def map_set_password)
next
  case (Forgot_password email)
  with h request_password_reset_Inr ok show ?thesis
    by (fastforce simp: accounts_ok_def handle_request_Inr)
next
  case (Reset_password tok new conf)
  with h obtain u where "reset_password_with_token B (ev_now env) (ev_salt env) tok new conf st = Inr (u, st')"
    by (auto simp: handle_request_Inr)
  then show ?thesis
    by (rule reset_password_Inr) (use ok in \<open>simp add: accounts_ok_def map_set_password comp_def if_distrib cong: if_cong\<close>)
qed

lemma serve_request_cases:
  obtains (refused) "serve_request cfg B q st = st"
    | (handled) "handle_request cfg B (fst q) (snd q) st = Inr (serve_request cfg B q st)"
  by (cases "handle_request cfg B (fst q) (snd q) st") (simp_all add: serve_request_def)

lemma keys_served: "accounts_ok st \<Longrightarrow> accounts_ok (serve_request cfg B q st)"
  by (rule serve_request_cases [of cfg B q st]) (auto intro: keys_handled)


section \<open>Every account is an invitation\<close>

definition used_invites :: "accounts \<Rightarrow> nat" where
  "used_invites st = length (filter (\<lambda>i. in_used_at i \<noteq> None) (ac_invites st))"

definition invitation_of :: "registration_invite \<Rightarrow> user \<Rightarrow> bool" where
  "invitation_of i u \<longleftrightarrow> in_used_at i = Some (us_created_at u) \<and> in_revoked_at i = None
     \<and> us_created_at u < in_expires_at i \<and> lower (in_email i) = lower (strip (us_email u))"

definition issued_by_admins :: "accounts \<Rightarrow> accounts \<Rightarrow> bool" where
  "issued_by_admins st0 st \<longleftrightarrow> (\<forall>i\<in>set (ac_invites st). in_role i = user_role_seller \<and>
     (\<exists>a\<in>set (ac_users st0). us_id a = in_invited_by_id i \<and> is_platform_admin (us_role a)))"

definition same_account :: "user \<Rightarrow> user \<Rightarrow> bool" where
  "same_account u v \<longleftrightarrow> us_id u = us_id v \<and> us_email u = us_email v \<and> us_role u = us_role v \<and> us_created_at u = us_created_at v"

definition account_of :: "accounts \<Rightarrow> registration_invite list \<Rightarrow> user \<Rightarrow> bool" where
  "account_of st0 is u \<longleftrightarrow> (\<exists>v\<in>set (ac_users st0). same_account u v)
     \<or> us_role u = user_role_seller \<and> (\<exists>i\<in>set is. invitation_of i u)"

definition grown_from :: "accounts \<Rightarrow> accounts \<Rightarrow> bool" where
  "grown_from st0 st \<longleftrightarrow> accounts_ok st \<and> issued_by_admins st0 st
     \<and> (\<forall>u\<in>set (ac_users st). account_of st0 (ac_invites st) u)
     \<and> length (ac_users st) + used_invites st0 = length (ac_users st0) + used_invites st"

lemma length_filter_update:
  assumes "distinct (map f xs)" and "x \<in> set xs" and "\<not> P x" and "P (h x)" and "\<And>y. f (h y) = f y"
  shows "length (filter P (map (\<lambda>y. if f y = f x then h y else y) xs)) = Suc (length (filter P xs))"
  using assms
proof (induction xs)
  case Nil
  then show ?case by simp
next
  case (Cons y ys)
  show ?case
  proof (cases "x = y")
    case True
    have "map (\<lambda>y. if f y = f x then h y else y) ys = ys"
      using Cons.prems(1) True by (intro map_idI) (auto simp: image_iff)
    then show ?thesis using Cons.prems(3,4) True by (simp add: True)
  next
    case False
    with Cons.prems(1,2) have "f y \<noteq> f x" and x: "x \<in> set ys" by (auto simp: image_iff)
    with Cons.IH [OF _ x Cons.prems(3-5)] Cons.prems(1) show ?thesis by simp
  qed
qed

lemma filter_map_same: "(\<And>y. y \<in> set xs \<Longrightarrow> P (h y) = P y) \<Longrightarrow> length (filter P (map h xs)) = length (filter P xs)"
  by (induction xs) auto

lemma pending_unused: "derive_status now i = Invite_pending \<Longrightarrow> in_used_at i = None \<and> in_revoked_at i = None \<and> now < in_expires_at i"
  by (simp add: derive_status_def split: if_splits)

lemma used_row_kept:
  assumes "distinct (map in_id is)" and "i \<in> set is" and "in_used_at i = None" and "j \<in> set is" and "in_used_at j \<noteq> None"
  shows "j \<in> set (map (\<lambda>k. if in_id k = in_id i then f k else k) is)"
proof -
  have "in_id j \<noteq> in_id i" using distinct_key_unique [OF assms(1,2,4)] assms(3,5) by auto
  with assms(4) show ?thesis by (auto intro!: image_eqI [of _ _ j])
qed

lemma account_of_mono:
  assumes "account_of st0 is u" and "\<And>j. j \<in> set is \<Longrightarrow> in_used_at j \<noteq> None \<Longrightarrow> j \<in> set js" and "same_account u' u"
  shows "account_of st0 js u'"
proof -
  have "invitation_of j u \<Longrightarrow> invitation_of j u'" for j
    using assms(3) by (simp add: invitation_of_def same_account_def)
  moreover have "invitation_of j u \<Longrightarrow> in_used_at j \<noteq> None" for j by (simp add: invitation_of_def)
  ultimately have "\<exists>i\<in>set is. invitation_of i u \<Longrightarrow> \<exists>i\<in>set js. invitation_of i u'" using assms(2) by blast
  moreover have "\<exists>v\<in>set (ac_users st0). same_account u v \<Longrightarrow> \<exists>v\<in>set (ac_users st0). same_account u' v"
    using assms(3) by (auto simp: same_account_def)
  moreover have "us_role u' = us_role u" using assms(3) by (simp add: same_account_def)
  ultimately show ?thesis using assms(1) by (auto simp: account_of_def)
qed

lemma same_account_refl [simp]: "same_account u u"
  by (simp add: same_account_def)

lemma set_password_same: "u' \<in> set (ac_users (set_password uid h st)) \<Longrightarrow> \<exists>u\<in>set (ac_users st). same_account u' u"
  by (auto simp: set_password_def same_account_def)

text \<open>A request that leaves the invitations alone and keeps the accounts up to their passwords.\<close>

lemma grown_same_invites:
  assumes "grown_from st0 st" and "accounts_ok st'" and "ac_invites st' = ac_invites st"
    and "ac_users st' = ac_users st \<or> (\<exists>uid h. ac_users st' = ac_users (set_password uid h st))"
  shows "grown_from st0 st'"
proof -
  have "account_of st0 (ac_invites st) u'" if u': "u' \<in> set (ac_users st')" for u'
  proof -
    have "\<exists>u\<in>set (ac_users st). same_account u' u"
      using assms(4) u' set_password_same by (auto intro: same_account_refl)
    then show ?thesis using assms(1) account_of_mono [of st0 "ac_invites st"] by (auto simp: grown_from_def)
  qed
  moreover have "length (ac_users st') = length (ac_users st)" using assms(4) by (auto simp: set_password_def)
  ultimately show ?thesis
    using assms by (simp add: grown_from_def issued_by_admins_def used_invites_def)
qed

lemma grown_register:
  assumes mode: "is_invite_only_mode cfg" and g: "grown_from st0 st" and ok: "accounts_ok st'"
    and r: "register_route cfg B now uid salt data st = Inr (u, st')"
  shows "grown_from st0 st'"
proof -
  have "\<not> is_registration_open cfg" using mode by (simp add: is_registration_open_def is_invite_only_mode_def asc_def)
  with mode r have "register_with_invite B now uid salt data st = Inr (u, st')"
    by (auto simp: register_route_def split: if_splits)
  then show ?thesis
  proof (rule register_with_invite_Inr)
    fix i st1
    assume i: "i \<in> set (ac_invites st)" and pending: "derive_status now i = Invite_pending"
      and email: "lower (in_email i) = lower (strip (uc_email data))"
      and st1: "st1 = update_invite (in_id i) (\<lambda>j. j\<lparr>in_used_at := Some now\<rparr>) st"
      and u: "u = new_user B now uid salt data (if in_role i = [] then default_user_role else in_role i)"
      and us: "ac_users st' = ac_users st @ [u]" and inv: "ac_invites st' = ac_invites st1"
    have ids: "distinct (map in_id (ac_invites st))" using g by (simp add: grown_from_def accounts_ok_def)
    have unused: "in_used_at i = None" "in_revoked_at i = None" "now < in_expires_at i"
      using pending_unused [OF pending] by simp_all
    have invs: "ac_invites st' = map (\<lambda>j. if in_id j = in_id i then j\<lparr>in_used_at := Some now\<rparr> else j) (ac_invites st)"
      by (simp add: inv st1 update_invite_def)
    have count: "used_invites st' = Suc (used_invites st)"
      unfolding used_invites_def invs by (rule length_filter_update [OF ids i]) (simp_all add: unused)
    have role: "in_role i = user_role_seller" using g i by (simp add: grown_from_def issued_by_admins_def)
    have "i\<lparr>in_used_at := Some now\<rparr> \<in> set (ac_invites st')" using i by (auto simp: invs intro!: image_eqI [of _ _ i])
    moreover have "invitation_of (i\<lparr>in_used_at := Some now\<rparr>) u"
      using unused email by (simp add: invitation_of_def u new_user_def strip_lower)
    moreover have "us_role u = user_role_seller"
      by (simp add: u new_user_def role default_user_role_def)
    ultimately have new: "account_of st0 (ac_invites st') u" by (auto simp: account_of_def)
    have old: "account_of st0 (ac_invites st') v" if v: "v \<in> set (ac_users st)" for v
    proof (rule account_of_mono)
      show "account_of st0 (ac_invites st) v" using g v by (simp add: grown_from_def)
      show "j \<in> set (ac_invites st')" if "j \<in> set (ac_invites st)" "in_used_at j \<noteq> None" for j
        unfolding invs by (rule used_row_kept [OF ids i unused(1) that])
    qed simp
    have "issued_by_admins st0 st'"
      using g by (auto simp: grown_from_def issued_by_admins_def invs)
    with new old ok g count show ?thesis by (simp add: grown_from_def us)
  qed
qed

lemma grown_create:
  assumes g: "grown_from st0 st" and ok: "accounts_ok st'" and adm: "current_admin env tok st = Inr a"
    and c: "create_invite cfg now iid raw a email hours st = Inr (res, st')"
  shows "grown_from st0 st'"
  using c
proof (rule create_invite_Inr)
  fix i
  assume i: "in_role i = user_role_seller" "in_invited_by_id i = us_id a" "in_used_at i = None"
    and invs: "ac_invites st' = ac_invites st @ [i]" and us: "ac_users st' = ac_users st"
  have "account_of st0 (ac_invites st) a" using g current_admin_Inr(1) [OF adm] by (simp add: grown_from_def)
  moreover have "us_role a \<noteq> user_role_seller"
    using current_admin_Inr(2) [OF adm] by (simp add: is_platform_admin_def user_role_platform_admin_def user_role_seller_def asc_def)
  ultimately have "\<exists>b\<in>set (ac_users st0). us_id b = us_id a \<and> is_platform_admin (us_role b)"
    using current_admin_Inr(2) [OF adm] by (auto simp: account_of_def same_account_def)
  then have "issued_by_admins st0 st'" using g i by (simp add: grown_from_def issued_by_admins_def invs)
  moreover have "account_of st0 (ac_invites st') u" if "u \<in> set (ac_users st)" for u
    by (rule account_of_mono [of st0 "ac_invites st" u]) (use g that in \<open>simp_all add: grown_from_def invs\<close>)
  ultimately show ?thesis using g ok i by (simp add: grown_from_def us used_invites_def invs)
qed

lemma grown_revoke:
  assumes g: "grown_from st0 st" and ok: "accounts_ok st'" and r: "revoke_invite now iid a st = Inr (res, st')"
  shows "grown_from st0 st'"
  using r
proof (rule revoke_invite_Inr)
  fix i
  assume i: "i \<in> set (ac_invites st)" "in_id i = iid" and pending: "derive_status now i = Invite_pending"
    and invs: "ac_invites st' = map (\<lambda>j. if in_id j = iid then j\<lparr>in_revoked_at := Some now\<rparr> else j) (ac_invites st)"
    and us: "ac_users st' = ac_users st"
  have ids: "distinct (map in_id (ac_invites st))" using g by (simp add: grown_from_def accounts_ok_def)
  have "account_of st0 (ac_invites st') u" if "u \<in> set (ac_users st)" for u
  proof (rule account_of_mono)
    show "account_of st0 (ac_invites st) u" using g that by (simp add: grown_from_def)
    show "j \<in> set (ac_invites st')" if "j \<in> set (ac_invites st)" "in_used_at j \<noteq> None" for j
      unfolding invs i(2) [symmetric]
      by (rule used_row_kept [OF ids i(1) _ that]) (use pending_unused [OF pending] in simp)
  qed simp
  moreover have "issued_by_admins st0 st'" using g by (auto simp: grown_from_def issued_by_admins_def invs)
  moreover have "used_invites st' = used_invites st"
    unfolding used_invites_def invs by (rule filter_map_same) simp
  ultimately show ?thesis using g ok by (simp add: grown_from_def us)
qed

lemma grown_handled:
  assumes mode: "is_invite_only_mode cfg" and g: "grown_from st0 st" and h: "handle_request cfg B env req st = Inr st'"
  shows "grown_from st0 st'"
proof -
  have ok: "accounts_ok st'" using keys_handled [OF h] g by (simp add: grown_from_def)
  show ?thesis
  proof (cases req)
    case (Register data)
    with h grown_register [OF mode g ok] show ?thesis by (auto simp: handle_request_Inr)
  next
    case (Create_invite tok email hours)
    with h grown_create [OF g ok] show ?thesis by (auto simp: handle_request_Inr)
  next
    case (Revoke_invite tok iid)
    with h grown_revoke [OF g ok] show ?thesis by (auto simp: handle_request_Inr)
  next
    case (Change_password tok cur new conf)
    with h change_password_Inr(3,4) grown_same_invites [OF g ok] show ?thesis by (fastforce simp: handle_request_Inr)
  next
    case (Forgot_password email)
    with h request_password_reset_Inr(1,2) grown_same_invites [OF g ok] show ?thesis by (fastforce simp: handle_request_Inr)
  next
    case (Reset_password tok new conf)
    with h obtain u where "reset_password_with_token B (ev_now env) (ev_salt env) tok new conf st = Inr (u, st')"
      by (auto simp: handle_request_Inr)
    then show ?thesis by (rule reset_password_Inr) (use grown_same_invites [OF g ok] in blast)
  qed
qed

lemma grown_served:
  assumes "is_invite_only_mode cfg" and "grown_from st0 st"
  shows "grown_from st0 (serve_requests cfg B qs st)"
  using assms(2)
proof (induction qs arbitrary: st)
  case Nil
  then show ?case by (simp add: serve_requests_def)
next
  case (Cons q qs)
  have "grown_from st0 (serve_request cfg B q st)"
    by (rule serve_request_cases [of cfg B q st]) (use Cons.prems grown_handled [OF assms(1)] in auto)
  from Cons.IH [OF this] show ?case by (simp add: serve_requests_def)
qed

text \<open>
  C11. With registration by invitation only, after any requests every account that was not there is a seller's, with
  an invitation of an administrator for its address that was used when the account was opened, before its expiry and
  not revoked; and there are as many new accounts as newly used invitations.
\<close>

theorem accounts_by_invitation:
  assumes "is_invite_only_mode cfg" and "accounts_ok st0" and "issued_by_admins st0 st0"
    and "st = serve_requests cfg B qs st0"
  shows "(\<forall>u\<in>set (ac_users st). (\<exists>v\<in>set (ac_users st0). same_account u v) \<or>
            us_role u = user_role_seller \<and> (\<exists>i\<in>set (ac_invites st). invitation_of i u \<and>
              (\<exists>a\<in>set (ac_users st0). us_id a = in_invited_by_id i \<and> is_platform_admin (us_role a))))
       \<and> length (ac_users st) + used_invites st0 = length (ac_users st0) + used_invites st"
proof -
  have "\<exists>v\<in>set (ac_users st0). same_account u v" if "u \<in> set (ac_users st0)" for u
    using that same_account_refl by blast
  then have "grown_from st0 st0" using assms(2,3) by (simp add: grown_from_def account_of_def)
  then have "grown_from st0 st" using grown_served [OF assms(1)] assms(4) by simp
  then show ?thesis by (auto simp: grown_from_def account_of_def issued_by_admins_def)
qed

lemma accounts_by_invitation_witness:
  "let B = \<lparr>checkpw = \<lambda>p h. Some (p = h), hashpw = \<lambda>salt p. p\<rparr>;
       admin = \<lparr>us_id = 1, us_email = asc ''a@x'', us_hashed_password = asc ''p'', us_full_name = None, us_is_active = True,
         us_role = user_role_platform_admin, us_created_at = 0\<rparr>;
       invite = \<lparr>in_id = 5, in_email = asc ''s@x'', in_role = user_role_seller, in_token_hash = hash_token (asc ''t''),
         in_invited_by_id = 1, in_expires_at = 100, in_used_at = None, in_revoked_at = None, in_created_at = 0\<rparr>;
       st0 = \<lparr>ac_users = [admin], ac_invites = [invite], ac_resets = [], ac_audit = [], ac_mails = []\<rparr>;
       data = \<lparr>uc_email = asc ''S@x'', uc_password = asc ''q'', uc_full_name = None, uc_invite_token = Some (asc ''t'')\<rparr>;
       env = \<lparr>ev_now = 50, ev_decode = Map.empty, ev_id = 2, ev_raw = [], ev_salt = 0, ev_delivered = True\<rparr>;
       st = serve_requests default_auth_settings B [(env, Register data), (env, Register data)] st0
   in length (ac_users st) = 2 \<and> used_invites st = 1
      \<and> (\<forall>u\<in>set (ac_users st). (\<exists>v\<in>set (ac_users st0). same_account u v) \<or>
            us_role u = user_role_seller \<and> (\<exists>i\<in>set (ac_invites st). invitation_of i u \<and>
              (\<exists>a\<in>set (ac_users st0). us_id a = in_invited_by_id i \<and> is_platform_admin (us_role a))))"
proof -
  define B where "B = \<lparr>checkpw = \<lambda>p h. Some (p = h), hashpw = \<lambda>(salt::nat) (p::nat list). p\<rparr>"
  define admin where "admin = \<lparr>us_id = 1, us_email = asc ''a@x'', us_hashed_password = asc ''p'', us_full_name = None,
    us_is_active = True, us_role = user_role_platform_admin, us_created_at = 0\<rparr>"
  define invite where "invite = \<lparr>in_id = 5, in_email = asc ''s@x'', in_role = user_role_seller,
    in_token_hash = hash_token (asc ''t''), in_invited_by_id = 1, in_expires_at = 100, in_used_at = None,
    in_revoked_at = None, in_created_at = 0\<rparr>"
  define st0 where "st0 = \<lparr>ac_users = [admin], ac_invites = [invite], ac_resets = [], ac_audit = [], ac_mails = []\<rparr>"
  define data where "data = \<lparr>uc_email = asc ''S@x'', uc_password = asc ''q'', uc_full_name = None,
    uc_invite_token = Some (asc ''t'')\<rparr>"
  define env where "env = \<lparr>ev_now = 50, ev_decode = Map.empty, ev_id = 2, ev_raw = [], ev_salt = 0, ev_delivered = True\<rparr>"
  define st where "st = serve_requests default_auth_settings B [(env, Register data), (env, Register data)] st0"
  have "is_invite_only_mode default_auth_settings"
    by (simp add: is_invite_only_mode_def default_auth_settings_def normalize_registration_mode_def asc_def strip_def
      is_space_def lower_def lower_char_def)
  moreover have "accounts_ok st0" "issued_by_admins st0 st0"
    by (simp_all add: accounts_ok_def issued_by_admins_def st0_def admin_def invite_def is_platform_admin_def)
  ultimately have all: "(\<forall>u\<in>set (ac_users st). (\<exists>v\<in>set (ac_users st0). same_account u v) \<or>
            us_role u = user_role_seller \<and> (\<exists>i\<in>set (ac_invites st). invitation_of i u \<and>
              (\<exists>a\<in>set (ac_users st0). us_id a = in_invited_by_id i \<and> is_platform_admin (us_role a))))
       \<and> length (ac_users st) + used_invites st0 = length (ac_users st0) + used_invites st"
    by (rule accounts_by_invitation) (simp add: st_def)
  have "length (ac_users st) = 2"
    by (simp add: st_def serve_requests_def serve_request_def handle_request_def register_route_def is_registration_open_def
      is_invite_only_mode_def default_auth_settings_def normalize_registration_mode_def asc_def strip_def is_space_def
      lower_def lower_char_def register_with_invite_def consume_token_def get_invite_by_token_hash_def
      get_user_by_email_def derive_status_def update_invite_def insert_user_def new_user_def record_auth_audit_def Let_def
      opt_text_def data_def env_def st0_def admin_def invite_def)
  with all show ?thesis
    unfolding Let_def by (fold B_def) (fold admin_def invite_def, fold st0_def data_def env_def, fold st_def,
      simp add: st0_def used_invites_def invite_def)
qed

section \<open>Passwords\<close>

lemma handled_users:
  assumes "handle_request cfg B env req st = Inr st'"
    and "\<And>tok cur new conf. req \<noteq> Change_password tok cur new conf" and "\<And>tok new conf. req \<noteq> Reset_password tok new conf"
  shows "\<exists>vs. ac_users st' = ac_users st @ vs \<and> (\<forall>v\<in>set vs. us_id v \<notin> us_id ` set (ac_users st))"
proof (cases req)
  case (Register data)
  with assms(1) obtain u where r: "register_route cfg B (ev_now env) (ev_id env) (ev_salt env) data st = Inr (u, st')"
    by (auto simp: handle_request_Inr)
  show ?thesis
  proof (cases "is_registration_open cfg")
    case True
    with r have "insert_user u st = Inr st'" by (auto simp: register_route_def dest: register_Inr)
    then have "ac_users st' = ac_users st @ [u]" "us_id u \<notin> us_id ` set (ac_users st)" by (simp_all add: insert_user_Inr)
    then show ?thesis by (intro exI [of _ "[u]"]) simp
  next
    case False
    with r have "register_with_invite B (ev_now env) (ev_id env) (ev_salt env) data st = Inr (u, st')"
      by (auto simp: register_route_def split: if_splits)
    then show ?thesis by (rule register_with_invite_Inr) (intro exI [of _ "[u]"], simp)
  qed
next
  case (Create_invite tok email hours)
  with assms(1) show ?thesis by (auto simp: handle_request_Inr elim!: create_invite_Inr)
next
  case (Revoke_invite tok iid)
  with assms(1) show ?thesis by (auto simp: handle_request_Inr elim!: revoke_invite_Inr)
next
  case (Forgot_password email)
  with assms(1) show ?thesis by (auto simp: handle_request_Inr dest: request_password_reset_Inr(1))
qed (use assms(2,3) in auto)

lemma set_password_changed:
  assumes "distinct (map us_id (ac_users st))" and "u \<in> set (ac_users st)"
    and "u' \<in> set (ac_users (set_password uid h st))" and "us_id u' = us_id u"
    and "us_hashed_password u' \<noteq> us_hashed_password u"
  shows "us_id u = uid"
proof -
  obtain x where x: "x \<in> set (ac_users st)" "u' = (if us_id x = uid then x\<lparr>us_hashed_password := h\<rparr> else x)"
    using assms(3) by (auto simp: set_password_def)
  with assms(4) have "us_id x = us_id u" by (auto split: if_splits)
  with distinct_key_unique [OF assms(1) x(1) assms(2)] have "x = u" by simp
  with x(2) assms(5) show ?thesis by (auto split: if_splits)
qed

lemma change_password_authorised:
  assumes "accounts_ok st" and "get_current_user dec tok st = Inr cu" and "change_password B now salt cu cur new conf st = Inr st'"
    and "u \<in> set (ac_users st)" and "u' \<in> set (ac_users st')" and "us_id u' = us_id u"
    and "us_hashed_password u' \<noteq> us_hashed_password u"
  shows "conf = new \<and> us_is_active u \<and> dec tok = Some (us_id u) \<and> verify_password B cur (us_hashed_password u)
    \<and> \<not> verify_password B new (us_hashed_password u)"
proof -
  have ids: "distinct (map us_id (ac_users st))" using assms(1) by (simp add: accounts_ok_def)
  have "us_id u = us_id cu"
    using set_password_changed [OF ids assms(4) _ assms(6,7)] assms(5) change_password_Inr(3) [OF assms(3)] by simp
  then have "cu = u" using distinct_key_unique [OF ids] get_current_user_Inr(1) [OF assms(2)] assms(4) by simp
  moreover have "\<not> verify_password B new (us_hashed_password cu)"
    using assms(3) by (simp add: change_password_def validate_new_password_def split: if_splits)
  ultimately show ?thesis
    using get_current_user_Inr(2,3) [OF assms(2)] change_password_Inr(1,2) [OF assms(3)] by auto
qed

lemma reset_password_authorised:
  assumes "accounts_ok st" and "reset_password_with_token B now salt tok new conf st = Inr (w, st')"
    and "u \<in> set (ac_users st)" and "u' \<in> set (ac_users st')" and "us_id u' = us_id u"
    and "us_hashed_password u' \<noteq> us_hashed_password u"
  shows "conf = new \<and> us_is_active u
    \<and> (\<exists>r\<in>set (ac_resets st). rt_user_id r = us_id u \<and> rt_token_hash r = hash_token tok \<and> rt_used_at r = None \<and> now < rt_expires_at r)
    \<and> (\<forall>r\<in>set (ac_resets st'). rt_token_hash r = hash_token tok \<longrightarrow> rt_used_at r \<noteq> None)"
  using assms(2)
proof (rule reset_password_Inr)
  fix r v
  assume r: "r \<in> set (ac_resets st)" "usable_reset now tok r" and conf: "conf = new"
    and v: "v \<in> set (ac_users st)" "us_id v = rt_user_id r" "us_is_active v"
    and us: "ac_users st' = ac_users (set_password (us_id v) (get_password_hash B salt new) st)"
    and rs: "ac_resets st' = map (\<lambda>q. if rt_id q = rt_id r then q\<lparr>rt_used_at := Some now\<rparr> else q) (ac_resets st)"
  have ids: "distinct (map us_id (ac_users st))" using assms(1) by (simp add: accounts_ok_def)
  have id: "us_id u = us_id v" using set_password_changed [OF ids assms(3) _ assms(5,6)] assms(4) us by simp
  then have "v = u" using distinct_key_unique [OF ids v(1) assms(3)] by simp
  moreover have "\<forall>q\<in>set (ac_resets st'). rt_token_hash q = hash_token tok \<longrightarrow> rt_used_at q \<noteq> None"
  proof (intro ballI impI)
    fix q
    assume q: "q \<in> set (ac_resets st')" "rt_token_hash q = hash_token tok"
    then obtain q0 where q0: "q0 \<in> set (ac_resets st)"
      "q = (if rt_id q0 = rt_id r then q0\<lparr>rt_used_at := Some now\<rparr> else q0)" by (auto simp: rs)
    have "rt_token_hash q0 = rt_token_hash r" using q(2) q0(2) r(2) by (auto simp: usable_reset_def split: if_splits)
    then have "q0 = r"
      using distinct_key_unique [of rt_token_hash, OF _ q0(1) r(1)] assms(1) by (simp add: accounts_ok_def)
    then show "rt_used_at q \<noteq> None" by (simp add: q0(2))
  qed
  moreover have "\<exists>r\<in>set (ac_resets st). rt_user_id r = us_id u \<and> rt_token_hash r = hash_token tok \<and> rt_used_at r = None \<and> now < rt_expires_at r"
    using r v(2) id by (intro bexI [of _ r]) (simp_all add: usable_reset_def)
  ultimately show ?thesis using conf v(3) by blast
qed

text \<open>
  C14. A request changes the password of an account only if the account is active, and either its session gives the
  current password and a new one that differs, or it carries the secret of an unused, unexpired reset link of the
  account, which no request can use again.
\<close>

theorem password_change_authorised:
  assumes "accounts_ok st" and "st' = serve_request cfg B (env, req) st"
    and "u \<in> set (ac_users st)" and "u' \<in> set (ac_users st')" and "us_id u' = us_id u"
    and "us_hashed_password u' \<noteq> us_hashed_password u"
  shows "us_is_active u \<and>
    ((\<exists>tok cur new. req = Change_password tok cur new new \<and> ev_decode env tok = Some (us_id u)
        \<and> verify_password B cur (us_hashed_password u) \<and> \<not> verify_password B new (us_hashed_password u))
     \<or> (\<exists>tok new. req = Reset_password tok new new
        \<and> (\<exists>r\<in>set (ac_resets st). rt_user_id r = us_id u \<and> rt_token_hash r = hash_token tok
            \<and> rt_used_at r = None \<and> ev_now env < rt_expires_at r)
        \<and> (\<forall>r\<in>set (ac_resets st'). rt_token_hash r = hash_token tok \<longrightarrow> rt_used_at r \<noteq> None)))"
proof (rule serve_request_cases [of cfg B "(env, req)" st])
  have ids: "distinct (map us_id (ac_users st))" using assms(1) by (simp add: accounts_ok_def)
  have same: "us_hashed_password v = us_hashed_password u" if "v \<in> set (ac_users st)" "us_id v = us_id u" for v
    using distinct_key_unique [OF ids that(1) assms(3) that(2)] by simp
  {
    assume "serve_request cfg B (env, req) st = st"
    with assms(2,4-6) same show ?thesis by auto
  next
    assume "handle_request cfg B (fst (env, req)) (snd (env, req)) st = Inr (serve_request cfg B (env, req) st)"
    then have h: "handle_request cfg B env req st = Inr st'" by (simp add: assms(2))
    consider tok cur new conf where "req = Change_password tok cur new conf" | tok new conf where "req = Reset_password tok new conf"
      | "\<forall>tok cur new conf. req \<noteq> Change_password tok cur new conf" "\<forall>tok new conf. req \<noteq> Reset_password tok new conf" by blast
    then show ?thesis
    proof cases
      case (1 tok cur new conf)
      with h obtain cu where "get_current_user (ev_decode env) tok st = Inr cu"
        "change_password B (ev_now env) (ev_salt env) cu cur new conf st = Inr st'" by (auto simp: handle_request_Inr)
      from change_password_authorised [OF assms(1) this assms(3-6)] 1 show ?thesis by simp
    next
      case (2 tok new conf)
      with h obtain w where "reset_password_with_token B (ev_now env) (ev_salt env) tok new conf st = Inr (w, st')"
        by (auto simp: handle_request_Inr)
      from reset_password_authorised [OF assms(1) this assms(3-6)] 2 show ?thesis by simp
    next
      case 3
      then obtain vs where vs: "ac_users st' = ac_users st @ vs" "\<forall>v\<in>set vs. us_id v \<notin> us_id ` set (ac_users st)"
        using handled_users [OF h] by blast
      have "us_id u' \<in> us_id ` set (ac_users st)" using assms(3,5) by simp
      then have "u' \<in> set (ac_users st)" using vs assms(4) by auto
      then show ?thesis using same [OF _ assms(5)] assms(6) by simp
    qed
  }
qed

lemma password_change_authorised_witness:
  "let B = \<lparr>checkpw = \<lambda>p h. Some (p = h), hashpw = \<lambda>salt p. p\<rparr>;
       u = \<lparr>us_id = 1, us_email = asc ''a@x'', us_hashed_password = asc ''p'', us_full_name = None, us_is_active = True,
         us_role = user_role_seller, us_created_at = 0\<rparr>;
       link = \<lparr>rt_id = 3, rt_user_id = 1, rt_token_hash = hash_token (asc ''t''), rt_expires_at = 9, rt_used_at = None,
         rt_created_at = 0\<rparr>;
       st = \<lparr>ac_users = [u], ac_invites = [], ac_resets = [link], ac_audit = [], ac_mails = []\<rparr>;
       env = \<lparr>ev_now = 5, ev_decode = Map.empty, ev_id = 2, ev_raw = [], ev_salt = 0, ev_delivered = True\<rparr>;
       st' = serve_request default_auth_settings B (env, Reset_password (asc ''t'') (asc ''q'') (asc ''q'')) st
   in map us_hashed_password (ac_users st') = [asc ''q'']
      \<and> (\<exists>r\<in>set (ac_resets st). rt_user_id r = 1 \<and> rt_token_hash r = hash_token (asc ''t'') \<and> rt_used_at r = None \<and> 5 < rt_expires_at r)
      \<and> (\<forall>r\<in>set (ac_resets st'). rt_token_hash r = hash_token (asc ''t'') \<longrightarrow> rt_used_at r \<noteq> None)"
proof -
  define B where "B = \<lparr>checkpw = \<lambda>p h. Some (p = h), hashpw = \<lambda>(salt::nat) (p::nat list). p\<rparr>"
  define u where "u = \<lparr>us_id = 1, us_email = asc ''a@x'', us_hashed_password = asc ''p'', us_full_name = None,
    us_is_active = True, us_role = user_role_seller, us_created_at = 0\<rparr>"
  define link where "link = \<lparr>rt_id = 3, rt_user_id = 1, rt_token_hash = hash_token (asc ''t''), rt_expires_at = 9,
    rt_used_at = None, rt_created_at = 0\<rparr>"
  define st where "st = \<lparr>ac_users = [u], ac_invites = [], ac_resets = [link], ac_audit = [], ac_mails = []\<rparr>"
  define env where "env = \<lparr>ev_now = 5, ev_decode = Map.empty, ev_id = 2, ev_raw = [], ev_salt = 0, ev_delivered = True\<rparr>"
  define st' where "st' = serve_request default_auth_settings B (env, Reset_password (asc ''t'') (asc ''q'') (asc ''q'')) st"
  have users: "ac_users st' = [u\<lparr>us_hashed_password := asc ''q''\<rparr>]"
    by (simp add: st'_def serve_request_def handle_request_def reset_password_with_token_def usable_reset_def st_def link_def
      env_def get_user_by_id_def u_def record_auth_audit_def use_reset_def set_password_def Let_def B_def
      get_password_hash_def encode_utf8_def utf8_char_def asc_def)
  have "accounts_ok st" by (simp add: accounts_ok_def st_def)
  moreover have "u \<in> set (ac_users st)" "us_id u = 1" by (simp_all add: st_def u_def)
  moreover have "us_hashed_password (u\<lparr>us_hashed_password := asc ''q''\<rparr>) \<noteq> us_hashed_password u"
    by (simp add: u_def asc_def)
  ultimately have
    "(\<exists>r\<in>set (ac_resets st). rt_user_id r = us_id u \<and> rt_token_hash r = hash_token (asc ''t'') \<and> rt_used_at r = None \<and> ev_now env < rt_expires_at r)
      \<and> (\<forall>r\<in>set (ac_resets st'). rt_token_hash r = hash_token (asc ''t'') \<longrightarrow> rt_used_at r \<noteq> None)"
    using password_change_authorised [OF _ st'_def, of u "u\<lparr>us_hashed_password := asc ''q''\<rparr>"] users by simp
  then have "map us_hashed_password (ac_users st') = [asc ''q'']
      \<and> (\<exists>r\<in>set (ac_resets st). rt_user_id r = 1 \<and> rt_token_hash r = hash_token (asc ''t'') \<and> rt_used_at r = None \<and> 5 < rt_expires_at r)
      \<and> (\<forall>r\<in>set (ac_resets st'). rt_token_hash r = hash_token (asc ''t'') \<longrightarrow> rt_used_at r \<noteq> None)"
    using users \<open>us_id u = 1\<close> by (simp add: env_def)
  then show ?thesis
    unfolding Let_def by (fold B_def) (fold u_def link_def, fold st_def env_def, fold st'_def)
qed

text \<open>A session without the password can test a guess: the answer to a wrong current password depends on the new one.\<close>

lemma change_password_tests_guess:
  assumes "\<not> verify_password B cur (us_hashed_password u)"
  shows "change_password B now salt u cur guess guess st =
    Inl (if verify_password B guess (us_hashed_password u)
         then HTTPException 400 (asc ''New password must differ from the current password'')
         else HTTPException 401 (asc ''Incorrect current password''))"
  using assms by (simp add: change_password_def validate_new_password_def)

text \<open>
  C39. Without a mail server, asking for a reset link fails exactly for the address of an active account and succeeds
  for any other: the answer tells which addresses have an account.
\<close>

theorem forgot_password_tells_accounts:
  assumes "accounts_ok st" and "\<not> smtp_configured cfg"
  shows "handle_request cfg B env (Forgot_password email) st =
    (if \<exists>u\<in>set (ac_users st). us_email u = lower email \<and> us_is_active u then Inl email_unavailable else Inr st)"
proof (cases "get_user_by_email st email")
  case None
  then have "\<not> (\<exists>u\<in>set (ac_users st). us_email u = lower email)" by (simp add: get_user_by_email_def find_None_iff)
  with None show ?thesis by (auto simp: handle_request_def request_password_reset_def)
next
  case (Some v)
  then have v: "v \<in> set (ac_users st)" "us_email v = lower email" by (auto simp: get_user_by_email_def dest: find_SomeD)
  have "u = v" if "u \<in> set (ac_users st)" "us_email u = lower email" for u
    using distinct_key_unique [of us_email, OF _ that(1) v(1)] assms(1) that(2) v(2) by (simp add: accounts_ok_def)
  then have "(\<exists>u\<in>set (ac_users st). us_email u = lower email \<and> us_is_active u) \<longleftrightarrow> us_is_active v" using v by blast
  then show ?thesis
    unfolding handle_request_def request_password_reset_def auth_request.case Some option.case using assms(2) by simp
qed

lemma forgot_password_tells_accounts_witness:
  "let B = \<lparr>checkpw = \<lambda>p h. Some (p = h), hashpw = \<lambda>salt p. p\<rparr>;
       u = \<lparr>us_id = 1, us_email = asc ''a'', us_hashed_password = asc ''p'', us_full_name = None, us_is_active = True,
         us_role = user_role_seller, us_created_at = 0\<rparr>;
       st = \<lparr>ac_users = [u], ac_invites = [], ac_resets = [], ac_audit = [], ac_mails = []\<rparr>;
       env = \<lparr>ev_now = 5, ev_decode = Map.empty, ev_id = 2, ev_raw = [], ev_salt = 0, ev_delivered = True\<rparr>
   in handle_request default_auth_settings B env (Forgot_password (asc ''A'')) st = Inl email_unavailable
      \<and> handle_request default_auth_settings B env (Forgot_password (asc ''b'')) st = Inr st"
proof -
  define B where "B = \<lparr>checkpw = \<lambda>p h. Some (p = h), hashpw = \<lambda>(salt::nat) (p::nat list). p\<rparr>"
  define u where "u = \<lparr>us_id = 1, us_email = asc ''a'', us_hashed_password = asc ''p'', us_full_name = None,
    us_is_active = True, us_role = user_role_seller, us_created_at = 0\<rparr>"
  define st where "st = \<lparr>ac_users = [u], ac_invites = [], ac_resets = [], ac_audit = [], ac_mails = []\<rparr>"
  define env where "env = \<lparr>ev_now = 5, ev_decode = Map.empty, ev_id = 2, ev_raw = [], ev_salt = 0, ev_delivered = True\<rparr>"
  have "accounts_ok st" "\<not> smtp_configured default_auth_settings"
    by (simp_all add: accounts_ok_def st_def smtp_configured_def default_auth_settings_def strip_def)
  note tells = forgot_password_tells_accounts [OF this, of B env]
  have "handle_request default_auth_settings B env (Forgot_password (asc ''A'')) st = Inl email_unavailable"
    unfolding tells by (simp add: st_def u_def asc_def lower_def lower_char_def)
  moreover have "handle_request default_auth_settings B env (Forgot_password (asc ''b'')) st = Inr st"
    unfolding tells by (simp add: st_def u_def asc_def lower_def lower_char_def)
  ultimately show ?thesis unfolding Let_def by (fold B_def) (fold u_def, fold st_def env_def, simp)
qed

text \<open>
  A reset link stays usable when another link of the account has been used: its holder can set the password again.
\<close>

lemma other_reset_links_survive:
  assumes "accounts_ok st" and "reset_password_with_token B now salt tok new new st = Inr (u, st')"
    and "r \<in> set (ac_resets st)" and "rt_user_id r = us_id u" and "usable_reset later tok2 r"
    and "hash_token tok2 \<noteq> hash_token tok"
  shows "\<exists>v st''. reset_password_with_token B later salt2 tok2 other other st' = Inr (v, st'')
    \<and> us_id v = us_id u \<and> us_hashed_password v = get_password_hash B salt2 other \<and> v \<in> set (ac_users st'')"
  using assms(2)
proof (rule reset_password_Inr)
  fix q w
  assume q: "q \<in> set (ac_resets st)" "usable_reset now tok q"
    and w: "w \<in> set (ac_users st)" "us_id w = rt_user_id q" "us_is_active w"
    and us: "ac_users st' = ac_users (set_password (us_id w) (get_password_hash B salt new) st)"
    and rs: "ac_resets st' = map (\<lambda>p. if rt_id p = rt_id q then p\<lparr>rt_used_at := Some now\<rparr> else p) (ac_resets st)"
    and u: "u = w\<lparr>us_hashed_password := get_password_hash B salt new\<rparr>"
  have ok: "accounts_ok st'"
    using keys_handled [of _ B "\<lparr>ev_now = now, ev_decode = Map.empty, ev_id = 0, ev_raw = [], ev_salt = salt, ev_delivered = True\<rparr>"
      "Reset_password tok new new" st st'] assms(1,2) by (simp add: handle_request_Inr)
  have "r \<noteq> q" using q(2) assms(5,6) by (auto simp: usable_reset_def)
  then have "rt_id r \<noteq> rt_id q"
    using distinct_key_unique [of rt_id, OF _ assms(3) q(1)] assms(1) by (auto simp: accounts_ok_def)
  then have r': "r \<in> set (ac_resets st')" using assms(3) by (auto simp: rs intro!: image_eqI [of _ _ r])
  have found: "find (usable_reset later tok2) (ac_resets st') = Some r"
  proof -
    have "find (usable_reset later tok2) (ac_resets st') \<noteq> None" using r' assms(5) by (auto simp: find_None_iff)
    then obtain p where p: "find (usable_reset later tok2) (ac_resets st') = Some p" by blast
    then have "p \<in> set (ac_resets st')" "rt_token_hash p = rt_token_hash r"
      using assms(5) by (auto dest!: find_SomeD simp: usable_reset_def)
    then have "p = r" using distinct_key_unique [of rt_token_hash, OF _ _ r'] ok by (simp add: accounts_ok_def)
    with p show ?thesis by simp
  qed
  have u': "u \<in> set (ac_users st')" using w(1) by (auto simp: us set_password_def u intro!: image_eqI [of _ _ w])
  have user: "get_user_by_id st' (rt_user_id r) = Some u"
  proof -
    have "get_user_by_id st' (us_id u) \<noteq> None" using u' by (auto simp: get_user_by_id_def find_None_iff)
    then obtain v where v: "get_user_by_id st' (us_id u) = Some v" by blast
    then have "v \<in> set (ac_users st')" "us_id v = us_id u" by (auto simp: get_user_by_id_def dest!: find_SomeD)
    then have "v = u" using distinct_key_unique [of us_id, OF _ _ u'] ok by (simp add: accounts_ok_def)
    with v assms(4) show ?thesis by simp
  qed
  let ?v = "u\<lparr>us_hashed_password := get_password_hash B salt2 other\<rparr>"
  let ?st = "record_auth_audit later (us_id u) PASSWORD_RESET_COMPLETED
    (asc ''Password reset completed via email token'') None
    (use_reset later (rt_id r) (set_password (us_id u) (get_password_hash B salt2 other) st'))"
  have "reset_password_with_token B later salt2 tok2 other other st' = Inr (?v, ?st)"
    using found user w(3) by (simp add: reset_password_with_token_def Let_def u)
  moreover have "?v \<in> set (ac_users ?st)"
    using u' by (auto simp: record_auth_audit_def use_reset_def set_password_def intro!: image_eqI [of _ _ u])
  ultimately show ?thesis by auto
qed

end
