(* ===== verification/Tenant_Session.thy ===== *)
theory Tenant_Session
  imports Prelude
begin

text \<open>
  The tenant of a database session (\<open>app/core/security_context.py\<close>, \<open>app/core/tenant_context.py\<close>,
  \<open>app/services/base.py\<close>, the tenant read of \<open>app/services/ops_service.py\<close> and the audit insert of
  \<open>app/services/auth_audit_service.py\<close>). The row-level policies of the tables compare \<open>user_id\<close> with the
  transaction-local setting \<open>app.current_user_id\<close>; the session keeps a marker of the tenant it bound last. Code is a
  tree of the context managers it enters; what a statement can see is the settings at that moment.
\<close>

section \<open>Settings of a transaction\<close>

text \<open>
  \<open>set_config(name, value, true)\<close> lasts until the end of the transaction, and is undone by a rollback to an earlier
  savepoint. A setting that the transaction has not made is absent.
\<close>

record tenant_settings =
  ts_current_user :: "uuid option"
  ts_queue_role :: bool
  ts_bypass_rls :: bool

definition no_settings :: tenant_settings where
  "no_settings = \<lparr>ts_current_user = None, ts_queue_role = False, ts_bypass_rls = False\<rparr>"

text \<open>The policy of the tenant tables: the rows that a statement can read and write.\<close>

definition row_visible :: "tenant_settings \<Rightarrow> uuid \<Rightarrow> bool" where
  "row_visible g owner \<longleftrightarrow> ts_current_user g = Some owner \<or> ts_queue_role g \<or> ts_bypass_rls g"

record db_session =
  ds_in_transaction :: bool
  ds_settings :: tenant_settings
  ds_tenant_marker :: "uuid option"

definition new_session :: db_session where
  "new_session = \<lparr>ds_in_transaction = False, ds_settings = no_settings, ds_tenant_marker = None\<rparr>"

definition set_current_user_context :: "uuid \<Rightarrow> db_session \<Rightarrow> db_session" where
  "set_current_user_context u s = s\<lparr>ds_settings := (ds_settings s)\<lparr>ts_current_user := Some u\<rparr>\<rparr>"

definition set_queue_role_context :: "bool \<Rightarrow> db_session \<Rightarrow> db_session" where
  "set_queue_role_context b s = s\<lparr>ds_settings := (ds_settings s)\<lparr>ts_queue_role := b\<rparr>\<rparr>"

definition set_bypass_rls_context :: "bool \<Rightarrow> db_session \<Rightarrow> db_session" where
  "set_bypass_rls_context b s = s\<lparr>ds_settings := (ds_settings s)\<lparr>ts_bypass_rls := b\<rparr>\<rparr>"

definition tenant_context_bound :: "db_session \<Rightarrow> uuid \<Rightarrow> bool" where
  "tenant_context_bound s u \<longleftrightarrow> ds_tenant_marker s = Some u"

definition bind_tenant_context :: "uuid \<Rightarrow> db_session \<Rightarrow> db_session" where
  "bind_tenant_context u s = (set_current_user_context u (set_queue_role_context False s))\<lparr>ds_tenant_marker := Some u\<rparr>"

definition begin_transaction :: "db_session \<Rightarrow> db_session" where
  "begin_transaction s = s\<lparr>ds_in_transaction := True\<rparr>"

text \<open>Commit and rollback end the transaction and its settings, not the marker.\<close>

definition end_transaction :: "db_session \<Rightarrow> db_session" where
  "end_transaction s = s\<lparr>ds_in_transaction := False, ds_settings := no_settings\<rparr>"

section \<open>Code that uses a session\<close>

datatype db_code =
    Execute
  | Raise
  | Suppress "db_code list"
  | Tenant_transaction uuid "db_code list"
  | Queue_transaction "db_code list"
  | System_transaction "db_code list"
  | Rls_transaction uuid "db_code list"
  | Tenant_read uuid "db_code list"
  | Record_audit uuid

text \<open>
  The result of running code for the tenant \<open>sc\<close> it is written for: what each statement saw, whether the code
  returned without an exception, and the session. A statement outside a transaction starts one, which stays open;
  \<open>Session.begin\<close> raises inside a transaction.
\<close>

type_synonym seen = "uuid option \<times> tenant_settings"

definition new_transaction :: "(db_session \<Rightarrow> seen list \<times> bool \<times> db_session) \<Rightarrow> db_session \<Rightarrow> seen list \<times> bool \<times> db_session" where
  "new_transaction body s =
     (if ds_in_transaction s then ([], False, s)
      else (let (os, ok, s1) = body (begin_transaction s) in (os, ok, end_transaction s1)))"

definition nested_transaction :: "(db_session \<Rightarrow> seen list \<times> bool \<times> db_session) \<Rightarrow> db_session \<Rightarrow> seen list \<times> bool \<times> db_session" where
  "nested_transaction body s =
     (let (os, ok, s1) = body s in (os, ok, if ok then s1 else s1\<lparr>ds_settings := ds_settings s\<rparr>))"

fun run_code :: "uuid option \<Rightarrow> db_code \<Rightarrow> db_session \<Rightarrow> seen list \<times> bool \<times> db_session"
  and run_codes :: "uuid option \<Rightarrow> db_code list \<Rightarrow> db_session \<Rightarrow> seen list \<times> bool \<times> db_session" where
  "run_code sc Execute s = ([(sc, ds_settings s)], True, begin_transaction s)"
| "run_code sc Raise s = ([], False, s)"
| "run_code sc (Suppress cs) s = (case run_codes sc cs s of (os, ok, s1) \<Rightarrow> (os, True, s1))"
| "run_code sc (Tenant_transaction u cs) s =
     (if ds_in_transaction s
      then (if tenant_context_bound s u then run_codes (Some u) cs s
            else nested_transaction (\<lambda>t. run_codes (Some u) cs (bind_tenant_context u t)) s)
      else new_transaction (\<lambda>t. run_codes (Some u) cs (bind_tenant_context u t)) s)"
| "run_code sc (Queue_transaction cs) s =
     new_transaction (\<lambda>t. run_codes None cs (set_queue_role_context True (set_bypass_rls_context False t))) s"
| "run_code sc (System_transaction cs) s =
     new_transaction (\<lambda>t. run_codes None cs (set_bypass_rls_context True (set_queue_role_context False t))) s"
| "run_code sc (Rls_transaction u cs) s =
     (if ds_in_transaction s then run_codes (Some u) cs s
      else new_transaction (\<lambda>t. run_codes (Some u) cs (bind_tenant_context u t)) s)"
| "run_code sc (Tenant_read u cs) s =
     (if ds_in_transaction s
      then run_codes (Some u) cs (if tenant_context_bound s u then s
             else bind_tenant_context u (set_bypass_rls_context False s))
      else new_transaction (\<lambda>t. run_codes (Some u) cs (bind_tenant_context u t)) s)"
| "run_code sc (Record_audit u) s =
     (let s1 = set_current_user_context u (set_queue_role_context False (begin_transaction s)) in ([(Some u, ds_settings s1)], True, s1))"
| "run_codes sc [] s = ([], True, s)"
| "run_codes sc (c # cs) s = (case run_code sc c s of (os, ok, s1) \<Rightarrow>
     if ok then (case run_codes sc cs s1 of (ps, ok2, s2) \<Rightarrow> (os @ ps, ok2, s2)) else (os, False, s1))"

text \<open>\<open>execute_with_rls\<close>: inside a transaction the statement runs with the settings it finds.\<close>

definition execute_with_rls :: "uuid \<Rightarrow> db_code" where
  "execute_with_rls u = Rls_transaction u [Execute]"

section \<open>Isolation\<close>

text \<open>
  Code for one tenant: its statements, suppressed errors and the scopes of that tenant. A unit of work opens a tenant,
  queue or system scope from outside a transaction; a queue or system scope holds no tenant scope.
\<close>

fun code_for :: "uuid \<Rightarrow> db_code \<Rightarrow> bool" where
  "code_for u Execute = True"
| "code_for u Raise = True"
| "code_for u (Suppress cs) = (\<forall>c\<in>set cs. code_for u c)"
| "code_for u (Tenant_transaction v cs) = (v = u \<and> (\<forall>c\<in>set cs. code_for u c))"
| "code_for u (Rls_transaction v cs) = (v = u \<and> (\<forall>c\<in>set cs. code_for u c))"
| "code_for u (Tenant_read v cs) = (v = u \<and> (\<forall>c\<in>set cs. code_for u c))"
| "code_for u (Record_audit v) = (v = u)"
| "code_for u _ = False"

fun plain_code :: "db_code \<Rightarrow> bool" where
  "plain_code Execute = True"
| "plain_code Raise = True"
| "plain_code (Suppress cs) = (\<forall>c\<in>set cs. plain_code c)"
| "plain_code _ = False"

fun unit_of_work :: "db_code \<Rightarrow> bool" where
  "unit_of_work (Tenant_transaction u cs) = (\<forall>c\<in>set cs. code_for u c)"
| "unit_of_work (Rls_transaction u cs) = (\<forall>c\<in>set cs. code_for u c)"
| "unit_of_work (Tenant_read u cs) = (\<forall>c\<in>set cs. code_for u c)"
| "unit_of_work (Queue_transaction cs) = (\<forall>c\<in>set cs. plain_code c)"
| "unit_of_work (System_transaction cs) = (\<forall>c\<in>set cs. plain_code c)"
| "unit_of_work (Suppress cs) = (\<forall>c\<in>set cs. unit_of_work c)"
| "unit_of_work Raise = True"
| "unit_of_work _ = False"

definition bound_to :: "uuid \<Rightarrow> db_session \<Rightarrow> bool" where
  "bound_to u s \<longleftrightarrow> ds_in_transaction s \<and> ds_tenant_marker s = Some u
     \<and> ds_settings s = \<lparr>ts_current_user = Some u, ts_queue_role = False, ts_bypass_rls = False\<rparr>"

definition seen_as :: "uuid \<Rightarrow> seen \<Rightarrow> bool" where
  "seen_as u p \<longleftrightarrow> fst p = Some u \<and> (\<forall>owner. row_visible (snd p) owner \<longleftrightarrow> owner = u)"

lemma bound_seen: "bound_to u s \<Longrightarrow> seen_as u (Some u, ds_settings s)"
  by (auto simp: bound_to_def seen_as_def row_visible_def)

lemma bound_scope_simps:
  assumes "bound_to u s"
  shows "run_code sc (Tenant_transaction u cs) s = run_codes (Some u) cs s"
    and "run_code sc (Rls_transaction u cs) s = run_codes (Some u) cs s"
    and "run_code sc (Tenant_read u cs) s = run_codes (Some u) cs s"
    and "run_code (Some u) Execute s = ([(Some u, ds_settings s)], True, s)"
    and "run_code sc (Record_audit u) s = ([(Some u, ds_settings s)], True, s)"
  using assms by (simp_all add: bound_to_def tenant_context_bound_def begin_transaction_def set_current_user_context_def
    set_queue_role_context_def)

text \<open>In a session bound to a tenant, code for that tenant sees its rows and keeps the session bound.\<close>

definition keeps_bound :: "uuid \<Rightarrow> seen list \<times> bool \<times> db_session \<Rightarrow> bool" where
  "keeps_bound u r \<longleftrightarrow> bound_to u (snd (snd r)) \<and> (\<forall>p\<in>set (fst r). seen_as u p)"

lemma run_codes_bound:
  assumes "\<And>c s. c \<in> set cs \<Longrightarrow> bound_to u s \<Longrightarrow> keeps_bound u (run_code (Some u) c s)" and "bound_to u s"
  shows "keeps_bound u (run_codes (Some u) cs s)"
  using assms
proof (induction cs arbitrary: s)
  case Nil
  then show ?case by (simp add: keeps_bound_def)
next
  case (Cons c cs)
  obtain os ok s1 where r: "run_code (Some u) c s = (os, ok, s1)" by (metis prod_cases3)
  have k: "keeps_bound u (os, ok, s1)" using Cons.prems(1) [of c s] Cons.prems(2) r by simp
  have "keeps_bound u (run_codes (Some u) cs s1)"
  proof (rule Cons.IH)
    show "keeps_bound u (run_code (Some u) d t)" if "d \<in> set cs" "bound_to u t" for d t
      using Cons.prems(1) [of d t] that by simp
    show "bound_to u s1" using k by (simp add: keeps_bound_def)
  qed
  with k show ?case by (auto simp: keeps_bound_def r split: prod.splits)
qed

lemma run_code_bound: "bound_to u s \<Longrightarrow> code_for u c \<Longrightarrow> keeps_bound u (run_code (Some u) c s)"
proof (induction c arbitrary: s)
  case Execute
  then show ?case by (simp add: bound_scope_simps keeps_bound_def bound_seen del: run_code.simps)
next
  case Raise
  then show ?case by (simp add: keeps_bound_def)
next
  case (Suppress cs)
  then have "keeps_bound u (run_codes (Some u) cs s)" by (intro run_codes_bound) auto
  then show ?case by (auto simp: keeps_bound_def split: prod.splits)
next
  case (Tenant_transaction v cs)
  then have "keeps_bound u (run_codes (Some u) cs s)" by (intro run_codes_bound) auto
  with Tenant_transaction.prems show ?case by (simp add: bound_scope_simps del: run_code.simps)
next
  case (Rls_transaction v cs)
  then have "keeps_bound u (run_codes (Some u) cs s)" by (intro run_codes_bound) auto
  with Rls_transaction.prems show ?case by (simp add: bound_scope_simps del: run_code.simps)
next
  case (Tenant_read v cs)
  then have "keeps_bound u (run_codes (Some u) cs s)" by (intro run_codes_bound) auto
  with Tenant_read.prems show ?case by (simp add: bound_scope_simps del: run_code.simps)
next
  case (Record_audit v)
  then show ?case by (simp add: bound_scope_simps keeps_bound_def bound_seen del: run_code.simps)
qed simp_all

text \<open>Outside a transaction nothing is set, and every unit of work leaves the session that way.\<close>

definition idle :: "db_session \<Rightarrow> bool" where
  "idle s \<longleftrightarrow> \<not> ds_in_transaction s \<and> ds_settings s = no_settings"

definition isolated :: "seen list \<times> bool \<times> db_session \<Rightarrow> bool" where
  "isolated r \<longleftrightarrow> idle (snd (snd r)) \<and> (\<forall>p\<in>set (fst r). \<forall>v. fst p = Some v \<longrightarrow> seen_as v p)"

lemma run_codes_isolated:
  assumes "\<And>c s. c \<in> set cs \<Longrightarrow> idle s \<Longrightarrow> isolated (run_code sc c s)" and "idle s"
  shows "isolated (run_codes sc cs s)"
  using assms
proof (induction cs arbitrary: s)
  case Nil
  then show ?case by (simp add: isolated_def)
next
  case (Cons c cs)
  obtain os ok s1 where r: "run_code sc c s = (os, ok, s1)" by (metis prod_cases3)
  have k: "isolated (os, ok, s1)" using Cons.prems(1) [of c s] Cons.prems(2) r by simp
  have "isolated (run_codes sc cs s1)"
  proof (rule Cons.IH)
    show "isolated (run_code sc d t)" if "d \<in> set cs" "idle t" for d t using Cons.prems(1) [of d t] that by simp
    show "idle s1" using k by (simp add: isolated_def)
  qed
  with k show ?case by (auto simp: isolated_def r split: prod.splits)
qed

lemma run_codes_scope:
  assumes "\<And>c s. c \<in> set cs \<Longrightarrow> \<forall>p\<in>set (fst (run_code None c s)). fst p = None"
  shows "\<forall>p\<in>set (fst (run_codes None cs s)). fst p = None"
  using assms
proof (induction cs arbitrary: s)
  case Nil
  then show ?case by simp
next
  case (Cons c cs)
  obtain os ok s1 where r: "run_code None c s = (os, ok, s1)" by (metis prod_cases3)
  have "\<forall>p\<in>set os. fst p = None" using Cons.prems [of c s] r by simp
  moreover have "\<forall>p\<in>set (fst (run_codes None cs s1)). fst p = None" by (rule Cons.IH) (rule Cons.prems, simp)
  ultimately show ?case by (auto simp: r split: prod.splits)
qed

lemma plain_scope: "plain_code c \<Longrightarrow> \<forall>p\<in>set (fst (run_code None c s)). fst p = None"
proof (induction c arbitrary: s)
  case (Suppress cs)
  then have "\<forall>p\<in>set (fst (run_codes None cs s)). fst p = None" by (intro run_codes_scope) simp
  then show ?case by (auto split: prod.splits)
qed simp_all

lemma plain_scopes: "\<forall>c\<in>set cs. plain_code c \<Longrightarrow> \<forall>p\<in>set (fst (run_codes None cs s)). fst p = None"
  by (rule run_codes_scope) (blast dest: plain_scope)

lemma bound_after_bind: "idle s \<Longrightarrow> bound_to u (bind_tenant_context u (begin_transaction s))"
  by (simp add: idle_def bound_to_def bind_tenant_context_def begin_transaction_def set_current_user_context_def
    set_queue_role_context_def no_settings_def)

lemma tenant_unit_isolated:
  assumes "idle s" and "\<forall>c\<in>set cs. code_for u c"
  shows "isolated (new_transaction (\<lambda>t. run_codes (Some u) cs (bind_tenant_context u t)) s)"
proof -
  have k: "keeps_bound u (run_codes (Some u) cs (bind_tenant_context u (begin_transaction s)))"
    by (rule run_codes_bound) (use assms run_code_bound bound_after_bind in blast)+
  then have "\<forall>p\<in>set (fst (run_codes (Some u) cs (bind_tenant_context u (begin_transaction s)))). seen_as u p \<and> fst p = Some u"
    by (auto simp: keeps_bound_def seen_as_def)
  with assms(1) show ?thesis
    by (auto simp: new_transaction_def isolated_def idle_def end_transaction_def split: prod.splits)
qed

lemma plain_unit_isolated:
  assumes "idle s" and "\<forall>c\<in>set cs. plain_code c"
  shows "isolated (new_transaction (\<lambda>t. run_codes None cs (f t)) s)"
  using assms plain_scopes [OF assms(2), of "f (begin_transaction s)"]
  by (auto simp: new_transaction_def isolated_def idle_def end_transaction_def split: prod.splits)

lemma unit_isolated: "idle s \<Longrightarrow> unit_of_work c \<Longrightarrow> isolated (run_code None c s)"
proof (induction c arbitrary: s)
  case (Suppress cs)
  then have "isolated (run_codes None cs s)" by (intro run_codes_isolated) auto
  then show ?case by (auto simp: isolated_def split: prod.splits)
next
  case (Tenant_transaction u cs)
  then show ?case using tenant_unit_isolated [of s cs u] by (simp add: idle_def)
next
  case (Rls_transaction u cs)
  then show ?case using tenant_unit_isolated [of s cs u] by (simp add: idle_def)
next
  case (Tenant_read u cs)
  then show ?case using tenant_unit_isolated [of s cs u] by (simp add: idle_def)
next
  case (Queue_transaction cs)
  then show ?case
    using plain_unit_isolated [of s cs "\<lambda>t. set_queue_role_context True (set_bypass_rls_context False t)"] by simp
next
  case (System_transaction cs)
  then show ?case
    using plain_unit_isolated [of s cs "\<lambda>t. set_bypass_rls_context True (set_queue_role_context False t)"] by simp
qed (simp_all add: isolated_def)

text \<open>
  C8. Whatever units of work run on a session, in any order, for any tenants and with any exceptions inside, every
  statement of a tenant's scope sees exactly the rows of that tenant.
\<close>

theorem tenant_reads_isolated:
  assumes "\<forall>c\<in>set cs. unit_of_work c" and "p \<in> set (fst (run_codes None cs new_session))" and "fst p = Some u"
  shows "row_visible (snd p) owner \<longleftrightarrow> owner = u"
proof -
  have "idle new_session" by (simp add: idle_def new_session_def)
  then have "isolated (run_codes None cs new_session)" by (intro run_codes_isolated unit_isolated) (use assms(1) in auto)
  with assms(2,3) show ?thesis by (auto simp: isolated_def seen_as_def)
qed

lemma tenant_reads_isolated_witness:
  "let cs = [Tenant_transaction 1 [Execute, Suppress [Tenant_transaction 1 [Raise]], execute_with_rls 1],
             Queue_transaction [Execute], Suppress [Tenant_transaction 2 [Execute, Raise]], Tenant_read 1 [Execute]];
       seen = fst (run_codes None cs new_session)
   in map fst seen = [Some 1, Some 1, None, Some 2, Some 1] \<and> \<not> row_visible (snd (seen ! 3)) 1"
proof -
  define cs where "cs = [Tenant_transaction 1 [Execute, Suppress [Tenant_transaction 1 [Raise]], execute_with_rls 1],
    Queue_transaction [Execute], Suppress [Tenant_transaction 2 [Execute, Raise]], Tenant_read 1 [Execute]]"
  define seen where "seen = fst (run_codes None cs new_session)"
  define g where "g u = \<lparr>ts_current_user = Some u, ts_queue_role = False, ts_bypass_rls = False\<rparr>" for u :: uuid
  have s: "seen = [(Some 1, g 1), (Some 1, g 1), (None, \<lparr>ts_current_user = None, ts_queue_role = True, ts_bypass_rls = False\<rparr>),
      (Some 2, g 2), (Some 1, g 1)]"
    by (simp add: seen_def cs_def execute_with_rls_def new_session_def new_transaction_def bind_tenant_context_def
      begin_transaction_def end_transaction_def set_current_user_context_def set_queue_role_context_def
      set_bypass_rls_context_def no_settings_def tenant_context_bound_def g_def)
  have "\<forall>c\<in>set cs. unit_of_work c" by (simp add: cs_def execute_with_rls_def)
  moreover have "(Some 2, g 2) \<in> set (fst (run_codes None cs new_session))" unfolding seen_def [symmetric] by (simp add: s)
  ultimately have "row_visible (snd (Some (2::nat), g 2)) 1 \<longleftrightarrow> (1::nat) = 2" by (rule tenant_reads_isolated) simp
  then show ?thesis unfolding Let_def by (fold cs_def) (fold seen_def, simp add: s)
qed


text \<open>A scope of another tenant inside a tenant's scope leaves its tenant behind.\<close>

lemma nested_tenant_leaks:
  assumes "u \<noteq> v"
  shows "\<exists>p g. fst (run_codes None [Tenant_transaction u [Tenant_transaction v [Execute], Execute]] new_session) = [p, (Some u, g)]
    \<and> (\<forall>owner. row_visible g owner \<longleftrightarrow> owner = v)"
  using assms
  by (auto simp: new_session_def new_transaction_def nested_transaction_def bind_tenant_context_def begin_transaction_def
    set_current_user_context_def set_queue_role_context_def no_settings_def tenant_context_bound_def row_visible_def)

text \<open>Inside a transaction that another piece of code started, \<open>execute_with_rls\<close> has no tenant.\<close>

lemma execute_with_rls_unbound:
  "\<exists>p g. fst (run_codes None [Execute, execute_with_rls u] new_session) = [p, (Some u, g)] \<and> (\<forall>owner. \<not> row_visible g owner)"
  by (simp add: execute_with_rls_def new_session_def begin_transaction_def no_settings_def row_visible_def)

end
