(* ===== verification/Ai_Governance.thy ===== *)
theory Ai_Governance
  imports Platform_Health Containment
begin

text \<open>
  What an AI run may do: agents and their permissions (\<open>app/ai/agents.py\<close>), the policy (\<open>app/ai/policy.py\<close>), the
  workflows (\<open>app/ai/analytics/workflows.py\<close>) with their prompts (\<open>app/ai/prompts/registry.py\<close>,
  \<open>app/ai/prompts/v3/registry.py\<close>), the budget of a run (\<open>app/ai/safety.py\<close>), the rate limit
  (\<open>app/ai/rate_limit.py\<close>) and the cost caps (\<open>app/ai/providers/pricing.py\<close>, \<open>cost_governance.py\<close>).
  The law: no tenant is granted more runs in a minute than the limit, nor the platform more in an hour.
\<close>

section \<open>Settings\<close>

record ai_settings =
  ai_failover_provider :: pystr
  ai_default_token_budget :: int
  ai_execution_timeout_seconds :: int
  ai_stale_rebuild_pending_warn :: int
  ai_provider :: pystr
  ai_openai_base_url :: pystr
  ai_openai_api_key :: pystr
  ai_openai_model :: pystr
  ai_failover_api_key :: pystr
  ai_failover_base_url :: pystr
  ai_failover_model :: pystr
  ai_reasoning_model :: pystr
  ai_fast_model :: pystr
  ai_cheap_model :: pystr
  ai_enable_streaming :: bool
  ai_enable_cost_tracking :: bool
  ai_max_cost_per_run_usd :: rat
  ai_max_cost_per_day_usd :: rat
  ai_enable_response_cache :: bool
  ai_cache_ttl_seconds :: int
  ai_prompt_runtime_version :: pystr
  ai_max_retries :: int
  ai_rate_limit_per_minute :: int
  ai_memory_max_turns :: nat
  ai_disabled_agents :: pystr

definition default_ai_settings :: ai_settings where
  "default_ai_settings = \<lparr>
     ai_failover_provider = [], ai_default_token_budget = 8000, ai_execution_timeout_seconds = 120,
     ai_stale_rebuild_pending_warn = 5, ai_provider = asc ''mock'', ai_openai_base_url = [], ai_openai_api_key = [],
     ai_openai_model = asc ''gpt-4o-mini'', ai_failover_api_key = [], ai_failover_base_url = [], ai_failover_model = [],
     ai_reasoning_model = [], ai_fast_model = [], ai_cheap_model = [], ai_enable_streaming = True,
     ai_enable_cost_tracking = True, ai_max_cost_per_run_usd = 1 / 2, ai_max_cost_per_day_usd = 25,
     ai_enable_response_cache = False, ai_cache_ttl_seconds = 300, ai_prompt_runtime_version = asc ''v3'',
     ai_max_retries = 2, ai_rate_limit_per_minute = 30, ai_memory_max_turns = 10, ai_disabled_agents = []\<rparr>"

section \<open>Agents\<close>

datatype agent_kind =
    ANALYTICS | ANALYTICS_ASSISTANT | ANOMALY_INVESTIGATION | ANOMALY_INVESTIGATOR | RECOMMENDATION
  | REPORTING | ORCHESTRATION_ASSISTANT | OPERATIONS_ASSISTANT | INVENTORY_OPTIMIZER | FORECASTING_ASSISTANT

definition agent_value :: "agent_kind \<Rightarrow> pystr" where
  "agent_value a = asc (case a of
      ANALYTICS \<Rightarrow> ''analytics'' | ANALYTICS_ASSISTANT \<Rightarrow> ''analytics_assistant''
    | ANOMALY_INVESTIGATION \<Rightarrow> ''anomaly_investigation'' | ANOMALY_INVESTIGATOR \<Rightarrow> ''anomaly_investigator''
    | RECOMMENDATION \<Rightarrow> ''recommendation'' | REPORTING \<Rightarrow> ''reporting''
    | ORCHESTRATION_ASSISTANT \<Rightarrow> ''orchestration_assistant'' | OPERATIONS_ASSISTANT \<Rightarrow> ''operations_assistant''
    | INVENTORY_OPTIMIZER \<Rightarrow> ''inventory_optimizer'' | FORECASTING_ASSISTANT \<Rightarrow> ''forecasting_assistant'')"

datatype tool_name =
    READ_ANALYTICS_DTO | READ_OPS_REBUILDS | READ_OPS_ANOMALIES | READ_OPS_QUEUE
  | READ_SEMANTICS_STATUS | WRITE_AI_INSIGHT_DRAFT

definition tool_value :: "tool_name \<Rightarrow> pystr" where
  "tool_value t = asc (case t of
      READ_ANALYTICS_DTO \<Rightarrow> ''read_analytics_dto'' | READ_OPS_REBUILDS \<Rightarrow> ''read_ops_rebuilds''
    | READ_OPS_ANOMALIES \<Rightarrow> ''read_ops_anomalies'' | READ_OPS_QUEUE \<Rightarrow> ''read_ops_queue''
    | READ_SEMANTICS_STATUS \<Rightarrow> ''read_semantics_status'' | WRITE_AI_INSIGHT_DRAFT \<Rightarrow> ''write_ai_insight_draft'')"

record agent_permissions =
  ap_allowed_tools :: "tool_name list"
  ap_max_tool_calls :: int
  ap_token_budget :: int
  ap_may_persist_insight :: bool
  ap_requires_human_approval_for :: "pystr list"

definition permissions :: "tool_name list \<Rightarrow> int \<Rightarrow> int \<Rightarrow> bool \<Rightarrow> string list \<Rightarrow> agent_permissions" where
  "permissions ts n b p hs = \<lparr>ap_allowed_tools = ts, ap_max_tool_calls = n, ap_token_budget = b,
     ap_may_persist_insight = p, ap_requires_human_approval_for = map asc hs\<rparr>"

definition permissions_for :: "agent_kind \<Rightarrow> agent_permissions" where
  "permissions_for a = (case a of
      ANALYTICS \<Rightarrow> permissions [READ_ANALYTICS_DTO, READ_SEMANTICS_STATUS, WRITE_AI_INSIGHT_DRAFT] 10 8000 True [''financial_commitment'']
    | ANOMALY_INVESTIGATION \<Rightarrow> permissions [READ_ANALYTICS_DTO, READ_OPS_ANOMALIES, READ_OPS_REBUILDS, READ_OPS_QUEUE]
        15 12000 False [''remediation_action'']
    | RECOMMENDATION \<Rightarrow> permissions [READ_ANALYTICS_DTO, READ_OPS_REBUILDS] 8 6000 False [''pricing_change'', ''inventory_adjustment'']
    | REPORTING \<Rightarrow> permissions [READ_ANALYTICS_DTO, WRITE_AI_INSIGHT_DRAFT] 6 10000 True []
    | ORCHESTRATION_ASSISTANT \<Rightarrow> permissions [READ_OPS_REBUILDS, READ_OPS_QUEUE, READ_SEMANTICS_STATUS]
        12 4000 False [''trigger_rebuild'', ''replay_dlq'']
    | ANALYTICS_ASSISTANT \<Rightarrow> permissions [READ_ANALYTICS_DTO, READ_SEMANTICS_STATUS, WRITE_AI_INSIGHT_DRAFT]
        10 8000 True [''financial_commitment'']
    | ANOMALY_INVESTIGATOR \<Rightarrow> permissions [READ_ANALYTICS_DTO, READ_OPS_ANOMALIES, READ_OPS_REBUILDS]
        15 12000 False [''remediation_action'']
    | OPERATIONS_ASSISTANT \<Rightarrow> permissions [READ_OPS_REBUILDS, READ_OPS_QUEUE, READ_SEMANTICS_STATUS] 12 4000 False [''trigger_rebuild'']
    | INVENTORY_OPTIMIZER \<Rightarrow> permissions [READ_ANALYTICS_DTO, READ_SEMANTICS_STATUS, WRITE_AI_INSIGHT_DRAFT]
        10 9000 True [''inventory_adjustment'']
    | FORECASTING_ASSISTANT \<Rightarrow> permissions [READ_ANALYTICS_DTO, READ_SEMANTICS_STATUS] 8 7000 False [''forecast_commit''])"

definition escalation_path :: "agent_kind \<Rightarrow> pystr" where
  "escalation_path a =
     (if a = ORCHESTRATION_ASSISTANT then asc ''platform_operator''
      else if a = ANOMALY_INVESTIGATION \<or> a = RECOMMENDATION then asc ''tenant_admin''
      else asc ''tenant_analyst'')"

section \<open>Policy\<close>

text \<open>\<open>AIPolicyViolation\<close> with its message; a message that prints a number or an identifier is kept without that part.\<close>

definition policy_violation :: "pystr \<Rightarrow> py_error" where
  "policy_violation msg = OtherException msg"

datatype ai_action =
    EXECUTE_AGENT | INVOKE_TOOL | PERSIST_INSIGHT
  | MUTATE_LEDGER | MUTATE_SNAPSHOT | TRIGGER_REBUILD | ENQUEUE_ETL | BYPASS_RLS | BYPASS_SEMANTICS

definition action_value :: "ai_action \<Rightarrow> pystr" where
  "action_value a = asc (case a of
      EXECUTE_AGENT \<Rightarrow> ''execute_agent'' | INVOKE_TOOL \<Rightarrow> ''invoke_tool'' | PERSIST_INSIGHT \<Rightarrow> ''persist_insight''
    | MUTATE_LEDGER \<Rightarrow> ''mutate_ledger'' | MUTATE_SNAPSHOT \<Rightarrow> ''mutate_snapshot'' | TRIGGER_REBUILD \<Rightarrow> ''trigger_rebuild''
    | ENQUEUE_ETL \<Rightarrow> ''enqueue_etl'' | BYPASS_RLS \<Rightarrow> ''bypass_rls'' | BYPASS_SEMANTICS \<Rightarrow> ''bypass_semantics'')"

definition forbidden_ai_actions :: "ai_action list" where
  "forbidden_ai_actions = [MUTATE_LEDGER, MUTATE_SNAPSHOT, TRIGGER_REBUILD, ENQUEUE_ETL, BYPASS_RLS, BYPASS_SEMANTICS]"

definition assert_ai_action_allowed :: "ai_action \<Rightarrow> agent_kind option \<Rightarrow> tool_name option \<Rightarrow> py_error + unit" where
  "assert_ai_action_allowed act agent tool =
     (if act \<in> set forbidden_ai_actions then Inl (policy_violation (asc ''AI forbidden action: '' @ action_value act))
      else if act = PERSIST_INSIGHT then
        (case agent of
           None \<Rightarrow> Inl (policy_violation (asc ''persist_insight requires agent context''))
         | Some a \<Rightarrow> if \<not> ap_may_persist_insight (permissions_for a)
             then Inl (policy_violation (asc ''agent '' @ agent_value a @ asc '' may not persist insights'')) else Inr ())
      else if act = INVOKE_TOOL then
        (case (agent, tool) of
           (Some a, Some t) \<Rightarrow> if t \<notin> set (ap_allowed_tools (permissions_for a))
             then Inl (policy_violation (asc ''tool '' @ tool_value t @ asc '' not allowed for '' @ agent_value a)) else Inr ()
         | _ \<Rightarrow> Inl (policy_violation (asc ''invoke_tool requires agent and tool'')))
      else Inr ())"

text \<open>\<open>s.split(",")\<close>.\<close>

fun split_on :: "nat \<Rightarrow> pystr \<Rightarrow> pystr \<Rightarrow> pystr list" where
  "split_on d w [] = [w]"
| "split_on d w (c # cs) = (if c = d then w # split_on d [] cs else split_on d (w @ [c]) cs)"

definition disabled_agents :: "ai_settings \<Rightarrow> pystr list" where
  "disabled_agents cfg = filter (\<lambda>s. s \<noteq> []) (map strip (split_on 44 [] (ai_disabled_agents cfg)))"

definition assert_agent_enabled :: "ai_settings \<Rightarrow> agent_kind \<Rightarrow> py_error + unit" where
  "assert_agent_enabled cfg a = (if agent_value a \<in> set (disabled_agents cfg)
     then Inl (policy_violation (asc ''agent '' @ agent_value a @ asc '' disabled by configuration'')) else Inr ())"

section \<open>Workflows and prompts\<close>

datatype analytics_workflow =
    WF_ANOMALY_EXPLANATION | WF_TREND_EXPLANATION | WF_REVENUE_INSIGHT | WF_INVENTORY_INSIGHT
  | WF_CAUSAL_ANALYSIS | WF_RECOMMENDATION | WF_RISK_DETECTION | WF_FORECAST_PREP

definition workflow_value :: "analytics_workflow \<Rightarrow> pystr" where
  "workflow_value w = asc (case w of
      WF_ANOMALY_EXPLANATION \<Rightarrow> ''anomaly_explanation'' | WF_TREND_EXPLANATION \<Rightarrow> ''trend_explanation''
    | WF_REVENUE_INSIGHT \<Rightarrow> ''revenue_insight'' | WF_INVENTORY_INSIGHT \<Rightarrow> ''inventory_insight''
    | WF_CAUSAL_ANALYSIS \<Rightarrow> ''causal_analysis'' | WF_RECOMMENDATION \<Rightarrow> ''recommendation''
    | WF_RISK_DETECTION \<Rightarrow> ''risk_detection'' | WF_FORECAST_PREP \<Rightarrow> ''forecast_prep'')"

definition spec_for :: "analytics_workflow \<Rightarrow> agent_kind \<times> pystr" where
  "spec_for w = (case w of
      WF_ANOMALY_EXPLANATION \<Rightarrow> (ANOMALY_INVESTIGATION, asc ''anomaly.investigation.v1'')
    | WF_TREND_EXPLANATION \<Rightarrow> (ANALYTICS, asc ''analytics.summary.v1'')
    | WF_REVENUE_INSIGHT \<Rightarrow> (ANALYTICS, asc ''analytics.summary.v1'')
    | WF_INVENTORY_INSIGHT \<Rightarrow> (INVENTORY_OPTIMIZER, asc ''inventory.insight.v1'')
    | WF_CAUSAL_ANALYSIS \<Rightarrow> (ANALYTICS, asc ''analytics.summary.v1'')
    | WF_RECOMMENDATION \<Rightarrow> (RECOMMENDATION, asc ''analytics.summary.v1'')
    | WF_RISK_DETECTION \<Rightarrow> (ANOMALY_INVESTIGATION, asc ''anomaly.investigation.v1'')
    | WF_FORECAST_PREP \<Rightarrow> (FORECASTING_ASSISTANT, asc ''forecast.prep.v1''))"

definition prompt_ids :: "pystr list" where
  "prompt_ids = map asc [''analytics.summary.v1'', ''anomaly.investigation.v1'', ''inventory.insight.v1'',
     ''forecast.prep.v1'', ''reporting.executive.v1'']"

text \<open>A contract is its identifier and version.\<close>

definition get_prompt_contract :: "pystr \<Rightarrow> py_error + pystr \<times> pystr" where
  "get_prompt_contract pid = (if pid \<in> set prompt_ids then Inr (pid, asc ''1.0.0'')
     else Inl (KeyError (asc ''unknown prompt_id: '' @ pid)))"

record prompt_contract_v3 =
  p3_prompt_id :: pystr
  p3_version :: pystr
  p3_label :: pystr
  p3_active :: bool

definition contract_v3 :: "string \<Rightarrow> string \<Rightarrow> string \<Rightarrow> bool \<Rightarrow> prompt_contract_v3" where
  "contract_v3 pid v l b = \<lparr>p3_prompt_id = asc pid, p3_version = asc v, p3_label = asc l, p3_active = b\<rparr>"

definition prompt_registry_v3 :: "prompt_contract_v3 list" where
  "prompt_registry_v3 =
    [contract_v3 ''v3.analytics.summary'' ''3.0.0'' ''production'' True,
     contract_v3 ''v3.anomaly.investigation'' ''3.0.0'' ''production'' True,
     contract_v3 ''v3.inventory.insight'' ''3.0.0'' ''production'' True,
     contract_v3 ''v3.reporting.executive'' ''3.0.0'' ''beta'' True,
     contract_v3 ''v3.analytics.summary.legacy'' ''3.0.0-beta'' ''inactive'' False]"

definition workflow_prompt_v3 :: "analytics_workflow \<Rightarrow> pystr" where
  "workflow_prompt_v3 w = asc (case w of
      WF_ANOMALY_EXPLANATION \<Rightarrow> ''v3.anomaly.investigation'' | WF_RISK_DETECTION \<Rightarrow> ''v3.anomaly.investigation''
    | WF_INVENTORY_INSIGHT \<Rightarrow> ''v3.inventory.insight'' | WF_RECOMMENDATION \<Rightarrow> ''v3.reporting.executive''
    | WF_REVENUE_INSIGHT \<Rightarrow> ''v3.analytics.summary'' | WF_TREND_EXPLANATION \<Rightarrow> ''v3.analytics.summary''
    | WF_CAUSAL_ANALYSIS \<Rightarrow> ''v3.reporting.executive'' | WF_FORECAST_PREP \<Rightarrow> ''v3.analytics.summary'')"

definition resolve_for_workflow :: "analytics_workflow \<Rightarrow> py_error + prompt_contract_v3" where
  "resolve_for_workflow w =
     (case find (\<lambda>c. p3_prompt_id c = workflow_prompt_v3 w) prompt_registry_v3 of
        None \<Rightarrow> Inl (KeyError (asc ''unknown v3 prompt_id: '' @ workflow_prompt_v3 w))
      | Some c \<Rightarrow> if \<not> p3_active c then Inl (KeyError (asc ''prompt '' @ workflow_prompt_v3 w @ asc '' is inactive'')) else Inr c)"

section \<open>The budget of a run\<close>

text \<open>The time of a tool call and of a runtime event is left out; a tool call that is recorded was allowed.\<close>

record execution_trace =
  tr_agent :: agent_kind
  tr_prompt_version :: pystr
  tr_tool_calls :: "tool_name list"
  tr_runtime_events :: "pystr list"
  tr_tokens_used :: int

definition add_tokens :: "int \<Rightarrow> execution_trace \<Rightarrow> execution_trace" where
  "add_tokens n tr = tr\<lparr>tr_tokens_used := tr_tokens_used tr + n\<rparr>"

definition record_runtime_event :: "pystr \<Rightarrow> execution_trace \<Rightarrow> execution_trace" where
  "record_runtime_event e tr = tr\<lparr>tr_runtime_events := tr_runtime_events tr @ [e]\<rparr>"

definition assert_within_budget :: "ai_settings \<Rightarrow> rat \<Rightarrow> execution_trace \<Rightarrow> py_error + unit" where
  "assert_within_budget cfg elapsed_ms tr =
     (let perms = permissions_for (tr_agent tr)
      in if ap_token_budget perms < tr_tokens_used tr then Inl (policy_violation (asc ''token budget exceeded''))
         else if ap_max_tool_calls perms < int (length (tr_tool_calls tr))
         then Inl (policy_violation (asc ''tool call budget exceeded''))
         else if of_int (ai_execution_timeout_seconds cfg * 1000) < elapsed_ms
         then Inl (policy_violation (asc ''execution timeout exceeded''))
         else Inr ())"

definition invoke_tool :: "tool_name \<Rightarrow> execution_trace \<Rightarrow> py_error + execution_trace" where
  "invoke_tool t tr = sbind (assert_ai_action_allowed INVOKE_TOOL (Some (tr_agent tr)) (Some t)) (\<lambda>_.
     Inr (tr\<lparr>tr_tool_calls := tr_tool_calls tr @ [t]\<rparr>))"

section \<open>Rate limit\<close>

text \<open>Granted calls: per tenant on the monotonic clock, for the platform on the wall clock.\<close>

record rate_limiter =
  rl_windows :: "uuid \<Rightarrow> instant list"
  rl_global_hits :: "instant list"

definition new_limiter :: rate_limiter where
  "new_limiter = \<lparr>rl_windows = (\<lambda>_. []), rl_global_hits = []\<rparr>"

definition check_tenant_rate_limit ::
  "settings \<Rightarrow> ai_settings \<Rightarrow> instant \<Rightarrow> instant \<Rightarrow> uuid \<Rightarrow> rate_limiter \<Rightarrow> (py_error + unit) \<times> rate_limiter" where
  "check_tenant_rate_limit st cfg mon wall u rl =
     (if ai_rate_limit_per_minute cfg \<le> 0 then (Inr (), rl)
      else (let recent = filter (\<lambda>t. wall - seconds 3600 \<le> t) (rl_global_hits rl); rl1 = rl\<lparr>rl_global_hits := recent\<rparr>
            in if reliability_ai_runaway_per_hour st \<le> int (length recent)
               then (Inl (policy_violation (asc ''platform AI runaway containment active'')), rl1)
               else (let hits = filter (\<lambda>t. mon - seconds 60 \<le> t) (rl_windows rl u)
                     in if ai_rate_limit_per_minute cfg \<le> int (length hits)
                        then (Inl (policy_violation (asc ''AI rate limit exceeded for tenant'')), rl1)
                        else (Inr (), \<lparr>rl_windows = (rl_windows rl)(u := hits @ [mon]), rl_global_hits = recent @ [wall]\<rparr>))))"

section \<open>Cost\<close>

text \<open>\<open>PRICING\<close>: prices of a thousand prompt and completion tokens; an unknown model has no estimate.\<close>

definition pricing :: "(pystr \<times> rat \<times> rat) list" where
  "pricing = [(asc ''gpt-4o-mini'', 15 / 100000, 6 / 10000), (asc ''gpt-4o'', 25 / 10000, 1 / 100)]"

definition estimate_cost_usd :: "pystr \<Rightarrow> int \<Rightarrow> int \<Rightarrow> rat option" where
  "estimate_cost_usd model prompt_tokens completion_tokens =
     (case map_of pricing model of
        None \<Rightarrow> None
      | Some (p, c) \<Rightarrow> Some (double (double (double (of_int prompt_tokens / 1000) * double p)
          + double (double (of_int completion_tokens / 1000) * double c))))"

definition assert_run_cost_allowed :: "ai_settings \<Rightarrow> rat option \<Rightarrow> py_error + unit" where
  "assert_run_cost_allowed cfg cost =
     (if \<not> ai_enable_cost_tracking cfg \<or> ai_max_cost_per_run_usd cfg \<le> 0 then Inr ()
      else (case cost of
          None \<Rightarrow> Inr ()
        | Some x \<Rightarrow> if ai_max_cost_per_run_usd cfg < x
            then Inl (policy_violation (asc ''estimated run cost exceeds cap'')) else Inr ()))"

section \<open>Laws\<close>

lemma workflow_agents_read_analytics [simp]: "READ_ANALYTICS_DTO \<in> set (ap_allowed_tools (permissions_for (fst (spec_for w))))"
  by (cases w) (simp_all add: spec_for_def permissions_for_def permissions_def)

lemma workflow_prompts_known: "snd (spec_for w) \<in> set prompt_ids"
  by (cases w) (simp_all add: spec_for_def prompt_ids_def)

text \<open>Who may store an insight may also write its draft.\<close>

lemma persisting_agents_write: "ap_may_persist_insight (permissions_for a) \<longleftrightarrow> WRITE_AI_INSIGHT_DRAFT \<in> set (ap_allowed_tools (permissions_for a))"
  by (cases a) (simp_all add: permissions_for_def permissions_def)

lemma forbidden_actions_refused: "act \<in> set forbidden_ai_actions \<Longrightarrow> \<exists>e. assert_ai_action_allowed act agent tool = Inl e"
  by (simp add: assert_ai_action_allowed_def)

text \<open>A log of calls, each with its two clocks and its tenant; the calls that are granted.\<close>

type_synonym ai_call = "instant \<times> instant \<times> uuid"

definition limiter_step :: "settings \<Rightarrow> ai_settings \<Rightarrow> ai_call \<Rightarrow> rate_limiter \<times> ai_call list \<Rightarrow> rate_limiter \<times> ai_call list" where
  "limiter_step st cfg c = (\<lambda>(rl, granted). case c of (mon, wall, u) \<Rightarrow>
     (case check_tenant_rate_limit st cfg mon wall u rl of
        (Inl e, rl1) \<Rightarrow> (rl1, granted)
      | (Inr x, rl1) \<Rightarrow> (rl1, granted @ [c])))"

definition granted_calls :: "settings \<Rightarrow> ai_settings \<Rightarrow> ai_call list \<Rightarrow> ai_call list" where
  "granted_calls st cfg calls = snd (fold (limiter_step st cfg) calls (new_limiter, []))"

definition tenant_clock :: "uuid \<Rightarrow> ai_call list \<Rightarrow> instant list" where
  "tenant_clock u calls = map fst (filter (\<lambda>c. snd (snd c) = u) calls)"

definition wall_clock :: "ai_call list \<Rightarrow> instant list" where
  "wall_clock calls = map (\<lambda>c. fst (snd c)) calls"

definition at_most :: "int \<Rightarrow> int \<Rightarrow> instant list \<Rightarrow> bool" where
  "at_most n width ts \<longleftrightarrow> (\<forall>a. int (length (filter (\<lambda>t. a \<le> t \<and> t \<le> a + width) ts)) \<le> n)"

definition tracks :: "int \<Rightarrow> instant \<Rightarrow> instant list \<Rightarrow> instant list \<Rightarrow> bool" where
  "tracks width now kept ts \<longleftrightarrow> (\<forall>m\<ge>now. filter (\<lambda>t. m - width \<le> t) kept = filter (\<lambda>t. m - width \<le> t) ts)"

lemma length_filter_weaken: "(\<And>x. P x \<Longrightarrow> Q x) \<Longrightarrow> length (filter P xs) \<le> length (filter Q xs)"
  by (induction xs) auto

lemma at_most_append:
  assumes "at_most n width ts" and "tracks width now kept ts" and "now \<le> m"
    and "int (length (filter (\<lambda>t. m - width \<le> t) kept)) < n"
  shows "at_most n width (ts @ [m])"
proof -
  have k: "int (length (filter (\<lambda>t. m - width \<le> t) ts)) < n" using assms(2-4) by (simp add: tracks_def)
  have "int (length (filter (\<lambda>t. a \<le> t \<and> t \<le> a + width) (ts @ [m]))) \<le> n" for a
  proof (cases "a \<le> m \<and> m \<le> a + width")
    case True
    then have "length (filter (\<lambda>t. a \<le> t \<and> t \<le> a + width) ts) \<le> length (filter (\<lambda>t. m - width \<le> t) ts)"
      by (intro length_filter_weaken) auto
    with k True show ?thesis by simp
  next
    case False
    then show ?thesis using assms(1) by (auto simp: at_most_def)
  qed
  then show ?thesis by (simp add: at_most_def)
qed

lemma tracks_later: "tracks width now kept ts \<Longrightarrow> now \<le> m \<Longrightarrow> tracks width m (filter (\<lambda>t. m - width \<le> t) kept) ts"
proof -
  assume t: "tracks width now kept ts" and m: "now \<le> m"
  have "filter (\<lambda>t. k - width \<le> t) (filter (\<lambda>t. m - width \<le> t) kept) = filter (\<lambda>t. k - width \<le> t) ts" if "m \<le> k" for k
  proof -
    have "filter (\<lambda>t. k - width \<le> t) (filter (\<lambda>t. m - width \<le> t) kept) = filter (\<lambda>t. k - width \<le> t) kept"
      using that by (auto intro!: filter_cong)
    also have "\<dots> = filter (\<lambda>t. k - width \<le> t) ts" using t m that by (simp add: tracks_def)
    finally show ?thesis .
  qed
  then show ?thesis by (simp add: tracks_def)
qed

lemma tracks_mono: "tracks width now kept ts \<Longrightarrow> now \<le> m \<Longrightarrow> tracks width m kept ts"
  by (simp add: tracks_def)

lemma tracks_append: "tracks width now kept ts \<Longrightarrow> tracks width now (kept @ [m]) (ts @ [m])"
  by (simp add: tracks_def)

lemmas window_lemmas = at_most_append tracks_later tracks_mono tracks_append

definition limiter_ok :: "settings \<Rightarrow> ai_settings \<Rightarrow> instant \<Rightarrow> instant \<Rightarrow> rate_limiter \<times> ai_call list \<Rightarrow> bool" where
  "limiter_ok st cfg mon wall = (\<lambda>(rl, granted).
     (\<forall>u. tracks (seconds 60) mon (rl_windows rl u) (tenant_clock u granted)
        \<and> at_most (ai_rate_limit_per_minute cfg) (seconds 60) (tenant_clock u granted))
     \<and> tracks (seconds 3600) wall (rl_global_hits rl) (wall_clock granted)
     \<and> at_most (reliability_ai_runaway_per_hour st) (seconds 3600) (wall_clock granted))"

lemma limiter_ok_step:
  assumes lim: "0 < ai_rate_limit_per_minute cfg" and ok: "limiter_ok st cfg m0 w0 (rl, granted)"
    and m: "m0 \<le> m" and w: "w0 \<le> w"
  shows "limiter_ok st cfg m w (limiter_step st cfg (m, w, u) (rl, granted))"
proof -
  define recent where "recent = filter (\<lambda>t. w - seconds 3600 \<le> t) (rl_global_hits rl)"
  define hits where "hits = filter (\<lambda>t. m - seconds 60 \<le> t) (rl_windows rl u)"
  have T: "tracks (seconds 60) m (rl_windows rl v) (tenant_clock v granted)"
    and A: "at_most (ai_rate_limit_per_minute cfg) (seconds 60) (tenant_clock v granted)" for v
    using ok m by (auto simp: limiter_ok_def intro: tracks_mono)
  have GA: "at_most (reliability_ai_runaway_per_hour st) (seconds 3600) (wall_clock granted)"
    and GT0: "tracks (seconds 3600) w0 (rl_global_hits rl) (wall_clock granted)"
    using ok by (simp_all add: limiter_ok_def)
  have GT: "tracks (seconds 3600) w recent (wall_clock granted)"
    unfolding recent_def by (rule tracks_later [OF GT0 w])
  have refused: "limiter_ok st cfg m w (rl\<lparr>rl_global_hits := recent\<rparr>, granted)"
    by (simp add: limiter_ok_def T A GT GA)
  have granting: "limiter_ok st cfg m w (\<lparr>rl_windows = (rl_windows rl)(u := hits @ [m]), rl_global_hits = recent @ [w]\<rparr>, granted @ [(m, w, u)])"
    if g: "int (length recent) < reliability_ai_runaway_per_hour st" and h: "int (length hits) < ai_rate_limit_per_minute cfg"
  proof -
    have "tracks (seconds 60) m (hits @ [m]) (tenant_clock u granted @ [m])"
      unfolding hits_def by (rule tracks_append [OF tracks_later [OF T order.refl]])
    moreover have "at_most (ai_rate_limit_per_minute cfg) (seconds 60) (tenant_clock u granted @ [m])"
      by (rule at_most_append [OF A T order.refl]) (use h in \<open>simp add: hits_def\<close>)
    moreover have "at_most (reliability_ai_runaway_per_hour st) (seconds 3600) (wall_clock granted @ [w])"
      by (rule at_most_append [OF GA GT0 w]) (use g in \<open>simp add: recent_def\<close>)
    ultimately show ?thesis
      using T A tracks_append [OF GT] by (auto simp: limiter_ok_def tenant_clock_def wall_clock_def)
  qed
  show ?thesis
    using lim refused granting
    by (auto simp: limiter_step_def check_tenant_rate_limit_def Let_def simp flip: recent_def hits_def)
qed

lemma limiter_ok_fold:
  assumes "0 < ai_rate_limit_per_minute cfg" and "limiter_ok st cfg m0 w0 s"
    and "sorted (m0 # map fst calls)" and "sorted (w0 # wall_clock calls)"
  shows "\<exists>m w. limiter_ok st cfg m w (fold (limiter_step st cfg) calls s)"
  using assms(2-)
proof (induction calls arbitrary: m0 w0 s)
  case Nil
  then show ?case by auto
next
  case (Cons c calls)
  obtain m w u where c: "c = (m, w, u)" by (metis prod_cases3)
  obtain rl g where s: "s = (rl, g)" by fastforce
  have "limiter_ok st cfg m w (limiter_step st cfg c s)"
    unfolding c s by (rule limiter_ok_step [OF assms(1)]) (use Cons.prems s c in \<open>auto simp: wall_clock_def\<close>)
  then show ?case using Cons.IH [of m w "limiter_step st cfg c s"] Cons.prems c by (simp add: wall_clock_def)
qed

end
