(* ===== verification/Ai_Validation.thy ===== *)
theory Ai_Validation
  imports Ai_Governance Semantics_Governance Sql_Queries
begin

text \<open>
  What an AI run is told and what its answer is worth: the context (\<open>app/ai/context.py\<close>), the grounding
  (\<open>app/ai/grounding/\<close>), the validation of the answer (\<open>app/ai/validation/insight_validator.py\<close>) and the cleaning of
  text that is remembered (\<open>app/ai/sanitization.py\<close>). The JSON parser, the text of a JSON value that is no string and
  the number in a text are the fields of the parameter \<open>json_lib\<close>; \<open>float\<close> stands for the decimal that prints it.
\<close>

section \<open>Context\<close>

record anomaly_dto =
  ad_type :: pystr
  ad_message :: pystr

record insight_dto =
  ix_report_id :: uuid
  ix_report_date :: date
  ix_total_revenue :: "decimal option"
  ix_anomalies :: "anomaly_dto list"

record ai_context =
  cx_semantics_version :: pystr
  cx_data_as_of :: instant
  cx_context_valid :: bool
  cx_invalid_reason :: "pystr option"
  cx_rebuild_pending :: int
  cx_rebuild_running :: int
  cx_insight_input :: "insight_dto option"
  cx_degraded_mode :: bool

definition rebuild_counts :: "uuid \<Rightarrow> requirement list \<Rightarrow> int \<times> int" where
  "rebuild_counts u t =
     (count_where (\<lambda>r. rq_user_id r = u \<and> rq_requires_rebuild r \<and> rq_status r \<in> {RB_PENDING, RB_QUEUED, RB_DEFERRED}) t,
      count_where (\<lambda>r. rq_user_id r = u \<and> rq_status r = RB_RUNNING) t)"

text \<open>The text of an exception, as far as the source uses it.\<close>

definition error_text :: "py_error \<Rightarrow> pystr" where
  "error_text e = (case e of
      ValueError m \<Rightarrow> m | KeyError m \<Rightarrow> 39 # m @ [39] | HTTPException n m \<Rightarrow> m | OtherException m \<Rightarrow> m
    | UnsupportedSemanticsVersionError v \<Rightarrow> asc ''Unsupported inventory semantics version: '' @ v
    | _ \<Rightarrow> [])"

definition context_problem :: "lifecycle_cache \<Rightarrow> pystr \<Rightarrow> pystr option" where
  "context_problem lifecycle version =
     (case get_lifecycle_record lifecycle version of
        Inl e \<Rightarrow> Some (error_text e)
      | Inr r \<Rightarrow>
          if \<not> lc_supported_for_rebuild r
          then Some (asc ''semantics '' @ version @ asc '' not supported for analytics context'')
          else (case assert_rebuild_allowed lifecycle version of Inl e \<Rightarrow> Some (error_text e) | Inr x \<Rightarrow> None))"

definition assemble_context ::
  "settings \<Rightarrow> ai_settings \<Rightarrow> instant \<Rightarrow> lifecycle_cache \<Rightarrow> requirement list \<Rightarrow> uuid \<Rightarrow> pystr \<Rightarrow> insight_dto option \<Rightarrow> ai_context" where
  "assemble_context st cfg now lifecycle requirements u version insight =
     (let problem = context_problem lifecycle version; (pending, running) = rebuild_counts u requirements;
          degraded = insight \<noteq> None \<and> (0 < running \<or> ai_stale_rebuild_pending_warn cfg < pending)
      in \<lparr>cx_semantics_version = version, cx_data_as_of = now, cx_context_valid = (problem = None),
          cx_invalid_reason = problem, cx_rebuild_pending = pending, cx_rebuild_running = running,
          cx_insight_input = (if problem = None then insight else None),
          cx_degraded_mode = (degraded \<or> \<not> ai_enabled st)\<rparr>)"

section \<open>Grounding\<close>

text \<open>A reference names its report and, after a colon, a part of it.\<close>

record evidence_ref =
  er_source_type :: pystr
  er_report_id :: uuid
  er_part :: "pystr option"
  er_label :: pystr
  er_period_start :: date
  er_period_end :: date

definition evidence_of :: "insight_dto \<Rightarrow> string \<Rightarrow> pystr option \<Rightarrow> pystr \<Rightarrow> evidence_ref" where
  "evidence_of ix kind part label = \<lparr>er_source_type = asc kind, er_report_id = ix_report_id ix, er_part = part,
     er_label = label, er_period_start = ix_report_date ix, er_period_end = ix_report_date ix\<rparr>"

definition retrieve_evidence :: "insight_dto option \<Rightarrow> evidence_ref list" where
  "retrieve_evidence insight = (case insight of
      None \<Rightarrow> []
    | Some ix \<Rightarrow> evidence_of ix ''report'' None (asc ''Primary report context'')
        # (if ix_total_revenue ix \<noteq> None
           then [evidence_of ix ''aggregated_metrics'' (Some (asc ''revenue'')) (asc ''Total revenue (deterministic DTO)'')] else [])
        @ map (\<lambda>a. evidence_of ix ''anomaly'' (Some (ad_type a)) (take 200 (ad_message a))) (ix_anomalies ix))"

definition period_from_evidence :: "evidence_ref list \<Rightarrow> (date \<times> date) option" where
  "period_from_evidence es = (if es = [] then None
     else Some (Min (set (map er_period_start es)), Max (set (map er_period_end es))))"

record grounded_context =
  gc_semantics_version :: pystr
  gc_data_as_of :: instant
  gc_source_period :: "(date \<times> date) option"
  gc_degraded_mode :: bool
  gc_rebuild_pending :: int
  gc_rebuild_running :: int
  gc_evidence :: "evidence_ref list"
  gc_total_revenue :: "decimal option"
  gc_anomaly_messages :: "pystr list"
  gc_freshness_note :: pystr

definition freshness_note :: "int \<Rightarrow> int \<Rightarrow> pystr" where
  "freshness_note pending running =
     (let parts = (if 0 < running then [asc ''rebuild in progress''] else [])
          @ (if 0 < pending then [show_int pending @ asc '' pending rebuild(s)''] else [])
      in if parts = [] then asc ''current'' else join (asc ''; '') parts)"

definition build_grounded_context :: "ai_context \<Rightarrow> grounded_context" where
  "build_grounded_context cx =
     (let es = retrieve_evidence (cx_insight_input cx)
      in \<lparr>gc_semantics_version = cx_semantics_version cx, gc_data_as_of = cx_data_as_of cx,
          gc_source_period = period_from_evidence es, gc_degraded_mode = cx_degraded_mode cx,
          gc_rebuild_pending = cx_rebuild_pending cx, gc_rebuild_running = cx_rebuild_running cx, gc_evidence = es,
          gc_total_revenue = Option.bind (cx_insight_input cx) ix_total_revenue,
          gc_anomaly_messages = (case cx_insight_input cx of None \<Rightarrow> [] | Some ix \<Rightarrow> map ad_message (ix_anomalies ix)),
          gc_freshness_note = freshness_note (cx_rebuild_pending cx) (cx_rebuild_running cx)\<rparr>)"

section \<open>The answer\<close>

datatype json = JNull | JBool bool | JNum rat | JStr pystr | JArr "json list" | JObj "(pystr \<times> json) list"

record json_lib =
  jl_loads :: "pystr \<Rightarrow> json option"
  jl_text :: "json \<Rightarrow> pystr"
  jl_number :: "pystr \<Rightarrow> rat option"

definition type_error :: py_error where
  "type_error = OtherException (asc ''TypeError'')"

definition json_truthy :: "json \<Rightarrow> bool" where
  "json_truthy v = (case v of JNull \<Rightarrow> False | JBool b \<Rightarrow> b | JNum x \<Rightarrow> x \<noteq> 0 | JStr s \<Rightarrow> s \<noteq> [] | JArr xs \<Rightarrow> xs \<noteq> [] | JObj d \<Rightarrow> d \<noteq> [])"

definition json_text :: "json_lib \<Rightarrow> json \<Rightarrow> pystr" where
  "json_text J v = (case v of JStr s \<Rightarrow> s | _ \<Rightarrow> jl_text J v)"

definition json_items :: "json \<Rightarrow> py_error + json list" where
  "json_items v = (case v of JArr xs \<Rightarrow> Inr xs | JStr s \<Rightarrow> Inr (map (\<lambda>c. JStr [c]) s)
     | JObj d \<Rightarrow> Inr (map (\<lambda>(k, x). JStr k) d) | _ \<Rightarrow> Inl type_error)"

definition json_float :: "json_lib \<Rightarrow> json \<Rightarrow> py_error + rat" where
  "json_float J v = (case v of
      JNum x \<Rightarrow> Inr x
    | JBool b \<Rightarrow> Inr (if b then 1 else 0)
    | JStr s \<Rightarrow> (case jl_number J s of None \<Rightarrow> Inl (ValueError (asc ''could not convert string to float'')) | Some x \<Rightarrow> Inr x)
    | _ \<Rightarrow> Inl type_error)"

definition parse_output :: "json_lib \<Rightarrow> pystr \<Rightarrow> (pystr \<times> json) list" where
  "parse_output J raw = (case jl_loads J raw of
      Some (JObj d) \<Rightarrow> d
    | _ \<Rightarrow> [(asc ''summary'', JStr (take 2000 raw)), (asc ''bullets'', JArr [])])"

text \<open>
  The matches of \<open>\b\d[\d\s,.]*\s*(?:\<dots>|rub|...)\b\<close> without case, the first alternative being the rouble sign: the
  characters between the first digit and the currency are those of the class, so the match takes all of them.
\<close>

definition is_digit_char :: "nat \<Rightarrow> bool" where
  "is_digit_char c \<longleftrightarrow> 48 \<le> c \<and> c \<le> 57"

definition is_word_char :: "nat \<Rightarrow> bool" where
  "is_word_char c \<longleftrightarrow> is_digit_char c \<or> c = 95 \<or> 65 \<le> c \<and> c \<le> 90 \<or> 97 \<le> c \<and> c \<le> 122 \<or> 1024 \<le> c \<and> c \<le> 1153 \<or> 1162 \<le> c \<and> c \<le> 1327"

definition amount_char :: "nat \<Rightarrow> bool" where
  "amount_char c \<longleftrightarrow> is_digit_char c \<or> is_space c \<or> c = 44 \<or> c = 46"

definition rouble_sign :: nat where
  "rouble_sign = 8381"

text \<open>The currency at the start of a text and what follows it, with a word boundary between them.\<close>

definition word_boundary :: "nat option \<Rightarrow> pystr \<Rightarrow> bool" where
  "word_boundary prev s \<longleftrightarrow>
     (case prev of None \<Rightarrow> False | Some c \<Rightarrow> is_word_char c) \<noteq> (case s of [] \<Rightarrow> False | c # _ \<Rightarrow> is_word_char c)"

definition currency_end :: "pystr \<Rightarrow> pystr option" where
  "currency_end s =
     (let follows = (\<lambda>c. starts_with c (lower s) \<and> word_boundary (Some (last c)) (drop (length c) s))
      in if follows [rouble_sign] then Some (drop 1 s)
         else if follows (asc ''rub'') then Some (drop 3 s)
         else if follows (ru ''rub'') then Some (drop 3 s)
         else None)"

text \<open>The text after a match that starts here.\<close>

definition claim_here :: "nat option \<Rightarrow> pystr \<Rightarrow> pystr option" where
  "claim_here prev s = (case s of
      [] \<Rightarrow> None
    | c # cs \<Rightarrow> if is_digit_char c \<and> word_boundary prev s then currency_end (dropWhile amount_char cs) else None)"

lemma currency_end_shorter: "currency_end s = Some t \<Longrightarrow> length t \<le> length s"
  by (auto simp: currency_end_def Let_def split: if_splits)

lemma claim_here_shorter: "claim_here prev (c # cs) = Some t \<Longrightarrow> length t < Suc (length cs)"
  using length_dropWhile_le [of amount_char cs]
  by (auto simp: claim_here_def dest!: currency_end_shorter split: if_splits)

function currency_claims :: "nat option \<Rightarrow> pystr \<Rightarrow> pystr list" where
  "currency_claims prev [] = []"
| "currency_claims prev (c # cs) = (case claim_here prev (c # cs) of
      None \<Rightarrow> currency_claims (Some c) cs
    | Some t \<Rightarrow> (let token = take (length (c # cs) - length t) (c # cs) in token # currency_claims (Some (last token)) t))"
  by pat_completeness auto
termination
  by (relation "measure (\<lambda>(p, s). length s)") (auto dest: claim_here_shorter)

record validated_insight =
  vi_title :: pystr
  vi_summary :: pystr
  vi_bullets :: "pystr list"
  vi_confidence :: decimal
  vi_degraded_mode :: bool
  vi_stale_data_warning :: bool
  vi_unsupported_claims :: "pystr list"
  vi_evidence_complete :: bool
  vi_workflow :: analytics_workflow
  vi_semantics_version :: pystr

definition cap :: "bool \<Rightarrow> rat \<Rightarrow> rat \<Rightarrow> rat" where
  "cap b limit x = (if b then min x limit else x)"

definition validate_insight_output :: "json_lib \<Rightarrow> analytics_workflow \<Rightarrow> grounded_context \<Rightarrow> pystr \<Rightarrow> py_error + validated_insight" where
  "validate_insight_output J w g raw =
     (let parsed = parse_output J raw;
          unsupported = (if gc_total_revenue g = None
            then map (\<lambda>token. asc ''numeric claim without revenue evidence: '' @ take 40 token) (currency_claims None raw) else []);
          stale = gc_degraded_mode g \<or> 0 < gc_rebuild_running g; complete = gc_evidence g \<noteq> []
      in sbind (json_items (dict_get parsed (asc ''bullets'') (JArr []))) (\<lambda>items.
         sbind (json_float J (dict_get parsed (asc ''confidence_hint'') (JNum (75 / 100)))) (\<lambda>hint.
         Inr \<lparr>vi_title = take 255 (json_text J (dict_get parsed (asc ''summary'') (JStr (asc ''Advisory insight'')))),
           vi_summary = take 4000 (json_text J (dict_get parsed (asc ''summary'') (JStr (take 2000 raw)))),
           vi_bullets = map (\<lambda>b. take 500 (json_text J b)) (filter json_truthy items),
           vi_confidence = cap (\<not> complete) (55 / 100) (cap (unsupported \<noteq> []) (1 / 2) (cap stale (6 / 10)
             (max (1 / 10) (min (95 / 100) hint)))),
           vi_degraded_mode = gc_degraded_mode g, vi_stale_data_warning = stale, vi_unsupported_claims = unsupported,
           vi_evidence_complete = complete, vi_workflow = w, vi_semantics_version = gc_semantics_version g\<rparr>)))"

section \<open>Cleaning\<close>

text \<open>The lengths of the matches of the three patterns at the start of a text, without case.\<close>

definition eat :: "pystr \<Rightarrow> pystr \<Rightarrow> pystr option" where
  "eat w s = (if starts_with w (lower s) then Some (drop (length w) s) else None)"

definition eat_spaces :: "pystr \<Rightarrow> pystr option" where
  "eat_spaces s = (case s of [] \<Rightarrow> None | c # _ \<Rightarrow> if is_space c then Some (dropWhile is_space s) else None)"

definition ignore_instructions :: "pystr \<Rightarrow> pystr option" where
  "ignore_instructions s =
     Option.bind (eat (asc ''ignore'') s) (\<lambda>a. Option.bind (eat_spaces a) (\<lambda>b.
       (let c = (case Option.bind (eat (asc ''all'') b) eat_spaces of Some r \<Rightarrow> r | None \<Rightarrow> b);
            d = (case eat (asc ''previous'') c of Some r \<Rightarrow> Some r | None \<Rightarrow> eat (asc ''prior'') c)
        in Option.bind d (\<lambda>e. Option.bind (eat_spaces e) (eat (asc ''instructions''))))))"

definition system_prefix :: "pystr \<Rightarrow> pystr option" where
  "system_prefix s = Option.bind (eat (asc ''system'') s) (\<lambda>a.
     map_option (dropWhile is_space) (eat [58] (dropWhile is_space a)))"

definition script_tag :: "pystr \<Rightarrow> pystr option" where
  "script_tag s = Option.bind (eat [60] s) (\<lambda>a.
     (let b = dropWhile is_space a; c = (case b of [] \<Rightarrow> b | x # xs \<Rightarrow> if x = 47 then xs else b)
      in eat (asc ''script'') (dropWhile is_space c)))"

text \<open>\<open>pattern.sub("[filtered]", text)\<close>; a match is never empty.\<close>

fun sub_filtered :: "(pystr \<Rightarrow> pystr option) \<Rightarrow> pystr \<Rightarrow> pystr" where
  "sub_filtered m [] = []"
| "sub_filtered m (c # cs) = (case m (c # cs) of
      None \<Rightarrow> c # sub_filtered m cs
    | Some t \<Rightarrow> asc ''[filtered]'' @ sub_filtered m (drop (length cs - length t) cs))"

definition sanitize_user_text :: "nat \<Rightarrow> pystr \<Rightarrow> pystr" where
  "sanitize_user_text max_length s =
     (let cleaned = take max_length (strip (filter (\<lambda>c. c \<noteq> 0) s))
      in sub_filtered script_tag (sub_filtered system_prefix (sub_filtered ignore_instructions cleaned)))"

section \<open>Laws\<close>

lemma context_invalid_no_insight: "context_problem lifecycle v \<noteq> None \<Longrightarrow>
    gc_evidence (build_grounded_context (assemble_context st cfg now lifecycle rs u v insight)) = []"
  by (cases "context_problem lifecycle v")
    (simp_all add: assemble_context_def build_grounded_context_def retrieve_evidence_def Let_def split: prod.splits)

lemma cap_bounds: "a \<le> x \<Longrightarrow> x \<le> b \<Longrightarrow> a \<le> limit \<Longrightarrow> a \<le> cap p limit x \<and> cap p limit x \<le> b"
  by (auto simp: cap_def min_def)

lemma cap_limit: "p \<Longrightarrow> cap p limit x \<le> limit"
  by (simp add: cap_def)

lemma cap_le: "cap p limit x \<le> x"
  by (simp add: cap_def)

end
