(* ===== verification/Ai_Providers.thy ===== *)
theory Ai_Providers
  imports Ai_Governance Runtime_Guards
begin

text \<open>
  Where an AI run gets its answer: the model of a role (\<open>app/ai/providers/model_router.py\<close>), the credentials of a
  provider (\<open>provider_profiles.py\<close>), the choice between the primary provider, the failover and the mock
  (\<open>failover.py\<close>), the health of providers (\<open>health.py\<close>), retries (\<open>retry.py\<close>) and the response cache
  (\<open>response_cache.py\<close>). The answers of a provider are data of the model.
\<close>

section \<open>Models\<close>

datatype model_role = ROLE_FAST | ROLE_REASONING | ROLE_CHEAP

definition reasoning_workflows :: "analytics_workflow list" where
  "reasoning_workflows = [WF_CAUSAL_ANALYSIS, WF_RISK_DETECTION, WF_RECOMMENDATION, WF_ANOMALY_EXPLANATION]"

definition role_for_workflow :: "analytics_workflow \<Rightarrow> bool \<Rightarrow> model_role" where
  "role_for_workflow w streaming = (if streaming then ROLE_FAST
     else if w \<in> set reasoning_workflows then ROLE_REASONING else ROLE_FAST)"

definition resolve_model :: "ai_settings \<Rightarrow> model_role option \<Rightarrow> analytics_workflow \<Rightarrow> bool \<Rightarrow> pystr \<times> model_role" where
  "resolve_model cfg role w streaming =
     (let r = (case role of Some r \<Rightarrow> r | None \<Rightarrow> role_for_workflow w streaming)
      in if r = ROLE_REASONING \<and> ai_reasoning_model cfg \<noteq> [] then (ai_reasoning_model cfg, r)
         else if r = ROLE_FAST \<and> ai_fast_model cfg \<noteq> [] then (ai_fast_model cfg, r)
         else if r = ROLE_CHEAP \<and> ai_cheap_model cfg \<noteq> [] then (ai_cheap_model cfg, r)
         else (or_text (Some (ai_openai_model cfg)) (asc ''gpt-4o-mini''), r))"

section \<open>Credentials\<close>

record provider_credentials =
  pc_provider_id :: pystr
  pc_base_url :: pystr
  pc_api_key :: pystr
  pc_default_model :: pystr

definition known_base_urls :: "(pystr \<times> pystr) list" where
  "known_base_urls = [(asc ''openai'', asc ''https://api.openai.com/v1''), (asc ''openrouter'', asc ''https://openrouter.ai/api/v1''),
     (asc ''deepseek'', asc ''https://api.deepseek.com''), (asc ''together'', asc ''https://api.together.xyz/v1''),
     (asc ''ollama'', asc ''http://localhost:11434/v1'')]"

definition rstrip_slashes :: "pystr \<Rightarrow> pystr" where
  "rstrip_slashes s = rev (dropWhile (\<lambda>c. c = 47) (rev s))"

text \<open>\<open>a or b\<close> of texts.\<close>

definition either_text :: "pystr \<Rightarrow> pystr \<Rightarrow> pystr" where
  "either_text a b = (if a = [] then b else a)"

definition resolve_named :: "ai_settings \<Rightarrow> pystr \<Rightarrow> bool \<Rightarrow> provider_credentials option" where
  "resolve_named cfg name primary =
     (let key = strip (lower name)
      in if key = [] \<or> key = asc ''mock'' then None
         else if key = asc ''openai_compatible'' then
           (let base = (if primary then ai_openai_base_url cfg else ai_failover_base_url cfg);
                api_key = (if primary then ai_openai_api_key cfg else ai_failover_api_key cfg);
                model = (if primary then ai_openai_model cfg else either_text (ai_failover_model cfg) (ai_openai_model cfg))
            in if base = [] \<or> api_key = [] then None
               else Some \<lparr>pc_provider_id = key, pc_base_url = rstrip_slashes base, pc_api_key = api_key, pc_default_model = model\<rparr>)
         else
           (let known = dict_get known_base_urls key [];
                base = (if primary then either_text (ai_openai_base_url cfg) known else either_text (ai_failover_base_url cfg) known);
                api_key = (if primary then ai_openai_api_key cfg else either_text (ai_failover_api_key cfg) (ai_openai_api_key cfg));
                model = (if primary then ai_openai_model cfg else either_text (ai_failover_model cfg) (ai_openai_model cfg))
            in if api_key = [] \<or> base = [] then None
               else Some \<lparr>pc_provider_id = key, pc_base_url = rstrip_slashes base, pc_api_key = api_key, pc_default_model = model\<rparr>))"

definition resolve_primary_credentials :: "ai_settings \<Rightarrow> provider_credentials option" where
  "resolve_primary_credentials cfg = resolve_named cfg (ai_provider cfg) True"

definition resolve_failover_credentials :: "ai_settings \<Rightarrow> provider_credentials option" where
  "resolve_failover_credentials cfg = (let name = strip (ai_failover_provider cfg)
     in if name = [] then None else resolve_named cfg name False)"

section \<open>Health\<close>

record provider_health =
  ph_healthy :: bool
  ph_consecutive_failures :: int
  ph_last_success_at :: "instant option"
  ph_last_failure_at :: "instant option"
  ph_last_error :: "pystr option"
  ph_failover_count :: int

type_synonym health_table = "(pystr \<times> provider_health) list"

definition fresh_health :: provider_health where
  "fresh_health = \<lparr>ph_healthy = True, ph_consecutive_failures = 0, ph_last_success_at = None, ph_last_failure_at = None,
     ph_last_error = None, ph_failover_count = 0\<rparr>"

definition update_health :: "pystr \<Rightarrow> (provider_health \<Rightarrow> provider_health) \<Rightarrow> health_table \<Rightarrow> health_table" where
  "update_health p f hs = AList.update p (f (dict_get hs p fresh_health)) hs"

definition health_success :: "instant \<Rightarrow> pystr \<Rightarrow> health_table \<Rightarrow> health_table" where
  "health_success now p = update_health p (\<lambda>s. s\<lparr>ph_healthy := True, ph_consecutive_failures := 0,
     ph_last_success_at := Some now, ph_last_error := None\<rparr>)"

definition health_failure :: "instant \<Rightarrow> pystr \<Rightarrow> pystr \<Rightarrow> health_table \<Rightarrow> health_table" where
  "health_failure now p err = update_health p (\<lambda>s. let n = ph_consecutive_failures s + 1 in
     s\<lparr>ph_consecutive_failures := n, ph_last_failure_at := Some now, ph_last_error := Some (take 500 err),
       ph_healthy := (if 3 \<le> n then False else ph_healthy s)\<rparr>)"

definition health_failover :: "pystr \<Rightarrow> pystr \<Rightarrow> health_table \<Rightarrow> health_table" where
  "health_failover from_p to_p hs =
     update_health to_p (\<lambda>s. s\<lparr>ph_failover_count := ph_failover_count s + 1\<rparr>) (update_health from_p (\<lambda>s. s) hs)"

section \<open>Choosing a provider\<close>

datatype llm_adapter = Mock_adapter | Http_adapter provider_credentials

record provider_resolution =
  re_adapter :: llm_adapter
  re_provider_id :: pystr
  re_model :: pystr
  re_used_failover :: bool
  re_degraded_to_mock :: bool
  re_credentials_source :: pystr

definition mock_resolution :: "bool \<Rightarrow> bool \<Rightarrow> pystr \<Rightarrow> provider_resolution" where
  "mock_resolution failover degraded source = \<lparr>re_adapter = Mock_adapter, re_provider_id = asc ''mock'', re_model = asc ''mock'',
     re_used_failover = failover, re_degraded_to_mock = degraded, re_credentials_source = source\<rparr>"

definition http_resolution :: "provider_credentials \<Rightarrow> pystr \<Rightarrow> bool \<Rightarrow> pystr \<Rightarrow> provider_resolution" where
  "http_resolution c model failover source = \<lparr>re_adapter = Http_adapter c, re_provider_id = pc_provider_id c,
     re_model = either_text model (pc_default_model c), re_used_failover = failover, re_degraded_to_mock = False,
     re_credentials_source = source\<rparr>"

definition ai_circuit :: pystr where
  "ai_circuit = asc ''ai_provider''"

text \<open>
  The breaker is asked first. Making an adapter stores its settings and raises nothing, so the branches for a failure
  there are not taken.
\<close>

definition resolve_llm_provider ::
  "settings \<Rightarrow> ai_settings \<Rightarrow> instant \<Rightarrow> pystr \<Rightarrow> breakers \<times> health_table \<Rightarrow> provider_resolution \<times> breakers \<times> health_table" where
  "resolve_llm_provider st cfg now model = (\<lambda>(bs, hs).
     (let (ok, bs1) = circuit_allow st now ai_circuit bs
      in if \<not> ok then (mock_resolution False True (asc ''circuit_open''), bs1, hs)
         else if lower (ai_provider cfg) = asc ''mock'' then (mock_resolution False False (asc ''configured_mock''), bs1, hs)
         else (case resolve_primary_credentials cfg of
             Some c \<Rightarrow> (http_resolution c model False (asc ''primary''), bs1, hs)
           | None \<Rightarrow>
               (case resolve_failover_credentials cfg of
                  Some c \<Rightarrow> (http_resolution c model True (asc ''failover''), bs1,
                     health_failover (lower (ai_provider cfg)) (pc_provider_id c) hs)
                | None \<Rightarrow> (mock_resolution False True (asc ''degraded_mock''), bs1, hs)))))"

definition get_llm_resolution ::
  "settings \<Rightarrow> ai_settings \<Rightarrow> instant \<Rightarrow> analytics_workflow \<Rightarrow> bool \<Rightarrow> breakers \<times> health_table
     \<Rightarrow> (provider_resolution \<times> model_role \<times> pystr) \<times> breakers \<times> health_table" where
  "get_llm_resolution st cfg now w streaming s =
     (let (model, role) = resolve_model cfg (Some (role_for_workflow w streaming)) w streaming;
          (res, s1) = resolve_llm_provider st cfg now model s
      in ((res, role, model), s1))"

definition mark_provider_success :: "settings \<Rightarrow> instant \<Rightarrow> pystr \<Rightarrow> breakers \<times> health_table \<Rightarrow> breakers \<times> health_table" where
  "mark_provider_success st now p = (\<lambda>(bs, hs). (circuit_success st ai_circuit bs, health_success now p hs))"

definition mark_provider_failure :: "settings \<Rightarrow> instant \<Rightarrow> pystr \<Rightarrow> pystr \<Rightarrow> breakers \<times> health_table \<Rightarrow> breakers \<times> health_table" where
  "mark_provider_failure st now p err = (\<lambda>(bs, hs). (circuit_failure st now ai_circuit bs, health_failure now p err hs))"

section \<open>Retries\<close>

record llm_response =
  lr_content :: pystr
  lr_model :: pystr
  lr_prompt_tokens :: int
  lr_completion_tokens :: int
  lr_provider :: pystr

text \<open>\<open>attempts = max(1, ai_max_retries + 1)\<close>; the outcomes of the calls, in order. No outcome is a failed call.\<close>

definition retry_attempts :: "ai_settings \<Rightarrow> nat" where
  "retry_attempts cfg = nat (max 1 (ai_max_retries cfg + 1))"

fun with_retry :: "nat \<Rightarrow> (py_error + 'a) list \<Rightarrow> 'a option" where
  "with_retry 0 outcomes = None"
| "with_retry (Suc n) [] = None"
| "with_retry (Suc n) (Inr x # outcomes) = Some x"
| "with_retry (Suc n) (Inl e # outcomes) = with_retry n outcomes"

definition with_provider_retry :: "ai_settings \<Rightarrow> (py_error + 'a) list \<Rightarrow> py_error + 'a" where
  "with_provider_retry cfg outcomes = (case with_retry (retry_attempts cfg) outcomes of
      Some x \<Rightarrow> Inr x
    | None \<Rightarrow> Inl (OtherException (asc ''llm.complete failed after '' @ show_nat (retry_attempts cfg) @ asc '' attempts'')))"

text \<open>The seconds between attempts: \<open>min(2 ** attempt * 0.25, 2.0)\<close>.\<close>

definition retry_pause :: "nat \<Rightarrow> rat" where
  "retry_pause attempt = min (2 ^ attempt / 4) 2"

section \<open>Response cache\<close>

type_synonym response_cache = "(pystr \<times> pystr \<times> instant) list"

definition cache_enabled :: "ai_settings \<Rightarrow> bool" where
  "cache_enabled cfg \<longleftrightarrow> ai_enable_response_cache cfg \<and> 0 < ai_cache_ttl_seconds cfg"

definition cache_get :: "ai_settings \<Rightarrow> instant \<Rightarrow> pystr \<Rightarrow> response_cache \<Rightarrow> pystr option \<times> response_cache" where
  "cache_get cfg now key cache =
     (if \<not> cache_enabled cfg then (None, cache)
      else (case map_of cache key of
          None \<Rightarrow> (None, cache)
        | Some (content, expires) \<Rightarrow> if expires < now then (None, AList.delete key cache) else (Some content, cache)))"

definition cache_set :: "ai_settings \<Rightarrow> instant \<Rightarrow> pystr \<Rightarrow> pystr \<Rightarrow> response_cache \<Rightarrow> response_cache" where
  "cache_set cfg now key content cache = (if \<not> cache_enabled cfg then cache
     else AList.update key (content, now + seconds (ai_cache_ttl_seconds cfg)) cache)"

section \<open>Laws\<close>

lemma cache_hit: "cache_enabled cfg \<Longrightarrow> later \<le> now + seconds (ai_cache_ttl_seconds cfg) \<Longrightarrow>
    cache_get cfg later key (cache_set cfg now key content cache) = (Some content, cache_set cfg now key content cache)"
  by (simp add: cache_get_def cache_set_def update_conv')

lemma with_retry_first: "with_retry n outcomes = Some x \<longleftrightarrow>
    (\<exists>k<n. k < length outcomes \<and> outcomes ! k = Inr x \<and> (\<forall>j<k. \<exists>e. outcomes ! j = Inl e))"
proof (induction n outcomes rule: with_retry.induct)
  case (3 n y outcomes)
  show ?case by (auto intro!: exI [of _ 0]) (metis Inl_Inr_False nat_neq_iff not_less_zero nth_Cons_0 Inr_inject)
next
  case (4 n e outcomes)
  have "(\<exists>k<Suc n. k < length (Inl e # outcomes) \<and> (Inl e # outcomes) ! k = Inr x \<and> (\<forall>j<k. \<exists>d. (Inl e # outcomes) ! j = Inl d))
      \<longleftrightarrow> (\<exists>k<n. k < length outcomes \<and> outcomes ! k = Inr x \<and> (\<forall>j<k. \<exists>d. outcomes ! j = Inl d))"
    (is "?l \<longleftrightarrow> ?r")
  proof
    assume ?l
    then obtain k where k: "k < Suc n" "k < length (Inl e # outcomes)" "(Inl e # outcomes) ! k = Inr x"
        "\<forall>j<k. \<exists>d. (Inl e # outcomes) ! j = Inl d" by blast
    then obtain i where i: "k = Suc i" by (cases k) auto
    have "\<exists>d. outcomes ! j = Inl d" if "j < i" for j using k(4) that i by (auto dest: spec [of _ "Suc j"])
    with k i show ?r by auto
  next
    assume ?r
    then obtain k where "k < n" "k < length outcomes" "outcomes ! k = Inr x" "\<forall>j<k. \<exists>d. outcomes ! j = Inl d" by blast
    then show ?l by (intro exI [of _ "Suc k"]) (auto simp: less_Suc_eq_0_disj)
  qed
  with 4 show ?case by simp
qed simp_all

text \<open>A model is always named, so the default model of the failover credentials is never the one that is used.\<close>

lemma resolved_model_named: "fst (resolve_model cfg role w streaming) \<noteq> []"
  by (simp add: resolve_model_def Let_def or_text_def asc_def)

lemma failover_model_unused:
  assumes "get_llm_resolution st cfg now w streaming s = ((res, role, model), s1)"
  shows "re_model res = model \<or> re_model res = asc ''mock''"
proof -
  obtain r where m: "resolve_model cfg (Some (role_for_workflow w streaming)) w streaming = (model, r)"
    using assms by (auto simp: get_llm_resolution_def split: prod.splits)
  then have "model \<noteq> []" using resolved_model_named [of cfg "Some (role_for_workflow w streaming)" w streaming] by simp
  moreover obtain s2 where "resolve_llm_provider st cfg now model s = (res, s2)"
    using assms m by (auto simp: get_llm_resolution_def split: prod.splits)
  ultimately show ?thesis
    by (auto simp: resolve_llm_provider_def mock_resolution_def http_resolution_def either_text_def
      split: prod.splits if_splits option.splits)
qed

text \<open>With credentials for the primary provider the failover is never used, however often the primary fails.\<close>

lemma failover_needs_missing_primary:
  "resolve_primary_credentials cfg \<noteq> None \<Longrightarrow> \<not> re_used_failover (fst (resolve_llm_provider st cfg now model s))"
  by (auto simp: resolve_llm_provider_def mock_resolution_def http_resolution_def split: prod.splits)

end
