(* ===== verification/Ai_Runs.thy ===== *)
theory Ai_Runs
  imports Ai_Validation Ai_Providers
begin

text \<open>
  An AI run from its request to its stored insight: the lifecycle of the run (\<open>app/ai/orchestration.py\<close>), the memory
  of a session (\<open>app/ai/memory/session.py\<close>) and the engine (\<open>app/ai/analytics/engine.py\<close>). Every operation on the
  tables is a transaction of its own. The answers of the provider, the key of the prompts in the cache, the elapsed
  time and the new identifiers are data of the environment. Rendering the prompts is not modelled.
\<close>

section \<open>State\<close>

datatype ai_run_status = AI_REQUESTED | AI_RUNNING | AI_SUCCEEDED | AI_FAILED | AI_CANCELLED | AI_DEGRADED

record ai_run =
  ar_id :: uuid
  ar_user_id :: uuid
  ar_agent :: agent_kind
  ar_status :: ai_run_status
  ar_prompt_id :: pystr
  ar_degraded_mode :: bool
  ar_token_budget :: int
  ar_tokens_used :: int
  ar_prompt_tokens :: "int option"
  ar_completion_tokens :: "int option"
  ar_estimated_cost :: "rat option"
  ar_provider_name :: "pystr option"
  ar_model_name :: "pystr option"
  ar_tool_call_count :: int
  ar_last_error :: "pystr option"
  ar_output_insight_id :: "uuid option"
  ar_created_at :: instant
  ar_completed_at :: "instant option"

record ai_insight =
  ain_id :: uuid
  ain_user_id :: uuid
  ain_run_id :: uuid
  ain_report_id :: "uuid option"
  ain_insight :: validated_insight

record session_turn =
  tu_user_id :: uuid
  tu_session_id :: uuid
  tu_run_id :: "uuid option"
  tu_role :: pystr
  tu_content :: pystr
  tu_token_estimate :: int
  tu_created_at :: instant

record ai_state =
  as_runs :: "ai_run list"
  as_insights :: "ai_insight list"
  as_turns :: "session_turn list"
  as_providers :: "breakers \<times> health_table"
  as_limiter :: rate_limiter
  as_cache :: response_cache

record stream_event =
  se_delta :: pystr
  se_prompt_tokens :: "int option"
  se_completion_tokens :: "int option"

record ai_env =
  ee_now :: instant
  ee_monotonic :: instant
  ee_elapsed_ms :: rat
  ee_run_id :: uuid
  ee_insight_id :: uuid
  ee_session_id :: uuid
  ee_cache_key :: pystr
  ee_outcomes :: "(py_error + llm_response) list"
  ee_stream :: "stream_event list \<times> py_error option"
  ee_queue_pending :: int
  ee_containment :: "containment_state list"
  ee_lifecycle :: lifecycle_cache
  ee_requirements :: "requirement list"
  ee_json :: json_lib

record ai_request =
  aq_workflow :: analytics_workflow
  aq_prompt_id :: pystr
  aq_semantics_version :: pystr
  aq_session_id :: "uuid option"
  aq_report_id :: "uuid option"

definition update_run :: "uuid \<Rightarrow> (ai_run \<Rightarrow> ai_run) \<Rightarrow> ai_state \<Rightarrow> ai_state" where
  "update_run rid f s = s\<lparr>as_runs := map (\<lambda>r. if ar_id r = rid then f r else r) (as_runs s)\<rparr>"

section \<open>Cost of the day\<close>

text \<open>\<open>func.date(created_at)\<close> of a UTC session.\<close>

definition day_of_instant :: "instant \<Rightarrow> int" where
  "day_of_instant t = t div seconds 86400"

definition spent_today :: "instant \<Rightarrow> uuid \<Rightarrow> ai_state \<Rightarrow> rat" where
  "spent_today now u s = (\<Sum>r\<leftarrow>filter (\<lambda>r. ar_user_id r = u \<and> day_of_instant (ar_created_at r) = day_of_instant now) (as_runs s).
     (case ar_estimated_cost r of None \<Rightarrow> 0 | Some x \<Rightarrow> x))"

definition assert_daily_cost_allowed :: "ai_settings \<Rightarrow> instant \<Rightarrow> uuid \<Rightarrow> ai_state \<Rightarrow> py_error + unit" where
  "assert_daily_cost_allowed cfg now u s =
     (if \<not> ai_enable_cost_tracking cfg \<or> ai_max_cost_per_day_usd cfg \<le> 0 then Inr ()
      else if ai_max_cost_per_day_usd cfg \<le> double (spent_today now u s)
      then Inl (policy_violation (asc ''daily AI cost cap reached'')) else Inr ())"

section \<open>Lifecycle of a run\<close>

definition new_run :: "ai_env \<Rightarrow> uuid \<Rightarrow> agent_kind \<Rightarrow> pystr \<Rightarrow> bool \<Rightarrow> ai_run" where
  "new_run env u agent pid degraded = \<lparr>ar_id = ee_run_id env, ar_user_id = u, ar_agent = agent,
     ar_status = (if degraded then AI_DEGRADED else AI_RUNNING), ar_prompt_id = pid,
     ar_degraded_mode = degraded, ar_token_budget = ap_token_budget (permissions_for agent),
     ar_tokens_used = 0, ar_prompt_tokens = None, ar_completion_tokens = None, ar_estimated_cost = None,
     ar_provider_name = None, ar_model_name = None, ar_tool_call_count = 0, ar_last_error = None,
     ar_output_insight_id = None, ar_created_at = ee_now env, ar_completed_at = None\<rparr>"

definition begin_run ::
  "settings \<Rightarrow> ai_settings \<Rightarrow> ai_env \<Rightarrow> uuid \<Rightarrow> agent_kind \<Rightarrow> pystr \<Rightarrow> insight_dto option \<Rightarrow> pystr \<Rightarrow> ai_state
     \<Rightarrow> py_error + (ai_context \<times> execution_trace) \<times> ai_state" where
  "begin_run st cfg env u agent prompt insight version s =
     (if \<not> ai_enabled st then Inl (policy_violation (asc ''AI layer disabled (AI_ENABLED=false)''))
      else sbind (assert_ai_action_allowed EXECUTE_AGENT (Some agent) None) (\<lambda>_.
        sbind (get_prompt_contract prompt) (\<lambda>(pid, version_of_prompt).
        (let cx = assemble_context st cfg (ee_now env) (ee_lifecycle env) (ee_requirements env) u version insight
         in if insight \<noteq> None \<and> \<not> cx_context_valid cx
            then Inl (policy_violation (or_text (cx_invalid_reason cx) (asc ''invalid AI context'')))
            else Inr ((cx, \<lparr>tr_agent = agent, tr_prompt_version = version_of_prompt, tr_tool_calls = [],
                       tr_runtime_events = [], tr_tokens_used = 0\<rparr>),
                   s\<lparr>as_runs := as_runs s @ [new_run env u agent pid (cx_degraded_mode cx)]\<rparr>)))))"

record run_outcome =
  ro_insight_id :: "uuid option"
  ro_provider_name :: pystr
  ro_model_name :: pystr
  ro_prompt_tokens :: int
  ro_completion_tokens :: int
  ro_estimated_cost :: "rat option"

text \<open>A cost that the column \<open>NUMERIC(12, 6)\<close> refuses ends the transaction.\<close>

definition stored_cost :: "rat option \<Rightarrow> py_error + rat option" where
  "stored_cost x = (case x of None \<Rightarrow> Inr None | Some c \<Rightarrow> sbind (db_numeric 12 6 c) (\<lambda>y. Inr (Some y)))"

definition complete_run ::
  "ai_settings \<Rightarrow> ai_env \<Rightarrow> uuid \<Rightarrow> int \<Rightarrow> run_outcome \<Rightarrow> execution_trace \<times> ai_state \<Rightarrow> (py_error + unit) \<times> execution_trace \<times> ai_state" where
  "complete_run cfg env rid tokens_used ro = (\<lambda>(tr, s).
     (let tr1 = add_tokens tokens_used tr
      in case sbind (assert_within_budget cfg (ee_elapsed_ms env) tr1) (\<lambda>_. stored_cost (ro_estimated_cost ro)) of
           Inl e \<Rightarrow> (Inl e, tr1, s)
         | Inr cost \<Rightarrow>
             if \<forall>r\<in>set (as_runs s). ar_id r \<noteq> rid then (Inl (policy_violation (asc ''run not found'')), tr1, s)
             else (Inr (), tr1, update_run rid (\<lambda>r. r\<lparr>
               ar_status := (if ar_degraded_mode r then AI_DEGRADED else AI_SUCCEEDED), ar_tokens_used := tr_tokens_used tr1,
               ar_provider_name := Some (ro_provider_name ro), ar_model_name := Some (ro_model_name ro),
               ar_prompt_tokens := Some (ro_prompt_tokens ro), ar_completion_tokens := Some (ro_completion_tokens ro),
               ar_estimated_cost := cost, ar_tool_call_count := int (length (tr_tool_calls tr1)),
               ar_output_insight_id := ro_insight_id ro, ar_completed_at := Some (ee_now env)\<rparr>) s)))"

definition fail_run :: "ai_env \<Rightarrow> uuid \<Rightarrow> execution_trace \<Rightarrow> pystr \<Rightarrow> ai_state \<Rightarrow> ai_state" where
  "fail_run env rid tr err s = update_run rid (\<lambda>r. r\<lparr>ar_status := AI_FAILED, ar_last_error := Some (take 4000 err),
     ar_tokens_used := tr_tokens_used tr, ar_tool_call_count := int (length (tr_tool_calls tr)),
     ar_completed_at := Some (ee_now env)\<rparr>) s"

section \<open>Memory of a session\<close>

definition turns_of :: "uuid \<Rightarrow> uuid \<Rightarrow> session_turn list \<Rightarrow> session_turn list" where
  "turns_of u sid turns = filter (\<lambda>t. tu_user_id t = u \<and> tu_session_id t = sid) turns"

definition load_recent :: "ai_settings \<Rightarrow> uuid \<Rightarrow> uuid \<Rightarrow> ai_state \<Rightarrow> (pystr \<times> pystr) list" where
  "load_recent cfg u sid s = map (\<lambda>t. (tu_role t, tu_content t))
     (rev (take (ai_memory_max_turns cfg) (sorted_desc tu_created_at (turns_of u sid (as_turns s)))))"

text \<open>The first turns of a session, in the order of their creation, are deleted until \<open>max_turns\<close> are left.\<close>

fun delete_oldest :: "nat \<Rightarrow> uuid \<Rightarrow> uuid \<Rightarrow> session_turn list \<Rightarrow> session_turn list" where
  "delete_oldest 0 u sid turns = turns"
| "delete_oldest (Suc n) u sid turns =
     (case sort_key tu_created_at (turns_of u sid turns) of
        [] \<Rightarrow> turns
      | t # _ \<Rightarrow> delete_oldest n u sid (remove1 t turns))"

definition trim_old_turns :: "ai_settings \<Rightarrow> uuid \<Rightarrow> uuid \<Rightarrow> session_turn list \<Rightarrow> session_turn list" where
  "trim_old_turns cfg u sid turns = delete_oldest (length (turns_of u sid turns) - ai_memory_max_turns cfg) u sid turns"

definition append_turn :: "ai_settings \<Rightarrow> instant \<Rightarrow> uuid \<Rightarrow> uuid \<Rightarrow> pystr \<Rightarrow> pystr \<Rightarrow> uuid option \<Rightarrow> ai_state \<Rightarrow> ai_state" where
  "append_turn cfg now u sid role content rid s =
     (let sanitized = sanitize_user_text 2000 content;
          turn = \<lparr>tu_user_id = u, tu_session_id = sid, tu_run_id = rid, tu_role = take 16 role, tu_content = sanitized,
            tu_token_estimate = max 1 (int (length sanitized) div 4), tu_created_at = now\<rparr>
      in s\<lparr>as_turns := trim_old_turns cfg u sid (as_turns s @ [turn])\<rparr>)"

section \<open>The engine\<close>

definition assert_ai_runtime_allowed :: "settings \<Rightarrow> ai_env \<Rightarrow> uuid \<Rightarrow> py_error + unit" where
  "assert_ai_runtime_allowed st env u =
     (if \<not> ks_allowed (kill_switch_check st AI_EXECUTION)
      then Inl (policy_violation (ks_reason (kill_switch_check st AI_EXECUTION)))
      else if ai_paused_for_overload st (ee_queue_pending env)
      then Inl (policy_violation (asc ''AI paused while platform queue overloaded''))
      else (let g = guard_check (ee_now env) u (ee_containment env)
            in if \<not> tg_allowed g then Inl (policy_violation (asc ''tenant contained: '' @ tg_reason g)) else Inr ()))"

definition persist_advisory_insight ::
  "ai_env \<Rightarrow> uuid \<Rightarrow> agent_kind \<Rightarrow> uuid option \<Rightarrow> validated_insight \<Rightarrow> ai_state \<Rightarrow> uuid option \<times> ai_state" where
  "persist_advisory_insight env u agent report v s =
     (if \<not> ap_may_persist_insight (permissions_for agent) then (None, s)
      else (Some (ee_insight_id env), s\<lparr>as_insights := as_insights s @ [\<lparr>ain_id = ee_insight_id env, ain_user_id = u,
        ain_run_id = ee_run_id env, ain_report_id = report, ain_insight = v\<rparr>]\<rparr>))"

text \<open>The answer: from the cache without tokens, or from the provider with retries.\<close>

definition obtain_answer ::
  "settings \<Rightarrow> ai_settings \<Rightarrow> ai_env \<Rightarrow> provider_resolution \<Rightarrow> pystr \<Rightarrow> ai_state \<Rightarrow> (py_error + llm_response) \<times> ai_state" where
  "obtain_answer st cfg env res model s =
     (let (cached, cache1) = cache_get cfg (ee_now env) (ee_cache_key env) (as_cache s); s1 = s\<lparr>as_cache := cache1\<rparr>
      in if opt_text cached \<noteq> []
         then (Inr \<lparr>lr_content = opt_text cached, lr_model = model, lr_prompt_tokens = 0, lr_completion_tokens = 0,
           lr_provider = re_provider_id res\<rparr>, s1)
         else (case with_provider_retry cfg (ee_outcomes env) of
             Inl e \<Rightarrow> (Inl e, s1)
           | Inr r \<Rightarrow> (Inr r, s1\<lparr>as_cache := cache_set cfg (ee_now env) (ee_cache_key env) (lr_content r) (as_cache s1),
               as_providers := mark_provider_success st (ee_now env) (re_provider_id res) (as_providers s1)\<rparr>)))"

text \<open>The body of the \<open>try\<close>: the trace and the state hold what was done when an exception ended it.\<close>

definition run_body ::
  "settings \<Rightarrow> ai_settings \<Rightarrow> ai_env \<Rightarrow> uuid \<Rightarrow> ai_request \<Rightarrow> grounded_context \<Rightarrow> provider_resolution \<Rightarrow> pystr \<Rightarrow> execution_trace
     \<Rightarrow> ai_state \<Rightarrow> (py_error + validated_insight \<times> uuid option) \<times> execution_trace \<times> ai_state" where
  "run_body st cfg env u req g res model tr s =
     (case obtain_answer st cfg env res model s of
        (Inl e, s1) \<Rightarrow> (Inl e, tr, s1)
      | (Inr a, s1) \<Rightarrow>
          (let tr1 = add_tokens (lr_prompt_tokens a + lr_completion_tokens a) tr;
               cost = estimate_cost_usd (lr_model a) (lr_prompt_tokens a) (lr_completion_tokens a)
           in case sbind (assert_run_cost_allowed cfg cost) (\<lambda>_.
                     validate_insight_output (ee_json env) (aq_workflow req) g (lr_content a)) of
                Inl e \<Rightarrow> (Inl e, tr1, s1)
              | Inr v \<Rightarrow>
                  (let (iid, s2) = persist_advisory_insight env u (tr_agent tr1) (aq_report_id req) v s1;
                       sid = (case aq_session_id req of None \<Rightarrow> ee_session_id env | Some i \<Rightarrow> i);
                       s3 = append_turn cfg (ee_now env) u sid (asc ''assistant'') (vi_summary v) (Some (ee_run_id env)) s2
                   in case (if iid \<noteq> None then invoke_tool WRITE_AI_INSIGHT_DRAFT tr1 else Inr tr1) of
                        Inl e \<Rightarrow> (Inl e, tr1, s3)
                      | Inr tr2 \<Rightarrow>
                          (case complete_run cfg env (ee_run_id env) (tr_tokens_used tr2)
                                \<lparr>ro_insight_id = iid, ro_provider_name = lr_provider a, ro_model_name = lr_model a,
                                 ro_prompt_tokens = lr_prompt_tokens a, ro_completion_tokens = lr_completion_tokens a,
                                 ro_estimated_cost = cost\<rparr> (tr2, s3) of
                             (Inl e, tr3, s4) \<Rightarrow> (Inl e, tr3, s4)
                           | (Inr x, tr3, s4) \<Rightarrow> (Inr (v, iid), tr3, s4)))))"

text \<open>What comes before the \<open>try\<close>, once the row of the run is stored.\<close>

definition prepare_run ::
  "settings \<Rightarrow> ai_settings \<Rightarrow> ai_env \<Rightarrow> uuid \<Rightarrow> ai_request \<Rightarrow> execution_trace \<Rightarrow> ai_state
     \<Rightarrow> (py_error + provider_resolution \<times> pystr \<times> execution_trace) \<times> ai_state" where
  "prepare_run st cfg env u req tr s =
     (case sbind (invoke_tool READ_ANALYTICS_DTO tr) (\<lambda>tr1. sbind (assert_daily_cost_allowed cfg (ee_now env) u s) (\<lambda>_. Inr tr1)) of
        Inl e \<Rightarrow> (Inl e, s)
      | Inr tr1 \<Rightarrow>
          (let ((res, role, model), ps) = get_llm_resolution st cfg (ee_now env) (aq_workflow req) False (as_providers s);
               s1 = s\<lparr>as_providers := ps\<rparr>
           in case (if ai_prompt_runtime_version cfg = asc ''v3''
                    then sbind (resolve_for_workflow (aq_workflow req)) (\<lambda>c. Inr (tr1\<lparr>tr_prompt_version := p3_version c\<rparr>))
                    else Inr tr1) of
                Inl e \<Rightarrow> (Inl e, s1)
              | Inr tr2 \<Rightarrow> (Inr (res, model, record_runtime_event (asc ''provider_resolved'')
                  (record_runtime_event (asc ''prompt_rendered'') tr2)), s1)))"

text \<open>The run once its row is stored: the \<open>try\<close> and its handler come after the preparation.\<close>

definition run_begun ::
  "settings \<Rightarrow> ai_settings \<Rightarrow> ai_env \<Rightarrow> uuid \<Rightarrow> ai_request \<Rightarrow> ai_context \<Rightarrow> execution_trace \<Rightarrow> ai_state
     \<Rightarrow> (py_error + uuid \<times> validated_insight \<times> uuid option) \<times> ai_state" where
  "run_begun st cfg env u req cx tr s =
     (case prepare_run st cfg env u req tr s of
        (Inl e, s1) \<Rightarrow> (Inl e, s1)
      | (Inr (res, model, tr1), s1) \<Rightarrow>
          (case run_body st cfg env u req (build_grounded_context cx) res model tr1 s1 of
             (Inr (v, iid), tr2, s2) \<Rightarrow> (Inr (ee_run_id env, v, iid), s2)
           | (Inl e, tr2, s2) \<Rightarrow>
               (Inl e, fail_run env (ee_run_id env) tr2 (error_text e)
                 (s2\<lparr>as_providers := mark_provider_failure st (ee_now env) (re_provider_id res) (error_text e)
                    (as_providers s2)\<rparr>))))"

definition execute_run ::
  "settings \<Rightarrow> ai_settings \<Rightarrow> ai_env \<Rightarrow> uuid \<Rightarrow> ai_request \<Rightarrow> insight_dto option \<Rightarrow> ai_state
     \<Rightarrow> (py_error + uuid \<times> validated_insight \<times> uuid option) \<times> ai_state" where
  "execute_run st cfg env u req insight s =
     (case assert_ai_runtime_allowed st env u of
        Inl e \<Rightarrow> (Inl e, s)
      | Inr x \<Rightarrow>
      (case check_tenant_rate_limit st cfg (ee_monotonic env) (ee_now env) u (as_limiter s) of
        (Inl e, rl) \<Rightarrow> (Inl e, s\<lparr>as_limiter := rl\<rparr>)
      | (Inr x, rl) \<Rightarrow>
          (let s1 = s\<lparr>as_limiter := rl\<rparr>; (agent, prompt) = spec_for (aq_workflow req)
           in if aq_prompt_id req \<noteq> prompt
              then (Inl (policy_violation (asc ''prompt_id does not match workflow specification'')), s1)
              else (case sbind (assert_agent_enabled cfg agent) (\<lambda>_.
                      begin_run st cfg env u agent prompt insight (aq_semantics_version req) s1) of
                  Inl e \<Rightarrow> (Inl e, s1)
                | Inr ((cx, tr), s2) \<Rightarrow>
                    run_begun st cfg env u req cx tr s2))))"


section \<open>Streaming\<close>

text \<open>\<open>if evt.prompt_tokens is not None: ...\<close>: the last count that the events carry.\<close>

definition last_count :: "(stream_event \<Rightarrow> int option) \<Rightarrow> stream_event list \<Rightarrow> int" where
  "last_count f es = (case List.map_filter f es of [] \<Rightarrow> 0 | xs \<Rightarrow> last xs)"

text \<open>
  The deltas that are sent on, and the answer. The mock has no stream: its answer is one delta. The provider streams
  events until an exception, if any.
\<close>

definition stream_answer :: "ai_env \<Rightarrow> provider_resolution \<Rightarrow> pystr \<Rightarrow> pystr list \<times> (py_error + llm_response)" where
  "stream_answer env res model =
     (case re_adapter res of
        Mock_adapter \<Rightarrow>
          (case ee_outcomes env of
             Inr r # _ \<Rightarrow> ([lr_content r], Inr (r\<lparr>lr_model := model, lr_provider := asc ''mock''\<rparr>))
           | Inl e # _ \<Rightarrow> ([], Inl e)
           | [] \<Rightarrow> ([], Inl (OtherException (asc ''no answer''))))
      | Http_adapter c \<Rightarrow>
          (let es = fst (ee_stream env); deltas = filter (\<lambda>d. d \<noteq> []) (map se_delta es)
           in (deltas, case snd (ee_stream env) of
                Some e \<Rightarrow> Inl e
              | None \<Rightarrow> Inr \<lparr>lr_content = concat deltas, lr_model = model, lr_prompt_tokens = last_count se_prompt_tokens es,
                  lr_completion_tokens = last_count se_completion_tokens es, lr_provider = pc_provider_id c\<rparr>)))"

definition stream_body ::
  "settings \<Rightarrow> ai_settings \<Rightarrow> ai_env \<Rightarrow> uuid \<Rightarrow> ai_request \<Rightarrow> grounded_context \<Rightarrow> provider_resolution \<Rightarrow> pystr \<Rightarrow> execution_trace
     \<Rightarrow> ai_state \<Rightarrow> pystr list \<times> (py_error + validated_insight \<times> uuid option) \<times> execution_trace \<times> ai_state" where
  "stream_body st cfg env u req g res model tr s =
     (case stream_answer env res model of
        (ds, Inl e) \<Rightarrow> (ds, Inl e, tr, s)
      | (ds, Inr a) \<Rightarrow>
          (let tr1 = add_tokens (lr_prompt_tokens a + lr_completion_tokens a) tr;
               cost = estimate_cost_usd model (lr_prompt_tokens a) (lr_completion_tokens a)
           in case validate_insight_output (ee_json env) (aq_workflow req) g (lr_content a) of
                Inl e \<Rightarrow> (ds, Inl e, tr1, s)
              | Inr v \<Rightarrow>
                  (let (iid, s2) = persist_advisory_insight env u (tr_agent tr1) (aq_report_id req) v s;
                       sid = (case aq_session_id req of None \<Rightarrow> ee_session_id env | Some i \<Rightarrow> i);
                       s3 = append_turn cfg (ee_now env) u sid (asc ''assistant'') (vi_summary v) (Some (ee_run_id env)) s2
                   in case (if iid \<noteq> None then invoke_tool WRITE_AI_INSIGHT_DRAFT tr1 else Inr tr1) of
                        Inl e \<Rightarrow> (ds, Inl e, tr1, s3)
                      | Inr tr2 \<Rightarrow>
                          (case assert_run_cost_allowed cfg cost of
                             Inl e \<Rightarrow> (ds, Inl e, tr2, s3)
                           | Inr x \<Rightarrow>
                               (let s4 = s3\<lparr>as_providers := mark_provider_success st (ee_now env) (re_provider_id res) (as_providers s3)\<rparr>
                                in case complete_run cfg env (ee_run_id env) (tr_tokens_used tr2)
                                    \<lparr>ro_insight_id = iid, ro_provider_name = lr_provider a, ro_model_name = model,
                                     ro_prompt_tokens = lr_prompt_tokens a, ro_completion_tokens = lr_completion_tokens a,
                                     ro_estimated_cost = cost\<rparr> (tr2, s4) of
                                     (Inl e, tr3, s5) \<Rightarrow> (ds, Inl e, tr3, s5)
                                   | (Inr y, tr3, s5) \<Rightarrow> (ds, Inr (v, iid), tr3, s5))))))"

text \<open>Before the \<open>try\<close> of the stream: streaming is refused after the row of the run is stored; no v3 contract is resolved.\<close>

definition prepare_stream ::
  "settings \<Rightarrow> ai_settings \<Rightarrow> ai_env \<Rightarrow> uuid \<Rightarrow> ai_request \<Rightarrow> execution_trace \<Rightarrow> ai_state
     \<Rightarrow> (py_error + provider_resolution \<times> pystr \<times> execution_trace) \<times> ai_state" where
  "prepare_stream st cfg env u req tr s =
     (if \<not> ai_enable_streaming cfg then (Inl (policy_violation (asc ''streaming disabled (AI_ENABLE_STREAMING=false)'')), s)
      else (case sbind (invoke_tool READ_ANALYTICS_DTO tr) (\<lambda>tr1. sbind (assert_daily_cost_allowed cfg (ee_now env) u s) (\<lambda>_. Inr tr1)) of
        Inl e \<Rightarrow> (Inl e, s)
      | Inr tr1 \<Rightarrow>
          (let ((res, role, model), ps) = get_llm_resolution st cfg (ee_now env) (aq_workflow req) True (as_providers s)
           in (Inr (res, model, tr1), s\<lparr>as_providers := ps\<rparr>))))"

text \<open>\<open>execute_stream\<close> consumed to its end.\<close>

definition execute_stream ::
  "settings \<Rightarrow> ai_settings \<Rightarrow> ai_env \<Rightarrow> uuid \<Rightarrow> ai_request \<Rightarrow> insight_dto option \<Rightarrow> ai_state
     \<Rightarrow> pystr list \<times> (py_error + uuid \<times> validated_insight \<times> uuid option) \<times> ai_state" where
  "execute_stream st cfg env u req insight s =
     (case assert_ai_runtime_allowed st env u of
        Inl e \<Rightarrow> ([], Inl e, s)
      | Inr x \<Rightarrow>
      (case check_tenant_rate_limit st cfg (ee_monotonic env) (ee_now env) u (as_limiter s) of
        (Inl e, rl) \<Rightarrow> ([], Inl e, s\<lparr>as_limiter := rl\<rparr>)
      | (Inr x, rl) \<Rightarrow>
          (let s1 = s\<lparr>as_limiter := rl\<rparr>; (agent, prompt) = spec_for (aq_workflow req)
           in if aq_prompt_id req \<noteq> prompt
              then ([], Inl (policy_violation (asc ''prompt_id does not match workflow specification'')), s1)
              else (case sbind (assert_agent_enabled cfg agent) (\<lambda>_.
                      begin_run st cfg env u agent prompt insight (aq_semantics_version req) s1) of
                  Inl e \<Rightarrow> ([], Inl e, s1)
                | Inr ((cx, tr), s2) \<Rightarrow>
                    (case prepare_stream st cfg env u req tr s2 of
                       (Inl e, s3) \<Rightarrow> ([], Inl e, s3)
                     | (Inr (res, model, tr1), s3) \<Rightarrow>
                         (case stream_body st cfg env u req (build_grounded_context cx) res model tr1 s3 of
                            (ds, Inr (v, iid), tr2, s4) \<Rightarrow> (ds, Inr (ee_run_id env, v, iid), s4)
                          | (ds, Inl e, tr2, s4) \<Rightarrow>
                              (ds, Inl e, fail_run env (ee_run_id env) tr2 (error_text e)
                                (s4\<lparr>as_providers := mark_provider_failure st (ee_now env) (re_provider_id res) (error_text e)
                                   (as_providers s4)\<rparr>))))))))"

end
