(* ===== verification/Ai_Properties.thy ===== *)
theory Ai_Properties
  imports Ai_Runs
begin

text \<open>
  What holds of AI runs: the bounds on granted runs, how a run ends and what it leaves, the confidence of an answer, and
  the claims the validation misses.
\<close>

section \<open>Granted runs\<close>

text \<open>
  C24. While the clocks do not run backwards, a tenant is granted at most the configured number of runs in any minute
  and the platform at most its number in any hour.
\<close>

theorem ai_calls_bounded:
  assumes "0 < ai_rate_limit_per_minute cfg" and "0 \<le> reliability_ai_runaway_per_hour st"
    and "sorted (map fst calls)" and "sorted (wall_clock calls)"
  shows "int (length (filter (\<lambda>t. a \<le> t \<and> t \<le> a + seconds 60) (tenant_clock u (granted_calls st cfg calls))))
           \<le> ai_rate_limit_per_minute cfg
       \<and> int (length (filter (\<lambda>t. b \<le> t \<and> t \<le> b + seconds 3600) (wall_clock (granted_calls st cfg calls))))
           \<le> reliability_ai_runaway_per_hour st"
proof -
  have "limiter_ok st cfg m w (new_limiter, [])" for m w
    using assms(1,2) by (simp add: limiter_ok_def new_limiter_def tracks_def at_most_def tenant_clock_def wall_clock_def)
  then have start: "limiter_ok st cfg (hd (map fst calls @ [0])) (hd (wall_clock calls @ [0])) (new_limiter, [])" .
  obtain rl g where g: "fold (limiter_step st cfg) calls (new_limiter, []) = (rl, g)" by fastforce
  have "\<exists>m w. limiter_ok st cfg m w (fold (limiter_step st cfg) calls (new_limiter, []))"
    by (rule limiter_ok_fold [OF assms(1) start])
      (use assms(3,4) in \<open>cases calls; auto simp: wall_clock_def\<close>)+
  then show ?thesis
    by (auto simp: limiter_ok_def granted_calls_def at_most_def g)
qed

lemma ai_calls_bounded_witness:
  "let cfg = default_ai_settings\<lparr>ai_rate_limit_per_minute := 1\<rparr>; calls = [(0, 0, 7), (5, 5, 7), (70000000, 70000000, 7)]
   in granted_calls default_settings cfg calls = [(0, 0, 7), (70000000, 70000000, 7)]
      \<and> int (length (filter (\<lambda>t. 1 \<le> t \<and> t \<le> 1 + seconds 60) (tenant_clock 7 (granted_calls default_settings cfg calls)))) \<le> 1"
proof -
  define cfg where "cfg = default_ai_settings\<lparr>ai_rate_limit_per_minute := 1\<rparr>"
  define calls where "calls = [(0 :: int, 0 :: int, 7 :: nat), (5, 5, 7), (70000000, 70000000, 7)]"
  have g: "granted_calls default_settings cfg calls = [(0, 0, 7), (70000000, 70000000, 7)]"
    by (simp add: granted_calls_def calls_def limiter_step_def check_tenant_rate_limit_def new_limiter_def cfg_def
      default_settings_def default_ai_settings_def seconds_def Let_def)
  have lim: "ai_rate_limit_per_minute cfg = 1" by (simp add: cfg_def)
  have "int (length (filter (\<lambda>t. 1 \<le> t \<and> t \<le> 1 + seconds 60) (tenant_clock 7 (granted_calls default_settings cfg calls)))) \<le> 1"
    using ai_calls_bounded [of cfg default_settings calls 1 7 0]
    by (simp add: lim calls_def wall_clock_def default_settings_def)
  with g show ?thesis unfolding Let_def by (fold cfg_def) (fold calls_def, simp)
qed

section \<open>Confidence\<close>

text \<open>
  C32. The confidence of an answer lies between 0.1 and 0.95, and is at most 0.6 on stale data, 0.5 with an unsupported
  claim and 0.55 without evidence.
\<close>

theorem confidence_bounded:
  assumes "validate_insight_output J w g raw = Inr v"
  shows "1 / 10 \<le> vi_confidence v \<and> vi_confidence v \<le> 95 / 100
    \<and> (vi_stale_data_warning v \<longrightarrow> vi_confidence v \<le> 6 / 10)
    \<and> (vi_unsupported_claims v \<noteq> [] \<longrightarrow> vi_confidence v \<le> 1 / 2)
    \<and> (gc_evidence g = [] \<longrightarrow> vi_confidence v \<le> 55 / 100)"
proof -
  obtain hint where c: "vi_confidence v = cap (gc_evidence g = []) (55 / 100) (cap (vi_unsupported_claims v \<noteq> []) (1 / 2)
      (cap (vi_stale_data_warning v) (6 / 10) (max (1 / 10) (min (95 / 100) hint))))"
    using assms by (auto simp: validate_insight_output_def Let_def sbind_Inr_iff)
  define x where "x = max (1 / 10) (min (95 / 100) hint)"
  define y where "y = cap (vi_stale_data_warning v) (6 / 10) x"
  define z where "z = cap (vi_unsupported_claims v \<noteq> []) (1 / 2) y"
  have x: "1 / 10 \<le> x \<and> x \<le> 95 / 100" by (simp add: x_def)
  have y: "1 / 10 \<le> y \<and> y \<le> 95 / 100" "y \<le> x" unfolding y_def by (rule cap_bounds) (use x in \<open>simp_all add: cap_le\<close>)
  have z: "1 / 10 \<le> z \<and> z \<le> 95 / 100" "z \<le> y" unfolding z_def by (rule cap_bounds) (use y in \<open>simp_all add: cap_le\<close>)
  have v: "vi_confidence v = cap (gc_evidence g = []) (55 / 100) z" by (simp add: c x_def y_def z_def)
  have "1 / 10 \<le> vi_confidence v \<and> vi_confidence v \<le> 95 / 100" "vi_confidence v \<le> z"
    unfolding v by (rule cap_bounds) (use z in \<open>simp_all add: cap_le\<close>)
  moreover have "vi_stale_data_warning v \<longrightarrow> y \<le> 6 / 10" unfolding y_def using cap_limit by blast
  moreover have "vi_unsupported_claims v \<noteq> [] \<longrightarrow> z \<le> 1 / 2" unfolding z_def using cap_limit by blast
  moreover have "gc_evidence g = [] \<longrightarrow> vi_confidence v \<le> 55 / 100" unfolding v using cap_limit by blast
  ultimately show ?thesis using z(2) by auto
qed

lemma confidence_bounded_witness:
  "let J = \<lparr>jl_loads = (\<lambda>s. Some (JObj [(asc ''confidence_hint'', JNum 2)])), jl_text = (\<lambda>v. []), jl_number = (\<lambda>s. None)\<rparr>;
       g = \<lparr>gc_semantics_version = [], gc_data_as_of = 0, gc_source_period = None, gc_degraded_mode = True,
         gc_rebuild_pending = 0, gc_rebuild_running = 0, gc_evidence = [], gc_total_revenue = Some 1,
         gc_anomaly_messages = [], gc_freshness_note = []\<rparr>
   in \<exists>v. validate_insight_output J WF_REVENUE_INSIGHT g [] = Inr v \<and> vi_confidence v = 55 / 100 \<and> vi_confidence v \<le> 6 / 10"
proof -
  define J where "J = \<lparr>jl_loads = (\<lambda>(s::pystr). Some (JObj [(asc ''confidence_hint'', JNum 2)])), jl_text = (\<lambda>(v::json). []),
    jl_number = (\<lambda>(s::pystr). None)\<rparr>"
  define g where "g = \<lparr>gc_semantics_version = [], gc_data_as_of = 0, gc_source_period = None, gc_degraded_mode = True,
    gc_rebuild_pending = 0, gc_rebuild_running = 0, gc_evidence = [], gc_total_revenue = Some 1,
    gc_anomaly_messages = [], gc_freshness_note = []\<rparr>"
  have "\<exists>v. validate_insight_output J WF_REVENUE_INSIGHT g [] = Inr v \<and> vi_confidence v = 55 / 100 \<and> vi_stale_data_warning v"
    by (simp add: validate_insight_output_def parse_output_def J_def g_def dict_get_def json_items_def json_float_def
      cap_def Let_def asc_def)
  then obtain v where v: "validate_insight_output J WF_REVENUE_INSIGHT g [] = Inr v" "vi_confidence v = 55 / 100" "vi_stale_data_warning v"
    by blast
  have "vi_confidence v \<le> 6 / 10" using confidence_bounded [OF v(1)] v(3) by blast
  with v(1,2) have "\<exists>v. validate_insight_output J WF_REVENUE_INSIGHT g [] = Inr v \<and> vi_confidence v = 55 / 100 \<and> vi_confidence v \<le> 6 / 10"
    by blast
  then show ?thesis unfolding Let_def by (fold J_def) (fold g_def)
qed

section \<open>Claims that are missed\<close>

definition sign_at_word :: "pystr \<Rightarrow> bool" where
  "sign_at_word s \<longleftrightarrow> (\<exists>u c v. s = u @ rouble_sign # c # v \<and> is_word_char c)"

definition currency_word :: "pystr \<Rightarrow> bool" where
  "currency_word s \<longleftrightarrow> (\<exists>u w v. s = u @ w @ v \<and> lower w \<in> {asc ''rub'', ru ''rub''} \<and> (v = [] \<or> \<not> is_word_char (hd v)))"

lemma currency_drop: "sign_at_word (drop n s) \<Longrightarrow> sign_at_word s" "currency_word (drop n s) \<Longrightarrow> currency_word s"
proof -
  assume "sign_at_word (drop n s)"
  then obtain u c v where "drop n s = u @ rouble_sign # c # v" "is_word_char c" by (auto simp: sign_at_word_def)
  then have "s = (take n s @ u) @ rouble_sign # c # v" by (metis append_assoc append_take_drop_id)
  with \<open>is_word_char c\<close> show "sign_at_word s" unfolding sign_at_word_def by blast
next
  assume "currency_word (drop n s)"
  then obtain u w v where "drop n s = u @ w @ v" and w: "lower w \<in> {asc ''rub'', ru ''rub''}" "v = [] \<or> \<not> is_word_char (hd v)"
    unfolding currency_word_def by blast
  then have "s = (take n s @ u) @ w @ v" by (metis append_assoc append_take_drop_id)
  with w show "currency_word s" unfolding currency_word_def by blast
qed

lemma word_follows:
  assumes "starts_with c (lower s)" and "c \<in> {asc ''rub'', ru ''rub''}" and "word_boundary (Some (last c)) (drop (length c) s)"
  shows "currency_word s"
proof -
  obtain t where "lower s = c @ t" using assms(1) by (auto simp: starts_with_iff)
  then have "take (length c) (lower s) = c" by simp
  then have w: "lower (take (length c) s) = c" by (simp add: lower_def take_map)
  have "is_word_char (last c)"
    using assms(2) by (auto simp: is_word_char_def asc_def ru_def ru_char_def ru_table_def upt_rec)
  then have "drop (length c) s = [] \<or> \<not> is_word_char (hd (drop (length c) s))"
    using assms(3) by (auto simp: word_boundary_def split: list.splits)
  moreover have "s = [] @ take (length c) s @ drop (length c) s" by simp
  ultimately show ?thesis using w assms(2) unfolding currency_word_def by blast
qed

lemma no_currency_end:
  assumes "\<not> currency_word s" and "\<not> sign_at_word s"
  shows "currency_end s = None"
proof -
  have A: "\<not> (starts_with [rouble_sign] (lower s) \<and> word_boundary (Some (last [rouble_sign])) (drop (length [rouble_sign]) s))"
  proof
    assume sw: "starts_with [rouble_sign] (lower s) \<and> word_boundary (Some (last [rouble_sign])) (drop (length [rouble_sign]) s)"
    then obtain c t where s: "s = c # t" "lower_char c = rouble_sign" by (cases s) (auto simp: lower_def)
    have "c = rouble_sign" using s(2) by (auto simp: lower_char_def rouble_sign_def split: if_splits)
    moreover obtain d v where "t = d # v" "is_word_char d"
      using sw s(1) by (cases t) (auto simp: word_boundary_def is_word_char_def is_digit_char_def rouble_sign_def)
    ultimately show False using assms(2) s(1) unfolding sign_at_word_def by (metis append_Nil)
  qed
  have B: "\<not> (starts_with c (lower s) \<and> word_boundary (Some (last c)) (drop (length c) s))"
    if "c \<in> {asc ''rub'', ru ''rub''}" for c
    using word_follows [OF _ that] assms(1) by blast
  have "\<not> (starts_with (asc ''rub'') (lower s) \<and> word_boundary (Some (last (asc ''rub''))) (drop (length (asc ''rub'')) s))"
    "\<not> (starts_with (ru ''rub'') (lower s) \<and> word_boundary (Some (last (ru ''rub''))) (drop (length (ru ''rub'')) s))"
    by (rule B, simp)+
  with A show ?thesis unfolding currency_end_def Let_def by (simp only: if_False)
qed

text \<open>
  An amount in roubles is no claim when its sign is followed by a space, a full stop or the end, nor when the word
  is written in full: a text without the bare short form and without a sign before a letter or digit has no claims at
  all, so nothing in it is unsupported.
\<close>

lemma rouble_claims_missed:
  assumes "\<not> currency_word s" and "\<not> sign_at_word s"
  shows "currency_claims prev s = []"
  using assms
proof (induction prev s rule: currency_claims.induct)
  case (1 prev)
  then show ?case by simp
next
  case (2 prev c cs)
  have none: "currency_end (drop n cs) = None" for n
    by (rule no_currency_end) (use 2(3,4) currency_drop [of "Suc n" "c # cs"] in auto)
  have "\<exists>n. dropWhile amount_char cs = drop n cs" by (metis dropWhile_eq_drop)
  then have "claim_here prev (c # cs) = None" using none by (auto simp: claim_here_def)
  moreover have "\<not> currency_word cs" "\<not> sign_at_word cs" using 2(3,4) currency_drop [of 1 "c # cs"] by auto
  ultimately show ?case using 2(1) by simp
qed

lemma currency_word_contains: "currency_word s \<Longrightarrow> contains (asc ''rub'') (lower s) \<or> contains (ru ''rub'') (lower s)"
proof -
  assume "currency_word s"
  then obtain u w v where s: "s = u @ w @ v" and w: "lower w = asc ''rub'' \<or> lower w = ru ''rub''"
    unfolding currency_word_def by blast
  have "contains (lower w) (lower s)" unfolding contains_iff s lower_append by blast
  with w show ?thesis by auto
qed

lemma sign_at_word_contains: "sign_at_word s \<Longrightarrow> \<exists>c. is_word_char c \<and> contains [rouble_sign, c] s"
  unfolding sign_at_word_def contains_iff by fastforce

lemma rouble_claims_missed_witness:
  "currency_claims None (asc ''Revenue 1500 '' @ [rouble_sign] @ asc ''.'') = []
   \<and> currency_claims None (asc ''1500 rub.'') = [asc ''1500 rub'']"
proof -
  define s where "s = asc ''Revenue 1500 '' @ [rouble_sign] @ asc ''.''"
  have "\<not> sign_at_word s"
    using sign_at_word_contains [of s]
    by (auto simp: s_def asc_def rouble_sign_def is_word_char_def is_digit_char_def)
  moreover have "\<not> currency_word s"
    using currency_word_contains [of s]
    by (auto simp: s_def asc_def rouble_sign_def lower_def lower_char_def ru_def ru_char_def ru_table_def upt_rec)
  ultimately have "currency_claims None s = []" by (rule rouble_claims_missed [rotated])
  moreover have "currency_claims None (asc ''1500 rub.'') = [asc ''1500 rub'']"
    by (simp add: asc_def claim_here_def currency_end_def word_boundary_def is_word_char_def is_digit_char_def
      amount_char_def is_space_def lower_def lower_char_def rouble_sign_def Let_def)
  ultimately show ?thesis by (simp add: s_def)
qed

section \<open>How a run ends\<close>

lemma obtain_answer_keeps:
  "obtain_answer st cfg env res model s = (r, s1) \<Longrightarrow> as_runs s1 = as_runs s \<and> as_insights s1 = as_insights s"
  by (auto simp: obtain_answer_def Let_def split: prod.splits sum.splits if_splits)

lemma append_turn_keeps [simp]:
  "as_runs (append_turn cfg now u sid role content rid s) = as_runs s"
  "as_insights (append_turn cfg now u sid role content rid s) = as_insights s"
  by (simp_all add: append_turn_def Let_def)

lemma persist_keeps:
  assumes "persist_advisory_insight env u agent report v s = (iid, s1)"
  shows "as_runs s1 = as_runs s" and "iid = (if ap_may_persist_insight (permissions_for agent) then Some (ee_insight_id env) else None)"
    and "as_insights s1 = as_insights s @ (if iid = None then [] else [\<lparr>ain_id = ee_insight_id env, ain_user_id = u,
      ain_run_id = ee_run_id env, ain_report_id = report, ain_insight = v\<rparr>])"
  using assms by (auto simp: persist_advisory_insight_def split: if_splits)

definition completes_run :: "ai_env \<Rightarrow> uuid option \<Rightarrow> int \<Rightarrow> (ai_run \<Rightarrow> ai_run) \<Rightarrow> bool" where
  "completes_run env iid n f \<longleftrightarrow> (\<forall>r. ar_id (f r) = ar_id r \<and> ar_user_id (f r) = ar_user_id r
     \<and> ar_degraded_mode (f r) = ar_degraded_mode r
     \<and> ar_status (f r) = (if ar_degraded_mode r then AI_DEGRADED else AI_SUCCEEDED)
     \<and> ar_output_insight_id (f r) = iid \<and> ar_completed_at (f r) = Some (ee_now env)
     \<and> (\<exists>p c. ar_prompt_tokens (f r) = Some p \<and> ar_completion_tokens (f r) = Some c \<and> ar_tokens_used (f r) = 2 * (n + p + c)))"

lemma complete_run_Inl: "complete_run cfg env rid n ro (tr, s) = (Inl e, tr1, s1) \<Longrightarrow> s1 = s"
  by (auto simp: complete_run_def Let_def split: sum.splits if_splits)

lemma complete_run_Inr:
  assumes "complete_run cfg env rid (tr_tokens_used tr) ro (tr, s) = (Inr x, tr1, s1)"
    and "tr_tokens_used tr = n + ro_prompt_tokens ro + ro_completion_tokens ro"
  shows "\<exists>f. completes_run env (ro_insight_id ro) n f \<and> s1 = update_run rid f s"
proof -
  obtain cost where s1: "s1 = update_run rid (\<lambda>r. r\<lparr>
               ar_status := (if ar_degraded_mode r then AI_DEGRADED else AI_SUCCEEDED), ar_tokens_used := 2 * tr_tokens_used tr,
               ar_provider_name := Some (ro_provider_name ro), ar_model_name := Some (ro_model_name ro),
               ar_prompt_tokens := Some (ro_prompt_tokens ro), ar_completion_tokens := Some (ro_completion_tokens ro),
               ar_estimated_cost := cost, ar_tool_call_count := int (length (tr_tool_calls tr)),
               ar_output_insight_id := ro_insight_id ro, ar_completed_at := Some (ee_now env)\<rparr>) s"
    (is "_ = update_run rid ?f s")
    using assms(1) by (auto simp: complete_run_def Let_def add_tokens_def split: sum.splits if_splits)
  have "completes_run env (ro_insight_id ro) n ?f" using assms(2) by (simp add: completes_run_def)
  with s1 show ?thesis by blast
qed

text \<open>The body of a run: a failure stores no outcome, a success completes the row of the run.\<close>

lemma run_body_Inl:
  assumes "run_body st cfg env u req g res model tr s = (Inl e, tr1, s1)"
  shows "as_runs s1 = as_runs s"
  using assms
  by (auto simp: run_body_def Let_def dest!: obtain_answer_keeps persist_keeps(1) complete_run_Inl
    split: prod.splits sum.splits if_splits)

lemma invoke_tool_tokens: "invoke_tool t tr = Inr tr1 \<Longrightarrow> tr_tokens_used tr1 = tr_tokens_used tr \<and> tr_agent tr1 = tr_agent tr"
  by (auto simp: invoke_tool_def sbind_Inr_iff)

lemma run_body_Inr:
  assumes "run_body st cfg env u req g res model tr s = (Inr (v, iid), tr1, s1)"
  shows "\<exists>f. completes_run env iid (tr_tokens_used tr) f
      \<and> as_runs s1 = map (\<lambda>r. if ar_id r = ee_run_id env then f r else r) (as_runs s)
      \<and> as_insights s1 = as_insights s @ (if iid = None then [] else [\<lparr>ain_id = ee_insight_id env, ain_user_id = u,
          ain_run_id = ee_run_id env, ain_report_id = aq_report_id req, ain_insight = v\<rparr>])"
proof -
  obtain a s2 where a: "obtain_answer st cfg env res model s = (Inr a, s2)"
    using assms by (auto simp: run_body_def split: prod.splits sum.splits)
  define t1 where "t1 = add_tokens (lr_prompt_tokens a + lr_completion_tokens a) tr"
  define cost where "cost = estimate_cost_usd (lr_model a) (lr_prompt_tokens a) (lr_completion_tokens a)"
  obtain w where w: "sbind (assert_run_cost_allowed cfg cost) (\<lambda>_.
      validate_insight_output (ee_json env) (aq_workflow req) g (lr_content a)) = Inr w"
    using assms a by (auto simp: run_body_def Let_def simp flip: cost_def split: prod.splits sum.splits)
  obtain i s3 where p: "persist_advisory_insight env u (tr_agent t1) (aq_report_id req) w s2 = (i, s3)" by fastforce
  define s4 where "s4 = append_turn cfg (ee_now env) u (case aq_session_id req of None \<Rightarrow> ee_session_id env | Some j \<Rightarrow> j)
    (asc ''assistant'') (vi_summary w) (Some (ee_run_id env)) s3"
  define ro where "ro = \<lparr>ro_insight_id = i, ro_provider_name = lr_provider a, ro_model_name = lr_model a,
    ro_prompt_tokens = lr_prompt_tokens a, ro_completion_tokens = lr_completion_tokens a, ro_estimated_cost = cost\<rparr>"
  obtain t2 where t2: "(if i \<noteq> None then invoke_tool WRITE_AI_INSIGHT_DRAFT t1 else Inr t1) = Inr t2"
    using assms a w p by (auto simp: run_body_def Let_def simp flip: t1_def cost_def split: prod.splits sum.splits)
  obtain t3 s5 x where c: "complete_run cfg env (ee_run_id env) (tr_tokens_used t2) ro (t2, s4) = (Inr x, t3, s5)" "v = w" "iid = i" "s1 = s5"
    using assms a w p t2
    by (auto simp: run_body_def Let_def simp flip: t1_def cost_def s4_def ro_def split: prod.splits sum.splits)
  have "tr_tokens_used t2 = tr_tokens_used tr + ro_prompt_tokens ro + ro_completion_tokens ro"
    using t2 by (auto simp: t1_def add_tokens_def ro_def dest!: invoke_tool_tokens split: if_splits)
  from complete_run_Inr [OF c(1) this] obtain f where f: "completes_run env i (tr_tokens_used tr) f" "s5 = update_run (ee_run_id env) f s4"
    by (auto simp: ro_def)
  have "as_runs s4 = as_runs s" "as_insights s4 = as_insights s3"
    using persist_keeps(1) [OF p] obtain_answer_keeps [OF a] by (simp_all add: s4_def)
  moreover have "as_insights s3 = as_insights s @ (if i = None then [] else [\<lparr>ain_id = ee_insight_id env, ain_user_id = u,
          ain_run_id = ee_run_id env, ain_report_id = aq_report_id req, ain_insight = w\<rparr>])"
    using persist_keeps(3) [OF p] obtain_answer_keeps [OF a] by simp
  ultimately show ?thesis using f c by (auto simp: update_run_def)
qed


text \<open>The row that \<open>begin_run\<close> stores is still without an outcome.\<close>

definition open_run :: "ai_env \<Rightarrow> uuid \<Rightarrow> ai_run \<Rightarrow> bool" where
  "open_run env u r \<longleftrightarrow> ar_id r = ee_run_id env \<and> ar_user_id r = u
     \<and> ar_status r = (if ar_degraded_mode r then AI_DEGRADED else AI_RUNNING)
     \<and> ar_completed_at r = None \<and> ar_last_error r = None \<and> ar_output_insight_id r = None \<and> ar_estimated_cost r = None"

lemma open_new_run: "open_run env u (new_run env u agent pid degraded)"
  by (simp add: open_run_def new_run_def)

lemma begin_run_Inr:
  assumes "begin_run st cfg env u agent prompt insight version s = Inr ((cx, tr), s1)"
  shows "\<exists>r. open_run env u r \<and> s1 = s\<lparr>as_runs := as_runs s @ [r]\<rparr>" and "tr_agent tr = agent" "tr_tokens_used tr = 0"
proof -
  obtain pid v where "s1 = s\<lparr>as_runs := as_runs s @ [new_run env u agent pid (cx_degraded_mode cx)]\<rparr>"
      and tr: "tr = \<lparr>tr_agent = agent, tr_prompt_version = v, tr_tool_calls = [], tr_runtime_events = [], tr_tokens_used = 0\<rparr>"
    using assms by (auto simp: begin_run_def Let_def sbind_Inr_iff split: if_splits)
  then show "\<exists>r. open_run env u r \<and> s1 = s\<lparr>as_runs := as_runs s @ [r]\<rparr>" using open_new_run by blast
  show "tr_agent tr = agent" "tr_tokens_used tr = 0" using tr by simp_all
qed

lemma spent_today_open: "open_run env u r \<Longrightarrow> spent_today now v (s\<lparr>as_runs := as_runs s @ [r]\<rparr>) = spent_today now v s"
  by (simp add: spent_today_def open_run_def)

lemma daily_cost_open:
  "open_run env u r \<Longrightarrow> assert_daily_cost_allowed cfg now v (s\<lparr>as_runs := as_runs s @ [r]\<rparr>) = assert_daily_cost_allowed cfg now v s"
  by (simp add: assert_daily_cost_allowed_def spent_today_open)

lemma workflow_prompt_resolves [simp]: "\<exists>c. resolve_for_workflow w = Inr c"
  by (cases w) (simp_all add: resolve_for_workflow_def workflow_prompt_v3_def prompt_registry_v3_def contract_v3_def asc_def)

text \<open>Before the body only the cap of the day can stop a run that has its row.\<close>

lemma prepare_run_cases:
  assumes "prepare_run st cfg env u req tr s = (p, s1)" and "tr_agent tr = fst (spec_for (aq_workflow req))"
  shows "as_runs s1 = as_runs s \<and> as_insights s1 = as_insights s
    \<and> (case p of Inl e \<Rightarrow> assert_daily_cost_allowed cfg (ee_now env) u s = Inl e
        | Inr (res, model, tr1) \<Rightarrow> assert_daily_cost_allowed cfg (ee_now env) u s = Inr () \<and> tr_tokens_used tr1 = tr_tokens_used tr)"
proof -
  have tool: "invoke_tool READ_ANALYTICS_DTO tr = Inr (tr\<lparr>tr_tool_calls := tr_tool_calls tr @ [READ_ANALYTICS_DTO]\<rparr>)"
    by (simp add: invoke_tool_def assert_ai_action_allowed_def forbidden_ai_actions_def assms(2))
  obtain c where c: "resolve_for_workflow (aq_workflow req) = Inr c" using workflow_prompt_resolves by blast
  show ?thesis
    using assms(1)
    by (cases "assert_daily_cost_allowed cfg (ee_now env) u s")
      (auto simp: prepare_run_def tool c Let_def record_runtime_event_def split: sum.splits prod.splits if_splits)
qed

lemma execute_run_cases:
  assumes "execute_run st cfg env u req insight s = (r, s1)"
  obtains (refused) e where "r = Inl e" "as_runs s1 = as_runs s" "as_insights s1 = as_insights s"
    | (begun) rl cx tr s2 where "begin_run st cfg env u (fst (spec_for (aq_workflow req))) (snd (spec_for (aq_workflow req)))
        insight (aq_semantics_version req) (s\<lparr>as_limiter := rl\<rparr>) = Inr ((cx, tr), s2)"
      "run_begun st cfg env u req cx tr s2 = (r, s1)"
  using assms
  by (auto simp: execute_run_def Let_def sbind_Inr_iff case_prod_unfold split: sum.split_asm prod.split_asm if_split_asm)

text \<open>A run whose row is stored, last in the table and alone with its identifier.\<close>

lemma run_begun_Inr:
  assumes "run_begun st cfg env u req cx tr s = (Inr (rid, v, iid), s1)" and "tr_agent tr = fst (spec_for (aq_workflow req))"
    and "as_runs s = rs @ [x]" and "\<forall>y\<in>set rs. ar_id y \<noteq> ee_run_id env" and "ar_id x = ee_run_id env"
  shows "rid = ee_run_id env \<and> (\<exists>f. completes_run env iid (tr_tokens_used tr) f \<and> as_runs s1 = rs @ [f x])
      \<and> as_insights s1 = as_insights s @ (if iid = None then [] else [\<lparr>ain_id = ee_insight_id env, ain_user_id = u,
          ain_run_id = ee_run_id env, ain_report_id = aq_report_id req, ain_insight = v\<rparr>])"
proof -
  obtain res model tr1 s2 where p: "prepare_run st cfg env u req tr s = (Inr (res, model, tr1), s2)"
    using assms(1) by (auto simp: run_begun_def split: prod.splits sum.splits)
  note prep = prepare_run_cases [OF p assms(2)]
  obtain tr2 where b: "run_body st cfg env u req (build_grounded_context cx) res model tr1 s2 = (Inr (v, iid), tr2, s1)" "rid = ee_run_id env"
    using assms(1) p by (auto simp: run_begun_def split: prod.splits sum.splits)
  have "map (\<lambda>y. if ar_id y = ee_run_id env then f y else y) rs = rs" for f
    using assms(4) by (auto intro: map_idI)
  with run_body_Inr [OF b(1)] prep b(2) assms(3,5) show ?thesis by auto
qed

lemma run_begun_Inl:
  assumes "run_begun st cfg env u req cx tr s = (Inl e, s1)" and "tr_agent tr = fst (spec_for (aq_workflow req))"
    and "as_runs s = rs @ [x]" and "\<forall>y\<in>set rs. ar_id y \<noteq> ee_run_id env" and "ar_id x = ee_run_id env"
  shows "if assert_daily_cost_allowed cfg (ee_now env) u s = Inr ()
    then \<exists>y. as_runs s1 = rs @ [y] \<and> ar_id y = ar_id x \<and> ar_user_id y = ar_user_id x \<and> ar_status y = AI_FAILED
      \<and> ar_last_error y = Some (take 4000 (error_text e)) \<and> ar_completed_at y = Some (ee_now env)
    else as_runs s1 = rs @ [x]"
proof -
  obtain p s2 where p: "prepare_run st cfg env u req tr s = (p, s2)" by fastforce
  note prep = prepare_run_cases [OF p assms(2)]
  have old: "map (\<lambda>y. if ar_id y = ee_run_id env then f y else y) rs = rs" for f
    using assms(4) by (auto intro: map_idI)
  show ?thesis
  proof (cases p)
    case (Inl d)
    then show ?thesis using prep assms(1,3) p by (auto simp: run_begun_def)
  next
    case (Inr q)
    obtain res model tr1 where q: "q = (res, model, tr1)" by (cases q)
    obtain tr2 s3 where b: "run_body st cfg env u req (build_grounded_context cx) res model tr1 s2 = (Inl e, tr2, s3)"
        "as_runs s1 = as_runs (fail_run env (ee_run_id env) tr2 (error_text e) s3)"
      using assms(1) p Inr q by (auto simp: run_begun_def fail_run_def update_run_def split: prod.splits sum.splits)
    have "as_runs s3 = rs @ [x]" using run_body_Inl [OF b(1)] prep assms(3) by simp
    then show ?thesis using prep Inr q b(2) old assms(5) by (auto simp: fail_run_def update_run_def)
  qed
qed

text \<open>
  C17. A run is refused before its row is stored and leaves runs and insights as they were; or it stores exactly one row.
  A run that returns completed that row, with the status its context gave it, with its insight, and with twice the tokens
  it used. A run that fails is stored as failed with the error it raised, except for the daily cap: that is checked after
  the row is stored and outside the handler, and leaves the row open for ever.
\<close>

theorem ai_run_outcome:
  assumes "execute_run st cfg env u req insight s = (r, s1)"
    and "\<forall>x\<in>set (as_runs s). ar_id x \<noteq> ee_run_id env"
  shows "case r of
      Inr (rid, v, iid) \<Rightarrow> rid = ee_run_id env
        \<and> (\<exists>x p c. as_runs s1 = as_runs s @ [x] \<and> ar_id x = rid \<and> ar_user_id x = u
            \<and> ar_status x = (if ar_degraded_mode x then AI_DEGRADED else AI_SUCCEEDED)
            \<and> ar_output_insight_id x = iid \<and> ar_completed_at x = Some (ee_now env)
            \<and> ar_prompt_tokens x = Some p \<and> ar_completion_tokens x = Some c \<and> ar_tokens_used x = 2 * (p + c))
        \<and> as_insights s1 = as_insights s @ (if iid = None then [] else [\<lparr>ain_id = ee_insight_id env, ain_user_id = u,
            ain_run_id = rid, ain_report_id = aq_report_id req, ain_insight = v\<rparr>])
    | Inl e \<Rightarrow> (as_runs s1 = as_runs s \<and> as_insights s1 = as_insights s)
        \<or> (\<exists>x. as_runs s1 = as_runs s @ [x] \<and> ar_id x = ee_run_id env \<and> ar_user_id x = u
            \<and> (if assert_daily_cost_allowed cfg (ee_now env) u s = Inr ()
               then ar_status x = AI_FAILED \<and> ar_last_error x = Some (take 4000 (error_text e))
                 \<and> ar_completed_at x = Some (ee_now env)
               else ar_status x \<in> {AI_RUNNING, AI_DEGRADED} \<and> ar_completed_at x = None))"
  using assms(1)
proof (cases rule: execute_run_cases)
  case refused then show ?thesis by simp
next
  case (begun rl cx tr s2)
  obtain x where x: "open_run env u x" "s2 = s\<lparr>as_limiter := rl, as_runs := as_runs s @ [x]\<rparr>"
    using begin_run_Inr(1) [OF begun(1)] by auto
  have cap: "assert_daily_cost_allowed cfg (ee_now env) u s2 = assert_daily_cost_allowed cfg (ee_now env) u s"
    using daily_cost_open [OF x(1), of cfg "ee_now env" u "s\<lparr>as_limiter := rl\<rparr>"] x(2)
    by (simp add: assert_daily_cost_allowed_def spent_today_def)
  have start: "tr_agent tr = fst (spec_for (aq_workflow req))" "as_runs s2 = as_runs s @ [x]" "ar_id x = ee_run_id env"
    using begin_run_Inr(2) [OF begun(1)] x by (simp_all add: open_run_def)
  show ?thesis
  proof (cases r)
    case (Inl e)
    then show ?thesis
      using run_begun_Inl [OF begun(2) [unfolded Inl] start(1,2) assms(2) start(3)] x(1) cap
      by (auto simp: open_run_def split: if_splits)
  next
    case (Inr y)
    obtain rid v iid where y: "y = (rid, v, iid)" by (cases y)
    obtain f where f: "rid = ee_run_id env" "completes_run env iid 0 f" "as_runs s1 = as_runs s @ [f x]"
        "as_insights s1 = as_insights s @ (if iid = None then [] else [\<lparr>ain_id = ee_insight_id env, ain_user_id = u,
          ain_run_id = ee_run_id env, ain_report_id = aq_report_id req, ain_insight = v\<rparr>])"
      using run_begun_Inr [OF begun(2) [unfolded Inr y] start(1,2) assms(2) start(3)] begin_run_Inr(3) [OF begun(1)] x(2) by auto
    obtain p c where "ar_prompt_tokens (f x) = Some p" "ar_completion_tokens (f x) = Some c" "ar_tokens_used (f x) = 2 * (p + c)"
      using f(2) by (auto simp: completes_run_def dest!: spec [of _ x])
    moreover have "ar_id (f x) = ar_id x" "ar_user_id (f x) = ar_user_id x" "ar_output_insight_id (f x) = iid"
        "ar_completed_at (f x) = Some (ee_now env)" "ar_status (f x) = (if ar_degraded_mode (f x) then AI_DEGRADED else AI_SUCCEEDED)"
      using f(2) by (simp_all add: completes_run_def)
    ultimately show ?thesis using f Inr y x(1) start(3) by (simp add: open_run_def)
  qed
qed

text \<open>A run whose provider fails, and a run of a tenant that has spent its day's money.\<close>

definition sample_env :: ai_env where
  "sample_env = \<lparr>ee_now = 0, ee_monotonic = 0, ee_elapsed_ms = 10, ee_run_id = 5, ee_insight_id = 6, ee_session_id = 7,
     ee_cache_key = [], ee_outcomes = [], ee_stream = ([], None), ee_queue_pending = 0, ee_containment = [],
     ee_lifecycle = builtin_lifecycle, ee_requirements = [],
     ee_json = \<lparr>jl_loads = (\<lambda>s. None), jl_text = (\<lambda>v. []), jl_number = (\<lambda>s. None)\<rparr>\<rparr>"

definition sample_request :: ai_request where
  "sample_request = \<lparr>aq_workflow = WF_TREND_EXPLANATION, aq_prompt_id = asc ''analytics.summary.v1'',
     aq_semantics_version = version_1, aq_session_id = None, aq_report_id = None\<rparr>"

definition sample_state :: "ai_run list \<Rightarrow> ai_state" where
  "sample_state rs = \<lparr>as_runs = rs, as_insights = [], as_turns = [], as_providers = ([], []), as_limiter = new_limiter, as_cache = []\<rparr>"

definition sample_run :: "ai_run list \<Rightarrow> (py_error + uuid \<times> validated_insight \<times> uuid option) \<times> ai_state" where
  "sample_run rs = execute_run (default_settings\<lparr>ai_enabled := True\<rparr>) default_ai_settings sample_env 3 sample_request None (sample_state rs)"

definition spent_run :: ai_run where
  "spent_run = (new_run sample_env 3 ANALYTICS [] False)\<lparr>ar_id := 1, ar_estimated_cost := Some 30\<rparr>"

lemma ai_run_outcome_witness:
  "(\<exists>x. as_runs (snd (sample_run [])) = [x] \<and> ar_status x = AI_FAILED \<and> ar_completed_at x = Some 0)
   \<and> (\<exists>x. as_runs (snd (sample_run [spent_run])) = [spent_run, x] \<and> ar_status x \<in> {AI_RUNNING, AI_DEGRADED} \<and> ar_completed_at x = None)"
proof -
  have len: "length (as_runs (snd (sample_run []))) = 1" "length (as_runs (snd (sample_run [spent_run]))) = 2" by code_simp+
  have "case fst (sample_run []) of Inr x \<Rightarrow> False | Inl e \<Rightarrow> True" by code_simp
  then obtain d where bad: "sample_run [] = (Inl d, snd (sample_run []))"
    by (cases "sample_run []") (auto split: sum.splits)
  have "case fst (sample_run [spent_run]) of Inr x \<Rightarrow> False | Inl e \<Rightarrow> True" by code_simp
  then obtain e where fail: "sample_run [spent_run] = (Inl e, snd (sample_run [spent_run]))"
    by (cases "sample_run [spent_run]") (auto split: sum.splits)
  have cap: "assert_daily_cost_allowed default_ai_settings (ee_now sample_env) 3 (sample_state []) = Inr ()"
    "assert_daily_cost_allowed default_ai_settings (ee_now sample_env) 3 (sample_state [spent_run]) \<noteq> Inr ()" by code_simp+
  have fresh: "\<forall>x\<in>set (as_runs (sample_state [])). ar_id x \<noteq> ee_run_id sample_env"
    "\<forall>x\<in>set (as_runs (sample_state [spent_run])). ar_id x \<noteq> ee_run_id sample_env" by code_simp+
  have runs: "as_runs (sample_state rs) = rs" for rs by (simp add: sample_state_def)
  have now: "ee_now sample_env = 0" by (simp add: sample_env_def)
  note first = ai_run_outcome [OF bad [unfolded sample_run_def] fresh(1), folded sample_run_def]
  note second = ai_run_outcome [OF fail [unfolded sample_run_def] fresh(2), folded sample_run_def]
  have "\<exists>x. as_runs (snd (sample_run [])) = [x] \<and> ar_status x = AI_FAILED \<and> ar_completed_at x = Some 0"
    using first cap(1) len(1) by (auto simp: runs now)
  moreover have "\<exists>x. as_runs (snd (sample_run [spent_run])) = [spent_run, x] \<and> ar_status x \<in> {AI_RUNNING, AI_DEGRADED} \<and> ar_completed_at x = None"
    using second cap(2) len(2) by (auto simp: runs)
  ultimately show ?thesis ..
qed

end
