(* ===== verification/Spec2Isabelle.thy ===== *)
theory Spec2Isabelle
  imports Queue_Properties Inventory_Properties Finance_Properties Import_Properties Runtime_Properties
    Integrity_Properties Ops_Service Account_Properties Tenant_Session Ai_Properties
begin

text \<open>
  A verification of the core of the marketplace analytics platform: the import of Wildberries
  finance reports, the financial and inventory ledgers made from them, the projections and snapshots
  computed from the ledgers, and the queue and worker that run the imports. Paths are below
  \<open>src/\<close>.

  \<^bold>\<open>The program.\<close> An upload makes a report and a job of the queue (\<open>app/core/queue\<close>). A worker
  (\<open>app/etl/worker.py\<close>) claims the job, streams the file in chunks (\<open>app/parsers/wb\<close>), makes from
  every chunk normalized rows, entries of the financial ledger (\<open>app/domain/finance\<close>) and inventory movements
  (\<open>app/domain/inventory\<close>), and inserts them so that a repetition changes nothing (\<open>app/etl/wb\<close>). Then it
  rebuilds the inventory snapshots and the daily aggregates that the ledgers determine. Supervisors return
  the jobs of lost workers to the queue; an orchestrator (\<open>app/runtime\<close>) dispatches the rebuilds that were requested. The
  seller enters costs (\<open>app/services/cost_service.py\<close>) and reads figures (\<open>app/services/analytics_service.py\<close>) whose
  profits are shown as far as the costs support them.

  \<^bold>\<open>Foundations.\<close>
  \<^item> \<open>Prelude\<close>: text (lists of code points), dates and instants (integers), exceptions as values of a sum
    (\<open>py_error + 'a\<close> with \<open>sbind\<close>), dictionaries that keep insertion order, stable sorts.
  \<^item> \<open>Py_Text\<close>: the string methods, on ASCII and Cyrillic. \<open>Py_Decimal\<close>: \<open>decimal.Decimal\<close> by value, a rational that
    every operation rounds to 28 digits (\<open>dctx\<close>); the locale \<open>rounding\<close> derives that sums of values with four places below
    \<open>10 ^ 24\<close> are exact, and is interpreted on \<open>dctx\<close>.
  \<^item> \<open>Table_Ops\<close>: tables as lists, upserts, inserts that skip conflicts, batches; the locale \<open>replay_store\<close> is the
    contract of writes that may be repeated after an interruption.
  \<^item> \<open>Runtime_Settings\<close>: the settings that are read, an explicit argument.

  \<^bold>\<open>Queue and worker.\<close>
  \<^item> \<open>Etl_Queue\<close> (\<open>core/queue/postgres_backend.py\<close>, \<open>etl_retry_policy.py\<close>): the table \<open>etl_jobs\<close> and every operation of the
    backend. Rows that another session has locked are a predicate, which is what \<open>SKIP LOCKED\<close> sees.
  \<^item> \<open>Containment\<close> (\<open>runtime/reliability/kill_switches.py\<close>, \<open>runtime/containment\<close>), \<open>Job_Service\<close> (\<open>services/report_service.py\<close> and
    \<open>operations/recovery.py\<close>), \<open>Etl_Worker\<close> (\<open>etl/worker.py\<close>, one turn; locale \<open>queue_backend\<close>, interpreted on the Postgres backend).
  \<^item> \<open>Queue_System\<close>: uploads, workers, recovery and operators as an inductive step relation, with the invariants of
    the reachable states. \<open>Queue_Properties\<close> states what follows: the table invariant, the numbering of the claims, the
    outcome of a turn, liveness of pending jobs, and two error scenarios.

  \<^bold>\<open>Inventory.\<close>
  \<^item> \<open>Semantics_Governance\<close> (\<open>domain/semantics\<close>), \<open>Inventory_Ledger\<close> (\<open>ledger_row.py\<close>, the strategies of \<open>semantics_registry.py\<close>; locale
    \<open>movement_semantics\<close>), \<open>Operation_Labels\<close> (\<open>operation_semantics.py\<close>, \<open>wb_row_semantics.py\<close>), \<open>Inventory_Movements\<close>
    (\<open>movements.py\<close>, \<open>opening_balance.py\<close>), \<open>Cost_History\<close> (\<open>cost_lookup.py\<close>).
  \<^item> \<open>Inventory_Reconstruction\<close> (\<open>reconstruction.py\<close>) with its specification, the net effect of the ledger up to a day;
    \<open>Inventory_Reconciliation\<close> (\<open>reconciliation.py\<close>, \<open>pipeline.py\<close>, \<open>rebuild_window.py\<close>).
  \<^item> \<open>Snapshot_Rebuild\<close> (\<open>etl/wb/inventory_*.py\<close>, \<open>full_inventory_rebuild.py\<close>): streaming by key, the snapshot store, the incremental
    and the full rebuild. \<open>Snapshot_Correctness\<close> proves that both refine the specification;
    \<open>Inventory_Properties\<close> states the results.

  \<^bold>\<open>Finance.\<close>
  \<^item> \<open>Finance_Ledger\<close> (\<open>domain/finance/ledger.py\<close>): the entries of a row. \<open>Profit_Analytics\<close> (\<open>aggregation.py\<close>,
    \<open>sku_unit_economics_builder.py\<close>, \<open>reconciliation/calculator.py\<close>) and \<open>Profit_Laws\<close>, their exact values for amounts with four
    places (the column \<open>Numeric(18, 4)\<close>) whose sums stay below \<open>10 ^ 24\<close>.
  \<^item> \<open>Seller_Kpis\<close> (the small calculators), \<open>Report_Selection\<close> (\<open>canonical_reports.py\<close>, \<open>domain/reports\<close>), \<open>Aggregate_Projections\<close>
    (\<open>etl/wb/persist_aggregates.py\<close>). \<open>Finance_Properties\<close> states signs and identity of entries, the agreement of the profit
    views and of the reconciliation, the refinement of the ledger by the projections, and the selection of reports.

  \<^bold>\<open>Import.\<close>
  \<^item> \<open>Wb_Row\<close>, \<open>Column_Mapping\<close>, \<open>Wb_Table\<close>, \<open>Wb_Streaming\<close> (\<open>parsers/wb\<close>): rows, columns, header detection, the stream of
    chunks and the reading of stored payloads. What \<open>openpyxl\<close>, \<open>csv\<close> and pandas read is an argument
    (\<open>report_file\<close>, \<open>cell_reader\<close>).
  \<^item> \<open>Data_Quality\<close> (\<open>domain/data_quality/validator.py\<close>), \<open>Wb_Process\<close> (\<open>etl/wb/processor.py\<close>, \<open>stream_process.py\<close>) with \<open>Process_Laws\<close>,
    \<open>Wb_Persist\<close> (\<open>persist.py\<close>, \<open>persist_layers.py\<close>, \<open>stream_pipeline.py\<close>) with \<open>Persist_Laws\<close>, which interprets \<open>replay_store\<close> on the
    writes of an import. \<open>Import_Properties\<close> states that interrupted imports can be replayed, that a complete one
    stores every row once, that streamed and in-memory imports agree, and round trips.

  \<^bold>\<open>Runtime.\<close>
  \<^item> \<open>Rebuild_Orchestration\<close> (\<open>app/operations\<close>): the requirements of rebuilds, their order and recovery; \<open>Rebuild_System\<close>: requests,
    dispatchers and recovery as an inductive step relation; \<open>Rebuild_Dispatch\<close> (\<open>runtime/rebuild_dispatcher.py\<close>).
  \<^item> \<open>Runtime_Guards\<close> (circuit breakers, runaway guards, lease), \<open>Platform_Health\<close> (metrics, health, forecast), \<open>Control_Plane\<close>
    and \<open>Orchestrator\<close> (schedules, healer, enterprise cycle, one turn). \<open>Runtime_Properties\<close> states the bound of the
    attempts, the choice of the dispatcher, the refinement of the ledger by a dispatch, and two error scenarios.

  \<^bold>\<open>Costs and analytics.\<close>
  \<^item> \<open>Sql_Queries\<close>: columns, aggregates and orders of the database; what its documentation leaves to the engine is the record
    \<open>db_engine\<close>, an argument. \<open>Cost_Service\<close> (\<open>services/cost_service.py\<close>): records, lists, preview and imports of costs;
    \<open>Cost_Properties\<close>: repeated imports and the day from which a cost counts.
  \<^item> \<open>Financial_Integrity\<close> (\<open>financial_integrity_service.py\<close>, \<open>cost_coverage_service.py\<close>), \<open>Seller_Analytics\<close>
    (\<open>analytics_service.py\<close>), \<open>Inventory_Analytics\<close> (its stock tables and \<open>domain/inventory/intelligence.py\<close>). \<open>Analytics_Properties\<close>
    and \<open>Integrity_Properties\<close> state that the days add up to the period, how the ABC classes and the gaps are cut, when
    profits are trusted and what is hidden otherwise, and that the views which compute the same figure twice agree.
  \<^item> \<open>Ops_Service\<close> (\<open>services/ops_service.py\<close>): the operational reads, with their laws.

  \<^bold>\<open>Accounts and tenants.\<close>
  \<^item> \<open>Sha256\<close>: UTF-8 and SHA-256, which make of a secret token the text its table stores. \<open>Accounts\<close> (\<open>auth_service.py\<close>,
    \<open>invite_service.py\<close>, \<open>core/deps.py\<close>, the routes of \<open>api/auth.py\<close> and \<open>api/admin.py\<close>): users, invitations, reset links and their audit,
    one transaction per request. \<open>Account_Properties\<close>: accounts come from invitations, passwords change with the old one
    or an unused link, and what forgot-password tells.
  \<^item> \<open>Tenant_Session\<close> (\<open>core/security_context.py\<close>, \<open>core/tenant_context.py\<close>, \<open>services/base.py\<close>): the settings that the row-level
    policies read, transactions, savepoints and the marker of a session; code is the tree of the scopes it enters. Units of
    work are isolated; three scenarios outside of them lose or change the tenant.

  \<^bold>\<open>AI runs.\<close>
  \<^item> \<open>Ai_Governance\<close> (\<open>app/ai/agents.py\<close>, \<open>policy.py\<close>, \<open>safety.py\<close>, \<open>rate_limit.py\<close>, prices and caps), \<open>Ai_Providers\<close> (\<open>app/ai/providers\<close>),
    \<open>Ai_Validation\<close> (context, grounding, the validation of an answer), \<open>Ai_Runs\<close> (\<open>orchestration.py\<close>, \<open>analytics/engine.py\<close>, the memory of a
    session). What the provider answers is an argument. \<open>Ai_Properties\<close>: the bounds on granted runs, the ways a run ends and
    what each leaves, the confidence of an answer.

  \<^bold>\<open>Bounds.\<close> No definition uses fuel: loops are recursions over lists or digits. The exactness of
  sums needs amounts with four places and absolute sums below \<open>10 ^ 24\<close>, a statement's hypothesis where it is used. Chunks have
  1000 rows, insert batches 5000, samples 5000, as in the source.

  \<^bold>\<open>Not modelled.\<close> The HTTP layer beyond the routes of accounts, the user interface, the texts of prompts and
  narratives, the calls to providers, database migrations, logging and metrics. Outside \<open>Tenant_Session\<close>, sessions, savepoints and
  row-level security are reduced to the tables of one tenant and phases that are atomic. NaN and infinite amounts, alphabets other than ASCII and Cyrillic, and the
  collation of the database are outside the model.
\<close>

end
